(* ===== verification/Prelude.thy ===== *)
theory Prelude
  imports Main "HOL-Library.AList" "HOL-Library.Char_ord" "HOL-Library.List_Lexorder"
begin

text \<open>
  Shared automation of the development: the named collections, facts about lists and
  association lists that several components use, and two generic interfaces. A
  \<^emph>\<open>reducer\<close> is a step function with an invariant that every step keeps: the loops of
  the program that fold a list of events, calls or operations into a state are reducers.
  A \<^emph>\<open>normalizer\<close> is a partial function whose results are its fixed points: the
  canonicalisation routines of the program are normalizers.
\<close>

named_theorems py_eval "equations that evaluate the modelled Python primitives on concrete data"
named_theorems wf_intros "introduction rules for the well-formedness invariants"

subsection \<open>Lists\<close>

lemma dropWhile_none: "(\<And>c. c \<in> set cs \<Longrightarrow> \<not> p c) \<Longrightarrow> dropWhile p cs = cs"
  by (cases cs) auto

lemma list_all_dropWhile: "list_all q cs \<Longrightarrow> list_all q (dropWhile p cs)"
  by (auto simp: list_all_iff dest: set_dropWhileD)

lemma those_Some_iff: "those xs = Some ys \<longleftrightarrow> xs = map Some ys"
  by (induction xs arbitrary: ys) (force simp: Cons_eq_map_conv split: option.splits)+

lemma map_of_filter_key:
  "map_of (filter (\<lambda>(k, v). P k) kvs) k = (if P k then map_of kvs k else None)"
  by (induction kvs) auto

subsection \<open>Python dictionaries as association lists\<close>

text \<open>
  A Python dictionary keeps the order in which its keys were first inserted, and an
  assignment to a present key keeps its place. \<open>AList.update\<close> has exactly this behaviour;
  \<open>AList.delete\<close> is \<open>dict.pop(key, None)\<close>.
\<close>

lemma update_distinct_keys [simp, wf_intros]:
  "distinct (map fst d) \<Longrightarrow> distinct (map fst (AList.update k v d))"
  by (rule distinct_update)

lemma delete_distinct_keys [simp, wf_intros]:
  "distinct (map fst d) \<Longrightarrow> distinct (map fst (AList.delete k d))"
  by (rule distinct_delete)

lemma length_update:
  "length (AList.update k v d) = (if k \<in> fst ` set d then length d else Suc (length d))"
  by (induction d) auto

lemma set_update_subset: "set (AList.update k v d) \<subseteq> insert (k, v) (set d)"
  by (induction d) auto

lemma set_delete_subset: "set (AList.delete k d) \<subseteq> set d"
  by (auto simp: AList.delete_eq)

lemma keys_update [simp]: "fst ` set (AList.update k v d) = insert k (fst ` set d)"
  by (induction d) auto

lemma keys_delete [simp]: "fst ` set (AList.delete k d) = fst ` set d - {k}"
  by (auto simp: AList.delete_eq)

lemma length_delete_le: "length (AList.delete k d) \<le> length d"
  by (simp add: AList.delete_eq)

lemma length_delete_present:
  "distinct (map fst d) \<Longrightarrow> k \<in> fst ` set d \<Longrightarrow> Suc (length (AList.delete k d)) = length d"
proof (induction d)
  case (Cons e d)
  show ?case
  proof (cases "k = fst e")
    case True
    with Cons.prems have "k \<notin> fst ` set d" by auto
    then have "AList.delete k d = d" by (simp add: delete_idem)
    with True show ?thesis by (cases e) simp
  next
    case False
    with Cons show ?thesis by (cases e) auto
  qed
qed simp

lemma update_Ball:
  "Ball (set d) P \<Longrightarrow> P (k, v) \<Longrightarrow> Ball (set (AList.update k v d)) P"
  using set_update_subset by fastforce

lemma delete_Ball: "Ball (set d) P \<Longrightarrow> Ball (set (AList.delete k d)) P"
  using set_delete_subset by fastforce

text \<open>Sums over the values of a dictionary.\<close>

lemma sum_update:
  fixes w :: "'v \<Rightarrow> nat"
  shows "sum_list (map (w \<circ> snd) (AList.update k v d)) + (case map_of d k of Some u \<Rightarrow> w u | None \<Rightarrow> 0)
    = sum_list (map (w \<circ> snd) d) + w v"
  by (induction d) auto

lemma sum_list_insort_key:
  fixes w :: "'x \<Rightarrow> nat"
  shows "sum_list (map w (insort_key f x xs)) = w x + sum_list (map w xs)"
  by (induction xs) auto

lemma sum_list_sort_key [simp]:
  fixes w :: "'x \<Rightarrow> nat"
  shows "sum_list (map w (sort_key f xs)) = sum_list (map w xs)"
  by (induction xs) (simp_all add: sum_list_insort_key)

lemma sum_by_class:
  fixes w :: "'x \<Rightarrow> nat"
  assumes "finite S" "f ` set xs \<subseteq> S"
  shows "(\<Sum>t\<in>S. sum_list (map w (filter (\<lambda>x. f x = t) xs))) = sum_list (map w xs)"
  using assms(2)
proof (induction xs)
  case (Cons x xs)
  have "(\<Sum>t\<in>S. sum_list (map w (filter (\<lambda>y. f y = t) (x # xs)))) =
        (\<Sum>t\<in>S. (if t = f x then w x else 0) + sum_list (map w (filter (\<lambda>y. f y = t) xs)))"
    by (rule sum.cong) auto
  also have "\<dots> = w x + (\<Sum>t\<in>S. sum_list (map w (filter (\<lambda>y. f y = t) xs)))"
    using Cons.prems assms(1) by (simp add: sum.distrib)
  finally show ?case using Cons by simp
qed simp

subsection \<open>Folds that keep an invariant\<close>

locale reducer =
  fixes step :: "'s \<Rightarrow> 'x \<Rightarrow> 's"
    and inv :: "'s \<Rightarrow> bool"
  assumes step_inv: "inv s \<Longrightarrow> inv (step s x)"
begin

lemma foldl_inv: "inv s \<Longrightarrow> inv (foldl step s xs)"
  by (induction xs arbitrary: s) (auto intro: step_inv)

lemma fold_inv: "inv s \<Longrightarrow> inv (fold (\<lambda>x s. step s x) xs s)"
  by (induction xs arbitrary: s) (auto intro: step_inv)

end

subsection \<open>Partial functions whose results are fixed points\<close>

locale normalizer =
  fixes norm :: "'a \<Rightarrow> 'b option"
    and embed :: "'b \<Rightarrow> 'a"
  assumes norm_embed: "norm x = Some y \<Longrightarrow> norm (embed y) = Some y"
begin

lemma norm_range_iff: "(\<exists>x. norm x = Some y) \<longleftrightarrow> norm (embed y) = Some y"
  using norm_embed by blast

lemma norm_twice: "norm x = Some y \<Longrightarrow> map_option (norm \<circ> embed) (norm x) = Some (Some y)"
  by (simp add: norm_embed)

lemma norm_list_embed:
  "those (map norm xs) = Some ys \<Longrightarrow> those (map norm (map embed ys)) = Some ys"
proof (induction xs arbitrary: ys)
  case Nil
  then show ?case by simp
next
  case (Cons x xs)
  then show ?case by (auto split: option.splits dest: norm_embed)
qed

lemma embed_inj: "norm x = Some y \<Longrightarrow> norm x' = Some y' \<Longrightarrow> embed y = embed y' \<Longrightarrow> y = y'"
  by (metis norm_embed option.inject)

end

subsection \<open>Results\<close>

text \<open>The rest of a computation after one that may fail.\<close>

definition sum_bind :: "'e + 'a \<Rightarrow> ('a \<Rightarrow> 'e + 'b) \<Rightarrow> 'e + 'b" where
  "sum_bind r f = (case r of Inl e \<Rightarrow> Inl e | Inr x \<Rightarrow> f x)"

lemma sum_bind_simps [simp]: "sum_bind (Inl e) f = Inl e" "sum_bind (Inr x) f = f x"
  by (simp_all add: sum_bind_def)

lemma sum_bind_Inr: "sum_bind r f = Inr y \<longleftrightarrow> (\<exists>x. r = Inr x \<and> f x = Inr y)"
  by (cases r) simp_all

lemma update_same: "map_of d k = Some v \<Longrightarrow> AList.update k v d = d"
  by (induction d) (auto split: if_split_asm)

end
