(* ===== verification/PyValue.thy ===== *)
theory PyValue
  imports Prelude "HOL-Library.Word"
begin

unbundle bit_operations_syntax

text \<open>
  The Python values and built-in operations that the modelled functions use. A value of the
  program is a \<open>pyval\<close>; a dictionary is an association list in insertion order (its keys
  are strings, as in JSON). Text is a \<open>string\<close>: a list of the code points U+0000 to
  U+00FF, so one \<open>char\<close> is one character of the Python string (and one UTF-16 unit). A float
  is kept as the three observations the code makes of it: its \<open>repr\<close>, hence whether it is
  zero, and \<open>int(f)\<close>, which is \<open>None\<close> where Python raises (nan, infinities).
\<close>

datatype pyval =
    VNone
  | VBool bool
  | VInt int
  | VFloat string "int option"
  | VStr string
  | VBytes string
  | VList "pyval list"
  | VTuple "pyval list"
  | VDict "(string \<times> pyval) list"

type_synonym pydict = "(string \<times> pyval) list"

text \<open>The exceptions the modelled code raises or catches.\<close>

datatype pyexn = TypeError | ValueError | KeyError | OverflowError

subsection \<open>Dictionaries\<close>

definition dict_get_default :: "pydict \<Rightarrow> string \<Rightarrow> pyval \<Rightarrow> pyval" where
  "dict_get_default d k v = (case map_of d k of None \<Rightarrow> v | Some w \<Rightarrow> w)"

definition dict_get :: "pydict \<Rightarrow> string \<Rightarrow> pyval" where
  "dict_get d k = dict_get_default d k VNone"

definition has_key :: "pydict \<Rightarrow> string \<Rightarrow> bool" where
  "has_key d k \<longleftrightarrow> map_of d k \<noteq> None"

text \<open>\<open>d.setdefault(k, v)\<close>.\<close>

definition set_default :: "string \<Rightarrow> pyval \<Rightarrow> pydict \<Rightarrow> pydict" where
  "set_default k v d = (if has_key d k then d else AList.update k v d)"

text \<open>\<open>x.get(k)\<close> is only reached where \<open>x\<close> is a dict; \<open>as_dict v\<close> is
  \<open>v if isinstance(v, dict) else {}\<close>.\<close>

fun as_dict :: "pyval \<Rightarrow> pydict" where
  "as_dict (VDict d) = d"
| "as_dict _ = []"

fun is_dict :: "pyval \<Rightarrow> bool" where
  "is_dict (VDict _) = True"
| "is_dict _ = False"

fun is_str :: "pyval \<Rightarrow> bool" where
  "is_str (VStr _) = True"
| "is_str _ = False"

fun is_bool :: "pyval \<Rightarrow> bool" where
  "is_bool (VBool _) = True"
| "is_bool _ = False"

lemma dict_get_Cons: "dict_get ((k, v) # d) k' = (if k = k' then v else dict_get d k')"
  by (simp add: dict_get_def dict_get_default_def)

lemma dict_get_Nil: "dict_get [] k = VNone"
  by (simp add: dict_get_def dict_get_default_def)

lemma dict_get_update [simp]:
  "dict_get (AList.update k v d) k' = (if k = k' then v else dict_get d k')"
  by (simp add: dict_get_def dict_get_default_def update_conv)

lemma has_key_update [simp]: "has_key (AList.update k v d) k' \<longleftrightarrow> k = k' \<or> has_key d k'"
  by (simp add: has_key_def update_conv)

subsection \<open>Truth value and \<open>or\<close>\<close>

fun truthy :: "pyval \<Rightarrow> bool" where
  "truthy VNone = False"
| "truthy (VBool b) = b"
| "truthy (VInt i) = (i \<noteq> 0)"
| "truthy (VFloat r _) = (r \<noteq> ''0.0'' \<and> r \<noteq> ''-0.0'')"
| "truthy (VStr s) = (s \<noteq> [])"
| "truthy (VBytes s) = (s \<noteq> [])"
| "truthy (VList xs) = (xs \<noteq> [])"
| "truthy (VTuple xs) = (xs \<noteq> [])"
| "truthy (VDict d) = (d \<noteq> [])"

definition py_or :: "pyval \<Rightarrow> pyval \<Rightarrow> pyval" where
  "py_or a b = (if truthy a then a else b)"

subsection \<open>Characters\<close>

abbreviation cp :: "char \<Rightarrow> nat" where
  "cp c \<equiv> of_char c"

text \<open>\<open>str.isspace\<close> on U+0000..U+00FF, the set \<open>str.strip()\<close> removes.\<close>

definition py_space :: "char \<Rightarrow> bool" where
  "py_space c \<longleftrightarrow> (let n = cp c in
     9 \<le> n \<and> n \<le> 13 \<or> 28 \<le> n \<and> n \<le> 32 \<or> n = 133 \<or> n = 160)"

text \<open>The blanks that \<open>int(text)\<close> skips at both ends: the control characters 28 to 31
  are not among them.\<close>

definition int_space :: "char \<Rightarrow> bool" where
  "int_space c \<longleftrightarrow> (let n = cp c in 9 \<le> n \<and> n \<le> 13 \<or> n = 32 \<or> n = 133 \<or> n = 160)"

definition lower_char :: "char \<Rightarrow> char" where
  "lower_char c = (let n = cp c in
     if 65 \<le> n \<and> n \<le> 90 \<or> 192 \<le> n \<and> n \<le> 222 \<and> n \<noteq> 215 then char_of (n + 32) else c)"

definition is_digit :: "char \<Rightarrow> bool" where
  "is_digit c \<longleftrightarrow> 48 \<le> cp c \<and> cp c \<le> 57"

definition is_ascii_alnum :: "char \<Rightarrow> bool" where
  "is_ascii_alnum c \<longleftrightarrow> is_digit c \<or> 65 \<le> cp c \<and> cp c \<le> 90 \<or> 97 \<le> cp c \<and> cp c \<le> 122"

subsection \<open>Strings\<close>

definition strip_with :: "(char \<Rightarrow> bool) \<Rightarrow> string \<Rightarrow> string" where
  "strip_with p s = rev (dropWhile p (rev (dropWhile p s)))"

definition lstrip :: "(char \<Rightarrow> bool) \<Rightarrow> string \<Rightarrow> string" where
  "lstrip p s = dropWhile p s"

definition strip :: "string \<Rightarrow> string" where
  "strip s = strip_with py_space s"

text \<open>\<open>text.strip(chars)\<close> for one character.\<close>

definition strip_char :: "char \<Rightarrow> string \<Rightarrow> string" where
  "strip_char ch s = strip_with (\<lambda>c. c = ch) s"

definition lower :: "string \<Rightarrow> string" where
  "lower s = map lower_char s"

text \<open>\<open>casefold\<close> differs from \<open>lower\<close> on one character of the range: sharp s.\<close>

definition casefold :: "string \<Rightarrow> string" where
  "casefold s = concat (map (\<lambda>c. if cp c = 223 then ''ss'' else [lower_char c]) s)"

text \<open>\<open>str.upper\<close>; the two characters of the range whose capital lies outside it (U+00B5 and
  U+00FF) are left alone.\<close>

definition upper_char :: "char \<Rightarrow> string" where
  "upper_char c = (let n = cp c in
     if 97 \<le> n \<and> n \<le> 122 \<or> 224 \<le> n \<and> n \<le> 254 \<and> n \<noteq> 247 then [char_of (n - 32)]
     else if n = 223 then ''SS'' else [c])"

definition upper :: "string \<Rightarrow> string" where
  "upper s = concat (map upper_char s)"

fun starts_with :: "string \<Rightarrow> string \<Rightarrow> bool" where
  "starts_with s [] = True"
| "starts_with [] (_ # _) = False"
| "starts_with (c # s) (d # t) = (c = d \<and> starts_with s t)"

text \<open>\<open>needle in haystack\<close>.\<close>

fun contains :: "string \<Rightarrow> string \<Rightarrow> bool" where
  "contains needle [] = (needle = [])"
| "contains needle (c # s) = (starts_with (c # s) needle \<or> contains needle s)"

text \<open>\<open>text.split(c, 1)\<close> where \<open>c\<close> occurs: the part before the first occurrence and the
  part after it.\<close>

definition split_once :: "char \<Rightarrow> string \<Rightarrow> string \<times> string" where
  "split_once ch s = (takeWhile (\<lambda>c. c \<noteq> ch) s, drop 1 (dropWhile (\<lambda>c. c \<noteq> ch) s))"

text \<open>\<open>text.rsplit(c, 1)[-1]\<close>: everything after the last occurrence.\<close>

definition after_last :: "char \<Rightarrow> string \<Rightarrow> string" where
  "after_last ch s = rev (takeWhile (\<lambda>c. c \<noteq> ch) (rev s))"

fun join :: "string \<Rightarrow> string list \<Rightarrow> string" where
  "join sep [] = []"
| "join sep [x] = x"
| "join sep (x # y # xs) = x @ sep @ join sep (y # xs)"

subsection \<open>Printing and reading integers\<close>

definition digit_char :: "nat \<Rightarrow> char" where
  "digit_char n = (if n < 10 then char_of (48 + n) else char_of (87 + n))"

definition digit_val :: "char \<Rightarrow> nat option" where
  "digit_val c = (let n = cp c in
     if 48 \<le> n \<and> n \<le> 57 then Some (n - 48)
     else if 97 \<le> n \<and> n \<le> 122 then Some (n - 87)
     else if 65 \<le> n \<and> n \<le> 90 then Some (n - 55)
     else None)"

fun to_base :: "nat \<Rightarrow> nat \<Rightarrow> string" where
  "to_base b n = (if b < 2 \<or> n < b then [digit_char n]
                  else to_base b (n div b) @ [digit_char (n mod b)])"

declare to_base.simps [simp del]

definition base_int :: "nat \<Rightarrow> int \<Rightarrow> string" where
  "base_int b i = (if i < 0 then ''-'' @ to_base b (nat (- i)) else to_base b (nat i))"

definition dec :: "int \<Rightarrow> string" where
  "dec i = base_int 10 i"

text \<open>\<open>f"0x{i:x}"\<close>, \<open>f"0x{i:08x}"\<close> and \<open>f"0x{i:X}"\<close>.\<close>

definition hex0x :: "int \<Rightarrow> string" where
  "hex0x i = ''0x'' @ base_int 16 i"

definition zero_pad :: "nat \<Rightarrow> string \<Rightarrow> string" where
  "zero_pad n s = replicate (n - length s) (CHR ''0'') @ s"

definition hex08 :: "nat \<Rightarrow> string" where
  "hex08 n = ''0x'' @ zero_pad 8 (to_base 16 n)"

definition hex0X :: "int \<Rightarrow> string" where
  "hex0X i = ''0x'' @ upper (base_int 16 i)"

text \<open>
  The digits of \<open>int(text, base)\<close>: an underscore may stand between two digits only. The flag
  says whether the previous character was a digit (or, after a base prefix, the prefix).
\<close>

fun scan_digits :: "nat \<Rightarrow> bool \<Rightarrow> nat \<Rightarrow> string \<Rightarrow> nat option" where
  "scan_digits b prev acc [] = (if prev then Some acc else None)"
| "scan_digits b prev acc (c # cs) =
     (if c = CHR ''_'' then (if prev then scan_digits b False acc cs else None)
      else case digit_val c of
             None \<Rightarrow> None
           | Some d \<Rightarrow> if d < b then scan_digits b True (acc * b + d) cs else None)"

text \<open>\<open>int\<close> refuses more than 4300 decimal digits.\<close>

definition scan_dec :: "string \<Rightarrow> nat option" where
  "scan_dec s = (if length (filter (\<lambda>c. c \<noteq> CHR ''_'') s) > 4300 then None
                 else scan_digits 10 False 0 s)"

definition scan_prefixed :: "nat \<Rightarrow> string \<Rightarrow> nat option" where
  "scan_prefixed b s = (if s = [] then None else scan_digits b True 0 s)"

definition base_of_prefix :: "char \<Rightarrow> nat option" where
  "base_of_prefix c =
     (if c = CHR ''x'' \<or> c = CHR ''X'' then Some 16
      else if c = CHR ''o'' \<or> c = CHR ''O'' then Some 8
      else if c = CHR ''b'' \<or> c = CHR ''B'' then Some 2 else None)"

text \<open>Base 0: a prefix selects the base, and a decimal literal with a leading zero must be zero.\<close>

definition scan_base0 :: "string \<Rightarrow> nat option" where
  "scan_base0 s =
     (case s of
        [] \<Rightarrow> None
      | c # t \<Rightarrow>
          (if c \<noteq> CHR ''0'' then scan_dec s
           else (case t of
                   [] \<Rightarrow> Some 0
                 | p # u \<Rightarrow>
                     (case base_of_prefix p of
                        Some b \<Rightarrow> scan_prefixed b u
                      | None \<Rightarrow> (if scan_dec s = Some 0 then Some 0 else None)))))"

definition scan_base16 :: "string \<Rightarrow> nat option" where
  "scan_base16 s =
     (case s of
        c # p # u \<Rightarrow> (if c = CHR ''0'' \<and> (p = CHR ''x'' \<or> p = CHR ''X'') then scan_prefixed 16 u
                      else scan_digits 16 False 0 s)
      | _ \<Rightarrow> scan_digits 16 False 0 s)"

definition signed :: "(string \<Rightarrow> nat option) \<Rightarrow> string \<Rightarrow> int option" where
  "signed scan s =
     (case s of
        [] \<Rightarrow> None
      | c # t \<Rightarrow> if c = CHR ''-'' then map_option (\<lambda>n. - int n) (scan t)
                 else if c = CHR ''+'' then map_option int (scan t)
                 else map_option int (scan s))"

text \<open>\<open>int(text, 0)\<close>, \<open>int(text, 10)\<close> (also \<open>int(text)\<close>) and \<open>int(text, 16)\<close>;
  \<open>None\<close> where Python raises \<open>ValueError\<close>.\<close>

definition int0 :: "string \<Rightarrow> int option" where
  "int0 s = signed scan_base0 (strip_with int_space s)"

definition int10 :: "string \<Rightarrow> int option" where
  "int10 s = signed scan_dec (strip_with int_space s)"

definition int16 :: "string \<Rightarrow> int option" where
  "int16 s = signed scan_base16 (strip_with int_space s)"

subsection \<open>Reading back a printed integer\<close>

lemma code_char_of [simp]: "n < 256 \<Longrightarrow> cp (char_of n) = n"
  by simp

lemma digit_val_digit_char [simp]: "n < 36 \<Longrightarrow> digit_val (digit_char n) = Some n"
  by (simp add: digit_val_def digit_char_def Let_def)

lemma code_digit_char: "n < 36 \<Longrightarrow> cp (digit_char n) = (if n < 10 then 48 + n else 87 + n)"
  by (simp add: digit_char_def)

lemma digit_char_eq_iff:
  "n < 36 \<Longrightarrow> cp c \<notin> {48..57} \<union> {97..122} \<Longrightarrow> digit_char n \<noteq> c"
  by (auto dest: arg_cong [where f = "of_char :: char \<Rightarrow> nat"] simp: code_digit_char split: if_splits)

lemma digit_char_zero_iff [simp]: "n < 36 \<Longrightarrow> digit_char n = CHR ''0'' \<longleftrightarrow> n = 0"
proof
  assume n: "n < 36" and "digit_char n = CHR ''0''"
  then have "cp (digit_char n) = 48" by simp
  with n show "n = 0" by (simp add: code_digit_char split: if_splits)
next
  assume "n = 0"
  then have "digit_char n = char_of (48 :: nat)" by (simp add: digit_char_def)
  also have "\<dots> = CHR ''0''" by code_simp
  finally show "digit_char n = CHR ''0''" .
qed

definition hex_like :: "string \<Rightarrow> bool" where
  "hex_like s \<longleftrightarrow> list_all (\<lambda>c. cp c \<in> {48..57} \<union> {97..122}) s"

lemma hex_like_append [simp]: "hex_like (s @ t) \<longleftrightarrow> hex_like s \<and> hex_like t"
  by (simp add: hex_like_def)

lemma hex_like_Nil [simp]: "hex_like []"
  by (simp add: hex_like_def)

lemma hex_like_digit [simp]: "n < 36 \<Longrightarrow> hex_like [digit_char n]"
  by (simp add: hex_like_def code_digit_char)

lemma to_base_induct [case_names small step]:
  fixes b n :: nat
  assumes small: "\<And>n. b < 2 \<or> n < b \<Longrightarrow> P n"
    and step: "\<And>n. 2 \<le> b \<Longrightarrow> b \<le> n \<Longrightarrow> P (n div b) \<Longrightarrow> P n"
  shows "P n"
proof (induction n rule: less_induct)
  case (less n)
  show ?case
  proof (cases "b < 2 \<or> n < b")
    case True
    then show ?thesis by (rule small)
  next
    case False
    then have b: "2 \<le> b" "b \<le> n" by simp_all
    then have "n div b < n" by (intro div_less_dividend) simp_all
    then have "P (n div b)" by (rule less.IH)
    with b show ?thesis by (rule step)
  qed
qed

lemma to_base_small: "2 \<le> b \<Longrightarrow> n < b \<Longrightarrow> to_base b n = [digit_char n]"
  by (simp add: to_base.simps)

lemma to_base_step:
  "2 \<le> b \<Longrightarrow> b \<le> n \<Longrightarrow> to_base b n = to_base b (n div b) @ [digit_char (n mod b)]"
  by (subst to_base.simps) simp

lemma mod_base_less: "2 \<le> b \<Longrightarrow> b \<le> k \<Longrightarrow> (n::nat) mod b < k"
  by (meson less_le_trans mod_less_divisor not_less zero_less_numeral dual_order.strict_trans1)

lemma hex_like_to_base: "2 \<le> b \<Longrightarrow> b \<le> 36 \<Longrightarrow> hex_like (to_base b n)"
  by (induction n rule: to_base_induct [where b = b]) (auto simp: to_base_small to_base_step mod_base_less)

lemma to_base_nonempty [simp]: "to_base b n \<noteq> []"
  by (subst to_base.simps) simp

text \<open>Reading digits back: the accumulated value, and the underscore flag.\<close>

definition all_digits :: "nat \<Rightarrow> string \<Rightarrow> bool" where
  "all_digits b s \<longleftrightarrow> list_all (\<lambda>c. c \<noteq> CHR ''_'' \<and> (\<exists>d < b. digit_val c = Some d)) s"

fun digits_value :: "nat \<Rightarrow> nat \<Rightarrow> string \<Rightarrow> nat" where
  "digits_value b acc [] = acc"
| "digits_value b acc (c # cs) = digits_value b (acc * b + the (digit_val c)) cs"

lemma digits_value_append: "digits_value b acc (s @ t) = digits_value b (digits_value b acc s) t"
  by (induction s arbitrary: acc) auto

lemma scan_all_digits:
  "all_digits b s \<Longrightarrow> scan_digits b p acc s = (if p \<or> s \<noteq> [] then Some (digits_value b acc s) else None)"
  by (induction s arbitrary: p acc) (auto simp: all_digits_def)

lemma digit_char_not_underscore: "n < 36 \<Longrightarrow> digit_char n \<noteq> CHR ''_''"
  by (rule digit_char_eq_iff) auto

lemma all_digits_to_base: "2 \<le> b \<Longrightarrow> b \<le> 36 \<Longrightarrow> all_digits b (to_base b n)"
proof (induction n rule: to_base_induct [where b = b])
  case (small n)
  then show ?case by (auto simp: all_digits_def to_base_small digit_char_not_underscore)
next
  case (step n)
  then have "n mod b < b" "n mod b < 36" by (auto intro: mod_base_less)
  with step show ?case by (auto simp: all_digits_def to_base_step digit_char_not_underscore)
qed

lemma digits_value_to_base: "2 \<le> b \<Longrightarrow> b \<le> 36 \<Longrightarrow> digits_value b 0 (to_base b n) = n"
proof (induction n rule: to_base_induct [where b = b])
  case (small n)
  then show ?case by (simp add: to_base_small)
next
  case (step n)
  then have "n mod b < 36" by (auto intro: mod_base_less)
  with step show ?case by (simp add: to_base_step digits_value_append)
qed

lemma scan_to_base [simp]:
  "2 \<le> b \<Longrightarrow> b \<le> 36 \<Longrightarrow> scan_digits b p 0 (to_base b n) = Some n"
  by (simp add: scan_all_digits all_digits_to_base digits_value_to_base)

lemma digits_value_zeros [simp]: "digits_value b 0 (replicate k (CHR ''0'') @ s) = digits_value b 0 s"
  by (induction k) (auto simp: digit_val_def)

lemma all_digits_zeros: "2 \<le> b \<Longrightarrow> all_digits b s \<Longrightarrow> all_digits b (replicate k (CHR ''0'') @ s)"
  by (induction k) (auto simp: all_digits_def digit_val_def)

lemma scan_zero_pad [simp]:
  "2 \<le> b \<Longrightarrow> b \<le> 36 \<Longrightarrow> scan_digits b p 0 (zero_pad k (to_base b n)) = Some n"
  by (simp add: zero_pad_def scan_all_digits all_digits_zeros all_digits_to_base digits_value_to_base)

subsection \<open>Blanks around a text\<close>

lemma dropWhile_hd: "s = [] \<or> \<not> p (hd s) \<Longrightarrow> dropWhile p s = s"
  by (cases s) auto

lemma strip_with_id:
  "s = [] \<or> (\<not> p (hd s) \<and> \<not> p (last s)) \<Longrightarrow> strip_with p s = s"
  by (auto simp: strip_with_def dropWhile_hd hd_rev)

lemma strip_with_none: "(\<And>c. c \<in> set s \<Longrightarrow> \<not> p c) \<Longrightarrow> strip_with p s = s"
  by (rule strip_with_id) auto

lemma strip_with_set: "set (strip_with p s) \<subseteq> set s"
  by (auto simp: strip_with_def dest!: set_dropWhileD)

lemma int_space_py_space: "int_space c \<Longrightarrow> py_space c"
  by (auto simp: int_space_def py_space_def Let_def)

lemma py_space_range: "33 \<le> cp c \<Longrightarrow> cp c \<le> 126 \<Longrightarrow> \<not> py_space c"
  by (auto simp: py_space_def Let_def)

definition graphic :: "string \<Rightarrow> bool" where
  "graphic s \<longleftrightarrow> list_all (\<lambda>c. 33 \<le> cp c \<and> cp c \<le> 126) s"

lemma graphic_Nil [simp]: "graphic []"
  and graphic_Cons [simp]: "graphic (c # s) \<longleftrightarrow> 33 \<le> cp c \<and> cp c \<le> 126 \<and> graphic s"
  and graphic_append [simp]: "graphic (s @ t) \<longleftrightarrow> graphic s \<and> graphic t"
  by (auto simp: graphic_def)

lemma hex_like_graphic: "hex_like s \<Longrightarrow> graphic s"
  by (auto simp: hex_like_def graphic_def list_all_iff)

lemma graphic_strip [simp]: "graphic s \<Longrightarrow> strip s = s"
  unfolding strip_def by (rule strip_with_none) (auto simp: graphic_def list_all_iff py_space_range)

lemma graphic_int_strip [simp]: "graphic s \<Longrightarrow> strip_with int_space s = s"
  by (rule strip_with_none) (auto simp: graphic_def list_all_iff dest: int_space_py_space py_space_range)

subsection \<open>Small letters\<close>

lemma lower_char_idem [simp]: "lower_char (lower_char c) = lower_char c"
  by (auto simp: lower_char_def Let_def)

lemma lower_idem [simp]: "lower (lower s) = lower s"
  by (simp add: lower_def)

lemma length_lower [simp]: "length (lower s) = length s"
  by (simp add: lower_def)

lemma lower_append [simp]: "lower (s @ t) = lower s @ lower t"
  by (simp add: lower_def)

lemma lower_char_id: "cp c < 65 \<or> 90 < cp c \<and> cp c < 192 \<Longrightarrow> lower_char c = c"
  by (auto simp: lower_char_def Let_def)

lemma hex_like_lower [simp]: "hex_like s \<Longrightarrow> lower s = s"
  by (induction s) (auto simp: hex_like_def lower_def lower_char_id)

subsection \<open>Round trips of the printed integers\<close>

lemma graphic_zero_pad [simp]: "graphic s \<Longrightarrow> graphic (zero_pad k s)"
  by (auto simp: zero_pad_def graphic_def list_all_iff)

lemma graphic_to_base [simp]: "2 \<le> b \<Longrightarrow> b \<le> 36 \<Longrightarrow> graphic (to_base b n)"
  by (simp add: hex_like_graphic hex_like_to_base)

lemma zero_pad_nonempty [simp]: "s \<noteq> [] \<Longrightarrow> zero_pad k s \<noteq> []"
  by (simp add: zero_pad_def)

lemma int0_hex_pad: "int0 (''0x'' @ zero_pad k (to_base 16 n)) = Some (int n)"
  by (simp add: int0_def signed_def scan_base0_def base_of_prefix_def scan_prefixed_def)

lemma int0_hex08 [simp]: "int0 (hex08 n) = Some (int n)"
  by (simp only: hex08_def int0_hex_pad)

lemma zero_pad_0 [simp]: "zero_pad 0 s = s"
  by (simp add: zero_pad_def)

lemma int0_hex0x [simp]: "0 \<le> i \<Longrightarrow> int0 (hex0x i) = Some i"
  using int0_hex_pad [of 0 "nat i"] by (simp add: hex0x_def base_int_def)

lemma hd_to_base: "2 \<le> b \<Longrightarrow> b \<le> 36 \<Longrightarrow> 0 < n \<Longrightarrow> hd (to_base b n) \<noteq> CHR ''0''"
proof (induction n rule: to_base_induct [where b = b])
  case (small n)
  then show ?case by (simp add: to_base_small)
next
  case (step n)
  then have "0 < n div b" by (simp add: div_greater_zero_iff)
  with step show ?case by (simp add: to_base_step)
qed

lemma hd_to_base_sign: "2 \<le> b \<Longrightarrow> b \<le> 36 \<Longrightarrow> hd (to_base b n) \<notin> {CHR ''-'', CHR ''+''}"
proof -
  assume "2 \<le> b" "b \<le> 36"
  then have "hex_like (to_base b n)" by (rule hex_like_to_base)
  then have "cp (hd (to_base b n)) \<in> {48..57} \<union> {97..122}"
    by (auto simp: hex_like_def list_all_iff dest: bspec [OF _ hd_in_set])
  then show ?thesis by auto
qed

definition printable_dec :: "int \<Rightarrow> bool" where
  "printable_dec i \<longleftrightarrow> length (to_base 10 (nat \<bar>i\<bar>)) \<le> 4300"

lemma scan_dec_to_base:
  "length (to_base 10 n) \<le> 4300 \<Longrightarrow> scan_dec (to_base 10 n) = Some n"
  by (simp add: scan_dec_def not_less order.trans [OF length_filter_le])

lemma scan_base0_to_base:
  assumes "length (to_base 10 n) \<le> 4300"
  shows "scan_base0 (to_base 10 n) = Some n"
proof (cases "n = 0")
  case True
  then show ?thesis by (simp add: to_base_small scan_base0_def)
next
  case False
  then have "hd (to_base 10 n) \<noteq> CHR ''0''" by (intro hd_to_base) auto
  then obtain c t where "to_base 10 n = c # t" "c \<noteq> CHR ''0''"
    by (cases "to_base 10 n") (auto dest: arg_cong [where f = length])
  then show ?thesis
    using scan_dec_to_base [OF assms] by (simp add: scan_base0_def)
qed

lemma signed_to_base:
  assumes "scan (to_base 10 n) = Some n"
  shows "signed scan (to_base 10 n) = Some (int n)"
  using assms hd_to_base_sign [of 10 n]
  by (cases "to_base 10 n") (auto simp: signed_def split: if_splits)

lemma to_base_10_length: "n < 10 ^ k \<Longrightarrow> 0 < k \<Longrightarrow> length (to_base 10 n) \<le> k"
proof (induction k arbitrary: n)
  case (Suc k)
  show ?case
  proof (cases "n < 10")
    case False
    with Suc.prems have "0 < k" by (cases k) auto
    moreover have "n div 10 < 10 ^ k" using Suc.prems(1) by (simp add: less_mult_imp_div_less)
    ultimately show ?thesis using Suc.IH False by (simp add: to_base.simps [of 10 n])
  qed (simp add: to_base.simps [of 10 n])
qed simp

lemma printable_small: "0 \<le> i \<Longrightarrow> i \<le> 0x100000000 \<Longrightarrow> printable_dec i"
proof -
  assume "0 \<le> i" "i \<le> 0x100000000"
  then have "nat i < 10 ^ 10" by simp
  from to_base_10_length [OF this] \<open>0 \<le> i\<close> show ?thesis by (simp add: printable_dec_def)
qed

lemma int0_dec: "printable_dec i \<Longrightarrow> int0 (dec i) = Some i"
  by (auto simp: int0_def dec_def base_int_def printable_dec_def signed_to_base scan_base0_to_base)
     (simp add: signed_def scan_base0_to_base)

lemma graphic_dec [simp]: "graphic (dec i)"
  by (simp add: dec_def base_int_def)

lemma dec_nonempty [simp]: "dec i \<noteq> []"
  by (simp add: dec_def base_int_def)

subsection \<open>Evaluation on concrete data\<close>

text \<open>Rules by which \<open>simp\<close> computes the readers and printers of numbers on literals; the
  numbers stay binary.\<close>

lemma digit_val_eval [py_eval]:
  "digit_val (CHR ''0'') = Some 0"
  "digit_val (CHR ''1'') = Some 1"
  "digit_val (CHR ''2'') = Some 2"
  "digit_val (CHR ''3'') = Some 3"
  "digit_val (CHR ''4'') = Some 4"
  "digit_val (CHR ''5'') = Some 5"
  "digit_val (CHR ''6'') = Some 6"
  "digit_val (CHR ''7'') = Some 7"
  "digit_val (CHR ''8'') = Some 8"
  "digit_val (CHR ''9'') = Some 9"
  "digit_val (CHR ''a'') = Some 10"
  "digit_val (CHR ''b'') = Some 11"
  "digit_val (CHR ''c'') = Some 12"
  "digit_val (CHR ''d'') = Some 13"
  "digit_val (CHR ''e'') = Some 14"
  "digit_val (CHR ''f'') = Some 15"
  "digit_val (CHR ''A'') = Some 10"
  "digit_val (CHR ''B'') = Some 11"
  "digit_val (CHR ''C'') = Some 12"
  "digit_val (CHR ''D'') = Some 13"
  "digit_val (CHR ''E'') = Some 14"
  "digit_val (CHR ''F'') = Some 15"
  by code_simp+

lemma digit_char_eval [py_eval]:
  "digit_char 0 = CHR ''0''"
  "digit_char 1 = CHR ''1''"
  "digit_char 2 = CHR ''2''"
  "digit_char 3 = CHR ''3''"
  "digit_char 4 = CHR ''4''"
  "digit_char 5 = CHR ''5''"
  "digit_char 6 = CHR ''6''"
  "digit_char 7 = CHR ''7''"
  "digit_char 8 = CHR ''8''"
  "digit_char 9 = CHR ''9''"
  "digit_char 10 = CHR ''a''"
  "digit_char 11 = CHR ''b''"
  "digit_char 12 = CHR ''c''"
  "digit_char 13 = CHR ''d''"
  "digit_char 14 = CHR ''e''"
  "digit_char 15 = CHR ''f''"
  "digit_char (Suc 0) = CHR ''1''"
  by code_simp+

lemma to_base_eval [py_eval]:
  "to_base 16 0 = ''0''" "to_base 16 1 = ''1''" "to_base 16 (Suc 0) = ''1''"
  "to_base 16 (numeral k) = (if numeral k < (16 :: nat) then [digit_char (numeral k)]
     else to_base 16 (numeral k div 16) @ [digit_char (numeral k mod 16)])"
  "to_base 10 0 = ''0''" "to_base 10 1 = ''1''" "to_base 10 (Suc 0) = ''1''"
  "to_base 10 (numeral k) = (if numeral k < (10 :: nat) then [digit_char (numeral k)]
     else to_base 10 (numeral k div 10) @ [digit_char (numeral k mod 10)])"
  by (subst to_base.simps, simp add: digit_char_eval)+

lemmas number_eval [py_eval] =
  hex08_def hex0x_def zero_pad_def dec_def base_int_def int0_def int10_def signed_def
  scan_base0_def base_of_prefix_def scan_prefixed_def scan_dec_def

subsection \<open>\<open>repr\<close> and \<open>str\<close>\<close>

text \<open>Printable characters of the range: \<open>repr\<close> escapes the others as \<open>\\xNN\<close>.\<close>

definition py_printable :: "char \<Rightarrow> bool" where
  "py_printable c \<longleftrightarrow> (let n = cp c in 32 \<le> n \<and> n \<le> 126 \<or> 161 \<le> n \<and> n \<noteq> 173)"

definition repr_char :: "(char \<Rightarrow> bool) \<Rightarrow> char \<Rightarrow> char \<Rightarrow> string" where
  "repr_char plain q c =
     (if c = q \<or> cp c = 92 then [char_of (92 :: nat), c]
      else if cp c = 10 then [char_of (92 :: nat), CHR ''n'']
      else if cp c = 13 then [char_of (92 :: nat), CHR ''r'']
      else if cp c = 9 then [char_of (92 :: nat), CHR ''t'']
      else if plain c then [c]
      else char_of (92 :: nat) # CHR ''x'' # zero_pad 2 (to_base 16 (cp c)))"

definition quote_for :: "string \<Rightarrow> char" where
  "quote_for s = (if char_of (39 :: nat) \<in> set s \<and> char_of (34 :: nat) \<notin> set s
                  then char_of (34 :: nat) else char_of (39 :: nat))"

definition repr_str :: "string \<Rightarrow> string" where
  "repr_str s = (let q = quote_for s in q # concat (map (repr_char py_printable q) s) @ [q])"

definition repr_bytes :: "string \<Rightarrow> string" where
  "repr_bytes s = (let q = quote_for s in
     CHR ''b'' # q # concat (map (repr_char (\<lambda>c. 32 \<le> cp c \<and> cp c \<le> 126) q) s) @ [q])"

fun py_repr :: "pyval \<Rightarrow> string" where
  "py_repr VNone = ''None''"
| "py_repr (VBool b) = (if b then ''True'' else ''False'')"
| "py_repr (VInt i) = dec i"
| "py_repr (VFloat r _) = r"
| "py_repr (VStr s) = repr_str s"
| "py_repr (VBytes s) = repr_bytes s"
| "py_repr (VList xs) = ''['' @ join '', '' (map py_repr xs) @ '']''"
| "py_repr (VTuple xs) =
     ''('' @ join '', '' (map py_repr xs) @ (if length xs = 1 then '',)'' else '')'')"
| "py_repr (VDict d) =
     ''{'' @ join '', '' (map (\<lambda>(k, v). repr_str k @ '': '' @ py_repr v) d) @ ''}''"

definition py_str :: "pyval \<Rightarrow> string" where
  "py_str v = (case v of VStr s \<Rightarrow> s | _ \<Rightarrow> py_repr v)"

lemma py_str_VStr [simp]: "py_str (VStr s) = s"
  and py_str_VInt [simp]: "py_str (VInt i) = dec i"
  by (simp_all add: py_str_def)

text \<open>\<open>str(v or "")\<close>, the program's usual way to read an optional text.\<close>

definition str_or_empty :: "pyval \<Rightarrow> string" where
  "str_or_empty v = py_str (py_or v (VStr []))"

lemma str_or_empty_VStr [simp]: "str_or_empty (VStr s) = s"
  by (simp add: str_or_empty_def py_or_def)

lemma str_or_empty_VNone [simp]: "str_or_empty VNone = []"
  by (simp add: str_or_empty_def py_or_def)

subsection \<open>\<open>int(v)\<close>\<close>

fun py_int :: "pyval \<Rightarrow> pyexn + int" where
  "py_int (VBool b) = Inr (if b then 1 else 0)"
| "py_int (VInt i) = Inr i"
| "py_int (VFloat r t) = (case t of Some i \<Rightarrow> Inr i
     | None \<Rightarrow> Inl (if r = ''nan'' then ValueError else OverflowError))"
| "py_int (VStr s) = (case int10 s of Some i \<Rightarrow> Inr i | None \<Rightarrow> Inl ValueError)"
| "py_int (VBytes s) = (case int10 s of Some i \<Rightarrow> Inr i | None \<Rightarrow> Inl ValueError)"
| "py_int _ = Inl TypeError"

text \<open>\<open>int(v or k)\<close>.\<close>

definition int_or :: "pyval \<Rightarrow> int \<Rightarrow> pyexn + int" where
  "int_or v k = py_int (py_or v (VInt k))"

subsection \<open>Bytes in hexadecimal\<close>

text \<open>\<open>bytes.fromhex\<close>: blanks may stand before a pair of digits.\<close>

definition hex_blank :: "char \<Rightarrow> bool" where
  "hex_blank c \<longleftrightarrow> cp c \<in> {9, 10, 11, 12, 13, 32}"

definition hex_value :: "char \<Rightarrow> nat option" where
  "hex_value c = (case digit_val c of Some v \<Rightarrow> if v < 16 then Some v else None | None \<Rightarrow> None)"

fun from_hex :: "string \<Rightarrow> nat list option" where
  "from_hex [] = Some []"
| "from_hex (c # s) =
     (if hex_blank c then from_hex s
      else (case s of
              [] \<Rightarrow> None
            | d # t \<Rightarrow>
                (case (hex_value c, hex_value d, from_hex t) of
                   (Some h, Some l, Some bs) \<Rightarrow> Some ((16 * h + l) # bs)
                 | _ \<Rightarrow> None)))"

subsection \<open>Equality of values\<close>

text \<open>
  Python's \<open>==\<close>: a bool equals the int it stands for, an int equals a float with the same
  value, dictionaries are compared without regard to order, a list is never equal to a tuple.
\<close>

definition ends_with :: "string \<Rightarrow> string \<Rightarrow> bool" where
  "ends_with s t \<longleftrightarrow> starts_with (rev s) (rev t)"

definition float_integral :: "string \<Rightarrow> bool" where
  "float_integral r \<longleftrightarrow> ends_with r ''.0'' \<or> contains ''e+'' r"

fun num_of :: "pyval \<Rightarrow> int option" where
  "num_of (VBool b) = Some (if b then 1 else 0)"
| "num_of (VInt i) = Some i"
| "num_of (VFloat r t) = (if float_integral r then t else None)"
| "num_of _ = None"

fun py_eq :: "pyval \<Rightarrow> pyval \<Rightarrow> bool" where
  "py_eq VNone w = (w = VNone)"
| "py_eq (VStr s) w = (w = VStr s)"
| "py_eq (VBytes s) w = (w = VBytes s)"
| "py_eq (VList xs) w = (case w of VList ys \<Rightarrow> list_all2 py_eq xs ys | _ \<Rightarrow> False)"
| "py_eq (VTuple xs) w = (case w of VTuple ys \<Rightarrow> list_all2 py_eq xs ys | _ \<Rightarrow> False)"
| "py_eq (VDict d) w = (case w of
      VDict e \<Rightarrow> length d = length e \<and>
        list_all (\<lambda>(k, v). case map_of e k of None \<Rightarrow> False | Some u \<Rightarrow> py_eq v u) d
    | _ \<Rightarrow> False)"
| "py_eq (VFloat r t) w =
     (if float_integral r then num_of w = t \<and> t \<noteq> None
      else (case w of VFloat r' _ \<Rightarrow> r = r' \<and> r \<noteq> ''nan'' | _ \<Rightarrow> False))"
| "py_eq (VBool b) w = (num_of w = Some (if b then 1 else 0))"
| "py_eq (VInt i) w = (num_of w = Some i)"

end
