(* ===== verification/Contracts.thy ===== *)
theory Contracts
  imports PyValue
begin

text \<open>
  \<open>src/mcp_runtime/contracts.py\<close>: bounded JSON views and the normalized bridge failure and
  envelope, and the two address readers of \<open>00_bootstrap_and_session.py\<close>,
  \<open>_normalize_hex\<close> and \<open>_parse_int\<close>, which every component uses. A parameter that is
  optional in the source (\<open>limit\<close>, \<open>default\<close>) is an argument here.
\<close>

subsection \<open>Bounded JSON views\<close>

definition trim_string :: "nat \<Rightarrow> string \<Rightarrow> string" where
  "trim_string limit s =
     (if length s \<le> limit then s
      else take limit s @ ''... <trimmed '' @ dec (int (length s) - int limit) @ '' chars>'')"

definition trim_text :: "nat \<Rightarrow> pyval \<Rightarrow> pyval" where
  "trim_text limit v = (case v of VStr s \<Rightarrow> VStr (trim_string limit s) | _ \<Rightarrow> v)"

fun json_safe :: "nat \<Rightarrow> pyval \<Rightarrow> pyval" where
  "json_safe limit (VDict d) = VDict (map (\<lambda>(k, v). (k, json_safe limit v)) d)"
| "json_safe limit (VList xs) = VList (take 50 (map (json_safe limit) xs))"
| "json_safe limit (VTuple xs) = VList (take 50 (map (json_safe limit) xs))"
| "json_safe limit (VBytes s) = trim_text limit (VStr (py_str (VBytes s)))"
| "json_safe limit v = trim_text limit v"

text \<open>What the view promises: JSON types only, lists of at most 50 items, and texts no longer
  than the limit and the note of how much was cut.\<close>

fun json_bounded :: "nat \<Rightarrow> pyval \<Rightarrow> bool" where
  "json_bounded n (VDict d) = list_all (\<lambda>(k, v). json_bounded n v) d"
| "json_bounded n (VList xs) = (length xs \<le> 50 \<and> list_all (json_bounded n) xs)"
| "json_bounded n (VTuple xs) = False"
| "json_bounded n (VBytes s) = False"
| "json_bounded n (VStr s) =
     (length s \<le> n \<or> (\<exists>k. length s = n + length (''... <trimmed '' @ dec k @ '' chars>'')))"
| "json_bounded n v = True"

fun json_size :: "pyval \<Rightarrow> nat" where
  "json_size (VDict d) = sum_list (map (\<lambda>(k, v). json_size v) d)"
| "json_size (VList xs) = sum_list (map json_size xs)"
| "json_size (VTuple xs) = sum_list (map json_size xs)"
| "json_size (VStr s) = length s"
| "json_size _ = 0"

lemma trim_string_le [simp]: "length s \<le> limit \<Longrightarrow> trim_string limit s = s"
  by (simp add: trim_string_def)

lemma take_trim_string: "take limit (trim_string limit s) = take limit s"
  by (simp add: trim_string_def)

lemma trim_bounded: "json_bounded limit (VStr (trim_string limit s))"
  by (auto simp: trim_string_def)

lemma json_safe_bounded_aux: "json_bounded limit (json_safe limit v)"
proof (induction v rule: json_safe.induct)
  case (1 limit d)
  then show ?case by (fastforce simp: list_all_iff)
next
  case (2 limit xs)
  then show ?case by (auto simp: list_all_iff take_map dest: in_set_takeD)
next
  case (3 limit xs)
  then show ?case by (auto simp: list_all_iff take_map dest: in_set_takeD)
qed (auto simp: trim_text_def py_str_def trim_bounded simp del: json_bounded.simps(5))

text \<open>Within the limits nothing is cut.\<close>

fun json_small :: "nat \<Rightarrow> pyval \<Rightarrow> bool" where
  "json_small n (VDict d) = list_all (\<lambda>(k, v). json_small n v) d"
| "json_small n (VList xs) = (length xs \<le> 50 \<and> list_all (json_small n) xs)"
| "json_small n (VTuple xs) = False"
| "json_small n (VBytes s) = False"
| "json_small n (VStr s) = (length s \<le> n)"
| "json_small n v = True"

lemma json_safe_small: "json_small limit v \<Longrightarrow> json_safe limit v = v"
proof (induction v rule: json_safe.induct)
  case (1 limit d)
  then have "map (\<lambda>(k, v). (k, json_safe limit v)) d = map id d"
    by (intro map_cong) (fastforce simp: list_all_iff)+
  then show ?case by simp
next
  case (2 limit xs)
  then have "map (json_safe limit) xs = map id xs"
    by (intro map_cong) (auto simp: list_all_iff)
  with 2 show ?case by simp
qed (auto simp: trim_text_def)

subsection \<open>Bridge failures and envelopes\<close>

record bridge_error =
  be_code :: string
  be_message :: string
  be_retryable :: bool
  be_http_status :: "int option"
  be_endpoint :: string
  be_details :: pydict

definition bridge_error_as_dict :: "bridge_error \<Rightarrow> pydict" where
  "bridge_error_as_dict e =
     [(''code'', VStr (be_code e)), (''message'', VStr (be_message e)),
      (''retryable'', VBool (be_retryable e))]
     @ (case be_http_status e of None \<Rightarrow> [] | Some n \<Rightarrow> [(''httpStatus'', VInt n)])
     @ (if be_endpoint e \<noteq> [] then [(''endpoint'', VStr (be_endpoint e))] else [])
     @ (if be_details e \<noteq> [] then [(''details'', json_safe 1200 (VDict (be_details e)))] else [])"

record bridge_envelope =
  env_ok :: bool
  env_data :: pyval
  env_error :: "bridge_error option"
  env_meta :: pydict

definition bridge_envelope_as_dict :: "bridge_envelope \<Rightarrow> pydict" where
  "bridge_envelope_as_dict e =
     [(''ok'', VBool (env_ok e)),
      (''data'', json_safe 20000 (env_data e)),
      (''error'', (case env_error e of None \<Rightarrow> VNone | Some b \<Rightarrow> VDict (bridge_error_as_dict b))),
      (''meta'', json_safe 1200 (VDict (env_meta e)))]"

subsection \<open>Addresses and numbers\<close>

definition none_or_empty :: "pyval \<Rightarrow> bool" where
  "none_or_empty v \<longleftrightarrow> v = VNone \<or> v = VStr []"

definition parse_int :: "pyval \<Rightarrow> int option \<Rightarrow> int option" where
  "parse_int v dflt =
     (if none_or_empty v then dflt
      else (case int0 (py_str v) of Some i \<Rightarrow> Some i | None \<Rightarrow> dflt))"

text \<open>\<open>_parse_int(v, 0) or 0\<close>.\<close>

definition int_or_0 :: "pyval \<Rightarrow> int" where
  "int_or_0 v = (case parse_int v (Some 0) of Some i \<Rightarrow> i | None \<Rightarrow> 0)"

definition normalize_hex :: "pyval \<Rightarrow> string option" where
  "normalize_hex v =
     (if none_or_empty v then None
      else (case int0 (py_str v) of
              Some i \<Rightarrow> Some (hex0x i)
            | None \<Rightarrow> Some (lower (strip (py_str v)))))"

lemma none_or_empty_simps [simp]:
  "none_or_empty VNone" "none_or_empty (VStr s) \<longleftrightarrow> s = []" "\<not> none_or_empty (VInt i)"
  by (auto simp: none_or_empty_def)

lemma hex0x_nonempty [simp]: "hex0x i \<noteq> []"
  by (simp add: hex0x_def)

lemma normalize_hex_hex0x [simp]: "0 \<le> i \<Longrightarrow> normalize_hex (VStr (hex0x i)) = Some (hex0x i)"
  by (simp add: normalize_hex_def)

lemma hex0x_inj: "0 \<le> i \<Longrightarrow> 0 \<le> j \<Longrightarrow> hex0x i = hex0x j \<Longrightarrow> i = j"
  by (metis int0_hex0x option.inject)

lemma parse_int_VInt: "printable_dec i \<Longrightarrow> parse_int (VInt i) d = Some i"
  by (simp add: parse_int_def int0_dec)

lemma normalize_hex_same_iff:
  assumes "int0 s = Some i" "int0 t = Some j" "0 \<le> i" "0 \<le> j" "s \<noteq> []" "t \<noteq> []"
  shows "normalize_hex (VStr s) = normalize_hex (VStr t) \<longleftrightarrow> i = j"
  using assms by (auto simp: normalize_hex_def dest: hex0x_inj)

end
