(* ===== verification/ExceptionPolicy.thy ===== *)
theory ExceptionPolicy
  imports Contracts
begin

text \<open>
  The exception policy of \<open>src/runtime_sections/00_bootstrap_and_session.py\<close>: the reader
  that turns the public rule JSON into the canonical rules sent to the native bridge, and the
  legacy filter adapter of the pause loop. The JSON decoder is the argument \<open>loads\<close>
  (\<open>Inl\<close> the text of its exception); the process state \<open>_RUNTIME_STATE\<close> is the dictionary
  \<open>rt\<close>. A rejected document is \<open>Inl (PolicyError code text)\<close>; the one conversion that can
  raise is \<open>Inl (PolicyRaise e)\<close>.
\<close>

subsection \<open>Codes, actions and chances\<close>

definition strip_quotes :: "string \<Rightarrow> string" where
  "strip_quotes s = strip_char (CHR 0x27) (strip_char (CHR 0x22) (strip s))"

definition low32 :: "int \<Rightarrow> int" where
  "low32 i = i AND 0xFFFFFFFF"

definition normalize_exception_code :: "pyval \<Rightarrow> string" where
  "normalize_exception_code code =
     (let raw = strip_quotes (str_or_empty code) in
      case parse_int (VStr raw) None of
        Some parsed \<Rightarrow> hex0x (low32 parsed)
      | None \<Rightarrow> lower raw)"

definition rule_id_ok :: "string \<Rightarrow> bool" where
  "rule_id_ok s \<longleftrightarrow> 1 \<le> length s \<and> length s \<le> 64 \<and>
     list_all (\<lambda>c. is_ascii_alnum c \<or> c \<in> set ''_.:-'') s"

definition action_aliases :: "(string \<times> string) list" where
  "action_aliases =
     [(''pause'', ''pause''), (''stop'', ''pause''), (''handled'', ''handled''),
      (''handle'', ''handled''), (''swallow'', ''handled''), (''skip'', ''handled''),
      (''not_handled'', ''not_handled''), (''not-handled'', ''not_handled''),
      (''pass'', ''not_handled'')]"

definition chance_aliases :: "(string \<times> string) list" where
  "chance_aliases =
     [(''any'', ''any''), (''all'', ''any''), (''both'', ''any''), (''first'', ''first''),
      (''first_chance'', ''first''), (''first-chance'', ''first''), (''second'', ''second''),
      (''second_chance'', ''second''), (''second-chance'', ''second'')]"

definition normalize_action :: "pyval \<Rightarrow> string option" where
  "normalize_action v = map_of action_aliases (lower (strip (str_or_empty v)))"

definition normalize_chance :: "pyval \<Rightarrow> string option" where
  "normalize_chance v = map_of chance_aliases (lower (strip (py_str (py_or v (VStr ''any'')))))"

subsection \<open>Selectors\<close>

definition masked_selector :: "int \<Rightarrow> int \<Rightarrow> string option" where
  "masked_selector value msk =
     (if \<not> (0 \<le> value \<and> value \<le> 0xFFFFFFFF \<and> 0 < msk \<and> msk \<le> 0xFFFFFFFF) then None
      else if msk = 0xFFFFFFFF then Some (hex08 (nat value))
      else Some (hex08 (nat (value AND msk)) @ ''/'' @ hex08 (nat msk)))"

fun normalize_selector :: "pyval \<Rightarrow> string option" where
  "normalize_selector (VDict d) =
     (let raw_value = dict_get_default d ''value'' (dict_get d ''code'');
          raw_mask = dict_get d ''mask''
      in if raw_value = VNone \<or> raw_mask = VNone then None
         else (case (parse_int (VStr (strip (py_str raw_value))) None,
                     parse_int (VStr (strip (py_str raw_mask))) None) of
                 (Some value, Some msk) \<Rightarrow> masked_selector value msk
               | _ \<Rightarrow> None))"
| "normalize_selector (VBool b) = None"
| "normalize_selector (VInt i) =
     (if 0 \<le> i \<and> i \<le> 0xFFFFFFFF then Some (hex08 (nat i)) else None)"
| "normalize_selector v =
     (let raw = strip_quotes (str_or_empty v) in
      if raw \<in> {''*'', ''any'', ''default''} then Some ''*''
      else if CHR ''/'' \<in> set raw then
        (let (l, r) = split_once (CHR ''/'') raw in
         case (parse_int (VStr (strip l)) None, parse_int (VStr (strip r)) None) of
           (Some value, Some msk) \<Rightarrow> masked_selector value msk
         | _ \<Rightarrow> None)
      else (case parse_int (VStr raw) None of
              Some i \<Rightarrow> (if 0 \<le> i \<and> i \<le> 0xFFFFFFFF then Some (hex08 (nat i)) else None)
            | None \<Rightarrow> None))"

subsection \<open>Rules\<close>

record policy_rule =
  rule_id :: string
  codes :: "string list"
  chance :: string
  action :: string
  priority :: int
  enabled :: bool

datatype policy_failure = PolicyError string string | PolicyRaise pyexn

fun collect_selectors :: "string \<Rightarrow> pyval list \<Rightarrow> string list \<Rightarrow> policy_failure + string list" where
  "collect_selectors rid [] acc = Inr acc"
| "collect_selectors rid (raw # rest) acc =
     (case normalize_selector raw of
        None \<Rightarrow> Inl (PolicyError ''INVALID_EXCEPTION_POLICY_SELECTOR''
          (''Rule '' @ rid @ '' contains an invalid selector: '' @ py_repr raw))
      | Some s \<Rightarrow> collect_selectors rid rest (if s \<in> set acc then acc else acc @ [s]))"

text \<open>The text form of a priority: \<open>-?(?:0|[1-9][0-9]*)\<close>.\<close>

definition priority_text_ok :: "string \<Rightarrow> bool" where
  "priority_text_ok s =
     (let t = (case s of c # u \<Rightarrow> if c = CHR ''-'' then u else s | [] \<Rightarrow> s)
      in t \<noteq> [] \<and> list_all is_digit t \<and> (t = ''0'' \<or> hd t \<noteq> CHR ''0''))"

definition read_priority :: "string \<Rightarrow> pyval \<Rightarrow> policy_failure + int" where
  "read_priority rid raw =
     (let bad = Inl (PolicyError ''INVALID_EXCEPTION_POLICY_PRIORITY''
                  (''Rule '' @ rid @ '' priority must be an integer''))
      in case raw of
           VInt i \<Rightarrow> Inr i
         | VStr s \<Rightarrow> (if priority_text_ok (strip s)
                      then (case int10 (strip s) of
                              Some i \<Rightarrow> Inr i | None \<Rightarrow> Inl (PolicyRaise ValueError))
                      else bad)
         | _ \<Rightarrow> bad)"

definition raw_rule_codes :: "pydict \<Rightarrow> pyval list" where
  "raw_rule_codes r =
     (let raw = dict_get_default r ''codes'' (dict_get r ''code'');
          raw' = (if \<not> has_key r ''codes'' \<and> has_key r ''mask''
                     \<and> (has_key r ''code'' \<or> has_key r ''value'')
                  then VList [VDict [(''value'', dict_get_default r ''value'' (dict_get r ''code'')),
                                     (''mask'', dict_get r ''mask'')]]
                  else raw)
      in case raw' of VList xs \<Rightarrow> xs | v \<Rightarrow> [v])"

definition normalize_rule_body :: "string \<Rightarrow> pydict \<Rightarrow> policy_failure + policy_rule" where
  "normalize_rule_body rid r =
     (let raw_codes = raw_rule_codes r in
      if raw_codes = [] \<or> length raw_codes > 32 then
        Inl (PolicyError ''INVALID_EXCEPTION_POLICY_SELECTORS''
          (''Rule '' @ rid @ '' must contain between 1 and 32 selectors''))
      else (case collect_selectors rid raw_codes [] of Inl e \<Rightarrow> Inl e | Inr selectors \<Rightarrow>
       (case normalize_chance (dict_get_default r ''chance'' (VStr ''any'')) of
          None \<Rightarrow> Inl (PolicyError ''INVALID_EXCEPTION_POLICY_CHANCE''
            (''Rule '' @ rid @ '' chance must be first, second, or any''))
        | Some ch \<Rightarrow>
       (case normalize_action (dict_get_default r ''action'' (VStr ''pause'')) of
          None \<Rightarrow> Inl (PolicyError ''INVALID_EXCEPTION_POLICY_ACTION''
            (''Rule '' @ rid @ '' action must be pause, handled, or not_handled''))
        | Some act \<Rightarrow>
       (case read_priority rid (dict_get_default r ''priority'' (VInt 0)) of
          Inl e \<Rightarrow> Inl e
        | Inr prio \<Rightarrow>
          if prio < -100000 \<or> prio > 100000 then
            Inl (PolicyError ''INVALID_EXCEPTION_POLICY_PRIORITY''
              (''Rule '' @ rid @ '' priority must be between -100000 and 100000''))
          else (case dict_get_default r ''enabled'' (VBool True) of
                  VBool en \<Rightarrow> Inr \<lparr>rule_id = rid, codes = selectors, chance = ch,
                                   action = act, priority = prio, enabled = en\<rparr>
                | _ \<Rightarrow> Inl (PolicyError ''INVALID_EXCEPTION_POLICY_ENABLED''
                         (''Rule '' @ rid @ '' enabled must be a JSON boolean''))))))))"

definition raw_rule_id :: "nat \<Rightarrow> pydict \<Rightarrow> string" where
  "raw_rule_id index r =
     strip (py_str (dict_get_default r ''ruleId''
       (dict_get_default r ''id'' (VStr (''rule-'' @ dec (int index + 1))))))"

definition bad_rule_object :: "nat \<Rightarrow> policy_failure" where
  "bad_rule_object index = PolicyError ''INVALID_EXCEPTION_POLICY_RULE''
     (''Rule '' @ dec (int index) @ '' must be an object'')"

definition bad_rule_id :: "nat \<Rightarrow> policy_failure" where
  "bad_rule_id index = PolicyError ''INVALID_EXCEPTION_POLICY_RULE_ID''
     (''Rule '' @ dec (int index) @ '' has an invalid ruleId; use 1-64 ASCII letters, '' @
      ''digits, dot, underscore, colon or dash'')"

fun normalize_rule_list ::
  "nat \<Rightarrow> string list \<Rightarrow> pyval list \<Rightarrow> policy_rule list \<Rightarrow> policy_failure + policy_rule list" where
  "normalize_rule_list index seen [] acc = Inr acc"
| "normalize_rule_list index seen (raw # rest) acc =
     (case raw of
        VDict r \<Rightarrow>
          (let rid = raw_rule_id index r
           in if \<not> rule_id_ok rid then Inl (bad_rule_id index)
              else if casefold rid \<in> set seen then
                Inl (PolicyError ''DUPLICATE_EXCEPTION_POLICY_RULE_ID''
                  (''Duplicate exception policy ruleId: '' @ rid))
              else (case normalize_rule_body rid r of
                      Inl e \<Rightarrow> Inl e
                    | Inr rule \<Rightarrow>
                        normalize_rule_list (Suc index) (casefold rid # seen) rest (acc @ [rule])))
      | _ \<Rightarrow> Inl (bad_rule_object index))"

definition normalize_exception_policy_rules ::
  "(string \<Rightarrow> string + pyval) \<Rightarrow> string \<Rightarrow> policy_failure + policy_rule list" where
  "normalize_exception_policy_rules loads rules_json =
     (case (if strip rules_json \<noteq> [] then loads rules_json else Inr (VList [])) of
        Inl exc \<Rightarrow> Inl (PolicyError ''INVALID_EXCEPTION_POLICY_JSON''
          (''rules_json is not valid JSON: '' @ exc))
      | Inr decoded \<Rightarrow>
          (let decoded' = (case decoded of
                 VDict d \<Rightarrow> if has_key d ''rules'' then dict_get d ''rules'' else VList [VDict d]
               | v \<Rightarrow> v)
           in case decoded' of
                VList raw_rules \<Rightarrow>
                  (if length raw_rules > 64 then
                     Inl (PolicyError ''EXCEPTION_POLICY_TOO_LARGE''
                       ''At most 64 exception policy rules are allowed'')
                   else normalize_rule_list 0 [] raw_rules [])
              | _ \<Rightarrow> Inl (PolicyError ''INVALID_EXCEPTION_POLICY''
                  ''rules_json must encode a rule object or an array of rules'')))"

text \<open>The reply of the validator, as the caller sees it.\<close>

definition rule_as_dict :: "policy_rule \<Rightarrow> pydict" where
  "rule_as_dict r =
     [(''ruleId'', VStr (rule_id r)), (''codes'', VList (map VStr (codes r))),
      (''chance'', VStr (chance r)), (''action'', VStr (action r)),
      (''priority'', VInt (priority r)), (''enabled'', VBool (enabled r))]"

fun policy_reply :: "policy_failure + policy_rule list \<Rightarrow> pyexn + pydict" where
  "policy_reply (Inl (PolicyError c t)) =
     Inr [(''ok'', VBool False), (''errorCode'', VStr c), (''error'', VStr t)]"
| "policy_reply (Inl (PolicyRaise e)) = Inl e"
| "policy_reply (Inr rules) =
     Inr [(''ok'', VBool True), (''rules'', VList (map (VDict \<circ> rule_as_dict) rules)),
          (''count'', VInt (int (length rules)))]"

subsection \<open>The legacy filter adapter\<close>

definition get_exception_filters :: "pydict \<Rightarrow> pydict list" where
  "get_exception_filters rt =
     (case dict_get_default rt ''exceptionFilters'' (VList []) of
        VList items \<Rightarrow> map as_dict (filter is_dict items)
      | _ \<Rightarrow> [])"

definition native_policy_active :: "pydict \<Rightarrow> bool" where
  "native_policy_active rt \<longleftrightarrow>
     (let bridge_identity = dict_get_default rt ''bridgeIdentity'' (VDict []);
          capabilities = as_dict (dict_get (as_dict bridge_identity) ''capabilities'')
      in truthy (dict_get_default rt ''nativeExceptionPolicyActive'' (VBool False))
         \<or> is_dict (dict_get capabilities ''exceptionPolicy''))"

definition filter_accepts :: "string \<Rightarrow> bool \<Rightarrow> pydict \<Rightarrow> bool" where
  "filter_accepts code first_chance entry \<longleftrightarrow>
     (let codes = (case dict_get entry ''codes'' of VList xs \<Rightarrow> xs | _ \<Rightarrow> []);
          normalized = filter (\<lambda>c. c \<noteq> []) (map normalize_exception_code codes)
      in (normalized = [] \<or> code \<in> set normalized) \<and>
         \<not> (truthy (dict_get entry ''firstChanceOnly'') \<and> \<not> first_chance))"

definition match_exception_filter :: "pydict \<Rightarrow> pyval \<Rightarrow> pydict option" where
  "match_exception_filter rt state =
     (if native_policy_active rt then None
      else if \<not> is_dict state then None
      else
        (let session = as_dict (dict_get (as_dict state) ''session'');
             code = normalize_exception_code (dict_get session ''exceptionCode'');
             first_chance = truthy (dict_get session ''exceptionFirstChance'')
         in if code = [] \<or> code = ''0x0'' then None
            else (case filter (filter_accepts code first_chance) (get_exception_filters rt) of
                    [] \<Rightarrow> None
                  | entry # _ \<Rightarrow>
                      Some (AList.update ''exceptionFirstChance'' (VBool first_chance)
                             (AList.update ''matchedCode'' (VStr code) entry)))))"

definition should_auto_continue_filtered_exception :: "pyval \<Rightarrow> pydict option \<Rightarrow> bool" where
  "should_auto_continue_filtered_exception state matched =
     (case matched of
        None \<Rightarrow> False
      | Some m \<Rightarrow>
          if \<not> is_dict state \<or> m = [] \<or> \<not> truthy (dict_get (as_dict state) ''paused'') then False
          else (let act = lower (strip (py_str (py_or (dict_get m ''action'') (VStr ''skip''))))
                in if act = ''stop'' then False
                   else if act = ''pass'' then truthy (dict_get m ''exceptionFirstChance'')
                   else act = ''skip''))"

subsection \<open>What a selector denotes\<close>

text \<open>
  A canonical selector text stands for a set of 32-bit exception codes: all of them, one, or
  the codes that agree with a value on the bits of a mask.
\<close>

datatype selector = AnyCode | ExactCode "32 word" | MaskedCode "32 word" "32 word"

fun render_selector :: "selector \<Rightarrow> string" where
  "render_selector AnyCode = ''*''"
| "render_selector (ExactCode c) = hex08 (unat c)"
| "render_selector (MaskedCode v m) = hex08 (unat v) @ ''/'' @ hex08 (unat m)"

fun canonical_selector :: "selector \<Rightarrow> bool" where
  "canonical_selector (MaskedCode v m) = (m \<noteq> 0 \<and> m \<noteq> - 1 \<and> v AND m = v)"
| "canonical_selector _ = True"

fun selector_matches :: "selector \<Rightarrow> 32 word \<Rightarrow> bool" where
  "selector_matches AnyCode x = True"
| "selector_matches (ExactCode c) x = (x = c)"
| "selector_matches (MaskedCode v m) x = (x AND m = v)"

lemma nat_unat32: "0 \<le> i \<Longrightarrow> i \<le> 0xFFFFFFFF \<Longrightarrow> nat i = unat (word_of_int i :: 32 word)"
proof -
  assume "0 \<le> i" "i \<le> 0xFFFFFFFF"
  then have "take_bit 32 i = i" by (intro take_bit_int_eq_self) auto
  then show ?thesis by (simp only: unat_eq_nat_uint uint_word_of_int_eq) simp
qed

lemma and_range:
  "0 \<le> i \<Longrightarrow> 0 \<le> j \<Longrightarrow> j \<le> 0xFFFFFFFF \<Longrightarrow> 0 \<le> i AND j \<and> i AND j \<le> (0xFFFFFFFF::int)"
  using AND_upper2 [of j i] by auto

lemma unat32_bound: "unat (w :: 32 word) \<le> 4294967295"
  using unsigned_less [of w, where 'a = nat] by simp

lemma unat32_le: "int (unat (w :: 32 word)) \<le> 0xFFFFFFFF"
  using unat32_bound [of w] by linarith

lemma unat32_max: "int (unat (w :: 32 word)) = 0xFFFFFFFF \<longleftrightarrow> w = - 1"
proof -
  have "unat (- 1 :: 32 word) = 4294967295" by (simp add: unsigned_minus_1_eq_mask mask_eq_exp_minus_1)
  moreover have "int (unat w) = 0xFFFFFFFF \<longleftrightarrow> unat w = 4294967295" by linarith
  ultimately show ?thesis by (metis word_unat_eq_iff)
qed

lemma unat32_pos: "0 < int (unat (w :: 32 word)) \<longleftrightarrow> w \<noteq> 0"
  by (metis of_nat_0_less_iff neq0_conv unat_eq_0 unsigned_0)

lemma masked_selector_words:
  "masked_selector (int (unat v)) (int (unat m)) =
     (if m = 0 then None
      else if m = - 1 then Some (render_selector (ExactCode v))
      else Some (render_selector (MaskedCode (v AND m) m)))"
proof -
  have "int (unat v) AND int (unat m) = int (unat (v AND m))"
    by (simp only: of_nat_and_eq unsigned_and_eq)
  then show ?thesis
    by (simp only: masked_selector_def unat32_le unat32_max unat32_pos of_nat_0_le_iff nat_int
         render_selector.simps simp_thms if_not_P append.simps split: if_split)
qed

lemma in_range32: "0 \<le> i \<Longrightarrow> i \<le> 0xFFFFFFFF \<Longrightarrow> \<exists>w :: 32 word. i = int (unat w)"
  using nat_unat32 [of i] by (intro exI [of _ "word_of_int i"]) linarith

lemma masked_selector_in_range:
  assumes "masked_selector value msk = Some s"
  shows "\<exists>(v :: 32 word) (m :: 32 word). value = int (unat v) \<and> msk = int (unat m)"
proof -
  from assms have "0 \<le> value" "value \<le> 0xFFFFFFFF" "0 \<le> msk" "msk \<le> 0xFFFFFFFF"
    by (auto simp: masked_selector_def split: if_splits)
  then show ?thesis using in_range32 [of "value"] in_range32 [of msk] by blast
qed

lemma masked_selector_denotes:
  assumes "masked_selector value msk = Some s"
  shows "\<exists>sel. canonical_selector sel \<and> s = render_selector sel"
proof -
  from masked_selector_in_range [OF assms] obtain v m :: "32 word"
    where vm: "value = int (unat v)" "msk = int (unat m)" by blast
  from assms have "m \<noteq> 0 \<and> s = render_selector (if m = - 1 then ExactCode v else MaskedCode (v AND m) m)"
    unfolding vm masked_selector_words by (auto split: if_splits)
  then show ?thesis
    by (intro exI conjI) (auto simp: and.assoc)
qed

lemma plain_code_denotes:
  "(if 0 \<le> i \<and> i \<le> 0xFFFFFFFF then Some (hex08 (nat i)) else None) = Some s \<Longrightarrow>
   \<exists>sel. canonical_selector sel \<and> s = render_selector sel"
  using in_range32 [of i] by (metis canonical_selector.simps(3) nat_int option.inject option.simps(3) render_selector.simps(2))

lemma normalize_selector_denotes:
  assumes "normalize_selector v = Some s"
  shows "\<exists>sel. canonical_selector sel \<and> s = render_selector sel"
  using assms
  by (cases v rule: normalize_selector.cases)
     (auto simp: Let_def split: if_splits option.splits prod.splits
       intro: masked_selector_denotes plain_code_denotes exI [of _ AnyCode])

text \<open>The printed codes contain neither quotes nor a slash, so the reader finds them again.\<close>

definition hexish_char :: "char \<Rightarrow> bool" where
  "hexish_char c \<longleftrightarrow> c = CHR ''x'' \<or> cp c \<in> {48..57} \<union> {97..122}"

definition hexish :: "string \<Rightarrow> bool" where
  "hexish s \<longleftrightarrow> list_all hexish_char s"

lemma hexish_char_zero: "hexish_char (CHR ''0'')" "hexish_char (CHR ''x'')"
  by (simp_all add: hexish_char_def)

lemma hexish_hex08 [simp]: "hexish (hex08 n)"
proof -
  have "list_all hexish_char (to_base 16 n)"
    using hex_like_to_base [of 16 n] by (simp add: hex_like_def list_all_iff hexish_char_def)
  then show ?thesis
    by (auto simp: hexish_def hex08_def zero_pad_def list_all_iff hexish_char_zero)
qed

lemma not_hexish_char: "\<not> hexish_char (CHR ''/'')" "\<not> hexish_char (CHR 0x22)" "\<not> hexish_char (CHR 0x27)"
  by (simp_all add: hexish_char_def)

lemma hexish_no_slash: "hexish s \<Longrightarrow> CHR ''/'' \<notin> set s"
  unfolding hexish_def list_all_iff using not_hexish_char by blast

lemma hexish_char_graphic: "hexish_char c \<Longrightarrow> 33 \<le> cp c \<and> cp c \<le> 126"
  unfolding hexish_char_def by (elim disjE) auto

lemma hexish_graphic: "hexish s \<Longrightarrow> graphic s"
  unfolding hexish_def graphic_def list_all_iff using hexish_char_graphic by blast

lemma strip_quotes_plain:
  assumes "graphic s" "CHR 0x22 \<notin> set s" "CHR 0x27 \<notin> set s"
  shows "strip_quotes s = s"
proof -
  have "strip_char (CHR 0x22) s = s" "strip_char (CHR 0x27) s = s"
    unfolding strip_char_def using assms by (auto intro!: strip_with_none)
  with assms show ?thesis by (simp add: strip_quotes_def)
qed

lemma hexish_quotes: "hexish s \<Longrightarrow> CHR 0x22 \<notin> set s \<and> CHR 0x27 \<notin> set s"
  unfolding hexish_def list_all_iff using not_hexish_char by blast

lemma split_once_at: "c \<notin> set s \<Longrightarrow> split_once c (s @ c # t) = (s, t)"
  by (induction s) (auto simp: split_once_def)

lemma hex08_nonempty [simp]: "hex08 n \<noteq> []"
  by (simp add: hex08_def)

lemma hex08_not_word: "hex08 n \<noteq> ''*''" "hex08 n \<noteq> ''any''" "hex08 n \<noteq> ''default''"
  "hex08 n @ s \<noteq> ''*''" "hex08 n @ s \<noteq> ''any''" "hex08 n @ s \<noteq> ''default''"
  by (simp_all add: hex08_def)

lemma parse_int_hex08 [simp]: "parse_int (VStr (hex08 n)) d = Some (int n)"
  by (simp add: parse_int_def)

lemma normalize_selector_hex08:
  "n \<le> 4294967295 \<Longrightarrow> normalize_selector (VStr (hex08 n)) = Some (hex08 n)"
  by (simp add: strip_quotes_plain hexish_graphic hexish_quotes hexish_no_slash hex08_not_word)

lemma normalize_selector_pair:
  "normalize_selector (VStr (hex08 n @ ''/'' @ hex08 k)) = masked_selector (int n) (int k)"
proof -
  let ?s = "hex08 n @ ''/'' @ hex08 k"
  have "strip_quotes ?s = ?s"
    by (intro strip_quotes_plain) (auto simp: hexish_graphic hexish_quotes)
  moreover have "split_once (CHR ''/'') ?s = (hex08 n, hex08 k)"
    using split_once_at [of "CHR ''/''" "hex08 n" "hex08 k"] by (simp add: hexish_no_slash)
  ultimately show ?thesis
    by (simp add: hex08_not_word hexish_graphic)
qed

lemma normalize_selector_render:
  assumes "canonical_selector sel"
  shows "normalize_selector (VStr (render_selector sel)) = Some (render_selector sel)"
proof (cases sel)
  case AnyCode
  then show ?thesis by (simp add: strip_quotes_plain)
next
  case (ExactCode c)
  then show ?thesis by (simp only: render_selector.simps normalize_selector_hex08 unat32_bound)
next
  case (MaskedCode v m)
  with assms have "masked_selector (int (unat v)) (int (unat m)) = Some (render_selector sel)"
    by (simp only: masked_selector_words) simp
  with MaskedCode show ?thesis by (simp only: render_selector.simps normalize_selector_pair)
qed

interpretation selector_norm: normalizer normalize_selector VStr
  by unfold_locales (metis normalize_selector_denotes normalize_selector_render)

lemma normalize_action_range:
  "normalize_action v = Some y \<Longrightarrow> y \<in> {''pause'', ''handled'', ''not_handled''}"
  unfolding normalize_action_def action_aliases_def by (drule map_of_SomeD) auto

lemma normalize_chance_range:
  "normalize_chance v = Some y \<Longrightarrow> y \<in> {''any'', ''first'', ''second''}"
  unfolding normalize_chance_def chance_aliases_def by (drule map_of_SomeD) auto

lemma normalize_action_names:
  "normalize_action (VStr ''pause'') = Some ''pause''"
  "normalize_action (VStr ''handled'') = Some ''handled''"
  "normalize_action (VStr ''not_handled'') = Some ''not_handled''"
  by code_simp+

lemma normalize_chance_names:
  "normalize_chance (VStr ''any'') = Some ''any''"
  "normalize_chance (VStr ''first'') = Some ''first''"
  "normalize_chance (VStr ''second'') = Some ''second''"
  by code_simp+

interpretation action_norm: normalizer normalize_action VStr
  by unfold_locales (use normalize_action_range normalize_action_names in fastforce)

interpretation chance_norm: normalizer normalize_chance VStr
  by unfold_locales (use normalize_chance_range normalize_chance_names in fastforce)

lemma hex08_inj: "hex08 n = hex08 k \<Longrightarrow> n = k"
  by (metis int0_hex08 option.inject of_nat_eq_iff)

lemma render_pair_inj:
  assumes "hex08 v @ ''/'' @ hex08 m = hex08 v' @ ''/'' @ hex08 m'"
  shows "v = v' \<and> m = m'"
proof -
  have "split_once (CHR ''/'') (hex08 n @ CHR ''/'' # hex08 k) = (hex08 n, hex08 k)" for n k
    by (rule split_once_at) (simp add: hexish_no_slash)
  with assms have "hex08 v = hex08 v' \<and> hex08 m = hex08 m'"
    by (metis Pair_inject append_Cons append_Nil)
  then show ?thesis by (blast dest: hex08_inj)
qed

lemma hex08_not_pair: "hex08 n \<noteq> hex08 k @ CHR ''/'' # s"
proof -
  have "CHR ''/'' \<notin> set (hex08 n)" by (simp add: hexish_no_slash)
  then show ?thesis by (metis in_set_conv_decomp)
qed

lemma render_selector_inj: "render_selector a = render_selector b \<Longrightarrow> a = b"
  by (cases a; cases b)
     (auto simp: hex08_not_word hex08_not_word [symmetric] hex08_not_pair hex08_not_pair [symmetric]
       word_unat_eq_iff dest: hex08_inj dest!: render_pair_inj [simplified])

lemma mask_included:
  fixes v m m' :: "32 word"
  assumes "v AND m = v" "(v OR NOT m) AND m' = v"
  shows "m' AND m = m'"
proof (rule bit_word_eqI)
  fix n assume "n < LENGTH(32)"
  then show "bit (m' AND m) n \<longleftrightarrow> bit m' n"
    using arg_cong [OF assms(1), of "\<lambda>w. bit w n"] arg_cong [OF assms(2), of "\<lambda>w. bit w n"]
    by (auto simp: bit_simps)
qed

lemma mask_full:
  fixes v m :: "32 word"
  assumes "v AND m = v" "v OR NOT m = v"
  shows "m = - 1"
proof (rule bit_word_eqI)
  fix n assume "n < LENGTH(32)"
  then show "bit m n \<longleftrightarrow> bit (- 1 :: 32 word) n"
    using arg_cong [OF assms(1), of "\<lambda>w. bit w n"] arg_cong [OF assms(2), of "\<lambda>w. bit w n"]
    by (auto simp: bit_simps)
qed

lemma match_free_bits: "v AND m = (v :: 32 word) \<Longrightarrow> (v OR NOT m) AND m = v"
  by (simp add: bit.conj_disj_distrib2)

lemma masked_not_any: "m \<noteq> 0 \<Longrightarrow> \<exists>x. x AND m \<noteq> (v :: 32 word)"
  by (metis and.left_neutral bit.conj_zero_left)

lemma masked_not_exact:
  "m \<noteq> - 1 \<Longrightarrow> v AND m = (v :: 32 word) \<Longrightarrow> \<exists>x. (x = c) \<noteq> (x AND m = v)"
  by (metis mask_full match_free_bits)

lemma masked_same:
  assumes v: "v AND m = (v :: 32 word)" "v' AND m' = v'"
    and eq: "\<And>x. x AND m = v \<longleftrightarrow> x AND m' = v'"
  shows "v = v' \<and> m = m'"
proof -
  have w: "v AND m' = v'" "v' AND m = v" using v eq by blast+
  then have "v' = v AND v'" by (metis and.assoc and.idem)
  moreover have "v = v' AND v" using w by (metis and.assoc and.idem)
  ultimately have vv: "v = v'" by (simp only: and.commute)
  have "m' AND m = m'"
    by (rule mask_included [OF v(1)]) (use eq match_free_bits [OF v(1)] vv in blast)
  moreover have "m AND m' = m"
    by (rule mask_included [OF v(2)]) (use eq match_free_bits [OF v(2)] vv in blast)
  ultimately show ?thesis using vv by (simp only: and.commute)
qed

lemma single_not_any: "\<exists>x. x \<noteq> (c :: 32 word)"
  by (rule exI [of _ "c + 1"]) simp

definition same_codes :: "selector \<Rightarrow> selector \<Rightarrow> bool" where
  "same_codes a b \<longleftrightarrow> (\<forall>x. selector_matches a x \<longleftrightarrow> selector_matches b x)"

lemma same_codes_sym: "same_codes a b \<longleftrightarrow> same_codes b a"
  by (auto simp: same_codes_def)

lemma same_codes_cases:
  "\<not> same_codes AnyCode (ExactCode c)"
  "canonical_selector (MaskedCode v m) \<Longrightarrow> \<not> same_codes AnyCode (MaskedCode v m)"
  "same_codes (ExactCode c) (ExactCode d) \<longleftrightarrow> c = d"
  "canonical_selector (MaskedCode v m) \<Longrightarrow> \<not> same_codes (ExactCode c) (MaskedCode v m)"
  using single_not_any [of c] masked_not_any [of m v] masked_not_exact [of m v c]
  by (auto simp: same_codes_def)

lemma same_codes_masked:
  "canonical_selector (MaskedCode v m) \<Longrightarrow> canonical_selector (MaskedCode w k) \<Longrightarrow>
   same_codes (MaskedCode v m) (MaskedCode w k) \<Longrightarrow> v = w \<and> m = k"
  unfolding same_codes_def using masked_same [of v m w k] by simp

lemma same_codes_refl: "same_codes a a"
  by (simp add: same_codes_def)

lemma canonical_selector_unique:
  assumes "canonical_selector a" "canonical_selector b"
  shows "same_codes a b \<longleftrightarrow> a = b"
proof
  assume same: "same_codes a b"
  then have same': "same_codes b a" by (simp only: same_codes_sym [of b])
  show "a = b"
  proof (cases a)
    case AnyCode
    with assms same same_codes_cases(1,2) show ?thesis by (cases b) blast+
  next
    case (ExactCode c)
    with assms same same' same_codes_cases(1,3,4) show ?thesis by (cases b) blast+
  next
    case (MaskedCode v m)
    with assms same same' same_codes_cases(2,4) same_codes_masked show ?thesis by (cases b) blast+
  qed
qed (simp add: same_codes_refl)

end
