(* ===== verification/ExceptionRules.thy ===== *)
theory ExceptionRules
  imports ExceptionPolicy
begin

text \<open>
  What the exception policy reader promises: which documents are accepted, the form of an
  accepted rule, that an accepted policy is read again unchanged, and the first-match
  behaviour of the legacy filters.
\<close>

subsection \<open>Well-formed policies\<close>

definition canonical_code_text :: "string \<Rightarrow> bool" where
  "canonical_code_text s \<longleftrightarrow> normalize_selector (VStr s) = Some s"

definition rule_wf :: "policy_rule \<Rightarrow> bool" where
  "rule_wf r \<longleftrightarrow> rule_id_ok (rule_id r)
     \<and> 1 \<le> length (codes r) \<and> length (codes r) \<le> 32 \<and> distinct (codes r)
     \<and> list_all canonical_code_text (codes r)
     \<and> chance r \<in> {''any'', ''first'', ''second''}
     \<and> action r \<in> {''pause'', ''handled'', ''not_handled''}
     \<and> -100000 \<le> priority r \<and> priority r \<le> 100000"

definition folded_id :: "policy_rule \<Rightarrow> string" where
  "folded_id r = casefold (rule_id r)"

definition policy_wf :: "policy_rule list \<Rightarrow> bool" where
  "policy_wf rules \<longleftrightarrow> length rules \<le> 64 \<and> list_all rule_wf rules
     \<and> distinct (map (folded_id) rules)"

lemma canonical_code_textI: "normalize_selector v = Some s \<Longrightarrow> canonical_code_text s"
  unfolding canonical_code_text_def by (rule selector_norm.norm_embed)

lemma collect_selectors_wf:
  "collect_selectors rid raws acc = Inr out \<Longrightarrow> distinct acc \<Longrightarrow> list_all canonical_code_text acc \<Longrightarrow>
   distinct out \<and> list_all canonical_code_text out \<and> length out \<le> length acc + length raws
   \<and> (raws \<noteq> [] \<longrightarrow> out \<noteq> []) \<and> set acc \<subseteq> set out"
proof (induction rid raws acc rule: collect_selectors.induct)
  case (1 rid acc)
  then show ?case by simp
next
  case (2 rid raw rest acc)
  from 2(2) obtain s where s: "normalize_selector raw = Some s"
    and rec: "collect_selectors rid rest (if s \<in> set acc then acc else acc @ [s]) = Inr out"
    by (auto split: option.splits)
  have c: "canonical_code_text s" using s by (rule canonical_code_textI)
  from 2(1) [OF s rec] 2(3,4) c show ?case by (cases "s \<in> set acc") auto
qed

lemma rule_body_cases:
  assumes "normalize_rule_body rid r = Inr rule"
  obtains sels ch act prio en where
    "collect_selectors rid (raw_rule_codes r) [] = Inr sels"
    "1 \<le> length (raw_rule_codes r)" "length (raw_rule_codes r) \<le> 32"
    "normalize_chance (dict_get_default r ''chance'' (VStr ''any'')) = Some ch"
    "normalize_action (dict_get_default r ''action'' (VStr ''pause'')) = Some act"
    "read_priority rid (dict_get_default r ''priority'' (VInt 0)) = Inr prio"
    "-100000 \<le> prio" "prio \<le> 100000"
    "dict_get_default r ''enabled'' (VBool True) = VBool en"
    "rule = \<lparr>rule_id = rid, codes = sels, chance = ch, action = act, priority = prio, enabled = en\<rparr>"
  using assms unfolding normalize_rule_body_def Let_def
  by (simp split: if_splits sum.splits option.splits pyval.splits)
     (metis Suc_leI length_greater_0_conv)

lemma rule_body_wf:
  assumes "normalize_rule_body rid r = Inr rule" "rule_id_ok rid"
  shows "rule_wf rule \<and> rule_id rule = rid"
proof -
  from assms(1) show ?thesis
  proof (cases rule: rule_body_cases)
    case (1 sels ch act prio en)
    have "distinct sels \<and> list_all canonical_code_text sels \<and> length sels \<le> length (raw_rule_codes r)
          \<and> sels \<noteq> []"
      using collect_selectors_wf [OF 1(1)] 1(2) by auto
    then have "1 \<le> length sels" "length sels \<le> 32" "distinct sels" "list_all canonical_code_text sels"
      using 1(3) by (auto simp: Suc_le_eq)
    with 1 assms(2) normalize_chance_range [OF 1(4)] normalize_action_range [OF 1(5)]
    show ?thesis by (simp add: rule_wf_def)
  qed
qed

subsection \<open>The loop over the rules\<close>

definition read_rule :: "nat \<Rightarrow> pyval \<Rightarrow> policy_rule option" where
  "read_rule index raw =
     (case raw of
        VDict r \<Rightarrow>
          if rule_id_ok (raw_rule_id index r)
          then (case normalize_rule_body (raw_rule_id index r) r of Inr rule \<Rightarrow> Some rule | Inl e \<Rightarrow> None)
          else None
      | _ \<Rightarrow> None)"

fun read_all :: "nat \<Rightarrow> pyval list \<Rightarrow> policy_rule list option" where
  "read_all index [] = Some []"
| "read_all index (raw # rest) =
     (case read_rule index raw of
        None \<Rightarrow> None
      | Some rule \<Rightarrow> map_option ((#) rule) (read_all (Suc index) rest))"

lemma read_rule_wf: "read_rule i raw = Some rule \<Longrightarrow> rule_wf rule"
  by (auto simp: read_rule_def dest: rule_body_wf split: pyval.splits if_splits sum.splits)

lemma read_all_wf: "read_all i raws = Some rules \<Longrightarrow> list_all rule_wf rules \<and> length rules = length raws"
  by (induction i raws arbitrary: rules rule: read_all.induct)
     (auto split: option.splits dest: read_rule_wf)

lemma normalize_rule_list_step:
  "normalize_rule_list i seen (raw # rest) acc = Inr out \<longleftrightarrow>
   (\<exists>rule. read_rule i raw = Some rule \<and> folded_id rule \<notin> set seen
      \<and> normalize_rule_list (Suc i) (folded_id rule # seen) rest (acc @ [rule]) = Inr out)"
proof (cases "\<exists>r. raw = VDict r \<and> rule_id_ok (raw_rule_id i r)")
  case True
  then obtain r where r: "raw = VDict r" "rule_id_ok (raw_rule_id i r)" by blast
  then show ?thesis
    by (cases "normalize_rule_body (raw_rule_id i r) r") (auto simp: read_rule_def folded_id_def Let_def dest: rule_body_wf)
next
  case False
  then show ?thesis by (cases raw) (auto simp: read_rule_def Let_def)
qed

lemma normalize_rule_list_iff:
  "normalize_rule_list i seen raws acc = Inr out \<longleftrightarrow>
   (\<exists>rules. read_all i raws = Some rules \<and> out = acc @ rules
      \<and> distinct (map (folded_id) rules)
      \<and> set (map (folded_id) rules) \<inter> set seen = {})"
proof (induction raws arbitrary: i seen acc)
  case Nil
  then show ?case by auto
next
  case (Cons raw rest)
  show ?case
  proof (cases "read_rule i raw")
    case None
    then show ?thesis by (simp only: normalize_rule_list_step) simp
  next
    case (Some rule)
    then have "normalize_rule_list i seen (raw # rest) acc = Inr out \<longleftrightarrow>
      folded_id rule \<notin> set seen
      \<and> normalize_rule_list (Suc i) (folded_id rule # seen) rest (acc @ [rule]) = Inr out"
      by (simp only: normalize_rule_list_step) simp
    with Some show ?thesis unfolding Cons.IH by (cases "read_all (Suc i) rest") (auto simp del: normalize_rule_list.simps)
  qed
qed

subsection \<open>Documents\<close>

text \<open>The list of rules a document holds, where it holds one.\<close>

definition policy_document :: "(string \<Rightarrow> string + pyval) \<Rightarrow> string \<Rightarrow> pyval list option" where
  "policy_document loads text =
     (case (if strip text = [] then Inr (VList []) else loads text) of
        Inr (VList raws) \<Rightarrow> Some raws
      | Inr (VDict d) \<Rightarrow> (if has_key d ''rules''
                          then (case dict_get d ''rules'' of VList raws \<Rightarrow> Some raws | _ \<Rightarrow> None)
                          else Some [VDict d])
      | _ \<Rightarrow> None)"

lemma normalize_rules_document:
  "normalize_exception_policy_rules loads text = Inr rules \<longleftrightarrow>
   (\<exists>raws. policy_document loads text = Some raws \<and> length raws \<le> 64
           \<and> normalize_rule_list 0 [] raws [] = Inr rules)"
proof -
  have swap: "(if strip text \<noteq> [] then loads text else Inr (VList [])) =
              (if strip text = [] then Inr (VList []) else loads text)" by simp
  show ?thesis
  proof (cases "if strip text = [] then Inr (VList []) else loads text")
    case (Inl e)
    then show ?thesis unfolding normalize_exception_policy_rules_def policy_document_def swap by simp
  next
    case (Inr v)
    then show ?thesis
      unfolding normalize_exception_policy_rules_def policy_document_def swap
      by (cases v; simp add: not_less split: pyval.split)
  qed
qed

lemma dict_get_default_Cons [simp]:
  "dict_get_default ((k, v) # d) j w = (if j = k then v else dict_get_default d j w)"
  and dict_get_default_Nil [simp]: "dict_get_default [] j w = w"
  by (auto simp: dict_get_default_def)

lemma has_key_Cons [simp]: "has_key ((k, v) # d) j \<longleftrightarrow> j = k \<or> has_key d j"
  and has_key_Nil [simp]: "\<not> has_key [] j"
  by (auto simp: has_key_def)

lemma collect_canonical:
  "list_all canonical_code_text ss \<Longrightarrow> distinct (acc @ ss) \<Longrightarrow>
   collect_selectors rid (map VStr ss) acc = Inr (acc @ ss)"
  by (induction ss arbitrary: acc) (auto simp: canonical_code_text_def simp del: normalize_selector.simps)

lemma raw_rule_id_dict: "rule_id_ok (rule_id r) \<Longrightarrow> raw_rule_id i (rule_as_dict r) = rule_id r"
proof -
  assume "rule_id_ok (rule_id r)"
  then have "graphic (rule_id r)"
    by (auto simp: rule_id_ok_def graphic_def list_all_iff is_ascii_alnum_def is_digit_def)
  then show ?thesis by (simp add: raw_rule_id_def rule_as_dict_def)
qed

lemma normalize_rule_body_dict:
  assumes "rule_wf r"
  shows "normalize_rule_body (rule_id r) (rule_as_dict r) = Inr r"
proof -
  from assms have c: "codes r \<noteq> []" "length (codes r) \<le> 32"
    "collect_selectors (rule_id r) (map VStr (codes r)) [] = Inr (codes r)"
    using collect_canonical [of "codes r" "[]"] by (auto simp: rule_wf_def)
  from assms have n: "normalize_chance (VStr (chance r)) = Some (chance r)"
    "normalize_action (VStr (action r)) = Some (action r)"
    using normalize_chance_names normalize_action_names by (auto simp: rule_wf_def)
  have "raw_rule_codes (rule_as_dict r) = map VStr (codes r)"
    by (simp add: raw_rule_codes_def rule_as_dict_def)
  with c n assms show ?thesis
    by (simp add: normalize_rule_body_def rule_as_dict_def read_priority_def rule_wf_def)
qed

lemma read_rule_dict: "rule_wf r \<Longrightarrow> read_rule i (VDict (rule_as_dict r)) = Some r"
  using normalize_rule_body_dict [of r] by (simp add: read_rule_def raw_rule_id_dict rule_wf_def)

lemma read_all_dict: "list_all rule_wf rules \<Longrightarrow> read_all i (map (VDict \<circ> rule_as_dict) rules) = Some rules"
  by (induction rules arbitrary: i) (auto simp: read_rule_dict)

lemma policy_wf_reads_back:
  assumes "policy_wf rules"
  shows "normalize_rule_list 0 [] (map (VDict \<circ> rule_as_dict) rules) [] = Inr rules"
  using assms by (simp add: normalize_rule_list_iff read_all_dict policy_wf_def)

lemma accepted_wf: "normalize_exception_policy_rules loads text = Inr rules \<Longrightarrow> policy_wf rules"
  by (auto simp: normalize_rules_document normalize_rule_list_iff policy_wf_def dest: read_all_wf)

subsection \<open>Properties\<close>

text \<open>C19: A policy document is accepted exactly when it encodes at most 64 rules, each rule on
  its own is readable, and no two rule identifiers are equal up to case; the accepted rules
  are the readings of the raw ones, in order.\<close>

theorem policy_acceptance:
  "normalize_exception_policy_rules loads text = Inr rules \<longleftrightarrow>
   (\<exists>raws. policy_document loads text = Some raws \<and> length raws \<le> 64
      \<and> read_all 0 raws = Some rules \<and> distinct (map folded_id rules))"
  by (auto simp: normalize_rules_document normalize_rule_list_iff)

text \<open>C20: An accepted policy is well formed: at most 64 rules with distinct identifiers of 1 to
  64 permitted characters, each with 1 to 32 distinct canonical selectors, a canonical chance
  and action, and a priority between -100000 and 100000.\<close>

theorem accepted_policy_wf:
  "normalize_exception_policy_rules loads text = Inr rules \<Longrightarrow> policy_wf rules"
  by (rule accepted_wf)

text \<open>A small decoder for the witnesses: one document with two rules.\<close>

lemma masked_sample: "normalize_selector (VStr ''0xE0001234/0xFFFF0000'') = Some ''0xe0000000/0xffff0000''"
  by (simp add: strip_quotes_plain split_once_def parse_int_def masked_selector_def py_eval)

lemma masked_sample': "normalize_selector (VDict [(''code'', VStr ''0xE0000000''), (''mask'', VStr ''0xffff0000'')]) = Some ''0xe0000000/0xffff0000''"
  by (simp add: dict_get_def parse_int_def masked_selector_def py_eval)
lemma exact_sample: "normalize_selector (VStr ''0xc0000005'') = Some ''0xc0000005''"
  by (simp add: strip_quotes_plain parse_int_def py_eval)

definition sample_loads :: "string \<Rightarrow> string + pyval" where
  "sample_loads s =
     (if s = ''doc'' then
        Inr (VList [VDict [(''code'', VStr ''0xc0000005''), (''action'', VStr ''Swallow'')],
                    VDict [(''id'', VStr ''msvc''), (''value'', VStr ''0xE0001234''),
                           (''mask'', VStr ''0xffff0000''), (''chance'', VStr ''first-chance''),
                           (''priority'', VStr '' -7 '')]])
      else Inl ''Expecting value'')"

definition sample_rules :: "policy_rule list" where
  "sample_rules =
     [\<lparr>rule_id = ''rule-1'', codes = [''0xc0000005''], chance = ''any'', action = ''handled'',
       priority = 0, enabled = True\<rparr>,
      \<lparr>rule_id = ''msvc'', codes = [''0xe0000000/0xffff0000''], chance = ''first'',
       action = ''pause'', priority = -7, enabled = True\<rparr>]"

lemma sample_rule_1: "read_rule 0 (VDict [(''code'', VStr ''0xc0000005''), (''action'', VStr ''Swallow'')]) = Some (hd sample_rules)"
proof -
  have "normalize_action (VStr ''Swallow'') = Some ''handled''" by code_simp
  moreover have "rule_id_ok ''rule-1''" by code_simp
  ultimately show ?thesis
    using exact_sample normalize_chance_names
    by (simp add: read_rule_def raw_rule_id_def py_eval normalize_rule_body_def raw_rule_codes_def
      read_priority_def dict_get_def sample_rules_def del: normalize_selector.simps)
qed

lemma sample_selector: "normalize_selector (VDict [(''value'', VStr ''0xE0001234''), (''mask'', VStr ''0xffff0000'')]) = Some ''0xe0000000/0xffff0000''"
  by (simp add: dict_get_def parse_int_def masked_selector_def py_eval)

lemma sample_rule_2: "read_rule (Suc 0) (VDict [(''id'', VStr ''msvc''), (''value'', VStr ''0xE0001234''),
                           (''mask'', VStr ''0xffff0000''), (''chance'', VStr ''first-chance''),
                           (''priority'', VStr '' -7 '')]) = Some (sample_rules ! 1)"
proof -
  have "normalize_chance (VStr ''first-chance'') = Some ''first''" by code_simp
  moreover have "rule_id_ok ''msvc''" by code_simp
  moreover have "read_priority ''msvc'' (VStr '' -7 '') = Inr (- 7)" by code_simp
  ultimately show ?thesis
    using sample_selector normalize_action_names
    by (simp add: read_rule_def raw_rule_id_def py_eval normalize_rule_body_def raw_rule_codes_def
      dict_get_def sample_rules_def del: normalize_selector.simps)
qed

lemma sample_accepted: "normalize_exception_policy_rules sample_loads ''doc'' = Inr sample_rules"
  using sample_rule_1 sample_rule_2
  by (simp add: normalize_rules_document normalize_rule_list_iff policy_document_def sample_loads_def)
   (simp add: sample_rules_def folded_id_def casefold_def)

theorem accepted_policy_wf_witness: "policy_wf sample_rules \<and> length sample_rules = 2"
  using accepted_policy_wf [OF sample_accepted] by (simp add: sample_rules_def)

text \<open>C21: The reply that acknowledges a policy is itself a policy document: read back through
  the decoder, it is accepted with exactly the same rules.\<close>

theorem policy_reply_reads_back:
  assumes "normalize_exception_policy_rules loads text = Inr rules"
    and "policy_reply (Inr rules) = Inr reply"
    and "strip text' \<noteq> []" and "loads' text' = Inr (VDict reply)"
  shows "normalize_exception_policy_rules loads' text' = Inr rules"
proof -
  have wf: "policy_wf rules" using assms(1) by (rule accepted_wf)
  have "policy_document loads' text' = Some (map (VDict \<circ> rule_as_dict) rules)"
    using assms(2-4) by (auto simp: policy_document_def dict_get_def)
  with policy_wf_reads_back [OF wf] wf show ?thesis
    by (simp add: normalize_rules_document policy_wf_def)
qed

theorem policy_reply_reads_back_witness:
  "normalize_exception_policy_rules (\<lambda>_. case policy_reply (Inr sample_rules) of
     Inl _ \<Rightarrow> Inl [] | Inr d \<Rightarrow> Inr (VDict d)) ''again'' = Inr sample_rules"
  by (rule policy_reply_reads_back [OF sample_accepted, of _ "''again''"]) (simp, code_simp, simp)

text \<open>Two accepted selectors have the same canonical text exactly when they denote the same
  set of 32-bit exception codes, so dropping textual duplicates drops nothing else.\<close>

lemma selector_texts_faithful:
  assumes "normalize_selector v = Some s" and "normalize_selector w = Some t"
  shows "\<exists>a b. s = render_selector a \<and> t = render_selector b
           \<and> (s = t \<longleftrightarrow> (\<forall>x. selector_matches a x \<longleftrightarrow> selector_matches b x))"
proof -
  obtain a b where ab: "canonical_selector a" "s = render_selector a"
    "canonical_selector b" "t = render_selector b"
    using assms normalize_selector_denotes by metis
  then have "s = t \<longleftrightarrow> a = b" by (auto dest: render_selector_inj)
  with ab canonical_selector_unique [of a b] show ?thesis
    unfolding same_codes_def by metis
qed

subsection \<open>Legacy filters\<close>

lemma filter_head_iff:
  "(case filter P xs of [] \<Rightarrow> None | x # _ \<Rightarrow> Some (f x)) = Some y \<longleftrightarrow>
   (\<exists>i < length xs. P (xs ! i) \<and> (\<forall>j < i. \<not> P (xs ! j)) \<and> y = f (xs ! i))"
  by (induction xs) (auto simp: Ex_less_Suc2 All_less_Suc2)

definition paused_session :: "pyval \<Rightarrow> pydict" where
  "paused_session state = as_dict (dict_get (as_dict state) ''session'')"

lemma match_filter_iff:
  "match_exception_filter rt state = Some m \<longleftrightarrow>
   (let c = normalize_exception_code (dict_get (paused_session state) ''exceptionCode'');
        first = truthy (dict_get (paused_session state) ''exceptionFirstChance'');
        fs = get_exception_filters rt
    in \<not> native_policy_active rt \<and> is_dict state \<and> c \<noteq> [] \<and> c \<noteq> ''0x0''
       \<and> (\<exists>i < length fs. filter_accepts c first (fs ! i) \<and> (\<forall>j < i. \<not> filter_accepts c first (fs ! j))
            \<and> m = AList.update ''exceptionFirstChance'' (VBool first)
                    (AList.update ''matchedCode'' (VStr c) (fs ! i))))"
  unfolding match_exception_filter_def paused_session_def Let_def
  by (simp add: filter_head_iff)

text \<open>The legacy pause loop matches an exception with the first stored filter that accepts
  its code and chance, and with none while a native policy owns the dispositions or when the
  session reports no exception.\<close>

lemma legacy_first_match:
  "match_exception_filter rt state = Some m \<longleftrightarrow>
   (let c = normalize_exception_code (dict_get (paused_session state) ''exceptionCode'');
        first = truthy (dict_get (paused_session state) ''exceptionFirstChance'');
        fs = get_exception_filters rt
    in \<not> native_policy_active rt \<and> is_dict state \<and> c \<noteq> [] \<and> c \<noteq> ''0x0''
       \<and> (\<exists>i < length fs. filter_accepts c first (fs ! i) \<and> (\<forall>j < i. \<not> filter_accepts c first (fs ! j))
            \<and> m = AList.update ''exceptionFirstChance'' (VBool first)
                    (AList.update ''matchedCode'' (VStr c) (fs ! i))))"
  by (rule match_filter_iff)

text \<open>What a stored filter is about: the codes it lists, or every code when it lists none; and the chance it asks for.\<close>

definition lists_code :: "pydict \<Rightarrow> string \<Rightarrow> bool" where
  "lists_code f c \<longleftrightarrow> (\<exists>vs v. dict_get f ''codes'' = VList vs \<and> v \<in> set vs \<and> normalize_exception_code v = c)"

definition concerns :: "pydict \<Rightarrow> string \<Rightarrow> bool \<Rightarrow> bool" where
  "concerns f c first \<longleftrightarrow> (lists_code f c \<or> (\<forall>d. lists_code f d \<longrightarrow> d = [])) \<and> (truthy (dict_get f ''firstChanceOnly'') \<longrightarrow> first)"

definition filter_action :: "pydict \<Rightarrow> string" where
  "filter_action f = lower (strip (py_str (py_or (dict_get f ''action'') (VStr ''skip''))))"

lemma filter_accepts_iff:
  assumes "c \<noteq> []"
  shows "filter_accepts c first f \<longleftrightarrow> concerns f c first"
proof -
  define codes where "codes = (case dict_get f ''codes'' of VList xs \<Rightarrow> xs | _ \<Rightarrow> [])"
  have listed: "lists_code f d \<longleftrightarrow> d \<in> normalize_exception_code ` set codes" for d
    by (cases "dict_get f ''codes''") (auto simp: lists_code_def codes_def)
  have "filter_accepts c first f \<longleftrightarrow> (filter (\<lambda>c. c \<noteq> []) (map normalize_exception_code codes) = []
      \<or> c \<in> set (filter (\<lambda>c. c \<noteq> []) (map normalize_exception_code codes))) \<and> \<not> (truthy (dict_get f ''firstChanceOnly'') \<and> \<not> first)"
    by (simp add: filter_accepts_def Let_def codes_def)
  also have "\<dots> \<longleftrightarrow> concerns f c first"
    using assms by (auto simp: concerns_def listed filter_empty_conv)
  finally show ?thesis .
qed

definition sample_rt :: pydict where
  "sample_rt = [(''exceptionFilters'', VList [
     VDict [(''codes'', VList [VStr ''0x9'']), (''action'', VStr ''skip'')],
     VDict [(''codes'', VList [VStr ''0x5'']), (''action'', VStr ''pass'')]])]"

definition sample_pause :: pyval where
  "sample_pause = VDict [(''paused'', VBool True), (''session'', VDict
     [(''exceptionCode'', VInt 5), (''exceptionFirstChance'', VBool True)])]"

text \<open>C22: The pause loop resumes the debuggee by itself only while it is paused, never under a native policy, and only
  for an exception with a code. The first stored filter that is about this code, on a chance it asks for,
  decides: its action is skip, or it is pass and this is the first chance of the exception. Filters of other
  codes have no say.\<close>

theorem auto_continue_safe:
  assumes "match_exception_filter rt state = matched"
    and "should_auto_continue_filtered_exception state matched"
  shows "let c = normalize_exception_code (dict_get (paused_session state) ''exceptionCode'');
      first = truthy (dict_get (paused_session state) ''exceptionFirstChance''); fs = get_exception_filters rt
    in \<not> native_policy_active rt \<and> truthy (dict_get (as_dict state) ''paused'') \<and> c \<noteq> [] \<and> c \<noteq> ''0x0''
      \<and> (\<exists>i < length fs. concerns (fs ! i) c first \<and> (\<forall>j < i. \<not> concerns (fs ! j) c first)
           \<and> (filter_action (fs ! i) = ''skip'' \<or> filter_action (fs ! i) = ''pass'' \<and> first))"
proof -
  define c where "c = normalize_exception_code (dict_get (paused_session state) ''exceptionCode'')"
  define first where "first = truthy (dict_get (paused_session state) ''exceptionFirstChance'')"
  define fs where "fs = get_exception_filters rt"
  obtain m where m: "match_exception_filter rt state = Some m"
    using assms by (auto simp: should_auto_continue_filtered_exception_def split: option.splits)
  with assms have go: "should_auto_continue_filtered_exception state (Some m)" by simp
  from m obtain i where i: "i < length fs" "filter_accepts c first (fs ! i)" "\<forall>j < i. \<not> filter_accepts c first (fs ! j)"
    and act: "\<not> native_policy_active rt" "c \<noteq> []" "c \<noteq> ''0x0''"
    and upd: "m = AList.update ''exceptionFirstChance'' (VBool first) (AList.update ''matchedCode'' (VStr c) (fs ! i))"
    unfolding match_filter_iff Let_def c_def first_def fs_def by blast
  have kept: "dict_get m ''action'' = dict_get (fs ! i) ''action''" "dict_get m ''exceptionFirstChance'' = VBool first"
    unfolding upd by simp_all
  have "truthy (dict_get (as_dict state) ''paused'')" "filter_action (fs ! i) = ''skip'' \<or> filter_action (fs ! i) = ''pass'' \<and> first"
    using go unfolding filter_action_def by (auto simp: should_auto_continue_filtered_exception_def kept Let_def split: if_splits)
  with act i show ?thesis
    unfolding Let_def c_def [symmetric] first_def [symmetric] fs_def [symmetric] filter_accepts_iff [OF act(2)] by blast
qed

theorem auto_continue_safe_witness:
  "truthy (dict_get (as_dict sample_pause) ''paused'') \<and> \<not> native_policy_active sample_rt
    \<and> \<not> concerns (get_exception_filters sample_rt ! 0) ''0x5'' True \<and> concerns (get_exception_filters sample_rt ! 1) ''0x5'' True
    \<and> filter_action (get_exception_filters sample_rt ! 1) = ''pass''"
proof -
  have "should_auto_continue_filtered_exception sample_pause (match_exception_filter sample_rt sample_pause)"
    by code_simp
  note safe = auto_continue_safe [OF refl this, unfolded Let_def]
  have c: "normalize_exception_code (dict_get (paused_session sample_pause) ''exceptionCode'') = ''0x5''"
    "truthy (dict_get (paused_session sample_pause) ''exceptionFirstChance'') = True" by code_simp+
  have fs: "length (get_exception_filters sample_rt) = 2" "\<not> filter_accepts ''0x5'' True (get_exception_filters sample_rt ! 0)"
    "filter_action (get_exception_filters sample_rt ! 1) = ''pass''" by code_simp+
  have skipped: "\<not> concerns (get_exception_filters sample_rt ! 0) ''0x5'' True" using fs(2) filter_accepts_iff [of "''0x5''"] by blast
  from safe [unfolded c fs(1)] obtain i where "i < 2" "concerns (get_exception_filters sample_rt ! i) ''0x5'' True" by blast
  moreover from this skipped have "i = 1" by (cases i) auto
  ultimately show ?thesis using safe skipped fs(3) by blast
qed

end
