(* ===== verification/Leases.thy ===== *)
theory Leases
  imports Contracts
begin

text \<open>
  Workflow breakpoint leases: the table \<open>breakpointLeases\<close> of the process state, its pruning
  and the compare-and-delete of \<open>00_bootstrap_and_session.py\<close>, and the four tools of
  \<open>50_debugger_api_surface.py\<close>. What the code reads from the outside (the cached bridge
  identity, the monotonic clock, \<open>uuid4\<close>, the debugger requests) is a record of functions
  on an arbitrary world, the argument \<open>B\<close>. The state keeps, beside the table, the breakpoint
  requests issued so far. Each tool is taken as one step, which is an abstraction: the identity is
  read before the mutation lock is taken, the compare-and-delete of a release runs after it, and the list
  tool takes no lock.
\<close>

subsection \<open>Data\<close>

record session_identity =
  bridge_instance :: string
  session_id :: string
  session_generation :: int
  debuggee_pid :: int
  image_sha :: string

record lease_token =
  token_workflow :: string
  acquired_at :: int
  expires_at :: int
  renewed_at :: "int option"

record lease =
  lease_addr :: string
  lease_type :: string
  workflow :: string
  lease_identity :: session_identity
  created_by_workflow :: bool
  preexisting :: bool
  fingerprint :: pydict
  tokens :: "(string \<times> lease_token) list"
  ref_count :: int
  created_at :: int
  last_renewed_at :: int

datatype bp_request = SetRequest string string | DeleteRequest string string

record 'd lease_state =
  world :: 'd
  lease_table :: "(string \<times> lease) list"
  requests :: "bp_request list"

text \<open>The outside. \<open>list_breakpoints\<close> is the coerced answer of \<open>Breakpoint/List\<close>, \<open>None\<close>
  where the request raises.\<close>

record 'd backend =
  cached_identity :: "'d \<Rightarrow> pydict \<times> 'd"
  monotonic_ms :: "'d \<Rightarrow> int \<times> 'd"
  fresh_hex :: "'d \<Rightarrow> string \<times> 'd"
  list_breakpoints :: "'d \<Rightarrow> pyval option \<times> 'd"
  delete_memory :: "string \<Rightarrow> 'd \<Rightarrow> pyval \<times> 'd"
  delete_hardware :: "string \<Rightarrow> 'd \<Rightarrow> pyval \<times> 'd"
  delete_software :: "string \<Rightarrow> 'd \<Rightarrow> pyval \<times> 'd"
  set_hardware :: "string \<Rightarrow> 'd \<Rightarrow> pyval \<times> 'd"
  set_memory_range :: "string \<Rightarrow> int \<Rightarrow> string \<Rightarrow> string \<Rightarrow> 'd \<Rightarrow> pyval \<times> 'd"
  set_conditional :: "string \<Rightarrow> string \<Rightarrow> string \<Rightarrow> 'd \<Rightarrow> pyval \<times> 'd"
  set_software :: "string \<Rightarrow> 'd \<Rightarrow> pyval \<times> 'd"
  repair_text :: "string \<Rightarrow> string"

definition outside :: "('d \<Rightarrow> 'a \<times> 'd) \<Rightarrow> 'd lease_state \<Rightarrow> 'a \<times> 'd lease_state" where
  "outside f s = (let (x, w) = f (world s) in (x, s\<lparr>world := w\<rparr>))"

definition request :: "bp_request \<Rightarrow> ('d \<Rightarrow> 'a \<times> 'd) \<Rightarrow> 'd lease_state \<Rightarrow> 'a \<times> 'd lease_state" where
  "request r f s = outside f (s\<lparr>requests := requests s @ [r]\<rparr>)"

definition lease_min_ms :: int where "lease_min_ms = 1000"
definition lease_max_ms :: int where "lease_max_ms = 120000"
definition lease_max_entries :: nat where "lease_max_entries = 256"

subsection \<open>Identity and types\<close>

definition read_count :: "pyval \<Rightarrow> int" where
  "read_count v = (case parse_int v (Some 0) of Some i \<Rightarrow> i | None \<Rightarrow> 0)"

definition breakpoint_lease_identity :: "pydict \<Rightarrow> session_identity" where
  "breakpoint_lease_identity d =
     (let session = as_dict (dict_get d ''session'') in
      \<lparr>bridge_instance = strip (str_or_empty (dict_get d ''bridgeInstanceId'')),
       session_id = strip (py_str (py_or (dict_get d ''sessionId'')
                      (py_or (dict_get session ''sessionId'') (VStr [])))),
       session_generation = read_count (dict_get_default d ''sessionGeneration''
                              (dict_get session ''generation'')),
       debuggee_pid = read_count (dict_get_default d ''debuggeePid'' (dict_get session ''processId'')),
       image_sha = upper (strip (py_str (py_or (dict_get d ''imageSha256'')
                     (py_or (dict_get session ''imageSha256'') (VStr [])))))\<rparr>)"

definition identity_key :: "session_identity \<Rightarrow> string \<times> string \<times> int \<times> int \<times> string" where
  "identity_key i = (bridge_instance i, session_id i, session_generation i, debuggee_pid i,
                     upper (image_sha i))"

definition identity_as_dict :: "session_identity \<Rightarrow> pydict" where
  "identity_as_dict i =
     [(''bridgeInstanceId'', VStr (bridge_instance i)), (''sessionId'', VStr (session_id i)),
      (''sessionGeneration'', VInt (session_generation i)), (''debuggeePid'', VInt (debuggee_pid i)),
      (''imageSha256'', VStr (image_sha i))]"

definition type_aliases :: "(string \<times> string) list" where
  "type_aliases =
     [(''software'', ''normal''), (''code'', ''normal''), (''bp'', ''normal''), (''hw'', ''hardware''),
      (''watch'', ''memory''), (''watchpoint'', ''memory''), (''conditional-breakpoint'', ''conditional'')]"

definition normalize_managed_type :: "pyval \<Rightarrow> string" where
  "normalize_managed_type v =
     (let t = map (\<lambda>c. if c = CHR ''_'' then CHR ''-'' else c)
                (lower (strip (py_str (py_or v (VStr ''normal'')))));
          t' = (case map_of type_aliases t of Some u \<Rightarrow> u | None \<Rightarrow> t)
      in if t' \<in> {''normal'', ''hardware'', ''memory'', ''conditional''} then t' else [])"

subsection \<open>Snapshots and fingerprints\<close>

definition snapshot_items :: "pyval option \<Rightarrow> pyval list option" where
  "snapshot_items payload =
     (case payload of
        None \<Rightarrow> None
      | Some (VDict d) \<Rightarrow>
          (case dict_get_default d ''breakpoints'' (VList []) of
             VList items \<Rightarrow>
               (case py_int (dict_get_default d ''count'' (VInt (int (length items)))) of
                  Inl _ \<Rightarrow> None | Inr _ \<Rightarrow> Some items)
           | _ \<Rightarrow> Some [])
      | Some _ \<Rightarrow> Some [])"

definition record_matches :: "string \<Rightarrow> string \<Rightarrow> pydict \<Rightarrow> bool" where
  "record_matches addr managed item \<longleftrightarrow>
     normalize_hex (dict_get item ''addr'') = Some addr \<and>
     (let raw = lower (py_str (py_or (dict_get item ''type'')
                  (py_or (dict_get item ''breakpointType'') (VStr []))))
      in \<not> (managed = ''hardware'' \<and> \<not> contains ''hardware'' raw \<and> raw \<noteq> ''hw'')
         \<and> \<not> (managed = ''memory'' \<and> \<not> contains ''memory'' raw \<and> \<not> contains ''watch'' raw))"

definition find_record :: "string \<Rightarrow> string \<Rightarrow> pyval list \<Rightarrow> pydict option" where
  "find_record addr managed items =
     find (record_matches addr managed) (map as_dict (filter is_dict items))"

definition managed_snapshot ::
  "'d backend \<Rightarrow> string \<Rightarrow> string \<Rightarrow> 'd lease_state \<Rightarrow> pydict option \<times> 'd lease_state" where
  "managed_snapshot B addr bp_type s =
     (let managed = normalize_managed_type (VStr bp_type) in
      case normalize_hex (VStr addr) of
        None \<Rightarrow> (None, s)
      | Some normalized \<Rightarrow>
          if normalized = [] \<or> managed = [] then (None, s)
          else (let (payload, s1) = outside (list_breakpoints B) s in
                case snapshot_items payload of
                  None \<Rightarrow> (None, s1)
                | Some items \<Rightarrow> (find_record normalized managed items, s1)))"

definition fingerprint_fields :: "string list" where
  "fingerprint_fields =
     [''addr'', ''type'', ''breakpointType'', ''module'', ''name'', ''enabled'', ''active'',
      ''singleshoot'', ''fastResume'', ''silent'', ''breakCondition'', ''condition'', ''logText'',
      ''commandText'', ''command'', ''size'']"

definition fingerprint_field :: "(string \<Rightarrow> string) \<Rightarrow> pydict \<Rightarrow> string \<Rightarrow> pydict" where
  "fingerprint_field repair item f =
     (case dict_get item f of
        VStr t \<Rightarrow> [(f, VStr (strip (repair t)))]
      | VNone \<Rightarrow> []
      | v \<Rightarrow> [(f, v)])"

definition managed_fingerprint :: "(string \<Rightarrow> string) \<Rightarrow> pydict option \<Rightarrow> pydict" where
  "managed_fingerprint repair item =
     (case item of
        None \<Rightarrow> []
      | Some d \<Rightarrow>
          AList.update ''addr''
            (VStr (case normalize_hex (dict_get d ''addr'') of
                     Some (c # h) \<Rightarrow> c # h
                   | _ \<Rightarrow> str_or_empty (dict_get d ''addr'')))
            (concat (map (fingerprint_field repair d) fingerprint_fields)))"

definition fingerprint_matches :: "(string \<Rightarrow> string) \<Rightarrow> pydict \<Rightarrow> pydict option \<Rightarrow> bool" where
  "fingerprint_matches repair expected current =
     (let actual = managed_fingerprint repair current in
      expected \<noteq> [] \<and> actual \<noteq> []
      \<and> list_all (\<lambda>(k, v). py_eq (dict_get actual k) v) expected)"

definition delete_succeeded :: "pyval \<Rightarrow> bool" where
  "delete_succeeded r =
     (let lowered = lower (strip (str_or_empty r)) in
      lowered \<noteq> [] \<and> (contains ''deleted'' lowered \<or> contains ''already absent'' lowered
                       \<or> contains ''not present'' lowered))"

definition result_ok :: "pyval \<Rightarrow> bool" where
  "result_ok r \<longleftrightarrow> is_dict r \<and> (truthy (dict_get (as_dict r) ''ok'') \<or> truthy (dict_get (as_dict r) ''success''))"

subsection \<open>Compare and delete\<close>

definition delete_breakpoint ::
  "'d backend \<Rightarrow> string \<Rightarrow> string \<Rightarrow> 'd lease_state \<Rightarrow> (pyval \<times> bool) \<times> 'd lease_state" where
  "delete_breakpoint B managed addr s =
     (if managed = ''memory'' then
        (let (r, s1) = request (DeleteRequest managed addr) (delete_memory B addr) s
         in ((r, result_ok r), s1))
      else if managed = ''hardware'' then
        (let (r, s1) = request (DeleteRequest managed addr) (delete_hardware B addr) s
         in ((r, result_ok r), s1))
      else
        (let (r, s1) = request (DeleteRequest managed addr) (delete_software B addr) s
         in ((r, delete_succeeded r), s1)))"

definition delete_reply :: "string \<Rightarrow> bool \<Rightarrow> pydict \<Rightarrow> pydict" where
  "delete_reply status deleted extra = [(''status'', VStr status), (''deleted'', VBool deleted)] @ extra"

definition compare_delete :: "'d backend \<Rightarrow> lease \<Rightarrow> 'd lease_state \<Rightarrow> pydict \<times> 'd lease_state" where
  "compare_delete B rec s =
     (case normalize_hex (VStr (lease_addr rec)) of
        None \<Rightarrow> (delete_reply ''invalid_address'' False [], s)
      | Some addr \<Rightarrow>
      if addr = [] then (delete_reply ''invalid_address'' False [], s)
      else
        (let managed = normalize_managed_type (VStr (lease_type rec));
             (current, s1) = managed_snapshot B addr managed s
         in case current of
              None \<Rightarrow> (delete_reply ''already_absent'' False [(''addr'', VStr addr)], s1)
            | Some item \<Rightarrow>
                if \<not> fingerprint_matches (repair_text B) (fingerprint rec) (Some item) then
                  (delete_reply ''preserved_compare_mismatch'' False
                     [(''addr'', VStr addr),
                      (''current'', VDict (managed_fingerprint (repair_text B) (Some item))),
                      (''expected'', VDict (fingerprint rec))], s1)
                else
                  (let ((result, deleted), s2) = delete_breakpoint B managed addr s1;
                       (after, s3) = managed_snapshot B addr managed s2
                   in if after \<noteq> None then
                        (delete_reply ''delete_unverified'' False
                           [(''addr'', VStr addr), (''deleteResult'', result)], s3)
                      else (delete_reply (if deleted then ''deleted'' else ''delete_failed'') deleted
                              [(''addr'', VStr addr), (''deleteResult'', result)], s3))))"

subsection \<open>Pruning\<close>

definition expired_tokens :: "int \<Rightarrow> lease \<Rightarrow> string list" where
  "expired_tokens now rec = map fst (filter (\<lambda>(k, t). expires_at t \<le> now) (tokens rec))"

definition drop_tokens :: "string list \<Rightarrow> lease \<Rightarrow> lease" where
  "drop_tokens gone rec =
     (let left = fold AList.delete gone (tokens rec)
      in rec\<lparr>tokens := left, ref_count := int (length left)\<rparr>)"

text \<open>The loop of \<open>_prune_breakpoint_leases\<close>: the entries kept, and the records to clean up.\<close>

fun prune_table ::
  "int \<Rightarrow> string \<times> string \<times> int \<times> int \<times> string \<Rightarrow> (string \<times> lease) list
   \<Rightarrow> (string \<times> lease) list \<times> lease list" where
  "prune_table now current [] = ([], [])"
| "prune_table now current ((key, rec) # rest) =
     (let (kept, cleanup) = prune_table now current rest in
      if identity_key (lease_identity rec) \<noteq> current then (kept, cleanup)
      else if expired_tokens now rec = [] then ((key, rec) # kept, cleanup)
      else
        (let rec' = drop_tokens (expired_tokens now rec) rec in
         if tokens rec' \<noteq> [] then ((key, rec') # kept, cleanup)
         else (kept, if created_by_workflow rec' then rec' # cleanup else cleanup)))"

fun cleanup_all :: "'d backend \<Rightarrow> lease list \<Rightarrow> 'd lease_state \<Rightarrow> 'd lease_state" where
  "cleanup_all B [] s = s"
| "cleanup_all B (rec # rest) s = cleanup_all B rest (snd (compare_delete B rec s))"

definition prune_leases :: "'d backend \<Rightarrow> 'd lease_state \<Rightarrow> 'd lease_state" where
  "prune_leases B s =
     (let (now, s1) = outside (monotonic_ms B) s;
          (identity, s2) = outside (cached_identity B) s1;
          current = identity_key (breakpoint_lease_identity identity);
          (kept, cleanup) = prune_table now current (lease_table s2)
      in cleanup_all B cleanup (s2\<lparr>lease_table := kept\<rparr>))"

subsection \<open>Setting a breakpoint\<close>

definition contains_text :: "string \<Rightarrow> pyval \<Rightarrow> bool" where
  "contains_text needle v \<longleftrightarrow> contains needle (lower (str_or_empty v))"

definition managed_breakpoint_set ::
  "'d backend \<Rightarrow> string \<Rightarrow> string \<Rightarrow> int \<Rightarrow> string \<Rightarrow> string \<Rightarrow> string \<Rightarrow> 'd lease_state
   \<Rightarrow> pyval \<times> 'd lease_state" where
  "managed_breakpoint_set B addr managed bp_size access condition name s =
     (let normalized = (case normalize_hex (VStr addr) of Some (c # h) \<Rightarrow> c # h | _ \<Rightarrow> addr) in
      if managed = ''hardware'' then
        (let (r, s1) = request (SetRequest managed normalized) (set_hardware B normalized) s
         in (case r of
               VDict d \<Rightarrow> (VDict (AList.update ''ok'' (VBool (result_ok r)) d), s1)
             | _ \<Rightarrow> (VDict [(''ok'', VBool False), (''result'', r)], s1)))
      else if managed = ''memory'' then
        request (SetRequest managed normalized) (set_memory_range B normalized (max 1 bp_size) access name) s
      else if managed = ''conditional'' then
        request (SetRequest managed normalized) (set_conditional B normalized condition name) s
      else
        (let (r, s1) = request (SetRequest managed normalized) (set_software B normalized) s
         in (VDict [(''ok'', VBool (contains_text ''success'' r \<and> \<not> contains_text ''error'' r)),
                    (''result'', r), (''addr'', VStr normalized)], s1)))"

subsection \<open>The tools\<close>

definition clamp_ttl :: "int \<Rightarrow> int" where
  "clamp_ttl lease_ms = max lease_min_ms (min lease_ms lease_max_ms)"

definition failure :: "string \<Rightarrow> string \<Rightarrow> pydict \<Rightarrow> pydict" where
  "failure code text extra =
     [(''ok'', VBool False), (''errorCode'', VStr code), (''error'', VStr text)] @ extra"

definition lease_key :: "string \<Rightarrow> string \<Rightarrow> string" where
  "lease_key managed addr = managed @ '':'' @ addr"

definition new_token :: "string \<Rightarrow> int \<Rightarrow> int \<Rightarrow> lease_token" where
  "new_token w now ttl = \<lparr>token_workflow = w, acquired_at = now, expires_at = now + ttl, renewed_at = None\<rparr>"

definition acquire_reply :: "string \<Rightarrow> lease \<Rightarrow> int \<Rightarrow> pydict \<Rightarrow> pydict" where
  "acquire_reply token rec expires extra =
     [(''ok'', VBool True), (''leaseId'', VStr token), (''addr'', VStr (lease_addr rec)),
      (''breakpointType'', VStr (lease_type rec)), (''workflowId'', VStr (workflow rec)),
      (''referenceCount'', VInt (int (length (tokens rec)))),
      (''preexisting'', VBool (preexisting rec)),
      (''createdByWorkflow'', VBool (created_by_workflow rec)), (''expiresAtMs'', VInt expires)] @ extra"

definition acquire_shared ::
  "'d backend \<Rightarrow> string \<Rightarrow> string \<Rightarrow> int \<Rightarrow> int \<Rightarrow> lease \<Rightarrow> 'd lease_state \<Rightarrow> pydict \<times> 'd lease_state" where
  "acquire_shared B key w now ttl rec s =
     (let (hex, s1) = outside (fresh_hex B) s;
          token = ''bpl-'' @ hex;
          toks = AList.update token (new_token w now ttl) (tokens rec);
          rec' = rec\<lparr>tokens := toks, ref_count := int (length toks), last_renewed_at := now\<rparr>
      in (acquire_reply token rec' (now + ttl) [(''reused'', VBool True)],
          s1\<lparr>lease_table := AList.update key rec' (lease_table s1)\<rparr>))"

definition store_new_lease ::
  "'d backend \<Rightarrow> string \<Rightarrow> session_identity \<Rightarrow> string \<Rightarrow> string \<Rightarrow> string \<Rightarrow> int \<Rightarrow> int \<Rightarrow> bool \<Rightarrow> pydict
   \<Rightarrow> pyval \<Rightarrow> (string \<times> lease) list \<Rightarrow> 'd lease_state \<Rightarrow> pydict \<times> 'd lease_state" where
  "store_new_lease B key identity addr managed w now ttl created existing set_result leases s =
     (let (hex, s1) = outside (fresh_hex B) s;
          token = ''bpl-'' @ hex;
          rec = \<lparr>lease_addr = addr, lease_type = managed, workflow = w, lease_identity = identity,
                 created_by_workflow = created, preexisting = (\<not> created),
                 fingerprint = managed_fingerprint (repair_text B) (Some existing),
                 tokens = [(token, new_token w now ttl)], ref_count = 1, created_at = now,
                 last_renewed_at = now\<rparr>
      in if length leases \<ge> lease_max_entries then
           (failure ''BREAKPOINT_LEASE_CAPACITY''
              ''Breakpoint lease table is full; release stale workflows first.'' [], s1)
         else (acquire_reply token rec (now + ttl) [(''setResult'', set_result)],
               s1\<lparr>lease_table := AList.update key rec leases\<rparr>))"

definition current_condition :: "pydict \<Rightarrow> string" where
  "current_condition item =
     py_str (py_or (dict_get item ''breakCondition'') (py_or (dict_get item ''condition'') (VStr [])))"

definition acquire_fresh ::
  "'d backend \<Rightarrow> string \<Rightarrow> session_identity \<Rightarrow> string \<Rightarrow> string \<Rightarrow> string \<Rightarrow> int \<Rightarrow> int
   \<Rightarrow> int \<Rightarrow> string \<Rightarrow> string \<Rightarrow> string \<Rightarrow> (string \<times> lease) list \<Rightarrow> 'd lease_state
   \<Rightarrow> pydict \<times> 'd lease_state" where
  "acquire_fresh B key identity addr managed w now ttl bp_size access condition name leases s =
     (let (existing, s1) = managed_snapshot B addr managed s in
      case existing of
        Some item \<Rightarrow>
          if managed = ''conditional'' \<and> condition \<noteq> [] \<and> current_condition item \<noteq> []
             \<and> current_condition item \<noteq> condition then
            (failure ''BREAKPOINT_LEASE_CONFLICT'' ''An incompatible conditional breakpoint already exists.''
               [(''addr'', VStr addr), (''currentCondition'', VStr (current_condition item))], s1)
          else store_new_lease B key identity addr managed w now ttl False item VNone leases s1
      | None \<Rightarrow>
          (let (set_result, s2) = managed_breakpoint_set B addr managed bp_size access condition name s1 in
           if \<not> (is_dict set_result \<and> truthy (dict_get (as_dict set_result) ''ok'')) then
             (failure ''BREAKPOINT_SET_FAILED'' ''x64dbg rejected the managed breakpoint.''
                [(''addr'', VStr addr), (''breakpointType'', VStr managed), (''setResult'', set_result)], s2)
           else
             (let (verified, s3) = managed_snapshot B addr managed s2 in
              case verified of
                None \<Rightarrow>
                  (failure ''BREAKPOINT_VERIFY_FAILED''
                     ''Breakpoint was set but could not be verified in Breakpoint/List.''
                     [(''addr'', VStr addr), (''breakpointType'', VStr managed),
                      (''setResult'', set_result)], s3)
              | Some item \<Rightarrow>
                  store_new_lease B key identity addr managed w now ttl True item set_result leases s3)))"

text \<open>The locked part of \<open>AcquireBreakpointLease\<close>, and the whole tool.\<close>

definition acquire_locked ::
  "'d backend \<Rightarrow> session_identity \<Rightarrow> string \<Rightarrow> string \<Rightarrow> string \<Rightarrow> int \<Rightarrow> int \<Rightarrow> string \<Rightarrow> string \<Rightarrow> string
   \<Rightarrow> 'd lease_state \<Rightarrow> pydict \<times> 'd lease_state" where
  "acquire_locked B identity addr managed w ttl bp_size access condition name s =
     (let key = lease_key managed addr;
          (now, s1) = outside (monotonic_ms B) (prune_leases B s);
          leases = lease_table s1
      in case map_of leases key of
           None \<Rightarrow>
             acquire_fresh B key identity addr managed w now ttl bp_size access condition name leases s1
         | Some rec \<Rightarrow>
             if identity_key (lease_identity rec) \<noteq> identity_key identity then
               acquire_fresh B key identity addr managed w now ttl bp_size access condition name
                 (AList.delete key leases) s1
             else if workflow rec \<noteq> w then
               (failure ''BREAKPOINT_LEASE_CONFLICT'' ''Breakpoint is owned by another workflow.''
                  [(''addr'', VStr addr), (''breakpointType'', VStr managed),
                   (''ownerWorkflowId'', VStr (workflow rec)), (''refCount'', VInt (ref_count rec))], s1)
             else acquire_shared B key w now ttl rec s1)"

definition acquire_lease ::
  "'d backend \<Rightarrow> string \<Rightarrow> string \<Rightarrow> string \<Rightarrow> int \<Rightarrow> int \<Rightarrow> string \<Rightarrow> string \<Rightarrow> string
   \<Rightarrow> 'd lease_state \<Rightarrow> pydict \<times> 'd lease_state" where
  "acquire_lease B addr workflow_id breakpoint_type lease_ms bp_size access condition name s =
     (let managed = normalize_managed_type (VStr breakpoint_type) in
      case normalize_hex (VStr addr) of
        None \<Rightarrow> (failure ''INVALID_ADDRESS'' ''Invalid breakpoint address'' [], s)
      | Some normalized \<Rightarrow>
      if normalized = [] then (failure ''INVALID_ADDRESS'' ''Invalid breakpoint address'' [], s)
      else if managed = [] then
        (failure ''INVALID_BREAKPOINT_TYPE''
           ''breakpoint_type must be normal, conditional, hardware or memory'' [], s)
      else
        (let (raw, s1) = outside (cached_identity B) s;
             identity = breakpoint_lease_identity raw
         in if bridge_instance identity = [] \<or> session_id identity = [] \<or> debuggee_pid identity = 0 then
              (failure ''SESSION_IDENTITY_UNAVAILABLE''
                 ''A live Bridge/Hello debuggee session is required for breakpoint ownership.''
                 [(''identity'', VDict (identity_as_dict identity))], s1)
            else
              (let (w, s2) = (if strip workflow_id \<noteq> [] then (strip workflow_id, s1)
                              else (let (hex, s2) = outside (fresh_hex B) s1
                                    in (''workflow-'' @ take 16 hex, s2)))
               in if length w > 128 then
                    (failure ''INVALID_WORKFLOW_ID'' ''workflow_id is too long'' [], s2)
                  else acquire_locked B identity normalized managed w (clamp_ttl lease_ms)
                         bp_size access condition name s2)))"

fun find_token :: "string \<Rightarrow> (string \<times> lease) list \<Rightarrow> (string \<times> lease) option" where
  "find_token token [] = None"
| "find_token token ((key, rec) # rest) =
     (if map_of (tokens rec) token \<noteq> None then Some (key, rec) else find_token token rest)"

definition stale_session :: pydict where
  "stale_session = failure ''STALE_SESSION'' ''Breakpoint lease belongs to a different debugger session.'' []"

definition renew_lease :: "'d backend \<Rightarrow> string \<Rightarrow> int \<Rightarrow> 'd lease_state \<Rightarrow> pydict \<times> 'd lease_state" where
  "renew_lease B lease_id lease_ms s =
     (let token = strip lease_id; ttl = clamp_ttl lease_ms in
      if token = [] then (failure ''INVALID_LEASE_ID'' ''lease_id is required'' [], s)
      else
        (let (raw, s1) = outside (cached_identity B) s;
             identity = breakpoint_lease_identity raw;
             (now, s2) = outside (monotonic_ms B) (prune_leases B s1)
         in case find_token token (lease_table s2) of
              None \<Rightarrow> (failure ''LEASE_NOT_FOUND'' ''Breakpoint lease not found or expired'' [], s2)
            | Some (key, rec) \<Rightarrow>
                if identity_key (lease_identity rec) \<noteq> identity_key identity then (stale_session, s2)
                else
                  (let toks = map (\<lambda>(k, t). if k = token
                                then (k, t\<lparr>expires_at := now + ttl, renewed_at := Some now\<rparr>) else (k, t))
                                (tokens rec);
                       rec' = rec\<lparr>tokens := toks, last_renewed_at := now\<rparr>
                   in ([(''ok'', VBool True), (''leaseId'', VStr token), (''addr'', VStr (lease_addr rec)),
                        (''breakpointType'', VStr (lease_type rec)), (''workflowId'', VStr (workflow rec)),
                        (''referenceCount'', VInt (if ref_count rec \<noteq> 0 then ref_count rec
                                                   else int (length toks))),
                        (''expiresAtMs'', VInt (now + ttl))],
                       s2\<lparr>lease_table := AList.update key rec' (lease_table s2)\<rparr>))))"

definition release_reply :: "string \<Rightarrow> pydict \<Rightarrow> pydict" where
  "release_reply token cleanup =
     [(''ok'', VBool (dict_get cleanup ''status'' \<noteq> VStr ''delete_failed''
                     \<and> dict_get cleanup ''status'' \<noteq> VStr ''delete_unverified'')),
      (''leaseId'', VStr token), (''alreadyReleased'', VBool False),
      (''deleted'', VBool (truthy (dict_get cleanup ''deleted''))), (''cleanup'', VDict cleanup)]"

definition release_lease :: "'d backend \<Rightarrow> string \<Rightarrow> 'd lease_state \<Rightarrow> pydict \<times> 'd lease_state" where
  "release_lease B lease_id s =
     (let token = strip lease_id in
      if token = [] then (failure ''INVALID_LEASE_ID'' ''lease_id is required'' [], s)
      else
        (let (raw, s1) = outside (cached_identity B) s;
             identity = breakpoint_lease_identity raw;
             s2 = prune_leases B s1
         in case find_token token (lease_table s2) of
              None \<Rightarrow> ([(''ok'', VBool True), (''leaseId'', VStr token),
                         (''alreadyReleased'', VBool True), (''deleted'', VBool False)], s2)
            | Some (key, rec) \<Rightarrow>
                if identity_key (lease_identity rec) \<noteq> identity_key identity then (stale_session, s2)
                else
                  (let rec' = drop_tokens [token] rec in
                   if tokens rec' \<noteq> [] then
                     (release_reply token (delete_reply ''reference_remaining'' False []),
                      s2\<lparr>lease_table := AList.update key rec' (lease_table s2)\<rparr>)
                   else
                     (let s3 = s2\<lparr>lease_table := AList.delete key (lease_table s2)\<rparr> in
                      if created_by_workflow rec' then
                        (let (cleanup, s4) = compare_delete B rec' s3
                         in (release_reply token cleanup, s4))
                      else (release_reply token (delete_reply ''reference_remaining'' False []), s3)))))"

definition lease_item :: "session_identity \<Rightarrow> bool \<Rightarrow> lease \<Rightarrow> pyval" where
  "lease_item identity include_tokens rec = VDict
     ([(''addr'', VStr (lease_addr rec)), (''breakpointType'', VStr (lease_type rec)),
       (''workflowId'', VStr (workflow rec)), (''referenceCount'', VInt (ref_count rec)),
       (''preexisting'', VBool (preexisting rec)),
       (''createdByWorkflow'', VBool (created_by_workflow rec)),
       (''identity'', VDict (identity_as_dict (lease_identity rec))),
       (''sessionMatches'', VBool (identity_key (lease_identity rec) = identity_key identity)),
       (''expiresAtMs'', VInt (case tokens rec of [] \<Rightarrow> 0
          | t # ts \<Rightarrow> fold max (map (expires_at \<circ> snd) ts) (expires_at (snd t))))]
      @ (if include_tokens
         then [(''leases'', VList (map (\<lambda>(k, t). VDict
                 [(''leaseId'', VStr k), (''workflowId'', VStr (token_workflow t)),
                  (''expiresAtMs'', VInt (expires_at t))]) (tokens rec)))]
         else []))"

definition list_leases :: "'d backend \<Rightarrow> bool \<Rightarrow> 'd lease_state \<Rightarrow> pydict \<times> 'd lease_state" where
  "list_leases B include_tokens s =
     (let (raw, s1) = outside (cached_identity B) (prune_leases B s);
          items = map (lease_item (breakpoint_lease_identity raw) include_tokens \<circ> snd) (lease_table s1)
      in ([(''ok'', VBool True), (''count'', VInt (int (length items))), (''leases'', VList items)], s1))"

end
