(* ===== verification/LeaseSafety.thy ===== *)
theory LeaseSafety
  imports Leases
begin

text \<open>
  What the breakpoint leases promise: the invariant of the table under every sequence of tool
  calls and outside changes, which debugger requests a call may issue, conflicts between
  workflows, and the lifetime of a lease.
\<close>

subsection \<open>The outside leaves the table alone\<close>

lemma outside_frame [simp]:
  "lease_table (snd (outside f s)) = lease_table s" "requests (snd (outside f s)) = requests s"
  by (simp_all add: outside_def case_prod_beta)

lemma request_frame [simp]:
  "lease_table (snd (request r f s)) = lease_table s"
  "requests (snd (request r f s)) = requests s @ [r]"
  by (simp_all add: request_def)

lemma managed_snapshot_frame [simp]:
  "lease_table (snd (managed_snapshot B a t s)) = lease_table s"
  "requests (snd (managed_snapshot B a t s)) = requests s"
  by (simp_all add: managed_snapshot_def Let_def case_prod_beta split: option.split)

lemma delete_breakpoint_frame [simp]:
  "lease_table (snd (delete_breakpoint B t a s)) = lease_table s"
  "requests (snd (delete_breakpoint B t a s)) = requests s @ [DeleteRequest t a]"
  by (simp_all add: delete_breakpoint_def Let_def case_prod_beta)

lemma managed_set_frame [simp]:
  "lease_table (snd (managed_breakpoint_set B a t n ac c nm s)) = lease_table s"
  by (simp add: managed_breakpoint_set_def Let_def case_prod_beta split: pyval.split)

lemma managed_set_requests:
  "\<exists>a'. requests (snd (managed_breakpoint_set B a t n ac c nm s)) = requests s @ [SetRequest t a']"
  by (simp add: managed_breakpoint_set_def Let_def case_prod_beta split: pyval.split)

lemma compare_delete_frame [simp]: "lease_table (snd (compare_delete B rec s)) = lease_table s"
  by (simp add: compare_delete_def Let_def case_prod_beta split: option.split)

text \<open>The target a record's cleanup would delete.\<close>

definition delete_target :: "lease \<Rightarrow> bp_request option" where
  "delete_target rec =
     (case normalize_hex (VStr (lease_addr rec)) of
        Some (c # h) \<Rightarrow> Some (DeleteRequest (normalize_managed_type (VStr (lease_type rec))) (c # h))
      | _ \<Rightarrow> None)"

definition still_matches :: "'d backend \<Rightarrow> lease \<Rightarrow> 'd lease_state \<Rightarrow> bool" where
  "still_matches B rec s \<longleftrightarrow>
     (\<exists>addr item. normalize_hex (VStr (lease_addr rec)) = Some addr
        \<and> fst (managed_snapshot B addr (normalize_managed_type (VStr (lease_type rec))) s) = Some item
        \<and> fingerprint_matches (repair_text B) (fingerprint rec) (Some item))"

lemma compare_delete_requests:
  "requests (snd (compare_delete B rec s)) = requests s
   \<or> still_matches B rec s
     \<and> (\<exists>r. delete_target rec = Some r \<and> requests (snd (compare_delete B rec s)) = requests s @ [r])"
  by (auto simp: compare_delete_def delete_target_def still_matches_def Let_def case_prod_beta neq_Nil_conv
           split: option.split if_splits)

lemma cleanup_all_frame [simp]: "lease_table (cleanup_all B rs s) = lease_table s"
  by (induction B rs s rule: cleanup_all.induct) auto

definition owned_deletes :: "lease set \<Rightarrow> bp_request list \<Rightarrow> bool" where
  "owned_deletes recs new \<longleftrightarrow>
     (\<forall>t a. DeleteRequest t a \<in> set new \<longrightarrow>
        (\<exists>rec \<in> recs. created_by_workflow rec \<and> delete_target rec = Some (DeleteRequest t a)))"

lemma owned_deletes_Nil [simp]: "owned_deletes recs []"
  by (simp add: owned_deletes_def)

lemma owned_deletes_append [simp]:
  "owned_deletes recs (a @ b) \<longleftrightarrow> owned_deletes recs a \<and> owned_deletes recs b"
  by (auto simp: owned_deletes_def)

lemma owned_deletes_set [simp]: "owned_deletes recs [SetRequest t a]"
  by (simp add: owned_deletes_def)

text \<open>\<open>s'\<close> is reached from \<open>s\<close> with requests that delete breakpoints of \<open>recs\<close> only.\<close>

definition only_owned :: "lease set \<Rightarrow> 'd lease_state \<Rightarrow> 'd lease_state \<Rightarrow> bool" where
  "only_owned recs s s' \<longleftrightarrow> (\<exists>new. requests s' = requests s @ new \<and> owned_deletes recs new)"

lemma only_owned_same: "requests s' = requests s \<Longrightarrow> only_owned recs s s'"
  by (simp add: only_owned_def)

lemma only_owned_trans: "only_owned recs s s' \<Longrightarrow> only_owned recs s' s'' \<Longrightarrow> only_owned recs s s''"
  by (fastforce simp: only_owned_def)

lemma only_owned_set: "requests s' = requests s @ [SetRequest t a] \<Longrightarrow> only_owned recs s s'"
  by (simp add: only_owned_def)

lemma compare_delete_owned:
  "rec \<in> recs \<Longrightarrow> created_by_workflow rec \<Longrightarrow> only_owned recs s (snd (compare_delete B rec s))"
  using compare_delete_requests [of B rec s]
  by (auto simp: only_owned_def owned_deletes_def)

lemma cleanup_all_owned:
  "set rs \<subseteq> recs \<Longrightarrow> \<forall>r \<in> set rs. created_by_workflow r \<Longrightarrow> only_owned recs s (cleanup_all B rs s)"
proof (induction B rs s rule: cleanup_all.induct)
  case (1 B s)
  then show ?case by (simp add: only_owned_same)
next
  case (2 B rec rest s)
  then show ?case
    by (auto intro: only_owned_trans [OF compare_delete_owned])
qed

subsection \<open>Pruning\<close>

definition live_tokens :: "int \<Rightarrow> lease \<Rightarrow> (string \<times> lease_token) list" where
  "live_tokens now rec = fold AList.delete (expired_tokens now rec) (tokens rec)"

lemma fold_delete_filter: "fold AList.delete ks xs = filter (\<lambda>(k, v). k \<notin> set ks) xs"
  by (induction ks arbitrary: xs) (auto simp: AList.delete_eq intro: filter_cong)

lemma drop_tokens_simps [simp]:
  "lease_addr (drop_tokens g r) = lease_addr r" "lease_type (drop_tokens g r) = lease_type r"
  "workflow (drop_tokens g r) = workflow r" "lease_identity (drop_tokens g r) = lease_identity r"
  "created_by_workflow (drop_tokens g r) = created_by_workflow r"
  "preexisting (drop_tokens g r) = preexisting r" "fingerprint (drop_tokens g r) = fingerprint r"
  "tokens (drop_tokens g r) = filter (\<lambda>(k, v). k \<notin> set g) (tokens r)"
  "ref_count (drop_tokens g r) = int (length (tokens (drop_tokens g r)))"
  by (simp_all add: drop_tokens_def Let_def fold_delete_filter)

lemma delete_target_drop [simp]: "delete_target (drop_tokens g r) = delete_target r"
  by (simp add: delete_target_def split: option.split list.split)

lemma prune_table_kept:
  "(k, r') \<in> set (fst (prune_table now current t)) \<Longrightarrow>
   \<exists>r. (k, r) \<in> set t \<and> identity_key (lease_identity r) = current
     \<and> (r' = r \<and> expired_tokens now r = [] \<or> r' = drop_tokens (expired_tokens now r) r \<and> tokens r' \<noteq> [])"
  by (induction now current t rule: prune_table.induct)
     (auto simp: Let_def case_prod_beta split: if_splits)

lemma prune_table_cleanup:
  "r' \<in> set (snd (prune_table now current t)) \<Longrightarrow>
   \<exists>k r. (k, r) \<in> set t \<and> r' = drop_tokens (expired_tokens now r) r \<and> created_by_workflow r
      \<and> identity_key (lease_identity r) = current \<and> tokens r' = []"
  by (induction now current t rule: prune_table.induct)
     (fastforce simp: Let_def case_prod_beta split: if_splits)+

lemma prune_table_keys:
  "distinct (map fst t) \<Longrightarrow> distinct (map fst (fst (prune_table now current t)))
     \<and> set (map fst (fst (prune_table now current t))) \<subseteq> set (map fst t)
     \<and> length (fst (prune_table now current t)) \<le> length t"
  by (induction now current t rule: prune_table.induct)
     (auto simp: Let_def case_prod_beta split: if_splits)

definition table_leases :: "'d lease_state \<Rightarrow> lease set" where
  "table_leases s = snd ` set (lease_table s)"

lemma owned_mono:
  assumes "only_owned A s s'" "\<And>r. r \<in> A \<Longrightarrow> created_by_workflow r \<Longrightarrow>
     \<exists>r' \<in> B. created_by_workflow r' \<and> delete_target r' = delete_target r"
  shows "only_owned B s s'"
  using assms unfolding only_owned_def owned_deletes_def by metis

definition prune_read :: "'d backend \<Rightarrow> 'd lease_state \<Rightarrow>
    int \<times> (string \<times> string \<times> int \<times> int \<times> string)" where
  "prune_read B s =
     (let (now, s1) = outside (monotonic_ms B) s; (identity, s2) = outside (cached_identity B) s1
      in (now, identity_key (breakpoint_lease_identity identity)))"

lemma prune_leases_table:
  "lease_table (prune_leases B s) = fst (prune_table (fst (prune_read B s)) (snd (prune_read B s)) (lease_table s))"
  by (simp add: prune_leases_def prune_read_def Let_def case_prod_beta)

lemma prune_leases_owned: "only_owned (table_leases s) s (prune_leases B s)"
proof -
  let ?c = "snd (prune_table (fst (prune_read B s)) (snd (prune_read B s)) (lease_table s))"
  have "\<exists>s2. requests s2 = requests s \<and> prune_leases B s = cleanup_all B ?c s2"
    by (simp add: prune_leases_def prune_read_def Let_def case_prod_beta)
       (rule exI, rule conjI [rotated], rule refl, simp)
  then obtain s2 where s2: "requests s2 = requests s" "prune_leases B s = cleanup_all B ?c s2" by blast
  have "only_owned (set ?c) s2 (prune_leases B s)"
    unfolding s2 by (rule cleanup_all_owned) (auto dest: prune_table_cleanup)
  then have "only_owned (set ?c) s (prune_leases B s)" using s2(1) by (simp add: only_owned_def)
  then show ?thesis
    by (rule owned_mono) (force dest: prune_table_cleanup simp: table_leases_def)
qed

subsection \<open>The invariant\<close>

definition managed_types :: "string set" where
  "managed_types = {''normal'', ''hardware'', ''memory'', ''conditional''}"

definition lease_ok :: "string \<times> lease \<Rightarrow> bool" where
  "lease_ok e = (case e of (key, rec) \<Rightarrow>
     key = lease_key (lease_type rec) (lease_addr rec)
     \<and> lease_type rec \<in> managed_types
     \<and> lease_addr rec \<noteq> []
     \<and> preexisting rec = (\<not> created_by_workflow rec)
     \<and> tokens rec \<noteq> [] \<and> distinct (map fst (tokens rec))
     \<and> ref_count rec = int (length (tokens rec))
     \<and> (\<forall>(k, t) \<in> set (tokens rec). token_workflow t = workflow rec))"

definition leases_ok :: "(string \<times> lease) list \<Rightarrow> bool" where
  "leases_ok t \<longleftrightarrow> distinct (map fst t) \<and> length t \<le> lease_max_entries \<and> Ball (set t) lease_ok"

definition table_ok :: "'d lease_state \<Rightarrow> bool" where
  "table_ok s = leases_ok (lease_table s)"

lemma lease_ok_drop:
  "lease_ok (k, r) \<Longrightarrow> tokens (drop_tokens g r) \<noteq> [] \<Longrightarrow> lease_ok (k, drop_tokens g r)"
  by (auto simp: lease_ok_def distinct_map_filter)

lemma prune_leases_ok: "leases_ok (lease_table s) \<Longrightarrow> leases_ok (lease_table (prune_leases B s))"
  using prune_table_keys [of "lease_table s" "fst (prune_read B s)" "snd (prune_read B s)"]
  by (auto simp: leases_ok_def prune_leases_table dest!: prune_table_kept intro: lease_ok_drop)

lemma update_keeps_ok:
  assumes "leases_ok t" "lease_ok (k, r)" "k \<in> fst ` set t \<or> length t < lease_max_entries"
  shows "leases_ok (AList.update k r t)"
proof -
  have "Ball (set (AList.update k r t)) lease_ok"
    using assms(1,2) by (intro update_Ball) (auto simp: leases_ok_def)
  with assms show ?thesis by (auto simp: leases_ok_def length_update)
qed

lemma delete_keeps_ok: "leases_ok t \<Longrightarrow> leases_ok (AList.delete k t)"
  using order.trans [OF length_filter_le]
  by (auto simp: leases_ok_def AList.delete_eq distinct_map_filter)

lemma find_token_mem:
  "find_token tok t = Some (k, r) \<Longrightarrow> (k, r) \<in> set t \<and> tok \<in> fst ` set (tokens r)"
  by (induction tok t rule: find_token.induct)
     (auto split: if_splits simp: map_of_eq_None_iff)

lemma acquire_shared_ok:
  assumes "leases_ok (lease_table s)" "map_of (lease_table s) key = Some rec" "workflow rec = w"
  shows "leases_ok (lease_table (snd (acquire_shared B key w now ttl rec s)))"
proof -
  from assms have mem: "(key, rec) \<in> set (lease_table s)" by (simp add: map_of_SomeD)
  with assms(1) have ok: "lease_ok (key, rec)" by (auto simp: leases_ok_def)
  let ?toks = "AList.update (''bpl-'' @ fst (outside (fresh_hex B) s)) (new_token w now ttl) (tokens rec)"
  let ?rec = "rec\<lparr>tokens := ?toks, ref_count := int (length ?toks), last_renewed_at := now\<rparr>"
  have "?toks \<noteq> []" by (cases "tokens rec") auto
  moreover have "\<forall>(k, t) \<in> set ?toks. token_workflow t = workflow rec"
    using ok assms(3) by (intro update_Ball) (auto simp: lease_ok_def new_token_def)
  ultimately have "lease_ok (key, ?rec)" using ok by (auto simp: lease_ok_def)
  moreover have "key \<in> fst ` set (lease_table s)" using mem by force
  ultimately show ?thesis using assms(1)
    by (simp add: acquire_shared_def Let_def case_prod_beta update_keeps_ok)
qed

lemma store_new_lease_ok:
  assumes "leases_ok (lease_table s)" "leases_ok leases"
    "key = lease_key managed addr" "managed \<in> managed_types" "addr \<noteq> []"
  shows "leases_ok (lease_table (snd (store_new_lease B key i addr managed w now ttl c e r leases s)))"
  using assms
  by (auto simp: store_new_lease_def Let_def case_prod_beta lease_ok_def new_token_def
      intro!: update_keeps_ok)

lemma acquire_fresh_ok:
  assumes "leases_ok (lease_table s)" "leases_ok leases"
    "key = lease_key managed addr" "managed \<in> managed_types" "addr \<noteq> []"
  shows "leases_ok (lease_table (snd (acquire_fresh B key i addr managed w now ttl z ac c nm leases s)))"
  using assms
  by (auto simp: acquire_fresh_def Let_def case_prod_beta intro!: store_new_lease_ok split: option.split)

lemma normalize_managed_type_range:
  "normalize_managed_type v \<noteq> [] \<Longrightarrow> normalize_managed_type v \<in> managed_types"
  by (auto simp: normalize_managed_type_def managed_types_def Let_def split: if_splits)

lemma acquire_locked_ok:
  assumes "leases_ok (lease_table s)" "managed \<in> managed_types" "addr \<noteq> []"
  shows "leases_ok (lease_table (snd (acquire_locked B i addr managed w ttl z ac c nm s)))"
  unfolding acquire_locked_def Let_def case_prod_beta
  using prune_leases_ok [OF assms(1)] assms(2,3)
  by (auto intro!: acquire_fresh_ok acquire_shared_ok delete_keeps_ok split: option.split)

lemma acquire_lease_ok:
  "leases_ok (lease_table s) \<Longrightarrow> leases_ok (lease_table (snd (acquire_lease B a w t l z ac c nm s)))"
  unfolding acquire_lease_def Let_def case_prod_beta
  by (auto intro!: acquire_locked_ok normalize_managed_type_range split: option.split)

lemma renew_lease_ok:
  assumes "leases_ok (lease_table s)"
  shows "leases_ok (lease_table (snd (renew_lease B tok ttl s)))"
proof -
  have upd: "leases_ok (AList.update key (rec\<lparr>tokens := map (\<lambda>p. if fst p = tk
      then (fst p, snd p\<lparr>expires_at := e, renewed_at := Some now\<rparr>) else (fst p, snd p)) (tokens rec),
      last_renewed_at := now\<rparr>) t)"
    if "leases_ok t" "find_token tk t = Some (key, rec)" for t key rec tk e now
  proof -
    from find_token_mem [OF that(2)] have mem: "(key, rec) \<in> set t" by simp
    with that(1) have "lease_ok (key, rec)" by (auto simp: leases_ok_def)
    then have "lease_ok (key, rec\<lparr>tokens := map (\<lambda>p. if fst p = tk
      then (fst p, snd p\<lparr>expires_at := e, renewed_at := Some now\<rparr>) else (fst p, snd p)) (tokens rec),
      last_renewed_at := now\<rparr>)"
      by (auto simp: lease_ok_def comp_def if_distrib cong: if_cong)
    with that(1) mem show ?thesis by (intro update_keeps_ok) force+
  qed
  show ?thesis
    unfolding renew_lease_def Let_def case_prod_beta
    using assms by (auto split: option.split intro!: upd prune_leases_ok)
qed

lemma release_lease_ok:
  assumes "leases_ok (lease_table s)"
  shows "leases_ok (lease_table (snd (release_lease B tok s)))"
proof -
  have upd: "leases_ok (AList.update key (drop_tokens g rec) t)"
    if "leases_ok t" "find_token tk t = Some (key, rec)" "tokens (drop_tokens g rec) \<noteq> []" for t key rec tk g
  proof -
    from find_token_mem [OF that(2)] have mem: "(key, rec) \<in> set t" by simp
    with that(1,3) have "lease_ok (key, drop_tokens g rec)" by (intro lease_ok_drop) (auto simp: leases_ok_def)
    with that(1) mem show ?thesis by (intro update_keeps_ok) force+
  qed
  show ?thesis
    unfolding release_lease_def Let_def case_prod_beta
    using assms by (auto split: option.split intro!: upd prune_leases_ok delete_keeps_ok)
qed

lemma list_leases_ok: "leases_ok (lease_table s) \<Longrightarrow> leases_ok (lease_table (snd (list_leases B x s)))"
  by (simp add: list_leases_def Let_def case_prod_beta prune_leases_ok)

subsection \<open>Runs\<close>

datatype 'd lease_op =
    Acquire string string string int int string string string
  | Renew string int
  | Release string
  | ListAll bool
  | Elapse 'd

text \<open>One tool call, or a change of the outside between two calls.\<close>

fun lease_step :: "'d backend \<Rightarrow> 'd lease_state \<Rightarrow> 'd lease_op \<Rightarrow> 'd lease_state" where
  "lease_step B s (Acquire a w t ms z ac c nm) = snd (acquire_lease B a w t ms z ac c nm s)"
| "lease_step B s (Renew i ms) = snd (renew_lease B i ms s)"
| "lease_step B s (Release i) = snd (release_lease B i s)"
| "lease_step B s (ListAll x) = snd (list_leases B x s)"
| "lease_step B s (Elapse w) = s\<lparr>world := w\<rparr>"

definition initial_leases :: "'d \<Rightarrow> 'd lease_state" where
  "initial_leases w = \<lparr>world = w, lease_table = [], requests = []\<rparr>"

lemma lease_step_ok: "table_ok s \<Longrightarrow> table_ok (lease_step B s op)"
  by (cases op) (simp_all add: table_ok_def acquire_lease_ok renew_lease_ok release_lease_ok list_leases_ok)

interpretation lease_run: reducer "lease_step B" table_ok for B
  by unfold_locales (rule lease_step_ok)

subsection \<open>Deletes are paid for by sets\<close>

text \<open>A step that keeps the records' targets: every record afterwards stems from a record
  before, or its breakpoint was set by a request of the step.\<close>

definition same_target :: "lease \<Rightarrow> lease \<Rightarrow> bool" where
  "same_target r r' \<longleftrightarrow> lease_addr r' = lease_addr r \<and> lease_type r' = lease_type r
     \<and> created_by_workflow r' = created_by_workflow r"

definition set_addr :: "string \<Rightarrow> string" where
  "set_addr addr = (case normalize_hex (VStr addr) of Some (c # h) \<Rightarrow> c # h | _ \<Rightarrow> addr)"

definition backed :: "bp_request list \<Rightarrow> lease \<Rightarrow> bool" where
  "backed reqs r \<longleftrightarrow> (created_by_workflow r \<longrightarrow> SetRequest (lease_type r) (set_addr (lease_addr r)) \<in> set reqs)"

definition stems :: "bp_request list \<Rightarrow> (string \<times> lease) list \<Rightarrow> (string \<times> lease) list \<Rightarrow> bool" where
  "stems reqs t t' \<longleftrightarrow> (\<forall>r' \<in> snd ` set t'. (\<exists>r \<in> snd ` set t. same_target r r') \<or> backed reqs r')"

definition good_step :: "'d lease_state \<Rightarrow> 'd lease_state \<Rightarrow> bool" where
  "good_step s s' \<longleftrightarrow> only_owned (table_leases s) s s'
     \<and> stems (requests s') (lease_table s) (lease_table s')"

lemma same_target_refl [simp]: "same_target r r"
  by (simp add: same_target_def)

lemma same_target_drop [simp]: "same_target r (drop_tokens g r)"
  by (simp add: same_target_def)

lemma same_target_delete: "same_target r r' \<Longrightarrow> delete_target r' = delete_target r"
  by (simp add: same_target_def delete_target_def split: option.split list.split)

lemma backed_append: "backed reqs r \<Longrightarrow> backed (reqs @ new) r"
  by (auto simp: backed_def)

lemma stems_refl [simp]: "stems reqs t t"
  unfolding stems_def using same_target_refl by blast

lemma stems_update:
  assumes "stems reqs t t'" "(\<exists>r0 \<in> snd ` set t. same_target r0 r) \<or> backed reqs r"
  shows "stems reqs t (AList.update k r t')"
  unfolding stems_def
proof
  fix r' assume "r' \<in> snd ` set (AList.update k r t')"
  then have "r' = r \<or> r' \<in> snd ` set t'" using set_update_subset [of k r t'] by auto
  with assms show "(\<exists>r \<in> snd ` set t. same_target r r') \<or> backed reqs r'"
    unfolding stems_def by blast
qed

lemma stems_delete: "stems reqs t t' \<Longrightarrow> stems reqs t (AList.delete k t')"
  unfolding stems_def using set_delete_subset [of k t'] by blast

lemma good_step_same: "lease_table s' = lease_table s \<Longrightarrow> requests s' = requests s \<Longrightarrow> good_step s s'"
  by (simp add: good_step_def only_owned_same)

lemma same_target_trans: "same_target a b \<Longrightarrow> same_target b c \<Longrightarrow> same_target a c"
  by (simp add: same_target_def)

lemma owned_sources:
  assumes "only_owned A' s s'" "\<And>r'. r' \<in> A' \<Longrightarrow> \<exists>r \<in> A. same_target r r'"
  shows "only_owned A s s'"
proof (rule owned_mono [OF assms(1)])
  fix r' assume "r' \<in> A'" "created_by_workflow r'"
  with assms(2) obtain r where r: "r \<in> A" "same_target r r'" by blast
  from r(2) have "delete_target r = delete_target r'" by (rule same_target_delete [symmetric])
  moreover from r(2) \<open>created_by_workflow r'\<close> have "created_by_workflow r" by (simp add: same_target_def)
  ultimately show "\<exists>r \<in> A. created_by_workflow r \<and> delete_target r = delete_target r'"
    using r(1) by blast
qed

lemma prune_leases_source: "r' \<in> table_leases (prune_leases B s) \<Longrightarrow> \<exists>r \<in> table_leases s. same_target r r'"
proof -
  assume "r' \<in> table_leases (prune_leases B s)"
  then obtain k where "(k, r') \<in> set (lease_table (prune_leases B s))" by (auto simp: table_leases_def)
  from prune_table_kept [OF this [unfolded prune_leases_table]]
  obtain r where "(k, r) \<in> set (lease_table s)" "same_target r r'" by (auto simp: same_target_def)
  then show ?thesis unfolding table_leases_def by force
qed

text \<open>So it is enough to look at what a tool does after pruning.\<close>

lemma after_prune:
  assumes "only_owned (table_leases (prune_leases B s)) (prune_leases B s) s2"
    and "stems (requests s2) (lease_table (prune_leases B s)) (lease_table s2)"
  shows "good_step s s2"
proof -
  have "only_owned (table_leases s) (prune_leases B s) s2"
    by (rule owned_sources [OF assms(1) prune_leases_source])
  then have "only_owned (table_leases s) s s2" by (rule only_owned_trans [OF prune_leases_owned])
  with assms(2) show ?thesis
    unfolding good_step_def stems_def
    by (metis prune_leases_source same_target_trans table_leases_def)
qed

lemma good_step_start: "lease_table s = lease_table s0 \<Longrightarrow> requests s = requests s0 \<Longrightarrow> good_step s s' \<Longrightarrow> good_step s0 s'"
  by (simp add: good_step_def table_leases_def only_owned_def)

lemma acquire_shared_quiet:
  "requests (snd (acquire_shared B key w now ttl rec s)) = requests s"
  by (simp add: acquire_shared_def Let_def case_prod_beta)

lemma acquire_shared_stems:
  assumes "map_of t key = Some rec" "lease_table s = t"
  shows "stems reqs t (lease_table (snd (acquire_shared B key w now ttl rec s)))"
proof -
  have "rec \<in> snd ` set t" using map_of_SomeD [OF assms(1)] by force
  with assms(2) show ?thesis
    by (auto simp: acquire_shared_def Let_def case_prod_beta same_target_def intro!: stems_update bexI [of _ rec])
qed

lemma store_new_lease_quiet:
  "requests (snd (store_new_lease B key i addr managed w now ttl c e r leases s)) = requests s"
  by (simp add: store_new_lease_def Let_def case_prod_beta)

lemma store_new_lease_stems:
  assumes "stems reqs (lease_table s) leases" "c \<Longrightarrow> SetRequest managed (set_addr addr) \<in> set reqs"
  shows "stems reqs (lease_table s) (lease_table (snd (store_new_lease B key i addr managed w now ttl c e r leases s)))"
  using assms
  by (auto simp: store_new_lease_def Let_def case_prod_beta backed_def intro!: stems_update)

lemma managed_set_request:
  "requests (snd (managed_breakpoint_set B addr managed n ac c nm s)) = requests s @ [SetRequest managed (set_addr addr)]"
  by (simp add: managed_breakpoint_set_def set_addr_def Let_def case_prod_beta split: pyval.split)

lemma acquire_fresh_good:
  assumes "leases = lease_table s \<or> leases = AList.delete key (lease_table s)"
    "s' = snd (acquire_fresh B key i addr managed w now ttl z ac c nm leases s)"
  shows "only_owned recs s s' \<and> stems (requests s') (lease_table s) (lease_table s')"
proof -
  have st: "stems reqs (lease_table s) leases" for reqs using assms(1) stems_delete stems_refl by metis
  have store: "stems reqs (lease_table s) (lease_table (snd (store_new_lease B key i addr managed w now ttl cr e r leases s2)))"
    if "lease_table s2 = lease_table s" "cr \<Longrightarrow> SetRequest managed (set_addr addr) \<in> set reqs" for reqs s2 cr e r
    using store_new_lease_stems [of reqs s2 leases cr managed addr] that st by simp
  let ?s1 = "snd (managed_snapshot B addr managed s)"
  let ?s2 = "snd (managed_breakpoint_set B addr managed z ac c nm ?s1)"
  let ?s3 = "snd (managed_snapshot B addr managed ?s2)"
  show ?thesis
  proof (cases "fst (managed_snapshot B addr managed s)")
    case (Some item)
    then show ?thesis
      unfolding assms(2)
      by (auto simp: acquire_fresh_def Let_def case_prod_beta store_new_lease_quiet
          intro!: store only_owned_same)
  next
    case None
    then have s': "s' = ?s2 \<or> s' = ?s3 \<or>
        (\<exists>e r. s' = snd (store_new_lease B key i addr managed w now ttl True e r leases ?s3))"
      unfolding assms(2)
      by (auto simp: acquire_fresh_def Let_def case_prod_beta split: option.split)
    have "requests s' = requests s @ [SetRequest managed (set_addr addr)]"
      using s' by (auto simp: store_new_lease_quiet managed_set_request)
    then have "only_owned recs s s'" "SetRequest managed (set_addr addr) \<in> set (requests s')"
      by (auto intro: only_owned_set)
    with s' show ?thesis by (auto intro!: store)
  qed
qed

lemma acquire_locked_good: "good_step s (snd (acquire_locked B i addr managed w ttl z ac c nm s))"
proof -
  let ?s1 = "snd (outside (monotonic_ms B) (prune_leases B s))"
  have fresh: "only_owned recs (prune_leases B s) s' \<and> stems (requests s') (lease_table (prune_leases B s)) (lease_table s')"
    if "leases = lease_table ?s1 \<or> leases = AList.delete key (lease_table ?s1)"
      "s' = snd (acquire_fresh B key i addr managed w now ttl z ac c nm leases ?s1)" for recs s' key leases now
    using acquire_fresh_good [OF that] by (simp add: only_owned_def)
  show ?thesis
    unfolding acquire_locked_def Let_def case_prod_beta
    by (rule after_prune)
       (auto split: option.split intro: fresh [THEN conjunct1] fresh [THEN conjunct2]
         only_owned_same acquire_shared_stems simp: acquire_shared_quiet)
qed

lemma acquire_lease_good: "good_step s (snd (acquire_lease B a w t l z ac c nm s))"
  unfolding acquire_lease_def Let_def case_prod_beta
  by (auto split: option.split intro: good_step_same good_step_start [OF _ _ acquire_locked_good])

lemma renew_lease_good: "good_step s (snd (renew_lease B tok ms s))"
proof -
  let ?s1 = "snd (outside (cached_identity B) s)"
  have upd: "stems reqs t (AList.update key (rec\<lparr>tokens := toks, last_renewed_at := now\<rparr>) t)"
    if "find_token tk t = Some (key, rec)" for reqs t tk key rec toks now
    using find_token_mem [OF that]
    by (intro stems_update stems_refl disjI1 bexI [of _ rec]) (force simp: same_target_def)+
  have "good_step ?s1 (snd (renew_lease B tok ms s)) \<or> snd (renew_lease B tok ms s) = s"
    unfolding renew_lease_def Let_def case_prod_beta
    by (auto split: option.split intro!: upd after_prune only_owned_same)
  then show ?thesis by (auto intro: good_step_same good_step_start [rotated 2])
qed

lemma release_lease_good: "good_step s (snd (release_lease B tok s))"
proof -
  let ?s1 = "snd (outside (cached_identity B) s)"
  let ?s2 = "prune_leases B ?s1"
  have upd: "stems reqs t (AList.update key (drop_tokens g rec) t)"
    if "find_token tk t = Some (key, rec)" for reqs t tk key rec g
    using find_token_mem [OF that]
    by (intro stems_update stems_refl disjI1 bexI [of _ rec]) force+
  have own: "only_owned (table_leases ?s2) ?s2 (snd (compare_delete B (drop_tokens g rec) (?s2\<lparr>lease_table := t'\<rparr>)))"
    if "find_token tk (lease_table ?s2) = Some (key, rec)" "created_by_workflow rec" for tk key rec g t'
  proof -
    have "only_owned {drop_tokens g rec} (?s2\<lparr>lease_table := t'\<rparr>)
            (snd (compare_delete B (drop_tokens g rec) (?s2\<lparr>lease_table := t'\<rparr>)))"
      by (rule compare_delete_owned) (simp_all add: that(2))
    then have "only_owned {drop_tokens g rec} ?s2
            (snd (compare_delete B (drop_tokens g rec) (?s2\<lparr>lease_table := t'\<rparr>)))"
      by (simp add: only_owned_def)
    then show ?thesis
      by (rule owned_sources) (use find_token_mem [OF that(1)] in \<open>force simp: table_leases_def\<close>)
  qed
  have "good_step ?s1 (snd (release_lease B tok s)) \<or> snd (release_lease B tok s) = s"
    unfolding release_lease_def Let_def case_prod_beta
    by (auto split: option.split intro!: upd after_prune own stems_delete intro: only_owned_same)
  then show ?thesis by (auto intro: good_step_same good_step_start [rotated 2])
qed

lemma list_leases_good: "good_step s (snd (list_leases B x s))"
  by (auto simp: list_leases_def Let_def case_prod_beta intro!: after_prune only_owned_same)

lemma lease_step_good: "good_step s (lease_step B s op)"
  by (cases op) (simp_all add: acquire_lease_good renew_lease_good release_lease_good
      list_leases_good good_step_same)

end
