(* ===== verification/LeaseProps.thy ===== *)
theory LeaseProps
  imports LeaseSafety
begin

text \<open>
  The properties of the breakpoint leases, over runs of the tools from an empty table, and a
  small simulated debugger on which their witnesses run.
\<close>

subsection \<open>A simulated debugger\<close>

record sim =
  points :: "string list"
  clock :: int
  serial :: nat

definition sim_list :: "sim \<Rightarrow> pyval option \<times> sim" where
  "sim_list w = (Some (VDict [(''breakpoints'', VList (map (\<lambda>a. VDict
     [(''addr'', VStr a), (''type'', VStr ''Normal'')]) (points w)))]), w)"

definition sim_set :: "string \<Rightarrow> sim \<Rightarrow> pyval \<times> sim" where
  "sim_set a w = (VStr ''Breakpoint set successfully'', w\<lparr>points := points w @ [a]\<rparr>)"

definition sim_delete :: "string \<Rightarrow> sim \<Rightarrow> pyval \<times> sim" where
  "sim_delete a w = (VStr ''Breakpoint deleted'', w\<lparr>points := removeAll a (points w)\<rparr>)"

definition sim_backend :: "sim backend" where
  "sim_backend =
     \<lparr>cached_identity = (\<lambda>w. ([(''bridgeInstanceId'', VStr ''b''), (''sessionId'', VStr ''s''),
                              (''debuggeePid'', VInt 7)], w)),
      monotonic_ms = (\<lambda>w. (clock w, w)),
      fresh_hex = (\<lambda>w. (replicate (Suc (serial w)) (CHR ''f''), w\<lparr>serial := Suc (serial w)\<rparr>)),
      list_breakpoints = sim_list,
      delete_memory = sim_delete, delete_hardware = sim_delete, delete_software = sim_delete,
      set_hardware = sim_set, set_memory_range = (\<lambda>a n ac nm. sim_set a),
      set_conditional = (\<lambda>a c nm. sim_set a), set_software = sim_set,
      repair_text = (\<lambda>t. t)\<rparr>"

definition sim_world :: sim where
  "sim_world = \<lparr>points = [], clock = 0, serial = 0\<rparr>"

definition sim_acquire :: "string \<Rightarrow> sim lease_op" where
  "sim_acquire w = Acquire ''0x10'' w ''bp'' 5000 1 [] [] []"

definition run_from :: "sim \<Rightarrow> sim lease_op list \<Rightarrow> sim lease_state" where
  "run_from w ops = foldl (lease_step sim_backend) (initial_leases w) ops"

lemma sim_run:
  "requests (run_from sim_world [sim_acquire ''w'', sim_acquire ''w'', Release ''bpl-f'', Release ''bpl-ff''])
     = [SetRequest ''normal'' ''0x10'', DeleteRequest ''normal'' ''0x10'']"
  by code_simp

subsection \<open>Properties\<close>

text \<open>C24: In every run of the lease tools, whatever the outside does between the calls, the lease
  table has at most 256 entries under distinct keys, every entry is live (it has a token, and its
  reference count is the number of its tokens), all its tokens belong to the one workflow that
  owns it, and it is either preexisting or created by that workflow.\<close>

theorem lease_table_invariant: "table_ok (foldl (lease_step B) (initial_leases w) ops)"
  by (rule lease_run.foldl_inv) (simp add: initial_leases_def table_ok_def leases_ok_def)

lemma managed_type_fixed: "t \<in> managed_types \<Longrightarrow> normalize_managed_type (VStr t) = t"
proof -
  have "normalize_managed_type (VStr ''normal'') = ''normal''"
    "normalize_managed_type (VStr ''hardware'') = ''hardware''"
    "normalize_managed_type (VStr ''memory'') = ''memory''"
    "normalize_managed_type (VStr ''conditional'') = ''conditional''" by code_simp+
  then show "t \<in> managed_types \<Longrightarrow> ?thesis" by (auto simp: managed_types_def)
qed

text \<open>Every delete comes after the set request of the same breakpoint.\<close>

definition deletes_follow_sets :: "bp_request list \<Rightarrow> bool" where
  "deletes_follow_sets reqs \<longleftrightarrow>
     (\<forall>i < length reqs. \<forall>t a. reqs ! i = DeleteRequest t a \<longrightarrow> SetRequest t a \<in> set (take i reqs))"

definition run_ok :: "'d lease_state \<Rightarrow> bool" where
  "run_ok s \<longleftrightarrow> table_ok s \<and> (\<forall>r \<in> table_leases s. backed (requests s) r) \<and> deletes_follow_sets (requests s)"

lemma follow_append:
  assumes "deletes_follow_sets reqs" "\<And>t a. DeleteRequest t a \<in> set new \<Longrightarrow> SetRequest t a \<in> set reqs"
  shows "deletes_follow_sets (reqs @ new)"
  unfolding deletes_follow_sets_def
proof (intro allI impI)
  fix i t a
  assume i: "i < length (reqs @ new)" and d: "(reqs @ new) ! i = DeleteRequest t a"
  show "SetRequest t a \<in> set (take i (reqs @ new))"
  proof (cases "i < length reqs")
    case True
    with assms(1) d show ?thesis by (simp add: deletes_follow_sets_def nth_append)
  next
    case False
    with i d have "DeleteRequest t a = new ! (i - length reqs)" "i - length reqs < length new"
      by (auto simp: nth_append)
    then have "DeleteRequest t a \<in> set new" by simp
    from assms(2) [OF this] False show ?thesis by simp
  qed
qed

lemma delete_target_backed:
  assumes "lease_ok (k, r)" "created_by_workflow r" "backed reqs r" "delete_target r = Some (DeleteRequest t a)"
  shows "SetRequest t a \<in> set reqs"
proof -
  from assms(4) obtain c h where "normalize_hex (VStr (lease_addr r)) = Some (c # h)"
    "t = normalize_managed_type (VStr (lease_type r))" "a = c # h"
    by (auto simp: delete_target_def split: option.splits list.splits)
  moreover from assms(1) have "normalize_managed_type (VStr (lease_type r)) = lease_type r"
    by (intro managed_type_fixed) (simp add: lease_ok_def)
  ultimately show ?thesis using assms(2,3) by (simp add: backed_def set_addr_def)
qed

lemma run_ok_step:
  assumes "run_ok s"
  shows "run_ok (lease_step B s op)"
proof -
  let ?s' = "lease_step B s op"
  from lease_step_good [of s B op] obtain new
    where new: "requests ?s' = requests s @ new" "owned_deletes (table_leases s) new"
      and stem: "stems (requests ?s') (lease_table s) (lease_table ?s')"
    by (auto simp: good_step_def only_owned_def)
  from assms have old: "\<And>r. r \<in> table_leases s \<Longrightarrow> backed (requests s) r \<and> (\<exists>k. lease_ok (k, r))"
    by (force simp: run_ok_def table_ok_def leases_ok_def table_leases_def)
  have "backed (requests ?s') r'" if r': "r' \<in> table_leases ?s'" for r'
  proof -
    from r' stem consider r where "r \<in> table_leases s" "same_target r r'" | "backed (requests ?s') r'"
      unfolding stems_def table_leases_def by blast
    then show ?thesis
    proof cases
      case (1 r)
      with old [of r] show ?thesis by (auto simp: backed_def same_target_def new(1))
    qed
  qed
  moreover have "deletes_follow_sets (requests ?s')"
    unfolding new(1)
  proof (rule follow_append)
    show "deletes_follow_sets (requests s)" using assms by (simp add: run_ok_def)
    fix t a assume "DeleteRequest t a \<in> set new"
    with new(2) obtain r where "r \<in> table_leases s" "created_by_workflow r"
      "delete_target r = Some (DeleteRequest t a)" by (auto simp: owned_deletes_def)
    with old show "SetRequest t a \<in> set (requests s)" by (metis delete_target_backed)
  qed
  ultimately show ?thesis using assms lease_step_ok [of s B op] by (simp add: run_ok_def)
qed

interpretation lease_trace: reducer "lease_step B" run_ok for B
  by unfold_locales (rule run_ok_step)

text \<open>C23: In every run of the lease tools each delete request that reaches the debugger is for a
  breakpoint that an earlier request of the same run set, with the same type and address: what this
  server never set is never deleted by release, expiry or pruning.\<close>

theorem deletes_only_own_breakpoints:
  "deletes_follow_sets (requests (foldl (lease_step B) (initial_leases w) ops))"
proof -
  have "run_ok (initial_leases w)"
    by (simp add: run_ok_def initial_leases_def table_ok_def leases_ok_def table_leases_def deletes_follow_sets_def)
  from lease_trace.foldl_inv [OF this] show ?thesis by (simp add: run_ok_def)
qed

lemma compare_delete_status:
  "dict_get (fst (compare_delete B rec s)) ''deleted'' = VBool True \<Longrightarrow>
   dict_get (fst (compare_delete B rec s)) ''status'' = VStr ''deleted''
   \<and> requests (snd (compare_delete B rec s)) \<noteq> requests s"
  by (auto simp: compare_delete_def delete_reply_def dict_get_def dict_get_default_def Let_def case_prod_beta
           split: option.splits if_splits)

text \<open>Compare and delete issues at most one request, and only while the debugger still lists
  a breakpoint with every property the lease recorded; it reports a deletion only after such a
  request.\<close>

lemma compare_delete_guarded:
  fixes B :: "'d backend" and rec s
  defines "s' \<equiv> snd (compare_delete B rec s)" and "reply \<equiv> fst (compare_delete B rec s)"
  shows "lease_table s' = lease_table s
    \<and> (requests s' = requests s \<and> dict_get reply ''deleted'' \<noteq> VBool True
       \<or> still_matches B rec s
         \<and> (\<exists>t a. delete_target rec = Some (DeleteRequest t a) \<and> requests s' = requests s @ [DeleteRequest t a]))"
proof -
  have "\<exists>t a. r = DeleteRequest t a" if "delete_target rec = Some r" for r
    using that by (auto simp: delete_target_def split: option.splits list.splits)
  then show ?thesis
    using compare_delete_requests [of B rec s] compare_delete_status [of B rec s]
    unfolding s'_def reply_def by (metis compare_delete_frame)
qed

lemma no_expired: "expired_tokens now r = [] \<Longrightarrow> (k, t) \<in> set (tokens r) \<Longrightarrow> now < expires_at t"
  by (auto simp: expired_tokens_def filter_empty_conv not_le)

lemma drop_expired: "(k, t) \<in> set (tokens (drop_tokens (expired_tokens now r) r)) \<Longrightarrow> now < expires_at t"
  by (force simp: expired_tokens_def not_le)

text \<open>Pruning leaves only leases of the current session, each with a token, and no expired
  token in any of them.\<close>

lemma prune_keeps_live:
  assumes "table_ok s" "rec \<in> table_leases (prune_leases B s)"
  shows "identity_key (lease_identity rec) = snd (prune_read B s)
    \<and> tokens rec \<noteq> [] \<and> (\<forall>(k, t) \<in> set (tokens rec). fst (prune_read B s) < expires_at t)"
proof -
  from assms(2) obtain k where "(k, rec) \<in> set (lease_table (prune_leases B s))"
    by (auto simp: table_leases_def)
  from prune_table_kept [OF this [unfolded prune_leases_table]] obtain r where
    r: "(k, r) \<in> set (lease_table s)" "identity_key (lease_identity r) = snd (prune_read B s)"
       "rec = r \<and> expired_tokens (fst (prune_read B s)) r = []
        \<or> rec = drop_tokens (expired_tokens (fst (prune_read B s)) r) r \<and> tokens rec \<noteq> []" by blast
  from assms(1) r(1) have "tokens r \<noteq> []" by (auto simp: table_ok_def leases_ok_def lease_ok_def)
  with r(2,3) show ?thesis by (auto dest: no_expired drop_expired)
qed

definition sim_late :: "sim lease_state" where
  "sim_late = lease_step sim_backend (run_from sim_world [sim_acquire ''w'', Acquire ''0x20'' ''v'' ''bp'' 90000 1 [] [] []])
                (Elapse \<lparr>points = [''0x10'', ''0x20''], clock = 6000, serial = 2\<rparr>)"

lemma initial_ok: "table_ok (initial_leases w)"
  by (simp add: initial_leases_def table_ok_def leases_ok_def)

lemma sim_late_ok: "table_ok sim_late"
  by (simp only: sim_late_def run_from_def lease_step_ok lease_run.foldl_inv initial_ok)

lemma sim_late_pruned:
  "map fst (lease_table (prune_leases sim_backend sim_late)) = [''normal:0x20'']"
  "requests (prune_leases sim_backend sim_late) =
     [SetRequest ''normal'' ''0x10'', SetRequest ''normal'' ''0x20'', DeleteRequest ''normal'' ''0x10'']"
  by code_simp+

lemma prune_other_session:
  "\<forall>(k, r) \<in> set t. identity_key (lease_identity r) \<noteq> current \<Longrightarrow> prune_table now current t = ([], [])"
  by (induction now current t rule: prune_table.induct) auto

text \<open>When the session has changed, pruning drops the leases of the old session without
  sending any request to the new one.\<close>

lemma replaced_session_untouched:
  assumes "\<forall>rec \<in> table_leases s. identity_key (lease_identity rec) \<noteq> snd (prune_read B s)"
  shows "lease_table (prune_leases B s) = [] \<and> requests (prune_leases B s) = requests s"
proof -
  have "prune_table (fst (prune_read B s)) (snd (prune_read B s)) (lease_table s) = ([], [])"
    using assms by (intro prune_other_session) (auto simp: table_leases_def)
  then show ?thesis
    by (simp add: prune_leases_def prune_read_def Let_def case_prod_beta)
qed

definition other_session :: "sim backend" where
  "other_session = sim_backend\<lparr>cached_identity := (\<lambda>w. ([(''bridgeInstanceId'', VStr ''b''),
     (''sessionId'', VStr ''t''), (''debuggeePid'', VInt 8)], w))\<rparr>"

text \<open>While a workflow holds a lease in the current session, an acquisition of the same
  breakpoint by another workflow fails with a conflict that names the owner; beyond the pruning
  it changes no lease and sends no request.\<close>

lemma lease_conflict:
  assumes "map_of (lease_table (prune_leases B s)) (lease_key managed addr) = Some rec"
    and "identity_key (lease_identity rec) = identity_key identity" and "workflow rec \<noteq> w"
  shows "let (reply, s') = acquire_locked B identity addr managed w ttl n ac c nm s in
     dict_get reply ''errorCode'' = VStr ''BREAKPOINT_LEASE_CONFLICT''
     \<and> dict_get reply ''ownerWorkflowId'' = VStr (workflow rec)
     \<and> lease_table s' = lease_table (prune_leases B s) \<and> requests s' = requests (prune_leases B s)"
  using assms
  by (simp add: acquire_locked_def failure_def dict_get_def dict_get_default_def Let_def case_prod_beta)

definition sim_identity :: session_identity where
  "sim_identity = breakpoint_lease_identity (fst (cached_identity sim_backend sim_world))"

text \<open>A full lease table is noticed only after the breakpoint has been set: the acquisition
  fails for lack of capacity, but its set request has been sent and no lease will ever remove it.\<close>

lemma capacity_failure_leaks_breakpoint:
  assumes "map_of (lease_table (prune_leases B s)) (lease_key managed addr) = None"
    and "length (lease_table (prune_leases B s)) = lease_max_entries"
    and "outside (monotonic_ms B) (prune_leases B s) = (now, s1)"
    and "managed_snapshot B addr managed s1 = (None, s2)"
    and "managed_breakpoint_set B addr managed n ac c nm s2 = (VDict d, s3)" "truthy (dict_get d ''ok'')"
    and "managed_snapshot B addr managed s3 = (Some item, s4)"
  shows "let (reply, s') = acquire_locked B identity addr managed w ttl n ac c nm s in
     dict_get reply ''errorCode'' = VStr ''BREAKPOINT_LEASE_CAPACITY''
     \<and> lease_table s' = lease_table (prune_leases B s)
     \<and> requests s' = requests (prune_leases B s) @ [SetRequest managed (set_addr addr)]"
proof -
  have t: "lease_table s1 = lease_table (prune_leases B s)" "requests s1 = requests (prune_leases B s)"
    using outside_frame [of "monotonic_ms B" "prune_leases B s"] assms(3) by simp_all
  have s2: "lease_table s2 = lease_table s1" "requests s2 = requests s1"
    using managed_snapshot_frame [of B addr managed s1] assms(4) by simp_all
  have s3: "lease_table s3 = lease_table s2" "requests s3 = requests s2 @ [SetRequest managed (set_addr addr)]"
    using managed_set_frame [of B addr managed n ac c nm s2] managed_set_request [of B addr managed n ac c nm s2]
      assms(5) by simp_all
  have s4: "lease_table s4 = lease_table s3" "requests s4 = requests s3"
    using managed_snapshot_frame [of B addr managed s3] assms(7) by simp_all
  show ?thesis
    using assms t s2 s3 s4
    by (simp add: acquire_locked_def acquire_fresh_def store_new_lease_def failure_def dict_get_def
        dict_get_default_def Let_def case_prod_beta)
qed

definition full_record :: "nat \<Rightarrow> lease" where
  "full_record i = \<lparr>lease_addr = hex0x (int i), lease_type = ''normal'', workflow = ''w'',
     lease_identity = sim_identity, created_by_workflow = True, preexisting = False, fingerprint = [],
     tokens = [(''bpl-'', new_token ''w'' 0 1000)], ref_count = 1, created_at = 0, last_renewed_at = 0\<rparr>"

definition full_state :: "sim lease_state" where
  "full_state = \<lparr>world = sim_world,
     lease_table = map (\<lambda>i. (lease_key ''normal'' (hex0x (int i)), full_record i)) [0..<256],
     requests = []\<rparr>"

lemma prune_table_all_live:
  "\<forall>(k, r) \<in> set t. identity_key (lease_identity r) = current \<and> expired_tokens now r = [] \<Longrightarrow>
   prune_table now current t = (t, [])"
  by (induction now current t rule: prune_table.induct) auto

lemma full_state_pruned: "prune_leases sim_backend full_state = full_state"
proof -
  have "prune_table 0 (identity_key sim_identity) (lease_table full_state) = (lease_table full_state, [])"
    by (rule prune_table_all_live)
       (auto simp: full_state_def full_record_def expired_tokens_def new_token_def)
  then show ?thesis
    by (simp add: prune_leases_def outside_def sim_backend_def full_state_def sim_world_def Let_def
        sim_identity_def)
qed

definition granted :: "pydict \<Rightarrow> 'd lease_state \<Rightarrow> bool" where
  "granted reply s \<longleftrightarrow>
     (\<exists>token key rec t. dict_get reply ''leaseId'' = VStr token
        \<and> map_of (lease_table s) key = Some rec \<and> map_of (tokens rec) token = Some t
        \<and> dict_get reply ''workflowId'' = VStr (workflow rec)
        \<and> dict_get reply ''referenceCount'' = VInt (int (length (tokens rec)))
        \<and> dict_get reply ''expiresAtMs'' = VInt (expires_at t)
        \<and> acquired_at t + lease_min_ms \<le> expires_at t \<and> expires_at t \<le> acquired_at t + lease_max_ms)"

lemma clamp_ttl_bounds: "lease_min_ms \<le> clamp_ttl ms \<and> clamp_ttl ms \<le> lease_max_ms"
  by (auto simp: clamp_ttl_def lease_min_ms_def lease_max_ms_def)

definition grants :: "pydict \<times> 'd lease_state \<Rightarrow> bool" where
  "grants p \<longleftrightarrow> dict_get (fst p) ''ok'' \<noteq> VBool True \<or> granted (fst p) (snd p)"

lemma grants_failure [simp]: "grants (failure c t x, s)"
  by (simp add: grants_def failure_def dict_get_def dict_get_default_def)

lemma acquire_shared_granted [simp]: "grants (acquire_shared B key w now (clamp_ttl ms) rec s)"
  using clamp_ttl_bounds [of ms]
  by (auto simp: grants_def acquire_shared_def acquire_reply_def granted_def Let_def case_prod_beta dict_get_def
      dict_get_default_def update_conv new_token_def
      intro!: exI [of _ "''bpl-'' @ fst (outside (fresh_hex B) s)"] exI [of _ key])

lemma store_new_lease_granted [simp]:
  "grants (store_new_lease B key i addr managed w now (clamp_ttl ms) c e r leases s)"
proof (cases "length leases \<ge> lease_max_entries")
  case True
  then show ?thesis by (simp add: store_new_lease_def Let_def case_prod_beta)
next
  case False
  with clamp_ttl_bounds [of ms] show ?thesis
    by (auto simp: grants_def store_new_lease_def acquire_reply_def granted_def Let_def case_prod_beta
        dict_get_def dict_get_default_def update_conv new_token_def
        intro!: exI [of _ "''bpl-'' @ fst (outside (fresh_hex B) s)"] exI [of _ key])
qed

lemma acquire_fresh_granted [simp]:
  "grants (acquire_fresh B key i addr managed w now (clamp_ttl ms) z ac c nm leases s)"
  by (simp add: acquire_fresh_def Let_def case_prod_beta split: option.split)

lemma acquire_lease_granted: "grants (acquire_lease B a w t ms z ac c nm s)"
  by (simp add: acquire_lease_def acquire_locked_def Let_def case_prod_beta split: option.split)

text \<open>A successful acquisition leaves a live lease in the table: the returned identifier is one
  of its tokens, the reported owner, reference count and expiry are those of the table, and the
  token lives between 1000 and 120000 milliseconds.\<close>

lemma acquire_grants_lease:
  assumes "acquire_lease B a w t ms z ac c nm s = (reply, s')" "dict_get reply ''ok'' = VBool True"
  shows "granted reply s'"
  using acquire_lease_granted [of B a w t ms z ac c nm s] assms by (simp add: grants_def)

definition sim_granted :: "pydict \<times> sim lease_state" where
  "sim_granted = acquire_lease sim_backend ''16'' ''w'' ''software'' 5 1 [] [] [] (initial_leases sim_world)"

text \<open>Releasing an identifier that no lease holds, for instance a second time, succeeds and
  changes nothing: beyond the pruning no lease is touched and no request is sent.\<close>

lemma release_idempotent:
  assumes "strip tok \<noteq> []" "find_token (strip tok) (lease_table (prune_leases B (snd (outside (cached_identity B) s)))) = None"
  shows "let (reply, s') = release_lease B tok s; s1 = prune_leases B (snd (outside (cached_identity B) s)) in
     dict_get reply ''ok'' = VBool True \<and> dict_get reply ''alreadyReleased'' = VBool True
     \<and> dict_get reply ''deleted'' = VBool False \<and> s' = s1"
  using assms by (simp add: release_lease_def dict_get_def dict_get_default_def Let_def case_prod_beta)

definition sim_released :: "sim lease_state" where
  "sim_released = lease_step sim_backend (snd sim_granted) (Release ''bpl-f'')"

end
