(* ===== verification/HeapTrace.thy ===== *)
theory HeapTrace
  imports Contracts
begin

text \<open>
  The heap tracker of \<open>30_trace_heap_coverage.py\<close>: the allocator catalogue and its validator
  \<open>_normalize_heap_catalog\<close>, the readers of a recorded call, and the reducer of
  \<open>GetHeapState\<close>, which folds the recorded calls in order into live resources, lifecycle events
  and anomalies. A recorded call and a catalogue entry are records; \<open>json.loads\<close> is the argument
  \<open>loads\<close> (\<open>Inl\<close> the text of its exception).
\<close>

subsection \<open>The catalogue\<close>

record heap_spec =
  spec_module :: "string option"
  spec_op :: string
  spec_family :: string
  address_arg :: "int option"
  size_args :: "int list"
  owner_arg :: "int option"
  size_product :: bool
  return_semantics :: string

type_synonym heap_catalog = "(string \<times> heap_spec) list"

definition builtin ::
  "string \<Rightarrow> string \<Rightarrow> int option \<Rightarrow> int list \<Rightarrow> int option \<Rightarrow> bool \<Rightarrow> string \<Rightarrow> heap_spec" where
  "builtin op family address sizes owner product semantics =
     \<lparr>spec_module = None, spec_op = op, spec_family = family, address_arg = address, size_args = sizes,
      owner_arg = owner, size_product = product, return_semantics = semantics\<rparr>"

definition heap_resource_catalog :: heap_catalog where
  "heap_resource_catalog =
     [(''heapalloc'', builtin ''alloc'' ''win32_heap'' None [2] (Some 0) False ''pointer''),
      (''rtlallocateheap'', builtin ''alloc'' ''nt_heap'' None [2] (Some 0) False ''pointer''),
      (''heaprealloc'', builtin ''realloc'' ''win32_heap'' (Some 2) [3] (Some 0) False ''pointer''),
      (''rtlreallocateheap'', builtin ''realloc'' ''nt_heap'' (Some 2) [3] (Some 0) False ''pointer''),
      (''heapfree'', builtin ''free'' ''win32_heap'' (Some 2) [] (Some 0) False ''bool''),
      (''rtlfreeheap'', builtin ''free'' ''nt_heap'' (Some 2) [] (Some 0) False ''bool''),
      (''virtualalloc'', builtin ''alloc'' ''virtual_memory'' None [1] None False ''pointer''),
      (''virtualalloc2'', builtin ''alloc'' ''virtual_memory'' None [2] (Some 0) False ''pointer''),
      (''virtualallocex'', builtin ''alloc'' ''virtual_memory'' None [2] (Some 0) False ''pointer''),
      (''virtualfree'', builtin ''free'' ''virtual_memory'' (Some 0) [1] None False ''bool''),
      (''virtualfreeex'', builtin ''free'' ''virtual_memory'' (Some 1) [2] (Some 0) False ''bool''),
      (''cotaskmemalloc'', builtin ''alloc'' ''com_task'' None [0] None False ''pointer''),
      (''cotaskmemrealloc'', builtin ''realloc'' ''com_task'' (Some 0) [1] None False ''pointer''),
      (''cotaskmemfree'', builtin ''free'' ''com_task'' (Some 0) [] None False ''void''),
      (''localalloc'', builtin ''alloc'' ''local_memory'' None [1] None False ''pointer''),
      (''localrealloc'', builtin ''realloc'' ''local_memory'' (Some 0) [1] None False ''pointer''),
      (''localfree'', builtin ''free'' ''local_memory'' (Some 0) [] None False ''null_success''),
      (''globalalloc'', builtin ''alloc'' ''global_memory'' None [1] None False ''pointer''),
      (''globalrealloc'', builtin ''realloc'' ''global_memory'' (Some 0) [1] None False ''pointer''),
      (''globalfree'', builtin ''free'' ''global_memory'' (Some 0) [] None False ''null_success''),
      (''malloc'', builtin ''alloc'' ''crt'' None [0] None False ''pointer''),
      (''calloc'', builtin ''alloc'' ''crt'' None [0, 1] None True ''pointer''),
      (''realloc'', builtin ''realloc'' ''crt'' (Some 0) [1] None False ''pointer''),
      (''free'', builtin ''free'' ''crt'' (Some 0) [] None False ''void''),
      (''??2@yapeax_k@z'', builtin ''alloc'' ''cpp'' None [0] None False ''pointer''),
      (''??_u@yapeax_k@z'', builtin ''alloc'' ''cpp'' None [0] None False ''pointer''),
      (''??2@yapaxi@z'', builtin ''alloc'' ''cpp'' None [0] None False ''pointer''),
      (''??_u@yapaxi@z'', builtin ''alloc'' ''cpp'' None [0] None False ''pointer''),
      (''??3@yaxpeax@z'', builtin ''free'' ''cpp'' (Some 0) [] None False ''void''),
      (''??_v@yaxpeax@z'', builtin ''free'' ''cpp'' (Some 0) [] None False ''void''),
      (''??3@yaxpax@z'', builtin ''free'' ''cpp'' (Some 0) [] None False ''void''),
      (''??_v@yaxpax@z'', builtin ''free'' ''cpp'' (Some 0) [] None False ''void'')]"

text \<open>\<open>_normalized_api_export_name\<close>: the part after the last exclamation mark, without a
  stdcall suffix and leading underscores.\<close>

definition drop_stdcall_suffix :: "string \<Rightarrow> string" where
  "drop_stdcall_suffix name =
     (let r = rev name; rest = dropWhile is_digit r in
      if rest \<noteq> r \<and> rest \<noteq> [] \<and> hd rest = CHR ''@'' then rev (tl rest) else name)"

definition export_name :: "string \<Rightarrow> string" where
  "export_name v =
     (let name = lower (strip v);
          name' = (if CHR ''!'' \<in> set name then after_last (CHR ''!'') name else name)
      in dropWhile (\<lambda>c. c = CHR ''_'') (drop_stdcall_suffix name'))"

datatype catalog_failure = CatalogError string | CatalogRaise pyexn

definition read_families :: "(string \<Rightarrow> string + pyval) \<Rightarrow> string \<Rightarrow> catalog_failure + string list" where
  "read_families loads families_json =
     (if strip families_json = [] then Inr []
      else (case loads families_json of
              Inl exc \<Rightarrow> Inl (CatalogError (''families_json is invalid JSON: '' @ exc))
            | Inr parsed \<Rightarrow>
                (case parsed of
                   VList items \<Rightarrow>
                     (let selected = remdups (map (\<lambda>v. lower (strip (str_or_empty v)))
                            (filter (\<lambda>v. strip (str_or_empty v) \<noteq> []) items));
                          known = map (spec_family \<circ> snd) heap_resource_catalog;
                          unknown = sort (filter (\<lambda>f. f \<notin> set known) selected)
                      in if unknown \<noteq> [] then
                           Inl (CatalogError (''Unknown heap/resource families: '' @ join '', '' unknown))
                         else Inr selected)
                 | _ \<Rightarrow> Inl (CatalogError ''families_json must be a JSON array.''))))"

definition custom_text :: "int \<Rightarrow> string \<Rightarrow> catalog_failure" where
  "custom_text index t = CatalogError (''Custom allocator '' @ dec index @ '' '' @ t)"

text \<open>\<open>addressArg\<close> and \<open>ownerArg\<close>: only \<open>TypeError\<close> and \<open>ValueError\<close> are caught.\<close>

definition read_arg_field :: "int \<Rightarrow> string \<Rightarrow> pydict \<Rightarrow> catalog_failure + int option" where
  "read_arg_field index f raw =
     (if dict_get raw f = VNone then Inr None
      else (case py_int (dict_get raw f) of
              Inl e \<Rightarrow> if e = TypeError \<or> e = ValueError
                       then Inl (custom_text index (''field '' @ f @ '' must be an integer.''))
                       else Inl (CatalogRaise e)
            | Inr i \<Rightarrow> if i < 0 \<or> i > 7
                       then Inl (custom_text index (''field '' @ f @ '' must be 0..7.''))
                       else Inr (Some i)))"

fun ints_of :: "pyval list \<Rightarrow> pyexn + int list" where
  "ints_of [] = Inr []"
| "ints_of (v # vs) =
     (case py_int v of
        Inl e \<Rightarrow> Inl e
      | Inr i \<Rightarrow> (case ints_of vs of Inl e \<Rightarrow> Inl e | Inr js \<Rightarrow> Inr (i # js)))"

definition read_size_args :: "int \<Rightarrow> pydict \<Rightarrow> catalog_failure + int list" where
  "read_size_args index raw =
     (case dict_get_default raw ''sizeArgs'' (VList []) of
        VList vs \<Rightarrow>
          if length vs > 2 then Inl (custom_text index ''sizeArgs must contain at most two indices.'')
          else (case ints_of vs of
                  Inl e \<Rightarrow> if e = TypeError \<or> e = ValueError
                           then Inl (custom_text index ''sizeArgs must be integers.'')
                           else Inl (CatalogRaise e)
                | Inr js \<Rightarrow> if list_ex (\<lambda>i. i < 0 \<or> i > 7) js
                            then Inl (custom_text index ''sizeArgs must be 0..7.'')
                            else Inr js)
      | _ \<Rightarrow> Inl (custom_text index ''sizeArgs must contain at most two indices.''))"

definition read_custom :: "int \<Rightarrow> pyval \<Rightarrow> catalog_failure + string \<times> heap_spec" where
  "read_custom index v =
     (case v of
        VDict raw \<Rightarrow>
          (let function = export_name (str_or_empty (dict_get raw ''function''));
               module = lower (strip (str_or_empty (dict_get raw ''module'')));
               op = lower (strip (str_or_empty (dict_get raw ''op'')));
               family = lower (strip (py_str (py_or (dict_get raw ''family'') (VStr ''custom''))));
               semantics = lower (strip (str_or_empty (dict_get raw ''returnSemantics'')))
           in if function = [] \<or> module = [] \<or> op \<notin> {''alloc'', ''realloc'', ''free''} then
                Inl (custom_text index ''requires module, function and op=alloc|realloc|free.'')
              else if semantics \<notin> {''pointer'', ''bool'', ''void'', ''null_success''} then
                Inl (custom_text index ''has invalid returnSemantics.'')
              else (case read_arg_field index ''addressArg'' raw of Inl e \<Rightarrow> Inl e | Inr addr \<Rightarrow>
                   (case read_arg_field index ''ownerArg'' raw of Inl e \<Rightarrow> Inl e | Inr owner \<Rightarrow>
                   (case read_size_args index raw of Inl e \<Rightarrow> Inl e | Inr sizes \<Rightarrow>
                      Inr (module @ ''!'' @ function,
                           \<lparr>spec_module = Some module, spec_op = op,
                            spec_family = (if family = [] then ''custom'' else family),
                            address_arg = addr, size_args = sizes, owner_arg = owner,
                            size_product = (lower (str_or_empty (dict_get raw ''sizeMode'')) = ''product''),
                            return_semantics = semantics\<rparr>)))))
      | _ \<Rightarrow> Inl (custom_text index ''must be an object.''))"

fun add_customs :: "int \<Rightarrow> pyval list \<Rightarrow> heap_catalog \<Rightarrow> catalog_failure + heap_catalog" where
  "add_customs index [] catalog = Inr catalog"
| "add_customs index (v # vs) catalog =
     (case read_custom index v of
        Inl e \<Rightarrow> Inl e
      | Inr (key, spec) \<Rightarrow> add_customs (index + 1) vs (AList.update key spec catalog))"

definition normalize_heap_catalog ::
  "(string \<Rightarrow> string + pyval) \<Rightarrow> string \<Rightarrow> string \<Rightarrow> catalog_failure + heap_catalog" where
  "normalize_heap_catalog loads families_json custom_json =
     (case read_families loads families_json of
        Inl e \<Rightarrow> Inl e
      | Inr selected \<Rightarrow>
          (let catalog = filter (\<lambda>(name, spec). selected = [] \<or> spec_family spec \<in> set selected)
                           heap_resource_catalog
           in if strip custom_json = [] then Inr catalog
              else (case loads custom_json of
                      Inl exc \<Rightarrow> Inl (CatalogError (''custom_allocators_json is invalid JSON: '' @ exc))
                    | Inr parsed \<Rightarrow>
                        (case parsed of
                           VList vs \<Rightarrow>
                             if length vs > 32 then
                               Inl (CatalogError ''custom_allocators_json must be an array with at most 32 entries.'')
                             else add_customs 0 vs catalog
                         | _ \<Rightarrow> Inl (CatalogError ''custom_allocators_json must be an array with at most 32 entries.'')))))"

definition heap_catalog_spec :: "heap_catalog \<Rightarrow> string \<Rightarrow> string \<Rightarrow> heap_spec option" where
  "heap_catalog_spec catalog module function =
     (let f = export_name function; full = lower (strip module) @ ''!'' @ f in
      case map_of catalog full of
        Some spec \<Rightarrow> Some spec
      | None \<Rightarrow> map_of catalog f)"

subsection \<open>Reading a recorded call\<close>

record api_call =
  call_seq :: int
  call_module :: string
  call_func :: string
  call_returned :: bool
  call_args :: "(int \<times> string) list"
  call_return :: string
  call_thread :: int
  call_times :: "pyval \<times> pyval \<times> pyval"
  call_decoded :: pyval
  call_stack :: pyval

definition api_value_int :: "string \<Rightarrow> int" where
  "api_value_int v =
     (let raw = strip v in
      if raw = [] then 0
      else (case int0 raw of
              Some i \<Rightarrow> i
            | None \<Rightarrow> (case int16 raw of Some i \<Rightarrow> i | None \<Rightarrow> 0)))"

definition api_arg_value :: "(int \<times> string) list \<Rightarrow> int \<Rightarrow> string" where
  "api_arg_value args index = (case map_of args index of Some v \<Rightarrow> v | None \<Rightarrow> [])"

fun size_product_of :: "int list \<Rightarrow> int" where
  "size_product_of [] = 1"
| "size_product_of (v # vs) = max 0 v * size_product_of vs"

definition heap_requested_size :: "(int \<times> string) list \<Rightarrow> heap_spec \<Rightarrow> int" where
  "heap_requested_size args spec =
     (let values = map (\<lambda>i. api_value_int (api_arg_value args i)) (size_args spec) in
      if size_args spec = [] then 0
      else if size_product spec then size_product_of values
      else max 0 (hd values))"

definition heap_return_success :: "string \<Rightarrow> string \<Rightarrow> bool" where
  "heap_return_success return_value semantics =
     (let v = api_value_int return_value; mode = lower (strip semantics) in
      if mode = ''pointer'' then v \<noteq> 0
      else if mode = ''null_success'' then v = 0
      else if mode = ''void'' then True
      else v \<noteq> 0)"

subsection \<open>Events, allocations and the state of the reducer\<close>

text \<open>A field of an event that the code adds only on some paths is an option; \<open>status\<close> is
  empty where none was set.\<close>

record heap_event =
  ev_seq :: int
  ev_api :: string
  ev_op :: string
  ev_family :: string
  ev_thread :: int
  ev_times :: "pyval \<times> pyval \<times> pyval"
  ev_return :: string
  ev_decoded :: pyval
  ev_owner :: "string option"
  ev_size :: int
  ev_success :: bool
  ev_stack :: pyval
  ev_addr :: "string option"
  ev_old_addr :: "string option"
  ev_known :: "bool option"
  ev_parent :: "string option"
  ev_allocation :: "string option"
  ev_generation :: "int option"
  ev_status :: string
  ev_filtered :: bool
  ev_anomalies :: "string list"

record allocation =
  al_event :: heap_event
  al_id :: string
  al_seq :: int
  al_generation :: int
  al_parent :: "string option"
  al_origin_thread :: int

record anomaly =
  an_kind :: string
  an_seq :: int
  an_op :: string
  an_addr :: "string option"
  an_thread :: int
  an_allocation :: "string option"

record heap_limits =
  minimum_size :: int
  maximum_size :: int
  strict_unknown :: bool

record heap_state =
  live :: "(string \<times> allocation) list"
  suppressed :: "string list"
  freed :: "(string \<times> allocation) list"
  free_attempts :: "heap_event list"
  reallocations :: "heap_event list"
  logical_events :: "heap_event list"
  all_events :: "heap_event list"
  anomalies :: "anomaly list"
  raw_counts :: "(string \<times> int) list"
  family_counts :: "(string \<times> (string \<times> int) list) list"
  alloc_count :: int
  realloc_count :: int
  free_count :: int
  successful_free_count :: int
  failed_count :: int
  filtered_calls :: int
  incomplete_returns :: int
  unknown_calls :: int
  allocation_sequence :: int

definition heap_init :: heap_state where
  "heap_init =
     \<lparr>live = [], suppressed = [], freed = [], free_attempts = [], reallocations = [], logical_events = [],
      all_events = [], anomalies = [], raw_counts = [(''alloc'', 0), (''realloc'', 0), (''free'', 0)],
      family_counts = [], alloc_count = 0, realloc_count = 0, free_count = 0, successful_free_count = 0,
      failed_count = 0, filtered_calls = 0, incomplete_returns = 0, unknown_calls = 0,
      allocation_sequence = 0\<rparr>"

definition size_allowed :: "heap_limits \<Rightarrow> int \<Rightarrow> bool" where
  "size_allowed L n \<longleftrightarrow> n \<ge> minimum_size L \<and> (maximum_size L = 0 \<or> n \<le> maximum_size L)"

definition lookup_count :: "(string \<times> int) list \<Rightarrow> string \<Rightarrow> int" where
  "lookup_count d k = (case map_of d k of Some n \<Rightarrow> n | None \<Rightarrow> 0)"

definition bump :: "string \<Rightarrow> (string \<times> int) list \<Rightarrow> (string \<times> int) list" where
  "bump k d = AList.update k (lookup_count d k + 1) d"

text \<open>\<open>add_anomaly\<close>: the anomaly item, and the event that now carries its kind.\<close>

definition anomaly_of :: "string \<Rightarrow> heap_event \<Rightarrow> allocation option \<Rightarrow> anomaly" where
  "anomaly_of kind e a =
     \<lparr>an_kind = kind, an_seq = ev_seq e, an_op = ev_op e,
      an_addr = (case ev_addr e of Some (c # s) \<Rightarrow> Some (c # s) | _ \<Rightarrow> ev_old_addr e),
      an_thread = ev_thread e, an_allocation = map_option al_id a\<rparr>"

definition add_anomaly ::
  "string \<Rightarrow> allocation option \<Rightarrow> heap_event \<times> heap_state \<Rightarrow> heap_event \<times> heap_state" where
  "add_anomaly kind a es = (case es of (e, s) \<Rightarrow>
     (e\<lparr>ev_anomalies := ev_anomalies e @ [kind]\<rparr>, s\<lparr>anomalies := anomalies s @ [anomaly_of kind e a]\<rparr>))"

definition base_event :: "api_call \<Rightarrow> heap_spec \<Rightarrow> heap_event" where
  "base_event c spec =
     \<lparr>ev_seq = call_seq c, ev_api = call_module c @ ''!'' @ call_func c, ev_op = spec_op spec,
      ev_family = spec_family spec, ev_thread = call_thread c, ev_times = call_times c,
      ev_return = call_return c, ev_decoded = call_decoded c,
      ev_owner = (case owner_arg spec of None \<Rightarrow> None
                  | Some i \<Rightarrow> normalize_hex (VStr (api_arg_value (call_args c) i))),
      ev_size = heap_requested_size (call_args c) spec,
      ev_success = heap_return_success (call_return c) (return_semantics spec),
      ev_stack = call_stack c, ev_addr = None, ev_old_addr = None, ev_known = None, ev_parent = None,
      ev_allocation = None, ev_generation = None, ev_status = [], ev_filtered = False,
      ev_anomalies = []\<rparr>"

text \<open>The address a successful call returned.\<close>

definition returned_address :: "heap_event \<Rightarrow> string option" where
  "returned_address e =
     (if ev_success e \<and> api_value_int (ev_return e) \<noteq> 0
      then (case normalize_hex (VStr (ev_return e)) of Some (c # s) \<Rightarrow> Some (c # s) | _ \<Rightarrow> None)
      else None)"

definition alloc_id :: "int \<Rightarrow> string" where
  "alloc_id n = ''alloc-'' @ dec n"

definition heap_alloc :: "heap_limits \<Rightarrow> heap_event \<Rightarrow> heap_state \<Rightarrow> heap_state" where
  "heap_alloc L base s =
     (let e = base\<lparr>ev_addr := returned_address base\<rparr> in
      case returned_address base of
        None \<Rightarrow> s\<lparr>failed_count := failed_count s + 1,
                  all_events := all_events s @ [e\<lparr>ev_status := ''allocation_failed''\<rparr>]\<rparr>
      | Some a \<Rightarrow>
          if \<not> size_allowed L (ev_size e) then
            s\<lparr>filtered_calls := filtered_calls s + 1, suppressed := List.insert a (suppressed s),
              all_events := all_events s @ [e\<lparr>ev_status := ''filtered'', ev_filtered := True\<rparr>]\<rparr>
          else
            (let (e1, s1) = (case map_of (live s) a of
                               Some p \<Rightarrow> add_anomaly ''address_reuse_while_live'' (Some p) (e, s)
                             | None \<Rightarrow> (e, s));
                 n = allocation_sequence s1 + 1;
                 al = \<lparr>al_event = e1\<lparr>ev_status := ''live''\<rparr>, al_id = alloc_id n, al_seq = ev_seq e1,
                       al_generation = n, al_parent = None, al_origin_thread = ev_thread e1\<rparr>;
                 e2 = e1\<lparr>ev_status := ''allocated'', ev_allocation := Some (alloc_id n),
                         ev_generation := Some n\<rparr>
             in s1\<lparr>allocation_sequence := n, live := AList.update a al (live s1),
                   freed := AList.delete a (freed s1), alloc_count := alloc_count s1 + 1,
                   logical_events := logical_events s1 @ [e2], all_events := all_events s1 @ [e2]\<rparr>))"

text \<open>The address argument of a free or a realloc; empty for a null pointer.\<close>

definition old_address :: "api_call \<Rightarrow> heap_spec \<Rightarrow> string" where
  "old_address c spec =
     (let raw = (case address_arg spec of None \<Rightarrow> [] | Some i \<Rightarrow> api_arg_value (call_args c) i);
          a = (case normalize_hex (VStr raw) of Some (d # h) \<Rightarrow> d # h | _ \<Rightarrow> raw)
      in if api_value_int a = 0 then [] else a)"

definition previous_allocation :: "string \<Rightarrow> heap_state \<Rightarrow> allocation option" where
  "previous_allocation a s = (if a = [] then None else map_of (live s) a)"

definition nonempty :: "string \<Rightarrow> string option" where
  "nonempty a = (if a = [] then None else Some a)"

text \<open>\<open>if old_address: live.pop; suppressed.discard\<close>.\<close>

definition forget_address :: "string \<Rightarrow> heap_state \<Rightarrow> heap_state" where
  "forget_address a s =
     (if a = [] then s
      else s\<lparr>live := AList.delete a (live s), suppressed := removeAll a (suppressed s)\<rparr>)"

text \<open>The anomalies of a reallocation: of its old address, and of the address it returns.\<close>

definition realloc_origin ::
  "heap_limits \<Rightarrow> string \<Rightarrow> allocation option \<Rightarrow> heap_event \<times> heap_state \<Rightarrow> heap_event \<times> heap_state" where
  "realloc_origin L old previous es =
     (if previous \<noteq> None then es
      else if map_of (freed (snd es)) old \<noteq> None then add_anomaly ''realloc_after_free'' None es
      else if strict_unknown L then add_anomaly ''invalid_realloc'' None es
      else ((fst es)\<lparr>ev_status := ''external_realloc''\<rparr>, snd es))"

definition realloc_conflict ::
  "string \<Rightarrow> string \<Rightarrow> heap_event \<times> heap_state \<Rightarrow> heap_event \<times> heap_state" where
  "realloc_conflict old new es =
     (case map_of (live (snd es)) new of
        Some conflicting \<Rightarrow>
          if new \<noteq> old then add_anomaly ''address_reuse_while_live'' (Some conflicting) es else es
      | None \<Rightarrow> es)"

definition heap_realloc :: "heap_limits \<Rightarrow> string \<Rightarrow> heap_event \<Rightarrow> heap_state \<Rightarrow> heap_state" where
  "heap_realloc L old base s =
     (let previous = previous_allocation old s;
          e = base\<lparr>ev_addr := returned_address base, ev_old_addr := nonempty old,
                   ev_known := Some (previous \<noteq> None), ev_parent := map_option al_id previous\<rparr>
      in case returned_address base of
           None \<Rightarrow>
             (let e' = e\<lparr>ev_status := ''reallocation_failed''\<rparr>
              in s\<lparr>failed_count := failed_count s + 1, reallocations := reallocations s @ [e'],
                   all_events := all_events s @ [e']\<rparr>)
         | Some new \<Rightarrow>
             if \<not> size_allowed L (ev_size e) then
               (let e' = e\<lparr>ev_status := ''filtered'', ev_filtered := True\<rparr>; s1 = forget_address old s
                in s1\<lparr>filtered_calls := filtered_calls s1 + 1,
                      suppressed := List.insert new (suppressed s1),
                      reallocations := reallocations s1 @ [e'], all_events := all_events s1 @ [e']\<rparr>)
             else
               (let (e2, s2) = realloc_conflict old new (realloc_origin L old previous (e, s));
                    s3 = forget_address old s2;
                    n = allocation_sequence s3 + 1;
                    al = \<lparr>al_event = e2\<lparr>ev_status := ''live''\<rparr>, al_id = alloc_id n, al_seq = ev_seq e2,
                          al_generation = n, al_parent = ev_parent e2,
                          al_origin_thread = (case previous of Some p \<Rightarrow> al_origin_thread p
                                              | None \<Rightarrow> ev_thread e2)\<rparr>;
                    e3 = e2\<lparr>ev_status := ''reallocated'', ev_allocation := Some (alloc_id n),
                            ev_generation := Some n\<rparr>
                in s3\<lparr>allocation_sequence := n, live := AList.update new al (live s3),
                      freed := AList.delete new (freed s3), realloc_count := realloc_count s3 + 1,
                      logical_events := logical_events s3 @ [e3],
                      reallocations := reallocations s3 @ [e3], all_events := all_events s3 @ [e3]\<rparr>))"

text \<open>The body of the free branch up to the common end: the event and the state.\<close>

definition heap_free_effect ::
  "heap_limits \<Rightarrow> string \<Rightarrow> heap_event \<Rightarrow> heap_state \<Rightarrow> heap_event \<times> heap_state" where
  "heap_free_effect L old e s =
     (if old = [] then (e\<lparr>ev_status := ''null_free''\<rparr>, s)
      else if old \<in> set (suppressed s) then
        (e\<lparr>ev_status := ''filtered'', ev_filtered := True\<rparr>,
         if ev_success e then s\<lparr>suppressed := removeAll old (suppressed s)\<rparr> else s)
      else
        (case map_of (live s) old of
           None \<Rightarrow>
             (case map_of (freed s) old of
                Some f \<Rightarrow>
                  (let (e1, s1) = add_anomaly ''double_free'' (Some f) (e, s)
                   in (e1\<lparr>ev_status := ''double_free''\<rparr>, s1))
              | None \<Rightarrow>
                  if strict_unknown L \<or> \<not> ev_success e then
                    (let (e1, s1) = add_anomaly ''invalid_free'' None (e, s)
                     in (e1\<lparr>ev_status := ''invalid_free''\<rparr>, s1))
                  else (e\<lparr>ev_status := ''external_free''\<rparr>, s))
         | Some p \<Rightarrow>
             if ev_success e then
               (let (e1, s1) = (if al_origin_thread p \<noteq> 0 \<and> al_origin_thread p \<noteq> ev_thread e
                                then add_anomaly ''cross_thread_free'' (Some p) (e, s) else (e, s));
                    e2 = e1\<lparr>ev_status := ''freed''\<rparr>
                in (e2, s1\<lparr>live := AList.delete old (live s1), freed := AList.update old p (freed s1),
                           free_count := free_count s1 + 1,
                           successful_free_count := successful_free_count s1 + 1,
                           logical_events := logical_events s1 @ [e2]\<rparr>))
             else (e\<lparr>ev_status := ''free_failed''\<rparr>, s)))"

definition heap_free :: "heap_limits \<Rightarrow> string \<Rightarrow> heap_event \<Rightarrow> heap_state \<Rightarrow> heap_state" where
  "heap_free L old base s =
     (let previous = previous_allocation old s;
          e = base\<lparr>ev_addr := nonempty old, ev_known := Some (previous \<noteq> None),
                   ev_allocation := map_option al_id previous\<rparr>;
          (e1, s1) = heap_free_effect L old e s
      in s1\<lparr>failed_count := (if ev_success e1 then failed_count s1 else failed_count s1 + 1),
            free_attempts := free_attempts s1 @ [e1], all_events := all_events s1 @ [e1]\<rparr>)"

text \<open>One recorded call, and the whole reduction.\<close>

definition count_call :: "heap_spec \<Rightarrow> heap_state \<Rightarrow> heap_state" where
  "count_call spec s =
     (let fam = (case map_of (family_counts s) (spec_family spec) of
                   Some d \<Rightarrow> d | None \<Rightarrow> [(''alloc'', 0), (''realloc'', 0), (''free'', 0)])
      in s\<lparr>raw_counts := bump (spec_op spec) (raw_counts s),
           family_counts := AList.update (spec_family spec) (bump (spec_op spec) fam) (family_counts s)\<rparr>)"

definition heap_step :: "heap_catalog \<Rightarrow> heap_limits \<Rightarrow> heap_state \<Rightarrow> api_call \<Rightarrow> heap_state" where
  "heap_step catalog L s c =
     (case heap_catalog_spec catalog (call_module c) (call_func c) of
        None \<Rightarrow> s\<lparr>unknown_calls := unknown_calls s + 1\<rparr>
      | Some spec \<Rightarrow>
          (let s1 = count_call spec s in
           if \<not> call_returned c then s1\<lparr>incomplete_returns := incomplete_returns s1 + 1\<rparr>
           else if spec_op spec = ''alloc'' then heap_alloc L (base_event c spec) s1
           else if spec_op spec = ''realloc'' then heap_realloc L (old_address c spec) (base_event c spec) s1
           else heap_free L (old_address c spec) (base_event c spec) s1))"

definition heap_reduce :: "heap_catalog \<Rightarrow> heap_limits \<Rightarrow> api_call list \<Rightarrow> heap_state" where
  "heap_reduce catalog L calls = foldl (heap_step catalog L) heap_init (sort_key call_seq calls)"

subsection \<open>The report\<close>

definition last_n :: "nat \<Rightarrow> 'a list \<Rightarrow> 'a list" where
  "last_n n xs = drop (length xs - n) xs"

record heap_report =
  rp_allocs :: int
  rp_reallocs :: int
  rp_frees :: int
  rp_successful_frees :: int
  rp_failed :: int
  rp_leak_count :: nat
  rp_leaks :: "allocation list"
  rp_recent_frees :: "heap_event list"
  rp_recent_reallocs :: "heap_event list"
  rp_events :: "heap_event list"
  rp_all_events :: "heap_event list"
  rp_oldest_seq :: int
  rp_latest_seq :: int
  rp_evidence_complete :: bool
  rp_anomalies :: "anomaly list"
  rp_anomaly_counts :: "(string \<times> int) list"
  rp_raw_calls :: "(string \<times> int) list"
  rp_family_calls :: "(string \<times> (string \<times> int) list) list"
  rp_filtered_calls :: int
  rp_suppressed_live :: nat
  rp_unknown_calls :: int
  rp_incomplete_returns :: int

definition lower_catalog :: "heap_catalog \<Rightarrow> heap_catalog" where
  "lower_catalog catalog = fold (\<lambda>(name, spec) d. AList.update (lower name) spec d) catalog []"

definition get_heap_state :: "heap_catalog \<Rightarrow> heap_limits \<Rightarrow> int \<Rightarrow> api_call list \<Rightarrow> heap_report" where
  "get_heap_state catalog L dropped calls =
     (let s = heap_reduce (lower_catalog catalog) L calls;
          leaks = last_n 500 (sort_key al_seq (map snd (live s)));
          retained = last_n 1000 (all_events s)
      in \<lparr>rp_allocs = alloc_count s, rp_reallocs = realloc_count s, rp_frees = free_count s,
          rp_successful_frees = successful_free_count s, rp_failed = failed_count s,
          rp_leak_count = length (live s), rp_leaks = leaks,
          rp_recent_frees = last_n 500 (free_attempts s),
          rp_recent_reallocs = last_n 500 (reallocations s),
          rp_events = last_n 1000 (logical_events s), rp_all_events = retained,
          rp_oldest_seq = (if retained = [] then 0 else ev_seq (hd retained)),
          rp_latest_seq = (if retained = [] then 0 else ev_seq (last retained)),
          rp_evidence_complete = (dropped = 0 \<and> incomplete_returns s = 0),
          rp_anomalies = last_n 500 (anomalies s),
          rp_anomaly_counts = fold (bump \<circ> an_kind) (anomalies s) [],
          rp_raw_calls = raw_counts s, rp_family_calls = family_counts s,
          rp_filtered_calls = filtered_calls s, rp_suppressed_live = length (suppressed s),
          rp_unknown_calls = unknown_calls s, rp_incomplete_returns = incomplete_returns s\<rparr>)"

end
