(* ===== verification/HeapProps.thy ===== *)
theory HeapProps
  imports HeapTrace
begin

text \<open>
  What the heap tracker promises: the invariant of the reducer, that without a size filter the
  live resources are those of the plain acquire and release semantics of the recorded calls, and
  what it makes of double frees and of filtered addresses.
\<close>

subsection \<open>The invariant\<close>

fun alloc_ok :: "int \<Rightarrow> string \<times> allocation \<Rightarrow> bool" where
  "alloc_ok n (a, al) \<longleftrightarrow> a \<noteq> [] \<and> al_id al = alloc_id (al_generation al)
     \<and> 0 < al_generation al \<and> al_generation al \<le> n"

definition table_wf :: "int \<Rightarrow> (string \<times> allocation) list \<Rightarrow> bool" where
  "table_wf n t \<longleftrightarrow> distinct (map fst t) \<and> Ball (set t) (alloc_ok n)"

definition heap_inv :: "heap_state \<Rightarrow> bool" where
  "heap_inv s \<longleftrightarrow>
     table_wf (allocation_sequence s) (live s) \<and> table_wf (allocation_sequence s) (freed s)
     \<and> fst ` set (live s) \<inter> fst ` set (freed s) = {}
     \<and> allocation_sequence s = alloc_count s + realloc_count s
     \<and> int (length (live s)) + free_count s \<le> allocation_sequence s
     \<and> successful_free_count s = free_count s \<and> 0 \<le> free_count s"

lemma table_wf_mono: "table_wf n t \<Longrightarrow> n \<le> m \<Longrightarrow> table_wf m t"
  by (force simp: table_wf_def)

lemma table_wf_update: "table_wf n t \<Longrightarrow> alloc_ok n (a, al) \<Longrightarrow> table_wf n (AList.update a al t)"
  unfolding table_wf_def by (intro conjI update_Ball update_distinct_keys) auto

lemma table_wf_delete: "table_wf n t \<Longrightarrow> table_wf n (AList.delete a t)"
  unfolding table_wf_def by (intro conjI delete_Ball delete_distinct_keys) auto

lemma count_call_frame [simp]:
  "live (count_call spec s) = live s" "freed (count_call spec s) = freed s"
  "suppressed (count_call spec s) = suppressed s" "anomalies (count_call spec s) = anomalies s"
  "allocation_sequence (count_call spec s) = allocation_sequence s"
  "alloc_count (count_call spec s) = alloc_count s" "realloc_count (count_call spec s) = realloc_count s"
  "free_count (count_call spec s) = free_count s"
  "successful_free_count (count_call spec s) = successful_free_count s"
  "all_events (count_call spec s) = all_events s" "logical_events (count_call spec s) = logical_events s"
  by (simp_all add: count_call_def Let_def)

lemma add_anomaly_fst [simp]:
  "fst (add_anomaly k a es) = fst es\<lparr>ev_anomalies := ev_anomalies (fst es) @ [k]\<rparr>"
  by (cases es) (simp add: add_anomaly_def)

lemma add_anomaly_snd [simp]:
  "snd (add_anomaly k a es) = snd es\<lparr>anomalies := anomalies (snd es) @ [anomaly_of k (fst es) a]\<rparr>"
  by (cases es) (simp add: add_anomaly_def)

lemma returned_address_nonempty: "returned_address e \<noteq> Some []"
  by (auto simp: returned_address_def split: if_splits option.splits list.splits)

text \<open>The three effects on the tables.\<close>

definition put_live :: "string \<Rightarrow> heap_state \<Rightarrow> heap_state \<Rightarrow> bool" where
  "put_live a s s' \<longleftrightarrow> (let al = the (map_of (live s') a) in
     a \<noteq> [] \<and> live s' = AList.update a al (live s) \<and> freed s' = AList.delete a (freed s)
     \<and> allocation_sequence s' = allocation_sequence s + 1 \<and> al_generation al = allocation_sequence s'
     \<and> al_id al = alloc_id (al_generation al) \<and> free_count s' = free_count s
     \<and> successful_free_count s' = successful_free_count s
     \<and> alloc_count s' + realloc_count s' = alloc_count s + realloc_count s + 1)"

definition same_tables :: "heap_state \<Rightarrow> heap_state \<Rightarrow> bool" where
  "same_tables s s' \<longleftrightarrow> live s' = live s \<and> freed s' = freed s
     \<and> allocation_sequence s' = allocation_sequence s \<and> free_count s' = free_count s
     \<and> successful_free_count s' = successful_free_count s
     \<and> alloc_count s' = alloc_count s \<and> realloc_count s' = realloc_count s"

lemma same_tables_inv: "heap_inv s \<Longrightarrow> same_tables s s' \<Longrightarrow> heap_inv s'"
  unfolding heap_inv_def same_tables_def by metis

lemma put_live_inv:
  assumes "heap_inv s" "put_live a s s'"
  shows "heap_inv s'"
proof -
  let ?n = "allocation_sequence s'" and ?al = "the (map_of (live s') a)"
  from assms(2) have put: "a \<noteq> []" "live s' = AList.update a ?al (live s)" "freed s' = AList.delete a (freed s)"
    "?n = allocation_sequence s + 1" "al_generation ?al = ?n" "al_id ?al = alloc_id (al_generation ?al)"
    by (simp_all add: put_live_def Let_def)
  from assms put(4) have n: "0 \<le> allocation_sequence s" by (auto simp: heap_inv_def)
  from assms(1) put(4) have "table_wf ?n (live s)" "table_wf ?n (freed s)"
    by (auto simp: heap_inv_def elim: table_wf_mono)
  moreover have "alloc_ok ?n (a, ?al)" using put n by simp
  ultimately have "table_wf ?n (AList.update a ?al (live s))" "table_wf ?n (AList.delete a (freed s))"
    by (blast intro: table_wf_update table_wf_delete)+
  then have "table_wf ?n (live s')" "table_wf ?n (freed s')" using put(2,3) by metis+
  moreover have "fst ` set (live s') = insert a (fst ` set (live s))" using put(2) keys_update by metis
  then have "fst ` set (live s') \<inter> fst ` set (freed s') = {}"
    using assms(1) put(3) by (auto simp: heap_inv_def)
  moreover have "length (live s') \<le> Suc (length (live s))" using put(2) length_update
    by (metis le_SucI order_refl)
  ultimately show ?thesis
    using assms by (simp add: heap_inv_def put_live_def Let_def)
qed

lemma forget_inv: "heap_inv s \<Longrightarrow> heap_inv (forget_address a s)"
  using length_delete_le [of a "live s"]
  by (auto simp: heap_inv_def forget_address_def table_wf_delete)

lemma heap_alloc_cases:
  "same_tables s (heap_alloc L b s) \<or> (\<exists>a. put_live a s (heap_alloc L b s))"
proof (cases "returned_address b")
  case None
  then show ?thesis by (simp add: heap_alloc_def same_tables_def)
next
  case (Some a)
  then have "a \<noteq> []" using returned_address_nonempty [of b] by auto
  with Some have "same_tables s (heap_alloc L b s) \<or> put_live a s (heap_alloc L b s)"
    by (simp add: heap_alloc_def same_tables_def put_live_def Let_def case_prod_beta update_conv split: option.split)
  then show ?thesis by blast
qed

lemma realloc_anomalies_frame [simp]:
  "live (snd (realloc_origin L old prev es)) = live (snd es)"
  "freed (snd (realloc_origin L old prev es)) = freed (snd es)"
  "suppressed (snd (realloc_origin L old prev es)) = suppressed (snd es)"
  "allocation_sequence (snd (realloc_origin L old prev es)) = allocation_sequence (snd es)"
  "alloc_count (snd (realloc_origin L old prev es)) = alloc_count (snd es)"
  "realloc_count (snd (realloc_origin L old prev es)) = realloc_count (snd es)"
  "free_count (snd (realloc_origin L old prev es)) = free_count (snd es)"
  "successful_free_count (snd (realloc_origin L old prev es)) = successful_free_count (snd es)"
  "all_events (snd (realloc_origin L old prev es)) = all_events (snd es)"
  "live (snd (realloc_conflict old new es)) = live (snd es)"
  "freed (snd (realloc_conflict old new es)) = freed (snd es)"
  "suppressed (snd (realloc_conflict old new es)) = suppressed (snd es)"
  "allocation_sequence (snd (realloc_conflict old new es)) = allocation_sequence (snd es)"
  "alloc_count (snd (realloc_conflict old new es)) = alloc_count (snd es)"
  "realloc_count (snd (realloc_conflict old new es)) = realloc_count (snd es)"
  "free_count (snd (realloc_conflict old new es)) = free_count (snd es)"
  "successful_free_count (snd (realloc_conflict old new es)) = successful_free_count (snd es)"
  "all_events (snd (realloc_conflict old new es)) = all_events (snd es)"
  by (simp_all add: realloc_origin_def realloc_conflict_def split: option.split)

lemma heap_realloc_cases:
  "same_tables s (heap_realloc L old b s) \<or> same_tables (forget_address old s) (heap_realloc L old b s)
   \<or> (\<exists>a. put_live a (forget_address old s) (heap_realloc L old b s))"
proof (cases "returned_address b")
  case None
  then show ?thesis by (simp add: heap_realloc_def same_tables_def Let_def)
next
  case (Some a)
  then have a: "a \<noteq> []" using returned_address_nonempty [of b] by auto
  show ?thesis
  proof (cases "size_allowed L (ev_size b)")
    case False
    with Some show ?thesis
      by (simp add: heap_realloc_def same_tables_def Let_def)
  next
    case True
    with Some a have "put_live a (forget_address old s) (heap_realloc L old b s)"
      by (simp add: heap_realloc_def put_live_def Let_def case_prod_beta update_conv forget_address_def
          split: option.split)
    then show ?thesis by blast
  qed
qed

lemma heap_free_cases:
  "same_tables s (heap_free L old b s)
   \<or> (\<exists>p. old \<noteq> [] \<and> map_of (live s) old = Some p
        \<and> live (heap_free L old b s) = AList.delete old (live s)
        \<and> freed (heap_free L old b s) = AList.update old p (freed s)
        \<and> allocation_sequence (heap_free L old b s) = allocation_sequence s
        \<and> alloc_count (heap_free L old b s) = alloc_count s
        \<and> realloc_count (heap_free L old b s) = realloc_count s
        \<and> free_count (heap_free L old b s) = free_count s + 1
        \<and> successful_free_count (heap_free L old b s) = successful_free_count s + 1)"
  by (auto simp: heap_free_def heap_free_effect_def same_tables_def Let_def case_prod_beta split: option.split)

lemma heap_free_inv:
  assumes "heap_inv s"
  shows "heap_inv (heap_free L old b s)"
  using heap_free_cases [of s L old b]
proof
  assume "same_tables s (heap_free L old b s)"
  with assms show ?thesis by (rule same_tables_inv)
next
  let ?s' = "heap_free L old b s"
  assume "\<exists>p. old \<noteq> [] \<and> map_of (live s) old = Some p
        \<and> live ?s' = AList.delete old (live s) \<and> freed ?s' = AList.update old p (freed s)
        \<and> allocation_sequence ?s' = allocation_sequence s
        \<and> alloc_count ?s' = alloc_count s \<and> realloc_count ?s' = realloc_count s
        \<and> free_count ?s' = free_count s + 1 \<and> successful_free_count ?s' = successful_free_count s + 1"
  then obtain p where p: "map_of (live s) old = Some p"
    "live ?s' = AList.delete old (live s)" "freed ?s' = AList.update old p (freed s)"
    "allocation_sequence ?s' = allocation_sequence s"
    "alloc_count ?s' = alloc_count s" "realloc_count ?s' = realloc_count s"
    "free_count ?s' = free_count s + 1" "successful_free_count ?s' = successful_free_count s + 1" by blast
  from p(1) have mem: "(old, p) \<in> set (live s)" by (rule map_of_SomeD)
  then have "old \<in> fst ` set (live s)" by force
  with assms have "Suc (length (AList.delete old (live s))) = length (live s)"
    by (intro length_delete_present) (auto simp: heap_inv_def table_wf_def)
  moreover have "alloc_ok (allocation_sequence s) (old, p)"
    using assms mem unfolding heap_inv_def table_wf_def by blast
  ultimately show ?thesis
    using assms by (auto simp: heap_inv_def p table_wf_delete table_wf_update simp del: alloc_ok.simps)
qed

lemma heap_step_inv:
  assumes "heap_inv s"
  shows "heap_inv (heap_step C L s c)"
proof -
  have c: "heap_inv (count_call spec s)" for spec
    using assms by (rule same_tables_inv) (simp add: same_tables_def)
  have "heap_inv (heap_alloc L b (count_call spec s))" for b spec
    using heap_alloc_cases c put_live_inv same_tables_inv by blast
  moreover have "heap_inv (heap_realloc L old b (count_call spec s))" for b spec old
    using heap_realloc_cases c put_live_inv same_tables_inv forget_inv by metis
  moreover have "heap_inv (heap_free L old b (count_call spec s))" for b spec old
    using heap_free_inv c by blast
  moreover have "heap_inv (s\<lparr>unknown_calls := n\<rparr>)" for n
    using assms by (rule same_tables_inv) (simp add: same_tables_def)
  moreover have "heap_inv ((count_call spec s)\<lparr>incomplete_returns := n\<rparr>)" for n spec
    by (rule same_tables_inv [OF c [of spec]]) (simp add: same_tables_def)
  ultimately show ?thesis by (simp add: heap_step_def Let_def split: option.split)
qed

interpretation heap_run: reducer "heap_step C L" heap_inv for C L
  by unfold_locales (rule heap_step_inv)

lemma heap_init_inv: "heap_inv heap_init"
  by (simp add: heap_inv_def heap_init_def table_wf_def)

lemma heap_reduce_inv: "heap_inv (heap_reduce C L calls)"
  unfolding heap_reduce_def by (rule heap_run.foldl_inv) (rule heap_init_inv)

subsection \<open>The plain semantics of acquire and release\<close>

datatype resource_effect = Acquires string | Moves string string | Releases string | NoEffect

definition call_effect :: "heap_catalog \<Rightarrow> api_call \<Rightarrow> resource_effect" where
  "call_effect catalog c =
     (case heap_catalog_spec catalog (call_module c) (call_func c) of
        None \<Rightarrow> NoEffect
      | Some spec \<Rightarrow>
          (let result = returned_address (base_event c spec); old = old_address c spec in
           if \<not> call_returned c then NoEffect
           else if spec_op spec = ''alloc'' then
             (case result of None \<Rightarrow> NoEffect | Some a \<Rightarrow> Acquires a)
           else if spec_op spec = ''realloc'' then
             (case result of None \<Rightarrow> NoEffect | Some a \<Rightarrow> Moves old a)
           else if old \<noteq> [] \<and> heap_return_success (call_return c) (return_semantics spec) then Releases old
           else NoEffect))"

fun apply_effect :: "string set \<Rightarrow> resource_effect \<Rightarrow> string set" where
  "apply_effect S (Acquires a) = insert a S"
| "apply_effect S (Moves old new) = insert new (S - {old})"
| "apply_effect S (Releases a) = S - {a}"
| "apply_effect S NoEffect = S"

definition unfiltered :: "heap_limits \<Rightarrow> bool" where
  "unfiltered L \<longleftrightarrow> minimum_size L \<le> 0 \<and> maximum_size L = 0"

definition live_keys :: "heap_state \<Rightarrow> string set" where
  "live_keys s = fst ` set (live s)"

lemma size_product_of_nonneg: "0 \<le> size_product_of vs"
  by (induction vs) auto

lemma base_event_size_allowed [simp]: "unfiltered L \<Longrightarrow> size_allowed L (ev_size (base_event c spec))"
proof -
  have "0 \<le> heap_requested_size (call_args c) spec"
    by (simp add: heap_requested_size_def Let_def size_product_of_nonneg)
  then show "unfiltered L \<Longrightarrow> ?thesis" by (simp add: unfiltered_def size_allowed_def base_event_def)
qed

lemma heap_alloc_live:
  "size_allowed L (ev_size b) \<Longrightarrow>
   live_keys (heap_alloc L b s) = (case returned_address b of None \<Rightarrow> live_keys s | Some a \<Rightarrow> insert a (live_keys s))
   \<and> suppressed (heap_alloc L b s) = suppressed s"
  by (simp add: heap_alloc_def live_keys_def Let_def case_prod_beta split: option.split)

lemma forget_live:
  "live_keys (forget_address old s) = (if old = [] then live_keys s else live_keys s - {old})"
  by (simp add: forget_address_def live_keys_def)

lemma heap_realloc_live:
  assumes "size_allowed L (ev_size b)" "suppressed s = []" "[] \<notin> live_keys s"
  shows "live_keys (heap_realloc L old b s)
      = (case returned_address b of None \<Rightarrow> live_keys s | Some a \<Rightarrow> insert a (live_keys s - {old}))
    \<and> suppressed (heap_realloc L old b s) = []"
  using assms
  by (simp add: heap_realloc_def Let_def case_prod_beta live_keys_def forget_address_def split: option.split)

lemma heap_free_live:
  assumes "suppressed s = []" "[] \<notin> live_keys s"
  shows "live_keys (heap_free L old b s) = (if ev_success b then live_keys s - {old} else live_keys s)
    \<and> suppressed (heap_free L old b s) = []"
proof -
  have absent: "map_of (live s) old = None \<Longrightarrow> live_keys s - {old} = live_keys s"
    by (auto simp: live_keys_def map_of_eq_None_iff)
  show ?thesis using assms absent
    by (auto simp: heap_free_def heap_free_effect_def live_keys_def Let_def case_prod_beta
        split: option.split)
qed

lemma live_keys_nonempty: "heap_inv s \<Longrightarrow> [] \<notin> live_keys s"
  by (force simp: heap_inv_def table_wf_def live_keys_def)

lemma live_keys_incomplete [simp]: "live_keys (s\<lparr>incomplete_returns := n\<rparr>) = live_keys s"
  by (simp add: live_keys_def)

lemma heap_step_live:
  assumes "unfiltered L" "suppressed s = []" "heap_inv s"
  shows "live_keys (heap_step C L s c) = apply_effect (live_keys s) (call_effect C c)
    \<and> suppressed (heap_step C L s c) = []"
proof (cases "heap_catalog_spec C (call_module c) (call_func c)")
  case None
  with assms show ?thesis by (simp add: heap_step_def call_effect_def live_keys_def)
next
  case (Some spec)
  let ?s = "count_call spec s"
  have s: "suppressed ?s = []" "live_keys ?s = live_keys s" "[] \<notin> live_keys ?s"
    using assms live_keys_nonempty [of s] by (simp_all add: live_keys_def)
  have ok: "ev_success (base_event c spec) = heap_return_success (call_return c) (return_semantics spec)"
    by (simp add: base_event_def)
  have allowed: "size_allowed L (ev_size (base_event c spec))" using assms(1) by simp
  note steps = heap_alloc_live [OF allowed, of ?s] heap_realloc_live [OF allowed s(1,3)]
    heap_free_live [OF s(1,3)]
  show ?thesis
    using s Some live_keys_nonempty [OF assms(3)]
    by (auto simp: heap_step_def call_effect_def Let_def steps ok split: option.split)
qed

lemma heap_run_live:
  "unfiltered L \<Longrightarrow> suppressed s = [] \<Longrightarrow> heap_inv s \<Longrightarrow>
   live_keys (foldl (heap_step C L) s cs) = foldl apply_effect (live_keys s) (map (call_effect C) cs)"
  by (induction cs arbitrary: s) (simp_all add: heap_step_live heap_step_inv)

subsection \<open>Properties\<close>

text \<open>Whatever calls were recorded, the reduction keeps its tables consistent: no address is
  both live and freed, every live or freed allocation carries the identifier of its own
  generation, and the live resources and completed frees never outnumber the acquisitions.\<close>

lemma heap_reduce_consistent:
  "heap_inv (heap_reduce catalog L calls)
   \<and> int (length (live (heap_reduce catalog L calls))) + free_count (heap_reduce catalog L calls)
     \<le> alloc_count (heap_reduce catalog L calls) + realloc_count (heap_reduce catalog L calls)"
proof
  show inv: "heap_inv (heap_reduce catalog L calls)" by (rule heap_reduce_inv)
  show "int (length (live (heap_reduce catalog L calls))) + free_count (heap_reduce catalog L calls)
     \<le> alloc_count (heap_reduce catalog L calls) + realloc_count (heap_reduce catalog L calls)"
    using inv unfolding heap_inv_def by linarith
qed

definition sample_call :: "int \<Rightarrow> string \<Rightarrow> (int \<times> string) list \<Rightarrow> string \<Rightarrow> api_call" where
  "sample_call q f args r =
     \<lparr>call_seq = q, call_module = ''ucrtbase.dll'', call_func = f, call_returned = True, call_args = args,
      call_return = r, call_thread = 4, call_times = (VNone, VNone, VNone), call_decoded = VNone,
      call_stack = VNone\<rparr>"

definition sample_calls :: "api_call list" where
  "sample_calls =
     [sample_call 3 ''free'' [(0, ''0x10'')] ''0x0'', sample_call 1 ''malloc'' [(0, ''0x8'')] ''0x10'',
      sample_call 2 ''malloc'' [(0, ''0x8'')] ''0x20'', sample_call 4 ''realloc'' [(0, ''0x20''), (1, ''0x9'')] ''0x30'']"

definition no_limits :: heap_limits where
  "no_limits = \<lparr>minimum_size = 0, maximum_size = 0, strict_unknown = False\<rparr>"

text \<open>C25: Without a size filter the live resources are exactly those of the plain semantics of the
  recorded calls in sequence order: a successful allocation adds the address it returned, a
  successful reallocation moves one, a successful free removes one, and every other call (unknown,
  failed or not yet returned) changes nothing.\<close>

theorem heap_reduce_refines:
  assumes "unfiltered L"
  shows "fst ` set (live (heap_reduce catalog L calls)) =
    foldl apply_effect {} (map (call_effect catalog) (sort_key call_seq calls))"
  using heap_run_live [OF assms _ heap_init_inv, of catalog "sort_key call_seq calls"]
  by (simp add: heap_reduce_def live_keys_def heap_init_def)

theorem heap_reduce_refines_witness:
  "fst ` set (live (heap_reduce heap_resource_catalog no_limits sample_calls)) = {''0x30''}"
proof -
  have "map (call_effect heap_resource_catalog) (sort_key call_seq sample_calls)
    = [Acquires ''0x10'', Acquires ''0x20'', Releases ''0x10'', Moves ''0x20'' ''0x30'']" by code_simp
  with heap_reduce_refines [of no_limits heap_resource_catalog sample_calls] show ?thesis
    by (auto simp: unfiltered_def no_limits_def)
qed

text \<open>The two outcomes of a free that these properties are about.\<close>

lemma heap_free_present:
  assumes "old \<noteq> []" "map_of (live s) old = Some p" "old \<notin> set (suppressed s)" "ev_success e"
  shows "live (heap_free L old e s) = AList.delete old (live s)"
    and "freed (heap_free L old e s) = AList.update old p (freed s)"
    and "suppressed (heap_free L old e s) = suppressed s"
  using assms by (simp_all add: heap_free_def heap_free_effect_def Let_def case_prod_beta)

lemma heap_free_again:
  assumes "old \<noteq> []" "map_of (live s) old = None" "map_of (freed s) old = Some p" "old \<notin> set (suppressed s)"
  shows "anomalies (heap_free L old e s) = anomalies s @ [anomaly_of ''double_free''
       (e\<lparr>ev_addr := Some old, ev_known := Some False, ev_allocation := None\<rparr>) (Some p)]"
    and "live (heap_free L old e s) = live s" and "free_count (heap_free L old e s) = free_count s"
  using assms
  by (simp_all add: heap_free_def heap_free_effect_def previous_allocation_def nonempty_def Let_def case_prod_beta)

lemma heap_free_suppressed:
  assumes "old \<noteq> []" "old \<in> set (suppressed s)" "ev_success e"
  shows "live (heap_free L old e s) = live s" "free_count (heap_free L old e s) = free_count s"
    "suppressed (heap_free L old e s) = removeAll old (suppressed s)"
  using assms by (simp_all add: heap_free_def heap_free_effect_def Let_def case_prod_beta)

lemma heap_alloc_allowed:
  assumes "returned_address b = Some a" "size_allowed L (ev_size b)"
  shows "map_of (live (heap_alloc L b s)) a \<noteq> None" "suppressed (heap_alloc L b s) = suppressed s"
    "free_count (heap_alloc L b s) = free_count s"
  using assms by (simp_all add: heap_alloc_def Let_def case_prod_beta update_conv split: option.split)

text \<open>A second free of an address that the tracker saw freed is reported as a double free of the
  very allocation that the first free ended, and it changes neither the live resources nor the
  count of completed frees.\<close>

lemma double_free_reported:
  assumes "old \<noteq> []" "map_of (live s) old = Some p" "old \<notin> set (suppressed s)" "ev_success first"
  shows "let s1 = heap_free L old first s; s2 = heap_free L old second s1 in
     anomalies s2 = anomalies s1 @ [anomaly_of ''double_free''
       (second\<lparr>ev_addr := Some old, ev_known := Some False, ev_allocation := None\<rparr>) (Some p)]
     \<and> live s2 = live s1 \<and> free_count s2 = free_count s1"
proof -
  let ?s1 = "heap_free L old first s"
  note s1 = heap_free_present [OF assms, of L]
  have "map_of (live ?s1) old = None" "map_of (freed ?s1) old = Some p" "old \<notin> set (suppressed ?s1)"
    using assms(3) by (simp_all add: s1 delete_conv update_conv)
  from heap_free_again [OF assms(1) this, of L second] show ?thesis by (simp add: Let_def)
qed

definition sample_event :: "string \<Rightarrow> (int \<times> string) list \<Rightarrow> string \<Rightarrow> heap_event" where
  "sample_event f args r = base_event (sample_call 9 f args r)
     (the (heap_catalog_spec heap_resource_catalog [] f))"

text \<open>A filtered address is remembered across a later allocation: when an allocation within the
  size limits reuses an address that a filtered one still marks, its successful free is taken for
  a free of the filtered one, and the allocation stays in the leak list.\<close>

lemma filtered_address_hides_free:
  assumes "a \<in> set (suppressed s)" "returned_address b = Some a" "size_allowed L (ev_size b)"
    and "ev_success f"
  shows "let s1 = heap_alloc L b s; s2 = heap_free L a f s1 in
    map_of (live s2) a = map_of (live s1) a \<and> map_of (live s2) a \<noteq> None \<and> free_count s2 = free_count s
    \<and> a \<notin> set (suppressed s2)"
proof -
  let ?s1 = "heap_alloc L b s"
  note s1 = heap_alloc_allowed [OF assms(2,3), of s]
  have "a \<noteq> []" using assms(2) returned_address_nonempty [of b] by auto
  moreover have "a \<in> set (suppressed ?s1)" using assms(1) by (simp add: s1)
  ultimately show ?thesis
    using heap_free_suppressed [of a ?s1 f L, OF _ _ assms(4)] s1 by (simp add: Let_def)
qed

definition big_only :: heap_limits where
  "big_only = \<lparr>minimum_size = 16, maximum_size = 0, strict_unknown = False\<rparr>"

subsection \<open>Event states\<close>

definition final_states :: "string set" where
  "final_states = {''allocation_failed'', ''filtered'', ''allocated'', ''reallocation_failed'', ''reallocated'',
     ''null_free'', ''double_free'', ''invalid_free'', ''external_free'', ''freed'', ''free_failed''}"

definition states_ok :: "heap_state \<Rightarrow> bool" where
  "states_ok s \<longleftrightarrow> ev_status ` set (all_events s) \<subseteq> final_states"

lemma final_states_simps [simp]:
  "''allocation_failed'' \<in> final_states" "''filtered'' \<in> final_states" "''allocated'' \<in> final_states"
  "''reallocation_failed'' \<in> final_states" "''reallocated'' \<in> final_states" "''null_free'' \<in> final_states"
  "''double_free'' \<in> final_states" "''invalid_free'' \<in> final_states" "''external_free'' \<in> final_states"
  "''freed'' \<in> final_states" "''free_failed'' \<in> final_states"
  by (simp_all add: final_states_def)

lemma states_ok_append:
  "states_ok s \<Longrightarrow> all_events s' = all_events s @ [e] \<Longrightarrow> ev_status e \<in> final_states \<Longrightarrow> states_ok s'"
  by (simp add: states_ok_def)

lemma heap_alloc_states: "states_ok s \<Longrightarrow> states_ok (heap_alloc L b s)"
  by (auto simp: heap_alloc_def Let_def case_prod_beta states_ok_def split: option.split)

lemma forget_events [simp]: "all_events (forget_address a s) = all_events s"
  by (simp add: forget_address_def)

lemma heap_realloc_states: "states_ok s \<Longrightarrow> states_ok (heap_realloc L old b s)"
  by (auto simp: heap_realloc_def Let_def case_prod_beta states_ok_def split: option.split)

lemma heap_free_effect_event:
  "ev_status (fst (heap_free_effect L old e s)) \<in> final_states
   \<and> all_events (snd (heap_free_effect L old e s)) = all_events s"
  by (simp add: heap_free_effect_def Let_def case_prod_beta split: option.split)

lemma heap_free_states: "states_ok s \<Longrightarrow> states_ok (heap_free L old b s)"
  using heap_free_effect_event
  by (simp add: heap_free_def Let_def case_prod_beta states_ok_def)

lemma states_ok_frame: "states_ok s \<Longrightarrow> all_events s' = all_events s \<Longrightarrow> states_ok s'"
  by (simp add: states_ok_def)

lemma heap_step_states:
  assumes "states_ok s"
  shows "states_ok (heap_step C L s c)"
proof -
  have c: "states_ok (count_call spec s)" for spec using assms by (rule states_ok_frame) simp
  have i: "states_ok ((count_call spec s)\<lparr>incomplete_returns := n\<rparr>)" for spec n
    using assms by (rule states_ok_frame) simp
  have u: "states_ok (s\<lparr>unknown_calls := n\<rparr>)" for n using assms by (rule states_ok_frame) simp
  show ?thesis
    unfolding heap_step_def Let_def
    using heap_alloc_states [OF c] heap_realloc_states [OF c] heap_free_states [OF c] i u
    by (simp split: option.split)
qed

interpretation heap_states: reducer "heap_step C L" states_ok for C L
  by unfold_locales (rule heap_step_states)

text \<open>Every retained event ends in one of eleven states. In particular no event is ever reported
  as an external reallocation: the state the code assigns to a reallocation of an address it has
  never seen is always overwritten.\<close>

lemma event_states_exhaustive:
  "ev_status ` set (all_events (heap_reduce catalog L calls)) \<subseteq> final_states
   \<and> ''external_realloc'' \<notin> final_states"
proof -
  have "states_ok heap_init" by (simp add: states_ok_def heap_init_def)
  then have "states_ok (heap_reduce catalog L calls)"
    unfolding heap_reduce_def by (rule heap_states.foldl_inv)
  then show ?thesis by (simp add: states_ok_def final_states_def)
qed

subsection \<open>The catalogue\<close>

definition index_ok :: "int \<Rightarrow> bool" where
  "index_ok i \<longleftrightarrow> 0 \<le> i \<and> i \<le> 7"

definition spec_wf :: "heap_spec \<Rightarrow> bool" where
  "spec_wf sp \<longleftrightarrow> spec_op sp \<in> {''alloc'', ''realloc'', ''free''}
     \<and> return_semantics sp \<in> {''pointer'', ''bool'', ''void'', ''null_success''}
     \<and> pred_option index_ok (address_arg sp) \<and> pred_option index_ok (owner_arg sp)
     \<and> list_all index_ok (size_args sp) \<and> length (size_args sp) \<le> 2 \<and> spec_family sp \<noteq> []"

lemma builtin_catalog_wf: "list_all (\<lambda>(k, sp). spec_wf sp) heap_resource_catalog"
  by (simp add: heap_resource_catalog_def builtin_def spec_wf_def index_ok_def)

lemma builtin_catalog_distinct: "distinct (map fst heap_resource_catalog)" "length heap_resource_catalog = 32"
  by code_simp+

lemma read_arg_field_ok: "read_arg_field i f raw = Inr v \<Longrightarrow> pred_option index_ok v"
  by (auto simp: read_arg_field_def index_ok_def split: if_splits sum.splits)

lemma ints_of_length: "ints_of vs = Inr js \<Longrightarrow> length js = length vs"
  by (induction vs arbitrary: js) (auto split: sum.splits)

lemma read_size_args_ok: "read_size_args i raw = Inr js \<Longrightarrow> list_all index_ok js \<and> length js \<le> 2"
  by (auto simp: read_size_args_def index_ok_def list_all_iff list_ex_iff not_less dest: ints_of_length
           split: if_splits sum.splits pyval.splits)

lemma read_custom_ok:
  assumes "read_custom i v = Inr (key, sp)"
  shows "spec_wf sp \<and> spec_module sp \<noteq> None"
proof -
  from assms obtain raw where v: "v = VDict raw" by (cases v) (auto simp: read_custom_def)
  show ?thesis
  proof (cases "read_arg_field i ''addressArg'' raw")
    case (Inl e)
    with assms v show ?thesis by (simp add: read_custom_def Let_def del: insert_iff split: if_splits)
  next
    case A: (Inr addr)
    show ?thesis
    proof (cases "read_arg_field i ''ownerArg'' raw")
      case (Inl e)
      with A assms v show ?thesis by (simp add: read_custom_def Let_def del: insert_iff split: if_splits)
    next
      case O: (Inr owner)
      show ?thesis
      proof (cases "read_size_args i raw")
        case (Inl e)
        with A O assms v show ?thesis by (simp add: read_custom_def Let_def del: insert_iff split: if_splits)
      next
        case S: (Inr sizes)
        from read_arg_field_ok [OF A] read_arg_field_ok [OF O] read_size_args_ok [OF S] A O S assms v
        show ?thesis
          by (clarsimp simp: read_custom_def Let_def spec_wf_def simp del: insert_iff split: if_splits)
      qed
    qed
  qed
qed

definition catalog_ok :: "heap_catalog \<Rightarrow> bool" where
  "catalog_ok cat \<longleftrightarrow> distinct (map fst cat)
     \<and> (\<forall>(k, sp) \<in> set cat. spec_wf sp \<and> (spec_module sp = None \<longrightarrow> (k, sp) \<in> set heap_resource_catalog))"

lemma add_customs_ok:
  "add_customs i vs cat = Inr cat' \<Longrightarrow> catalog_ok cat \<Longrightarrow> catalog_ok cat' \<and> length cat' \<le> length cat + length vs"
proof (induction i vs cat rule: add_customs.induct)
  case (1 i cat)
  then show ?case by simp
next
  case (2 i v vs cat)
  then obtain key sp where c: "read_custom i v = Inr (key, sp)"
    and rest: "add_customs (i + 1) vs (AList.update key sp cat) = Inr cat'"
    by (auto split: sum.splits)
  from read_custom_ok [OF c] 2(3) have "catalog_ok (AList.update key sp cat)"
    unfolding catalog_ok_def by (intro conjI update_distinct_keys update_Ball) auto
  from 2(1) [OF c refl rest this] show ?case using length_update [of key sp cat] by (auto split: if_splits)
qed

definition chosen_builtins :: "string list \<Rightarrow> heap_catalog" where
  "chosen_builtins sel = filter (\<lambda>(name, sp). sel = [] \<or> spec_family sp \<in> set sel) heap_resource_catalog"

lemma chosen_builtins_ok: "catalog_ok (chosen_builtins sel) \<and> length (chosen_builtins sel) \<le> 32"
proof
  show "catalog_ok (chosen_builtins sel)"
    using builtin_catalog_wf builtin_catalog_distinct(1)
    by (auto simp: catalog_ok_def chosen_builtins_def distinct_map_filter list_all_iff)
  show "length (chosen_builtins sel) \<le> 32"
    unfolding chosen_builtins_def builtin_catalog_distinct(2) [symmetric] by (rule length_filter_le)
qed

lemma normalize_heap_catalog_cases:
  assumes "normalize_heap_catalog loads fams customs = r"
  obtains e where "read_families loads fams = Inl e" "r = Inl e"
  | sel where "read_families loads fams = Inr sel" "r = Inr (chosen_builtins sel)"
  | t where "r = Inl (CatalogError t)"
  | sel vs where "read_families loads fams = Inr sel" "length vs \<le> 32" "r = add_customs 0 vs (chosen_builtins sel)"
proof (cases "read_families loads fams")
  case (Inl e)
  with assms that(1) show ?thesis by (simp add: normalize_heap_catalog_def)
next
  case F: (Inr sel)
  show ?thesis
  proof (cases "strip customs = []")
    case True
    with F assms that(2) show ?thesis by (simp add: normalize_heap_catalog_def chosen_builtins_def)
  next
    case C: False
    show ?thesis
    proof (cases "loads customs")
      case (Inl exc)
      with F C assms have "\<exists>t. r = Inl (CatalogError t)" by (auto simp: normalize_heap_catalog_def)
      with that(3) show ?thesis by blast
    next
      case P: (Inr parsed)
      show ?thesis
      proof (cases "\<exists>vs. parsed = VList vs \<and> length vs \<le> 32")
        case True
        then obtain vs where "parsed = VList vs" "length vs \<le> 32" by blast
        with F C P assms that(4) show ?thesis
          by (simp add: normalize_heap_catalog_def chosen_builtins_def)
      next
        case False
        then have "\<exists>t. r = Inl (CatalogError t)"
          using F C P assms by (cases parsed) (auto simp: normalize_heap_catalog_def)
        with that(3) show ?thesis by blast
      qed
    qed
  qed
qed

lemma normalize_heap_catalog_ok:
  assumes "normalize_heap_catalog loads fams customs = Inr cat"
  shows "catalog_ok cat \<and> length cat \<le> 64"
  using assms
proof (cases rule: normalize_heap_catalog_cases)
  case (2 sel)
  then show ?thesis using chosen_builtins_ok [of sel] by simp
next
  case (4 sel vs)
  then show ?thesis using add_customs_ok [of 0 vs "chosen_builtins sel" cat] chosen_builtins_ok [of sel] by simp
qed simp_all

text \<open>An accepted allocator catalogue has at most 64 distinct entries, each with one of the three
  operations, a known return convention and argument indices from 0 to 7; an entry without a module
  is one of the built-in ones.\<close>

lemma accepted_catalog_wf:
  "normalize_heap_catalog loads fams customs = Inr cat \<Longrightarrow> catalog_ok cat \<and> length cat \<le> 64"
  by (rule normalize_heap_catalog_ok)

definition custom_loads :: "pyval \<Rightarrow> string \<Rightarrow> string + pyval" where
  "custom_loads arg s = Inr (VList [VDict
     [(''module'', VStr ''Pool.dll''), (''function'', VStr ''_PoolAlloc@8''), (''op'', VStr ''alloc''),
      (''returnSemantics'', VStr ''pointer''), (''ownerArg'', arg), (''sizeArgs'', VList [VInt 1])]])"

text \<open>The one exception that escapes the validator.\<close>

lemma py_int_exn: "py_int v = Inl e \<Longrightarrow> e \<in> {TypeError, ValueError, OverflowError}"
  by (cases v) (auto split: option.splits if_splits)

lemma ints_of_exn: "ints_of vs = Inl e \<Longrightarrow> e \<in> {TypeError, ValueError, OverflowError}"
  by (induction vs arbitrary: e) (auto split: sum.splits dest: py_int_exn)

lemma read_custom_exn: "read_custom i v = Inl (CatalogRaise e) \<Longrightarrow> e = OverflowError"
proof -
  have arg: "read_arg_field i f raw = Inl (CatalogRaise e) \<Longrightarrow> e = OverflowError" for f raw
    by (auto simp: read_arg_field_def custom_text_def split: if_splits sum.splits dest: py_int_exn)
  have sizes: "read_size_args i raw = Inl (CatalogRaise e) \<Longrightarrow> e = OverflowError" for raw
    by (auto simp: read_size_args_def custom_text_def split: if_splits sum.splits pyval.splits dest: ints_of_exn)
  show "read_custom i v = Inl (CatalogRaise e) \<Longrightarrow> e = OverflowError"
    by (cases v) (auto simp: read_custom_def custom_text_def Let_def split: if_splits sum.splits dest: arg sizes)
qed

lemma add_customs_exn: "add_customs i vs cat = Inl (CatalogRaise e) \<Longrightarrow> e = OverflowError"
  by (induction i vs cat rule: add_customs.induct) (auto split: sum.splits dest: read_custom_exn)

lemma read_families_exn: "read_families loads fams \<noteq> Inl (CatalogRaise e)"
  by (auto simp: read_families_def Let_def split: sum.splits pyval.splits)

text \<open>The catalogue validator answers every document with a catalogue or an error text, except
  that an infinite JSON number in an index field makes it raise \<open>OverflowError\<close>, and no other
  exception ever escapes.\<close>

lemma catalog_exceptions:
  "(\<exists>loads fams customs. normalize_heap_catalog loads fams customs = Inl (CatalogRaise e)) \<longleftrightarrow> e = OverflowError"
proof
  assume "e = OverflowError"
  moreover have "normalize_heap_catalog (custom_loads (VFloat ''inf'' None)) [] ''[...]'' = Inl (CatalogRaise OverflowError)"
    by code_simp
  ultimately show "\<exists>loads fams customs. normalize_heap_catalog loads fams customs = Inl (CatalogRaise e)" by blast
next
  assume "\<exists>loads fams customs. normalize_heap_catalog loads fams customs = Inl (CatalogRaise e)"
  then obtain loads fams customs where "normalize_heap_catalog loads fams customs = Inl (CatalogRaise e)" by blast
  then show "e = OverflowError"
    by (cases rule: normalize_heap_catalog_cases) (auto simp: read_families_exn dest: add_customs_exn [OF sym])
qed

end
