(* ===== verification/Coverage.thy ===== *)
theory Coverage
  imports Contracts "HOL-Library.Product_Lexorder"
begin

text \<open>
  \<open>src/coverage_core.py\<close>: the reconstruction of versioned basic blocks and directed edges from
  recorded instruction events. A raw event is a dictionary; a normalized one keeps the fields
  with a leading underscore and the \<open>blockStart\<close> flag, the only ones read afterwards. The
  argument \<open>sha\<close> is the hexadecimal SHA-256 of the UTF-8 encoding of a text.
\<close>

subsection \<open>Readers\<close>

definition int_value :: "pyval \<Rightarrow> int \<Rightarrow> int" where
  "int_value v dflt =
     (case v of
        VBool b \<Rightarrow> (if b then 1 else 0)
      | VInt i \<Rightarrow> i
      | _ \<Rightarrow>
          (let text = strip (str_or_empty v) in
           if text = [] then dflt
           else (case int0 text of
                   Some i \<Rightarrow> i
                 | None \<Rightarrow> (case int16 text of Some i \<Rightarrow> i | None \<Rightarrow> dflt))))"

definition hex_digit :: "char \<Rightarrow> bool" where
  "hex_digit c \<longleftrightarrow> is_digit c \<or> 97 \<le> cp c \<and> cp c \<le> 102"

definition normalized_bytes :: "pyval \<Rightarrow> string" where
  "normalized_bytes v =
     (let text = lower (filter (\<lambda>c. \<not> py_space c) (str_or_empty v)) in
      if text \<noteq> [] \<and> length text mod 2 = 0 \<and> list_all hex_digit text then text else [])"

text \<open>\<open>text.split(None, 1)\<close> on a stripped text.\<close>

definition split_word :: "string \<Rightarrow> string \<times> string" where
  "split_word s = (takeWhile (\<lambda>c. \<not> py_space c) s, dropWhile py_space (dropWhile (\<lambda>c. \<not> py_space c) s))"

definition branch_mnemonics :: "string list" where
  "branch_mnemonics = [''call'', ''callq'', ''jmp'', ''jmpq'', ''br'', ''blr'']"

text \<open>The texts the register pattern matches: general registers with or without a prefix, the
  numbered ones, byte registers and the instruction pointers.\<close>

definition register_names :: "string list" where
  "register_names =
     concat (map (\<lambda>b. [b, CHR ''r'' # b, CHR ''e'' # b]) [''ax'', ''bx'', ''cx'', ''dx'', ''si'', ''di'', ''sp'', ''bp''])
     @ map (\<lambda>i. CHR ''r'' # dec (int i)) [0..<16]
     @ concat (map (\<lambda>a. map (\<lambda>h. [a, h]) ''lh'') ''abcd'')
     @ [''rip'', ''eip'']"

definition instruction_is_indirect :: "pydict \<Rightarrow> bool" where
  "instruction_is_indirect e \<longleftrightarrow>
     truthy (dict_get e ''indirect'') \<or>
     (let instruction = casefold (strip (str_or_empty (dict_get e ''instruction'')));
          (mnemonic, rest) = split_word instruction;
          operand = strip rest
      in mnemonic \<in> set branch_mnemonics \<and> operand \<noteq> [] \<and>
         (list_ex (\<lambda>marker. contains marker operand) [''['', '']'', ''ptr '', ''qword '', ''dword '']
          \<or> strip (takeWhile (\<lambda>c. c \<noteq> CHR '','') operand) \<in> set register_names))"

subsection \<open>Normalized events\<close>

record trace_event =
  te_ordinal :: int
  te_seq :: int
  te_thread :: int
  te_ip :: int
  te_rva :: int
  te_size :: int
  te_bytes :: string
  te_instruction :: string
  te_branch :: bool
  te_call :: bool
  te_return :: bool
  te_target :: int
  te_indirect :: bool
  te_exception :: bool
  te_block_start :: bool

definition carry_exception :: "pydict option \<Rightarrow> pydict \<Rightarrow> pydict" where
  "carry_exception carried raw =
     (case carried of
        None \<Rightarrow> raw
      | Some c \<Rightarrow>
          set_default ''exceptionAddress'' (dict_get c ''exceptionAddress'')
            (set_default ''exceptionFirstChance'' (dict_get c ''exceptionFirstChance'')
              (set_default ''exceptionCode'' (dict_get c ''exceptionCode'')
                (AList.update ''exceptionTransition'' (VBool True) raw))))"

definition has_exception :: "pydict \<Rightarrow> bool" where
  "has_exception d \<longleftrightarrow> truthy (dict_get d ''exceptionTransition'') \<or> truthy (dict_get d ''exception'')
     \<or> int_value (dict_get d ''exceptionCode'') 0 \<noteq> 0"

definition event_thread :: "pydict \<Rightarrow> int" where
  "event_thread raw = max 0 (int_value (dict_get raw ''threadId'') 0)"

definition event_ip :: "pydict \<Rightarrow> int" where
  "event_ip raw = int_value (dict_get raw ''ip'') 0"

definition in_module :: "int \<Rightarrow> int \<Rightarrow> int \<Rightarrow> bool" where
  "in_module base sz ip \<longleftrightarrow> (base \<noteq> 0 \<and> sz \<noteq> 0 \<longrightarrow> base \<le> ip \<and> ip < base + sz)"

definition event_rva :: "int \<Rightarrow> pydict \<Rightarrow> int" where
  "event_rva base raw =
     (let ip = event_ip raw; rva = int_value (dict_get raw ''rva'') (-1) in
      if rva < 0 \<or> rva = 0 \<and> base \<noteq> 0 \<and> ip \<noteq> base
      then (if base \<noteq> 0 \<and> ip \<ge> base then ip - base else ip)
      else rva)"

definition normalize_event :: "int \<Rightarrow> int \<Rightarrow> pydict \<Rightarrow> pydict option \<Rightarrow> trace_event" where
  "normalize_event base ordinal raw carried =
     (let e = carry_exception carried raw;
          instruction = strip (str_or_empty (dict_get e ''instruction''));
          ret = truthy (dict_get raw ''isReturn'') \<or> starts_with (casefold instruction) ''ret''
                \<or> starts_with (casefold instruction) ''iret'';
          call = truthy (dict_get raw ''call'')
      in \<lparr>te_ordinal = ordinal, te_seq = int_value (dict_get raw ''seq'') (ordinal + 1),
          te_thread = event_thread raw, te_ip = event_ip raw, te_rva = event_rva base raw,
          te_size = max 0 (int_value (dict_get raw ''instructionSize'') 0),
          te_bytes = normalized_bytes (dict_get e ''bytes''), te_instruction = instruction,
          te_branch = (truthy (dict_get raw ''branch'') \<or> call \<or> ret), te_call = call, te_return = ret,
          te_target = int_value (dict_get raw ''branchTarget'') 0,
          te_indirect = instruction_is_indirect raw, te_exception = has_exception e,
          te_block_start = truthy (dict_get e ''blockStart'')\<rparr>)"

fun normalize_loop ::
  "int \<Rightarrow> int \<Rightarrow> int \<Rightarrow> (int \<times> pydict) list \<Rightarrow> pyval list \<Rightarrow> trace_event list" where
  "normalize_loop base sz ordinal pending [] = []"
| "normalize_loop base sz ordinal pending (v # vs) =
     (case v of
        VDict raw \<Rightarrow>
          (let t = event_thread raw;
               pending' = (if has_exception raw then AList.update t raw pending else pending)
           in if event_ip raw \<le> 0 \<or> \<not> in_module base sz (event_ip raw)
              then normalize_loop base sz (ordinal + 1) pending' vs
              else normalize_event base ordinal raw (map_of pending' t)
                   # normalize_loop base sz (ordinal + 1) (AList.delete t pending') vs)
      | _ \<Rightarrow> normalize_loop base sz (ordinal + 1) pending vs)"

definition normalize_events :: "pyval list \<Rightarrow> int \<Rightarrow> int \<Rightarrow> trace_event list" where
  "normalize_events events base sz =
     sort_key (\<lambda>e. (te_seq e, te_ordinal e)) (normalize_loop base sz 0 [] events)"

subsection \<open>Fingerprints\<close>

text \<open>\<open>json.dumps\<close> of a text, without ASCII escapes.\<close>

definition json_char :: "char \<Rightarrow> string" where
  "json_char c =
     (let n = cp c in
      if n = 34 \<or> n = 92 then [char_of (92 :: nat), c]
      else if n = 10 then [char_of (92 :: nat), CHR ''n'']
      else if n = 13 then [char_of (92 :: nat), CHR ''r'']
      else if n = 9 then [char_of (92 :: nat), CHR ''t'']
      else if n = 8 then [char_of (92 :: nat), CHR ''b'']
      else if n = 12 then [char_of (92 :: nat), CHR ''f'']
      else if n < 32 then [char_of (92 :: nat), CHR ''u''] @ zero_pad 4 (to_base 16 n)
      else [c])"

definition json_text :: "string \<Rightarrow> string" where
  "json_text s = CHR 0x22 # concat (map json_char s) @ [CHR 0x22]"

definition event_material :: "trace_event \<Rightarrow> string" where
  "event_material e = (if te_bytes e \<noteq> [] then te_bytes e else ''text:'' @ casefold (te_instruction e))"

definition json_instruction :: "trace_event \<Rightarrow> string" where
  "json_instruction e =
     ''{'' @ json_text ''material'' @ '':'' @ json_text (event_material e) @ '','' @
     json_text ''rva'' @ '':'' @ dec (te_rva e) @ '','' @ json_text ''size'' @ '':'' @ dec (te_size e) @ ''}''"

definition block_fingerprint :: "(string \<Rightarrow> string) \<Rightarrow> trace_event list \<Rightarrow> string" where
  "block_fingerprint sha es = sha (''['' @ join '','' (map json_instruction es) @ '']'')"

subsection \<open>Block instances\<close>

record block_instance =
  bi_events :: "trace_event list"
  bi_thread :: int
  bi_start :: int
  bi_end :: int
  bi_fingerprint :: string

definition make_instance :: "(string \<Rightarrow> string) \<Rightarrow> int \<Rightarrow> trace_event list \<Rightarrow> block_instance" where
  "make_instance sha t es =
     \<lparr>bi_events = es, bi_thread = t, bi_start = te_rva (hd es), bi_end = te_rva (last es),
      bi_fingerprint = block_fingerprint sha es\<rparr>"

text \<open>The open block of each thread, and the closed instances in the order of their closing.\<close>

record split_state =
  open_blocks :: "(int \<times> trace_event list) list"
  instances :: "block_instance list"

definition current_block :: "split_state \<Rightarrow> int \<Rightarrow> trace_event list" where
  "current_block s t = (case map_of (open_blocks s) t of Some es \<Rightarrow> es | None \<Rightarrow> [])"

definition finish_block :: "(string \<Rightarrow> string) \<Rightarrow> int \<Rightarrow> split_state \<Rightarrow> split_state" where
  "finish_block sha t s =
     (if current_block s t = [] then s
      else s\<lparr>instances := instances s @ [make_instance sha t (current_block s t)],
             open_blocks := AList.update t [] (open_blocks s)\<rparr>)"

definition starts_new :: "trace_event \<Rightarrow> trace_event \<Rightarrow> bool" where
  "starts_new previous e \<longleftrightarrow> te_branch previous \<or> te_call previous \<or> te_return previous
     \<or> te_exception previous \<or> te_size previous = 0 \<or> te_ip e \<noteq> te_ip previous + te_size previous
     \<or> te_block_start e"

definition split_step :: "(string \<Rightarrow> string) \<Rightarrow> split_state \<Rightarrow> trace_event \<Rightarrow> split_state" where
  "split_step sha s e =
     (let t = te_thread e; current = current_block s t in
      if current = [] \<or> starts_new (last current) e
      then (let s' = finish_block sha t s in s'\<lparr>open_blocks := AList.update t [e] (open_blocks s')\<rparr>)
      else s\<lparr>open_blocks := AList.update t (current @ [e]) (open_blocks s)\<rparr>)"

definition split_blocks :: "(string \<Rightarrow> string) \<Rightarrow> trace_event list \<Rightarrow> block_instance list" where
  "split_blocks sha events =
     (let s = foldl (split_step sha) \<lparr>open_blocks = [], instances = []\<rparr> events
      in instances (foldl (\<lambda>s t. finish_block sha t s) s (sort (map fst (open_blocks s)))))"

subsection \<open>Transitions\<close>

definition edge_kind :: "block_instance \<Rightarrow> block_instance \<Rightarrow> string" where
  "edge_kind previous current =
     (let terminal = last (bi_events previous); first = hd (bi_events current);
          next_ip = te_ip first; target = te_target terminal;
          fallthrough = te_ip terminal + te_size terminal
      in if te_exception first \<or> te_exception terminal then ''exception''
         else if te_return terminal then ''return''
         else if te_call terminal then (if te_indirect terminal then ''indirect-call'' else ''call'')
         else if te_branch terminal then
           (if target \<noteq> 0 \<and> next_ip = target
            then (if te_indirect terminal then ''indirect-taken'' else ''taken'')
            else if te_size terminal \<noteq> 0 \<and> next_ip = fallthrough then ''not-taken''
            else (if te_indirect terminal then ''indirect-observed'' else ''branch-observed''))
         else if te_size terminal \<noteq> 0 \<and> next_ip = fallthrough then ''fallthrough''
         else ''discontinuity'')"

record transition =
  tr_from :: nat
  tr_to :: nat
  tr_kind :: string
  tr_target :: int
  tr_indirect :: bool

text \<open>The threads in the order of their first instance, each with its instance numbers.\<close>

definition group_index :: "(int \<times> nat list) list \<Rightarrow> nat \<times> block_instance \<Rightarrow> (int \<times> nat list) list" where
  "group_index d ix =
     (case ix of (i, b) \<Rightarrow>
        AList.update (bi_thread b) ((case map_of d (bi_thread b) of Some l \<Rightarrow> l | None \<Rightarrow> []) @ [i]) d)"

definition by_thread :: "block_instance list \<Rightarrow> (int \<times> nat list) list" where
  "by_thread bs = foldl group_index [] (List.enumerate 0 bs)"

definition make_transition :: "block_instance list \<Rightarrow> nat \<times> nat \<Rightarrow> transition" where
  "make_transition bs p =
     (case p of (i, j) \<Rightarrow>
        \<lparr>tr_from = i, tr_to = j, tr_kind = edge_kind (bs ! i) (bs ! j),
         tr_target = te_target (last (bi_events (bs ! i))),
         tr_indirect = te_indirect (last (bi_events (bs ! i)))\<rparr>)"

definition thread_transitions :: "block_instance list \<Rightarrow> nat list \<Rightarrow> transition list" where
  "thread_transitions bs idx =
     (let sorted = sort_key (\<lambda>i. te_seq (hd (bi_events (bs ! i)))) idx
      in map (make_transition bs) (zip sorted (tl sorted)))"

definition transitions :: "block_instance list \<Rightarrow> transition list" where
  "transitions bs = concat (map (thread_transitions bs \<circ> snd) (by_thread bs))"

subsection \<open>Versions and blocks\<close>

definition versions_at :: "block_instance list \<Rightarrow> int \<Rightarrow> string list" where
  "versions_at bs rva = sort (remdups (map bi_fingerprint (filter (\<lambda>b. bi_start b = rva) bs)))"

definition hex_plain :: "int \<Rightarrow> string" where
  "hex_plain i = base_int 16 i"

definition stable_key :: "string \<Rightarrow> block_instance list \<Rightarrow> block_instance \<Rightarrow> string" where
  "stable_key identity bs b =
     (let base = identity @ '':'' @ hex_plain (bi_start b) in
      if length (versions_at bs (bi_start b)) = 1 then base
      else base @ '':v:'' @ take 16 (bi_fingerprint b))"

fun index_of :: "'a \<Rightarrow> 'a list \<Rightarrow> nat" where
  "index_of x [] = 0"
| "index_of x (y # ys) = (if x = y then 0 else Suc (index_of x ys))"

record block_group =
  bg_key :: string
  bg_base_key :: string
  bg_start :: int
  bg_end :: int
  bg_hits :: nat
  bg_instruction_hits :: nat
  bg_instruction_count :: nat
  bg_threads :: "int list"
  bg_first_seq :: int
  bg_last_seq :: int
  bg_sha :: string
  bg_version :: nat
  bg_version_count :: nat
  bg_self_modified :: bool

definition new_group :: "string \<Rightarrow> block_instance list \<Rightarrow> block_instance \<Rightarrow> block_group" where
  "new_group identity bs b =
     (let versions = versions_at bs (bi_start b) in
      \<lparr>bg_key = stable_key identity bs b, bg_base_key = identity @ '':'' @ hex_plain (bi_start b),
       bg_start = bi_start b, bg_end = bi_end b, bg_hits = 0, bg_instruction_hits = 0,
       bg_instruction_count = 0, bg_threads = [], bg_first_seq = te_seq (hd (bi_events b)),
       bg_last_seq = te_seq (last (bi_events b)), bg_sha = upper (bi_fingerprint b),
       bg_version = Suc (index_of (bi_fingerprint b) versions), bg_version_count = length versions,
       bg_self_modified = (length versions > 1)\<rparr>)"

definition hit_group :: "block_instance \<Rightarrow> block_group \<Rightarrow> block_group" where
  "hit_group b g =
     g\<lparr>bg_hits := bg_hits g + 1, bg_instruction_hits := bg_instruction_hits g + length (bi_events b),
       bg_instruction_count := max (bg_instruction_count g) (length (bi_events b)),
       bg_threads := List.insert (bi_thread b) (bg_threads g),
       bg_first_seq := min (bg_first_seq g) (te_seq (hd (bi_events b))),
       bg_last_seq := max (bg_last_seq g) (te_seq (last (bi_events b))),
       bg_end := max (bg_end g) (bi_end b)\<rparr>"

type_synonym group_key = "int \<times> string"

definition group_of :: "block_instance \<Rightarrow> group_key" where
  "group_of b = (bi_start b, bi_fingerprint b)"

definition group_step ::
  "string \<Rightarrow> block_instance list \<Rightarrow> (group_key \<times> block_group) list \<Rightarrow> block_instance
   \<Rightarrow> (group_key \<times> block_group) list" where
  "group_step identity bs d b =
     AList.update (group_of b)
       (hit_group b (case map_of d (group_of b) of Some g \<Rightarrow> g | None \<Rightarrow> new_group identity bs b)) d"

definition group_blocks :: "string \<Rightarrow> block_instance list \<Rightarrow> (group_key \<times> block_group) list" where
  "group_blocks identity bs = foldl (group_step identity bs) [] bs"

subsection \<open>Edges\<close>

record block_edge =
  be_from :: string
  be_to :: string
  be_hits :: nat
  be_targets :: "string list"
  be_kind :: string
  be_indirect :: bool

type_synonym edge_key = "string \<times> string \<times> string"

definition edge_step ::
  "(nat \<Rightarrow> string) \<Rightarrow> (edge_key \<times> block_edge) list \<Rightarrow> transition \<Rightarrow> (edge_key \<times> block_edge) list" where
  "edge_step keys d tr =
     (let src = keys (tr_from tr); dst = keys (tr_to tr); k = (src, dst, tr_kind tr);
          e = (case map_of d k of
                 Some e \<Rightarrow> e
               | None \<Rightarrow> \<lparr>be_from = src, be_to = dst, be_hits = 0, be_targets = [],
                          be_kind = tr_kind tr, be_indirect = tr_indirect tr\<rparr>)
      in AList.update k (e\<lparr>be_hits := be_hits e + 1,
           be_targets := (if tr_target tr \<noteq> 0 then List.insert (hex0x (tr_target tr)) (be_targets e)
                          else be_targets e)\<rparr>) d)"

definition group_edges :: "string \<Rightarrow> block_instance list \<Rightarrow> (edge_key \<times> block_edge) list" where
  "group_edges identity bs =
     foldl (edge_step (\<lambda>i. stable_key identity bs (bs ! i))) [] (transitions bs)"

subsection \<open>The report\<close>

definition sorted_blocks :: "string \<Rightarrow> block_instance list \<Rightarrow> block_group list" where
  "sorted_blocks identity bs =
     map (\<lambda>g. g\<lparr>bg_threads := sort (bg_threads g)\<rparr>)
       (sort_key (\<lambda>g. (bg_start g, bg_version g, bg_key g)) (map snd (group_blocks identity bs)))"

definition sorted_edges :: "string \<Rightarrow> block_instance list \<Rightarrow> block_edge list" where
  "sorted_edges identity bs =
     map (\<lambda>e. e\<lparr>be_targets := sort (be_targets e)\<rparr>)
       (sort_key (\<lambda>e. (be_from e, be_to e, be_kind e)) (map snd (group_edges identity bs)))"

record coverage_report =
  cr_identity :: string
  cr_blocks :: "block_group list"
  cr_edges :: "block_edge list"
  cr_block_count :: nat
  cr_edge_count :: nat
  cr_truncated :: bool
  cr_covered_instructions :: nat
  cr_covered_versions :: nat
  cr_block_hits :: nat
  cr_instruction_hits :: nat
  cr_edge_hits :: nat
  cr_event_count :: nat
  cr_thread_count :: nat
  cr_versioned_blocks :: nat
  cr_self_modifying :: "string list"
  cr_indirect_edges :: nat
  cr_exception_edges :: nat

definition coverage_report_of ::
  "string \<Rightarrow> trace_event list \<Rightarrow> block_instance list \<Rightarrow> int \<Rightarrow> coverage_report" where
  "coverage_report_of identity normalized bs limit =
     (let blocks = sorted_blocks identity bs; edges = sorted_edges identity bs;
          capped = nat (max 1 (min limit 5000));
          returned = take capped blocks; keys = map bg_key returned;
          returned_edges = take (max 1 (capped * 4))
            (filter (\<lambda>e. be_from e \<in> set keys \<and> be_to e \<in> set keys) edges)
      in \<lparr>cr_identity = identity, cr_blocks = returned, cr_edges = returned_edges,
          cr_block_count = length blocks, cr_edge_count = length edges,
          cr_truncated = (length returned < length blocks \<or> length returned_edges < length edges),
          cr_covered_instructions = length (remdups (map te_ip normalized)),
          cr_covered_versions = length (remdups (map (\<lambda>e. (te_rva e, event_material e)) normalized)),
          cr_block_hits = sum_list (map bg_hits blocks),
          cr_instruction_hits = sum_list (map bg_instruction_hits blocks),
          cr_edge_hits = sum_list (map be_hits edges),
          cr_event_count = length normalized,
          cr_thread_count = length (remdups (map te_thread normalized)),
          cr_versioned_blocks = length (filter bg_self_modified blocks),
          cr_self_modifying = map hex0x (filter (\<lambda>rva. length (versions_at bs rva) > 1)
            (sort (remdups (map bi_start bs)))),
          cr_indirect_edges = length (filter be_indirect edges),
          cr_exception_edges = length (filter (\<lambda>e. be_kind e = ''exception'') edges)\<rparr>)"

definition reconstruct_coverage ::
  "(string \<Rightarrow> string) \<Rightarrow> pyval list \<Rightarrow> int \<Rightarrow> int \<Rightarrow> string \<Rightarrow> int \<Rightarrow> coverage_report" where
  "reconstruct_coverage sha events base sz image_identity limit =
     (let identity = lower (strip (if image_identity = [] then ''runtime'' else image_identity));
          normalized = normalize_events events base sz
      in coverage_report_of identity normalized (split_blocks sha normalized) limit)"

end
