(* ===== verification/CoverageProps.thy ===== *)
theory CoverageProps
  imports Coverage
begin

text \<open>
  What the coverage reconstruction promises: the block instances of a thread are the maximal
  straight runs of its events and nothing is lost or invented, and the counters of the report
  account for every event, block execution and transition.
\<close>

subsection \<open>Splitting\<close>

abbreviation on_thread :: "int \<Rightarrow> block_instance list \<Rightarrow> block_instance list" where
  "on_thread t bs \<equiv> filter (\<lambda>b. bi_thread b = t) bs"

definition straight :: "trace_event list \<Rightarrow> bool" where
  "straight es \<longleftrightarrow> es \<noteq> [] \<and> successively (\<lambda>a b. \<not> starts_new a b) es"

definition instance_ok :: "(string \<Rightarrow> string) \<Rightarrow> block_instance \<Rightarrow> bool" where
  "instance_ok sha b \<longleftrightarrow> straight (bi_events b) \<and> (\<forall>e \<in> set (bi_events b). te_thread e = bi_thread b)
     \<and> b = make_instance sha (bi_thread b) (bi_events b)"

definition run_of :: "split_state \<Rightarrow> int \<Rightarrow> trace_event list list" where
  "run_of s t = map bi_events (on_thread t (instances s)) @
     (if current_block s t = [] then [] else [current_block s t])"

definition breaks :: "trace_event list list \<Rightarrow> bool" where
  "breaks runs \<longleftrightarrow> successively (\<lambda>a b. starts_new (last a) (hd b)) runs"

definition split_inv :: "(string \<Rightarrow> string) \<Rightarrow> trace_event list \<Rightarrow> split_state \<Rightarrow> bool" where
  "split_inv sha es s \<longleftrightarrow>
     (\<forall>t. concat (run_of s t) = filter (\<lambda>e. te_thread e = t) es \<and> breaks (run_of s t))
     \<and> Ball (set (instances s)) (instance_ok sha)
     \<and> (\<forall>t. current_block s t \<noteq> [] \<longrightarrow> straight (current_block s t))"

lemma current_block_update:
  "current_block (s\<lparr>open_blocks := AList.update t es (open_blocks s)\<rparr>) t' = (if t = t' then es else current_block s t')"
  by (simp add: current_block_def update_conv)

lemma finish_block_current: "current_block (finish_block sha t s) t' = (if t = t' then [] else current_block s t')"
  by (auto simp: finish_block_def current_block_def update_conv)

lemma finish_block_run: "run_of (finish_block sha t s) t' = run_of s t'"
  by (auto simp: run_of_def finish_block_current) (auto simp: finish_block_def make_instance_def)

lemma make_instance_fields [simp]:
  "bi_events (make_instance sha t es) = es" "bi_thread (make_instance sha t es) = t"
  by (simp_all add: make_instance_def)

lemma run_threads: "split_inv sha es s \<Longrightarrow> e \<in> set (current_block s t) \<Longrightarrow> te_thread e = t"
proof -
  assume inv: "split_inv sha es s" and e: "e \<in> set (current_block s t)"
  from e have "e \<in> set (concat (run_of s t))" by (auto simp: run_of_def)
  moreover from inv have "concat (run_of s t) = filter (\<lambda>e. te_thread e = t) es" by (simp add: split_inv_def)
  ultimately have "e \<in> set (filter (\<lambda>e. te_thread e = t) es)" by simp
  then show "te_thread e = t" by simp
qed

lemma finish_block_inv: "split_inv sha es s \<Longrightarrow> split_inv sha es (finish_block sha t s)"
proof -
  assume inv: "split_inv sha es s"
  have "Ball (set (instances (finish_block sha t s))) (instance_ok sha)"
    using inv run_threads [OF inv, of _ t]
    by (auto simp: finish_block_def split_inv_def instance_ok_def)
  with inv show ?thesis
    by (auto simp: split_inv_def finish_block_run finish_block_current)
qed

lemma straight_snoc: "straight es \<Longrightarrow> \<not> starts_new (last es) e \<Longrightarrow> straight (es @ [e])"
  by (auto simp: straight_def successively_append_iff)

lemma breaks_snoc: "breaks runs \<Longrightarrow> runs = [] \<or> starts_new (last (last runs)) (hd r) \<Longrightarrow> breaks (runs @ [r])"
  by (auto simp: breaks_def successively_append_iff)

lemma breaks_extend: "breaks (runs @ [r]) \<Longrightarrow> r \<noteq> [] \<Longrightarrow> breaks (runs @ [r @ [e]])"
  by (auto simp: breaks_def successively_append_iff)

text \<open>While events are read, a thread without an open block has no closed one either.\<close>

definition open_inv :: "split_state \<Rightarrow> bool" where
  "open_inv s \<longleftrightarrow> (\<forall>t. current_block s t = [] \<longrightarrow> on_thread t (instances s) = [])"

lemma run_of_open: "current_block s t \<noteq> [] \<Longrightarrow> run_of s t = map bi_events (on_thread t (instances s)) @ [current_block s t]"
  by (simp add: run_of_def)

lemma run_of_start:
  assumes "current_block s t = []"
  shows "run_of (s\<lparr>open_blocks := AList.update t [e] (open_blocks s)\<rparr>) t' =
    (if t' = t then run_of s t @ [[e]] else run_of s t')"
  using assms by (simp add: run_of_def current_block_update)

lemma split_step_new:
  assumes inv: "split_inv sha es s" "open_inv s" and e: "te_thread e = t"
    and new: "current_block s t = [] \<or> starts_new (last (current_block s t)) e"
  shows "split_inv sha (es @ [e]) (split_step sha s e) \<and> open_inv (split_step sha s e)"
proof -
  let ?f = "finish_block sha t s"
  let ?s = "?f\<lparr>open_blocks := AList.update t [e] (open_blocks ?f)\<rparr>"
  have step: "split_step sha s e = ?s" using new e by (simp add: split_step_def Let_def)
  have f: "split_inv sha es ?f" using inv(1) by (rule finish_block_inv)
  have cur: "current_block ?f t = []" by (simp add: finish_block_current)
  have runs: "run_of ?s t' = (if t' = t then run_of s t @ [[e]] else run_of s t')" for t'
    using run_of_start [OF cur] by (simp add: finish_block_run)
  have "run_of s t = [] \<or> starts_new (last (last (run_of s t))) (hd [e])"
    using new inv(2) by (cases "current_block s t = []") (auto simp: run_of_def open_inv_def)
  then have "breaks (run_of s t @ [[e]])"
    using inv(1) by (intro breaks_snoc) (auto simp: split_inv_def)
  then have "concat (run_of ?s t') = filter (\<lambda>e. te_thread e = t') (es @ [e]) \<and> breaks (run_of ?s t')" for t'
    using inv(1) e by (cases "t' = t") (simp_all add: runs split_inv_def)
  moreover have "Ball (set (instances ?s)) (instance_ok sha)" using f by (simp add: split_inv_def)
  moreover have "straight (current_block ?s t')" if "current_block ?s t' \<noteq> []" for t'
    using that f by (auto simp: current_block_update split_inv_def straight_def split: if_splits)
  moreover have "open_inv ?s"
    using inv(2) by (auto simp: open_inv_def current_block_update finish_block_current split: if_splits)
      (auto simp: finish_block_def)
  ultimately show ?thesis by (simp add: step split_inv_def)
qed

lemma split_step_extend:
  assumes inv: "split_inv sha es s" "open_inv s" and e: "te_thread e = t"
    and old: "current_block s t \<noteq> []" "\<not> starts_new (last (current_block s t)) e"
  shows "split_inv sha (es @ [e]) (split_step sha s e) \<and> open_inv (split_step sha s e)"
proof -
  let ?c = "current_block s t"
  let ?s = "s\<lparr>open_blocks := AList.update t (?c @ [e]) (open_blocks s)\<rparr>"
  have step: "split_step sha s e = ?s" using old e by (simp add: split_step_def Let_def)
  have runs: "run_of ?s t' = (if t' = t then map bi_events (on_thread t (instances s)) @ [?c @ [e]] else run_of s t')" for t'
    by (simp add: run_of_def current_block_update)
  have "breaks (map bi_events (on_thread t (instances s)) @ [?c])"
    using inv(1) old(1) by (metis split_inv_def run_of_open)
  then have "breaks (map bi_events (on_thread t (instances s)) @ [?c @ [e]])"
    using old(1) by (rule breaks_extend)
  moreover have "concat (run_of s t) = filter (\<lambda>e. te_thread e = t) es" using inv(1) by (simp add: split_inv_def)
  ultimately have "concat (run_of ?s t') = filter (\<lambda>e. te_thread e = t') (es @ [e]) \<and> breaks (run_of ?s t')" for t'
    using inv(1) e old(1) by (cases "t' = t") (simp_all add: runs split_inv_def run_of_open)
  moreover have "straight (current_block ?s t')" if "current_block ?s t' \<noteq> []" for t'
    using that inv(1) old by (auto simp: current_block_update split_inv_def intro: straight_snoc split: if_splits)
  moreover have "open_inv ?s"
    using inv(2) old(1) by (auto simp: open_inv_def current_block_update)
  ultimately show ?thesis using inv(1) by (simp add: step split_inv_def)
qed

lemma split_loop_inv:
  "split_inv sha es (foldl (split_step sha) \<lparr>open_blocks = [], instances = []\<rparr> es)
   \<and> open_inv (foldl (split_step sha) \<lparr>open_blocks = [], instances = []\<rparr> es)"
proof (induction es rule: rev_induct)
  case Nil
  then show ?case by (auto simp: split_inv_def open_inv_def run_of_def current_block_def breaks_def)
next
  case (snoc e es)
  then show ?case using split_step_new [OF _ _ refl] split_step_extend [OF _ _ refl]
    by (simp only: foldl_append foldl.simps) blast
qed

lemma finish_all:
  "split_inv sha es s \<Longrightarrow> split_inv sha es (foldl (\<lambda>s t. finish_block sha t s) s ts)
   \<and> (\<forall>t. run_of (foldl (\<lambda>s t. finish_block sha t s) s ts) t = run_of s t)
   \<and> (\<forall>t. current_block (foldl (\<lambda>s t. finish_block sha t s) s ts) t =
          (if t \<in> set ts then [] else current_block s t))"
  by (induction ts arbitrary: s) (auto simp: finish_block_inv finish_block_run finish_block_current)

lemma split_blocks_ok:
  "map bi_events (on_thread t (split_blocks sha es)) = run_of (foldl (split_step sha) \<lparr>open_blocks = [], instances = []\<rparr> es) t"
  "Ball (set (split_blocks sha es)) (instance_ok sha)"
proof -
  let ?s = "foldl (split_step sha) \<lparr>open_blocks = [], instances = []\<rparr> es"
  let ?f = "foldl (\<lambda>s t. finish_block sha t s) ?s (sort (map fst (open_blocks ?s)))"
  have b: "split_blocks sha es = instances ?f" by (simp add: split_blocks_def Let_def)
  have inv: "split_inv sha es ?s" by (simp add: split_loop_inv)
  note fin = finish_all [OF inv]
  have "current_block ?s t = []" if "t \<notin> fst ` set (open_blocks ?s)"
    using that by (simp add: current_block_def map_of_eq_None_iff split: option.split)
      (metis map_of_eq_None_iff option.distinct(1))
  with fin [of "sort (map fst (open_blocks ?s))"] have "current_block ?f t = []" by auto
  then have "run_of ?f t = map bi_events (on_thread t (split_blocks sha es))" by (simp add: run_of_def b)
  with fin show "map bi_events (on_thread t (split_blocks sha es)) = run_of ?s t" by metis
  from fin [of "sort (map fst (open_blocks ?s))"] show "Ball (set (split_blocks sha es)) (instance_ok sha)" by (simp add: split_inv_def b)
qed

lemma blocks_decompose: "concat (map bi_events (on_thread t (split_blocks sha es))) = filter (\<lambda>e. te_thread e = t) es"
  using split_loop_inv [of sha es] split_blocks_ok(1) [of t sha es] by (simp add: split_inv_def)

subsection \<open>Properties of the splitting\<close>

text \<open>C26: For every thread, the block instances in their order are a decomposition of exactly the
  normalized events of that thread: joined they give the events back, each is a straight run (each
  event falls through to the next), and it is maximal (between neighbours one event does not).\<close>

theorem blocks_decompose_threads:
  "concat (map bi_events (filter (\<lambda>b. bi_thread b = t) (split_blocks sha events))) =
     filter (\<lambda>e. te_thread e = t) events
   \<and> breaks (map bi_events (filter (\<lambda>b. bi_thread b = t) (split_blocks sha events)))
   \<and> list_all (instance_ok sha) (split_blocks sha events)"
  using split_loop_inv [of sha events] split_blocks_ok(1) [of t sha events] split_blocks_ok(2) [of sha events]
  by (simp add: split_inv_def list_all_iff)

subsection \<open>Counting\<close>

lemma total_events:
  "sum_list (map (length \<circ> bi_events) (split_blocks sha es)) = length es"
proof -
  let ?bs = "split_blocks sha es"
  let ?S = "bi_thread ` set ?bs \<union> te_thread ` set es"
  have "sum_list (map (length \<circ> bi_events) (on_thread t ?bs)) = sum_list (map (\<lambda>_. 1) (filter (\<lambda>e. te_thread e = t) es))" for t
    using arg_cong [OF blocks_decompose [of t sha es], of length] by (simp add: length_concat comp_def sum_list_triv)
  then have "(\<Sum>t\<in>?S. sum_list (map (length \<circ> bi_events) (on_thread t ?bs))) =
      (\<Sum>t\<in>?S. sum_list (map (\<lambda>_. 1) (filter (\<lambda>e. te_thread e = t) es)))" by simp
  then show ?thesis
    using sum_by_class [of ?S bi_thread ?bs "length \<circ> bi_events"] sum_by_class [of ?S te_thread es "\<lambda>_. 1"]
    by (simp add: sum_list_triv)
qed

lemma thread_events_nonempty:
  "on_thread t (split_blocks sha es) \<noteq> [] \<longleftrightarrow> filter (\<lambda>e. te_thread e = t) es \<noteq> []"
proof -
  have "bi_events b \<noteq> []" if "b \<in> set (on_thread t (split_blocks sha es))" for b
    using that split_blocks_ok(2) [of sha es] by (auto simp: instance_ok_def straight_def)
  then have "concat (map bi_events (on_thread t (split_blocks sha es))) = [] \<longleftrightarrow> on_thread t (split_blocks sha es) = []"
    by (cases "on_thread t (split_blocks sha es)") auto
  then show ?thesis by (simp only: blocks_decompose)
qed

lemma instance_threads: "bi_thread ` set (split_blocks sha es) = te_thread ` set es"
proof (rule set_eqI)
  fix t
  have "t \<in> bi_thread ` set (split_blocks sha es) \<longleftrightarrow> on_thread t (split_blocks sha es) \<noteq> []"
    by (auto simp: filter_empty_conv)
  moreover have "t \<in> te_thread ` set es \<longleftrightarrow> filter (\<lambda>e. te_thread e = t) es \<noteq> []"
    by (auto simp: filter_empty_conv)
  ultimately show "t \<in> bi_thread ` set (split_blocks sha es) \<longleftrightarrow> t \<in> te_thread ` set es"
    by (simp only: thread_events_nonempty)
qed

text \<open>Groups of blocks.\<close>

lemma group_step_sum:
  fixes w :: "block_group \<Rightarrow> nat"
  assumes "\<And>b g. w (hit_group b g) = w g + v b" "\<And>b. w (new_group identity bs b) = 0"
  shows "sum_list (map (w \<circ> snd) (group_step identity bs d b)) = sum_list (map (w \<circ> snd) d) + v b"
  using sum_update [of w "group_of b" "hit_group b (case map_of d (group_of b) of Some g \<Rightarrow> g | None \<Rightarrow> new_group identity bs b)" d]
  by (cases "map_of d (group_of b)") (simp_all add: group_step_def assms)

lemma group_blocks_sum:
  fixes w :: "block_group \<Rightarrow> nat"
  assumes "\<And>b g. w (hit_group b g) = w g + v b" "\<And>b. w (new_group identity bs b) = 0"
  shows "sum_list (map (w \<circ> snd) (foldl (group_step identity bs) d xs)) = sum_list (map (w \<circ> snd) d) + sum_list (map v xs)"
  by (induction xs arbitrary: d) (simp_all add: group_step_sum [of w v identity bs, OF assms])

lemma sorted_blocks_sum:
  fixes w :: "block_group \<Rightarrow> nat"
  assumes "\<And>b g. w (hit_group b g) = w g + v b" "\<And>b. w (new_group identity bs b) = 0"
    and "\<And>g ts. w (g\<lparr>bg_threads := ts\<rparr>) = w g"
  shows "sum_list (map w (sorted_blocks identity bs)) = sum_list (map v bs)"
proof -
  have "sum_list (map w (sorted_blocks identity bs)) = sum_list (map w (map snd (group_blocks identity bs)))"
    by (simp add: sorted_blocks_def comp_def assms(3))
  also have "\<dots> = sum_list (map v bs)"
    using group_blocks_sum [OF assms(1,2), of "[]" bs] by (simp add: group_blocks_def)
  finally show ?thesis .
qed

lemma sorted_blocks_hits:
  "sum_list (map bg_hits (sorted_blocks identity bs)) = length bs"
  "sum_list (map bg_instruction_hits (sorted_blocks identity bs)) = sum_list (map (length \<circ> bi_events) bs)"
  using sorted_blocks_sum [of bg_hits "\<lambda>_. 1" identity bs]
    sorted_blocks_sum [of bg_instruction_hits "length \<circ> bi_events" identity bs]
  by (simp_all add: hit_group_def new_group_def Let_def sum_list_triv comp_def)

text \<open>Edges.\<close>

lemma edge_step_sum:
  "sum_list (map (be_hits \<circ> snd) (edge_step keys d tr)) = Suc (sum_list (map (be_hits \<circ> snd) d))"
proof -
  let ?k = "(keys (tr_from tr), keys (tr_to tr), tr_kind tr)"
  have "\<exists>v. edge_step keys d tr = AList.update ?k v d
      \<and> be_hits v = Suc (case map_of d ?k of Some u \<Rightarrow> be_hits u | None \<Rightarrow> 0)"
    by (auto simp: edge_step_def Let_def split: option.split)
  then obtain v where "edge_step keys d tr = AList.update ?k v d"
    "be_hits v = Suc (case map_of d ?k of Some u \<Rightarrow> be_hits u | None \<Rightarrow> 0)" by blast
  with sum_update [of be_hits ?k v d] show ?thesis by simp
qed

lemma edge_fold_sum:
  "sum_list (map (be_hits \<circ> snd) (foldl (edge_step keys) d trs)) = sum_list (map (be_hits \<circ> snd) d) + length trs"
  by (induction trs arbitrary: d) (simp_all add: edge_step_sum)

lemma sorted_edges_hits: "sum_list (map be_hits (sorted_edges identity bs)) = length (transitions bs)"
proof -
  have "sum_list (map be_hits (sorted_edges identity bs)) = sum_list (map be_hits (map snd (group_edges identity bs)))"
    by (simp add: sorted_edges_def comp_def)
  then show ?thesis using edge_fold_sum [of _ "[]"] by (simp add: group_edges_def)
qed

text \<open>Transitions: one less than the instances of each thread.\<close>

definition thread_groups_ok :: "(int \<times> nat list) list \<Rightarrow> bool" where
  "thread_groups_ok d \<longleftrightarrow> distinct (map fst d) \<and> Ball (set d) (\<lambda>(t, l). l \<noteq> [])"

lemma group_index_ok: "thread_groups_ok d \<Longrightarrow> thread_groups_ok (group_index d ix)"
  unfolding thread_groups_ok_def group_index_def case_prod_beta
  by (intro conjI update_distinct_keys update_Ball) auto

interpretation thread_groups: reducer group_index thread_groups_ok
  by unfold_locales (rule group_index_ok)

lemma group_index_sum:
  "sum_list (map (length \<circ> snd) (group_index d ix)) = Suc (sum_list (map (length \<circ> snd) d))"
  using sum_update [of length "bi_thread (snd ix)"
      "(case map_of d (bi_thread (snd ix)) of Some l \<Rightarrow> l | None \<Rightarrow> []) @ [fst ix]" d]
  by (cases "map_of d (bi_thread (snd ix))") (simp_all add: group_index_def case_prod_beta)

lemma group_index_fold:
  "sum_list (map (length \<circ> snd) (foldl group_index d ixs)) = sum_list (map (length \<circ> snd) d) + length ixs
   \<and> fst ` set (foldl group_index d ixs) = fst ` set d \<union> (bi_thread \<circ> snd) ` set ixs"
  by (induction ixs arbitrary: d) (simp_all add: group_index_sum, auto simp: group_index_def case_prod_beta)

lemma by_thread_facts:
  "thread_groups_ok (by_thread bs)" "sum_list (map (length \<circ> snd) (by_thread bs)) = length bs"
  "fst ` set (by_thread bs) = bi_thread ` set bs"
proof -
  show "thread_groups_ok (by_thread bs)"
    unfolding by_thread_def by (rule thread_groups.foldl_inv) (simp add: thread_groups_ok_def)
  have "(bi_thread \<circ> snd) ` set (List.enumerate 0 bs) = bi_thread ` snd ` set (List.enumerate 0 bs)"
    by (rule image_comp [symmetric])
  also have "snd ` set (List.enumerate 0 bs) = set bs" by (metis map_snd_enumerate list.set_map)
  finally show "fst ` set (by_thread bs) = bi_thread ` set bs"
    using group_index_fold [of "[]" "List.enumerate 0 bs"] by (simp only: by_thread_def) simp
  show "sum_list (map (length \<circ> snd) (by_thread bs)) = length bs"
    using group_index_fold [of "[]" "List.enumerate 0 bs"] by (simp add: by_thread_def)
qed

lemma transitions_count_aux:
  "Ball (set d) (\<lambda>(t, l). l \<noteq> []) \<Longrightarrow>
   length (concat (map (thread_transitions bs \<circ> snd) d)) + length d = sum_list (map (length \<circ> snd) d)"
proof (induction d)
  case (Cons p d)
  then have "snd p \<noteq> []" by auto
  then have "length (thread_transitions bs (snd p)) + 1 = length (snd p)"
    by (simp add: thread_transitions_def Let_def Suc_le_eq)
  with Cons show ?case by simp
qed simp

lemma transitions_count: "length (transitions bs) + card (bi_thread ` set bs) = length bs"
proof -
  have "length (by_thread bs) = card (bi_thread ` set bs)"
    using by_thread_facts(1,3) [of bs] distinct_card [of "map fst (by_thread bs)"]
    by (simp add: thread_groups_ok_def)
  moreover have "length (transitions bs) + length (by_thread bs) = length bs"
    using transitions_count_aux [of "by_thread bs" bs] by_thread_facts(1,2) [of bs]
    by (simp add: transitions_def thread_groups_ok_def)
  ultimately show ?thesis by simp
qed

lemma report_counters:
  "cr_instruction_hits (coverage_report_of i n bs l) = sum_list (map bg_instruction_hits (sorted_blocks i bs))"
  "cr_edge_hits (coverage_report_of i n bs l) = sum_list (map be_hits (sorted_edges i bs))"
  "cr_block_hits (coverage_report_of i n bs l) = sum_list (map bg_hits (sorted_blocks i bs))"
  "cr_thread_count (coverage_report_of i n bs l) = length (remdups (map te_thread n))"
  "cr_event_count (coverage_report_of i n bs l) = length n"
  unfolding coverage_report_of_def Let_def by (simp_all only: coverage_report.simps)

text \<open>C27: The counters of a coverage report account for everything: the instruction hits of all
  blocks are the normalized events, and the block hits are the edge hits plus one per thread,
  whatever was cut from the returned lists.\<close>

theorem coverage_counts_everything:
  "cr_instruction_hits (reconstruct_coverage sha events base sz identity limit)
     = cr_event_count (reconstruct_coverage sha events base sz identity limit)
   \<and> cr_edge_hits (reconstruct_coverage sha events base sz identity limit)
     + cr_thread_count (reconstruct_coverage sha events base sz identity limit)
     = cr_block_hits (reconstruct_coverage sha events base sz identity limit)"
proof -
  let ?es = "normalize_events events base sz"
  let ?bs = "split_blocks sha ?es"
  have "card (bi_thread ` set ?bs) = length (remdups (map te_thread ?es))"
    by (simp add: instance_threads length_remdups_card_conv)
  then have e: "length (transitions ?bs) + length (remdups (map te_thread ?es)) = length ?bs"
    using transitions_count [of ?bs] by (simp only:)
  show ?thesis
    unfolding reconstruct_coverage_def Let_def report_counters sorted_blocks_hits sorted_edges_hits total_events e
    by (intro conjI refl)
qed

subsection \<open>What is returned\<close>

lemma set_takeD: "x \<in> set (take n xs) \<Longrightarrow> x \<in> set xs"
  by (rule in_set_takeD)

lemma report_returned:
  fixes i n bs l
  defines "r \<equiv> coverage_report_of i n bs l"
  shows "be_from ` set (cr_edges r) \<union> be_to ` set (cr_edges r) \<subseteq> bg_key ` set (cr_blocks r)"
    "length (cr_blocks r) \<le> 5000" "length (cr_edges r) \<le> 20000"
    "cr_truncated r = (length (cr_blocks r) < cr_block_count r \<or> length (cr_edges r) < cr_edge_count r)"
proof -
  let ?c = "nat (max 1 (min l 5000))"
  have c: "?c \<le> 5000" "max 1 (?c * 4) \<le> 20000" by auto
  have blocks: "cr_blocks r = take ?c (sorted_blocks i bs)"
    and edges: "cr_edges r = take (max 1 (?c * 4))
       (filter (\<lambda>e. be_from e \<in> set (map bg_key (take ?c (sorted_blocks i bs)))
                  \<and> be_to e \<in> set (map bg_key (take ?c (sorted_blocks i bs)))) (sorted_edges i bs))"
    and trunc: "cr_truncated r = (length (cr_blocks r) < cr_block_count r \<or> length (cr_edges r) < cr_edge_count r)"
    unfolding r_def coverage_report_of_def Let_def by (simp_all only: coverage_report.simps)
  show "be_from ` set (cr_edges r) \<union> be_to ` set (cr_edges r) \<subseteq> bg_key ` set (cr_blocks r)"
    unfolding edges blocks by (auto dest!: set_takeD)
  show "length (cr_blocks r) \<le> 5000" unfolding blocks length_take using c(1) by linarith
  show "length (cr_edges r) \<le> 20000" unfolding edges length_take using c(2) by linarith
  show "cr_truncated r = (length (cr_blocks r) < cr_block_count r \<or> length (cr_edges r) < cr_edge_count r)"
    by (rule trunc)
qed

text \<open>The returned lists are closed and bounded: every returned edge joins two returned blocks,
  at most 5000 blocks and 20000 edges are returned, and the report says so whenever it left any out.\<close>

lemma coverage_report_closed:
  fixes sha events base sz identity limit
  defines "r \<equiv> reconstruct_coverage sha events base sz identity limit"
  shows "be_from ` set (cr_edges r) \<union> be_to ` set (cr_edges r) \<subseteq> bg_key ` set (cr_blocks r)
    \<and> length (cr_blocks r) \<le> 5000 \<and> length (cr_edges r) \<le> 20000
    \<and> cr_truncated r = (length (cr_blocks r) < cr_block_count r \<or> length (cr_edges r) < cr_edge_count r)"
  unfolding r_def reconstruct_coverage_def Let_def using report_returned by (intro conjI) (rule report_returned)+

subsection \<open>Stable keys\<close>

lemma hex_plain_plain: "CHR '':'' \<notin> set (hex_plain i)"
proof -
  have "CHR '':'' \<notin> set (to_base 16 n)" for n
    using hex_like_to_base [of 16 n] by (auto simp: hex_like_def list_all_iff)
  then show ?thesis by (simp add: hex_plain_def base_int_def)
qed

lemma hex_plain_inj: "0 \<le> i \<Longrightarrow> 0 \<le> j \<Longrightarrow> hex_plain i = hex_plain j \<Longrightarrow> i = j"
  using hex0x_inj [of i j] by (simp add: hex0x_def hex_plain_def)

lemma hex_plain_prefix:
  assumes "hex_plain i @ s = hex_plain j @ t" "s = [] \<or> hd s = CHR '':''" "t = [] \<or> hd t = CHR '':''"
  shows "hex_plain i = hex_plain j \<and> s = t"
proof -
  have "takeWhile (\<lambda>c. c \<noteq> CHR '':'') (hex_plain k @ u) = hex_plain k" if "u = [] \<or> hd u = CHR '':''" for k u
  proof -
    have "\<forall>c \<in> set (hex_plain k). c \<noteq> CHR '':''" using hex_plain_plain [of k] by metis
    moreover have "takeWhile (\<lambda>c. c \<noteq> CHR '':'') u = []" using that by (cases u) auto
    ultimately show ?thesis by simp
  qed
  with assms have "hex_plain i = hex_plain j" by metis
  with assms(1) show ?thesis by simp
qed

definition key_suffix :: "block_instance list \<Rightarrow> block_instance \<Rightarrow> string" where
  "key_suffix bs b = (if length (versions_at bs (bi_start b)) = 1 then [] else '':v:'' @ take 16 (bi_fingerprint b))"

lemma stable_key_suffix: "stable_key identity bs b = identity @ '':'' @ hex_plain (bi_start b) @ key_suffix bs b"
  by (simp add: stable_key_def key_suffix_def Let_def)

lemma versions_at_mem: "b \<in> set bs \<Longrightarrow> bi_fingerprint b \<in> set (versions_at bs (bi_start b))"
  by (auto simp: versions_at_def)

lemma stable_key_inj:
  assumes "b \<in> set bs" "c \<in> set bs" "0 \<le> bi_start b" "0 \<le> bi_start c"
    and "stable_key identity bs b = stable_key identity bs c"
    and prefix: "take 16 (bi_fingerprint b) = take 16 (bi_fingerprint c) \<Longrightarrow> bi_fingerprint b = bi_fingerprint c"
  shows "group_of b = group_of c"
proof -
  have "hex_plain (bi_start b) @ key_suffix bs b = hex_plain (bi_start c) @ key_suffix bs c"
    using assms(5) by (simp add: stable_key_suffix)
  then have eq: "hex_plain (bi_start b) = hex_plain (bi_start c)" "key_suffix bs b = key_suffix bs c"
    using hex_plain_prefix by (metis (no_types) key_suffix_def append_Cons list.sel(1))+
  from eq(1) have start: "bi_start b = bi_start c" using assms(3,4) hex_plain_inj by blast
  have "bi_fingerprint b = bi_fingerprint c"
  proof (cases "length (versions_at bs (bi_start b)) = 1")
    case True
    then obtain f where "versions_at bs (bi_start b) = [f]" by (auto simp: length_Suc_conv)
    then show ?thesis
      using versions_at_mem [OF assms(1)] versions_at_mem [OF assms(2)] start by simp
  next
    case False
    with eq(2) start prefix show ?thesis by (simp add: key_suffix_def)
  qed
  with start show ?thesis by (simp add: group_of_def)
qed

text \<open>The events of a report are in range.\<close>

lemma event_rva_nonneg: "0 < event_ip raw \<Longrightarrow> 0 \<le> event_rva base raw"
  by (auto simp: event_rva_def Let_def)

definition event_ok :: "int \<Rightarrow> int \<Rightarrow> trace_event \<Rightarrow> bool" where
  "event_ok base sz e \<longleftrightarrow> 0 < te_ip e \<and> in_module base sz (te_ip e) \<and> 0 \<le> te_rva e \<and> 0 \<le> te_size e
     \<and> 0 \<le> te_thread e"

lemma normalize_event_ok:
  "0 < event_ip raw \<Longrightarrow> in_module base sz (event_ip raw) \<Longrightarrow> event_ok base sz (normalize_event base n raw c)"
  by (simp add: event_ok_def normalize_event_def Let_def event_rva_nonneg event_thread_def)

lemma normalize_loop_ok: "Ball (set (normalize_loop base sz n pending vs)) (event_ok base sz)"
proof (induction base sz n pending vs rule: normalize_loop.induct)
  case (2 base sz n pending v vs)
  then show ?case
    by (cases v) (simp_all add: Let_def not_le normalize_event_ok)
qed simp

lemma normalize_events_ok: "Ball (set (normalize_events events base sz)) (event_ok base sz)"
  using normalize_loop_ok by (simp add: normalize_events_def)

lemma split_events_subset:
  assumes "b \<in> set (split_blocks sha es)" "e \<in> set (bi_events b)"
  shows "e \<in> set es"
proof -
  have "e \<in> set (concat (map bi_events (on_thread (bi_thread b) (split_blocks sha es))))"
    using assms by auto
  then show ?thesis by (simp only: blocks_decompose) simp
qed

lemma split_start_nonneg:
  assumes "Ball (set es) (\<lambda>e. 0 \<le> te_rva e)" "b \<in> set (split_blocks sha es)"
  shows "0 \<le> bi_start b"
proof -
  have ok: "instance_ok sha b" using split_blocks_ok(2) assms(2) by blast
  then have "bi_start b = te_rva (hd (bi_events b))" "bi_events b \<noteq> []"
    unfolding instance_ok_def straight_def by (metis make_instance_def block_instance.select_convs(3), blast)
  with assms split_events_subset [OF assms(2)] show ?thesis by simp
qed

lemma hit_group_key [simp]: "bg_key (hit_group b g) = bg_key g"
  by (simp add: hit_group_def)

lemma new_group_key [simp]: "bg_key (new_group identity bs b) = stable_key identity bs b"
  by (simp add: new_group_def Let_def)

definition groups_ok :: "string \<Rightarrow> block_instance list \<Rightarrow> block_instance list \<Rightarrow> (group_key \<times> block_group) list \<Rightarrow> bool" where
  "groups_ok identity bs xs d \<longleftrightarrow> distinct (map fst d)
     \<and> (\<forall>(k, g) \<in> set d. \<exists>b \<in> set xs. k = group_of b \<and> bg_key g = stable_key identity bs b)"

lemma stable_key_group: "group_of b = group_of c \<Longrightarrow> stable_key identity bs b = stable_key identity bs c"
  by (simp add: group_of_def stable_key_def Let_def)

lemma group_step_ok:
  assumes "groups_ok identity bs xs d"
  shows "groups_ok identity bs (xs @ [b]) (group_step identity bs d b)"
proof -
  let ?g = "case map_of d (group_of b) of Some g \<Rightarrow> g | None \<Rightarrow> new_group identity bs b"
  have "bg_key ?g = stable_key identity bs b"
  proof (cases "map_of d (group_of b)")
    case (Some g)
    then have "(group_of b, g) \<in> set d" by (rule map_of_SomeD)
    with assms obtain c where "group_of b = group_of c" "bg_key g = stable_key identity bs c"
      by (auto simp: groups_ok_def)
    with Some show ?thesis by (simp add: stable_key_group [of b c])
  qed simp
  moreover have "\<forall>(k, g) \<in> set d. \<exists>b \<in> set (xs @ [b]). k = group_of b \<and> bg_key g = stable_key identity bs b"
    using assms by (fastforce simp: groups_ok_def)
  ultimately have "\<forall>(k, g) \<in> set (AList.update (group_of b) (hit_group b ?g) d).
      \<exists>b \<in> set (xs @ [b]). k = group_of b \<and> bg_key g = stable_key identity bs b"
    by (intro update_Ball) auto
  with assms show ?thesis by (simp add: groups_ok_def group_step_def)
qed

lemma group_blocks_ok: "groups_ok identity bs bs (group_blocks identity bs)"
proof -
  have "groups_ok identity bs xs (foldl (group_step identity bs) [] xs)" for xs
    by (induction xs rule: rev_induct) (simp_all add: group_step_ok, simp add: groups_ok_def)
  then show ?thesis by (simp add: group_blocks_def)
qed

lemma group_blocks_key:
  assumes "(k, g) \<in> set (group_blocks identity bs)"
  obtains b where "b \<in> set bs" "k = group_of b" "bg_key g = stable_key identity bs b"
  using assms group_blocks_ok [of identity bs] unfolding groups_ok_def by blast

lemma distinct_map_sort: "distinct (map f (sort_key k xs)) = distinct (map f xs)"
  by (simp add: distinct_map)

lemma group_keys_distinct:
  assumes inj: "\<And>b c. b \<in> set bs \<Longrightarrow> c \<in> set bs \<Longrightarrow> stable_key identity bs b = stable_key identity bs c
    \<Longrightarrow> group_of b = group_of c"
  shows "distinct (map bg_key (map snd (group_blocks identity bs)))"
proof -
  let ?d = "group_blocks identity bs"
  have d: "distinct (map fst ?d)" using group_blocks_ok [of identity bs] by (simp only: groups_ok_def)
  have "inj_on (\<lambda>p. bg_key (snd p)) (set ?d)"
  proof (rule inj_onI)
    fix p q assume p: "p \<in> set ?d" "q \<in> set ?d" and eq: "bg_key (snd p) = bg_key (snd q)"
    obtain b where b: "b \<in> set bs" "fst p = group_of b" "bg_key (snd p) = stable_key identity bs b"
      using p(1) by (metis group_blocks_key prod.collapse)
    obtain c where c: "c \<in> set bs" "fst q = group_of c" "bg_key (snd q) = stable_key identity bs c"
      using p(2) by (metis group_blocks_key prod.collapse)
    have "fst p = fst q" using b c eq inj [of b c] by simp
    with d p show "p = q" by (metis distinct_map inj_onD)
  qed
  moreover have "distinct ?d" using d by (simp add: distinct_map)
  ultimately show ?thesis by (simp add: distinct_map comp_def)
qed

lemma sorted_blocks_keys: "map bg_key (sorted_blocks identity bs) =
    map bg_key (sort_key (\<lambda>g. (bg_start g, bg_version g, bg_key g)) (map snd (group_blocks identity bs)))"
  by (simp add: sorted_blocks_def)

lemma sorted_blocks_distinct:
  assumes "\<And>b c. b \<in> set bs \<Longrightarrow> c \<in> set bs \<Longrightarrow> stable_key identity bs b = stable_key identity bs c
    \<Longrightarrow> group_of b = group_of c"
  shows "distinct (map bg_key (sorted_blocks identity bs))"
  unfolding sorted_blocks_keys distinct_map_sort using assms by (rule group_keys_distinct)

lemma report_keys:
  assumes "distinct (map bg_key (sorted_blocks identity bs))"
  shows "distinct (map bg_key (cr_blocks (coverage_report_of identity es bs l)))"
proof -
  have "map bg_key (cr_blocks (coverage_report_of identity es bs l))
      = take (nat (max 1 (min l 5000))) (map bg_key (sorted_blocks identity bs))"
    unfolding coverage_report_of_def Let_def take_map by (simp only: coverage_report.simps)
  with assms show ?thesis by (simp only: distinct_take)
qed

text \<open>C28: The returned blocks have distinct stable keys, so that an edge names its ends without
  doubt, whenever the first sixteen digits of the block fingerprints tell them apart.\<close>

theorem coverage_keys_distinct:
  assumes "\<And>b c. b \<in> set (split_blocks sha (normalize_events events base sz))
    \<Longrightarrow> c \<in> set (split_blocks sha (normalize_events events base sz))
    \<Longrightarrow> take 16 (bi_fingerprint b) = take 16 (bi_fingerprint c) \<Longrightarrow> bi_fingerprint b = bi_fingerprint c"
  shows "distinct (map bg_key (cr_blocks (reconstruct_coverage sha events base sz identity limit)))"
proof -
  let ?es = "normalize_events events base sz"
  let ?bs = "split_blocks sha ?es"
  have pos: "0 \<le> bi_start b" if "b \<in> set ?bs" for b
  proof (rule split_start_nonneg [OF _ that])
    show "Ball (set ?es) (\<lambda>e. 0 \<le> te_rva e)" using normalize_events_ok by (simp add: event_ok_def)
  qed
  show ?thesis
    unfolding reconstruct_coverage_def Let_def
    by (rule report_keys, rule sorted_blocks_distinct, rule stable_key_inj) (use pos assms in blast)+
qed

text \<open>A recording of one thread: a straight run, a jump back to its start, and the run again with
  other bytes.\<close>

definition sample_event :: "int \<Rightarrow> int \<Rightarrow> string \<Rightarrow> bool \<Rightarrow> pyval" where
  "sample_event sq ip bytes br =
     VDict [(''seq'', VInt sq), (''threadId'', VInt 7), (''ip'', VInt ip), (''instructionSize'', VInt 2),
            (''bytes'', VStr bytes), (''branch'', VBool br), (''branchTarget'', VInt (if br then 4 else 0))]"

definition sample_events :: "pyval list" where
  "sample_events = [sample_event 1 4 ''9090'' False, sample_event 2 6 ''ebfc'' True,
     sample_event 3 4 ''cccc'' False, sample_event 4 6 ''ebfc'' True]"

definition sample_sha :: "string \<Rightarrow> string" where
  "sample_sha s = (if contains ''cccc'' s then ''bbbb'' else ''aaaa'')"

lemma sample_sha_short: "take 16 (sample_sha s) = sample_sha s"
  by (simp add: sample_sha_def)

theorem coverage_keys_distinct_witness:
  "distinct (map bg_key (cr_blocks (reconstruct_coverage sample_sha sample_events 0 0 ''m'' 9)))"
proof (rule coverage_keys_distinct)
  fix b c :: block_instance
  let ?bs = "split_blocks sample_sha (normalize_events sample_events 0 0)"
  assume "b \<in> set ?bs" "c \<in> set ?bs" "take 16 (bi_fingerprint b) = take 16 (bi_fingerprint c)"
  moreover have "bi_fingerprint x = sample_sha (concat (map id [''['' @ join '','' (map json_instruction (bi_events x)) @ '']'']))"
    if "x \<in> set ?bs" for x
  proof -
    have "instance_ok sample_sha x" using split_blocks_ok(2) that by blast
    then have "x = make_instance sample_sha (bi_thread x) (bi_events x)" by (simp add: instance_ok_def)
    then have "bi_fingerprint x = block_fingerprint sample_sha (bi_events x)"
      by (metis make_instance_def block_instance.select_convs(5))
    then show ?thesis by (simp add: block_fingerprint_def)
  qed
  ultimately show "bi_fingerprint b = bi_fingerprint c" using sample_sha_short by metis
qed
subsection \<open>Exceptions reach the next event of their thread\<close>

definition events_after :: "int \<Rightarrow> int \<Rightarrow> trace_event list \<Rightarrow> trace_event list" where
  "events_after t n es = filter (\<lambda>e. te_thread e = t \<and> n \<le> te_ordinal e) es"

lemma carried_exception: "has_exception (carry_exception (Some c) raw)"
proof -
  have set: "dict_get (set_default k v d) ''exceptionTransition'' = dict_get d ''exceptionTransition''"
    if "k \<noteq> ''exceptionTransition''" for k v d
    using that by (simp add: set_default_def dict_get_default_def update_conv')
  have "dict_get (carry_exception (Some c) raw) ''exceptionTransition'' = VBool True"
    unfolding carry_exception_def option.case by (simp add: set)
  then show ?thesis by (simp add: has_exception_def)
qed

lemma normalize_ordinals: "e \<in> set (normalize_loop base sz n pending vs) \<Longrightarrow> n \<le> te_ordinal e"
proof (induction vs arbitrary: n pending)
  case (Cons v vs)
  have ih: "n \<le> te_ordinal e" if "e \<in> set (normalize_loop base sz (n + 1) p vs)" for p
    using Cons.IH [OF that] by simp
  have hd: "te_ordinal (normalize_event base n raw c) = n" for raw c
    by (simp add: normalize_event_def Let_def)
  show ?case
  proof (cases v)
    case (VDict raw)
    with Cons.prems ih hd show ?thesis
      by (simp only: normalize_loop.simps pyval.case Let_def set_simps insert_iff split: if_split_asm) auto
  qed (use Cons.prems ih in simp_all)
qed simp

lemma normalize_loop_split:
  "\<exists>es pending'. normalize_loop base sz n pending (pre @ post) =
      es @ normalize_loop base sz (n + int (length pre)) pending' post
    \<and> Ball (set es) (\<lambda>e. te_ordinal e < n + int (length pre))"
proof (induction pre arbitrary: n pending)
  case Nil
  show ?case by (intro exI [of _ "[]"] exI [of _ pending]) simp
next
  case (Cons v pre)
  have len: "n + int (length (v # pre)) = (n + 1) + int (length pre)" by simp
  define pending' where "pending' = (case v of VDict raw \<Rightarrow>
     (let p = (if has_exception raw then AList.update (event_thread raw) raw pending else pending) in
      if event_ip raw \<le> 0 \<or> \<not> in_module base sz (event_ip raw) then p else AList.delete (event_thread raw) p) | _ \<Rightarrow> pending)"
  from Cons.IH [of "n + 1" pending'] obtain es p where es:
    "normalize_loop base sz (n + 1) pending' (pre @ post) = es @ normalize_loop base sz (n + int (length (v # pre))) p post"
    "Ball (set es) (\<lambda>e. te_ordinal e < n + int (length (v # pre)))" unfolding len by blast
  have "\<exists>hs. normalize_loop base sz n pending ((v # pre) @ post) = hs @ normalize_loop base sz (n + 1) pending' (pre @ post)
      \<and> Ball (set hs) (\<lambda>e. te_ordinal e = n)"
    by (cases v) (auto simp: pending'_def Let_def normalize_event_def)
  then obtain hs where hs: "normalize_loop base sz n pending ((v # pre) @ post) = hs @ normalize_loop base sz (n + 1) pending' (pre @ post)"
    "Ball (set hs) (\<lambda>e. te_ordinal e = n)" by blast
  show ?case
  proof (intro exI conjI)
    show "normalize_loop base sz n pending ((v # pre) @ post) = (hs @ es) @ normalize_loop base sz (n + int (length (v # pre))) p post"
      unfolding hs(1) es(1) by simp
    show "Ball (set (hs @ es)) (\<lambda>e. te_ordinal e < n + int (length (v # pre)))"
      using hs(2) es(2) by auto
  qed
qed

lemma pending_reaches:
  assumes "map_of pending t \<noteq> None" "filter (\<lambda>e. te_thread e = t) (normalize_loop base sz n pending vs) \<noteq> []"
  shows "te_exception (hd (filter (\<lambda>e. te_thread e = t) (normalize_loop base sz n pending vs)))"
  using assms
proof (induction vs arbitrary: n pending)
  case (Cons v vs)
  show ?case
  proof (cases "\<exists>raw. v = VDict raw")
    case False
    with Cons.prems Cons.IH [of pending "n + 1"] show ?thesis by (cases v) auto
  next
    case True
    then obtain raw where v: "v = VDict raw" by blast
    let ?p = "if has_exception raw then AList.update (event_thread raw) raw pending else pending"
    have p: "map_of ?p t \<noteq> None" using Cons.prems(1) by (simp add: update_conv')
    show ?thesis
    proof (cases "event_ip raw \<le> 0 \<or> \<not> in_module base sz (event_ip raw)")
      case True
      with Cons.IH [OF p, of "n + 1"] Cons.prems(2) show ?thesis by (simp add: v Let_def)
    next
      case False
      show ?thesis
      proof (cases "event_thread raw = t")
        case here: True
        with p obtain c where "map_of ?p (event_thread raw) = Some c" by auto
        then have "te_exception (normalize_event base n raw (map_of ?p (event_thread raw)))"
          by (simp only: normalize_event_def Let_def trace_event.simps carried_exception)
        moreover have "te_thread (normalize_event base n raw (map_of ?p (event_thread raw))) = t"
          using here by (simp only: normalize_event_def Let_def trace_event.simps)
        ultimately show ?thesis using False by (simp only: v normalize_loop.simps pyval.case Let_def if_False) simp
      next
        case other: False
        have "te_thread (normalize_event base n raw (map_of ?p (event_thread raw))) \<noteq> t"
          using other by (simp only: normalize_event_def Let_def trace_event.simps) simp
        moreover have "map_of (AList.delete (event_thread raw) ?p) t \<noteq> None"
          using p other by (simp add: delete_conv')
        ultimately show ?thesis
          using Cons.IH [of "AList.delete (event_thread raw) ?p" "n + 1"] Cons.prems(2) False by (simp only: v normalize_loop.simps pyval.case Let_def if_False) simp
      qed
    qed
  qed
qed simp

text \<open>An exception recorded on a thread, even by an event outside the module, marks the next
  event of that thread inside the module, so that the edge into it is an exception edge.\<close>

lemma exception_reaches_next_event:
  assumes "has_exception raw"
    and "events_after (event_thread raw) (int (length pre))
           (normalize_loop base sz 0 [] (pre @ VDict raw # post)) \<noteq> []"
  shows "te_exception (hd (events_after (event_thread raw) (int (length pre))
           (normalize_loop base sz 0 [] (pre @ VDict raw # post))))"
proof -
  obtain es p where s: "normalize_loop base sz 0 [] (pre @ VDict raw # post) =
      es @ normalize_loop base sz (int (length pre)) p (VDict raw # post)"
    "Ball (set es) (\<lambda>e. te_ordinal e < int (length pre))"
    using normalize_loop_split [of base sz 0 "[]" pre "VDict raw # post"] by auto
  let ?rest = "normalize_loop base sz (int (length pre)) p (VDict raw # post)"
  have "events_after (event_thread raw) (int (length pre)) es = []"
    using s(2) by (auto simp: events_after_def filter_empty_conv)
  moreover have "events_after (event_thread raw) (int (length pre)) ?rest
      = filter (\<lambda>e. te_thread e = event_thread raw) ?rest"
    using normalize_ordinals unfolding events_after_def by (intro filter_cong) blast+
  ultimately have eq: "events_after (event_thread raw) (int (length pre)) (normalize_loop base sz 0 [] (pre @ VDict raw # post))
      = filter (\<lambda>e. te_thread e = event_thread raw) ?rest"
    by (simp only: s(1)) (simp add: events_after_def)
  let ?q = "AList.update (event_thread raw) raw p"
  have "AList.update (event_thread raw) raw ?q = ?q" by (induction p) auto
  then have rest: "?rest = normalize_loop base sz (int (length pre)) ?q (VDict raw # post)"
    using assms(1) by (simp only: normalize_loop.simps pyval.case Let_def if_True)
  show ?thesis
    using assms(2) unfolding eq unfolding rest by (intro pending_reaches) (simp_all add: update_conv' del: normalize_loop.simps)
qed

end
