(* ===== verification/ToolTables.thy ===== *)
theory ToolTables
  imports Contracts
begin

text \<open>
  The declarative tables of \<open>src/tool_profiles.py\<close>, in the order of the file: the tools of
  each primary category, the tools of each side effect, the conditional side effects, and the
  sets of names the policy consults. A frozen set is written as the list of its names; only
  membership is ever asked of it.
\<close>

text \<open>The condition under which a conditional side effect applies: on a parameter of the call.\<close>

datatype condition =
    Nonempty string
  | Equals string pyval
  | Not_equals string pyval

definition schema_version :: "int" where
  "schema_version = 2"

definition result_contract :: "string" where
  "result_contract = ''envelope-v1''"

definition legacy_result_shim :: "(string \<times> string) list" where
  "legacy_result_shim =
    [(''environmentVariable'', ''X64DBG_MCP_LEGACY_RESULTS''), (''sunset'', ''2026-12-31'')]"

definition default_profile :: "string" where
  "default_profile = ''full''"

definition recommended_profile :: "string" where
  "recommended_profile = ''compact''"

definition profile_names :: "string list" where
  "profile_names = [''compact'', ''inspect'', ''standard'', ''automation'', ''full'']"

definition risk_levels :: "string list" where
  "risk_levels = [''read'', ''reversible'', ''consequential'', ''privileged'', ''unbounded'']"

definition side_effect_kinds :: "string list" where
  "side_effect_kinds =
    [''mcp.state.write'', ''debugger.database.write'', ''debugger.configuration.write'',
     ''debugger.breakpoint.write'', ''debuggee.execution'', ''debuggee.memory.write'',
     ''debuggee.thread.control'', ''debuggee.input'', ''debuggee.module.inject'',
     ''host.process.control'', ''host.user-input'', ''host.filesystem.write'',
     ''host.configuration.write'', ''kernel.driver.control'', ''unbounded.command'']"

definition touch_kinds :: "string list" where
  "touch_kinds =
    [''mcp'', ''bridge'', ''debugger'', ''debuggee'', ''filesystem'', ''host-process'',
     ''windows-ui'', ''kernel'']"

definition requirement_kinds :: "string list" where
  "requirement_kinds = [''bridge'', ''debug-session'', ''elevation'']"

definition compact_tools :: "string list" where
  "compact_tools =
    [''EnsureReady'', ''BridgeHello'', ''InitDebuggee'', ''AttachToProcess'', ''DebugRun'',
     ''DebugPause'', ''DebugStop'', ''DebugStepIn'', ''DebugStepOver'', ''DebugStepOut'',
     ''WaitForPause'', ''WaitForExit'', ''GetDebugState'', ''GetSessionBinding'',
     ''GetModuleList'', ''GetThreadList'', ''GetCallStack'', ''GetRegisterDump'',
     ''ReadMemory'', ''MemoryWrite'', ''DisasmRange'', ''EvalBatch'', ''GetImports'',
     ''GetExports'', ''SearchStrings'', ''SetBreakpointWithCapture'', ''DebugDeleteBreakpoint'',
     ''CaptureStopContextStructured'', ''StartApiTrace'', ''RunApiTrace'', ''GetApiTraceLog'',
     ''StopApiTrace'', ''DumpPeFromMemory'', ''DumpModule'', ''ValidateDump'', ''FindOEP'',
     ''RecoverComparisonSecret'', ''InspectManagedAssembly'', ''CaptureManagedRuntimeState'',
     ''ExportRuntimeEvidence'']"

definition tools_session :: "string list" where
  "tools_session =
    [''BindSessionTarget'', ''BridgeHello'', ''ClearSessionBinding'', ''EnsureReady'',
     ''AcquireMutationLease'', ''ReleaseMutationLease'', ''RenewMutationLease'',
     ''ClearExceptionHistory'', ''ClearExceptionPolicy'', ''GetDebugState'',
     ''GetDebugStateLean'', ''GetExceptionHistory'', ''GetExceptionPolicy'',
     ''GetSessionBinding'', ''IsDebugActive'', ''IsDebugging'', ''SetExceptionFilter'',
     ''SetExceptionPolicy'', ''GetChildBrokerState'', ''GetSelectedDebugSession'',
     ''ListDebugSessions'', ''SelectDebugSession'']"

definition tools_diagnostics :: "string list" where
  "tools_diagnostics =
    [''BenchmarkBridge'', ''ExportCapabilityMap'', ''GetDebuggerPluginStatus'', ''GetRecentLog'',
     ''RunBridgeSelfCheck'']"

definition tools_inspection :: "string list" where
  "tools_inspection =
    [''EnumHandles'', ''EnumTcpConnections'', ''EvalBatch'', ''GetInputHistory'',
     ''GetInteractionHistory'', ''GetModuleList'', ''GetPatchAt'', ''GetPatchList'',
     ''MiscParseExpression'', ''MiscRemoteGetProcAddress'', ''ReadFrame'']"

definition tools_code_analysis :: "string list" where
  "tools_code_analysis =
    [''AnalyzeExecutablePacking'', ''AssemblerAssemble'', ''DisasmFunction'',
     ''DisasmGetInstructionRange'', ''DisasmRange'', ''GetBranchDestination'', ''GetExports'',
     ''GetFunctionArgs'', ''GetFunctionInfo'', ''GetImports'', ''ScanMemoryStrings'',
     ''SearchStrings'', ''XrefCount'', ''XrefGet'', ''InspectManagedAssembly'',
     ''GetManagedRuntimeState'', ''ResolveManagedToken'', ''CaptureManagedRuntimeState'',
     ''ResolveManagedJitMethod'']"

definition tools_memory :: "string list" where
  "tools_memory =
    [''AssemblerAssembleMem'', ''DecodeStructuredValue'', ''FlagGet'', ''FlagSet'',
     ''GetMemoryMap'', ''GetMemorySnapshot'', ''GetRegisterDump'', ''MemoryBase'',
     ''MemoryGetProtect'', ''MemoryIsValidPtr'', ''MemoryRead'', ''MemoryRemoteAlloc'',
     ''MemoryRemoteFree'', ''MemoryWrite'', ''PatternFindMem'', ''ReadLocalBuffer'',
     ''ReadMemory'', ''ReadMemoryBatch'', ''RegisterGet'', ''RegisterSet'', ''SetPageRights'',
     ''StackPeek'', ''StackPop'', ''StackPush'', ''StringGetAt'']"

definition tools_annotations :: "string list" where
  "tools_annotations =
    [''BookmarkDelete'', ''BookmarkGet'', ''BookmarkList'', ''BookmarkSet'', ''CommentDelete'',
     ''CommentGet'', ''CommentList'', ''CommentSet'', ''ExportAnalysisEvidence'',
     ''FunctionAdd'', ''FunctionDelete'', ''FunctionList'', ''ImportAnalysisEvidence'',
     ''LabelDelete'', ''LabelGet'', ''LabelList'', ''LabelSet'', ''ValidateAnalysisEvidence'',
     ''ResolveModuleRva'', ''ExportRuntimeEvidence'', ''ImportStaticAnnotations'',
     ''SyncBreakpoints'', ''ExportManagedEvidence'', ''ExportManagedRuntimeEvidence'',
     ''ExportManagedAssemblyMetadata'']"

definition tools_execution :: "string list" where
  "tools_execution =
    [''AdvancePastStartupPause'', ''ContinueException'', ''DebugPause'', ''DebugRun'',
     ''DebugRunBlocking'', ''DebugStepIn'', ''DebugStepOut'', ''DebugStepOver'', ''DebugStop'',
     ''ReplayToAddress'', ''RunToUserCode'', ''RunUntil'', ''RunUntilModuleLoad'',
     ''RunUntilOEP'', ''StepInWithDisasm'', ''StepWithSnapshot'', ''WaitForExit'',
     ''WaitForModuleLoad'', ''WaitForPause'', ''WaitForUserCode'', ''WatchMemoryChanges'']"

definition tools_breakpoints :: "string list" where
  "tools_breakpoints =
    [''BatchBreakpointsCapture'', ''CaptureSymbolicBreakpoint'', ''DebugDeleteBreakpoint'',
     ''DebugSetBreakpoint'', ''DeleteHardwareBreakpoint'', ''DeleteMemoryBreakpoint'',
     ''GetBreakpointCaptureHistory'', ''GetBreakpointList'', ''SetBreakpointWithCapture'',
     ''SetConditionalBreakpoint'', ''SetHardwareBreakpoint'', ''SetMemoryRangeBreakpoint'',
     ''SetMemoryWatchpointWithCapture'', ''WaitForBreakpoint'', ''WaitForBreakpointCapture'',
     ''WaitForBreakpointCaptureStructured'', ''WaitForBreakpointDetailed'',
     ''AcquireBreakpointLease'', ''RenewBreakpointLease'', ''ReleaseBreakpointLease'',
     ''ListBreakpointLeases'', ''SetManagedMethodBreakpoint'']"

definition tools_tracing :: "string list" where
  "tools_tracing =
    [''CaptureExecuteAfterWrite'', ''ClearNativeApiTraceEvidence'',
     ''FinalizeNativeApiTraceEvidence'', ''ClearNativeTrace'', ''GetApiTraceLog'',
     ''GetNativeApiTraceEvidence'', ''GetBasicBlockCoverage'', ''ExportCoverageArtifact'',
     ''MergeCoverageArtifacts'', ''DiffCoverageArtifacts'', ''GetHeapState'',
     ''GetNativeTrace'', ''GetTraceHistory'', ''GetTraceRecord'', ''ListApiTraces'',
     ''RecoverComparisonSecret'', ''GetManagedExceptionHistory'', ''RunApiTrace'',
     ''RunHeapTrace'', ''RunNativeTrace'', ''RunTraceRecord'', ''StartApiTrace'',
     ''StartHeapTrace'', ''StartNativeTrace'', ''StartRunTraceToFile'', ''StartTraceRecord'',
     ''StopApiTrace'', ''StopNativeTrace'', ''StopRunTrace'', ''StopTraceRecord'',
     ''SummarizeTraceHistory'', ''TraceApiCalls'', ''TraceInstructionTape'',
     ''TraceIntoConditional'', ''TraceOverConditional'', ''WaitNativeTrace'']"

definition tools_snapshots :: "string list" where
  "tools_snapshots =
    [''CaptureContext'', ''CaptureMemorySnapshot'', ''CaptureStopContextStructured'',
     ''Checkpoint'', ''ClearRuntimeHistory'', ''CompareMemorySnapshots'',
     ''DeleteStateSnapshot'', ''GetStateSnapshot'', ''ListStateSnapshots'', ''RestoreState'',
     ''Rewind'', ''SaveState'']"

definition tools_process :: "string list" where
  "tools_process =
    [''AttachToProcess'', ''CloseLaunchResources'', ''CloseLaunchStdin'', ''EnsureDebugger'',
     ''FollowChildProcess'', ''GetLaunchState'', ''GetProcessDebugStatus'', ''InitDebuggee'',
     ''LaunchAndOpenDebuggee'', ''LaunchFileUnderDebugger'', ''ListChildProcesses'',
     ''LoadLibraryInDebuggee'', ''ReadLaunchStream'', ''RemoveProcessDebug'',
     ''RestartDebugger'', ''WaitForChildProcess'', ''WriteLaunchStdin'']"

definition tools_threads :: "string list" where
  "tools_threads =
    [''GetCallStack'', ''GetTebAddress'', ''GetThreadList'', ''ResumeAllThreads'', ''ResumeThread'',
     ''SetThreadPriority'', ''SuspendAllThreads'', ''SuspendThread'', ''SwitchThread'']"

definition tools_symbols :: "string list" where
  "tools_symbols =
    [''LoadSymbolsForModule'', ''QuerySymbols'']"

definition tools_dumping :: "string list" where
  "tools_dumping =
    [''DumpLoadedModule'', ''DumpMemoryMapManifest'', ''DumpModule'', ''DumpModuleRaw'',
     ''DumpPeFromMemory'', ''ExportPatchedFile'', ''FindIATCandidates'', ''FindOEP'',
     ''FixDumpImports'', ''GetMiniDumpProfiles'', ''DumpOnEvent'', ''InspectProcessPayload'',
     ''InspectRuntimeIAT'', ''ScanMemoryForPEImages'', ''RecoverRuntimeImports'',
     ''ValidateDump'', ''ValidateIAT'', ''ReconstructImports'', ''SaveMemoryRegionToFile'',
     ''VerifyMiniDump'', ''VerifyPEDump'', ''WriteMiniDump'']"

definition tools_ui :: "string list" where
  "tools_ui =
    [''AnalyzeDebuggeeGui'', ''AnalyzeDebuggeeInput'', ''AnalyzeDebuggeeInteraction'',
     ''AnalyzeDebuggeeUiAutomation'', ''AutoRespondToDebuggeeConsole'',
     ''AutoRespondToDebuggeeGui'', ''CaptureDebuggeeWindow'', ''ClickActiveWindow'',
     ''ClickControl'', ''ClickDebuggeeWindow'', ''CompareWindowCaptures'',
     ''DragDebuggeeWindow'', ''FocusDebuggeeWindow'', ''GetDebuggeeUiAutomation'',
     ''GetDebuggeeWindows'', ''GetForegroundWindowInfo'', ''GetWindowCapture'',
     ''GetWindowCaptureHistory'', ''InvokeUiAutomationElement'', ''ReadControlText'',
     ''ReadDebuggeeConsole'', ''ScrollActiveWindow'', ''ScrollDebuggeeWindow'',
     ''SendForegroundKeys'', ''SendTextToActiveWindow'', ''SendTextToDebuggeeConsole'',
     ''SendTextToDebuggeeWindow'', ''SetControlText'', ''SetUiAutomationValue'',
     ''SubmitDebuggeeGuiForm'', ''SubmitDebuggeeUiAutomation'', ''WaitForDebuggeeInputIdle'',
     ''WaitForDebuggeeWindow'', ''WaitForDebuggeeWindowReady'', ''WaitForForegroundChange'',
     ''WaitForGuiChange'', ''WaitForWindowVisualChange'']"

definition tools_anti_debug :: "string list" where
  "tools_anti_debug =
    [''AnalyzeAntiDebugSurface'', ''EnsureScyllaHideForDebuggee'', ''GetScyllaHideStatus'',
     ''SetScyllaHideProfile'']"

definition tools_raw :: "string list" where
  "tools_raw =
    [''ExecCommand'']"

definition category_tools :: "(string \<times> string list) list" where
  "category_tools =
    [(''session'', tools_session), (''diagnostics'', tools_diagnostics), (''inspection'',
     tools_inspection), (''code-analysis'', tools_code_analysis), (''memory'', tools_memory),
     (''annotations'', tools_annotations), (''execution'', tools_execution), (''breakpoints'',
     tools_breakpoints), (''tracing'', tools_tracing), (''snapshots'', tools_snapshots),
     (''process'', tools_process), (''threads'', tools_threads), (''symbols'', tools_symbols),
     (''dumping'', tools_dumping), (''ui'', tools_ui), (''anti-debug'', tools_anti_debug), (''raw'',
     tools_raw)]"

definition effect_mcp_state_write :: "string list" where
  "effect_mcp_state_write =
    [''BindSessionTarget'', ''CaptureDebuggeeWindow'', ''CaptureMemorySnapshot'', ''Checkpoint'',
     ''AcquireMutationLease'', ''ReleaseMutationLease'', ''RenewMutationLease'',
     ''ClearExceptionHistory'', ''ClearExceptionPolicy'', ''ClearNativeApiTraceEvidence'',
     ''FinalizeNativeApiTraceEvidence'', ''ClearNativeTrace'', ''CloseLaunchResources'',
     ''ClearRuntimeHistory'', ''ClearSessionBinding'', ''DeleteStateSnapshot'', ''SaveState'',
     ''SetExceptionFilter'', ''SetExceptionPolicy'', ''StartApiTrace'', ''StartHeapTrace'',
     ''StartNativeTrace'', ''StartTraceRecord'', ''StopApiTrace'', ''StopNativeTrace'',
     ''StopTraceRecord'']"

definition effect_debugger_database_write :: "string list" where
  "effect_debugger_database_write =
    [''BookmarkDelete'', ''BookmarkSet'', ''CommentDelete'', ''CommentSet'', ''FunctionAdd'',
     ''FunctionDelete'', ''ImportAnalysisEvidence'', ''ImportStaticAnnotations'',
     ''LabelDelete'', ''LabelSet'']"

definition effect_debugger_configuration_write :: "string list" where
  "effect_debugger_configuration_write =
    [''ClearExceptionPolicy'', ''LoadSymbolsForModule'', ''SetExceptionFilter'',
     ''SetExceptionPolicy'', ''StartRunTraceToFile'', ''StopRunTrace'']"

definition effect_debugger_breakpoint_write :: "string list" where
  "effect_debugger_breakpoint_write =
    [''BatchBreakpointsCapture'', ''CaptureSymbolicBreakpoint'', ''DebugDeleteBreakpoint'',
     ''DebugSetBreakpoint'', ''DeleteHardwareBreakpoint'', ''DeleteMemoryBreakpoint'',
     ''DumpModule'', ''FindOEP'', ''RunUntil'', ''RunUntilOEP'', ''SetBreakpointWithCapture'',
     ''SetConditionalBreakpoint'', ''SetHardwareBreakpoint'', ''SetMemoryRangeBreakpoint'',
     ''SetMemoryWatchpointWithCapture'', ''CaptureExecuteAfterWrite'',
     ''SetManagedMethodBreakpoint'', ''AcquireBreakpointLease'', ''RenewBreakpointLease'',
     ''ReleaseBreakpointLease'', ''StartApiTrace'', ''StartHeapTrace'', ''StartTraceRecord'',
     ''StopApiTrace'', ''StopTraceRecord'', ''TraceApiCalls'']"

definition effect_debuggee_execution :: "string list" where
  "effect_debuggee_execution =
    [''AdvancePastStartupPause'', ''BatchBreakpointsCapture'', ''CaptureExecuteAfterWrite'',
     ''CaptureManagedRuntimeState'', ''CaptureSymbolicBreakpoint'',
     ''ExportManagedRuntimeEvidence'', ''ExportManagedAssemblyMetadata'',
     ''ResolveManagedJitMethod'', ''SetManagedMethodBreakpoint'', ''ContinueException'',
     ''DebugPause'', ''DebugRun'', ''DebugRunBlocking'', ''DebugStepIn'', ''DebugStepOut'',
     ''DebugStepOver'', ''DebugStop'', ''DumpModule'', ''DumpOnEvent'', ''FindOEP'',
     ''FollowChildProcess'', ''ReplayToAddress'', ''RunApiTrace'', ''RunHeapTrace'',
     ''RunNativeTrace'', ''RunToUserCode'', ''RunTraceRecord'', ''RunUntil'',
     ''RunUntilModuleLoad'', ''RunUntilOEP'', ''SetBreakpointWithCapture'',
     ''SetMemoryWatchpointWithCapture'', ''StepInWithDisasm'', ''StepWithSnapshot'',
     ''TraceApiCalls'', ''TraceInstructionTape'', ''TraceIntoConditional'',
     ''TraceOverConditional'', ''WaitForBreakpointCapture'',
     ''WaitForBreakpointCaptureStructured'', ''WaitForModuleLoad'', ''WaitForUserCode'',
     ''WatchMemoryChanges'', ''WriteMiniDump'']"

definition effect_debuggee_memory_write :: "string list" where
  "effect_debuggee_memory_write =
    [''AssemblerAssembleMem'', ''FlagSet'', ''MemoryRemoteAlloc'', ''MemoryRemoteFree'',
     ''MemoryWrite'', ''RegisterSet'', ''ReplayToAddress'', ''RestoreState'', ''Rewind'',
     ''SetPageRights'', ''StackPop'', ''StackPush'']"

definition effect_debuggee_thread_control :: "string list" where
  "effect_debuggee_thread_control =
    [''ResumeAllThreads'', ''ResumeThread'', ''SetThreadPriority'', ''SuspendAllThreads'',
     ''SuspendThread'', ''SwitchThread'']"

definition effect_debuggee_input :: "string list" where
  "effect_debuggee_input =
    [''AutoRespondToDebuggeeConsole'', ''AutoRespondToDebuggeeGui'', ''CaptureDebuggeeWindow'',
     ''ClickControl'', ''ClickDebuggeeWindow'', ''CloseLaunchStdin'', ''DragDebuggeeWindow'',
     ''FocusDebuggeeWindow'', ''InvokeUiAutomationElement'', ''ScrollDebuggeeWindow'',
     ''SendTextToDebuggeeConsole'', ''SendTextToDebuggeeWindow'', ''SetControlText'',
     ''SetUiAutomationValue'', ''SubmitDebuggeeGuiForm'', ''SubmitDebuggeeUiAutomation'',
     ''WriteLaunchStdin'']"

definition effect_debuggee_module_inject :: "string list" where
  "effect_debuggee_module_inject =
    [''EnsureScyllaHideForDebuggee'', ''LaunchAndOpenDebuggee'', ''LaunchFileUnderDebugger'',
     ''LoadLibraryInDebuggee'']"

definition effect_host_process_control :: "string list" where
  "effect_host_process_control =
    [''AttachToProcess'', ''DebugStop'', ''EnsureDebugger'', ''FollowChildProcess'',
     ''InitDebuggee'', ''LaunchAndOpenDebuggee'', ''LaunchFileUnderDebugger'',
     ''RemoveProcessDebug'', ''RestartDebugger'']"

definition effect_host_user_input :: "string list" where
  "effect_host_user_input =
    [''ClickActiveWindow'', ''ScrollActiveWindow'', ''SendForegroundKeys'',
     ''SendTextToActiveWindow'']"

definition effect_host_filesystem_write :: "string list" where
  "effect_host_filesystem_write =
    [''CaptureDebuggeeWindow'', ''DumpLoadedModule'', ''DumpModule'', ''DumpModuleRaw'',
     ''DumpOnEvent'', ''DumpPeFromMemory'', ''ExportAnalysisEvidence'', ''ExportCapabilityMap'',
     ''ExportPatchedFile'', ''ExportRuntimeEvidence'', ''ExportManagedEvidence'',
     ''ExportManagedRuntimeEvidence'', ''ExportManagedAssemblyMetadata'', ''FixDumpImports'',
     ''RecoverRuntimeImports'', ''ReconstructImports'', ''SaveMemoryRegionToFile'',
     ''SetScyllaHideProfile'', ''StartRunTraceToFile'', ''TraceIntoConditional'',
     ''TraceOverConditional'', ''WriteMiniDump'']"

definition effect_host_configuration_write :: "string list" where
  "effect_host_configuration_write =
    [''AttachToProcess'', ''LaunchAndOpenDebuggee'', ''LaunchFileUnderDebugger'',
     ''SetScyllaHideProfile'']"

definition effect_unbounded_command :: "string list" where
  "effect_unbounded_command =
    [''ExecCommand'']"

definition effect_tools :: "(string \<times> string list) list" where
  "effect_tools =
    [(''mcp.state.write'', effect_mcp_state_write),
     (''debugger.database.write'', effect_debugger_database_write),
     (''debugger.configuration.write'', effect_debugger_configuration_write),
     (''debugger.breakpoint.write'', effect_debugger_breakpoint_write),
     (''debuggee.execution'', effect_debuggee_execution),
     (''debuggee.memory.write'', effect_debuggee_memory_write),
     (''debuggee.thread.control'', effect_debuggee_thread_control),
     (''debuggee.input'', effect_debuggee_input),
     (''debuggee.module.inject'', effect_debuggee_module_inject),
     (''host.process.control'', effect_host_process_control),
     (''host.user-input'', effect_host_user_input),
     (''host.filesystem.write'', effect_host_filesystem_write),
     (''host.configuration.write'', effect_host_configuration_write),
     (''unbounded.command'', effect_unbounded_command)]"

definition conditional_effects :: "(string \<times> (string \<times> condition) list) list" where
  "conditional_effects =
    [(''ExportRuntimeEvidence'', [(''host.filesystem.write'', Nonempty ''output_path'')]),
     (''ExportManagedEvidence'', [(''host.filesystem.write'', Nonempty ''output_path'')]),
     (''ExportManagedRuntimeEvidence'', [(''host.filesystem.write'', Nonempty ''output_path'')]),
     (''ExportManagedAssemblyMetadata'', [(''host.filesystem.write'', Nonempty ''output_path'')]),
     (''CaptureManagedRuntimeState'', [(''debuggee.execution'', Equals ''pause_if_running'' (VBool True)),
       (''debuggee.execution'', Equals ''resume_after'' (VBool True))]),
     (''ImportStaticAnnotations'', [(''debugger.database.write'', Equals ''dry_run'' (VBool False))]),
     (''SyncBreakpoints'', [(''debugger.breakpoint.write'', Equals ''apply'' (VBool True))]),
     (''CaptureDebuggeeWindow'', [(''host.filesystem.write'', Nonempty ''save_path'')]),
     (''CaptureExecuteAfterWrite'', [(''host.filesystem.write'', Nonempty ''evidence_path'')]),
     (''RecoverComparisonSecret'', [(''host.filesystem.write'', Nonempty ''evidence_path'')]),
     (''ExportAnalysisEvidence'', [(''host.filesystem.write'', Nonempty ''output_path'')]),
     (''ExportCapabilityMap'', [(''host.filesystem.write'', Nonempty ''output_path'')]),
     (''DumpMemoryMapManifest'', [(''host.filesystem.write'', Nonempty ''output_path'')]),
     (''ValidateDump'', [(''host.process.control'', Equals ''run_isolated'' (VBool True))]),
     (''ImportAnalysisEvidence'', [(''debugger.database.write'', Equals ''dry_run'' (VBool False))]),
     (''LaunchAndOpenDebuggee'', [(''debuggee.module.inject'', Not_equals ''use_scyllahide'' (VStr ''off''))]),
     (''LaunchFileUnderDebugger'', [(''debuggee.module.inject'', Not_equals ''use_scyllahide'' (VStr ''off''))]),
     (''TraceIntoConditional'', [(''host.filesystem.write'', Nonempty ''log_file'')]),
     (''TraceOverConditional'', [(''host.filesystem.write'', Nonempty ''log_file'')]),
     (''WaitForModuleLoad'', [(''debuggee.execution'', Equals ''auto_run'' (VBool True))]),
     (''WriteMiniDump'', [(''debuggee.execution'', Equals ''pause_if_running'' (VBool True)),
       (''debuggee.execution'', Equals ''resume_after'' (VBool True))])]"

definition global_input_tools :: "string list" where
  "global_input_tools = (case map_of effect_tools ''host.user-input'' of Some l \<Rightarrow> l | None \<Rightarrow> [])"

definition expert_only_tools :: "string list" where
  "expert_only_tools =
    [''AssemblerAssembleMem'', ''EnsureScyllaHideForDebuggee'', ''ExecCommand'',
     ''LoadLibraryInDebuggee'', ''MemoryRemoteAlloc'', ''MemoryRemoteFree'',
     ''RemoveProcessDebug'', ''RestartDebugger'', ''SetPageRights'', ''SetScyllaHideProfile'',
     ''StackPop'', ''StackPush'']"

definition privileged_profile_exceptions :: "string list" where
  "privileged_profile_exceptions =
    [''AttachToProcess'', ''LaunchAndOpenDebuggee'', ''LaunchFileUnderDebugger'']"

definition idempotent_mutations :: "string list" where
  "idempotent_mutations =
    [''BindSessionTarget'', ''BookmarkDelete'', ''BookmarkSet'', ''ClearExceptionHistory'',
     ''ReleaseMutationLease'', ''ClearExceptionPolicy'', ''ClearNativeApiTraceEvidence'',
     ''FinalizeNativeApiTraceEvidence'', ''ClearNativeTrace'', ''ClearRuntimeHistory'',
     ''ClearSessionBinding'', ''CloseLaunchResources'', ''CloseLaunchStdin'', ''CommentDelete'',
     ''CommentSet'', ''DebugDeleteBreakpoint'', ''DebugPause'', ''DebugSetBreakpoint'',
     ''DebugStop'', ''DeleteHardwareBreakpoint'', ''DeleteMemoryBreakpoint'',
     ''DeleteStateSnapshot'', ''FlagSet'', ''FunctionAdd'', ''FunctionDelete'', ''LabelDelete'',
     ''LabelSet'', ''MemoryWrite'', ''RegisterSet'', ''SetConditionalBreakpoint'',
     ''SetControlText'', ''SetExceptionFilter'', ''SetHardwareBreakpoint'',
     ''SetManagedMethodBreakpoint'', ''SetMemoryRangeBreakpoint'', ''SetPageRights'',
     ''SetScyllaHideProfile'', ''SetThreadPriority'', ''SetUiAutomationValue'',
     ''StopApiTrace'', ''StopNativeTrace'', ''StopRunTrace'', ''StopTraceRecord'',
     ''SwitchThread'']"

definition destructive_names :: "string list" where
  "destructive_names =
    [''BookmarkDelete'', ''ClearExceptionHistory'', ''ClearExceptionPolicy'',
     ''ClearNativeApiTraceEvidence'', ''FinalizeNativeApiTraceEvidence'', ''ClearNativeTrace'',
     ''ClearRuntimeHistory'', ''CommentDelete'', ''DebugDeleteBreakpoint'', ''DebugStop'',
     ''DeleteHardwareBreakpoint'', ''DeleteMemoryBreakpoint'', ''DeleteStateSnapshot'',
     ''FunctionDelete'', ''LabelDelete'', ''RemoveProcessDebug'', ''StopApiTrace'',
     ''StopTraceRecord'']"

definition offline_or_session_optional :: "string list" where
  "offline_or_session_optional =
    [''AnalyzeAntiDebugSurface'', ''AnalyzeExecutablePacking'', ''AttachToProcess'',
     ''BridgeHello'', ''CloseLaunchResources'', ''CloseLaunchStdin'', ''EnsureDebugger'',
     ''EnsureReady'', ''ExportCapabilityMap'', ''GetLaunchState'', ''ReadLaunchStream'',
     ''WriteLaunchStdin'', ''GetDebuggerPluginStatus'', ''GetMiniDumpProfiles'',
     ''GetRecentLog'', ''GetScyllaHideStatus'', ''InitDebuggee'', ''LaunchAndOpenDebuggee'',
     ''LaunchFileUnderDebugger'', ''RunBridgeSelfCheck'', ''SetScyllaHideProfile'',
     ''ValidateAnalysisEvidence'', ''VerifyMiniDump'', ''VerifyPEDump'']"

definition no_bridge_required :: "string list" where
  "no_bridge_required =
    [''AnalyzeAntiDebugSurface'', ''AnalyzeExecutablePacking'', ''EnsureDebugger'',
     ''ExportCapabilityMap'', ''GetDebuggerPluginStatus'', ''GetMiniDumpProfiles'',
     ''GetScyllaHideStatus'', ''RunBridgeSelfCheck'', ''SetScyllaHideProfile'',
     ''ValidateAnalysisEvidence'', ''VerifyMiniDump'', ''VerifyPEDump'']"

definition elevation_required :: "string list" where
  "elevation_required =
    []"

definition category_touches :: "(string \<times> string list) list" where
  "category_touches =
    [(''session'', [''bridge'', ''debugger'']),
     (''diagnostics'', [''bridge'', ''filesystem'']),
     (''inspection'', [''bridge'', ''debuggee'']),
     (''code-analysis'', [''bridge'', ''debuggee'', ''filesystem'']),
     (''memory'', [''bridge'', ''debuggee'']),
     (''annotations'', [''bridge'', ''debugger'', ''filesystem'']),
     (''execution'', [''bridge'', ''debuggee'']),
     (''breakpoints'', [''bridge'', ''debugger'', ''debuggee'']),
     (''tracing'', [''bridge'', ''debugger'', ''debuggee'', ''filesystem'']),
     (''snapshots'', [''mcp'', ''bridge'', ''debuggee'']),
     (''process'', [''bridge'', ''debuggee'', ''host-process'']),
     (''threads'', [''bridge'', ''debuggee'']),
     (''symbols'', [''bridge'', ''debugger'', ''filesystem'']),
     (''dumping'', [''bridge'', ''debuggee'', ''filesystem'']),
     (''ui'', [''bridge'', ''debuggee'', ''windows-ui'']),
     (''anti-debug'', [''debuggee'', ''filesystem'', ''kernel'']),
     (''raw'', [''bridge'', ''debugger'', ''debuggee''])]"

definition profile_descriptions :: "(string \<times> string) list" where
  "profile_descriptions =
    [(''compact'', ''Forty primary workflow tools for model-driven dynamic reverse engineering.''),
     (''inspect'', ''Read-only inspection and validation tools.''),
     (''standard'',
      ''Recommended dynamic reverse-engineering surface without global input, injection, kernel or raw-command tools.''),
     (''automation'', ''Standard tools plus debuggee-scoped GUI and console automation.''),
     (''full'', ''All registered tools; backward-compatible discovery surface.'')]"

end
