(* ===== verification/ToolProfiles.thy ===== *)
theory ToolProfiles
  imports ToolTables
begin

text \<open>
  The functions of \<open>src/tool_profiles.py\<close>: the policy of one tool, the catalog of a registry,
  the filter of the advertised tools and the metadata attached to the tool manager, with the
  profile selection of \<open>runtime_sections/70_registration_and_cli.py\<close>. A raised
  \<open>ToolProfileError\<close> is a value of \<open>profile_error\<close>, one constructor per message; \<open>No_touches\<close> is the
  \<open>KeyError\<close> of a category missing from \<open>CATEGORY_TOUCHES\<close>.
\<close>

datatype profile_error =
    Duplicate_categories "string list"
  | Empty_name
  | No_policy string
  | Multiple_categories string "string list"
  | Unknown_conditional string "string list"
  | No_touches string
  | Unknown_profile string
  | Inventory_mismatch "string list" "string list"
  | No_profile_table
  | No_tool_list string
  | No_manager
  | Registry_mismatch
  | No_annotations

subsection \<open>Risk\<close>

datatype risk = Read | Reversible | Consequential | Privileged | Unbounded

fun risk_text :: "risk \<Rightarrow> string" where
  "risk_text Read = ''read''"
| "risk_text Reversible = ''reversible''"
| "risk_text Consequential = ''consequential''"
| "risk_text Privileged = ''privileged''"
| "risk_text Unbounded = ''unbounded''"

fun risk_rank :: "risk \<Rightarrow> nat" where
  "risk_rank Read = 0"
| "risk_rank Reversible = 1"
| "risk_rank Consequential = 2"
| "risk_rank Privileged = 3"
| "risk_rank Unbounded = 4"

lemma risk_rank_inj: "risk_rank r = risk_rank s \<Longrightarrow> r = s"
  by (cases r; cases s) simp_all

text \<open>The levels in the order of \<open>RISK_LEVELS\<close>.\<close>

instantiation risk :: linorder
begin

definition less_eq_risk :: "risk \<Rightarrow> risk \<Rightarrow> bool" where
  "less_eq_risk r s \<longleftrightarrow> risk_rank r \<le> risk_rank s"

definition less_risk :: "risk \<Rightarrow> risk \<Rightarrow> bool" where
  "less_risk r s \<longleftrightarrow> risk_rank r < risk_rank s"

instance
  by standard (auto simp: less_eq_risk_def less_risk_def dest: risk_rank_inj)

end

subsection \<open>The policy of one tool\<close>

fun collect_known :: "(string \<times> string list) list \<Rightarrow> string list \<Rightarrow> string list \<Rightarrow> string list \<times> string list" where
  "collect_known [] result dups = (result, dups)"
| "collect_known ((category, ns) # rest) result dups =
     collect_known rest (result @ ns) (dups @ filter (\<lambda>n. n \<in> set ns) result)"

definition known_tool_names :: "profile_error + string list" where
  "known_tool_names =
     (let (result, dups) = collect_known category_tools [] [] in
      if dups \<noteq> [] then Inl (Duplicate_categories (sort (remdups dups))) else Inr result)"

definition registry_names :: "string list \<Rightarrow> profile_error + string list" where
  "registry_names registry = (if [] \<in> set registry then Inl Empty_name else Inr (remdups registry))"

definition category_for :: "string \<Rightarrow> profile_error + string" where
  "category_for name =
     (case map fst (filter (\<lambda>(category, ns). name \<in> set ns) category_tools) of
        [] \<Rightarrow> Inl (No_policy name)
      | [category] \<Rightarrow> Inr category
      | matches \<Rightarrow> Inl (Multiple_categories name matches))"

definition effects_for :: "string \<Rightarrow> string list" where
  "effects_for name = sort (map fst (filter (\<lambda>(effect, ns). name \<in> set ns) effect_tools))"

definition privileged_effects :: "string list" where
  "privileged_effects = [''debuggee.module.inject'', ''host.configuration.write'', ''kernel.driver.control'']"

definition consequential_effects :: "string list" where
  "consequential_effects =
    [''debuggee.execution'', ''debuggee.memory.write'', ''debuggee.thread.control'', ''debuggee.input'',
     ''host.process.control'', ''host.user-input'', ''host.filesystem.write'']"

definition meets :: "'a list \<Rightarrow> 'a list \<Rightarrow> bool" where
  "meets xs ys \<longleftrightarrow> list_ex (\<lambda>x. x \<in> set ys) xs"

definition risk_for :: "string list \<Rightarrow> string \<Rightarrow> risk" where
  "risk_for effects name =
     (if ''unbounded.command'' \<in> set effects then Unbounded
      else if meets effects privileged_effects \<or> name = ''RemoveProcessDebug'' then Privileged
      else if meets effects consequential_effects then Consequential
      else if effects \<noteq> [] then Reversible
      else Read)"

definition automation_visible :: "string \<Rightarrow> risk \<Rightarrow> bool" where
  "automation_visible name r \<longleftrightarrow>
     (r \<notin> {Privileged, Unbounded} \<or> name \<in> set privileged_profile_exceptions)
     \<and> name \<notin> set expert_only_tools \<and> name \<notin> set global_input_tools"

definition standard_visible :: "string \<Rightarrow> risk \<Rightarrow> string list \<Rightarrow> bool" where
  "standard_visible name r effects \<longleftrightarrow>
     (r \<notin> {Privileged, Unbounded} \<or> name \<in> set privileged_profile_exceptions)
     \<and> name \<notin> set expert_only_tools \<and> name \<notin> set global_input_tools
     \<and> ''debuggee.input'' \<notin> set effects"

definition profiles_for :: "string \<Rightarrow> risk \<Rightarrow> string list \<Rightarrow> string list" where
  "profiles_for name r effects =
     (let profiles = (if name \<in> set compact_tools then [''compact''] else [])
            @ (if effects = [] then [''inspect''] else [])
            @ (if standard_visible name r effects then [''standard''] else [])
            @ (if automation_visible name r then [''automation''] else [])
            @ [''full'']
      in filter (\<lambda>p. p \<in> set profiles) profile_names)"

definition tags_for :: "string \<Rightarrow> string \<Rightarrow> string list \<Rightarrow> (string \<times> condition) list \<Rightarrow> string list" where
  "tags_for name category effects conditional =
     sort (remdups
       ([if name \<in> set expert_only_tools then ''expert'' else ''core'']
        @ (if name \<in> set global_input_tools then [''global-input''] else [])
        @ (if conditional \<noteq> [] then [''conditional-effects''] else [])
        @ (if ''host.filesystem.write'' \<in> set effects then [''filesystem-write''] else [])
        @ (if ''kernel.driver.control'' \<in> set effects then [''kernel'', ''elevation-sensitive''] else [])
        @ (if ''unbounded.command'' \<in> set effects then [''unbounded''] else [])
        @ (if category = ''ui'' \<and> ''debuggee.input'' \<notin> set effects \<and> name \<notin> set global_input_tools
           then [''ui-inspection''] else [])))"

definition requirements_for :: "string \<Rightarrow> string list" where
  "requirements_for name =
     sort ((if name \<notin> set no_bridge_required then [''bridge''] else [])
       @ (if name \<notin> set offline_or_session_optional then [''debug-session''] else [])
       @ (if name \<in> set elevation_required then [''elevation''] else []))"

record tool_policy =
  tp_name :: string
  tp_category :: string
  tp_tags :: "string list"
  tp_profiles :: "string list"
  tp_risk :: risk
  tp_touches :: "string list"
  tp_side_effects :: "string list"
  tp_conditional :: "(string \<times> condition) list"
  tp_requires :: "string list"
  tp_read_only :: bool
  tp_destructive :: bool
  tp_idempotent :: bool
  tp_open_world :: bool

definition destructive_effects :: "string list" where
  "destructive_effects =
    [''debuggee.memory.write'', ''debuggee.module.inject'', ''debuggee.input'', ''host.user-input'',
     ''host.filesystem.write'', ''host.configuration.write'', ''kernel.driver.control'', ''unbounded.command'']"

definition conditional_for :: "string \<Rightarrow> (string \<times> condition) list" where
  "conditional_for name = (case map_of conditional_effects name of Some l \<Rightarrow> l | None \<Rightarrow> [])"

definition make_policy :: "string \<Rightarrow> string \<Rightarrow> string list \<Rightarrow> tool_policy" where
  "make_policy name category touches =
     (let effects = effects_for name; conditional = conditional_for name; r = risk_for effects name;
          read_only = (effects = [])
      in \<lparr>tp_name = name, tp_category = category, tp_tags = tags_for name category effects conditional,
          tp_profiles = profiles_for name r effects, tp_risk = r, tp_touches = touches,
          tp_side_effects = effects, tp_conditional = conditional, tp_requires = requirements_for name,
          tp_read_only = read_only,
          tp_destructive = (meets effects destructive_effects \<or> name \<in> set destructive_names),
          tp_idempotent = (read_only \<or> name \<in> set idempotent_mutations),
          tp_open_world = list_ex (\<lambda>t. t \<noteq> ''mcp'') touches\<rparr>)"

definition policy_for_tool :: "string \<Rightarrow> profile_error + tool_policy" where
  "policy_for_tool name =
     (case category_for name of
        Inl e \<Rightarrow> Inl e
      | Inr category \<Rightarrow>
          (let unknown = filter (\<lambda>k. k \<notin> set side_effect_kinds) (map fst (conditional_for name)) in
           if unknown \<noteq> [] then Inl (Unknown_conditional name (sort (remdups unknown)))
           else (case map_of category_touches category of
                   None \<Rightarrow> Inl (No_touches category)
                 | Some touches \<Rightarrow> Inr (make_policy name category (sort touches)))))"

subsection \<open>The catalog\<close>

definition texts :: "string list \<Rightarrow> pyval" where
  "texts ss = VList (map VStr ss)"

fun condition_as_dict :: "condition \<Rightarrow> pydict" where
  "condition_as_dict (Nonempty p) = [(''parameter'', VStr p), (''operator'', VStr ''nonempty'')]"
| "condition_as_dict (Equals p v) = [(''parameter'', VStr p), (''operator'', VStr ''equals''), (''value'', v)]"
| "condition_as_dict (Not_equals p v) =
     [(''parameter'', VStr p), (''operator'', VStr ''not_equals''), (''value'', v)]"

definition conditional_as_dict :: "string \<times> condition \<Rightarrow> pyval" where
  "conditional_as_dict kc = VDict [(''kind'', VStr (fst kc)), (''when'', VDict (condition_as_dict (snd kc)))]"

definition annotations_of :: "tool_policy \<Rightarrow> pydict" where
  "annotations_of p =
     [(''readOnlyHint'', VBool (tp_read_only p)), (''destructiveHint'', VBool (tp_destructive p)),
      (''idempotentHint'', VBool (tp_idempotent p)), (''openWorldHint'', VBool (tp_open_world p))]"

definition policy_as_dict :: "tool_policy \<Rightarrow> pydict" where
  "policy_as_dict p =
     [(''resultContract'', VStr result_contract),
      (''legacyResultShim'', VDict (map (map_prod id VStr) legacy_result_shim)),
      (''category'', VStr (tp_category p)), (''tags'', texts (tp_tags p)),
      (''profiles'', texts (tp_profiles p)), (''risk'', VStr (risk_text (tp_risk p))),
      (''touches'', texts (tp_touches p)), (''sideEffects'', texts (tp_side_effects p)),
      (''conditionalSideEffects'', VList (map conditional_as_dict (tp_conditional p))),
      (''requires'', texts (tp_requires p)), (''annotations'', VDict (annotations_of p))]"

text \<open>The policies of the names in their order, or the first error.\<close>

fun policies_for :: "string list \<Rightarrow> profile_error + tool_policy list" where
  "policies_for [] = Inr []"
| "policies_for (n # ns) =
     (case policy_for_tool n of
        Inl e \<Rightarrow> Inl e
      | Inr p \<Rightarrow> (case policies_for ns of Inl e \<Rightarrow> Inl e | Inr ps \<Rightarrow> Inr (p # ps)))"

definition tools_in :: "string \<Rightarrow> tool_policy list \<Rightarrow> string list" where
  "tools_in profile ps = sort (map tp_name (filter (\<lambda>p. profile \<in> set (tp_profiles p)) ps))"

definition describe :: "string \<Rightarrow> string" where
  "describe profile = (case map_of profile_descriptions profile of Some d \<Rightarrow> d | None \<Rightarrow> [])"

definition profile_entry :: "tool_policy list \<Rightarrow> string \<Rightarrow> pyval" where
  "profile_entry ps profile =
     VDict [(''description'', VStr (describe profile)),
            (''count'', VInt (int (length (filter (\<lambda>p. profile \<in> set (tp_profiles p)) ps)))),
            (''tools'', texts (tools_in profile ps))]"

definition catalog_dict :: "string list \<Rightarrow> tool_policy list \<Rightarrow> string \<Rightarrow> pydict" where
  "catalog_dict actual ps active =
     [(''ok'', VBool True), (''schemaVersion'', VInt schema_version),
      (''count'', VInt (int (length actual))), (''tools'', texts (sort actual)),
      (''categories'', VDict (map (\<lambda>(category, _). (category,
         texts (sort (map tp_name (filter (\<lambda>p. tp_category p = category) ps))))) category_tools)),
      (''defaultProfile'', VStr default_profile), (''recommendedProfile'', VStr recommended_profile),
      (''activeProfile'', VStr active), (''visibleTools'', texts (tools_in active ps)),
      (''profiles'', VDict (map (\<lambda>profile. (profile, profile_entry ps profile)) profile_names)),
      (''toolMetadata'', VDict (map (\<lambda>p. (tp_name p, VDict (policy_as_dict p))) ps))]"

definition build_tool_catalog :: "string list \<Rightarrow> string \<Rightarrow> profile_error + pydict" where
  "build_tool_catalog registry active =
     (if active \<notin> set profile_names then Inl (Unknown_profile active)
      else (case registry_names registry of Inl e \<Rightarrow> Inl e | Inr actual \<Rightarrow>
           (case known_tool_names of Inl e \<Rightarrow> Inl e | Inr known \<Rightarrow>
             (let missing = sort (filter (\<lambda>n. n \<notin> set known) actual);
                  stale = sort (filter (\<lambda>n. n \<notin> set actual) known)
              in if missing \<noteq> [] \<or> stale \<noteq> [] then Inl (Inventory_mismatch missing stale)
                 else (case policies_for (sort actual) of Inl e \<Rightarrow> Inl e
                       | Inr ps \<Rightarrow> Inr (catalog_dict actual ps active))))))"

subsection \<open>Filtering the advertised tools\<close>

definition visible_tool_names :: "pydict \<Rightarrow> string \<Rightarrow> profile_error + string list" where
  "visible_tool_names catalog profile =
     (if profile \<notin> set profile_names then Inl (Unknown_profile profile)
      else (case dict_get catalog ''profiles'' of
              VDict profiles \<Rightarrow>
                (case dict_get profiles profile of
                   VDict entry \<Rightarrow>
                     (case dict_get entry ''tools'' of
                        VList tools \<Rightarrow> Inr (map py_str tools)
                      | _ \<Rightarrow> Inl (No_tool_list profile))
                 | _ \<Rightarrow> Inl No_profile_table)
            | _ \<Rightarrow> Inl No_profile_table))"

text \<open>A listed tool is a mapping or an object; of an object only its \<open>name\<close> attribute is read.\<close>

datatype mcp_tool =
    Tool_mapping pydict
  | Tool_object "pyval option"

fun tool_name :: "mcp_tool \<Rightarrow> pyval" where
  "tool_name (Tool_mapping d) = dict_get d ''name''"
| "tool_name (Tool_object (Some v)) = v"
| "tool_name (Tool_object None) = VNone"

definition filter_mcp_tools :: "mcp_tool list \<Rightarrow> pydict \<Rightarrow> string \<Rightarrow> profile_error + mcp_tool list" where
  "filter_mcp_tools tools catalog profile =
     (case visible_tool_names catalog profile of
        Inl e \<Rightarrow> Inl e
      | Inr visible \<Rightarrow> Inr (filter (\<lambda>t. str_or_empty (tool_name t) \<in> set visible) tools))"

subsection \<open>Attaching the metadata\<close>

record managed_tool =
  mt_annotations :: pydict
  mt_meta :: "pydict option"

definition tool_meta :: "pydict \<Rightarrow> pyval" where
  "tool_meta metadata =
     VDict ((''schemaVersion'', VInt schema_version) #
       map (\<lambda>k. (k, dict_get metadata k))
         [''resultContract'', ''legacyResultShim'', ''category'', ''tags'', ''profiles'', ''risk'', ''touches'',
          ''sideEffects'', ''conditionalSideEffects'', ''requires''])"

definition attach :: "pydict \<Rightarrow> managed_tool \<Rightarrow> managed_tool" where
  "attach metadata t =
     t\<lparr>mt_annotations := as_dict (dict_get metadata ''annotations''),
       mt_meta := Some (AList.update ''x64dbg'' (tool_meta metadata)
         (case mt_meta t of Some d \<Rightarrow> d | None \<Rightarrow> []))\<rparr>"

text \<open>The tool manager is its registered tools by name, or absent; \<open>annotations_available\<close> is whether
  the installed MCP package has \<open>ToolAnnotations\<close>.\<close>

definition apply_tool_metadata ::
  "bool \<Rightarrow> (string \<times> managed_tool) list option \<Rightarrow> string list \<Rightarrow> string
   \<Rightarrow> profile_error + pydict \<times> (string \<times> managed_tool) list" where
  "apply_tool_metadata annotations_available manager registry active =
     (case build_tool_catalog registry active of Inl e \<Rightarrow> Inl e | Inr catalog \<Rightarrow>
       (case manager of None \<Rightarrow> Inl No_manager | Some registered \<Rightarrow>
          if set (map fst registered) \<noteq> set registry then Inl Registry_mismatch
          else if \<not> annotations_available then Inl No_annotations
          else Inr (catalog, map (\<lambda>(name, t).
                 (name, attach (as_dict (dict_get (as_dict (dict_get catalog ''toolMetadata'')) name)) t)) registered)))"

text \<open>The choice of the profile at start-up; the second component is the status error.\<close>

definition requested_profile :: "string \<Rightarrow> string" where
  "requested_profile env = lower (strip (if env = [] then ''full'' else env))"

definition active_profile :: "string \<Rightarrow> string \<times> bool" where
  "active_profile requested =
     (let r = (if requested = [] then ''full'' else requested);
          active = (if r \<in> set profile_names then r else ''full'')
      in (active, active \<noteq> r))"

definition profiled_list_tools :: "mcp_tool list \<Rightarrow> pydict \<Rightarrow> string \<Rightarrow> profile_error + mcp_tool list" where
  "profiled_list_tools tools catalog active =
     (if active \<noteq> ''full'' then filter_mcp_tools tools catalog active else Inr tools)"

end
