(* ===== verification/ToolProps.thy ===== *)
theory ToolProps
  imports ToolProfiles
begin

text \<open>
  Properties of the tool policy: the tables are consistent, the catalog is built for exactly the
  classified registry, the profiles are nested, and what the safe profiles leave out.
\<close>

subsection \<open>The category table is a partition\<close>

text \<open>
  Distinctness of the 290 names is shown on a numeric digest of each name, which separates them:
  a list is distinct when its image under a function is.
\<close>

definition letter_code :: "char \<Rightarrow> nat" where
  "letter_code c = of_char c"

lemma letter_codes:
  "letter_code (CHR ''a'') = 97" "letter_code (CHR ''b'') = 98" "letter_code (CHR ''c'') = 99"
  "letter_code (CHR ''d'') = 100" "letter_code (CHR ''e'') = 101" "letter_code (CHR ''f'') = 102"
  "letter_code (CHR ''g'') = 103" "letter_code (CHR ''h'') = 104" "letter_code (CHR ''i'') = 105"
  "letter_code (CHR ''j'') = 106" "letter_code (CHR ''k'') = 107" "letter_code (CHR ''l'') = 108"
  "letter_code (CHR ''m'') = 109" "letter_code (CHR ''n'') = 110" "letter_code (CHR ''o'') = 111"
  "letter_code (CHR ''p'') = 112" "letter_code (CHR ''q'') = 113" "letter_code (CHR ''r'') = 114"
  "letter_code (CHR ''s'') = 115" "letter_code (CHR ''t'') = 116" "letter_code (CHR ''u'') = 117"
  "letter_code (CHR ''v'') = 118" "letter_code (CHR ''w'') = 119" "letter_code (CHR ''x'') = 120"
  "letter_code (CHR ''y'') = 121" "letter_code (CHR ''z'') = 122" "letter_code (CHR ''A'') = 65"
  "letter_code (CHR ''B'') = 66" "letter_code (CHR ''C'') = 67" "letter_code (CHR ''D'') = 68"
  "letter_code (CHR ''E'') = 69" "letter_code (CHR ''F'') = 70" "letter_code (CHR ''G'') = 71"
  "letter_code (CHR ''H'') = 72" "letter_code (CHR ''I'') = 73" "letter_code (CHR ''J'') = 74"
  "letter_code (CHR ''K'') = 75" "letter_code (CHR ''L'') = 76" "letter_code (CHR ''M'') = 77"
  "letter_code (CHR ''N'') = 78" "letter_code (CHR ''O'') = 79" "letter_code (CHR ''P'') = 80"
  "letter_code (CHR ''Q'') = 81" "letter_code (CHR ''R'') = 82" "letter_code (CHR ''S'') = 83"
  "letter_code (CHR ''T'') = 84" "letter_code (CHR ''U'') = 85" "letter_code (CHR ''V'') = 86"
  "letter_code (CHR ''W'') = 87" "letter_code (CHR ''X'') = 88" "letter_code (CHR ''Y'') = 89"
  "letter_code (CHR ''Z'') = 90"
  by (simp_all add: letter_code_def)

fun name_code :: "nat \<Rightarrow> nat \<Rightarrow> string \<Rightarrow> nat" where
  "name_code a i [] = a"
| "name_code a i (c # s) = name_code (a + i * i * letter_code c) (i + 1) s"

lemma category_codes:
  "map (name_code 0 1) tools_session =
    [188085, 52249, 255445, 52882, 295713, 295273, 217144, 362297, 305153, 84818, 179061, 271486,
    224742, 184706, 85015, 53030, 223014, 224754, 256110, 453348, 192822, 223658]"
  "map (name_code 0 1) tools_diagnostics =
    [125611, 255621, 463958, 66168, 207877]"
  "map (name_code 0 1) tools_inspection =
    [53151, 227149, 28728, 137905, 362021, 86421, 37772, 68182, 267679, 505232, 28723]"
  "map (name_code 0 1) tools_code_analysis =
    [502100, 184714, 109077, 575368, 51531, 306029, 43286, 129403, 128783, 43075, 193398, 88205,
    30925, 14180, 396901, 395084, 252890, 644326, 439568]"
  "map (name_code 0 1) tools_memory =
    [289723, 347436, 14118, 14418, 67301, 194122, 130988, 39301, 158932, 154099, 38783, 182915,
    152190, 54329, 100993, 126791, 42299, 126661, 52276, 53248, 86669, 28639, 21166, 30076, 49586]"
  "map (name_code 0 1) tools_annotations =
    [104492, 51759, 69147, 52731, 84732, 39730, 54310, 40498, 392209, 49636, 104891, 69546,
    392169, 51973, 20591, 30299, 21023, 505280, 153345, 340274, 465793, 135671, 335286, 790233,
    876328]"
  "map (name_code 0 1) tools_execution =
    [457236, 191746, 40337, 21526, 155140, 50619, 68770, 85997, 30649, 130488, 81652, 21883,
    212165, 44862, 155386, 161621, 53280, 178908, 67744, 123989, 219235]"
  "map (name_code 0 1) tools_breakpoints =
    [460871, 585163, 351288, 225361, 518850, 405971, 750469, 190468, 517215, 520541, 352382,
    517583, 997741, 191304, 519095, 1466641, 567602, 391208, 295979, 390768, 300752, 652129]"
  "map (name_code 0 1) tools_tracing =
    [511333, 697680, 951943, 151826, 100420, 556593, 337735, 392147, 397214, 346965, 67164,
    102935, 135799, 104091, 84457, 456426, 670844, 50550, 65030, 102956, 104112, 81958, 101654,
    152160, 244292, 153284, 64973, 125944, 65823, 127092, 356559, 83252, 299964, 302322, 302213,
    125882]"
  "map (name_code 0 1) tools_snapshots =
    [111172, 358180, 833514, 42352, 270179, 413305, 264855, 161465, 229642, 68193, 9587, 29758]"
  "map (name_code 0 1) tools_process =
    [131615, 306061, 155175, 106044, 222785, 105226, 352807, 66348, 332857, 443364, 225032,
    334221, 155081, 216478, 129765, 259435, 155181]"
  "map (name_code 0 1) tools_threads =
    [65991, 86217, 85293, 154020, 65997, 195143, 183333, 83052, 65822]"
  "map (name_code 0 1) tools_symbols =
    [297863, 70866]"
  "map (name_code 0 1) tools_dumping =
    [153828, 346949, 40466, 84467, 160226, 177993, 182829, 11459, 111687, 260585, 53394, 344829,
    165552, 327292, 359353, 67791, 43843, 232264, 382099, 105454, 64963, 84912]"
  "map (name_code 0 1) tools_ui =
    [212731, 302125, 653117, 729211, 794572, 491975, 347783, 189984, 70373, 259885, 355360,
    222347, 260334, 457426, 226049, 450747, 159746, 470625, 580359, 133631, 256794, 224376,
    301779, 224045, 400152, 570552, 511323, 109833, 301274, 336264, 653142, 497162, 347094,
    640379, 440782, 149196, 562281]"
  "map (name_code 0 1) tools_anti_debug =
    [439580, 693068, 261260, 293757]"
  "map (name_code 0 1) tools_raw =
    [51987]"
  by (simp_all add: letter_codes tools_session_def tools_diagnostics_def tools_inspection_def tools_code_analysis_def tools_memory_def tools_annotations_def tools_execution_def tools_breakpoints_def tools_tracing_def tools_snapshots_def tools_process_def tools_threads_def tools_symbols_def tools_dumping_def tools_ui_def tools_anti_debug_def tools_raw_def
      del: One_nat_def)

lemma categories_distinct: "distinct (concat (map snd category_tools))"
proof -
  have "distinct (map (name_code 0 1) (concat (map snd category_tools)))"
    unfolding category_tools_def list.map snd_conv concat.simps map_append category_codes append_Nil2 append.simps
    by simp
  then show ?thesis by (simp only: distinct_map)
qed
lemma collect_known_distinct:
  "distinct (result @ concat (map snd cs)) \<Longrightarrow> collect_known cs result dups = (result @ concat (map snd cs), dups)"
proof (induction cs arbitrary: result)
  case (Cons c cs)
  then have "filter (\<lambda>n. n \<in> set (snd c)) result = []" by (auto simp: filter_empty_conv)
  with Cons show ?case by (cases c) (simp add: Cons.IH)
qed simp

lemma known_tools: "known_tool_names = Inr (concat (map snd category_tools))"
  using collect_known_distinct [of "[]" category_tools "[]"] categories_distinct
  by (simp add: known_tool_names_def)

lemma category_matches:
  assumes "distinct (concat (map snd cs))"
  shows "length (filter (\<lambda>(c, ns). n \<in> set ns) cs) = (if n \<in> set (concat (map snd cs)) then 1 else 0)"
  using assms
proof (induction cs)
  case (Cons c cs)
  show ?case
  proof (cases "n \<in> set (snd c)")
    case True
    with Cons.prems have "n \<notin> set (concat (map snd cs))" by auto
    with Cons True show ?thesis by (simp add: case_prod_beta)
  next
    case False
    with Cons show ?thesis by (simp add: case_prod_beta)
  qed
qed simp

lemma category_for_known:
  assumes "n \<in> set (concat (map snd category_tools))"
  obtains c ns where "category_for n = Inr c" "(c, ns) \<in> set category_tools" "n \<in> set ns"
proof -
  have "length (filter (\<lambda>(c, ns). n \<in> set ns) category_tools) = 1"
    using category_matches [OF categories_distinct, of n] assms by (simp only: if_True)
  then obtain c ns where f: "filter (\<lambda>(c, ns). n \<in> set ns) category_tools = [(c, ns)]"
    by (metis One_nat_def length_0_conv length_Suc_conv surj_pair)
  then have "(c, ns) \<in> set (filter (\<lambda>(c, ns). n \<in> set ns) category_tools)" by (simp only: list.set_intros)
  then have "(c, ns) \<in> set category_tools" "n \<in> set ns" by auto
  moreover have "category_for n = Inr c" unfolding category_for_def f by simp
  ultimately show thesis by (intro that)
qed

lemma category_for_unknown: "n \<notin> set (concat (map snd category_tools)) \<Longrightarrow> category_for n = Inl (No_policy n)"
proof -
  assume "n \<notin> set (concat (map snd category_tools))"
  then have "filter (\<lambda>(c, ns). n \<in> set ns) category_tools = []" by (force simp: filter_empty_conv)
  then show ?thesis by (simp add: category_for_def)
qed

lemma conditional_kinds: "set (map fst (conditional_for n)) \<subseteq> set side_effect_kinds"
proof -
  have kinds: "list_all (\<lambda>(_, l). list_all (\<lambda>(k, _). k \<in> set side_effect_kinds) l) conditional_effects"
    unfolding conditional_effects_def side_effect_kinds_def by simp
  show ?thesis
  proof (cases "map_of conditional_effects n")
    case (Some l)
    then have "(n, l) \<in> set conditional_effects" by (rule map_of_SomeD)
    with kinds Some show ?thesis by (fastforce simp: list_all_iff conditional_for_def)
  qed (simp add: conditional_for_def)
qed

lemma category_touched:
  assumes "(c, ns) \<in> set category_tools"
  obtains t where "map_of category_touches c = Some t"
proof -
  have "list_all (\<lambda>(c, _). map_of category_touches c \<noteq> None) category_tools"
    unfolding category_tools_def category_touches_def by simp
  with assms that show thesis by (auto simp: list_all_iff)
qed

lemma policy_known:
  assumes "n \<in> set (concat (map snd category_tools))"
  obtains c t where "policy_for_tool n = Inr (make_policy n c t)"
proof -
  obtain c ns where c: "category_for n = Inr c" "(c, ns) \<in> set category_tools"
    using category_for_known [OF assms] by metis
  obtain t where t: "map_of category_touches c = Some t" using category_touched [OF c(2)] .
  have "filter (\<lambda>k. k \<notin> set side_effect_kinds) (map fst (conditional_for n)) = []"
    using conditional_kinds [of n] by (auto simp: filter_empty_conv)
  then have "policy_for_tool n = Inr (make_policy n c (sort t))"
    by (simp add: policy_for_tool_def c(1) t)
  then show thesis by (rule that)
qed

lemma policies_known:
  "set ns \<subseteq> set (concat (map snd category_tools)) \<Longrightarrow> \<exists>ps. policies_for ns = Inr ps"
proof (induction ns)
  case (Cons n ns)
  then obtain ps where "policies_for ns = Inr ps" by (auto simp del: set_concat)
  moreover obtain c t where "policy_for_tool n = Inr (make_policy n c t)"
    using Cons.prems by (meson list.set_intros(1) policy_known subsetD)
  ultimately show ?case by simp
qed simp

lemma known_names_nonempty: "[] \<notin> set (concat (map snd category_tools))"
proof
  assume "[] \<in> set (concat (map snd category_tools))"
  then have "name_code 0 1 [] \<in> set (map (name_code 0 1) (concat (map snd category_tools)))"
    unfolding set_map by (rule imageI)
  then show False
    unfolding category_tools_def list.map snd_conv concat.simps map_append category_codes append_Nil2 append.simps
    by simp
qed

text \<open>A catalog is built exactly for a known profile and a registry that holds the classified
  tools, all of them and no other: a new or a missing tool is refused, never silently exposed.\<close>

lemma catalog_exact:
  "(\<exists>catalog. build_tool_catalog registry active = Inr catalog) \<longleftrightarrow>
     active \<in> set profile_names \<and> set registry = set (concat (map snd category_tools))"
proof (cases "active \<in> set profile_names \<and> [] \<notin> set registry")
  case True
  let ?known = "concat (map snd category_tools)"
  let ?missing = "sort (filter (\<lambda>n. n \<notin> set ?known) (remdups registry))"
  let ?stale = "sort (filter (\<lambda>n. n \<notin> set (remdups registry)) ?known)"
  have empty: "sort xs = [] \<longleftrightarrow> xs = []" for xs :: "string list" by (metis set_empty set_sort)
  have "?missing = [] \<and> ?stale = [] \<longleftrightarrow> set registry = set ?known"
    unfolding empty by (auto simp: filter_empty_conv simp del: set_concat)
  moreover have "\<exists>ps. policies_for (sort (remdups registry)) = Inr ps" if "set registry = set ?known"
    using that by (intro policies_known) (simp del: set_concat)
  ultimately show ?thesis
    using True unfolding build_tool_catalog_def registry_names_def known_tools Let_def
    by (auto simp del: set_concat split: sum.splits)
next
  case False
  then show ?thesis
    using known_names_nonempty
    by (auto simp: build_tool_catalog_def registry_names_def simp del: set_concat)
qed
subsection \<open>What a catalog shows in a profile\<close>

lemma effects_for_mem: "e \<in> set (effects_for n) \<longleftrightarrow> (\<exists>ns. (e, ns) \<in> set effect_tools \<and> n \<in> set ns)"
  by (force simp: effects_for_def)

lemma effect_members:
  "''debuggee.input'' \<in> set (effects_for n) \<longleftrightarrow> n \<in> set effect_debuggee_input"
  "''host.user-input'' \<in> set (effects_for n) \<longleftrightarrow> n \<in> set effect_host_user_input"
  "''unbounded.command'' \<in> set (effects_for n) \<longleftrightarrow> n \<in> set effect_unbounded_command"
  "''debuggee.module.inject'' \<in> set (effects_for n) \<longleftrightarrow> n \<in> set effect_debuggee_module_inject"
  "''host.configuration.write'' \<in> set (effects_for n) \<longleftrightarrow> n \<in> set effect_host_configuration_write"
  "''host.process.control'' \<in> set (effects_for n) \<longleftrightarrow> n \<in> set effect_host_process_control"
  "''debuggee.memory.write'' \<in> set (effects_for n) \<longleftrightarrow> n \<in> set effect_debuggee_memory_write"
  "''debugger.breakpoint.write'' \<in> set (effects_for n) \<longleftrightarrow> n \<in> set effect_debugger_breakpoint_write"
  "''kernel.driver.control'' \<notin> set (effects_for n)"
  by (simp_all add: effects_for_mem effect_tools_def)

lemma global_input: "global_input_tools = effect_host_user_input"
  by (simp add: global_input_tools_def effect_tools_def)

definition in_profile :: "string \<Rightarrow> string \<Rightarrow> bool" where
  "in_profile profile n \<longleftrightarrow> profile \<in> set (profiles_for n (risk_for (effects_for n) n) (effects_for n))"

lemma in_profile_iff:
  "in_profile ''compact'' n \<longleftrightarrow> n \<in> set compact_tools"
  "in_profile ''inspect'' n \<longleftrightarrow> effects_for n = []"
  "in_profile ''standard'' n \<longleftrightarrow> standard_visible n (risk_for (effects_for n) n) (effects_for n)"
  "in_profile ''automation'' n \<longleftrightarrow> automation_visible n (risk_for (effects_for n) n)"
  "in_profile ''full'' n"
  by (simp_all add: in_profile_def profiles_for_def profile_names_def Let_def)

lemma policies_for_sound:
  "policies_for ns = Inr ps \<Longrightarrow> map tp_name ps = ns
     \<and> list_all (\<lambda>p. policy_for_tool (tp_name p) = Inr p \<and> (\<exists>c t. p = make_policy (tp_name p) c t)) ps"
proof (induction ns arbitrary: ps)
  case (Cons n ns)
  from Cons.prems obtain p ps' where p: "policy_for_tool n = Inr p" "policies_for ns = Inr ps'" "ps = p # ps'"
    by (auto split: sum.splits)
  then obtain c t where m: "p = make_policy n c t"
    by (auto simp: policy_for_tool_def Let_def split: sum.splits if_splits option.splits)
  then have "tp_name p = n" by (simp add: make_policy_def Let_def)
  with p m Cons.IH [OF p(2)] show ?case by auto
qed simp

lemma policy_profiles: "set (tp_profiles (make_policy n c t)) = {profile. in_profile profile n}"
  by (simp add: make_policy_def in_profile_def Let_def)

lemma visible_catalog:
  assumes "build_tool_catalog registry active = Inr catalog" "profile \<in> set profile_names"
  obtains vs where "visible_tool_names catalog profile = Inr vs"
    "set vs = {n \<in> set registry. in_profile profile n}"
proof -
  obtain ps where ps: "policies_for (sort (remdups registry)) = Inr ps"
    and cat: "catalog = catalog_dict (remdups registry) ps active"
    using assms(1) unfolding build_tool_catalog_def registry_names_def Let_def
    by (auto simp del: set_concat split: if_split_asm sum.split_asm)
  have profiles: "dict_get catalog ''profiles'' = VDict (map (\<lambda>profile. (profile, profile_entry ps profile)) profile_names)"
    unfolding cat catalog_dict_def dict_get_def dict_get_default_def by simp
  have "map_of (map (\<lambda>profile. (profile, profile_entry ps profile)) profile_names) profile = Some (profile_entry ps profile)"
    using assms(2) by (simp add: map_of_map_restrict)
  then have entry: "dict_get (map (\<lambda>profile. (profile, profile_entry ps profile)) profile_names) profile
      = profile_entry ps profile"
    by (simp add: dict_get_def dict_get_default_def)
  have tools: "dict_get [(''description'', d), (''count'', k), (''tools'', texts ts)] ''tools'' = texts ts" for d k ts
    by (simp add: dict_get_def dict_get_default_def)
  have "map (py_str \<circ> VStr) ts = ts" for ts by (simp add: comp_def py_str_def)
  then have "visible_tool_names catalog profile = Inr (tools_in profile ps)"
    using assms(2) unfolding visible_tool_names_def profiles pyval.case entry
    unfolding profile_entry_def pyval.case tools unfolding texts_def pyval.case map_map by simp
  moreover have "set (tools_in profile ps) = {n \<in> set registry. in_profile profile n}"
  proof -
    note sound = policies_for_sound [OF ps]
    have names: "tp_name ` set ps = set registry" using sound by (metis set_map set_remdups set_sort)
    have "profile \<in> set (tp_profiles p) \<longleftrightarrow> in_profile profile (tp_name p)" if "p \<in> set ps" for p
    proof -
      from sound that obtain c t where "p = make_policy (tp_name p) c t" unfolding list_all_iff by blast
      then have "set (tp_profiles p) = set (tp_profiles (make_policy (tp_name p) c t))" by (rule arg_cong)
      then show ?thesis by (simp only: policy_profiles mem_Collect_eq)
    qed
    then have "{p \<in> set ps. profile \<in> set (tp_profiles p)} = {p \<in> set ps. in_profile profile (tp_name p)}"
      by (rule Collect_cong [OF conj_cong [OF refl]])
    then have "set (tools_in profile ps) = tp_name ` {p \<in> set ps. in_profile profile (tp_name p)}"
      by (simp add: tools_in_def)
    also have "\<dots> = {n \<in> tp_name ` set ps. in_profile profile n}" by blast
    finally show ?thesis unfolding names .
  qed
  ultimately show thesis by (rule that)
qed

subsection \<open>The profiles are nested\<close>

lemma effect_codes:
  "map (name_code 0 1) compact_tools =
    [52882, 52249, 66348, 131615, 21526, 40337, 30649, 50619, 85997, 68770, 67744, 53280, 84818,
     184706, 86421, 85293, 65991, 130988, 42299, 54329, 51531, 28728, 43075, 43286, 88205, 517215,
     351288, 833514, 81958, 50550, 100420, 64973, 160226, 40466, 67791, 11459, 456426, 396901,
     644326, 340274]"
  "map (name_code 0 1) expert_only_tools =
    [289723, 693068, 51987, 334221, 182915, 152190, 216478, 129765, 86669, 293757, 21166, 30076]"
  "map (name_code 0 1) effect_host_user_input =
    [189984, 224376, 224045, 400152]"
  "map (name_code 0 1) effect_debuggee_input =
    [794572, 491975, 347783, 70373, 259885, 155175, 222347, 260334, 580359, 301779, 570552,
     511323, 109833, 301274, 336264, 653142, 155181]"
  by (simp_all add: letter_codes compact_tools_def expert_only_tools_def effect_host_user_input_def
      effect_debuggee_input_def del: One_nat_def)

lemma disjoint_codes:
  "set (map f xs) \<inter> set (map f ys) = {} \<Longrightarrow> set xs \<inter> set ys = {}"
  by auto

lemma compact_ordinary:
  "set compact_tools \<inter> set (expert_only_tools @ effect_host_user_input @ effect_debuggee_input) = {}"
  by (rule disjoint_codes [of "name_code 0 1"], unfold map_append effect_codes) simp

text \<open>The tools whose effects make them privileged or unbounded.\<close>

lemma risky_tools:
  "risk_for (effects_for n) n \<in> {Privileged, Unbounded} \<longleftrightarrow>
     n \<in> set (effect_unbounded_command @ effect_debuggee_module_inject @ effect_host_configuration_write)
     \<or> n = ''RemoveProcessDebug''"
proof -
  have "meets (effects_for n) privileged_effects \<longleftrightarrow>
      ''debuggee.module.inject'' \<in> set (effects_for n) \<or> ''host.configuration.write'' \<in> set (effects_for n)
      \<or> ''kernel.driver.control'' \<in> set (effects_for n)"
    by (auto simp: meets_def list_ex_iff privileged_effects_def)
  then show ?thesis by (auto simp: risk_for_def effect_members)
qed

lemma risky_not_compact:
  "n \<in> set compact_tools \<Longrightarrow> n \<in> set (effect_unbounded_command @ effect_debuggee_module_inject
     @ effect_host_configuration_write @ [''RemoveProcessDebug'']) \<Longrightarrow> n \<in> set privileged_profile_exceptions"
proof -
  have sub: "list_all (\<lambda>n. n \<in> set (privileged_profile_exceptions @ expert_only_tools))
     (effect_unbounded_command @ effect_debuggee_module_inject @ effect_host_configuration_write @ [''RemoveProcessDebug''])"
    by (simp add: effect_unbounded_command_def effect_debuggee_module_inject_def
        effect_host_configuration_write_def privileged_profile_exceptions_def expert_only_tools_def)
  assume "n \<in> set compact_tools" and n: "n \<in> set (effect_unbounded_command @ effect_debuggee_module_inject
     @ effect_host_configuration_write @ [''RemoveProcessDebug''])"
  then have "n \<notin> set expert_only_tools" using compact_ordinary by auto
  moreover have "n \<in> set (privileged_profile_exceptions @ expert_only_tools)" using sub n unfolding list_all_iff by blast
  ultimately show ?thesis by simp
qed

lemma compact_standard: "in_profile ''compact'' n \<Longrightarrow> in_profile ''standard'' n"
  using compact_ordinary risky_not_compact [of n] risky_tools [of n]
  by (auto simp: in_profile_iff standard_visible_def global_input effect_members)

lemma expert_effects: "n \<in> set expert_only_tools \<Longrightarrow> effects_for n \<noteq> []"
proof -
  have "list_all (\<lambda>n. n \<in> set (effect_debuggee_memory_write @ effect_debuggee_module_inject
      @ effect_unbounded_command @ effect_host_process_control @ effect_host_configuration_write)) expert_only_tools"
    by (simp add: expert_only_tools_def effect_debuggee_memory_write_def effect_debuggee_module_inject_def
        effect_unbounded_command_def effect_host_process_control_def effect_host_configuration_write_def)
  moreover assume "n \<in> set expert_only_tools"
  ultimately show ?thesis
    using effect_members [of n] unfolding list_all_iff set_append by (metis Un_iff empty_iff empty_set)
qed

lemma inspect_standard: "in_profile ''inspect'' n \<Longrightarrow> in_profile ''standard'' n"
proof -
  assume "in_profile ''inspect'' n"
  then have e: "effects_for n = []" by (simp add: in_profile_iff)
  have "n \<noteq> ''RemoveProcessDebug''"
  proof
    assume "n = ''RemoveProcessDebug''"
    then have "n \<in> set effect_host_process_control" by (simp add: effect_host_process_control_def)
    then show False using e effect_members(6) [of n] by simp
  qed
  moreover have "n \<notin> set effect_host_user_input" using e effect_members(2) [of n] by simp
  moreover have "n \<notin> set expert_only_tools" using expert_effects e by blast
  ultimately show ?thesis
    by (simp add: in_profile_iff standard_visible_def global_input e risk_for_def meets_def)
qed

text \<open>In every catalog that is built the profiles are nested: the compact and the inspection
  profile show a part of the standard one, that a part of the automation profile, which shows in
  addition only tools that send input to the debuggee; the full profile shows the whole registry.\<close>

lemma profiles_nested:
  assumes "build_tool_catalog registry active = Inr catalog"
  shows "\<exists>compact inspect standard automation full.
     map (visible_tool_names catalog) [''compact'', ''inspect'', ''standard'', ''automation'', ''full''] =
       map Inr [compact, inspect, standard, automation, full]
     \<and> set compact \<union> set inspect \<subseteq> set standard \<and> set standard \<subseteq> set automation
     \<and> set automation - set standard \<subseteq> set effect_debuggee_input \<and> set full = set registry"
proof -
  have shown: "\<exists>vs. visible_tool_names catalog p = Inr vs \<and> set vs = {n \<in> set registry. in_profile p n}"
    if "p \<in> set profile_names" for p
    using visible_catalog [OF assms that] by metis
  have p: "''compact'' \<in> set profile_names" "''inspect'' \<in> set profile_names" "''standard'' \<in> set profile_names"
    "''automation'' \<in> set profile_names" "''full'' \<in> set profile_names"
    by (simp_all add: profile_names_def)
  obtain compact inspect standard automation full where v:
    "visible_tool_names catalog ''compact'' = Inr compact" "set compact = {n \<in> set registry. in_profile ''compact'' n}"
    "visible_tool_names catalog ''inspect'' = Inr inspect" "set inspect = {n \<in> set registry. in_profile ''inspect'' n}"
    "visible_tool_names catalog ''standard'' = Inr standard" "set standard = {n \<in> set registry. in_profile ''standard'' n}"
    "visible_tool_names catalog ''automation'' = Inr automation"
    "set automation = {n \<in> set registry. in_profile ''automation'' n}"
    "visible_tool_names catalog ''full'' = Inr full" "set full = {n \<in> set registry. in_profile ''full'' n}"
    using shown [OF p(1)] shown [OF p(2)] shown [OF p(3)] shown [OF p(4)] shown [OF p(5)] by metis
  have sa: "in_profile ''standard'' n \<Longrightarrow> in_profile ''automation'' n" for n
    by (simp add: in_profile_iff standard_visible_def automation_visible_def)
  have input: "in_profile ''automation'' n \<Longrightarrow> \<not> in_profile ''standard'' n \<Longrightarrow> n \<in> set effect_debuggee_input" for n
    by (auto simp: in_profile_iff standard_visible_def automation_visible_def effect_members)
  show ?thesis
  proof (intro exI conjI)
    show "map (visible_tool_names catalog) [''compact'', ''inspect'', ''standard'', ''automation'', ''full''] =
        map Inr [compact, inspect, standard, automation, full]"
      by (simp only: list.map v(1,3,5,7,9))
    show "set compact \<union> set inspect \<subseteq> set standard"
      unfolding v(2,4,6) using compact_standard inspect_standard by blast
    show "set standard \<subseteq> set automation" unfolding v(6,8) using sa by blast
    show "set automation - set standard \<subseteq> set effect_debuggee_input" unfolding v(6,8) using input by blast
    show "set full = set registry" unfolding v(10) by (simp add: in_profile_iff(5))
  qed
qed

lemma sort_nil: "sort xs = [] \<longleftrightarrow> xs = []" for xs :: "string list"
  by (metis set_empty set_sort)

text \<open>A registry as the running server has it: the classified tools.\<close>

lemma catalog_of_known:
  assumes "active \<in> set profile_names"
  shows "\<exists>catalog. build_tool_catalog (concat (map snd category_tools)) active = Inr catalog"
proof -
  let ?known = "concat (map snd category_tools)"
  have "filter (\<lambda>n. n \<notin> set ?known) (remdups ?known) = []" "filter (\<lambda>n. n \<notin> set (remdups ?known)) ?known = []"
    unfolding filter_empty_conv set_remdups by blast+
  moreover obtain ps where "policies_for (sort (remdups ?known)) = Inr ps"
    using policies_known [of "sort (remdups ?known)"] by (auto simp del: set_concat)
  ultimately show ?thesis
    using assms known_names_nonempty
    by (simp add: build_tool_catalog_def registry_names_def known_tools del: set_concat)
qed

subsection \<open>What the standard profile leaves out\<close>

lemma visible_policy:
  assumes "build_tool_catalog registry active = Inr catalog" "visible_tool_names catalog profile = Inr vs" "n \<in> set vs"
  obtains p where "policy_for_tool n = Inr p" "profile \<in> set (tp_profiles p)" "tp_side_effects p = effects_for n"
    "tp_risk p = risk_for (effects_for n) n" "tp_conditional p = conditional_for n"
proof -
  have profile: "profile \<in> set profile_names"
    using assms(2) by (auto simp: visible_tool_names_def split: if_splits)
  obtain vs' where vs': "visible_tool_names catalog profile = Inr vs'" "set vs' = {n \<in> set registry. in_profile profile n}"
    using visible_catalog [OF assms(1) profile] by metis
  then have n: "n \<in> set registry" "in_profile profile n" using assms(2,3) by auto
  have "set registry = set (concat (map snd category_tools))"
    using assms(1) known_names_nonempty unfolding build_tool_catalog_def registry_names_def known_tools Let_def
    by (auto simp: sort_nil filter_empty_conv simp del: set_concat split: if_split_asm sum.split_asm)
  with n(1) have "n \<in> set (concat (map snd category_tools))" by (simp only:)
  then obtain c t where p: "policy_for_tool n = Inr (make_policy n c t)" by (rule policy_known)
  show thesis
  proof (rule that [OF p])
    show "profile \<in> set (tp_profiles (make_policy n c t))" unfolding policy_profiles using n(2) by (rule CollectI)
  qed (simp_all add: make_policy_def Let_def)
qed

text \<open>C29: No tool the standard profile shows sends input, global or to the debuggee, runs a raw command
  or controls a kernel driver, and its risk is at most consequential unless it is one of the three
  named launch and attach entry points.\<close>

theorem standard_profile_safe:
  assumes "build_tool_catalog registry active = Inr catalog"
    and "visible_tool_names catalog ''standard'' = Inr vs" and "n \<in> set vs"
  shows "\<exists>p. policy_for_tool n = Inr p
    \<and> set (tp_side_effects p) \<inter> {''debuggee.input'', ''host.user-input'', ''unbounded.command'', ''kernel.driver.control''} = {}
    \<and> (tp_risk p \<le> Consequential \<or> n \<in> {''AttachToProcess'', ''LaunchAndOpenDebuggee'', ''LaunchFileUnderDebugger''})"
proof -
  obtain p where p: "policy_for_tool n = Inr p" "''standard'' \<in> set (tp_profiles p)" "tp_side_effects p = effects_for n"
    "tp_risk p = risk_for (effects_for n) n"
    using visible_policy [OF assms] by metis
  have vis: "in_profile ''standard'' n"
    using p(1,2) by (auto simp: policy_for_tool_def Let_def policy_profiles split: sum.splits if_splits option.splits)
  have "n \<notin> set effect_unbounded_command"
  proof
    assume "n \<in> set effect_unbounded_command"
    then have "n \<in> set expert_only_tools" by (simp add: effect_unbounded_command_def expert_only_tools_def)
    with vis show False by (simp add: in_profile_iff standard_visible_def)
  qed
  with vis have "set (effects_for n) \<inter> {''debuggee.input'', ''host.user-input'', ''unbounded.command'', ''kernel.driver.control''} = {}"
    by (auto simp: in_profile_iff standard_visible_def global_input effect_members)
  moreover have "risk_for (effects_for n) n \<le> Consequential \<or> n \<in> set privileged_profile_exceptions"
    using vis by (cases "risk_for (effects_for n) n") (auto simp: in_profile_iff standard_visible_def less_eq_risk_def)
  moreover have "set privileged_profile_exceptions = {''AttachToProcess'', ''LaunchAndOpenDebuggee'', ''LaunchFileUnderDebugger''}"
    by (simp add: privileged_profile_exceptions_def)
  ultimately show ?thesis using p by (intro exI [of _ p]) simp
qed

theorem standard_profile_safe_witness:
  "\<exists>catalog vs. build_tool_catalog (concat (map snd category_tools)) ''full'' = Inr catalog
     \<and> visible_tool_names catalog ''standard'' = Inr vs \<and> ''ReadMemory'' \<in> set vs
     \<and> (\<exists>p. policy_for_tool ''ReadMemory'' = Inr p \<and> tp_risk p \<le> Consequential)"
proof -
  obtain catalog where c: "build_tool_catalog (concat (map snd category_tools)) ''full'' = Inr catalog"
    using catalog_of_known [of "''full''"] by (auto simp: profile_names_def)
  have "''standard'' \<in> set profile_names" by (simp add: profile_names_def)
  then obtain vs where vs: "visible_tool_names catalog ''standard'' = Inr vs"
    "set vs = {n \<in> set (concat (map snd category_tools)). in_profile ''standard'' n}"
    by (rule visible_catalog [OF c])
  have "''ReadMemory'' \<in> set tools_memory" by (simp add: tools_memory_def)
  moreover have "set tools_memory \<subseteq> set (concat (map snd category_tools))"
    unfolding category_tools_def list.map snd_conv concat.simps set_append by blast
  ultimately have "''ReadMemory'' \<in> set (concat (map snd category_tools))" by (rule rev_subsetD)
  moreover have "in_profile ''standard'' ''ReadMemory''"
    by (rule compact_standard) (simp add: in_profile_iff(1) compact_tools_def)
  ultimately have mem: "''ReadMemory'' \<in> set vs" unfolding vs(2) by (intro CollectI conjI)
  from standard_profile_safe [OF c vs(1) mem] show ?thesis using c vs(1) mem by auto
qed

text \<open>The read-only hint and the inspection profile follow the unconditional side effects only:
  \<open>SyncBreakpoints\<close> is advertised as read-only although it writes breakpoints when \<open>apply\<close> is true.\<close>

lemma read_only_hint_ignores_conditions:
  "\<exists>p. policy_for_tool ''SyncBreakpoints'' = Inr p \<and> tp_read_only p \<and> ''inspect'' \<in> set (tp_profiles p)
     \<and> tp_conditional p = [(''debugger.breakpoint.write'', Equals ''apply'' (VBool True))]"
proof -
  have "''SyncBreakpoints'' \<in> set tools_annotations" by (simp add: tools_annotations_def)
  moreover have "set tools_annotations \<subseteq> set (concat (map snd category_tools))"
    unfolding category_tools_def list.map snd_conv concat.simps set_append by blast
  ultimately have "''SyncBreakpoints'' \<in> set (concat (map snd category_tools))" by (rule rev_subsetD)
  then obtain c t where p: "policy_for_tool ''SyncBreakpoints'' = Inr (make_policy ''SyncBreakpoints'' c t)"
    by (rule policy_known)
  have none: "list_all (\<lambda>(e, ns). ''SyncBreakpoints'' \<notin> set ns) effect_tools"
    unfolding effect_tools_def list.pred_inject case_prod_conv
    by (simp add: effect_mcp_state_write_def effect_debugger_database_write_def effect_debugger_configuration_write_def
        effect_debugger_breakpoint_write_def effect_debuggee_execution_def effect_debuggee_memory_write_def
        effect_debuggee_thread_control_def effect_debuggee_input_def effect_debuggee_module_inject_def
        effect_host_process_control_def effect_host_user_input_def effect_host_filesystem_write_def
        effect_host_configuration_write_def effect_unbounded_command_def)
  have "effects_for ''SyncBreakpoints'' = []"
  proof -
    have "e \<notin> set (effects_for ''SyncBreakpoints'')" for e
      using none unfolding effects_for_mem list_all_iff by blast
    then have "set (effects_for ''SyncBreakpoints'') = {}" by (intro equals0I) (rule notE)
    then show ?thesis by simp
  qed
  moreover have "conditional_for ''SyncBreakpoints'' = [(''debugger.breakpoint.write'', Equals ''apply'' (VBool True))]"
    by (simp add: conditional_for_def conditional_effects_def)
  ultimately show ?thesis
    by (intro exI [of _ "make_policy ''SyncBreakpoints'' c t"] conjI p)
      (simp_all add: policy_profiles in_profile_iff(2), simp_all add: make_policy_def Let_def)
qed

text \<open>The risk grows with the side effects: a tool with more effects is never classified lower.\<close>

lemma risk_monotone:
  assumes "set effects \<subseteq> set extended"
  shows "risk_for effects name \<le> risk_for extended name"
proof -
  have "meets effects ys \<Longrightarrow> meets extended ys" for ys using assms by (auto simp: meets_def list_ex_iff)
  moreover have "effects \<noteq> [] \<Longrightarrow> extended \<noteq> []" using assms by (cases effects) auto
  moreover have "''unbounded.command'' \<in> set effects \<Longrightarrow> ''unbounded.command'' \<in> set extended" using assms by blast
  ultimately show ?thesis by (simp add: risk_for_def less_eq_risk_def)
qed

subsection \<open>The advertised list\<close>

definition shown_in :: "string \<Rightarrow> string \<Rightarrow> bool" where
  "shown_in profile n \<longleftrightarrow> (case policy_for_tool n of Inl _ \<Rightarrow> False | Inr p \<Rightarrow> profile \<in> set (tp_profiles p))"

lemma shown_in_iff: "shown_in profile n \<longleftrightarrow> n \<in> set (concat (map snd category_tools)) \<and> in_profile profile n"
proof (cases "n \<in> set (concat (map snd category_tools))")
  case True
  then obtain c t where "policy_for_tool n = Inr (make_policy n c t)" by (rule policy_known)
  with True show ?thesis by (simp only: shown_in_def sum.case policy_profiles mem_Collect_eq simp_thms)
next
  case False
  with category_for_unknown [OF False] show ?thesis by (simp add: shown_in_def policy_for_tool_def del: set_concat)
qed

lemma catalog_registry:
  assumes "build_tool_catalog registry active = Inr catalog"
  shows "set registry = set (concat (map snd category_tools))"
  using assms known_names_nonempty unfolding build_tool_catalog_def registry_names_def known_tools Let_def
  by (auto simp: sort_nil filter_empty_conv simp del: set_concat split: if_split_asm sum.split_asm)

text \<open>Filtering the advertised tools keeps exactly the listed tools whose policy has the profile, in
  their order, and the full profile hides nothing, whatever is listed.\<close>

lemma listing_filtered:
  assumes "build_tool_catalog registry active = Inr catalog" and "profile \<in> set profile_names"
  shows "profiled_list_tools tools catalog profile =
     Inr (filter (\<lambda>t. profile = ''full'' \<or> shown_in profile (str_or_empty (tool_name t))) tools)"
proof (cases "profile = ''full''")
  case False
  obtain vs where vs: "visible_tool_names catalog profile = Inr vs" "set vs = {n \<in> set registry. in_profile profile n}"
    using assms by (rule visible_catalog)
  have "n \<in> set vs \<longleftrightarrow> shown_in profile n" for n
    unfolding vs(2) shown_in_iff catalog_registry [OF assms(1)] by (rule mem_Collect_eq)
  with False show ?thesis by (simp add: profiled_list_tools_def filter_mcp_tools_def vs(1))
qed (simp add: profiled_list_tools_def)

subsection \<open>The metadata\<close>

lemma catalog_metadata:
  assumes "build_tool_catalog registry active = Inr catalog" "n \<in> set registry"
  obtains p where "policy_for_tool n = Inr p"
    "dict_get (as_dict (dict_get catalog ''toolMetadata'')) n = VDict (policy_as_dict p)"
proof -
  obtain ps where ps: "policies_for (sort (remdups registry)) = Inr ps"
    and cat: "catalog = catalog_dict (remdups registry) ps active"
    using assms(1) unfolding build_tool_catalog_def registry_names_def Let_def
    by (auto simp del: set_concat split: if_split_asm sum.split_asm)
  note sound = policies_for_sound [OF ps]
  have "n \<in> set (map tp_name ps)" using sound assms(2) by simp
  then obtain p where p: "p \<in> set ps" "tp_name p = n" by auto
  then have "policy_for_tool n = Inr p" using sound by (auto simp: list_all_iff)
  moreover have "distinct (map tp_name ps)" using sound by simp
  then have "map_of (map (\<lambda>p. (tp_name p, VDict (policy_as_dict p))) ps) n = Some (VDict (policy_as_dict p))"
    using p by (intro map_of_is_SomeI) (force simp: comp_def)+
  then have "dict_get (as_dict (dict_get catalog ''toolMetadata'')) n = VDict (policy_as_dict p)"
    unfolding cat catalog_dict_def dict_get_def dict_get_default_def by simp
  ultimately show thesis by (rule that)
qed

lemma attach_annotations: "mt_annotations (attach (policy_as_dict p) t) = annotations_of p"
  by (simp add: attach_def policy_as_dict_def dict_get_def dict_get_default_def)

lemma attach_meta:
  "k \<noteq> ''x64dbg'' \<Longrightarrow> mt_meta (attach m t) = Some d \<Longrightarrow>
     map_of d k = map_of (case mt_meta t of Some d' \<Rightarrow> d' | None \<Rightarrow> []) k"
  by (auto simp: attach_def update_conv')

text \<open>Attaching the metadata keeps the registered tools and every entry of their own metadata, and
  gives each tool the annotations of its policy.\<close>

lemma metadata_attached:
  assumes "apply_tool_metadata available (Some registered) registry active = Inr (catalog, tools)"
  shows "map fst tools = map fst registered \<and>
    list_all2 (\<lambda>(name, t) (name', t'). (\<exists>p. policy_for_tool name = Inr p \<and> mt_annotations t' = annotations_of p)
       \<and> map_of (the (mt_meta t')) |` (- {''x64dbg''}) =
         map_of (case mt_meta t of Some d \<Rightarrow> d | None \<Rightarrow> []) |` (- {''x64dbg''})) registered tools"
proof -
  obtain catalog' where built: "build_tool_catalog registry active = Inr catalog'" "catalog' = catalog"
    and regs: "set (map fst registered) = set registry"
    and tools: "tools = map (\<lambda>(name, t). (name, attach (as_dict (dict_get (as_dict (dict_get catalog ''toolMetadata'')) name)) t)) registered"
    using assms unfolding apply_tool_metadata_def option.case
    by (cases "build_tool_catalog registry active") (auto split: if_split_asm)
  have names: "map fst tools = map fst registered" by (simp add: tools case_prod_beta comp_def)
  have "list_all2 (\<lambda>(name, t) (name', t'). (\<exists>p. policy_for_tool name = Inr p \<and> mt_annotations t' = annotations_of p)
       \<and> map_of (the (mt_meta t')) |` (- {''x64dbg''}) =
         map_of (case mt_meta t of Some d \<Rightarrow> d | None \<Rightarrow> []) |` (- {''x64dbg''})) registered tools"
    unfolding tools list.rel_map
  proof (rule list.rel_refl_strong, clarify)
    fix name t assume mem: "(name, t) \<in> set registered"
    let ?m = "as_dict (dict_get (as_dict (dict_get catalog ''toolMetadata'')) name)"
    have "name \<in> set registry" using mem regs by (metis fst_conv image_eqI set_map)
    then obtain p where p: "policy_for_tool name = Inr p" "?m = policy_as_dict p"
      using catalog_metadata [OF built(1)] built(2) by (metis as_dict.simps(1))
    have "map_of (the (mt_meta (attach ?m t))) |` (- {''x64dbg''}) =
        map_of (case mt_meta t of Some d \<Rightarrow> d | None \<Rightarrow> []) |` (- {''x64dbg''})"
      by (rule ext) (simp add: attach_def restrict_map_def update_conv')
    with p show "(\<exists>p. policy_for_tool name = Inr p \<and> mt_annotations (attach ?m t) = annotations_of p)
       \<and> map_of (the (mt_meta (attach ?m t))) |` (- {''x64dbg''}) =
         map_of (case mt_meta t of Some d \<Rightarrow> d | None \<Rightarrow> []) |` (- {''x64dbg''})"
      by (metis attach_annotations)
  qed
  with names show ?thesis ..
qed

end
