(* ===== verification/ResultViews.thy ===== *)
theory ResultViews
  imports Contracts
begin

text \<open>
  The model-facing views of \<open>runtime_sections/10_result_and_transport.py\<close>: the response
  detail of a call, the compact views of a launch, a breakpoint capture and a native trace, the
  pagination contract of trace pages, and the redaction of sensitive fields in audit records.
\<close>

subsection \<open>Response detail\<close>

text \<open>\<open>profile\<close> is the environment variable \<open>X64DBG_MCP_TOOL_PROFILE\<close>, empty when unset. The
  error is the payload of an invalid argument.\<close>

definition detail_error :: pydict where
  "detail_error =
     [(''ok'', VBool False), (''errorCode'', VStr ''INVALID_ARGUMENT''),
      (''error'', VStr ''detail must be summary or full''), (''retryable'', VBool False)]"

definition resolve_response_detail :: "string \<Rightarrow> pyval \<Rightarrow> string \<times> pydict option" where
  "resolve_response_detail profile v =
     (let requested = lower (strip (str_or_empty v)) in
      if requested \<in> {[], ''auto''}
      then (if lower (strip (if profile = [] then ''full'' else profile)) = ''compact'' then ''summary'' else ''full'', None)
      else if requested \<notin> {''summary'', ''full''} then ([], Some detail_error)
      else (requested, None))"

subsection \<open>Compact launch result\<close>

definition get_dict :: "pydict \<Rightarrow> string \<Rightarrow> pydict" where
  "get_dict d k = as_dict (dict_get d k)"

definition copy_fact :: "pydict \<Rightarrow> pydict \<Rightarrow> string \<Rightarrow> pydict \<Rightarrow> pydict" where
  "copy_fact payload init key result =
     (if \<not> none_or_empty (dict_get payload key) then AList.update key (dict_get payload key) result
      else if \<not> none_or_empty (dict_get init key) then AList.update key (dict_get init key) result
      else result)"

definition texts_of :: "string list \<Rightarrow> pyval" where
  "texts_of ss = VList (map VStr ss)"

definition launch_protection :: "pydict \<Rightarrow> pydict" where
  "launch_protection init =
     (case dict_get init ''scyllaHide'' of
        VDict item \<Rightarrow>
          [(''scyllaHide'', VDict [(''ok'', VBool (truthy (dict_get item ''ok''))),
             (''skipped'', VBool (truthy (dict_get item ''skipped''))),
             (''reason'', py_or (dict_get item ''reason'') (dict_get item ''error''))])]
      | _ \<Rightarrow> [])"

definition compact_launch :: "pydict \<Rightarrow> pydict" where
  "compact_launch payload =
     (let init = get_dict payload ''init''; state = get_dict init ''state'';
          binding = (if get_dict init ''binding'' = [] then get_dict state ''binding'' else get_dict init ''binding'');
          session = get_dict state ''session''; advance = get_dict payload ''advanceToEntry'';
          advance_state = get_dict advance ''state'';
          name0 = dict_get advance_state ''state'';
          advance_state_name =
            (if \<not> truthy name0 \<and> is_str (dict_get advance ''state'') then dict_get advance ''state'' else name0);
          pid = py_or (dict_get state ''debuggeePid'')
                  (py_or (dict_get binding ''pid'') (py_or (dict_get session ''processId'') VNone));
          result =
            [(''ok'', VBool (truthy (dict_get payload ''ok''))), (''exePath'', dict_get payload ''exePath''),
             (''pid'', pid),
             (''arch'', py_or (dict_get binding ''debuggerArch'')
                (py_or (dict_get payload ''requestedArch'') (dict_get init ''targetArch''))),
             (''moduleBase'', py_or (dict_get binding ''moduleBase'') VNone),
             (''rip'', py_or (dict_get advance_state ''rip'') (py_or (dict_get advance ''rip'') (dict_get state ''rip''))),
             (''state'', py_or advance_state_name (dict_get state ''state'')),
             (''stopReason'', py_or (dict_get advance_state ''stopReason'')
                (py_or (dict_get advance ''stopReason'') (dict_get state ''stopReason''))),
             (''sessionId'', py_or (dict_get binding ''sessionId'') (py_or (dict_get session ''sessionId'') VNone)),
             (''generation'', py_or (dict_get binding ''sessionGeneration'')
                (py_or (dict_get session ''sessionGeneration'') (py_or (dict_get session ''generation'') VNone))),
             (''eventSeq'', py_or (dict_get binding ''eventSeq'')
                (py_or (dict_get state ''eventSeq'') (py_or (dict_get session ''eventSeq'') VNone))),
             (''attempts'', dict_get init ''attempts''),
             (''advancedToEntry'', VBool (advance \<noteq> [] \<and> truthy (dict_get advance ''ok''))),
             (''timedOut'', VBool (init \<noteq> [] \<and> truthy (dict_get init ''timedOut''))),
             (''availableDetails'', texts_of [''ensureDebugger'', ''recoveryDebugger'', ''initialInit'', ''init'',
                ''advanceToEntry'', ''capabilities'', ''protection'']),
             (''recoveredBridge'', VBool (truthy (dict_get payload ''recoveryDebugger'')))];
          result = fold (copy_fact payload init) [''entrypointTool'', ''error'', ''errorCode'', ''hint'', ''reason''] result;
          protection = launch_protection init
      in if protection \<noteq> [] then AList.update ''protection'' (VDict protection) result else result)"

definition compact_launch_result :: "pyval \<Rightarrow> pyval" where
  "compact_launch_result v = (case v of VDict payload \<Rightarrow> VDict (compact_launch payload) | _ \<Rightarrow> v)"

subsection \<open>Compact breakpoint capture\<close>

text \<open>\<open>len(x or [])\<close>.\<close>

definition len_or_empty :: "pyval \<Rightarrow> pyexn + int" where
  "len_or_empty v =
     (case v of
        VNone \<Rightarrow> Inr 0
      | VBool b \<Rightarrow> (if b then Inl TypeError else Inr 0)
      | VInt i \<Rightarrow> (if i \<noteq> 0 then Inl TypeError else Inr 0)
      | VFloat r t \<Rightarrow> (if truthy v then Inl TypeError else Inr 0)
      | VStr s \<Rightarrow> Inr (int (length s))
      | VBytes s \<Rightarrow> Inr (int (length s))
      | VList xs \<Rightarrow> Inr (int (length xs))
      | VTuple xs \<Rightarrow> Inr (int (length xs))
      | VDict d \<Rightarrow> Inr (int (length d)))"

definition copy_present :: "pydict \<Rightarrow> string \<Rightarrow> pydict \<Rightarrow> pydict" where
  "copy_present src key d = (if has_key src key then AList.update key (dict_get src key) d else d)"

definition copy_missing :: "pydict \<Rightarrow> string \<Rightarrow> pydict \<Rightarrow> pydict" where
  "copy_missing src key d =
     (if has_key src key \<and> \<not> has_key d key then AList.update key (dict_get src key) d else d)"

definition copy_filled :: "pydict \<Rightarrow> string \<Rightarrow> pydict \<Rightarrow> pydict" where
  "copy_filled src key d = (if \<not> none_or_empty (dict_get src key) then AList.update key (dict_get src key) d else d)"

definition compact_capture :: "pydict \<Rightarrow> pyexn + pydict" where
  "compact_capture payload =
     (let event = get_dict payload ''event''; state = get_dict event ''state'';
          summary = fold (copy_present event)
            [''hit'', ''matchedRequested'', ''observedBreakpoint'', ''timedOut'', ''stopReason'', ''addr'', ''rip'',
             ''breakpointName'', ''breakpointModule'', ''eventSeq'', ''threadId''] [];
          summary = fold (copy_missing state)
            [''exceptionCode'', ''exceptionFirstChance'', ''exceptionAddress'', ''lastEventType''] summary
      in case len_or_empty (dict_get payload ''skippedBreakpoints'') of Inl e \<Rightarrow> Inl e | Inr breakpoints \<Rightarrow>
        (case len_or_empty (dict_get payload ''skippedExceptions'') of Inl e \<Rightarrow> Inl e | Inr exceptions \<Rightarrow>
        (case len_or_empty (dict_get payload ''resumeRepairs'') of Inl e \<Rightarrow> Inl e | Inr repairs \<Rightarrow>
          (let result = [(''ok'', VBool (truthy (dict_get payload ''ok''))), (''event'', VDict summary),
                (''skippedBreakpointCount'', VInt breakpoints), (''skippedExceptionCount'', VInt exceptions),
                (''resumeRepairCount'', VInt repairs),
                (''availableDetails'', texts_of [''event.state'', ''skippedBreakpoints'', ''skippedExceptions'',
                   ''resumeRepairs'', ''historyEntry''])]
           in Inr (fold (copy_filled payload) [''error'', ''errorCode'', ''hint''] (copy_present payload ''capture'' result))))))"

definition compact_breakpoint_capture_result :: "pyval \<Rightarrow> pyexn + pyval" where
  "compact_breakpoint_capture_result v =
     (case v of VDict payload \<Rightarrow> map_sum id VDict (compact_capture payload) | _ \<Rightarrow> Inr v)"

subsection \<open>Native trace pages\<close>

text \<open>\<open>int(page.get(k) or len(page.get(l) or []))\<close>; the length is only taken when it is needed.\<close>

definition returned_count :: "pydict \<Rightarrow> string \<Rightarrow> string \<Rightarrow> pyexn + int" where
  "returned_count page k l =
     (if truthy (dict_get page k) then py_int (dict_get page k) else len_or_empty (dict_get page l))"

definition next_cursor :: "pydict \<Rightarrow> int \<Rightarrow> pyexn + pydict" where
  "next_cursor page hit_returned =
     (case (if truthy (dict_get page ''eventHasMore'')
            then map_sum id (\<lambda>n. [(''eventAfterSeq'', VInt n)]) (int_or (dict_get page ''eventNextAfterSeq'') 0)
            else Inr []) of Inl e \<Rightarrow> Inl e | Inr events \<Rightarrow>
      if truthy (dict_get page ''hitHasMore'')
      then (case int_or (dict_get page ''hitOffset'') 0 of Inl e \<Rightarrow> Inl e | Inr off \<Rightarrow>
           (case int_or (dict_get page ''hitNextAfterRevision'') 0 of Inl e \<Rightarrow> Inl e | Inr revision \<Rightarrow>
              Inr (events @ [(''hitOffset'', VInt (off + hit_returned)), (''hitAfterRevision'', VInt revision)])))
      else Inr events)"

definition decorate_page :: "int \<Rightarrow> int \<Rightarrow> pydict \<Rightarrow> pyexn + pydict" where
  "decorate_page event_limit hit_limit page =
     (case returned_count page ''eventReturned'' ''events'' of Inl e \<Rightarrow> Inl e | Inr event_returned \<Rightarrow>
     (case returned_count page ''hitReturned'' ''hits'' of Inl e \<Rightarrow> Inl e | Inr hit_returned \<Rightarrow>
     (case next_cursor page hit_returned of Inl e \<Rightarrow> Inl e | Inr cursor \<Rightarrow>
        Inr (AList.update ''nextCursor'' (if cursor = [] then VNone else VDict cursor)
            (AList.update ''hasMore'' (VBool (truthy (dict_get page ''eventHasMore'') \<or> truthy (dict_get page ''hitHasMore'')))
            (AList.update ''requestedPageSize''
               (VDict [(''events'', VInt (max 0 event_limit)), (''hits'', VInt (max 0 hit_limit))])
            (AList.update ''pageSize'' (VDict [(''events'', VInt event_returned), (''hits'', VInt hit_returned)]) page)))))))"

definition decorate_native_trace_page :: "int \<Rightarrow> int \<Rightarrow> pyval \<Rightarrow> pyexn + pyval" where
  "decorate_native_trace_page event_limit hit_limit v =
     (case v of VDict page \<Rightarrow> map_sum id VDict (decorate_page event_limit hit_limit page) | _ \<Rightarrow> Inr v)"

definition trace_page_keys :: "string list" where
  "trace_page_keys =
    [''ok'', ''traceId'', ''sessionId'', ''sessionGeneration'', ''processId'', ''mode'', ''active'', ''completed'',
     ''totalSteps'', ''matchedSteps'', ''uniqueAddresses'', ''eventCount'', ''droppedEvents'', ''droppedUnique'',
     ''stopReason'', ''eventOffset'', ''eventReturned'', ''eventHasMore'', ''eventAfterSeq'', ''eventNextAfterSeq'',
     ''eventCursorTruncated'', ''hitOffset'', ''hitReturned'', ''hitHasMore'', ''hitAfterRevision'',
     ''hitNextAfterRevision'', ''hitCursorTruncated'', ''events'', ''hits'', ''hitUpdates'', ''pageSize'',
     ''requestedPageSize'', ''hasMore'', ''nextCursor'', ''error'', ''errorCode'', ''hint'']"

definition compact_native_trace_page :: "pyval \<Rightarrow> pyval" where
  "compact_native_trace_page v =
     (case v of
        VDict page \<Rightarrow>
          VDict (map (\<lambda>k. (k, dict_get page k)) (filter (has_key page) trace_page_keys)
            @ [(''availableDetails'', texts_of [''range'', ''limits'', ''captureConfiguration'', ''timestamps'', ''revisionBounds''])])
      | _ \<Rightarrow> v)"

definition compact_run :: "pydict \<Rightarrow> pydict" where
  "compact_run payload =
     (let evidence = get_dict payload ''evidence''; wait = get_dict payload ''wait'';
          result =
            [(''ok'', VBool (truthy (dict_get payload ''ok''))), (''traceId'', dict_get payload ''traceId''),
             (''observed'', VBool (truthy (dict_get payload ''observed''))),
             (''active'', dict_get_default evidence ''active'' (dict_get wait ''active'')),
             (''completed'', dict_get_default evidence ''completed'' (dict_get wait ''completed'')),
             (''totalSteps'', dict_get evidence ''totalSteps''), (''matchedSteps'', dict_get evidence ''matchedSteps''),
             (''eventCount'', dict_get evidence ''eventCount''), (''uniqueAddresses'', dict_get evidence ''uniqueAddresses''),
             (''stopReason'', py_or (dict_get evidence ''stopReason'') (dict_get wait ''stopReason'')),
             (''droppedEvents'', dict_get evidence ''droppedEvents''), (''droppedUnique'', dict_get evidence ''droppedUnique''),
             (''hasMore'', VBool (truthy (dict_get evidence ''hasMore''))), (''nextCursor'', dict_get evidence ''nextCursor''),
             (''availableDetails'', texts_of [''command'', ''wait'', ''evidence''])]
      in fold (copy_filled payload) [''error'', ''errorCode'', ''hint''] result)"

definition compact_native_trace_run :: "pyval \<Rightarrow> pyval" where
  "compact_native_trace_run v = (case v of VDict payload \<Rightarrow> VDict (compact_run payload) | _ \<Rightarrow> v)"

subsection \<open>Redaction\<close>

definition sensitive_markers :: "string list" where
  "sensitive_markers =
    [''authorization'', ''cookie'', ''credential'', ''environment'', ''password'', ''secret'', ''stdin'', ''token'']"

definition sensitive_key :: "string \<Rightarrow> bool" where
  "sensitive_key key \<longleftrightarrow> casefold key \<noteq> [] \<and> list_ex (\<lambda>marker. contains marker (casefold key)) sensitive_markers"

definition redacted :: pyval where
  "redacted = VStr ''<redacted>''"

fun redact :: "string \<Rightarrow> pyval \<Rightarrow> pyval" where
  "redact key (VDict d) =
     (if sensitive_key key then VDict (map (\<lambda>(k, v). (k, redacted)) d)
      else VDict (map (\<lambda>(k, v). (k, redact k v)) d))"
| "redact key (VList xs) = (if sensitive_key key then redacted else VList (map (redact key) xs))"
| "redact key (VTuple xs) = (if sensitive_key key then redacted else VList (map (redact key) xs))"
| "redact key v = (if sensitive_key key then redacted else json_safe 1200 v)"

end
