(* ===== verification/ResultEnvelope.thy ===== *)
theory ResultEnvelope
  imports ResultViews
begin

text \<open>
  The public result contract of \<open>runtime_sections/10_result_and_transport.py\<close>: canonical error
  codes, the recognition of legacy error texts, the conversion of any failure value into one
  \<open>BridgeError\<close>, and the normalization of any tool result into \<open>{ok, data, error, meta}\<close>.
  The invocation carries what the code reads from outside: the tool name, the request id, a fresh
  id and the guard identity (empty when reading it fails). \<open>json_loads\<close> is \<open>json.loads\<close> on a
  text that begins with an opening brace or bracket, so its value is an object or an array, or
  nothing when it raises.
\<close>

subsection \<open>Error codes\<close>

definition http_code :: "string \<Rightarrow> string option" where
  "http_code raw =
     (let rest = (if starts_with (lower raw) ''error'' then Some (drop 5 raw)
                  else if starts_with (lower raw) ''http'' then Some (drop 4 raw) else None)
      in case rest of
           None \<Rightarrow> None
         | Some r \<Rightarrow>
             (let digits = dropWhile (\<lambda>c. c \<in> {CHR '' '', CHR ''_'', CHR ''-''}) r in
              if length digits = 3 \<and> list_all is_digit digits then Some digits else None))"

text \<open>\<open>re.sub("[^A-Za-z0-9]+", "_", text)\<close>.\<close>

function (sequential) join_words :: "string \<Rightarrow> string" where
  "join_words [] = []"
| "join_words (c # s) =
     (if is_ascii_alnum c then c # join_words s
      else CHR ''_'' # join_words (dropWhile (\<lambda>d. \<not> is_ascii_alnum d) s))"
  by pat_completeness auto

termination
  by (relation "measure length") (auto simp: le_imp_less_Suc length_dropWhile_le)

definition code_aliases :: "string \<Rightarrow> (string \<times> string) list" where
  "code_aliases dflt =
    [(''ERROR'', dflt), (''FAILED'', ''TOOL_ERROR''), (''FAILURE'', ''TOOL_ERROR''),
     (''REQUEST_FAILED'', ''BRIDGE_REQUEST_FAILED''), (''BRIDGE_ERROR'', ''BRIDGE_ERROR''),
     (''HTTP_ERROR'', ''HTTP_ERROR''), (''STALE_SESSION'', ''STALE_MUTATION_GUARD''),
     (''SESSION_GUARD_REQUIRED'', ''MISSING_SESSION_GUARD'')]"

definition canonical_error_code :: "pyval \<Rightarrow> string \<Rightarrow> string" where
  "canonical_error_code v dflt =
     (let raw = strip (str_or_empty v) in
      if raw = [] then dflt
      else (case http_code raw of
              Some digits \<Rightarrow> ''HTTP_'' @ digits
            | None \<Rightarrow>
                (let normalized = upper (strip_char CHR ''_'' (join_words raw)) in
                 case map_of (code_aliases dflt) normalized of
                   Some alias \<Rightarrow> alias
                 | None \<Rightarrow> (if normalized = [] then dflt else normalized))))"

subsection \<open>Legacy error texts\<close>

text \<open>\<open>\\w\<close> on U+0000..U+00FF.\<close>

definition word_char :: "char \<Rightarrow> bool" where
  "word_char c \<longleftrightarrow> is_ascii_alnum c \<or> c = CHR ''_''
     \<or> (let n = cp c in n \<in> {170, 178, 179, 181, 185, 186, 188, 189, 190} \<or> 192 \<le> n \<and> n \<noteq> 215 \<and> n \<noteq> 247)"

definition word_ends :: "string \<Rightarrow> bool" where
  "word_ends rest \<longleftrightarrow> rest = [] \<or> \<not> word_char (hd rest)"

text \<open>The text after a prefix, whatever the case of the prefix.\<close>

definition after_prefix :: "string \<Rightarrow> string \<Rightarrow> string option" where
  "after_prefix p s = (if starts_with (lower s) p then Some (drop (length p) s) else None)"

definition after_colon :: "string \<Rightarrow> string option" where
  "after_colon s =
     (case dropWhile py_space s of c # rest \<Rightarrow> (if c = CHR '':'' then Some (strip rest) else None) | [] \<Rightarrow> None)"

definition http_failure :: "string \<Rightarrow> (nat \<times> string) option" where
  "http_failure text =
     (case after_prefix ''error'' text of
        None \<Rightarrow> None
      | Some rest \<Rightarrow>
          (let r = dropWhile py_space rest; digits = take 3 r in
           if rest \<noteq> r \<and> length digits = 3 \<and> list_all is_digit digits
           then (case after_colon (drop 3 r) of
                   None \<Rightarrow> None
                 | Some message \<Rightarrow> map_option (\<lambda>n. (nat n, message)) (int10 digits))
           else None))"

definition failure_words :: "string list" where
  "failure_words = [''failed'', ''failure'', ''cannot'', ''could not'', ''unable to'']"

definition reads_as_failure :: "string \<Rightarrow> bool" where
  "reads_as_failure text \<longleftrightarrow>
     after_prefix ''unknown tool'' text \<noteq> None \<or> after_prefix ''tool error'' text \<noteq> None
     \<or> list_ex (\<lambda>w. case after_prefix w text of None \<Rightarrow> False | Some rest \<Rightarrow> word_ends rest) failure_words"

definition legacy_failure_text :: "string \<Rightarrow> (string \<times> string \<times> int option) option" where
  "legacy_failure_text s =
     (let text = strip s in
      case http_failure text of
        Some (status, message) \<Rightarrow>
          Some (''HTTP_'' @ dec (int status),
                (if message = [] then ''HTTP '' @ dec (int status) else message), Some (int status))
      | None \<Rightarrow>
          (case (case after_prefix ''request failed'' text of None \<Rightarrow> None | Some rest \<Rightarrow> after_colon rest) of
             Some message \<Rightarrow>
               Some (''BRIDGE_REQUEST_FAILED'', (if message = [] then ''Bridge request failed.'' else message), None)
           | None \<Rightarrow> (if reads_as_failure text then Some (''TOOL_ERROR'', text, None) else None)))"

subsection \<open>Failure values\<close>

datatype failure_value =
    Failed_value pyval
  | Failed_exception string string

definition retryable_status :: "int option \<Rightarrow> bool" where
  "retryable_status status \<longleftrightarrow> status \<in> Some ` {408, 425, 429, 502, 503, 504}"

text \<open>\<open>dict(v)\<close>: a mapping is copied, a sequence must consist of pairs. Keys are rendered as text, as
  the JSON view of the details does.\<close>

definition pair_of :: "pyval \<Rightarrow> pyexn + string \<times> pyval" where
  "pair_of v =
     (let items = (case v of VList xs \<Rightarrow> Some xs | VTuple xs \<Rightarrow> Some xs
          | VStr s \<Rightarrow> Some (map (\<lambda>c. VStr [c]) s) | VBytes s \<Rightarrow> Some (map (\<lambda>c. VInt (int (cp c))) s)
          | VDict d \<Rightarrow> Some (map (VStr \<circ> fst) d) | _ \<Rightarrow> None)
      in case items of
           None \<Rightarrow> Inl TypeError
         | Some [k, w] \<Rightarrow> (case k of VList _ \<Rightarrow> Inl TypeError | VDict _ \<Rightarrow> Inl TypeError | _ \<Rightarrow> Inr (py_str k, w))
         | Some _ \<Rightarrow> Inl ValueError)"

fun pairs_of :: "pyval list \<Rightarrow> pydict \<Rightarrow> pyexn + pydict" where
  "pairs_of [] d = Inr d"
| "pairs_of (v # vs) d = (case pair_of v of Inl e \<Rightarrow> Inl e | Inr (k, w) \<Rightarrow> pairs_of vs (AList.update k w d))"

definition dict_of :: "pyval \<Rightarrow> pyexn + pydict" where
  "dict_of v =
     (case v of
        VDict d \<Rightarrow> Inr d
      | VList xs \<Rightarrow> pairs_of xs []
      | VTuple xs \<Rightarrow> pairs_of xs []
      | VStr s \<Rightarrow> pairs_of (map (\<lambda>c. VStr [c]) s) []
      | VBytes s \<Rightarrow> pairs_of (map (\<lambda>c. VInt (int (cp c))) s) []
      | _ \<Rightarrow> Inl TypeError)"

definition optional_text :: "string option \<Rightarrow> pyval" where
  "optional_text s = (case s of None \<Rightarrow> VNone | Some t \<Rightarrow> VStr t)"

definition optional_int :: "int option \<Rightarrow> pyval" where
  "optional_int i = (case i of None \<Rightarrow> VNone | Some n \<Rightarrow> VInt n)"

text \<open>What the three shapes of a failing dictionary give: raw code, message, details, status and
  retryable.\<close>

type_synonym failure_parts = "pyval \<times> string \<times> pydict \<times> pyval \<times> pyval"

definition nested_parts :: "pydict \<Rightarrow> pydict \<Rightarrow> string \<Rightarrow> int option \<Rightarrow> pyexn + failure_parts" where
  "nested_parts d nested fallback_message http_status =
     (case dict_of (py_or (dict_get nested ''details'') (VDict [])) of
        Inl e \<Rightarrow> Inl e
      | Inr details \<Rightarrow>
          Inr (py_or (dict_get nested ''code'') (py_or (dict_get nested ''errorCode'') (dict_get d ''errorCode'')),
               py_str (py_or (dict_get nested ''message'') (py_or (dict_get d ''message'') (VStr fallback_message))),
               details, dict_get_default nested ''httpStatus'' (optional_int http_status),
               dict_get nested ''retryable''))"

definition text_parts :: "pydict \<Rightarrow> string \<Rightarrow> int option \<Rightarrow> failure_parts" where
  "text_parts d nested http_status =
     (let raw_code = py_or (dict_get d ''errorCode'') (dict_get d ''code'');
          (code, message, status) =
            (case legacy_failure_text nested of
               Some (parsed_code, parsed_message, parsed_status) \<Rightarrow>
                 (py_or raw_code (VStr parsed_code), parsed_message,
                  dict_get_default d ''httpStatus''
                    (optional_int (if http_status = None then parsed_status else http_status)))
             | None \<Rightarrow> (raw_code, nested, dict_get_default d ''httpStatus'' (optional_int http_status)))
      in (code, message, get_dict d ''details'', status, dict_get d ''retryable''))"

definition derived_message :: "pydict \<Rightarrow> string" where
  "derived_message d =
     (let reason = str_or_empty (py_or (dict_get d ''reason'') (dict_get d ''failure'')) in
      case dict_get d ''errors'' of
        VList (x # _) \<Rightarrow> py_str x
      | VTuple (x # _) \<Rightarrow> py_str x
      | _ \<Rightarrow> reason)"

definition plain_parts :: "pydict \<Rightarrow> string \<Rightarrow> int option \<Rightarrow> failure_parts" where
  "plain_parts d fallback_message http_status =
     (let raw_code = py_or (dict_get d ''errorCode'') (dict_get d ''code'');
          message = py_str (py_or (dict_get d ''error'') (py_or (dict_get d ''message'')
                      (py_or (VStr (derived_message d)) (VStr fallback_message))))
      in (if \<not> truthy raw_code \<and> (truthy (dict_get d ''errors'') \<or> truthy (dict_get d ''reason'') \<or> truthy (dict_get d ''failure''))
          then VStr ''VALIDATION_FAILED'' else raw_code,
          message, get_dict d ''details'', dict_get_default d ''httpStatus'' (optional_int http_status),
          dict_get d ''retryable''))"

definition failure_parts_of :: "pydict \<Rightarrow> string \<Rightarrow> int option \<Rightarrow> pyexn + failure_parts" where
  "failure_parts_of d fallback_message http_status =
     (case dict_get d ''error'' of
        VDict nested \<Rightarrow> nested_parts d nested fallback_message http_status
      | VStr nested \<Rightarrow>
          (if strip nested \<noteq> [] then Inr (text_parts d nested http_status)
           else Inr (plain_parts d fallback_message http_status))
      | _ \<Rightarrow> Inr (plain_parts d fallback_message http_status))"

definition status_of :: "pyval \<Rightarrow> int option \<Rightarrow> int option" where
  "status_of v http_status =
     (if v = VNone then None else case py_int v of Inr i \<Rightarrow> Some i | Inl _ \<Rightarrow> http_status)"

definition error_of_parts :: "pydict \<Rightarrow> string \<Rightarrow> int option \<Rightarrow> string \<Rightarrow> failure_parts \<Rightarrow> bridge_error" where
  "error_of_parts d fallback_code http_status endpoint parts =
     (let (raw_code, message, details, status, retryable) = parts;
          status_int = status_of status http_status
      in \<lparr>be_code = canonical_error_code raw_code fallback_code, be_message = message,
          be_retryable = (if retryable = VNone then retryable_status status_int else truthy retryable),
          be_http_status = status_int,
          be_endpoint = str_or_empty (py_or (dict_get d ''endpoint'') (VStr endpoint)),
          be_details = (if endpoint \<noteq> [] then set_default ''endpoint'' (VStr endpoint) details else details)\<rparr>)"

definition simple_error :: "string \<Rightarrow> string \<Rightarrow> int option \<Rightarrow> string \<Rightarrow> bridge_error" where
  "simple_error code message http_status endpoint =
     \<lparr>be_code = code, be_message = message, be_retryable = False, be_http_status = http_status,
      be_endpoint = endpoint, be_details = []\<rparr>"

definition public_error_from_value ::
  "failure_value \<Rightarrow> string \<Rightarrow> string \<Rightarrow> int option \<Rightarrow> string \<Rightarrow> pyexn + bridge_error" where
  "public_error_from_value v fallback_code fallback_message http_status endpoint =
     (case v of
        Failed_exception message cls \<Rightarrow>
          Inr (simple_error (if fallback_code \<notin> {[], ''TOOL_ERROR''} then fallback_code else ''TOOL_EXCEPTION'')
                 (if message = [] then cls else message) http_status endpoint)
      | Failed_value (VDict d) \<Rightarrow>
          map_sum id (error_of_parts d fallback_code http_status endpoint)
            (failure_parts_of d fallback_message http_status)
      | Failed_value (VStr s) \<Rightarrow>
          (case legacy_failure_text s of
             Some (code, message, status) \<Rightarrow>
               Inr \<lparr>be_code = canonical_error_code (VStr code) fallback_code, be_message = message,
                    be_retryable = retryable_status status, be_http_status = status, be_endpoint = endpoint,
                    be_details = (if status \<noteq> None then [(''legacy'', VBool True)] else [])\<rparr>
           | None \<Rightarrow> Inr (simple_error fallback_code (if s = [] then fallback_message else s) http_status endpoint))
      | Failed_value _ \<Rightarrow> Inr (simple_error fallback_code fallback_message http_status endpoint))"

subsection \<open>The metadata block\<close>

record invocation =
  inv_tool :: string
  inv_request :: string
  inv_fresh :: string
  inv_identity :: pydict

definition invocation_id :: "invocation \<Rightarrow> string" where
  "invocation_id i = (if inv_request i = [] then inv_fresh i else inv_request i)"

definition positive_int :: "pyval \<Rightarrow> pyval" where
  "positive_int v = (case parse_int v None of Some i \<Rightarrow> (if i > 0 then VInt i else VNone) | None \<Rightarrow> VNone)"

definition public_identity_meta :: "pydict \<Rightarrow> pydict" where
  "public_identity_meta identity =
     [(''bridgeId'', py_or (dict_get identity ''bridgeInstanceId'') VNone),
      (''sessionId'', py_or (dict_get identity ''sessionId'') VNone),
      (''generation'', positive_int (dict_get identity ''sessionGeneration'')),
      (''eventSeq'', positive_int (dict_get identity ''eventSeq'')),
      (''debuggeePid'', positive_int (dict_get identity ''debuggeePid'')),
      (''debuggerPid'', positive_int (dict_get identity ''debuggerPid''))]"

definition set_defaults :: "pydict \<Rightarrow> pydict \<Rightarrow> pydict" where
  "set_defaults kvs d = fold (\<lambda>(k, v). set_default k v) kvs d"

definition public_meta :: "invocation \<Rightarrow> pydict \<Rightarrow> pydict" where
  "public_meta i base =
     (let version = dict_get base ''contractVersion'';
          meta = AList.update ''contractVersion'' (VInt 1) (AList.delete ''contractVersion'' base);
          meta = AList.update ''resultContract'' (VStr ''envelope-v1'') meta;
          meta = AList.update ''requestId'' (VStr (py_str (py_or (VStr (invocation_id i))
                   (py_or (dict_get meta ''requestId'') (VStr (inv_fresh i)))))) meta;
          meta = AList.update ''tool'' (VStr (inv_tool i)) meta;
          meta = (if version \<noteq> VNone then set_default ''transportContractVersion'' version meta else meta)
      in set_defaults (public_identity_meta (inv_identity i)
           @ map (\<lambda>k. (k, VNone)) [''endpoint'', ''bridgeId'', ''sessionId'', ''generation'', ''eventSeq'']) meta)"

definition public_result_meta :: "invocation \<Rightarrow> pydict \<Rightarrow> pyval" where
  "public_result_meta i base = json_safe 1200 (VDict (public_meta i base))"

subsection \<open>The envelope\<close>

datatype tool_result =
    Result_value pyval
  | Result_envelope bridge_envelope

definition envelope :: "bool \<Rightarrow> pyval \<Rightarrow> pyval \<Rightarrow> pyval \<Rightarrow> pydict" where
  "envelope ok data err meta = [(''ok'', VBool ok), (''data'', data), (''error'', err), (''meta'', meta)]"

definition success :: "invocation \<Rightarrow> pydict \<Rightarrow> pyval \<Rightarrow> pydict" where
  "success i base data = envelope True data VNone (public_result_meta i base)"

definition failed :: "invocation \<Rightarrow> pydict \<Rightarrow> pyval \<Rightarrow> bridge_error \<Rightarrow> pydict" where
  "failed i base data e = envelope False data (VDict (bridge_error_as_dict e)) (public_result_meta i base)"

definition safe_or_none :: "pyval \<Rightarrow> pyval" where
  "safe_or_none v = (if v = VNone then VNone else json_safe 20000 v)"

definition default_message :: string where
  "default_message = ''Tool operation failed.''"

definition is_canonical :: "pydict \<Rightarrow> bool" where
  "is_canonical d \<longleftrightarrow> has_key d ''ok'' \<and> has_key d ''error'' \<and> has_key d ''meta''"

definition says_failed :: "pydict \<Rightarrow> bool" where
  "says_failed d \<longleftrightarrow>
     (let has_ok = is_bool (dict_get d ''ok'') in
      has_ok \<and> dict_get d ''ok'' = VBool False
      \<or> \<not> has_ok \<and> dict_get d ''success'' = VBool False
      \<or> \<not> has_ok \<and> \<not> none_or_empty (dict_get d ''error'')
      \<or> \<not> has_ok \<and> \<not> none_or_empty (dict_get d ''errorCode'')
      \<or> \<not> has_ok \<and> casefold (str_or_empty (dict_get d ''status'')) \<in> {''error'', ''failed''})"

definition residual_data :: "pydict \<Rightarrow> pydict" where
  "residual_data d =
     filter (\<lambda>(k, _). k \<notin> set [''ok'', ''success'', ''error'', ''errorCode'', ''code'', ''message'',
       ''retryable'', ''details'', ''httpStatus'', ''status'']) d"

definition with_legacy_data :: "pydict \<Rightarrow> bridge_error \<Rightarrow> bridge_error" where
  "with_legacy_data d e =
     (if residual_data d \<noteq> [] \<and> \<not> truthy (dict_get (be_details e) ''legacyData'')
      then e\<lparr>be_details := AList.update ''legacyData'' (json_safe 12000 (VDict (residual_data d))) (be_details e)\<rparr>
      else e)"

definition canonical_dict :: "invocation \<Rightarrow> pydict \<Rightarrow> pyexn + pydict" where
  "canonical_dict i d =
     (if is_canonical d then
        (let base = get_dict d ''meta'' in
         if truthy (dict_get d ''ok'') then Inr (success i base (json_safe 20000 (dict_get d ''data'')))
         else map_sum id (failed i base (safe_or_none (dict_get d ''data'')))
                (public_error_from_value (Failed_value (VDict d)) ''TOOL_ERROR'' default_message None []))
      else if says_failed d then
        map_sum id (failed i [] VNone \<circ> with_legacy_data d)
          (public_error_from_value (Failed_value (VDict d)) ''TOOL_ERROR'' default_message None [])
      else Inr (success i [] (json_safe 20000 (VDict d))))"

definition decode_json :: "(string \<Rightarrow> (pydict + pyval list) option) \<Rightarrow> string \<Rightarrow> (pydict + pyval list) option" where
  "decode_json json_loads s =
     (case lstrip py_space s of
        c # _ \<Rightarrow> (if c = CHR ''{'' \<or> c = CHR ''['' then json_loads s else None)
      | [] \<Rightarrow> None)"

definition canonical_text ::
  "(string \<Rightarrow> (pydict + pyval list) option) \<Rightarrow> invocation \<Rightarrow> string \<Rightarrow> pyexn + pydict" where
  "canonical_text json_loads i s =
     (case decode_json json_loads s of
        Some (Inl d) \<Rightarrow> canonical_dict (i\<lparr>inv_request := invocation_id i\<rparr>) d
      | Some (Inr xs) \<Rightarrow> Inr (success i [] (json_safe 20000 (VList xs)))
      | None \<Rightarrow>
          (if legacy_failure_text s \<noteq> None
           then map_sum id (failed i [] VNone)
                  (public_error_from_value (Failed_value (VStr s)) ''TOOL_ERROR'' default_message None [])
           else Inr (success i [] (VStr s))))"

definition canonicalize_public_result ::
  "(string \<Rightarrow> (pydict + pyval list) option) \<Rightarrow> invocation \<Rightarrow> tool_result \<Rightarrow> pyexn + pydict" where
  "canonicalize_public_result json_loads i r =
     (case r of
        Result_envelope e \<Rightarrow>
          (if env_ok e then Inr (success i (env_meta e) (json_safe 20000 (env_data e)))
           else (case env_error e of
                   Some b \<Rightarrow> Inr (failed i (env_meta e) (safe_or_none (env_data e)) b)
                 | None \<Rightarrow> map_sum id (failed i (env_meta e) (safe_or_none (env_data e)))
                     (public_error_from_value (Failed_value VNone) ''TOOL_ERROR'' default_message None [])))
      | Result_value (VDict d) \<Rightarrow> canonical_dict i d
      | Result_value (VStr s) \<Rightarrow> canonical_text json_loads i s
      | Result_value (VBool False) \<Rightarrow>
          map_sum id (failed i [] VNone)
            (public_error_from_value (Failed_value VNone) ''TOOL_FALSE_RESULT''
               ''Tool returned false without an error description.'' None [])
      | Result_value v \<Rightarrow> Inr (success i [] (json_safe 20000 v)))"

definition canonicalize_exception :: "invocation \<Rightarrow> string \<Rightarrow> string \<Rightarrow> pyexn + pydict" where
  "canonicalize_exception i message cls =
     map_sum id (failed i [] VNone)
       (public_error_from_value (Failed_exception message cls) ''TOOL_EXCEPTION'' default_message None [])"

subsection \<open>Invoking a tool\<close>

datatype tool_outcome =
    Returned tool_result
  | Raised string string

definition legacy_results_requested :: "string \<Rightarrow> bool" where
  "legacy_results_requested env \<longleftrightarrow> casefold (strip env) \<in> {''1'', ''true'', ''yes'', ''on'', ''legacy''}"

text \<open>What an MCP or CLI caller gets: with the legacy switch the historical value itself, else the
  envelope.\<close>

definition invoke_public_callable ::
  "(string \<Rightarrow> (pydict + pyval list) option) \<Rightarrow> string \<Rightarrow> invocation \<Rightarrow> tool_outcome
   \<Rightarrow> pyexn + tool_result" where
  "invoke_public_callable json_loads env i r =
     (case r of
        Raised message cls \<Rightarrow>
          (if legacy_results_requested env then Inr (Result_value (VDict [(''error'', VStr message)]))
           else map_sum id (Result_value \<circ> VDict) (canonicalize_exception i message cls))
      | Returned v \<Rightarrow>
          (if legacy_results_requested env then Inr v
           else map_sum id (Result_value \<circ> VDict) (canonicalize_public_result json_loads i v)))"

end
