(* ===== verification/BridgeGuard.thy ===== *)
theory BridgeGuard
  imports ResultEnvelope
begin

text \<open>
  The identity of the connected bridge and the guard of every debugger request, from
  \<open>runtime_sections/10_result_and_transport.py\<close>, with the bound-session record of
  \<open>00_bootstrap_and_session.py\<close>. The state is what the process keeps between requests: the
  runtime values \<open>boundSession\<close> and \<open>bridgeIdentity\<close>, the mutation lease and the authentication
  cache. The environment holds what the functions read from outside: the client id, the id of the
  route policy, the clock text, the text repair, the hash of a file (empty when it cannot be read)
  and the discovery of the bearer token, which may refill the cache.
\<close>

record guard_env =
  ge_client :: string
  ge_policy_id :: string
  ge_now :: string
  ge_repair :: "string \<Rightarrow> string"
  ge_image_hash :: "string \<Rightarrow> string"
  ge_discover :: "pydict \<Rightarrow> string \<times> pydict"

record guard_state =
  gs_bound :: pyval
  gs_identity :: pyval
  gs_lease :: pydict
  gs_auth :: pydict

subsection \<open>Readers\<close>

definition text_of :: "pyval \<Rightarrow> string" where
  "text_of v = str_or_empty v"

definition is_sha256 :: "string \<Rightarrow> bool" where
  "is_sha256 s \<longleftrightarrow> length s = 64 \<and>
     list_all (\<lambda>c. is_digit c \<or> 65 \<le> cp c \<and> cp c \<le> 70 \<or> 97 \<le> cp c \<and> cp c \<le> 102) s"

subsection \<open>The identity of a bridge\<close>

definition normalize_bridge_identity :: "guard_env \<Rightarrow> pyval \<Rightarrow> pydict" where
  "normalize_bridge_identity E v =
     (case v of
        VDict payload \<Rightarrow>
          (let bridge = get_dict payload ''bridge''; debugger = get_dict payload ''debugger'';
               session = get_dict payload ''session''; capabilities = get_dict payload ''capabilities'';
               bridge_id = strip (py_str (py_or (dict_get payload ''bridgeInstanceId'')
                  (py_or (dict_get payload ''bridgeId'') (py_or (dict_get bridge ''instanceId'') (VStr [])))));
               session_id = strip (py_str (py_or (dict_get payload ''sessionId'')
                  (py_or (dict_get session ''sessionId'') (py_or (dict_get session ''id'') (VStr [])))));
               generation = int_or_0 (dict_get_default payload ''sessionGeneration'' (dict_get session ''generation''));
               debugger_pid = int_or_0 (dict_get_default payload ''debuggerPid'' (dict_get debugger ''pid''));
               debuggee_pid = int_or_0 (dict_get_default payload ''debuggeePid''
                  (dict_get_default session ''processId'' (dict_get payload ''processId'')));
               event_seq = int_or_0 (dict_get_default payload ''eventSeq'' (dict_get session ''eventSeq''));
               sha = upper (strip (py_str (py_or (dict_get session ''imageSha256'')
                  (py_or (dict_get payload ''imageSha256'') (VStr [])))));
               arch = lower (strip (py_str (py_or (dict_get payload ''debuggerArch'')
                  (py_or (dict_get debugger ''architecture'') (py_or (dict_get debugger ''arch'') (VStr []))))));
               protocol = int_or_0 (dict_get payload ''protocolVersion'');
               policy = casefold (strip (text_of (dict_get (get_dict capabilities ''routePolicy'') ''sourceId'')))
           in if bridge_id = [] \<and> session_id = [] \<and> generation = 0 \<and> debugger_pid = 0 \<and> protocol = 0 then []
              else [(''bridgeInstanceId'', VStr bridge_id), (''sessionId'', VStr session_id),
                 (''sessionGeneration'', VInt generation), (''eventSeq'', VInt event_seq),
                 (''debuggerPid'', VInt debugger_pid), (''debuggerArch'', VStr arch),
                 (''debuggeePid'', VInt debuggee_pid),
                 (''debuggeeImagePath'', VStr (ge_repair E (py_str (py_or (dict_get session ''imagePath'')
                    (py_or (dict_get payload ''imagePath'') (VStr [])))))),
                 (''imageSha256'', VStr (if is_sha256 sha then sha else [])),
                 (''imageSize'', VInt (int_or_0 (dict_get_default session ''imageSize'' (dict_get payload ''imageSize'')))),
                 (''imageFileId'', VStr (strip (py_str (py_or (dict_get session ''imageFileId'')
                    (py_or (dict_get payload ''imageFileId'') (VStr [])))))),
                 (''protocolVersion'', VInt protocol), (''routePolicySourceId'', VStr policy),
                 (''routePolicyExpectedId'', VStr (ge_policy_id E)),
                 (''routePolicyCompatible'', VBool (policy = ge_policy_id E)),
                 (''capabilities'', VDict capabilities), (''debugger'', VDict debugger),
                 (''session'', VDict session), (''observedAt'', VStr (ge_now E))])
      | _ \<Rightarrow> [])"

definition cached_identity :: "guard_state \<Rightarrow> pydict" where
  "cached_identity s = as_dict (gs_identity s)"

definition cache_bridge_identity :: "guard_env \<Rightarrow> pyval \<Rightarrow> guard_state \<Rightarrow> pydict \<times> guard_state" where
  "cache_bridge_identity E payload s =
     (let identity = normalize_bridge_identity E payload in
      (identity, if identity \<noteq> [] then s\<lparr>gs_identity := VDict identity\<rparr> else s))"

text \<open>The session id a session payload names. A nested session is asked even when it has none, and
  its absence is then rendered as text.\<close>

definition named_session_id :: "pydict \<Rightarrow> string" where
  "named_session_id p =
     strip (case dict_get p ''session'' of
              VDict nested \<Rightarrow> py_str (py_or (dict_get p ''sessionId'') (dict_get nested ''sessionId''))
            | _ \<Rightarrow> py_str (py_or (dict_get p ''sessionId'') (VStr [])))"

definition set_int :: "string \<Rightarrow> pyval \<Rightarrow> pydict \<Rightarrow> pydict" where
  "set_int k v d = (case parse_int v None of Some i \<Rightarrow> AList.update k (VInt i) d | None \<Rightarrow> d)"

definition set_text :: "string \<Rightarrow> string \<Rightarrow> string \<Rightarrow> pydict \<Rightarrow> pydict" where
  "set_text k given value d = (if given \<noteq> [] then AList.update k (VStr value) d else d)"

definition updated_identity :: "guard_env \<Rightarrow> pydict \<Rightarrow> pydict \<Rightarrow> pydict" where
  "updated_identity E p current =
     (let nested = (case dict_get p ''session'' of VDict n \<Rightarrow> n | _ \<Rightarrow> p);
          sid = named_session_id p;
          path = text_of (dict_get nested ''imagePath'');
          sha = upper (strip (text_of (dict_get nested ''imageSha256'')));
          file = strip (text_of (dict_get nested ''imageFileId''));
          d = set_text ''sessionId'' sid sid current;
          d = set_int ''sessionGeneration'' (dict_get_default nested ''generation'' (dict_get nested ''sessionGeneration'')) d;
          d = set_int ''eventSeq'' (dict_get nested ''eventSeq'') d;
          d = set_int ''debuggeePid'' (dict_get_default nested ''processId'' (dict_get nested ''debuggeePid'')) d;
          d = set_text ''debuggeeImagePath'' path (ge_repair E path) d;
          d = set_text ''imageSha256'' sha (if is_sha256 sha then sha else []) d;
          d = set_int ''imageSize'' (dict_get nested ''imageSize'') d;
          d = set_text ''imageFileId'' file file d
      in AList.update ''observedAt'' (VStr (ge_now E)) (AList.update ''session'' (VDict nested) d))"

definition update_identity_from_session :: "guard_env \<Rightarrow> pyval \<Rightarrow> guard_state \<Rightarrow> pydict \<times> guard_state" where
  "update_identity_from_session E payload s =
     (case payload of
        VDict p \<Rightarrow>
          (let current = cached_identity s in
           if \<not> truthy (dict_get current ''bridgeInstanceId'') then (current, s)
           else (let updated = updated_identity E p current in (updated, s\<lparr>gs_identity := VDict updated\<rparr>)))
      | _ \<Rightarrow> (cached_identity s, s))"

subsection \<open>The bound session\<close>

text \<open>The base name of the image, \<open>imageName\<close>, is left out: the guard does not read it.\<close>

definition normalize_bound_session_record :: "guard_env \<Rightarrow> pydict \<Rightarrow> pyexn + pydict" where
  "normalize_bound_session_record E payload =
     (case int_or (dict_get payload ''pid'') 0 of
        Inl e \<Rightarrow> Inl e
      | Inr pid \<Rightarrow>
          Inr [(''pid'', VInt pid),
             (''imagePath'', VStr (ge_repair E (strip (text_of (dict_get payload ''imagePath''))))),
             (''imageSha256'', VStr (upper (text_of (dict_get payload ''imageSha256'')))),
             (''moduleBase'', optional_text (normalize_hex (py_or (dict_get payload ''moduleBase'') (dict_get payload ''base'')))),
             (''bridgeInstanceId'', VStr (text_of (dict_get payload ''bridgeInstanceId''))),
             (''sessionId'', VStr (text_of (dict_get payload ''sessionId''))),
             (''sessionGeneration'', VInt (int_or_0 (dict_get_default payload ''sessionGeneration'' (dict_get payload ''generation'')))),
             (''eventSeq'', VInt (int_or_0 (dict_get payload ''eventSeq''))),
             (''debuggerPid'', VInt (int_or_0 (dict_get payload ''debuggerPid''))),
             (''debuggerArch'', VStr (lower (text_of (dict_get payload ''debuggerArch'')))),
             (''strict'', VBool (truthy (dict_get_default payload ''strict'' (VBool True)))),
             (''source'', VStr (text_of (dict_get payload ''source''))),
             (''createdAt'', VStr (text_of (dict_get payload ''createdAt'')))])"

definition get_bound_session :: "guard_env \<Rightarrow> guard_state \<Rightarrow> pyexn + pydict" where
  "get_bound_session E s = normalize_bound_session_record E (as_dict (gs_bound s))"

definition normalize_identity_for_headers :: "pydict \<Rightarrow> pydict" where
  "normalize_identity_for_headers v =
     [(''bridgeInstanceId'', VStr (py_str (py_or (dict_get v ''bridgeInstanceId'') (py_or (dict_get v ''bridgeId'') (VStr []))))),
      (''sessionId'', VStr (text_of (dict_get v ''sessionId''))),
      (''sessionGeneration'', VInt (int_or_0 (dict_get_default v ''sessionGeneration'' (dict_get v ''generation'')))),
      (''debuggeePid'', VInt (int_or_0 (dict_get_default v ''pid'' (dict_get v ''debuggeePid'')))),
      (''eventSeq'', VInt (int_or_0 (dict_get v ''eventSeq''))),
      (''imageSha256'', VStr (upper (strip (text_of (dict_get v ''imageSha256''))))),
      (''imageSize'', VInt (int_or_0 (dict_get v ''imageSize''))),
      (''imageFileId'', VStr (strip (text_of (dict_get v ''imageFileId'')))),
      (''protocolVersion'', VInt (int_or_0 (dict_get v ''protocolVersion''))),
      (''routePolicySourceId'', VStr (text_of (dict_get v ''routePolicySourceId''))),
      (''routePolicyCompatible'', dict_get v ''routePolicyCompatible'')]"

definition merge_identity :: "pydict \<Rightarrow> pydict \<Rightarrow> pydict" where
  "merge_identity binding current =
     map (\<lambda>k. (k, py_or (dict_get binding k) (dict_get current k)))
       [''bridgeInstanceId'', ''sessionId'', ''sessionGeneration'', ''debuggeePid'', ''imageSha256'',
        ''protocolVersion'', ''routePolicySourceId'', ''routePolicyCompatible'']
     @ map (\<lambda>k. (k, py_or (dict_get current k) (dict_get binding k))) [''eventSeq'', ''imageSize'', ''imageFileId'']
     @ [(''capabilities'', py_or (dict_get current ''capabilities'') (dict_get binding ''capabilities''))]"

definition same_bridge :: "pydict \<Rightarrow> pydict \<Rightarrow> bool" where
  "same_bridge binding current \<longleftrightarrow>
     \<not> truthy (dict_get current ''bridgeInstanceId'')
     \<or> py_eq (dict_get binding ''bridgeInstanceId'') (dict_get current ''bridgeInstanceId'')"

definition same_session :: "pydict \<Rightarrow> pydict \<Rightarrow> bool" where
  "same_session binding current \<longleftrightarrow>
     \<not> truthy (dict_get binding ''sessionId'') \<or> \<not> truthy (dict_get current ''sessionId'')
     \<or> py_eq (dict_get binding ''sessionId'') (dict_get current ''sessionId'')"

definition guard_binding :: "guard_env \<Rightarrow> guard_state \<Rightarrow> pydict" where
  "guard_binding E s =
     (case get_bound_session E s of Inl _ \<Rightarrow> [] | Inr r \<Rightarrow> normalize_identity_for_headers r)"

definition identity_for_guard :: "guard_env \<Rightarrow> guard_state \<Rightarrow> pydict" where
  "identity_for_guard E s =
     (let binding = guard_binding E s; current = normalize_identity_for_headers (cached_identity s) in
      if truthy (dict_get binding ''bridgeInstanceId'')
      then (if same_bridge binding current \<and> same_session binding current then merge_identity binding current else binding)
      else current)"

definition target_hash_required :: "pydict \<Rightarrow> bool" where
  "target_hash_required identity \<longleftrightarrow>
     (case dict_get identity ''capabilities'' of
        VDict c \<Rightarrow> (case dict_get c ''strictSessionGuards'' of VDict g \<Rightarrow> truthy (dict_get g ''targetSha256'') | _ \<Rightarrow> False)
                   \<or> truthy (dict_get c ''targetIdentitySha256'')
      | _ \<Rightarrow> False)
     \<or> int_or_0 (dict_get identity ''protocolVersion'') \<ge> 4"

text \<open>The reason of a mismatch of the local target digest, if there is one.\<close>

definition local_hash_error :: "guard_env \<Rightarrow> guard_state \<Rightarrow> pydict \<Rightarrow> pyexn + string option" where
  "local_hash_error E s identity =
     (let expected = upper (strip (text_of (dict_get identity ''imageSha256''))) in
      if expected = [] \<or> \<not> is_sha256 expected then Inr (Some ''target_hash_missing'')
      else (case get_bound_session E s of
              Inl e \<Rightarrow> Inl e
            | Inr binding \<Rightarrow>
                (let path = strip (text_of (dict_get binding ''imagePath'')) in
                 if path = [] then Inr None
                 else (let observed = ge_image_hash E path in
                       if observed = [] then Inr None
                       else if upper observed \<noteq> expected then Inr (Some ''target_hash_mismatch'')
                       else Inr None))))"

subsection \<open>The mutation lease\<close>

text \<open>The state is cleared before the new record is made, so the nonce of the old one is never kept.\<close>

definition set_mutation_lease :: "pyval \<Rightarrow> guard_state \<Rightarrow> guard_state" where
  "set_mutation_lease v s =
     (let d = as_dict v in
      s\<lparr>gs_lease :=
        [(''token'', VStr (strip (text_of (dict_get d ''token'')))),
         (''acquisitionNonce'', VStr (py_str (py_or (dict_get d ''acquisitionNonce'')
            (py_or (dict_get [] ''acquisitionNonce'') (VStr []))))),
         (''sessionId'', VStr (text_of (dict_get d ''sessionId'')))]
        @ map (\<lambda>k. (k, VInt (int_or_0 (dict_get d k))))
            [''generation'', ''processId'', ''expiresAtTickMs'', ''revision'', ''mutationSeq'', ''emergencyEpoch'']\<rparr>)"

subsection \<open>The guard headers\<close>

type_synonym headers = "(string \<times> string) list"

definition guard_error :: "string \<Rightarrow> string \<Rightarrow> pydict \<Rightarrow> bridge_error" where
  "guard_error code message details =
     \<lparr>be_code = code, be_message = message, be_retryable = False, be_http_status = None, be_endpoint = [],
      be_details = details\<rparr>"

text \<open>The target hash: nothing, or the header value, or a rejection.\<close>

definition hash_conflict :: "guard_env \<Rightarrow> guard_state \<Rightarrow> pyexn + bool" where
  "hash_conflict E s =
     (case get_bound_session E s of
        Inl e \<Rightarrow> Inl e
      | Inr binding \<Rightarrow>
          (let b = upper (strip (text_of (dict_get binding ''imageSha256'')));
               c = upper (strip (text_of (dict_get (normalize_identity_for_headers (cached_identity s)) ''imageSha256'')))
           in Inr (b \<noteq> [] \<and> c \<noteq> [] \<and> b \<noteq> c)))"

definition hash_headers ::
  "guard_env \<Rightarrow> guard_state \<Rightarrow> pydict \<Rightarrow> headers \<Rightarrow> pyexn + headers \<times> bridge_error option" where
  "hash_headers E s identity h =
     (if \<not> target_hash_required identity then Inr (h, None)
      else (case hash_conflict E s of Inl e \<Rightarrow> Inl e | Inr conflict \<Rightarrow>
        if conflict
        then Inr (h, Some (guard_error ''STALE_TARGET_IDENTITY''
               ''The bound target hash disagrees with the active bridge session.''
               [(''reason'', VStr ''binding_session_hash_conflict'')]))
        else (let sha = upper (strip (text_of (dict_get identity ''imageSha256''))) in
          if \<not> is_sha256 sha
          then Inr (h, Some (guard_error ''TARGET_IDENTITY_UNAVAILABLE''
                 ''The active debug session has no verified target SHA-256 identity.''
                 [(''requiredHeader'', VStr ''X-MCP-Debuggee-SHA256'')]))
          else (let h' = AList.update ''X-MCP-Debuggee-SHA256'' sha h in
            (case local_hash_error E s identity of Inl e \<Rightarrow> Inl e | Inr reason \<Rightarrow>
              (case reason of
                 None \<Rightarrow> Inr (h', None)
               | Some r \<Rightarrow> Inr (h', Some (guard_error ''STALE_TARGET_IDENTITY''
                   ''The bound target file identity changed or is unavailable.'' [(''reason'', VStr r)]))))))))"

definition event_headers :: "int option \<Rightarrow> pydict \<Rightarrow> headers \<Rightarrow> headers \<times> bridge_error option" where
  "event_headers expected identity h =
     (let event = (case expected of Some i \<Rightarrow> i | None \<Rightarrow> int_or_0 (dict_get identity ''eventSeq'')) in
      if target_hash_required identity \<and> event \<le> 0
      then (h, Some (guard_error ''EVENT_IDENTITY_UNAVAILABLE''
             ''The active debug session has no event sequence for mutation CAS.''
             [(''requiredHeader'', VStr ''X-MCP-Event-Seq'')]))
      else if event \<ge> 0 then (AList.update ''X-MCP-Event-Seq'' (dec (max 0 event)) h, None) else (h, None))"

definition session_headers ::
  "guard_env \<Rightarrow> guard_state \<Rightarrow> int option \<Rightarrow> pydict \<Rightarrow> headers \<Rightarrow> pyexn + headers \<times> bridge_error option" where
  "session_headers E s expected identity h =
     (let sid = text_of (dict_get identity ''sessionId'') in
      case int_or (dict_get identity ''sessionGeneration'') 0 of Inl e \<Rightarrow> Inl e | Inr generation \<Rightarrow>
      (case int_or (dict_get identity ''debuggeePid'') 0 of Inl e \<Rightarrow> Inl e | Inr pid \<Rightarrow>
        (let missing = map fst (filter (\<lambda>(_, present). \<not> present)
               [(''sessionId'', sid \<noteq> []), (''sessionGeneration'', generation \<noteq> 0), (''debuggeePid'', pid \<noteq> 0)])
         in if missing \<noteq> []
            then Inr (h, Some (guard_error ''SESSION_IDENTITY_UNAVAILABLE''
                   ''Exact debug-session identity is unavailable for a state-changing operation.''
                   [(''missing'', texts_of missing)]))
            else (let h' = AList.update ''X-MCP-Debuggee-Pid'' (dec pid)
                        (AList.update ''X-MCP-Session-Generation'' (dec generation)
                          (AList.update ''X-MCP-Session-Id'' sid h))
                  in case hash_headers E s identity h' of
                       Inl e \<Rightarrow> Inl e
                     | Inr (h'', Some err) \<Rightarrow> Inr (h'', Some err)
                     | Inr (h'', None) \<Rightarrow> Inr (event_headers expected identity h'')))))"

definition base_headers :: "guard_env \<Rightarrow> string \<Rightarrow> string \<Rightarrow> headers" where
  "base_headers E rid token =
     [(''Accept'', ''application/json''), (''X-MCP-Request-Id'', rid), (''X-MCP-Client-Id'', ge_client E)]
     @ (if token \<noteq> [] then [(''X-MCP-Auth-Token'', token)] else [])"

definition lease_headers :: "guard_state \<Rightarrow> headers \<Rightarrow> headers" where
  "lease_headers s h =
     (let token = text_of (dict_get (gs_lease s) ''token'');
          nonce = text_of (dict_get (gs_lease s) ''acquisitionNonce'')
      in if token = [] then h
         else (let h' = AList.update ''X-MCP-Mutation-Lease'' token h in
               if nonce = [] then h' else AList.update ''X-MCP-Mutation-Acquisition-Nonce'' nonce h'))"

definition guard_headers ::
  "guard_env \<Rightarrow> string \<Rightarrow> string \<Rightarrow> int option \<Rightarrow> guard_state
   \<Rightarrow> (pyexn + headers \<times> bridge_error option) \<times> guard_state" where
  "guard_headers E guard rid expected s0 =
     (let g = lower (strip (if guard = [] then ''none'' else guard));
          (token, auth) = ge_discover E (gs_auth s0); s = s0\<lparr>gs_auth := auth\<rparr>;
          h = base_headers E rid token
      in if g = ''none'' then (Inr (h, None), s)
         else (let h = lease_headers s h; identity = identity_for_guard E s;
                   bridge_id = text_of (dict_get identity ''bridgeInstanceId'')
               in if int_or_0 (dict_get identity ''protocolVersion'') \<ge> 3
                     \<and> \<not> truthy (dict_get identity ''routePolicyCompatible'')
                  then (Inr (h, Some (guard_error ''ROUTE_POLICY_MISMATCH''
                          ''Python and native bridge mutation policies do not match.''
                          [(''expected'', VStr (ge_policy_id E)), (''observed'', dict_get identity ''routePolicySourceId'')])), s)
                  else if bridge_id = []
                  then (Inr (h, Some (guard_error ''BRIDGE_IDENTITY_UNAVAILABLE''
                          ''Bridge/Hello identity is required before a guarded debugger operation.'' [])), s)
                  else (let h = AList.update ''X-MCP-Bridge-Id'' bridge_id h in
                        if g = ''bridge'' then (Inr (h, None), s)
                        else (session_headers E s expected identity h, s))))"

subsection \<open>The guard of a route\<close>

definition clean_endpoint :: "string \<Rightarrow> string" where
  "clean_endpoint endpoint = strip_char CHR ''/'' (strip endpoint)"

definition default_request_guard :: "(string \<times> string) list \<Rightarrow> string \<Rightarrow> pydict \<Rightarrow> string" where
  "default_request_guard policy endpoint params =
     (let normalized = clean_endpoint endpoint;
          manifest = (case map_of policy (CHR ''/'' # normalized) of Some g \<Rightarrow> g | None \<Rightarrow> ''none'')
      in if normalized = ''Debug/Attach'' then ''bridge''
         else if manifest = ''exec_dynamic''
         then (let command = lower (strip (text_of (dict_get params ''cmd''))) in
               if takeWhile (\<lambda>c. \<not> py_space c) command \<in> {''init'', ''initdbg'', ''attach''} then ''bridge'' else ''session'')
         else if manifest \<in> {''bridge'', ''session''} then manifest else ''none'')"

subsection \<open>Descriptors\<close>

definition descriptor_fields :: "string list" where
  "descriptor_fields = [''pid'', ''processStartTime100ns'', ''bridgeInstanceId'', ''port'', ''arch'']"

definition observed_descriptor :: "pydict \<Rightarrow> pydict" where
  "observed_descriptor payload =
     (let debugger = get_dict payload ''debugger''; http = get_dict payload ''http'' in
      [(''pid'', VInt (int_or_0 (dict_get debugger ''pid''))),
       (''processStartTime100ns'', VInt (int_or_0 (dict_get debugger ''processStartTime100ns''))),
       (''bridgeInstanceId'', VStr (text_of (dict_get payload ''bridgeInstanceId''))),
       (''port'', VInt (int_or_0 (dict_get http ''boundPort''))),
       (''arch'', VStr (casefold (text_of (dict_get debugger ''architecture''))))])"

definition mismatched_fields :: "pydict \<Rightarrow> pydict \<Rightarrow> string list" where
  "mismatched_fields payload descriptor =
     filter (\<lambda>k. \<not> py_eq (dict_get (observed_descriptor payload) k) (dict_get descriptor k)) descriptor_fields"

definition validate_descriptor_hello :: "pydict \<Rightarrow> pyval \<Rightarrow> bool \<times> string list" where
  "validate_descriptor_hello descriptor v =
     (case v of
        VDict payload \<Rightarrow>
          (let mismatched = mismatched_fields payload descriptor in (mismatched = [], mismatched))
      | _ \<Rightarrow> (False, [''payload'']))"

definition hello_error :: "string \<Rightarrow> string \<Rightarrow> pydict \<Rightarrow> bridge_error" where
  "hello_error code message details =
     \<lparr>be_code = code, be_message = message, be_retryable = False, be_http_status = None,
      be_endpoint = ''Bridge/Hello'', be_details = details\<rparr>"

definition validate_hello_auth_binding :: "pyval \<Rightarrow> guard_state \<Rightarrow> bridge_error option \<times> guard_state" where
  "validate_hello_auth_binding v s =
     (if \<not> py_eq (dict_get (gs_auth s) ''source'') (VStr ''descriptor'')
      then (Some (hello_error ''AUTH_BINDING_MISSING''
              ''Bridge authentication did not originate from a protected descriptor.'' []), s)
      else (case v of
              VDict payload \<Rightarrow>
                (let mismatched = mismatched_fields payload (gs_auth s) in
                 if mismatched \<noteq> []
                 then (Some (hello_error ''AUTH_BINDING_MISMATCH''
                         ''Bridge/Hello identity does not match the protected token descriptor.''
                         [(''fields'', texts_of mismatched)]), s\<lparr>gs_auth := []\<rparr>)
                 else (None, s))
            | _ \<Rightarrow> (Some (hello_error ''AUTH_BINDING_MISMATCH''
                    ''Bridge/Hello did not return a verifiable authentication identity.'' []), s)))"

end
