(* ===== verification/BridgeRequest.thy ===== *)
theory BridgeRequest
  imports BridgeGuard
begin

text \<open>
  One bridge request with its identity refresh, guard, attempts and error mapping:
  \<open>_bridge_request_impl\<close> of \<open>runtime_sections/10_result_and_transport.py\<close>. The network is a
  function from the requests sent so far, the current one last, to what comes back. Every request
  that leaves is recorded. Logging, the thread-local HTTP session, the base address and the elapsed
  time in the metadata are left out; the text of a Python exception is a function of it.
\<close>

datatype request_body = No_body | Json_body pyval | Form_body pydict | Text_body string

record http_request =
  hr_method :: string
  hr_endpoint :: string
  hr_params :: pydict
  hr_headers :: headers
  hr_body :: request_body

text \<open>A reply has its status, the decoded JSON if any, the text and whether its type is JSON.\<close>

datatype http_outcome =
    Reply int "pyval option" string bool
  | Timed_out string
  | Connection_failed string
  | Request_failed string
  | Other_failure string

record bridge_call =
  bc_method :: string
  bc_endpoint :: string
  bc_params :: pydict
  bc_form :: pyval
  bc_json :: pyval
  bc_guard :: string
  bc_expected :: "int option"
  bc_idempotent :: bool
  bc_id :: string

record transport =
  tr_net :: "http_request list \<Rightarrow> http_outcome"
  tr_policy :: "(string \<times> string) list"
  tr_exn_text :: "pyexn \<Rightarrow> string"

subsection \<open>Error mapping\<close>

definition normalize_bridge_error_code :: "pyval \<Rightarrow> string \<Rightarrow> string" where
  "normalize_bridge_error_code v dflt =
     (let normalized = upper (strip_char CHR ''_'' (join_words (strip (py_str (py_or v (VStr dflt)))))) in
      if normalized = [] then dflt else normalized)"

definition bridge_error_from_http :: "string \<Rightarrow> int \<Rightarrow> pyval option \<Rightarrow> string \<Rightarrow> bridge_error" where
  "bridge_error_from_http endpoint status parsed text =
     (let d = (case parsed of Some (VDict d) \<Rightarrow> d | _ \<Rightarrow> []);
          status_text = VStr (''HTTP '' @ dec status);
          (code, message, details) =
            (case dict_get d ''error'' of
               VDict err \<Rightarrow>
                 (normalize_bridge_error_code (dict_get err ''code'') ''HTTP_ERROR'',
                  py_str (py_or (dict_get err ''message'') (py_or (VStr text) status_text)),
                  get_dict err ''details'')
             | _ \<Rightarrow>
                 (normalize_bridge_error_code (dict_get d ''code'') ''HTTP_ERROR'',
                  py_str (py_or (dict_get d ''message'') (py_or (VStr text) status_text)), d))
      in \<lparr>be_code = (if status = 409 \<and> code = ''HTTP_ERROR'' then ''STALE_SESSION''
                      else if status = 428 \<and> code = ''HTTP_ERROR'' then ''SESSION_GUARD_REQUIRED'' else code),
          be_message = message, be_retryable = (status \<in> {502, 503, 504}), be_http_status = Some status,
          be_endpoint = endpoint, be_details = details\<rparr>)"

definition transport_error :: "string \<Rightarrow> string \<Rightarrow> bool \<Rightarrow> string \<Rightarrow> bridge_error" where
  "transport_error code message retryable endpoint =
     \<lparr>be_code = code, be_message = message, be_retryable = retryable, be_http_status = None,
      be_endpoint = endpoint, be_details = []\<rparr>"

text \<open>A bridge reply with HTTP success and \<open>ok\<close> false.\<close>

definition application_error :: "string \<Rightarrow> int \<Rightarrow> pydict \<Rightarrow> pyexn + bridge_error" where
  "application_error endpoint status data =
     (case dict_get data ''error'' of
        VDict raw \<Rightarrow>
          (case dict_of (py_or (dict_get raw ''details'') (VDict [])) of
             Inl e \<Rightarrow> Inl e
           | Inr details \<Rightarrow>
               Inr \<lparr>be_code = normalize_bridge_error_code (dict_get raw ''code'') ''BRIDGE_ERROR'',
                    be_message = py_str (py_or (dict_get raw ''message'') (VStr ''Bridge operation failed.'')),
                    be_retryable = truthy (dict_get_default raw ''retryable'' (VBool False)),
                    be_http_status = Some status, be_endpoint = endpoint, be_details = details\<rparr>)
      | raw \<Rightarrow>
          Inr \<lparr>be_code = normalize_bridge_error_code (py_or (dict_get data ''errorCode'') (dict_get data ''code'')) ''BRIDGE_ERROR'',
               be_message = py_str (py_or raw (py_or (dict_get data ''message'') (VStr ''Bridge operation failed.''))),
               be_retryable = False, be_http_status = Some status, be_endpoint = endpoint,
               be_details = filter (\<lambda>(k, _). k \<notin> set [''ok'', ''error'', ''message'']) data\<rparr>)"

subsection \<open>One attempt\<close>

definition call_method :: "bridge_call \<Rightarrow> string" where
  "call_method c = upper (strip (if bc_method c = [] then ''GET'' else bc_method c))"

definition call_endpoint :: "bridge_call \<Rightarrow> string" where
  "call_endpoint c = clean_endpoint (bc_endpoint c)"

definition call_guard :: "transport \<Rightarrow> bridge_call \<Rightarrow> string" where
  "call_guard T c =
     (if bc_guard c \<noteq> [] then bc_guard c else default_request_guard (tr_policy T) (call_endpoint c) (bc_params c))"

definition call_body :: "bridge_call \<Rightarrow> request_body" where
  "call_body c =
     (if call_method c = ''GET'' then No_body
      else if bc_json c \<noteq> VNone then Json_body (bc_json c)
      else (case bc_form c of VDict d \<Rightarrow> Form_body d | VStr s \<Rightarrow> Text_body s | _ \<Rightarrow> No_body))"

definition http_request_of :: "bridge_call \<Rightarrow> headers \<Rightarrow> http_request" where
  "http_request_of c h =
     \<lparr>hr_method = call_method c, hr_endpoint = call_endpoint c, hr_params = bc_params c, hr_headers = h,
      hr_body = call_body c\<rparr>"

definition initial_meta :: "guard_env \<Rightarrow> bridge_call \<Rightarrow> pydict" where
  "initial_meta E c =
     [(''contractVersion'', VInt 3), (''requestId'', VStr (bc_id c)), (''method'', VStr (call_method c)),
      (''endpoint'', VStr (call_endpoint c)), (''clientInstanceId'', VStr (ge_client E))]"

definition failure_envelope :: "pyval \<Rightarrow> bridge_error \<Rightarrow> pydict \<Rightarrow> bridge_envelope" where
  "failure_envelope data err meta = \<lparr>env_ok = False, env_data = data, env_error = Some err, env_meta = meta\<rparr>"

definition identity_meta :: "pydict \<Rightarrow> pydict \<Rightarrow> pydict" where
  "identity_meta identity meta =
     AList.update ''eventSeq'' (dict_get identity ''eventSeq'')
       (AList.update ''sessionGeneration'' (dict_get identity ''sessionGeneration'')
         (AList.update ''bridgeInstanceId'' (dict_get identity ''bridgeInstanceId'') meta))"

datatype attempt_result =
    Finished bridge_envelope guard_state
  | Again headers guard_state
  | Broken bridge_error pydict guard_state

definition finish_data ::
  "transport \<Rightarrow> bridge_call \<Rightarrow> int \<Rightarrow> pyval \<Rightarrow> pydict \<Rightarrow> guard_state \<Rightarrow> attempt_result" where
  "finish_data T c status data meta s =
     (case data of
        VDict d \<Rightarrow>
          (if dict_get d ''ok'' = VBool False
           then (case application_error (call_endpoint c) status d of
                   Inl e \<Rightarrow> Broken (transport_error ''INTERNAL_ERROR'' (tr_exn_text T e) False (call_endpoint c)) meta s
                 | Inr err \<Rightarrow> Finished (failure_envelope data err meta) s)
           else Finished \<lparr>env_ok = True, env_data = data, env_error = None, env_meta = meta\<rparr> s)
      | _ \<Rightarrow> Finished \<lparr>env_ok = True, env_data = data, env_error = None, env_meta = meta\<rparr> s)"

definition handle_success ::
  "guard_env \<Rightarrow> transport \<Rightarrow> bridge_call \<Rightarrow> int \<Rightarrow> pyval option \<Rightarrow> string \<Rightarrow> bool \<Rightarrow> pydict \<Rightarrow> guard_state
   \<Rightarrow> attempt_result" where
  "handle_success E T c status parsed text is_json meta s =
     (if is_json \<and> parsed = None
      then Finished (failure_envelope VNone
             \<lparr>be_code = ''INVALID_RESPONSE'', be_message = ''Bridge returned malformed or empty JSON.'',
              be_retryable = False, be_http_status = Some status, be_endpoint = call_endpoint c,
              be_details = [(''bodyPreview'', VStr (take 512 text))]\<rparr> meta) s
      else (let data = (case parsed of Some v \<Rightarrow> v | None \<Rightarrow> VStr text) in
        if casefold (call_endpoint c) = ''bridge/hello''
        then (case validate_hello_auth_binding data s of
                (Some err, s') \<Rightarrow> Finished (failure_envelope data err meta) s'
              | (None, s') \<Rightarrow>
                  (let (identity, s'') = cache_bridge_identity E data s'
                   in finish_data T c status data (identity_meta identity meta) s''))
        else (let identity = cached_identity s
              in finish_data T c status data (if identity \<noteq> [] then identity_meta identity meta else meta) s)))"

definition reauthenticates :: "transport \<Rightarrow> bridge_call \<Rightarrow> nat \<Rightarrow> int \<Rightarrow> bool" where
  "reauthenticates T c left status \<longleftrightarrow>
     status = 401 \<and> left > 0 \<and> call_method c = ''GET'' \<and> bc_idempotent c \<and> call_guard T c = ''none''"

definition handle_error ::
  "guard_env \<Rightarrow> transport \<Rightarrow> bridge_call \<Rightarrow> nat \<Rightarrow> headers \<Rightarrow> int \<Rightarrow> pyval option \<Rightarrow> string \<Rightarrow> pydict \<Rightarrow> guard_state
   \<Rightarrow> attempt_result" where
  "handle_error E T c left h status parsed text meta s =
     (let s = (if status = 401 then s\<lparr>gs_auth := []\<rparr> else s);
          err = bridge_error_from_http (call_endpoint c) status parsed text;
          refused = Finished (failure_envelope (case parsed of Some v \<Rightarrow> v | None \<Rightarrow> VNone) err meta)
      in if reauthenticates T c left status
         then (case guard_headers E (call_guard T c) (bc_id c) (bc_expected c) s of
                 (Inr (h', None), s') \<Rightarrow> Again h' s'
               | (Inr (h', Some _), s') \<Rightarrow> if be_retryable err then Again h' s' else refused s'
               | (Inl e, s') \<Rightarrow> Broken (transport_error ''INTERNAL_ERROR'' (tr_exn_text T e) False (call_endpoint c)) meta s')
         else if left > 0 \<and> be_retryable err then Again h s else refused s)"

definition handle_broken ::
  "bridge_call \<Rightarrow> nat \<Rightarrow> headers \<Rightarrow> string \<Rightarrow> string \<Rightarrow> bool \<Rightarrow> pydict \<Rightarrow> guard_state \<Rightarrow> attempt_result" where
  "handle_broken c left h code message repeatable meta s =
     (let retryable = (repeatable \<and> call_method c = ''GET'' \<and> bc_idempotent c) in
      if left > 0 \<and> retryable then Again h s
      else Broken (transport_error code message retryable (call_endpoint c)) meta s)"

definition or_text :: "string \<Rightarrow> string \<Rightarrow> string" where
  "or_text s dflt = (if s = [] then dflt else s)"

definition handle_outcome ::
  "guard_env \<Rightarrow> transport \<Rightarrow> bridge_call \<Rightarrow> nat \<Rightarrow> headers \<Rightarrow> http_outcome \<Rightarrow> pydict \<Rightarrow> guard_state
   \<Rightarrow> attempt_result" where
  "handle_outcome E T c left h outcome meta s =
     (case outcome of
        Reply status parsed text is_json \<Rightarrow>
          (if 200 \<le> status \<and> status < 300 then handle_success E T c status parsed text is_json meta s
           else handle_error E T c left h status parsed text meta s)
      | Timed_out m \<Rightarrow> handle_broken c left h ''BRIDGE_TIMEOUT'' (or_text m ''Bridge request timed out.'') True meta s
      | Connection_failed m \<Rightarrow> handle_broken c left h ''BRIDGE_UNAVAILABLE'' (or_text m ''Bridge is unavailable.'') True meta s
      | Request_failed m \<Rightarrow> handle_broken c left h ''BRIDGE_REQUEST_FAILED'' m False meta s
      | Other_failure m \<Rightarrow> handle_broken c left h ''INTERNAL_ERROR'' m False meta s)"

definition attempt_meta :: "nat \<Rightarrow> http_outcome \<Rightarrow> pydict \<Rightarrow> pydict" where
  "attempt_meta attempt outcome meta =
     (case outcome of
        Reply status _ _ _ \<Rightarrow>
          AList.update ''httpStatus'' (VInt status) (AList.update ''attempt'' (VInt (int attempt)) meta)
      | _ \<Rightarrow> meta)"

text \<open>\<open>left\<close> counts the attempts that may follow the current one.\<close>

fun run_attempts ::
  "guard_env \<Rightarrow> transport \<Rightarrow> bridge_call \<Rightarrow> nat \<Rightarrow> nat \<Rightarrow> headers \<Rightarrow> pydict \<Rightarrow> guard_state \<Rightarrow> http_request list
   \<Rightarrow> bridge_envelope \<times> guard_state \<times> http_request list" where
  "run_attempts E T c attempt left h meta s sent =
     (let sent' = sent @ [http_request_of c h]; outcome = tr_net T sent';
          meta' = attempt_meta attempt outcome meta
      in case handle_outcome E T c left h outcome meta' s of
           Finished env s' \<Rightarrow> (env, s', sent')
         | Broken err meta'' s' \<Rightarrow> (failure_envelope VNone err meta'', s', sent')
         | Again h' s' \<Rightarrow>
             (case left of
                0 \<Rightarrow> (failure_envelope VNone
                       (transport_error ''BRIDGE_REQUEST_FAILED'' ''Unknown bridge request failure.'' False []) meta', s', sent')
              | Suc left' \<Rightarrow> run_attempts E T c (Suc attempt) left' h' meta' s' sent'))"

subsection \<open>The request\<close>

definition attempts_after_first :: "bridge_call \<Rightarrow> nat" where
  "attempts_after_first c = (if bc_idempotent c \<and> call_method c = ''GET'' then 1 else 0)"

definition request_core ::
  "guard_env \<Rightarrow> transport \<Rightarrow> bridge_call \<Rightarrow> guard_state \<Rightarrow> http_request list
   \<Rightarrow> (pyexn + bridge_envelope) \<times> guard_state \<times> http_request list" where
  "request_core E T c s sent =
     (case guard_headers E (call_guard T c) (bc_id c) (bc_expected c) s of
        (Inl e, s') \<Rightarrow> (Inl e, s', sent)
      | (Inr (h, Some err), s') \<Rightarrow>
          (Inr (failure_envelope VNone
             (err\<lparr>be_retryable := False, be_http_status := None, be_endpoint := call_endpoint c\<rparr>) (initial_meta E c)), s', sent)
      | (Inr (h, None), s') \<Rightarrow>
          (case run_attempts E T c 1 (attempts_after_first c) h (initial_meta E c) s' sent of
             (env, s'', sent') \<Rightarrow> (Inr env, s'', sent')))"

text \<open>The unguarded read that refreshes the identity before an implicit session mutation. Its guard
  headers cannot raise, so the exception branch of the refresh is never taken.\<close>

definition refresh_call :: "string \<Rightarrow> bridge_call" where
  "refresh_call rid =
     \<lparr>bc_method = ''GET'', bc_endpoint = ''Debug/SessionState'',
      bc_params = [(''includeHistory'', VStr ''false''), (''historyLimit'', VInt 0)],
      bc_form = VNone, bc_json = VNone, bc_guard = ''none'', bc_expected = None, bc_idempotent = True, bc_id = rid\<rparr>"

definition needs_refresh :: "guard_env \<Rightarrow> transport \<Rightarrow> bridge_call \<Rightarrow> guard_state \<Rightarrow> bool" where
  "needs_refresh E T c s \<longleftrightarrow>
     call_guard T c = ''session'' \<and> bc_expected c = None \<and> target_hash_required (identity_for_guard E s)
     \<and> casefold (call_endpoint c) \<notin> {''debug/sessionstate'', ''bridge/hello''}"

definition refresh_identity ::
  "guard_env \<Rightarrow> transport \<Rightarrow> string \<Rightarrow> guard_state \<Rightarrow> http_request list \<Rightarrow> guard_state \<times> http_request list" where
  "refresh_identity E T rid s sent =
     (case request_core E T (refresh_call rid) s sent of
        (Inr env, s', sent') \<Rightarrow>
          (if env_ok env \<and> is_dict (env_data env) then (snd (update_identity_from_session E (env_data env) s'), sent')
           else (s', sent'))
      | (Inl _, s', sent') \<Rightarrow> (s', sent'))"

definition bridge_request ::
  "guard_env \<Rightarrow> transport \<Rightarrow> string \<Rightarrow> bridge_call \<Rightarrow> guard_state \<Rightarrow> http_request list
   \<Rightarrow> (pyexn + bridge_envelope) \<times> guard_state \<times> http_request list" where
  "bridge_request E T refresh_id c s sent =
     (if call_method c \<notin> {''GET'', ''POST''} \<or> call_endpoint c = []
      then (Inr (failure_envelope VNone
              (transport_error ''INVALID_ARGUMENT'' ''Bridge method must be GET/POST and endpoint must be non-empty.''
                 False (call_endpoint c)) (initial_meta E c)), s, sent)
      else (let (s', sent') = (if needs_refresh E T c s then refresh_identity E T refresh_id s sent else (s, sent))
            in request_core E T c s' sent'))"

end
