(* ===== verification/ResultProps.thy ===== *)
theory ResultProps
  imports ResultEnvelope
begin

text \<open>
  Properties of the public result contract: the shape of every envelope, exactly when a result has
  none, what is kept of a result that is already canonical, and the redaction of audit records.
\<close>

subsection \<open>Dictionaries\<close>

lemma dict_get_delete: "dict_get (AList.delete k d) k' = (if k = k' then VNone else dict_get d k')"
  by (simp add: dict_get_def dict_get_default_def delete_conv')

lemma dict_get_set_default: "k \<noteq> k' \<Longrightarrow> dict_get (set_default k v d) k' = dict_get d k'"
  by (simp add: set_default_def)

lemma dict_get_opt_default:
  "k \<noteq> k' \<Longrightarrow> dict_get (if b then set_default k v d else d) k' = dict_get d k'"
  by (simp add: set_default_def)

lemma dict_get_set_defaults:
  "k \<notin> set (map fst kvs) \<Longrightarrow> dict_get (set_defaults kvs d) k = dict_get d k"
  unfolding set_defaults_def
  by (induction kvs arbitrary: d) (auto simp: dict_get_set_default)

lemma dict_get_map_snd:
  "map_of (map (\<lambda>(k, v). (k, f v)) d) k = map_option f (map_of d k)"
  by (induction d) auto

lemma dict_get_json_safe:
  "dict_get (map (\<lambda>(k, v). (k, json_safe n v)) d) k = json_safe n (dict_get d k)"
  by (simp add: dict_get_def dict_get_default_def dict_get_map_snd trim_text_def split: option.split)

subsection \<open>The shape of an envelope\<close>

text \<open>What the contract promises of the metadata: version, contract, request id and tool name.\<close>

definition meta_ok :: "invocation \<Rightarrow> pyval \<Rightarrow> bool" where
  "meta_ok i m \<longleftrightarrow> json_bounded 1200 m \<and> is_dict m
     \<and> dict_get (as_dict m) ''contractVersion'' = VInt 1
     \<and> dict_get (as_dict m) ''resultContract'' = VStr ''envelope-v1''
     \<and> dict_get (as_dict m) ''requestId'' = VStr (trim_string 1200 (invocation_id i))
     \<and> dict_get (as_dict m) ''tool'' = VStr (trim_string 1200 (inv_tool i))"

definition envelope_ok :: "invocation \<Rightarrow> pydict \<Rightarrow> bool" where
  "envelope_ok i d \<longleftrightarrow>
     (\<exists>data m. meta_ok i m \<and> (d = envelope True data VNone m
        \<or> (\<exists>e. d = envelope False data (VDict (bridge_error_as_dict e)) m)))"

lemma meta_fields:
  assumes "k \<in> {''contractVersion'', ''resultContract'', ''requestId'', ''tool''}"
  shows "dict_get (public_meta i base) k =
    dict_get [(''contractVersion'', VInt 1), (''resultContract'', VStr ''envelope-v1''),
      (''requestId'', VStr (py_str (py_or (VStr (invocation_id i))
         (py_or (dict_get base ''requestId'') (VStr (inv_fresh i)))))), (''tool'', VStr (inv_tool i))] k"
proof -
  have identity: "map fst (public_identity_meta identity) =
      [''bridgeId'', ''sessionId'', ''generation'', ''eventSeq'', ''debuggeePid'', ''debuggerPid'']" for identity
    by (simp add: public_identity_meta_def)
  have "k \<notin> set (map fst (public_identity_meta (inv_identity i)
      @ map (\<lambda>k. (k, VNone)) [''endpoint'', ''bridgeId'', ''sessionId'', ''generation'', ''eventSeq'']))"
    unfolding map_append identity using assms by auto
  then have "dict_get (public_meta i base) k =
      dict_get (let version = dict_get base ''contractVersion'';
          meta = AList.update ''contractVersion'' (VInt 1) (AList.delete ''contractVersion'' base);
          meta = AList.update ''resultContract'' (VStr ''envelope-v1'') meta;
          meta = AList.update ''requestId'' (VStr (py_str (py_or (VStr (invocation_id i))
                   (py_or (dict_get meta ''requestId'') (VStr (inv_fresh i)))))) meta;
          meta = AList.update ''tool'' (VStr (inv_tool i)) meta
      in (if version \<noteq> VNone then set_default ''transportContractVersion'' version meta else meta)) k"
    unfolding public_meta_def Let_def by (rule dict_get_set_defaults)
  then show ?thesis
    using assms unfolding Let_def
    by (elim insertE emptyE) (simp_all add: dict_get_opt_default dict_get_delete dict_get_Cons)
qed

lemma public_meta_ok:
  assumes "invocation_id i \<noteq> []"
  shows "meta_ok i (public_result_meta i base)"
proof -
  let ?m = "map (\<lambda>(k, v). (k, json_safe 1200 v)) (public_meta i base)"
  have m: "public_result_meta i base = VDict ?m" by (simp add: public_result_meta_def)
  have bounded: "json_bounded 1200 (public_result_meta i base)"
    unfolding public_result_meta_def by (rule json_safe_bounded_aux)
  have id: "py_str (py_or (VStr (invocation_id i)) v) = invocation_id i" for v
    using assms by (simp add: py_or_def)
  have get: "dict_get ?m k = json_safe 1200 (dict_get (public_meta i base) k)" for k
    by (rule dict_get_json_safe)
  show ?thesis
    unfolding meta_ok_def
  proof (intro conjI bounded)
    show "is_dict (public_result_meta i base)" by (simp add: m)
  qed (simp_all add: m get meta_fields id, simp_all add: dict_get_def dict_get_default_def trim_text_def trim_string_def)
qed

lemma success_ok: "invocation_id i \<noteq> [] \<Longrightarrow> envelope_ok i (success i base data)"
  unfolding envelope_ok_def success_def using public_meta_ok by blast

lemma failed_ok: "invocation_id i \<noteq> [] \<Longrightarrow> envelope_ok i (failed i base data e)"
  unfolding envelope_ok_def failed_def using public_meta_ok by blast

lemma map_sum_InrD: "map_sum id f x = Inr y \<Longrightarrow> \<exists>z. x = Inr z \<and> y = f z"
  by (cases x) auto

lemma canonical_dict_ok:
  assumes "invocation_id i \<noteq> []" "canonical_dict i d = Inr r"
  shows "envelope_ok i r"
  using assms unfolding canonical_dict_def Let_def
  by (auto split: if_split_asm dest!: map_sum_InrD intro: success_ok failed_ok)

lemma same_invocation: "invocation_id (i\<lparr>inv_request := invocation_id i\<rparr>) = invocation_id i"
  by (simp add: invocation_id_def)

lemma envelope_ok_same: "envelope_ok (i\<lparr>inv_request := invocation_id i\<rparr>) r = envelope_ok i r"
  unfolding envelope_ok_def meta_ok_def same_invocation by simp

lemma canonical_text_ok:
  assumes "invocation_id i \<noteq> []" "canonical_text json_loads i s = Inr r"
  shows "envelope_ok i r"
proof (cases "decode_json json_loads s")
  case None
  with assms show ?thesis
    by (auto simp: canonical_text_def split: if_split_asm dest!: map_sum_InrD intro: success_ok failed_ok)
next
  case (Some p)
  show ?thesis
  proof (cases p)
    case (Inl d)
    with Some assms(2) have "canonical_dict (i\<lparr>inv_request := invocation_id i\<rparr>) d = Inr r"
      by (simp add: canonical_text_def)
    with assms(1) have "envelope_ok (i\<lparr>inv_request := invocation_id i\<rparr>) r"
      by (intro canonical_dict_ok) (simp_all only: same_invocation not_False_eq_True)
    then show ?thesis by (simp only: envelope_ok_same)
  next
    case (Inr xs)
    with Some assms show ?thesis by (auto simp: canonical_text_def intro: success_ok)
  qed
qed

text \<open>C31: Whatever a tool returns, a dictionary in any of the historical shapes, a text, JSON text, a
  bridge envelope or a scalar, the public result is an envelope of the contract: the four fields in
  their order, an error exactly when it is not ok, and bounded metadata that names the contract, the
  request and the tool.\<close>

theorem envelope_contract:
  assumes "inv_fresh i \<noteq> []" and "canonicalize_public_result json_loads i r = Inr d"
  shows "envelope_ok i d"
proof -
  have id: "invocation_id i \<noteq> []" using assms(1) by (simp add: invocation_id_def)
  show ?thesis
  proof (cases r)
    case (Result_envelope e)
    with assms(2) id show ?thesis
      by (auto simp: canonicalize_public_result_def split: if_split_asm option.split_asm
          dest!: map_sum_InrD intro: success_ok failed_ok)
  next
    case (Result_value v)
    show ?thesis
    proof (cases "\<exists>d'. v = VDict d' \<or> v = VStr d''")
      case False
      show ?thesis
        using assms(2) id unfolding Result_value
        by (cases v) (auto simp: canonicalize_public_result_def intro: success_ok
            dest!: map_sum_InrD intro: failed_ok canonical_dict_ok canonical_text_ok split: bool.split_asm)
    qed (use assms(2) id Result_value in \<open>auto simp: canonicalize_public_result_def intro: canonical_dict_ok canonical_text_ok\<close>)
  qed
qed
theorem envelope_contract_witness:
  "\<exists>d. canonicalize_public_result (\<lambda>_. None)
       \<lparr>inv_tool = ''ReadMemory'', inv_request = [], inv_fresh = ''id'', inv_identity = []\<rparr>
       (Result_value (VBool False)) = Inr d
     \<and> envelope_ok \<lparr>inv_tool = ''ReadMemory'', inv_request = [], inv_fresh = ''id'', inv_identity = []\<rparr> d
     \<and> dict_get d ''ok'' = VBool False"
proof -
  let ?i = "\<lparr>inv_tool = ''ReadMemory'', inv_request = [], inv_fresh = ''id'', inv_identity = []\<rparr>"
  let ?b = "simple_error ''TOOL_FALSE_RESULT'' ''Tool returned false without an error description.'' None []"
  have c: "canonicalize_public_result (\<lambda>_. None) ?i (Result_value (VBool False)) = Inr (failed ?i [] VNone ?b)"
    by (simp add: canonicalize_public_result_def public_error_from_value_def)
  moreover from c have "envelope_ok ?i (failed ?i [] VNone ?b)" by (rule envelope_contract [rotated]) simp
  moreover have "dict_get (failed ?i [] VNone ?b) ''ok'' = VBool False"
    by (simp add: failed_def envelope_def dict_get_Cons)
  ultimately show ?thesis by blast
qed

subsection \<open>Results without an envelope\<close>

text \<open>The dictionary a result stands for, itself or as JSON text.\<close>

definition result_dict :: "(string \<Rightarrow> (pydict + pyval list) option) \<Rightarrow> tool_result \<Rightarrow> pydict option" where
  "result_dict json_loads r =
     (case r of
        Result_value (VDict d) \<Rightarrow> Some d
      | Result_value (VStr s) \<Rightarrow> (case decode_json json_loads s of Some (Inl d) \<Rightarrow> Some d | _ \<Rightarrow> None)
      | _ \<Rightarrow> None)"

definition reports_failure :: "pydict \<Rightarrow> bool" where
  "reports_failure d \<longleftrightarrow> (if is_canonical d then \<not> truthy (dict_get d ''ok'') else says_failed d)"

lemma public_error_Inl:
  "public_error_from_value (Failed_value (VDict d)) code message status endpoint = Inl e \<longleftrightarrow>
     (\<exists>nested. dict_get d ''error'' = VDict nested \<and> dict_of (py_or (dict_get nested ''details'') (VDict [])) = Inl e)"
proof -
  have "failure_parts_of d message status = Inl e \<longleftrightarrow>
     (\<exists>nested. dict_get d ''error'' = VDict nested \<and> dict_of (py_or (dict_get nested ''details'') (VDict [])) = Inl e)"
    by (cases "dict_get d ''error''") (auto simp: failure_parts_of_def nested_parts_def split: sum.split)
  then show ?thesis
    by (cases "failure_parts_of d message status") (auto simp: public_error_from_value_def)
qed

lemma map_sum_Inl: "map_sum id f x = Inl e \<longleftrightarrow> x = Inl e"
  by (cases x) auto

lemma canonical_dict_Inl:
  "canonical_dict i d = Inl e \<longleftrightarrow> reports_failure d \<and>
     (\<exists>nested. dict_get d ''error'' = VDict nested \<and> dict_of (py_or (dict_get nested ''details'') (VDict [])) = Inl e)"
  unfolding canonical_dict_def reports_failure_def Let_def
  by (simp only: map_sum_Inl public_error_Inl split: if_split) simp

text \<open>A result gets no envelope, so that an exception leaves the boundary, exactly when it is a
  failing dictionary, given directly or as JSON text, whose nested error has details that are not a
  mapping and cannot be read as one.\<close>

lemma envelope_escapes:
  "canonicalize_public_result json_loads i r = Inl e \<longleftrightarrow>
     (\<exists>d nested. result_dict json_loads r = Some d \<and> reports_failure d \<and> dict_get d ''error'' = VDict nested
        \<and> dict_of (py_or (dict_get nested ''details'') (VDict [])) = Inl e)"
proof (cases r)
  case (Result_envelope b)
  then show ?thesis
    by (auto simp: canonicalize_public_result_def result_dict_def map_sum_Inl public_error_from_value_def split: option.split)
next
  case (Result_value v)
  show ?thesis
  proof (cases v)
    case (VDict d)
    then show ?thesis
      unfolding Result_value by (simp add: canonicalize_public_result_def result_dict_def canonical_dict_Inl)
  next
    case (VStr s)
    have plain: "public_error_from_value (Failed_value (VStr s)) c m h p \<noteq> Inl e" for c m h p
      by (auto simp: public_error_from_value_def split: option.split)
    show ?thesis
    proof (cases "decode_json json_loads s")
      case None
      then show ?thesis
        using plain unfolding Result_value VStr
        by (simp add: canonicalize_public_result_def result_dict_def canonical_text_def map_sum_Inl)
    next
      case (Some p)
      then show ?thesis
        unfolding Result_value VStr
        by (cases p) (simp_all add: canonicalize_public_result_def result_dict_def canonical_text_def canonical_dict_Inl)
    qed
  next
    case (VBool b)
    then show ?thesis
      unfolding Result_value
      by (cases b) (simp_all add: canonicalize_public_result_def result_dict_def map_sum_Inl public_error_from_value_def)
  qed (simp_all add: Result_value canonicalize_public_result_def result_dict_def)
qed

subsection \<open>Results that are canonical already\<close>

lemma envelope_error_endpoint:
  "has_key (bridge_error_as_dict b) ''endpoint'' \<longleftrightarrow> be_endpoint b \<noteq> []"
  "has_key (bridge_error_as_dict b) ''errorCode'' \<longleftrightarrow> False"
  by (auto simp: bridge_error_as_dict_def has_key_def split: option.split)

lemma error_dict_fields:
  "dict_get (bridge_error_as_dict b) ''details'' =
     (if be_details b = [] then VNone else json_safe 1200 (VDict (be_details b)))"
  "dict_get (bridge_error_as_dict b) ''retryable'' = VBool (be_retryable b)"
  "dict_get (bridge_error_as_dict b) ''message'' = VStr (be_message b)"
  "dict_get (bridge_error_as_dict b) ''code'' = VStr (be_code b)"
  by (auto simp: bridge_error_as_dict_def dict_get_def dict_get_default_def split: option.split)

text \<open>The dictionary form of a failing bridge envelope is merged, not nested, but its error loses
  the endpoint: the merge reads the endpoint beside the error, while the dictionary keeps it inside.\<close>

lemma nested_endpoint_lost:
  assumes "\<not> env_ok e" and "env_error e = Some b"
  shows "\<exists>data m c. canonicalize_public_result json_loads i (Result_value (VDict (bridge_envelope_as_dict e))) =
      Inr (envelope False data (VDict (bridge_error_as_dict c)) m)
    \<and> be_endpoint c = [] \<and> be_retryable c = be_retryable b \<and> map fst (be_details c) = map fst (be_details b)"
proof -
  let ?d = "bridge_envelope_as_dict e"
  let ?n = "bridge_error_as_dict b"
  have d: "dict_get ?d ''ok'' = VBool False" "dict_get ?d ''error'' = VDict ?n" "is_canonical ?d"
    "dict_get ?d ''endpoint'' = VNone"
    using assms by (simp_all add: bridge_envelope_as_dict_def dict_get_Cons is_canonical_def has_key_def,
        simp add: dict_get_def dict_get_default_def)
  have details: "dict_of (py_or (dict_get ?n ''details'') (VDict [])) =
      Inr (map (\<lambda>(k, v). (k, json_safe 1200 v)) (be_details b))"
    by (cases "be_details b") (auto simp: error_dict_fields py_or_def dict_of_def)
  have "\<exists>parts. failure_parts_of ?d default_message None = Inr parts
    \<and> fst (snd (snd parts)) = map (\<lambda>(k, v). (k, json_safe 1200 v)) (be_details b)
    \<and> snd (snd (snd (snd parts))) = VBool (be_retryable b)"
    unfolding failure_parts_of_def d(2) pyval.case nested_parts_def details sum.case
    by (intro exI conjI, rule refl) (simp_all add: error_dict_fields(2))
  then obtain parts where parts: "failure_parts_of ?d default_message None = Inr parts"
    "fst (snd (snd parts)) = map (\<lambda>(k, v). (k, json_safe 1200 v)) (be_details b)"
    "snd (snd (snd (snd parts))) = VBool (be_retryable b)" by blast
  let ?c = "error_of_parts ?d ''TOOL_ERROR'' None [] parts"
  have "public_error_from_value (Failed_value (VDict ?d)) ''TOOL_ERROR'' default_message None [] = Inr ?c"
    by (simp add: public_error_from_value_def parts(1))
  then have "canonicalize_public_result json_loads i (Result_value (VDict ?d)) =
      Inr (failed i (get_dict ?d ''meta'') (safe_or_none (dict_get ?d ''data'')) ?c)"
    by (simp add: canonicalize_public_result_def canonical_dict_def d)
  moreover have "be_endpoint ?c = []" "be_retryable ?c = be_retryable b" "map fst (be_details ?c) = map fst (be_details b)"
    using parts(2,3) by (auto simp: error_of_parts_def Let_def case_prod_beta d(4) py_or_def comp_def)
  ultimately show ?thesis unfolding failed_def by blast
qed

definition sample_invocation :: invocation where
  "sample_invocation = \<lparr>inv_tool = ''ReadMemory'', inv_request = [], inv_fresh = ''id'', inv_identity = []\<rparr>"

text \<open>An explicit outcome is never changed: a dictionary whose \<open>ok\<close> is true or false becomes an
  envelope with the same \<open>ok\<close>, whatever its other fields say.\<close>

lemma explicit_ok_preserved:
  assumes "dict_get d ''ok'' = VBool b" and "canonicalize_public_result json_loads i (Result_value (VDict d)) = Inr r"
  shows "dict_get r ''ok'' = VBool b"
proof -
  have ok: "dict_get (success i' base data) ''ok'' = VBool True" "dict_get (failed i' base data e) ''ok'' = VBool False"
    for i' base data e by (simp_all add: success_def failed_def envelope_def dict_get_Cons)
  show ?thesis
    using assms unfolding canonicalize_public_result_def canonical_dict_def says_failed_def Let_def
    by (auto simp: ok split: if_split_asm dest!: map_sum_InrD)
qed

subsection \<open>Redaction\<close>

text \<open>Two values that differ only in what lies under sensitive keys.\<close>

fun differ_in_secrets :: "string \<Rightarrow> pyval \<Rightarrow> pyval \<Rightarrow> bool" where
  "differ_in_secrets key (VDict d) (VDict e) =
     (map fst d = map fst e \<and>
      (sensitive_key key \<or> list_all2 (\<lambda>(k, v) (_, w). differ_in_secrets k v w) d e))"
| "differ_in_secrets key (VList xs) (VList ys) =
     (sensitive_key key \<or> list_all2 (differ_in_secrets key) xs ys)"
| "differ_in_secrets key (VTuple xs) (VTuple ys) =
     (sensitive_key key \<or> list_all2 (differ_in_secrets key) xs ys)"
| "differ_in_secrets key v w =
     (v = w \<or> sensitive_key key \<and> \<not> is_dict v \<and> \<not> is_dict w)"

lemma redact_sensitive: "sensitive_key key \<Longrightarrow> \<not> is_dict v \<Longrightarrow> redact key v = redacted"
  by (cases v) auto

lemma map_redacted: "map (\<lambda>(k, v). (k, redacted)) d = map (\<lambda>k. (k, redacted)) (map fst d)"
  by (induction d) auto

text \<open>C32: An audit record shows nothing of a value under a sensitive key: two records that differ only
  in such values, at any depth, are redacted to the same record.\<close>

theorem redaction_hides_secrets:
  assumes "differ_in_secrets key v w"
  shows "redact key v = redact key w"
  using assms
proof (induction key v w rule: differ_in_secrets.induct)
  case (1 key d e)
  show ?case
  proof (cases "sensitive_key key")
    case True
    with 1(2) show ?thesis by (simp add: map_redacted)
  next
    case False
    with 1(2) have "map fst d = map fst e" "list_all2 (\<lambda>(k, v) (_, w). differ_in_secrets k v w) d e" by auto
    moreover from this(2) have "list_all2 (\<lambda>p q. redact (fst p) (snd p) = redact (fst p) (snd q)) d e"
      by (rule list.rel_mono_strong) (use 1(1) [OF _ _ _] in \<open>auto simp: case_prod_beta\<close>)
    moreover have "list_all2 (\<lambda>p q. redact (fst p) (snd p) = redact (fst p) (snd q)) d e
      \<Longrightarrow> map fst d = map fst e \<Longrightarrow> map (\<lambda>(k, v). (k, redact k v)) d = map (\<lambda>(k, v). (k, redact k v)) e"
      by (induction rule: list_all2_induct) (auto simp: case_prod_beta)
    ultimately have "map (\<lambda>(k, v). (k, redact k v)) d = map (\<lambda>(k, v). (k, redact k v)) e" by blast
    with False show ?thesis by simp
  qed
next
  case (2 key xs ys)
  show ?case
  proof (cases "sensitive_key key")
    case False
    with 2(2) have "list_all2 (differ_in_secrets key) xs ys" by simp
    then have "list_all2 (\<lambda>x y. redact key x = redact key y) xs ys"
      using 2(1) by (rule list.rel_mono_strong) auto
    then have "map (redact key) xs = map (redact key) ys" by (simp add: list.rel_eq [symmetric] list.rel_map)
    with False show ?thesis by simp
  qed simp
next
  case (3 key xs ys)
  show ?case
  proof (cases "sensitive_key key")
    case False
    with 3(2) have "list_all2 (differ_in_secrets key) xs ys" by simp
    then have "list_all2 (\<lambda>x y. redact key x = redact key y) xs ys"
      using 3(1) by (rule list.rel_mono_strong) auto
    then have "map (redact key) xs = map (redact key) ys" by (simp add: list.rel_eq [symmetric] list.rel_map)
    with False show ?thesis by simp
  qed simp
qed (auto simp: redact_sensitive)

theorem redaction_hides_secrets_witness:
  "redact [] (VDict [(''headers'', VList [VDict [(''X-Auth-Token'', VStr ''aa'')]])]) =
   redact [] (VDict [(''headers'', VList [VDict [(''X-Auth-Token'', VStr ''bb'')]])])"
proof (rule redaction_hides_secrets)
  have "sensitive_key ''X-Auth-Token''" by code_simp
  then show "differ_in_secrets [] (VDict [(''headers'', VList [VDict [(''X-Auth-Token'', VStr ''aa'')]])])
      (VDict [(''headers'', VList [VDict [(''X-Auth-Token'', VStr ''bb'')]])])" by simp
qed

subsection \<open>Trace pages\<close>

lemma next_cursor_empty:
  "next_cursor page n = Inr c \<Longrightarrow> c = [] \<longleftrightarrow> \<not> truthy (dict_get page ''eventHasMore'') \<and> \<not> truthy (dict_get page ''hitHasMore'')"
  by (auto simp: next_cursor_def split: sum.split_asm if_split_asm dest!: map_sum_InrD)

text \<open>A decorated trace page announces more data exactly when it carries a cursor to continue
  from, and changes no other field of the page.\<close>

lemma page_cursor_iff_more:
  assumes "decorate_page event_limit hit_limit page = Inr r"
  shows "dict_get r ''hasMore'' = VBool (dict_get r ''nextCursor'' \<noteq> VNone)
    \<and> map_of r |` (- {''hasMore'', ''nextCursor'', ''pageSize'', ''requestedPageSize''}) =
      map_of page |` (- {''hasMore'', ''nextCursor'', ''pageSize'', ''requestedPageSize''})"
proof -
  obtain e h c where c: "next_cursor page h = Inr c" and r: "r =
     AList.update ''nextCursor'' (if c = [] then VNone else VDict c)
            (AList.update ''hasMore'' (VBool (truthy (dict_get page ''eventHasMore'') \<or> truthy (dict_get page ''hitHasMore'')))
            (AList.update ''requestedPageSize''
               (VDict [(''events'', VInt (max 0 event_limit)), (''hits'', VInt (max 0 hit_limit))])
            (AList.update ''pageSize'' (VDict [(''events'', VInt e), (''hits'', VInt h)]) page)))"
    using assms unfolding decorate_page_def by (auto split: sum.split_asm)
  have "dict_get r ''hasMore'' = VBool (dict_get r ''nextCursor'' \<noteq> VNone)"
    unfolding r using next_cursor_empty [OF c] by auto
  moreover have "map_of r |` (- {''hasMore'', ''nextCursor'', ''pageSize'', ''requestedPageSize''}) =
      map_of page |` (- {''hasMore'', ''nextCursor'', ''pageSize'', ''requestedPageSize''})"
    unfolding r by (rule ext) (simp add: restrict_map_def update_conv')
  ultimately show ?thesis ..
qed

subsection \<open>Error codes\<close>

text \<open>The public taxonomy: a nonempty text of capitals, digits and underscores.\<close>

definition code_char :: "char \<Rightarrow> bool" where
  "code_char c \<longleftrightarrow> is_digit c \<or> 65 \<le> cp c \<and> cp c \<le> 90 \<or> c = CHR ''_''"

definition code_ok :: "string \<Rightarrow> bool" where
  "code_ok s \<longleftrightarrow> s \<noteq> [] \<and> list_all code_char s"

lemma join_words_chars: "c \<in> set (join_words s) \<Longrightarrow> is_ascii_alnum c \<or> c = CHR ''_''"
  by (induction s rule: join_words.induct) (auto split: if_split_asm)

lemma upper_code_char:
  assumes "is_ascii_alnum c \<or> c = CHR ''_''" "d \<in> set (upper_char c)"
  shows "code_char d"
proof -
  consider "is_digit c" | "65 \<le> cp c \<and> cp c \<le> 90" | "97 \<le> cp c \<and> cp c \<le> 122" | "c = CHR ''_''"
    using assms(1) by (auto simp: is_ascii_alnum_def)
  then show ?thesis
  proof cases
    case 3
    then have "d = char_of (cp c - 32)" using assms(2) by (simp add: upper_char_def)
    with 3 show ?thesis by (auto simp: code_char_def)
  qed (use assms(2) in \<open>auto simp: upper_char_def code_char_def is_digit_def Let_def\<close>)
qed

text \<open>Every canonical error code belongs to the public taxonomy, whatever value it is made from.\<close>

lemma error_code_canonical:
  assumes "code_ok dflt"
  shows "code_ok (canonical_error_code v dflt)"
proof -
  let ?raw = "strip (str_or_empty v)"
  let ?n = "upper (strip_char CHR ''_'' (join_words ?raw))"
  have "list_all code_char ?n"
    using join_words_chars strip_with_set upper_code_char
    by (fastforce simp: list_all_iff upper_def strip_char_def)
  moreover have "code_ok a" if "map_of (code_aliases dflt) n = Some a" for a n
  proof -
    have "(n, a) \<in> set (code_aliases dflt)" using that by (rule map_of_SomeD)
    with assms show ?thesis by (auto simp: code_aliases_def code_ok_def code_char_def is_digit_def)
  qed
  moreover have "http_code ?raw = Some ds \<Longrightarrow> code_ok (''HTTP_'' @ ds)" for ds
    by (auto simp: http_code_def Let_def code_ok_def code_char_def is_digit_def list_all_iff
        split: option.split_asm if_split_asm)
  ultimately show ?thesis
    using assms by (auto simp: canonical_error_code_def Let_def code_ok_def split: option.split)
qed

end
