(* ===== verification/BridgeProps.thy ===== *)
theory BridgeProps
  imports BridgeRequest ResultProps
begin

text \<open>
  Properties of the bridge transport: what a guarded request carries when it leaves, how often one
  leaves, where the guard identity comes from, and what is lost on the way.
\<close>

subsection \<open>The identity of the guard\<close>

lemma header_identity_keys: "dict_get (normalize_identity_for_headers v) ''capabilities'' = VNone"
  by (simp add: normalize_identity_for_headers_def dict_get_Cons dict_get_Nil)

lemma guard_binding_capabilities: "dict_get (guard_binding E s) ''capabilities'' = VNone"
  by (simp add: guard_binding_def header_identity_keys dict_get_Nil split: sum.split)

lemma guard_capabilities: "dict_get (identity_for_guard E s) ''capabilities'' = VNone"
  by (simp add: identity_for_guard_def Let_def guard_binding_capabilities header_identity_keys merge_identity_def
      dict_get_Cons py_or_def)

text \<open>The identity of the guard never carries the capabilities of the bridge, so that the target
  hash is demanded by the protocol version alone: a bridge that announces the guard as a capability
  under an older protocol is not asked for it.\<close>

lemma guard_capabilities_lost:
  "target_hash_required (identity_for_guard E s) \<longleftrightarrow> int_or_0 (dict_get (identity_for_guard E s) ''protocolVersion'') \<ge> 4"
  by (simp add: target_hash_required_def guard_capabilities)

text \<open>A binding is never completed from another bridge or session: when the cached identity names
  a different bridge, or a different session, the guard uses the fields of the binding alone.\<close>

lemma binding_not_mixed:
  assumes "truthy (dict_get (guard_binding E s) ''bridgeInstanceId'')"
    and "let cached = normalize_identity_for_headers (cached_identity s) in
      truthy (dict_get cached ''bridgeInstanceId'')
        \<and> \<not> py_eq (dict_get (guard_binding E s) ''bridgeInstanceId'') (dict_get cached ''bridgeInstanceId'')
      \<or> truthy (dict_get (guard_binding E s) ''sessionId'') \<and> truthy (dict_get cached ''sessionId'')
        \<and> \<not> py_eq (dict_get (guard_binding E s) ''sessionId'') (dict_get cached ''sessionId'')"
  shows "identity_for_guard E s = guard_binding E s"
  using assms by (auto simp: identity_for_guard_def Let_def same_bridge_def same_session_def)

definition sample_env :: guard_env where
  "sample_env = \<lparr>ge_client = ''client'', ge_policy_id = ''policy'', ge_now = ''now'', ge_repair = (\<lambda>t. t),
     ge_image_hash = (\<lambda>_. []), ge_discover = (\<lambda>auth. (''token'', auth))\<rparr>"

text \<open>A session payload with a nested session but no session id anywhere renames the cached
  session to the text None.\<close>

lemma refresh_names_session_none:
  assumes "truthy (dict_get (cached_identity s) ''bridgeInstanceId'')"
    and "dict_get p ''session'' = VDict nested" and "dict_get p ''sessionId'' = VNone"
    and "dict_get nested ''sessionId'' = VNone"
  shows "dict_get (cached_identity (snd (update_identity_from_session E (VDict p) s))) ''sessionId'' = VStr ''None''"
proof -
  have int: "dict_get (set_int k v d) ''sessionId'' = dict_get d ''sessionId''" if "k \<noteq> ''sessionId''" for k v d
    using that by (simp add: set_int_def split: option.split)
  have kept: "dict_get (set_text k g v d) ''sessionId'' = dict_get d ''sessionId''" if "k \<noteq> ''sessionId''" for k g v d
    using that by (simp add: set_text_def)
  have "named_session_id p = ''None''"
    using assms(2-4) by (simp add: named_session_id_def py_or_def py_str_def strip_def strip_with_def py_space_def)
  then have "dict_get (updated_identity E p (cached_identity s)) ''sessionId'' = VStr ''None''"
    unfolding updated_identity_def Let_def by (simp add: int kept) (simp add: set_text_def)
  with assms(1) show ?thesis by (simp add: update_identity_from_session_def cached_identity_def Let_def)
qed

subsection \<open>What a guarded request carries\<close>

text \<open>The headers of a state-changing request name the bridge, the session, its generation and the
  debuggee, and under the strict contract the hash of the target and a positive event sequence.\<close>

definition session_guarded :: "pydict \<Rightarrow> headers \<Rightarrow> bool" where
  "session_guarded identity h \<longleftrightarrow>
     (\<exists>bridge sid generation pid. map_of h ''X-MCP-Bridge-Id'' = Some bridge \<and> bridge \<noteq> []
        \<and> map_of h ''X-MCP-Session-Id'' = Some sid \<and> sid \<noteq> []
        \<and> map_of h ''X-MCP-Session-Generation'' = Some (dec generation) \<and> generation \<noteq> 0
        \<and> map_of h ''X-MCP-Debuggee-Pid'' = Some (dec pid) \<and> pid \<noteq> 0)
     \<and> (target_hash_required identity \<longrightarrow>
         (\<exists>sha event. map_of h ''X-MCP-Debuggee-SHA256'' = Some sha \<and> is_sha256 sha
            \<and> map_of h ''X-MCP-Event-Seq'' = Some (dec event) \<and> event > 0))"

lemma hash_headers_ok:
  assumes "hash_headers E s identity h = Inr (h', None)"
  shows "if target_hash_required identity
    then \<exists>sha. is_sha256 sha \<and> h' = AList.update ''X-MCP-Debuggee-SHA256'' sha h else h' = h"
  using assms unfolding hash_headers_def Let_def
  by (auto split: if_split_asm sum.split_asm option.split_asm)

lemma event_headers_ok:
  assumes "event_headers expected identity h = (h', None)"
  shows "(\<exists>event. h' = AList.update ''X-MCP-Event-Seq'' (dec event) h \<and> (target_hash_required identity \<longrightarrow> event > 0))
    \<or> h' = h \<and> \<not> target_hash_required identity"
  using assms unfolding event_headers_def Let_def by (auto split: if_split_asm)

lemma hash_headers_keep:
  assumes "hash_headers E s identity h = Inr (h', None)" and "k \<noteq> ''X-MCP-Debuggee-SHA256''"
  shows "map_of h' k = map_of h k"
proof (cases "target_hash_required identity")
  case True
  then obtain sha where "h' = AList.update ''X-MCP-Debuggee-SHA256'' sha h"
    using hash_headers_ok [OF assms(1)] by (simp only: if_True) (elim exE conjE)
  with assms(2) show ?thesis by (simp only: update_conv' fun_upd_other not_False_eq_True)
next
  case False
  then show ?thesis using hash_headers_ok [OF assms(1)] by (simp only: if_False)
qed

lemma event_headers_keep:
  assumes "event_headers expected identity h = (h', None)" and "k \<noteq> ''X-MCP-Event-Seq''"
  shows "map_of h' k = map_of h k"
  using event_headers_ok [OF assms(1)]
proof (elim disjE exE conjE)
  fix event
  assume "h' = AList.update ''X-MCP-Event-Seq'' (dec event) h"
  with assms(2) show ?thesis by (simp only: update_conv' fun_upd_other not_False_eq_True)
next
  assume "h' = h"
  then show ?thesis by (simp only:)
qed

lemma session_headers_parts:
  assumes "session_headers E s expected identity h = Inr (h', None)"
  obtains generation pid h1 where "text_of (dict_get identity ''sessionId'') \<noteq> []" "generation \<noteq> 0" "pid \<noteq> 0"
    "hash_headers E s identity (AList.update ''X-MCP-Debuggee-Pid'' (dec pid)
        (AList.update ''X-MCP-Session-Generation'' (dec generation)
          (AList.update ''X-MCP-Session-Id'' (text_of (dict_get identity ''sessionId'')) h))) = Inr (h1, None)"
    "event_headers expected identity h1 = (h', None)"
proof -
  obtain generation where g: "int_or (dict_get identity ''sessionGeneration'') 0 = Inr generation"
    using assms(1) unfolding session_headers_def Let_def
    by (cases "int_or (dict_get identity ''sessionGeneration'') 0") (simp_all only: sum.case sum.distinct)
  obtain pid where p: "int_or (dict_get identity ''debuggeePid'') 0 = Inr pid"
    using assms(1) unfolding session_headers_def Let_def g sum.case
    by (cases "int_or (dict_get identity ''debuggeePid'') 0") (simp_all only: sum.case sum.distinct)
  let ?sid = "text_of (dict_get identity ''sessionId'')"
  have present: "?sid \<noteq> [] \<and> generation \<noteq> 0 \<and> pid \<noteq> 0"
  proof (rule ccontr)
    assume "\<not> ?thesis"
    then have "map fst (filter (\<lambda>(_, present). \<not> present)
               [(''sessionId'', ?sid \<noteq> []), (''sessionGeneration'', generation \<noteq> 0), (''debuggeePid'', pid \<noteq> 0)]) \<noteq> []"
      by auto
    then show False
      using assms(1) unfolding session_headers_def Let_def g p sum.case
      by (simp only: if_True simp_thms sum.inject prod.inject option.distinct)
  qed
  let ?h = "AList.update ''X-MCP-Debuggee-Pid'' (dec pid)
        (AList.update ''X-MCP-Session-Generation'' (dec generation)
          (AList.update ''X-MCP-Session-Id'' (text_of (dict_get identity ''sessionId'')) h))"
  have "map fst (filter (\<lambda>(_, present). \<not> present)
               [(''sessionId'', ?sid \<noteq> []), (''sessionGeneration'', generation \<noteq> 0), (''debuggeePid'', pid \<noteq> 0)]) = []"
    using present by simp
  then have rest: "(case hash_headers E s identity ?h of Inl e \<Rightarrow> Inl e | Inr (h'', Some err) \<Rightarrow> Inr (h'', Some err)
                     | Inr (h'', None) \<Rightarrow> Inr (event_headers expected identity h'')) = Inr (h', None)"
    using assms(1) unfolding session_headers_def Let_def g p sum.case by (simp only: simp_thms if_False)
  show thesis
  proof (cases "hash_headers E s identity ?h")
    case (Inl e)
    with rest show ?thesis by simp
  next
    case (Inr r)
    then show ?thesis using rest that present by (cases r) (auto simp del: One_nat_def split: option.split_asm)
  qed
qed

lemma session_headers_ok:
  assumes "session_headers E s expected identity h = Inr (h', None)"
    and "map_of h ''X-MCP-Bridge-Id'' = Some bridge" and "bridge \<noteq> []"
  shows "session_guarded identity h'"
proof -
  obtain generation pid h1 where present: "text_of (dict_get identity ''sessionId'') \<noteq> []" "generation \<noteq> 0" "pid \<noteq> 0"
    and h1: "hash_headers E s identity (AList.update ''X-MCP-Debuggee-Pid'' (dec pid)
        (AList.update ''X-MCP-Session-Generation'' (dec generation)
          (AList.update ''X-MCP-Session-Id'' (text_of (dict_get identity ''sessionId'')) h))) = Inr (h1, None)"
    "event_headers expected identity h1 = (h', None)"
    using session_headers_parts [OF assms(1)] .
  let ?h = "AList.update ''X-MCP-Debuggee-Pid'' (dec pid)
        (AList.update ''X-MCP-Session-Generation'' (dec generation)
          (AList.update ''X-MCP-Session-Id'' (text_of (dict_get identity ''sessionId'')) h))"
  have base: "map_of ?h ''X-MCP-Bridge-Id'' = Some bridge"
    "map_of ?h ''X-MCP-Session-Id'' = Some (text_of (dict_get identity ''sessionId''))"
    "map_of ?h ''X-MCP-Session-Generation'' = Some (dec generation)" "map_of ?h ''X-MCP-Debuggee-Pid'' = Some (dec pid)"
    using assms(2) by (simp_all add: update_conv')
  have keep: "map_of h' k = map_of ?h k" if "k \<notin> {''X-MCP-Debuggee-SHA256'', ''X-MCP-Event-Seq''}" for k
  proof -
    have k: "k \<noteq> ''X-MCP-Debuggee-SHA256''" "k \<noteq> ''X-MCP-Event-Seq''" using that by simp_all
    show ?thesis by (rule trans [OF event_headers_keep [OF h1(2) k(2)] hash_headers_keep [OF h1(1) k(1)]])
  qed
  have strict: "\<exists>sha event. map_of h' ''X-MCP-Debuggee-SHA256'' = Some sha \<and> is_sha256 sha
      \<and> map_of h' ''X-MCP-Event-Seq'' = Some (dec event) \<and> event > 0" if req: "target_hash_required identity"
  proof -
    obtain sha where "is_sha256 sha" "h1 = AList.update ''X-MCP-Debuggee-SHA256'' sha ?h"
      using hash_headers_ok [OF h1(1)] req by auto
    moreover obtain event where "h' = AList.update ''X-MCP-Event-Seq'' (dec event) h1" "event > 0"
      using event_headers_ok [OF h1(2)] req by auto
    ultimately have "map_of h' ''X-MCP-Debuggee-SHA256'' = Some sha \<and> is_sha256 sha
      \<and> map_of h' ''X-MCP-Event-Seq'' = Some (dec event) \<and> event > 0" by (simp add: update_conv')
    then show ?thesis by blast
  qed
  have "map_of h' ''X-MCP-Bridge-Id'' = Some bridge"
    "map_of h' ''X-MCP-Session-Id'' = Some (text_of (dict_get identity ''sessionId''))"
    "map_of h' ''X-MCP-Session-Generation'' = Some (dec generation)" "map_of h' ''X-MCP-Debuggee-Pid'' = Some (dec pid)"
    using keep base by simp_all
  with present assms(3) strict show ?thesis unfolding session_guarded_def by blast
qed

lemma session_headers_keep:
  assumes "session_headers E s expected identity h = Inr (h', None)"
    and "k \<noteq> ''X-MCP-Session-Id''" "k \<noteq> ''X-MCP-Session-Generation''" "k \<noteq> ''X-MCP-Debuggee-Pid''"
      "k \<noteq> ''X-MCP-Debuggee-SHA256''" "k \<noteq> ''X-MCP-Event-Seq''"
  shows "map_of h' k = map_of h k"
proof -
  obtain generation pid h1 where h1: "hash_headers E s identity (AList.update ''X-MCP-Debuggee-Pid'' (dec pid)
        (AList.update ''X-MCP-Session-Generation'' (dec generation)
          (AList.update ''X-MCP-Session-Id'' (text_of (dict_get identity ''sessionId'')) h))) = Inr (h1, None)"
    "event_headers expected identity h1 = (h', None)"
    using session_headers_parts [OF assms(1)] .
  from event_headers_keep [OF h1(2) assms(6)] hash_headers_keep [OF h1(1) assms(5)] show ?thesis
    using assms(2-4) by (simp only: update_conv' fun_upd_other not_False_eq_True)
qed

lemma identity_for_guard_auth [simp]: "identity_for_guard E (s\<lparr>gs_auth := a\<rparr>) = identity_for_guard E s"
  by (simp add: identity_for_guard_def guard_binding_def get_bound_session_def cached_identity_def)

lemma guard_headers_session:
  assumes "guard_headers E guard rid expected s = (Inr (h, None), s')"
    and "lower (strip (if guard = [] then ''none'' else guard)) \<notin> {''none'', ''bridge''}"
  shows "session_guarded (identity_for_guard E s) h"
proof -
  obtain token auth where d: "ge_discover E (gs_auth s) = (token, auth)" by fastforce
  let ?s = "s\<lparr>gs_auth := auth\<rparr>"
  let ?b = "text_of (dict_get (identity_for_guard E s) ''bridgeInstanceId'')"
  let ?h = "AList.update ''X-MCP-Bridge-Id'' ?b (lease_headers ?s (base_headers E rid token))"
  have "?b \<noteq> [] \<and> session_headers E ?s expected (identity_for_guard E s) ?h = Inr (h, None)"
    using assms unfolding guard_headers_def d Let_def case_prod_conv by (auto split: if_split_asm)
  moreover have "map_of ?h ''X-MCP-Bridge-Id'' = Some ?b" by (simp add: update_conv')
  ultimately show ?thesis using session_headers_ok by blast
qed

subsection \<open>The attempts\<close>

lemma again_same_headers:
  assumes "handle_outcome E T c left h outcome meta s = Again h' s'"
  shows "left > 0 \<and> bc_idempotent c \<and> call_method c = ''GET'' \<or> left > 0 \<and> h' = h"
    and "call_guard T c \<noteq> ''none'' \<Longrightarrow> h' = h"
proof -
  have fin: "finish_data T c status data m s0 \<noteq> Again h' s'" for status data m s0
    by (auto simp: finish_data_def split: pyval.split sum.split)
  have ok: "handle_success E T c status parsed body is_json m s0 \<noteq> Again h' s'" for status parsed body is_json m s0
    using fin by (auto simp: handle_success_def Let_def case_prod_beta split: option.split prod.split)
  show "left > 0 \<and> bc_idempotent c \<and> call_method c = ''GET'' \<or> left > 0 \<and> h' = h"
    using assms ok unfolding handle_outcome_def handle_error_def handle_broken_def reauthenticates_def Let_def
    by (auto split: http_outcome.split_asm if_split_asm)
  show "call_guard T c \<noteq> ''none'' \<Longrightarrow> h' = h"
    using assms ok unfolding handle_outcome_def handle_error_def handle_broken_def reauthenticates_def Let_def
    by (auto split: http_outcome.split_asm if_split_asm)
qed

lemma run_attempts_sent:
  "\<exists>core. snd (snd (run_attempts E T c attempt left h meta s sent)) = sent @ core \<and> length core \<le> Suc left
     \<and> list_all (\<lambda>r. hr_method r = call_method c \<and> hr_endpoint r = call_endpoint c \<and> hr_body r = call_body c
         \<and> (call_guard T c \<noteq> ''none'' \<longrightarrow> hr_headers r = h)) core"
proof (induction left arbitrary: attempt h meta s sent)
  case 0
  show ?case
    by (intro exI [of _ "[http_request_of c h]"])
      (simp add: Let_def http_request_of_def split: attempt_result.split)
next
  case (Suc left)
  let ?sent = "sent @ [http_request_of c h]"
  let ?out = "tr_net T ?sent"
  let ?meta = "attempt_meta attempt ?out meta"
  show ?case
  proof (cases "handle_outcome E T c (Suc left) h ?out ?meta s")
    case (Again h' s')
    obtain core where core: "snd (snd (run_attempts E T c (Suc attempt) left h' ?meta s' ?sent)) = ?sent @ core"
      "length core \<le> Suc left" "list_all (\<lambda>r. hr_method r = call_method c \<and> hr_endpoint r = call_endpoint c \<and> hr_body r = call_body c
         \<and> (call_guard T c \<noteq> ''none'' \<longrightarrow> hr_headers r = h')) core"
      using Suc.IH by meson
    have "call_guard T c \<noteq> ''none'' \<longrightarrow> h' = h" using again_same_headers(2) [OF Again] by blast
    with core Again show ?thesis
      by (intro exI [of _ "http_request_of c h # core"]) (auto simp: Let_def http_request_of_def list_all_iff)
  qed (intro exI [of _ "[http_request_of c h]"], simp add: Let_def http_request_of_def)+
qed

lemma request_core_sent:
  "\<exists>core. snd (snd (request_core E T c s sent)) = sent @ core \<and> length core \<le> Suc (attempts_after_first c)
     \<and> list_all (\<lambda>r. hr_method r = call_method c \<and> hr_endpoint r = call_endpoint c \<and> hr_body r = call_body c
         \<and> (lower (strip (call_guard T c)) \<notin> {[], ''none'', ''bridge''} \<longrightarrow>
              session_guarded (identity_for_guard E s) (hr_headers r))) core"
proof (cases "guard_headers E (call_guard T c) (bc_id c) (bc_expected c) s")
  case (Pair res s')
  show ?thesis
  proof (cases "\<exists>h. res = Inr (h, None)")
    case False
    with Pair show ?thesis by (intro exI [of _ "[]"]) (auto simp: request_core_def split: sum.split option.split)
  next
    case True
    then obtain h where g: "guard_headers E (call_guard T c) (bc_id c) (bc_expected c) s = (Inr (h, None), s')"
      using Pair by auto
    obtain core where core: "snd (snd (run_attempts E T c 1 (attempts_after_first c) h (initial_meta E c) s' sent)) = sent @ core"
      "length core \<le> Suc (attempts_after_first c)"
      "list_all (\<lambda>r. hr_method r = call_method c \<and> hr_endpoint r = call_endpoint c \<and> hr_body r = call_body c
         \<and> (call_guard T c \<noteq> ''none'' \<longrightarrow> hr_headers r = h)) core"
      using run_attempts_sent by meson
    have "session_guarded (identity_for_guard E s) h" if "lower (strip (call_guard T c)) \<notin> {[], ''none'', ''bridge''}"
    proof (rule guard_headers_session [OF g])
      have "call_guard T c \<noteq> []" using that by (auto simp: strip_def strip_with_def lower_def)
      with that show "lower (strip (if call_guard T c = [] then ''none'' else call_guard T c)) \<notin> {''none'', ''bridge''}" by simp
    qed
    moreover have "lower (strip ''none'') = ''none''" by code_simp
    ultimately have "list_all (\<lambda>r. hr_method r = call_method c \<and> hr_endpoint r = call_endpoint c \<and> hr_body r = call_body c
         \<and> (lower (strip (call_guard T c)) \<notin> {[], ''none'', ''bridge''} \<longrightarrow>
              session_guarded (identity_for_guard E s) (hr_headers r))) core"
      using core(3) by (auto simp: list_all_iff)
    with core(1,2) g show ?thesis
      by (intro exI [of _ core]) (auto simp: request_core_def split: prod.split)
  qed
qed
lemma refresh_call_method: "call_method (refresh_call rid) = ''GET''"
  unfolding call_method_def refresh_call_def by code_simp

lemma refresh_call_endpoint: "call_endpoint (refresh_call rid) = ''Debug/SessionState''"
  unfolding call_endpoint_def refresh_call_def by code_simp

definition session_read :: "http_request \<Rightarrow> bool" where
  "session_read r \<longleftrightarrow> hr_method r = ''GET'' \<and> hr_endpoint r = ''Debug/SessionState''"

lemma refresh_identity_sent:
  "\<exists>refresh. snd (refresh_identity E T rid s sent) = sent @ refresh \<and> length refresh \<le> 2 \<and> list_all session_read refresh"
proof -
  obtain core where core: "snd (snd (request_core E T (refresh_call rid) s sent)) = sent @ core"
    "length core \<le> Suc (attempts_after_first (refresh_call rid))"
    "list_all (\<lambda>r. hr_method r = ''GET'' \<and> hr_endpoint r = ''Debug/SessionState'') core"
    using request_core_sent [of E T "refresh_call rid" s sent]
    unfolding refresh_call_method refresh_call_endpoint list_all_iff by blast
  have "attempts_after_first (refresh_call rid) \<le> 1" by (simp add: attempts_after_first_def)
  moreover have "snd (refresh_identity E T rid s sent) = snd (snd (request_core E T (refresh_call rid) s sent))"
    by (auto simp: refresh_identity_def split: prod.split sum.split)
  ultimately show ?thesis using core unfolding session_read_def by (intro exI [of _ core]) simp
qed

text \<open>The state and the requests after the refresh, where there is one.\<close>

definition after_refresh ::
  "guard_env \<Rightarrow> transport \<Rightarrow> string \<Rightarrow> bridge_call \<Rightarrow> guard_state \<Rightarrow> http_request list \<Rightarrow> guard_state \<times> http_request list" where
  "after_refresh E T rid c s sent = (if needs_refresh E T c s then refresh_identity E T rid s sent else (s, sent))"

lemma after_refresh_sent:
  "\<exists>refresh. snd (after_refresh E T rid c s sent) = sent @ refresh
     \<and> length refresh \<le> (if needs_refresh E T c s then 2 else 0) \<and> list_all session_read refresh"
  using refresh_identity_sent [of E T rid s sent] by (simp add: after_refresh_def)

lemma bridge_request_sent:
  "\<exists>refresh core. snd (snd (bridge_request E T rid c s sent)) = sent @ refresh @ core
     \<and> length refresh \<le> (if needs_refresh E T c s then 2 else 0) \<and> list_all session_read refresh
     \<and> length core \<le> Suc (attempts_after_first c)
     \<and> list_all (\<lambda>r. hr_method r = call_method c \<and> hr_endpoint r = call_endpoint c \<and> hr_body r = call_body c
         \<and> (lower (strip (call_guard T c)) \<notin> {[], ''none'', ''bridge''} \<longrightarrow>
              session_guarded (identity_for_guard E (fst (after_refresh E T rid c s sent))) (hr_headers r))) core"
proof (cases "call_method c \<notin> {''GET'', ''POST''} \<or> call_endpoint c = []")
  case True
  then have "snd (snd (bridge_request E T rid c s sent)) = sent" unfolding bridge_request_def by (simp only: if_True snd_conv)
  then show ?thesis by (intro exI [of _ "[]"]) simp
next
  case False
  obtain s1 sent1 where a: "after_refresh E T rid c s sent = (s1, sent1)" by fastforce
  from False have run: "bridge_request E T rid c s sent = request_core E T c s1 sent1"
    using a unfolding bridge_request_def after_refresh_def by (simp only: if_False prod.case Let_def)
  obtain refresh where "sent1 = sent @ refresh" "length refresh \<le> (if needs_refresh E T c s then 2 else 0)"
    "list_all session_read refresh"
    using after_refresh_sent [of E T rid c s sent] unfolding a snd_conv by blast
  with request_core_sent [of E T c s1 sent1] show ?thesis unfolding run a fst_conv append_assoc [symmetric] by blast
qed

text \<open>C30: A call sends a bounded number of requests: at most two reads of the session state, only when
  the guard needs a fresh identity, and then its own request, once, or at most twice when the call is
  an idempotent GET. A mutation leaves at most once.\<close>

theorem requests_bounded:
  "\<exists>refresh core. snd (snd (bridge_request E T rid c s sent)) = sent @ refresh @ core
     \<and> length refresh \<le> (if needs_refresh E T c s then 2 else 0)
     \<and> list_all session_read refresh
     \<and> length core \<le> (if bc_idempotent c \<and> call_method c = ''GET'' then 2 else 1)
     \<and> list_all (\<lambda>r. hr_method r = call_method c \<and> hr_endpoint r = call_endpoint c) core"
proof -
  have "Suc (attempts_after_first c) = (if bc_idempotent c \<and> call_method c = ''GET'' then 2 else 1)"
    by (simp add: attempts_after_first_def)
  moreover obtain refresh core where "snd (snd (bridge_request E T rid c s sent)) = sent @ refresh @ core"
    "length refresh \<le> (if needs_refresh E T c s then 2 else 0)" "list_all session_read refresh"
    "length core \<le> Suc (attempts_after_first c)"
    "list_all (\<lambda>r. hr_method r = call_method c \<and> hr_endpoint r = call_endpoint c) core"
    using bridge_request_sent [of E T rid c s sent] unfolding list_all_iff by blast
  ultimately show ?thesis by (intro exI [of _ refresh] exI [of _ core]) (simp only: simp_thms)
qed

lemma session_guard_sent:
  assumes "call_guard T c = ''session''"
  shows "\<exists>refresh core. snd (snd (bridge_request E T rid c s sent)) = sent @ refresh @ core
     \<and> list_all session_read refresh
     \<and> list_all (\<lambda>r. session_guarded (identity_for_guard E (fst (after_refresh E T rid c s sent))) (hr_headers r)) core"
proof -
  have "lower (strip (call_guard T c)) = ''session''" unfolding assms by code_simp
  then have "lower (strip (call_guard T c)) \<notin> {[], ''none'', ''bridge''}" by (simp only:) simp
  with bridge_request_sent [of E T rid c s sent] show ?thesis unfolding list_all_iff by meson
qed

text \<open>Under a session guard no request of the call itself leaves without the identity it is meant
  for: its headers name the bridge, the session, a generation and a debuggee, and where the bridge
  demands the target hash also a well-formed hash and a positive event sequence. All of them come from
  the identity read after the refresh.\<close>

lemma session_requests_guarded:
  assumes "call_guard T c = ''session''"
  shows "\<exists>refresh core. snd (snd (bridge_request E T rid c s sent)) = sent @ refresh @ core
     \<and> list_all session_read refresh
     \<and> list_all (\<lambda>r. session_guarded (identity_for_guard E (fst (after_refresh E T rid c s sent))) (hr_headers r)) core"
  using assms by (rule session_guard_sent)

definition sample_call :: bridge_call where
  "sample_call = \<lparr>bc_method = ''POST'', bc_endpoint = ''/Debug/StepIn'', bc_params = [], bc_form = VNone,
     bc_json = VNone, bc_guard = [], bc_expected = Some 3, bc_idempotent = False, bc_id = ''r''\<rparr>"

definition sample_net :: transport where
  "sample_net = \<lparr>tr_net = (\<lambda>_. Reply 200 (Some (VDict [(''ok'', VBool True)])) [] True),
     tr_policy = [(''/Debug/StepIn'', ''session'')], tr_exn_text = (\<lambda>_. [])\<rparr>"

end
