(* ===== verification/RoutePolicy.thy ===== *)
theory RoutePolicy
  imports PyValue
begin

text \<open>
  The parser of the route guard manifest, \<open>mcp_runtime/route_policy.py\<close>. Its input is the decoded
  text of the manifest; the identifier is the digest of the raw bytes and is not read here.
\<close>

subsection \<open>Lines\<close>

text \<open>\<open>str.splitlines\<close>: a carriage return with a following line feed is one break.\<close>

definition line_break :: "char \<Rightarrow> bool" where
  "line_break c \<longleftrightarrow> cp c \<in> {10, 11, 12, 13, 28, 29, 30, 133}"

fun split_lines :: "string \<Rightarrow> string \<Rightarrow> string list" where
  "split_lines acc [] = (if acc = [] then [] else [rev acc])"
| "split_lines acc (c # s) =
     (if cp c = 13 \<and> s \<noteq> [] \<and> cp (hd s) = 10 then rev acc # split_lines [] (tl s)
      else if line_break c then rev acc # split_lines [] s
      else split_lines (c # acc) s)"

subsection \<open>Rows\<close>

definition path_char :: "char \<Rightarrow> bool" where
  "path_char c \<longleftrightarrow> is_ascii_alnum c \<or> c = CHR ''_'' \<or> c = CHR ''/''"

definition guard_words :: "string list" where
  "guard_words = [''NONE'', ''BRIDGE'', ''SESSION'', ''EXEC_DYNAMIC'']"

definition row_head :: string where
  "row_head = ''MCP_ROUTE(\"/''"

definition row_guard :: "string \<Rightarrow> string option" where
  "row_guard s = find (\<lambda>g. s = g @ '')'') guard_words"

definition route_row :: "string \<Rightarrow> (string \<times> string) option" where
  "route_row line =
     (if starts_with line row_head
      then (let rest = drop (length row_head) line; path = takeWhile path_char rest; rest = dropWhile path_char rest in
            if path \<noteq> [] \<and> starts_with rest ''\",''
            then map_option (Pair (CHR ''/'' # path)) (row_guard (dropWhile py_space (drop 2 rest)))
            else None)
      else None)"

text \<open>A blank line or a comment.\<close>

definition skipped_line :: "string \<Rightarrow> bool" where
  "skipped_line line \<longleftrightarrow> line = [] \<or> starts_with line ''//''"

datatype route_error =
    Invalid_row nat string
  | Duplicate_route string
  | Empty_policy

fun read_rows :: "nat \<Rightarrow> string list \<Rightarrow> (string \<times> string) list \<Rightarrow> route_error + (string \<times> string) list" where
  "read_rows n [] rows = Inr rows"
| "read_rows n (raw # lines) rows =
     (let line = strip raw in
      if skipped_line line then read_rows (Suc n) lines rows
      else (case route_row line of
              None \<Rightarrow> Inl (Invalid_row n line)
            | Some (route, guard) \<Rightarrow>
                (if map_of rows route \<noteq> None then Inl (Duplicate_route route)
                 else read_rows (Suc n) lines (rows @ [(route, casefold guard)]))))"

definition load_route_policy :: "string \<Rightarrow> route_error + (string \<times> string) list" where
  "load_route_policy text =
     (case read_rows 1 (split_lines [] text) [] of
        Inl e \<Rightarrow> Inl e
      | Inr rows \<Rightarrow> (if rows = [] then Inl Empty_policy else Inr rows))"

end
