(* ===== verification/RouteProps.thy ===== *)
theory RouteProps
  imports RoutePolicy
begin

text \<open>
  Properties of the route manifest parser: which manifests are accepted and with which rows, and
  that an accepted policy printed as a manifest is read back unchanged.
\<close>

subsection \<open>What is accepted\<close>

definition rows_of :: "string list \<Rightarrow> (string \<times> string) option list" where
  "rows_of lines = map route_row (filter (\<lambda>l. \<not> skipped_line l) (map strip lines))"

definition lowered :: "(string \<times> string) list \<Rightarrow> (string \<times> string) list" where
  "lowered rows = map (\<lambda>(r, g). (r, casefold g)) rows"

lemma lowered_simps [simp]: "lowered [] = []" "lowered (x # xs) = (fst x, casefold (snd x)) # lowered xs"
  "map fst (lowered xs) = map fst xs"
  by (simp_all add: lowered_def case_prod_beta)

lemma rows_of_simps [simp]: "rows_of [] = []"
  "rows_of (l # ls) = (if skipped_line (strip l) then rows_of ls else route_row (strip l) # rows_of ls)"
  by (simp_all add: rows_of_def)

lemma read_rows_iff:
  "distinct (map fst acc) \<Longrightarrow> read_rows n lines acc = Inr rows \<longleftrightarrow>
     (\<exists>new. rows_of lines = map Some new \<and> distinct (map fst (acc @ new)) \<and> rows = acc @ lowered new)"
proof (induction lines arbitrary: n acc)
  case (Cons raw lines)
  show ?case
  proof (cases "skipped_line (strip raw)")
    case False
    show ?thesis
    proof (cases "route_row (strip raw)")
      case (Some rg)
      obtain r g where rg: "rg = (r, g)" by fastforce
      have fresh: "map_of acc r \<noteq> None \<longleftrightarrow> r \<in> set (map fst acc)" by (simp add: map_of_eq_None_iff)
      show ?thesis
      proof (cases "r \<in> set (map fst acc)")
        case True
        then show ?thesis using False Some rg fresh by (auto simp: Cons_eq_map_conv)
      next
        case new: False
        then have "distinct (map fst (acc @ [(r, casefold g)]))" using Cons.prems by simp
        note IH = Cons.IH [OF this, of "Suc n"]
        have "read_rows n (raw # lines) acc = read_rows (Suc n) lines (acc @ [(r, casefold g)])"
          using False Some rg new fresh by (simp add: Let_def)
        with IH False Some rg show ?thesis by (fastforce simp: Cons_eq_map_conv)
      qed
    qed (use False in \<open>auto simp: Let_def\<close>)
  qed (use Cons in \<open>simp add: Let_def\<close>)
qed auto

text \<open>A manifest is accepted exactly when it has a row, every line that is neither blank nor a comment
  is a row, and no route is named twice; the policy then has the rows in their order.\<close>

lemma policy_loads_iff:
  "load_route_policy t = Inr rows \<longleftrightarrow>
     (\<exists>new. rows_of (split_lines [] t) = map Some new \<and> new \<noteq> [] \<and> distinct (map fst new) \<and> rows = lowered new)"
  using read_rows_iff [of "[]" 1 "split_lines [] t"]
  by (auto simp: load_route_policy_def lowered_def split: sum.split)

subsection \<open>Reading back\<close>

definition policy_guards :: "string list" where
  "policy_guards = [''none'', ''bridge'', ''session'', ''exec_dynamic'']"

definition policy_row_ok :: "string \<times> string \<Rightarrow> bool" where
  "policy_row_ok rg \<longleftrightarrow> (\<exists>path. fst rg = CHR ''/'' # path \<and> path \<noteq> [] \<and> list_all path_char path) \<and> snd rg \<in> set policy_guards"

definition print_row :: "string \<times> string \<Rightarrow> string" where
  "print_row rg = row_head @ tl (fst rg) @ ''\", '' @ upper (snd rg) @ '')''"

definition print_policy :: "(string \<times> string) list \<Rightarrow> string" where
  "print_policy rows = concat (map (\<lambda>rg. print_row rg @ [CHR 0x0A]) rows)"

lemma row_guard_words: "row_guard s = Some g \<Longrightarrow> g \<in> set guard_words"
  by (auto simp: row_guard_def find_Some_iff)

lemma casefold_guards: "g \<in> set guard_words \<Longrightarrow> casefold g \<in> set policy_guards"
proof -
  have "list_all (\<lambda>g. casefold g \<in> set policy_guards) guard_words" by code_simp
  then show "g \<in> set guard_words \<Longrightarrow> casefold g \<in> set policy_guards" by (simp only: list_all_iff)
qed

lemma guard_printed: "g \<in> set policy_guards \<Longrightarrow>
    row_guard (upper g @ '')'') = Some (upper g) \<and> casefold (upper g) = g \<and> dropWhile py_space (CHR '' '' # upper g @ '')'') = upper g @ '')''
    \<and> list_all (\<lambda>c. \<not> line_break c) (upper g)"
proof -
  have "list_all (\<lambda>g. row_guard (upper g @ '')'') = Some (upper g) \<and> casefold (upper g) = g
      \<and> dropWhile py_space (CHR '' '' # upper g @ '')'') = upper g @ '')'' \<and> list_all (\<lambda>c. \<not> line_break c) (upper g)) policy_guards" by code_simp
  then show ?thesis if "g \<in> set policy_guards" using that unfolding list_all_iff by (rule bspec)
qed

lemma policy_row_okI:
  assumes "path \<noteq> []" and "list_all path_char path" and "map_option (Pair (CHR ''/'' # path)) (row_guard s) = Some rg"
  shows "policy_row_ok (fst rg, casefold (snd rg))"
proof (cases "row_guard s")
  case (Some w)
  with assms(3) have "rg = (CHR ''/'' # path, w)" by simp
  with assms(1,2) casefold_guards [OF row_guard_words [OF Some]] show ?thesis
    unfolding policy_row_ok_def by (simp only: fst_conv snd_conv list.inject simp_thms)
qed (use assms(3) in simp)

lemma route_row_ok:
  assumes "route_row line = Some rg"
  shows "policy_row_ok (fst rg, casefold (snd rg))"
proof -
  let ?rest = "drop (length row_head) line"
  let ?after = "dropWhile path_char ?rest"
  have head: "starts_with line row_head" using assms unfolding route_row_def by (rule contrapos_pp) (simp only: if_False option.distinct simp_thms)
  have path: "takeWhile path_char ?rest \<noteq> [] \<and> starts_with ?after ''\",''"
    using assms unfolding route_row_def Let_def by (rule contrapos_pp) (simp only: if_False if_cancel option.distinct simp_thms)
  then have g: "map_option (Pair (CHR ''/'' # takeWhile path_char ?rest)) (row_guard (dropWhile py_space (drop 2 ?after))) = Some rg"
    using assms unfolding route_row_def Let_def by (simp only: head if_True simp_thms)
  have "list_all path_char (takeWhile path_char ?rest)" unfolding list_all_iff using set_takeWhileD by fast
  from policy_row_okI [OF conjunct1 [OF path] this g] show ?thesis .
qed

lemma starts_with_append: "starts_with (s @ t) s"
  by (induction s) simp_all

lemma route_row_print:
  assumes "policy_row_ok rg"
  shows "\<exists>w. route_row (print_row rg) = Some (fst rg, w) \<and> casefold w = snd rg"
proof -
  obtain path where p: "fst rg = CHR ''/'' # path" "path \<noteq> []" "list_all path_char path" and g: "snd rg \<in> set policy_guards"
    using assms unfolding policy_row_ok_def by blast
  let ?tail = "''\", '' @ upper (snd rg) @ '')''"
  have line: "print_row rg = row_head @ path @ ?tail" unfolding print_row_def p(1) list.sel ..
  have stop: "\<not> path_char (CHR ''\"'')" by code_simp
  have head: "drop (length row_head) (row_head @ x) = x" for x by simp
  have split: "takeWhile path_char (path @ ?tail) = path" "dropWhile path_char (path @ ?tail) = ?tail"
    using p(3) stop by (simp_all add: list_all_iff)
  have "drop 2 ?tail = CHR '' '' # upper (snd rg) @ '')''" by simp
  moreover have "starts_with ?tail ''\",''" by simp
  ultimately have "route_row (print_row rg) = Some (CHR ''/'' # path, upper (snd rg))"
    unfolding route_row_def line Let_def using p(2) guard_printed [OF g]
    by (simp only: starts_with_append if_True head split simp_thms option.map)
  with p(1) guard_printed [OF g] show ?thesis by simp
qed

lemma path_char_plain: "path_char c \<Longrightarrow> \<not> line_break c"
  by (auto simp: path_char_def line_break_def is_ascii_alnum_def is_digit_def)

lemma print_row_plain:
  assumes "policy_row_ok rg"
  shows "list_all (\<lambda>c. \<not> line_break c) (print_row rg)"
proof -
  obtain path where p: "fst rg = CHR ''/'' # path" "list_all path_char path" and g: "snd rg \<in> set policy_guards"
    using assms unfolding policy_row_ok_def by blast
  have "list_all (\<lambda>c. \<not> line_break c) path" using p(2) path_char_plain by (rule list.pred_mono_strong)
  moreover have "list_all (\<lambda>c. \<not> line_break c) (row_head @ ''\", '' @ '')'')" by code_simp
  ultimately show ?thesis using guard_printed [OF g] unfolding print_row_def p(1) list.sel by (simp only: list_all_append simp_thms)
qed

lemma split_lines_line:
  "list_all (\<lambda>c. \<not> line_break c) s \<Longrightarrow> split_lines acc (s @ CHR 0x0A # t) = (rev acc @ s) # split_lines [] t"
proof (induction s arbitrary: acc)
  case Nil
  have "line_break (CHR 0x0A)" "cp (CHR 0x0A) \<noteq> 13" by code_simp+
  then show ?case by simp
next
  case (Cons c s)
  then have "cp c \<noteq> 13" by (auto simp: line_break_def)
  with Cons show ?case by simp
qed

lemma split_printed: "list_all policy_row_ok rows \<Longrightarrow> split_lines [] (print_policy rows) = map print_row rows"
proof (induction rows)
  case (Cons rg rows)
  then have "split_lines [] (print_row rg @ CHR 0x0A # print_policy rows) = print_row rg # split_lines [] (print_policy rows)"
    by (simp add: split_lines_line print_row_plain)
  with Cons show ?case by (simp add: print_policy_def)
qed (simp add: print_policy_def)

lemma print_row_read:
  assumes "policy_row_ok rg"
  shows "strip (print_row rg) = print_row rg \<and> \<not> skipped_line (print_row rg)"
proof -
  have ends: "print_row rg = CHR ''M'' # (tl row_head @ tl (fst rg) @ ''\", '' @ upper (snd rg)) @ [CHR '')'']"
    by (simp add: print_row_def row_head_def)
  have "\<not> py_space (CHR ''M'')" "\<not> py_space (CHR '')'')" by code_simp+
  then have "strip (print_row rg) = print_row rg" unfolding ends strip_def strip_with_def by simp
  moreover have "\<not> skipped_line (print_row rg)" unfolding ends skipped_line_def by simp
  ultimately show ?thesis ..
qed

lemma rows_of_printed:
  "list_all policy_row_ok rows \<Longrightarrow> \<exists>new. rows_of (map print_row rows) = map Some new \<and> map fst new = map fst rows \<and> lowered new = rows"
proof (induction rows)
  case (Cons rg rows)
  then obtain new where new: "rows_of (map print_row rows) = map Some new" "map fst new = map fst rows" "lowered new = rows" by auto
  from Cons.prems have ok: "policy_row_ok rg" by simp
  then obtain w where w: "route_row (print_row rg) = Some (fst rg, w)" "casefold w = snd rg" using route_row_print by blast
  have "rows_of (map print_row (rg # rows)) = map Some ((fst rg, w) # new)"
    using print_row_read [OF ok] w(1) new(1) by simp
  with w(2) new show ?case by (intro exI [of _ "(fst rg, w) # new"]) simp
qed simp

lemma rows_of_ok: "rows_of lines = map Some new \<Longrightarrow> list_all policy_row_ok (lowered new)"
proof (induction lines arbitrary: new)
  case (Cons l lines)
  show ?case
  proof (cases "skipped_line (strip l)")
    case False
    with Cons.prems obtain rg rest where "new = rg # rest" "route_row (strip l) = Some rg" "rows_of lines = map Some rest"
      by (auto simp: Cons_eq_map_conv)
    with Cons.IH route_row_ok show ?thesis by simp
  qed (use Cons in simp)
qed simp

lemma loaded_rows_ok: "load_route_policy t = Inr rows \<Longrightarrow> list_all policy_row_ok rows"
  using rows_of_ok unfolding policy_loads_iff by blast

lemma loaded_rows_distinct: "load_route_policy t = Inr rows \<Longrightarrow> rows \<noteq> [] \<and> distinct (map fst rows)"
proof -
  assume "load_route_policy t = Inr rows"
  then obtain new where "new \<noteq> []" "distinct (map fst new)" "rows = lowered new" unfolding policy_loads_iff by blast
  then show ?thesis by (cases new) simp_all
qed

text \<open>C33: A loaded policy has only rooted paths and the four guards, and printed as a manifest it is loaded
  again unchanged.\<close>

theorem policy_reads_back:
  assumes "load_route_policy t = Inr rows"
  shows "list_all policy_row_ok rows \<and> load_route_policy (print_policy rows) = Inr rows"
proof -
  have ok: "list_all policy_row_ok rows" by (rule loaded_rows_ok [OF assms])
  obtain new where "rows_of (split_lines [] (print_policy rows)) = map Some new" "map fst new = map fst rows" "lowered new = rows"
    using rows_of_printed [OF ok] unfolding split_printed [OF ok] by blast
  moreover have "rows \<noteq> []" "distinct (map fst rows)" using loaded_rows_distinct [OF assms] by simp_all
  ultimately have "load_route_policy (print_policy rows) = Inr rows" unfolding policy_loads_iff by (intro exI [of _ new]) auto
  with ok show ?thesis ..
qed

theorem policy_reads_back_witness:
  "list_all policy_row_ok [(''/Debug/Run'', ''session'')]
     \<and> load_route_policy (print_policy [(''/Debug/Run'', ''session'')]) = Inr [(''/Debug/Run'', ''session'')]"
proof (rule policy_reads_back)
  show "load_route_policy (''// guards'' @ [CHR 0x0D, CHR 0x0A] @ ''  MCP_ROUTE(\"/Debug/Run\",SESSION)'') = Inr [(''/Debug/Run'', ''session'')]"
    by code_simp
qed

end
