(* ===== verification/Evidence.thy ===== *)
theory Evidence
  imports Contracts "HOL-Library.Product_Lexorder"
begin

text \<open>
  Portable analysis evidence: the validation and normalization of a document, from
  \<open>runtime_sections/60_evidence_and_managed.py\<close> (\<open>_analysis_validate_document\<close>). A message is the
  pair of the path it is about and its text. Reading the document from a file is not modelled: the
  document is the decoded JSON object.
\<close>

type_synonym messages = "(string \<times> string) list"

subsection \<open>Fields\<close>

definition evidence_rva :: "pyval \<Rightarrow> int \<Rightarrow> string \<Rightarrow> bool \<Rightarrow> string + int" where
  "evidence_rva v sz name allow_end =
     (if is_bool v then Inl (name @ '' must be an integer RVA'')
      else (case parse_int v None of
              None \<Rightarrow> Inl (name @ '' is outside the module image'')
            | Some i \<Rightarrow>
                (if i < 0 \<or> i \<ge> sz + (if allow_end then 1 else 0) then Inl (name @ '' is outside the module image'')
                 else Inr i)))"

definition utf8_length :: "string \<Rightarrow> nat" where
  "utf8_length s = sum_list (map (\<lambda>c. if cp c < 128 then 1 else 2) s)"

definition evidence_text :: "pyval \<Rightarrow> string \<Rightarrow> nat \<Rightarrow> string + string" where
  "evidence_text v name limit =
     (case v of
        VStr s \<Rightarrow>
          (if strip s = [] then Inl (name @ '' cannot be empty'')
           else if CHR 0x00 \<in> set s then Inl (name @ '' cannot contain NUL'')
           else if utf8_length s > limit then Inl (name @ '' exceeds '' @ dec (int limit) @ '' UTF-8 bytes'')
           else Inr s)
      | _ \<Rightarrow> Inl (name @ '' must be a string''))"

definition read_manual :: "string \<Rightarrow> pydict \<Rightarrow> string + pydict" where
  "read_manual path d =
     (if has_key d ''manual'' \<and> \<not> is_bool (dict_get d ''manual'') then Inl (path @ ''.manual must be a boolean'')
      else Inr (AList.update ''manual'' (VBool (truthy (dict_get_default d ''manual'' (VBool True)))) d))"

definition read_byte :: "string \<Rightarrow> string \<Rightarrow> pydict \<Rightarrow> string + pydict" where
  "read_byte path name d =
     (case parse_int (dict_get d name) None of
        None \<Rightarrow> Inl (path @ ''.'' @ name @ '' must be a byte'')
      | Some b \<Rightarrow> (if 0 \<le> b \<and> b \<le> 255 then Inr (AList.update name (VInt b) d)
                   else Inl (path @ ''.'' @ name @ '' must be a byte'')))"

definition read_positive :: "string \<Rightarrow> string \<Rightarrow> int option \<Rightarrow> pydict \<Rightarrow> string + pydict" where
  "read_positive path name dflt d =
     (case parse_int (dict_get d name) dflt of
        None \<Rightarrow> Inl (path @ ''.'' @ name @ '' must be positive'')
      | Some n \<Rightarrow> (if n \<le> 0 then Inl (path @ ''.'' @ name @ '' must be positive'')
                   else Inr (AList.update name (VInt n) d)))"

definition breakpoint_types :: "string list" where
  "breakpoint_types = [''normal'', ''hardware'', ''memory'', ''dll'', ''exception'']"

definition read_type :: "string \<Rightarrow> pydict \<Rightarrow> string + pydict" where
  "read_type path d =
     (let t = lower (py_str (py_or (dict_get d ''type'') (VStr ''normal''))) in
      if t \<in> set breakpoint_types then Inr (AList.update ''type'' (VStr t) d)
      else Inl (path @ ''.type is unsupported''))"

definition read_text :: "string \<Rightarrow> string \<Rightarrow> nat \<Rightarrow> pydict \<Rightarrow> string + pydict" where
  "read_text path name limit d =
     sum_bind (evidence_text (dict_get d name) (path @ ''.'' @ name) limit) (\<lambda>s. Inr (AList.update name (VStr s) d))"

subsection \<open>Items\<close>

definition read_kind :: "string \<Rightarrow> string \<Rightarrow> pydict \<Rightarrow> string + pydict" where
  "read_kind key path d =
     (if key = ''labels'' then read_text path ''text'' 255 d
      else if key = ''comments'' then read_text path ''text'' 511 d
      else if key = ''breakpoints'' then read_type path d
      else if key = ''patches'' then sum_bind (read_byte path ''oldByte'' d) (read_byte path ''newByte'')
      else if key = ''nativeTraceHits'' then read_positive path ''hits'' None d
      else if key = ''apiCallsites'' then sum_bind (read_text path ''api'' 512 d) (read_positive path ''count'' (Some 1))
      else Inr d)"

definition read_item :: "string \<Rightarrow> int \<Rightarrow> string \<Rightarrow> pydict \<Rightarrow> string + pydict" where
  "read_item key sz path d =
     sum_bind (evidence_rva (dict_get d ''rva'') sz (path @ ''.rva'') False) (\<lambda>rva.
     sum_bind (read_kind key path (AList.update ''rva'' (VInt rva) d)) (read_manual path))"

text \<open>The inclusive end of a function, from the first of the three fields that is given.\<close>

definition function_end :: "int \<Rightarrow> string \<Rightarrow> pydict \<Rightarrow> string + int" where
  "function_end sz path d =
     (if \<not> none_or_empty (dict_get d ''rvaEndInclusive'')
      then evidence_rva (dict_get d ''rvaEndInclusive'') sz (path @ ''.rvaEndInclusive'') False
      else if \<not> none_or_empty (dict_get d ''rvaEnd'')
      then evidence_rva (dict_get d ''rvaEnd'') sz (path @ ''.rvaEnd'') False
      else sum_bind (evidence_rva (dict_get d ''endRvaExclusive'') sz (path @ ''.endRvaExclusive'') True) (\<lambda>e.
             if e \<le> 0 then Inl (path @ ''.endRvaExclusive must be greater than zero'') else Inr (e - 1)))"

definition read_function :: "int \<Rightarrow> string \<Rightarrow> pydict \<Rightarrow> string + pydict" where
  "read_function sz path d =
     sum_bind (evidence_rva (dict_get d ''rvaStart'') sz (path @ ''.rvaStart'') False) (\<lambda>start.
     sum_bind (function_end sz path d) (\<lambda>last.
     if last < start then Inl (path @ '' has an end before its start'')
     else (let count = int_or_0 (dict_get d ''instructionCount'') in
       if count < 0 \<or> count > 10000000 then Inl (path @ ''.instructionCount is invalid'')
       else if has_key d ''manual'' \<and> \<not> is_bool (dict_get d ''manual'') then Inl (path @ ''.manual must be a boolean'')
       else Inr (AList.update ''endConvention'' (VStr ''inclusive'')
              (AList.update ''manual'' (VBool (truthy (dict_get_default d ''manual'' (VBool True))))
                (AList.update ''instructionCount'' (VInt count)
                  (AList.update ''rvaEndInclusive'' (VInt last) (AList.update ''rvaStart'' (VInt start) d))))))))"

subsection \<open>Arrays\<close>

definition item_path :: "string \<Rightarrow> nat \<Rightarrow> string" where
  "item_path key n = ''evidence.'' @ key @ ''['' @ dec (int n) @ '']''"

fun read_items :: "(string \<Rightarrow> pydict \<Rightarrow> string + pydict) \<Rightarrow> string \<Rightarrow> nat \<Rightarrow> pyval list \<Rightarrow> pydict list \<times> messages" where
  "read_items rd key n [] = ([], [])"
| "read_items rd key n (v # vs) =
     (let (items, errors) = read_items rd key (Suc n) vs in
      case (case v of VDict d \<Rightarrow> rd (item_path key n) d | _ \<Rightarrow> Inl ''Expected an object'') of
        Inl e \<Rightarrow> (items, (item_path key n, e) # errors)
      | Inr d \<Rightarrow> (d # items, errors))"

definition array_of :: "string \<Rightarrow> pydict \<Rightarrow> pyval list \<times> messages" where
  "array_of key evidence =
     (case dict_get_default evidence key (VList []) of
        VList vs \<Rightarrow> (vs, [])
      | _ \<Rightarrow> ([], [(''evidence.'' @ key, ''Expected an array'')]))"

definition read_array :: "(string \<Rightarrow> pydict \<Rightarrow> string + pydict) \<Rightarrow> string \<Rightarrow> pydict \<Rightarrow> nat \<times> pydict list \<times> messages" where
  "read_array rd key evidence =
     (let (vs, e1) = array_of key evidence; (items, e2) = read_items rd key 0 vs in (length vs, items, e1 @ e2))"

subsection \<open>Duplicates\<close>

definition int_field :: "string \<Rightarrow> pydict \<Rightarrow> int" where
  "int_field k d = (case dict_get d k of VInt i \<Rightarrow> i | _ \<Rightarrow> 0)"

text \<open>The database holds one label, comment, bookmark or patch at an address.\<close>

fun dedupe_items :: "string \<Rightarrow> (int \<times> pydict) list \<Rightarrow> pydict list \<Rightarrow> pydict list \<times> messages \<times> string list" where
  "dedupe_items key seen [] = ([], [], [])"
| "dedupe_items key seen (d # ds) =
     (let rva = int_field ''rva'' d in
      case map_of seen rva of
        None \<Rightarrow> (let (items, errors, warnings) = dedupe_items key ((rva, d) # seen) ds in (d # items, errors, warnings))
      | Some previous \<Rightarrow>
          (let (items, errors, warnings) = dedupe_items key seen ds in
           if py_eq (VDict previous) (VDict d)
           then (items, errors, (''Removed an exact duplicate '' @ butlast key @ '' at RVA '' @ hex0X rva @ ''.'') # warnings)
           else (items, (''evidence.'' @ key, ''Conflicting duplicate '' @ butlast key @ '' at RVA '' @ hex0X rva) # errors, warnings)))"

definition function_start :: "pydict \<Rightarrow> int" where
  "function_start d = int_field ''rvaStart'' d"

definition function_last :: "pydict \<Rightarrow> int" where
  "function_last d = int_field ''rvaEndInclusive'' d"

fun dedupe_functions :: "pydict option \<Rightarrow> pydict list \<Rightarrow> pydict list \<times> messages \<times> string list" where
  "dedupe_functions previous [] = ([], [], [])"
| "dedupe_functions previous (d # ds) =
     (if (case previous of None \<Rightarrow> False | Some p \<Rightarrow> py_eq (VDict d) (VDict p))
      then (let (items, errors, warnings) = dedupe_functions previous ds in
            (items, errors, (''Removed an exact duplicate function at RVA '' @ hex0X (function_start d) @ ''.'') # warnings))
      else (let (items, errors, warnings) = dedupe_functions (Some d) ds in
            (d # items,
             (case previous of
                None \<Rightarrow> errors
              | Some p \<Rightarrow>
                  if function_start d \<le> function_last p
                  then (''evidence.functions'', ''Imported function ranges overlap at RVA '' @ hex0X (function_start d)) # errors
                  else errors),
             warnings)))"

subsection \<open>The document\<close>

definition item_keys :: "string list" where
  "item_keys = [''labels'', ''comments'', ''bookmarks'', ''breakpoints'', ''patches'', ''nativeTraceHits'', ''apiCallsites'']"

definition unique_keys :: "string list" where
  "unique_keys = [''labels'', ''comments'', ''bookmarks'', ''patches'']"

record validation =
  va_schema :: pyval
  va_version :: pyval
  va_errors :: messages
  va_warnings :: "string list"
  va_normalized :: "(string \<times> pydict list) list"
  va_image :: pydict

definition hex_upper :: "char \<Rightarrow> bool" where
  "hex_upper c \<longleftrightarrow> is_digit c \<or> 65 \<le> cp c \<and> cp c \<le> 70"

definition image_size_of :: "pydict \<Rightarrow> int" where
  "image_size_of img = int_or_0 (dict_get img ''sizeOfImage'')"

definition header_errors :: "pydict \<Rightarrow> messages" where
  "header_errors d =
     (if py_eq (dict_get d ''schema'') (VStr ''x64dbg-mcp-evidence'') then []
      else [(''schema'', ''Expected '' @ repr_str ''x64dbg-mcp-evidence'')])
     @ (if parse_int (dict_get d ''version'') None = Some 1 then [] else [(''version'', ''Expected version 1'')])"

definition image_errors :: "pydict \<Rightarrow> messages" where
  "image_errors d =
     (let img = as_dict (dict_get d ''image''); digest = upper (strip (str_or_empty (dict_get img ''sha256'')));
          sz = image_size_of img in
      (if is_dict (dict_get d ''image'') then [] else [(''image'', ''A module identity object is required'')])
      @ (if length digest = 64 \<and> list_all hex_upper digest then [] else [(''image.sha256'', ''A 64-digit SHA-256 is required'')])
      @ (if lower (str_or_empty (dict_get img ''arch'')) \<in> {''x86'', ''x64''} then []
         else [(''image.arch'', ''arch must be x86 or x64'')])
      @ (if sz \<le> 0 \<or> sz > 0x100000000 then [(''image.sizeOfImage'', ''Invalid PE image size'')] else []))"

definition dedupe_key :: "string \<Rightarrow> pydict list \<Rightarrow> pydict list \<times> messages \<times> string list" where
  "dedupe_key key items = (if key \<in> set unique_keys then dedupe_items key [] items else (items, [], []))"

definition counts_differ :: "pyval \<Rightarrow> (string \<times> pydict list) list \<Rightarrow> bool" where
  "counts_differ declared normalized \<longleftrightarrow>
     (case declared of
        VDict c \<Rightarrow> list_ex (\<lambda>(k, items). has_key c k \<and> parse_int (dict_get c k) (Some (- 1)) \<noteq> Some (int (length items))) normalized
      | _ \<Rightarrow> False)"

definition document_image :: "pydict \<Rightarrow> pydict" where
  "document_image d = as_dict (dict_get d ''image'')"

definition document_evidence :: "pydict \<Rightarrow> pydict" where
  "document_evidence d = as_dict (dict_get d ''evidence'')"

definition item_array :: "pydict \<Rightarrow> string \<Rightarrow> nat \<times> pydict list \<times> messages" where
  "item_array d key = read_array (read_item key (image_size_of (document_image d))) key (document_evidence d)"

definition function_array :: "pydict \<Rightarrow> nat \<times> pydict list \<times> messages" where
  "function_array d = read_array (read_function (image_size_of (document_image d))) ''functions'' (document_evidence d)"

definition unique_items :: "pydict \<Rightarrow> string \<Rightarrow> pydict list \<times> messages \<times> string list" where
  "unique_items d key = dedupe_key key (fst (snd (item_array d key)))"

definition unique_functions :: "pydict \<Rightarrow> pydict list \<times> messages \<times> string list" where
  "unique_functions d =
     dedupe_functions None (sort_key (\<lambda>f. (function_start f, function_last f)) (fst (snd (function_array d))))"

definition normalized_document :: "pydict \<Rightarrow> (string \<times> pydict list) list" where
  "normalized_document d =
     map (\<lambda>k. (k, fst (unique_items d k))) item_keys @ [(''functions'', fst (unique_functions d))]"

definition total_items :: "pydict \<Rightarrow> nat" where
  "total_items d = sum_list (map (\<lambda>k. fst (item_array d k)) item_keys) + fst (function_array d)"

definition validate_document :: "pydict \<Rightarrow> validation" where
  "validate_document d =
     \<lparr>va_schema = dict_get d ''schema'', va_version = dict_get d ''version'',
      va_errors = header_errors d @ image_errors d
        @ (if is_dict (dict_get d ''evidence'') then [] else [(''evidence'', ''An evidence object is required'')])
        @ concat (map (\<lambda>k. snd (snd (item_array d k))) item_keys) @ snd (snd (function_array d))
        @ concat (map (\<lambda>k. fst (snd (unique_items d k))) item_keys) @ fst (snd (unique_functions d))
        @ (if total_items d > 100000 then [(''evidence'', ''Evidence exceeds 100000 items'')] else []),
      va_warnings = concat (map (\<lambda>k. snd (snd (unique_items d k))) item_keys) @ snd (snd (unique_functions d))
        @ (if counts_differ (dict_get d ''counts'') (normalized_document d)
           then [''Declared evidence counts do not match the arrays; arrays are authoritative.''] else []),
      va_normalized = normalized_document d, va_image = document_image d\<rparr>"

definition normalized_items :: "validation \<Rightarrow> string \<Rightarrow> pydict list" where
  "normalized_items v key = (case map_of (va_normalized v) key of Some items \<Rightarrow> items | None \<Rightarrow> [])"

definition valid_evidence :: "validation \<Rightarrow> bool" where
  "valid_evidence v \<longleftrightarrow> va_errors v = []"

definition public_validation :: "validation \<Rightarrow> pydict" where
  "public_validation v =
     [(''ok'', VBool (valid_evidence v)), (''valid'', VBool (valid_evidence v)), (''schema'', va_schema v),
      (''version'', va_version v),
      (''errors'', VList (map (\<lambda>(p, e). VDict [(''path'', VStr p), (''error'', VStr e)]) (va_errors v))),
      (''warnings'', VList (map VStr (va_warnings v))),
      (''counts'', VDict (map (\<lambda>(k, items). (k, VInt (int (length items)))) (va_normalized v))),
      (''image'', VDict (va_image v))]"

end
