(* ===== verification/EvidenceImport.thy ===== *)
theory EvidenceImport
  imports Evidence
begin

text \<open>
  The import of analysis evidence, from \<open>runtime_sections/60_evidence_and_managed.py\<close>
  (\<open>ImportAnalysisEvidence\<close> and its helpers): the module the evidence is about, the annotations it
  has, the plan, and the guarded mutations. The environment is what the debugger and the file system
  answer. The answers to a mutation, and to the reads that follow, depend on the mutations sent so
  far, which are recorded in order. JSON decoding of a reply with its text repair, and the path
  functions of the platform, are functions of the environment.
\<close>

subsection \<open>The outside\<close>

record post =
  po_endpoint :: string
  po_data :: pydict
  po_event :: int

record file_facts =
  ff_layout :: "string + pydict"
  ff_size :: int

record import_env =
  en_repair :: "string \<Rightarrow> string"
  en_coerce :: "pyval \<Rightarrow> pyval"
  en_absolute :: "string \<Rightarrow> bool"
  en_abspath :: "string \<Rightarrow> string"
  en_path_identity :: "string \<Rightarrow> string"
  en_file :: "string \<Rightarrow> file_facts option"
  en_image_sha :: "string \<Rightarrow> string"
  en_modules :: pyval
  en_current_base :: pyval
  en_last_image :: pyval
  en_hello :: pyval
  en_labels :: pyval
  en_page :: "string \<Rightarrow> int \<Rightarrow> pyval"
  en_breakpoints :: pyval
  en_read :: "string \<Rightarrow> pyval"
  en_post :: "post list \<Rightarrow> pyval"
  en_after :: "post list \<Rightarrow> string \<Rightarrow> string \<Rightarrow> pyval"
  en_after_page :: "post list \<Rightarrow> int \<Rightarrow> pyval"
  en_after_breakpoints :: "post list \<Rightarrow> pyval"

text \<open>A helper raises, or refuses with an error payload.\<close>

datatype import_failure = Raises pyexn | Refuses pydict

type_synonym 'a attempt = "import_failure + 'a"

definition analysis_error :: "string \<Rightarrow> string \<Rightarrow> pydict \<Rightarrow> pydict" where
  "analysis_error code message details =
     [(''ok'', VBool False), (''errorCode'', VStr code), (''error'', VStr message)]
     @ (if details = [] then [] else [(''details'', VDict details)])"

definition refuse :: "string \<Rightarrow> string \<Rightarrow> pydict \<Rightarrow> 'a attempt" where
  "refuse code message details = Inl (Refuses (analysis_error code message details))"

text \<open>The items of \<open>for item in v\<close>.\<close>

definition py_iter :: "pyval \<Rightarrow> pyval list attempt" where
  "py_iter v =
     (case v of
        VList xs \<Rightarrow> Inr xs | VTuple xs \<Rightarrow> Inr xs | VStr s \<Rightarrow> Inr (map (\<lambda>c. VStr [c]) s)
      | VBytes s \<Rightarrow> Inr (map (\<lambda>c. VInt (int (cp c))) s) | VDict d \<Rightarrow> Inr (map (VStr \<circ> fst) d)
      | _ \<Rightarrow> Inl (Raises TypeError))"

definition dicts_of :: "pyval list \<Rightarrow> pydict list" where
  "dicts_of vs = map as_dict (filter is_dict vs)"

definition attempt_int :: "pyval \<Rightarrow> int attempt" where
  "attempt_int v = map_sum Raises id (int_or v 0)"

subsection \<open>Pages\<close>

definition page_limit :: nat where
  "page_limit = 1000"

text \<open>\<open>n\<close> counts the pages that may still be asked for.\<close>

fun collect_pages :: "(int \<Rightarrow> pyval) \<Rightarrow> string \<Rightarrow> nat \<Rightarrow> int \<Rightarrow> pydict list \<Rightarrow> pydict list attempt" where
  "collect_pages page key 0 offset items =
     refuse ''INVALID_PAGINATION'' (''The '' @ key @ '' pagination did not terminate.'') []"
| "collect_pages page key (Suc n) offset items =
     (let payload = page offset; p = as_dict payload in
      if \<not> is_dict payload \<or> dict_get p ''ok'' = VBool False
      then refuse ''EVIDENCE_ENUM_FAILED'' (''Failed to enumerate '' @ key @ ''.'') [(''response'', payload)]
      else sum_bind (py_iter (dict_get_default p key (VList []))) (\<lambda>vs.
        let items = items @ dicts_of vs in
        if length items > 100000
        then refuse ''EVIDENCE_TOO_LARGE'' (''The '' @ key @ '' collection exceeds the item limit.'') []
        else if \<not> truthy (dict_get p ''hasMore'') then Inr items
        else (case parse_int (dict_get p ''nextOffset'') None of
                None \<Rightarrow> refuse ''INVALID_PAGINATION'' (''The bridge returned invalid '' @ key @ '' pagination.'') []
              | Some next \<Rightarrow>
                  (if next \<le> offset
                   then refuse ''INVALID_PAGINATION'' (''The bridge returned invalid '' @ key @ '' pagination.'') []
                   else collect_pages page key n next items))))"

definition collect_paged :: "(int \<Rightarrow> pyval) \<Rightarrow> string \<Rightarrow> pydict list attempt" where
  "collect_paged page key = collect_pages page key page_limit 0 []"

subsection \<open>The module\<close>

text \<open>\<open>os.path.basename\<close> and \<open>os.path.splitext\<close> of the Windows path module, on a path with
  backslashes only and no share name.\<close>

definition base_name :: "string \<Rightarrow> string" where
  "base_name path =
     after_last CHR 0x5C (case path of _ # c # rest \<Rightarrow> if c = CHR '':'' then rest else path | _ \<Rightarrow> path)"

definition stem :: "string \<Rightarrow> string" where
  "stem name =
     (let front = rev (drop 1 (dropWhile (\<lambda>c. c \<noteq> CHR ''.'') (rev name))) in
      if CHR ''.'' \<in> set name \<and> list_ex (\<lambda>c. c \<noteq> CHR ''.'') front then front else name)"

definition name_forms :: "import_env \<Rightarrow> pyval \<Rightarrow> string list" where
  "name_forms E v =
     (let t = map (\<lambda>c. if c = CHR ''/'' then CHR 0x5C else c) (en_repair E (strip (str_or_empty v))); base = casefold (base_name t) in
      if t = [] then [] else [casefold t, base, stem base])"

definition same_module :: "import_env \<Rightarrow> pyval \<Rightarrow> pyval \<Rightarrow> bool" where
  "same_module E l r \<longleftrightarrow> list_ex (\<lambda>n. n \<in> set (name_forms E r)) (name_forms E l)"

definition base_or_minus :: "pydict \<Rightarrow> int" where
  "base_or_minus item = (case parse_int (dict_get item ''base'') (Some (- 1)) of Some b \<Rightarrow> if b = 0 then - 1 else b | None \<Rightarrow> - 1)"

definition requested_modules :: "import_env \<Rightarrow> string \<Rightarrow> pydict list \<Rightarrow> pydict list" where
  "requested_modules E requested modules =
     (case parse_int (VStr requested) None of
        Some b \<Rightarrow> filter (\<lambda>item. base_or_minus item = b) modules
      | None \<Rightarrow>
          if requested \<noteq> []
          then (let path = (if en_absolute E requested then en_path_identity E requested else []) in
                filter (\<lambda>item. path \<noteq> [] \<and> en_path_identity E (str_or_empty (dict_get item ''path'')) = path
                  \<or> same_module E (VStr requested) (dict_get item ''name'')
                  \<or> same_module E (VStr requested) (VStr (str_or_empty (dict_get item ''path'')))) modules)
          else (let current = (case parse_int (en_current_base E) None of
                      None \<Rightarrow> []
                    | Some b \<Rightarrow> filter (\<lambda>item. parse_int (dict_get item ''base'') None = Some b) modules);
                    image_path = en_repair E (str_or_empty (en_last_image E));
                    named = (if current = [] \<and> image_path \<noteq> []
                      then filter (\<lambda>item. en_path_identity E (str_or_empty (dict_get item ''path'')) = en_path_identity E image_path) modules
                      else current)
                in if named = [] then [hd modules] else named))"

definition by_base :: "pydict list \<Rightarrow> pydict list" where
  "by_base items =
     map snd (fold (\<lambda>item d. case parse_int (dict_get item ''base'') None of None \<Rightarrow> d | Some b \<Rightarrow> AList.update b item d) items [])"

definition optional_name :: "string \<Rightarrow> pyval" where
  "optional_name s = (if s = [] then VNone else VStr s)"

definition resolve_loaded_module :: "import_env \<Rightarrow> string \<Rightarrow> string \<Rightarrow> pydict attempt" where
  "resolve_loaded_module E name expected_sha =
     sum_bind (if is_dict (en_modules E) then py_iter (dict_get_default (as_dict (en_modules E)) ''modules'' (VList [])) else Inr []) (\<lambda>vs.
     let modules = dicts_of vs; requested = en_repair E (strip name); expected = upper (strip expected_sha) in
     if modules = [] then refuse ''MODULE_LIST_UNAVAILABLE'' ''No loaded modules were returned by x64dbg.'' []
     else (let named = requested_modules E requested modules;
               hashed = (if length named > 1 \<and> expected \<noteq> []
                 then filter (\<lambda>item. upper (en_image_sha E (str_or_empty (dict_get item ''path''))) = expected) named else named);
               candidates = by_base hashed
       in if candidates = []
          then refuse ''MODULE_NOT_FOUND'' ''The requested module is not loaded in the active debug session.''
                 [(''module'', optional_name requested)]
          else if length candidates \<noteq> 1
          then refuse ''AMBIGUOUS_MODULE'' ''More than one loaded module matches; pass an exact path or runtime base.''
                 [(''module'', optional_name requested),
                  (''matches'', VList (map (\<lambda>item. VDict (map (\<lambda>k. (k, dict_get item k)) [''name'', ''path'', ''base''])) candidates))]
          else Inr (hd candidates)))"

record module_context =
  mc_identity :: pydict
  mc_base :: int
  mc_size :: int

definition module_identity :: "string \<Rightarrow> pydict \<Rightarrow> file_facts \<Rightarrow> pydict \<Rightarrow> string \<Rightarrow> int \<Rightarrow> int \<Rightarrow> int \<Rightarrow> pydict" where
  "module_identity path loaded facts layout digest base runtime_size image_size =
     [(''name'', VStr (py_str (py_or (dict_get loaded ''name'') (VStr (base_name path))))), (''path'', VStr path),
      (''sha256'', VStr (upper digest)), (''fileSize'', VInt (ff_size facts)), (''arch'', VStr (str_or_empty (dict_get layout ''arch''))),
      (''machine'', VStr (str_or_empty (dict_get layout ''machine''))),
      (''timeDateStamp'', VStr (str_or_empty (dict_get layout ''timeDateStamp''))),
      (''checksum'', VStr (str_or_empty (dict_get layout ''checksum''))),
      (''preferredImageBase'', VStr (str_or_empty (dict_get layout ''imageBase''))),
      (''runtimeImageBase'', VStr (hex0X base)), (''runtimeSize'', VInt runtime_size), (''sizeOfImage'', VInt image_size),
      (''entryPointRva'', VStr (py_str (py_or (dict_get layout ''entryPointRva'') (VStr ''0x0''))))]"

definition resolve_context :: "import_env \<Rightarrow> string \<Rightarrow> string \<Rightarrow> module_context attempt" where
  "resolve_context E name expected_sha =
     sum_bind (resolve_loaded_module E name expected_sha) (\<lambda>loaded.
     let path = en_abspath E (en_repair E (strip (str_or_empty (dict_get loaded ''path'')))) in
     case en_file E path of
       None \<Rightarrow> refuse ''MODULE_FILE_UNAVAILABLE''
         ''The loaded module's backing file is unavailable; a stable identity cannot be created.'' [(''path'', optional_name path)]
     | Some facts \<Rightarrow>
         (case ff_layout facts of
            Inl message \<Rightarrow> refuse ''MODULE_IDENTITY_FAILED'' ''Failed to parse the loaded module's PE identity.'' [(''error'', VStr message)]
          | Inr layout \<Rightarrow>
              if en_image_sha E path = []
              then refuse ''MODULE_HASH_FAILED'' ''Failed to calculate the loaded module SHA-256.'' [(''path'', VStr path)]
              else sum_bind (attempt_int (dict_get layout ''sizeOfImage'')) (\<lambda>image_size.
                (case (parse_int (dict_get loaded ''base'') None, parse_int (dict_get loaded ''size'') None) of
                   (Some base, Some runtime_size) \<Rightarrow>
                     (if runtime_size \<le> 0 \<or> image_size \<le> 0
                      then refuse ''INVALID_MODULE_LAYOUT'' ''The loaded module has an invalid base or image size.'' []
                      else Inr \<lparr>mc_identity = module_identity path loaded facts layout (en_image_sha E path) base runtime_size image_size,
                             mc_base = base, mc_size = min runtime_size image_size\<rparr>)
                 | _ \<Rightarrow> refuse ''INVALID_MODULE_LAYOUT'' ''The loaded module has an invalid base or image size.'' []))))"
subsection \<open>The annotations of the module\<close>

record annotations =
  an_labels :: "(int \<times> pydict) list"
  an_comments :: "(int \<times> pydict) list"
  an_bookmarks :: "(int \<times> pydict) list"
  an_functions :: "pydict list"

definition rva_map :: "import_env \<Rightarrow> string \<Rightarrow> pydict list \<Rightarrow> (int \<times> pydict) list" where
  "rva_map E name items =
     fold (\<lambda>item d. if same_module E (VStr name) (dict_get item ''module'')
       then (case parse_int (dict_get item ''rva'') None of None \<Rightarrow> d | Some r \<Rightarrow> AList.update r item d) else d) items []"

definition current_annotations :: "import_env \<Rightarrow> string \<Rightarrow> annotations attempt" where
  "current_annotations E name =
     (case dict_get (as_dict (en_labels E)) ''labels'' of
        VList labels \<Rightarrow>
          sum_bind (collect_paged (en_page E ''comments'') ''comments'') (\<lambda>comments.
          sum_bind (collect_paged (en_page E ''bookmarks'') ''bookmarks'') (\<lambda>bookmarks.
          sum_bind (collect_paged (en_page E ''functions'') ''functions'') (\<lambda>functions.
            Inr \<lparr>an_labels = rva_map E name (dicts_of labels), an_comments = rva_map E name comments,
                 an_bookmarks = rva_map E name bookmarks, an_functions = functions\<rparr>)))
      | _ \<Rightarrow> refuse ''PREFLIGHT_FAILED'' ''Failed to enumerate existing labels.'' [])"

subsection \<open>Verdicts\<close>

text \<open>What the plan says of one item.\<close>

datatype verdict = Act pydict | Noop pydict | Conflict pydict

definition existing_at :: "(int \<times> pydict) list \<Rightarrow> int \<Rightarrow> pydict" where
  "existing_at d r = (case map_of d r of Some e \<Rightarrow> e | None \<Rightarrow> [])"

definition is_manual :: "pydict \<Rightarrow> bool" where
  "is_manual d = truthy (dict_get_default d ''manual'' (VBool True))"

definition decide :: "bool \<Rightarrow> bool \<Rightarrow> pydict \<Rightarrow> pydict \<Rightarrow> verdict" where
  "decide overwrite same existing rec =
     (if same then Noop (rec @ [(''reason'', VStr ''already_equal'')])
      else if existing \<noteq> [] \<and> \<not> overwrite
      then Conflict (rec @ [(''reason'', VStr ''different_existing_value''), (''existing'', VDict existing)])
      else Act (rec @ [(''operation'', VStr (if existing \<noteq> [] then ''update'' else ''create''))]))"

definition text_record :: "string \<Rightarrow> int \<Rightarrow> pydict \<Rightarrow> pydict" where
  "text_record kind base item =
     [(''kind'', VStr kind), (''rva'', VStr (hex0X (int_field ''rva'' item))), (''address'', VStr (hex0X (base + int_field ''rva'' item))),
      (''text'', VStr (str_or_empty (dict_get item ''text''))), (''manual'', VBool (is_manual item))]"

definition text_verdict :: "string \<Rightarrow> int \<Rightarrow> bool \<Rightarrow> (int \<times> pydict) list \<Rightarrow> pydict \<Rightarrow> verdict" where
  "text_verdict kind base overwrite present item =
     (let existing = existing_at present (int_field ''rva'' item);
          same = (existing \<noteq> [] \<and> str_or_empty (dict_get existing ''text'') = str_or_empty (dict_get item ''text'')
            \<and> is_manual existing = is_manual item)
      in decide overwrite same existing (text_record kind base item))"

definition bookmark_record :: "int \<Rightarrow> pydict \<Rightarrow> pydict" where
  "bookmark_record base item =
     [(''kind'', VStr ''bookmark''), (''rva'', VStr (hex0X (int_field ''rva'' item))),
      (''address'', VStr (hex0X (base + int_field ''rva'' item))), (''manual'', VBool (is_manual item))]"

definition bookmark_verdict :: "int \<Rightarrow> bool \<Rightarrow> (int \<times> pydict) list \<Rightarrow> pydict \<Rightarrow> verdict" where
  "bookmark_verdict base overwrite present item =
     (let existing = existing_at present (int_field ''rva'' item)
      in decide overwrite (existing \<noteq> [] \<and> is_manual existing = is_manual item) existing (bookmark_record base item))"

text \<open>The ranges of the functions the module has, those whose bounds cannot be read left out.\<close>

definition function_ranges :: "pydict list \<Rightarrow> (int \<times> int \<times> pydict) list" where
  "function_ranges items =
     concat (map (\<lambda>item. case (parse_int (dict_get item ''rvaStart'') None, parse_int (dict_get item ''rvaEnd'') None) of
         (Some s, Some e) \<Rightarrow> [(s, e, item)] | _ \<Rightarrow> []) items)"

definition function_record :: "int \<Rightarrow> pydict \<Rightarrow> pydict" where
  "function_record base item =
     [(''kind'', VStr ''function''), (''rvaStart'', VStr (hex0X (function_start item))),
      (''rvaEndInclusive'', VStr (hex0X (function_last item))), (''start'', VStr (hex0X (base + function_start item))),
      (''end'', VStr (hex0X (base + function_last item))), (''manual'', VBool (is_manual item)),
      (''instructionCount'', VInt (int_field ''instructionCount'' item))]"

definition overlaps :: "int \<Rightarrow> int \<Rightarrow> int \<times> int \<times> pydict \<Rightarrow> bool" where
  "overlaps s e entry \<longleftrightarrow> \<not> (e < fst entry \<or> s > fst (snd entry))"

definition function_verdict :: "int \<Rightarrow> (int \<times> int \<times> pydict) list \<Rightarrow> pydict \<Rightarrow> verdict" where
  "function_verdict base ranges item =
     (let s = function_start item; e = function_last item; rec = function_record base item in
      if list_ex (\<lambda>entry. fst entry = s \<and> fst (snd entry) = e) ranges
      then Noop (rec @ [(''reason'', VStr ''range_already_exists'')])
      else (case find (overlaps s e) ranges of
              Some entry \<Rightarrow> Conflict (rec @ [(''reason'', VStr ''overlapping_function''), (''existing'', VDict (snd (snd entry)))])
            | None \<Rightarrow> Act (rec @ [(''operation'', VStr ''create'')])))"

definition breakpoint_record :: "int \<Rightarrow> pydict \<Rightarrow> pydict" where
  "breakpoint_record base item =
     [(''kind'', VStr ''breakpoint''), (''rva'', VStr (hex0X (int_field ''rva'' item))),
      (''address'', VStr (hex0X (base + int_field ''rva'' item))), (''type'', VStr (py_str (py_or (dict_get item ''type'') (VStr ''normal''))))]"

definition importable_breakpoint :: "pydict \<Rightarrow> bool" where
  "importable_breakpoint item \<longleftrightarrow>
     py_str (py_or (dict_get item ''type'') (VStr ''normal'')) = ''normal'' \<and> truthy (dict_get_default item ''enabled'' (VBool True))"

text \<open>Commands, logs and conditions of the evidence are not taken over.\<close>

definition breakpoint_verdict :: "int \<Rightarrow> int list \<Rightarrow> pydict \<Rightarrow> verdict" where
  "breakpoint_verdict base present item =
     (let rec = breakpoint_record base item in
      if \<not> importable_breakpoint item then Noop (rec @ [(''reason'', VStr ''only_enabled_software_breakpoints_are_imported'')])
      else if base + int_field ''rva'' item \<in> set present then Noop (rec @ [(''reason'', VStr ''breakpoint_already_exists'')])
      else Act (rec @ [(''operation'', VStr ''create'')]))"

definition breakpoint_warning :: "pydict \<Rightarrow> string list" where
  "breakpoint_warning item =
     (if importable_breakpoint item then []
      else [''Skipped '' @ py_str (py_or (dict_get item ''type'') (VStr ''normal'')) @ '' or disabled breakpoint at ''
        @ hex0X (int_field ''rva'' item) @ ''; only enabled software breakpoints are imported.''])"

definition breakpoint_addresses :: "pyval list \<Rightarrow> int list" where
  "breakpoint_addresses vs = concat (map (\<lambda>d. case parse_int (dict_get d ''addr'') None of Some a \<Rightarrow> [a] | None \<Rightarrow> []) (dicts_of vs))"

definition first_byte :: "pyval \<Rightarrow> int option" where
  "first_byte v =
     (case v of
        VDict d \<Rightarrow>
          if truthy (dict_get d ''ok'')
          then (case from_hex (str_or_empty (dict_get d ''hex'')) of Some (b # _) \<Rightarrow> Some (int b) | _ \<Rightarrow> None)
          else None
      | _ \<Rightarrow> None)"

definition hex_byte :: "int \<Rightarrow> string" where
  "hex_byte b = zero_pad 2 (upper (base_int 16 b))"

definition patch_record :: "int \<Rightarrow> pydict \<Rightarrow> int \<Rightarrow> pydict" where
  "patch_record base item current =
     [(''kind'', VStr ''patch''), (''rva'', VStr (hex0X (int_field ''rva'' item))),
      (''address'', VStr (hex0X (base + int_field ''rva'' item))), (''oldByte'', VStr (''0x'' @ hex_byte (int_field ''oldByte'' item))),
      (''newByte'', VStr (''0x'' @ hex_byte (int_field ''newByte'' item))), (''currentByte'', VStr (''0x'' @ hex_byte current))]"

definition patch_verdict :: "int \<Rightarrow> bool \<Rightarrow> int \<Rightarrow> pydict \<Rightarrow> verdict" where
  "patch_verdict base overwrite current item =
     (let rec = patch_record base item current in
      if current = int_field ''newByte'' item then Noop (rec @ [(''reason'', VStr ''already_patched'')])
      else if current \<noteq> int_field ''oldByte'' item \<and> \<not> overwrite
      then Conflict (rec @ [(''reason'', VStr ''original_byte_mismatch'')])
      else Act (rec @ [(''operation'', VStr ''update'')]))"
subsection \<open>The plan\<close>

record import_args =
  ia_module :: string
  ia_dry_run :: bool
  ia_allow_mismatch :: bool
  ia_overwrite :: bool
  ia_labels :: bool
  ia_comments :: bool
  ia_bookmarks :: bool
  ia_functions :: bool
  ia_breakpoints :: bool
  ia_patches :: bool

definition selected :: "import_args \<Rightarrow> (string \<times> bool) list" where
  "selected A = [(''labels'', ia_labels A), (''comments'', ia_comments A), (''bookmarks'', ia_bookmarks A),
     (''functions'', ia_functions A), (''breakpoints'', ia_breakpoints A), (''patches'', ia_patches A)]"

definition chosen :: "bool \<Rightarrow> 'a list \<Rightarrow> 'a list" where
  "chosen b xs = (if b then xs else [])"

fun patch_verdicts :: "import_env \<Rightarrow> int \<Rightarrow> bool \<Rightarrow> pydict list \<Rightarrow> verdict list attempt" where
  "patch_verdicts E base overwrite [] = Inr []"
| "patch_verdicts E base overwrite (item # items) =
     (let address = hex0X (base + int_field ''rva'' item) in
      case first_byte (en_read E address) of
        None \<Rightarrow> refuse ''PREFLIGHT_FAILED'' ''Failed to read a byte before patch import.'' [(''address'', VStr address)]
      | Some current \<Rightarrow>
          sum_bind (patch_verdicts E base overwrite items) (\<lambda>vs. Inr (patch_verdict base overwrite current item # vs)))"

definition present_breakpoints :: "import_env \<Rightarrow> bool \<Rightarrow> int list attempt" where
  "present_breakpoints E wanted =
     (if wanted
      then (case dict_get (as_dict (en_breakpoints E)) ''breakpoints'' of
              VList vs \<Rightarrow> Inr (breakpoint_addresses vs)
            | _ \<Rightarrow> refuse ''PREFLIGHT_FAILED'' ''Failed to enumerate current breakpoints.'' [])
      else Inr [])"

text \<open>The verdicts on the chosen items, in the order of the kinds.\<close>

definition plan_verdicts :: "import_env \<Rightarrow> import_args \<Rightarrow> int \<Rightarrow> annotations \<Rightarrow> validation \<Rightarrow> verdict list attempt" where
  "plan_verdicts E A base present v =
     sum_bind (present_breakpoints E (ia_breakpoints A)) (\<lambda>addresses.
     sum_bind (patch_verdicts E base (ia_overwrite A) (chosen (ia_patches A) (normalized_items v ''patches''))) (\<lambda>patches.
       Inr (map (text_verdict ''label'' base (ia_overwrite A) (an_labels present)) (chosen (ia_labels A) (normalized_items v ''labels''))
         @ map (text_verdict ''comment'' base (ia_overwrite A) (an_comments present)) (chosen (ia_comments A) (normalized_items v ''comments''))
         @ map (bookmark_verdict base (ia_overwrite A) (an_bookmarks present)) (chosen (ia_bookmarks A) (normalized_items v ''bookmarks''))
         @ map (function_verdict base (function_ranges (an_functions present))) (chosen (ia_functions A) (normalized_items v ''functions''))
         @ map (breakpoint_verdict base addresses) (chosen (ia_breakpoints A) (normalized_items v ''breakpoints''))
         @ patches)))"

definition actions_of :: "verdict list \<Rightarrow> pydict list" where
  "actions_of vs = concat (map (\<lambda>v. case v of Act d \<Rightarrow> [d] | _ \<Rightarrow> []) vs)"

definition noops_of :: "verdict list \<Rightarrow> pydict list" where
  "noops_of vs = concat (map (\<lambda>v. case v of Noop d \<Rightarrow> [d] | _ \<Rightarrow> []) vs)"

definition conflicts_of :: "verdict list \<Rightarrow> pydict list" where
  "conflicts_of vs = concat (map (\<lambda>v. case v of Conflict d \<Rightarrow> [d] | _ \<Rightarrow> []) vs)"

definition dedupe_texts :: "string list \<Rightarrow> string list" where
  "dedupe_texts ws = rev (remdups (rev ws))"

definition dicts :: "pydict list \<Rightarrow> pyval" where
  "dicts ds = VList (map VDict ds)"

subsection \<open>The identity of the module\<close>

definition differs :: "pydict \<Rightarrow> pydict \<Rightarrow> string \<Rightarrow> bool" where
  "differs expected current field \<longleftrightarrow> lower (str_or_empty (dict_get expected field)) \<noteq> lower (str_or_empty (dict_get current field))"

definition expected_hash :: "pydict \<Rightarrow> string" where
  "expected_hash img = upper (str_or_empty (dict_get img ''sha256''))"

definition hash_matches :: "pydict \<Rightarrow> pydict \<Rightarrow> bool" where
  "hash_matches img current \<longleftrightarrow> expected_hash img = upper (str_or_empty (dict_get current ''sha256''))"

definition mismatched :: "bool \<Rightarrow> pydict \<Rightarrow> pydict \<Rightarrow> string list" where
  "mismatched allow img current =
     (if differs img current ''arch'' then [''arch''] else []) @ (if differs img current ''machine'' then [''machine''] else [])
     @ (if image_size_of img \<noteq> int_field ''sizeOfImage'' current then [''sizeOfImage''] else [])
     @ (if \<not> hash_matches img current \<and> \<not> allow then [''sha256''] else [])"

definition mismatch_record :: "pydict \<Rightarrow> pydict \<Rightarrow> string \<Rightarrow> pyval" where
  "mismatch_record img current field =
     VDict [(''field'', VStr field),
       (''expected'', if field = ''sha256'' then VStr (expected_hash img) else dict_get img field), (''current'', dict_get current field)]"

subsection \<open>The mutations\<close>

definition bool_text :: "pyval \<Rightarrow> string" where
  "bool_text v = lower (py_str v)"

definition action_request :: "pydict \<Rightarrow> (string \<times> pydict) option" where
  "action_request a =
     (let kind = str_or_empty (dict_get a ''kind'') in
      if kind = ''label''
      then Some (''Label/Set'', [(''addr'', dict_get a ''address''), (''text'', dict_get a ''text''), (''manual'', VStr (bool_text (dict_get a ''manual'')))])
      else if kind = ''comment''
      then Some (''Comment/Set'', [(''addr'', dict_get a ''address''), (''text'', dict_get a ''text''), (''manual'', VStr (bool_text (dict_get a ''manual'')))])
      else if kind = ''bookmark''
      then Some (''Bookmark/Set'', [(''addr'', dict_get a ''address''), (''manual'', VStr (bool_text (dict_get a ''manual'')))])
      else if kind = ''function''
      then Some (''Function/Add'', [(''start'', dict_get a ''start''), (''end'', dict_get a ''end''),
             (''manual'', VStr (bool_text (dict_get a ''manual''))), (''instructionCount'', VStr (py_str (dict_get a ''instructionCount'')))])
      else if kind = ''breakpoint'' then Some (''Debug/SetBreakpoint'', [(''addr'', dict_get a ''address'')])
      else if kind = ''patch''
      then Some (''Memory/Write'', [(''addr'', dict_get a ''address''), (''data'', VStr (hex_byte (int_or_0 (dict_get a ''newByte''))))])
      else None)"

text \<open>Success, the response kept in the report and the message of a failure.\<close>

definition mutation_result :: "pyval \<Rightarrow> pyval \<Rightarrow> bool \<times> pyval \<times> string" where
  "mutation_result raw payload =
     (let p = as_dict payload; lowered = lower (str_or_empty raw);
          ok = (contains ''success'' lowered \<and> \<not> contains ''error'' lowered \<and> \<not> contains ''failed'' lowered);
          as_text = (ok, if payload \<noteq> VNone then payload else raw, if ok then [] else str_or_empty raw);
          err = (case dict_get p ''error'' of VDict e \<Rightarrow> py_or (dict_get e ''message'') (dict_get e ''code'') | e \<Rightarrow> e)
      in if is_dict payload \<and> (dict_get p ''ok'' = VBool False \<or> dict_get p ''success'' = VBool False)
         then (False, payload, py_str (py_or err (VStr ''The bridge rejected the mutation'')))
         else if is_dict payload \<and> (dict_get p ''success'' = VBool True \<or> dict_get p ''ok'' = VBool True) then (True, payload, [])
         else as_text)"

record applied =
  ap_action :: pydict
  ap_endpoint :: string
  ap_response :: pyval

text \<open>The applied actions, the failure that ended the run, and the mutations sent.\<close>

fun apply_actions :: "import_env \<Rightarrow> int \<Rightarrow> pydict list \<Rightarrow> post list \<Rightarrow> applied list \<times> pydict list \<times> post list" where
  "apply_actions E event [] sent = ([], [], sent)"
| "apply_actions E event (a # rest) sent =
     (case action_request a of
        None \<Rightarrow> ([], [[(''action'', VDict a), (''error'', VStr ''Unsupported planned mutation'')]], sent)
      | Some (endpoint, data) \<Rightarrow>
          (let sent' = sent @ [\<lparr>po_endpoint = endpoint, po_data = data, po_event = event\<rparr>];
               raw = en_post E sent'; (ok, response, message) = mutation_result raw (en_coerce E raw) in
           if \<not> ok
           then ([], [[(''action'', VDict a), (''endpoint'', VStr endpoint), (''error'', VStr message), (''response'', response)]], sent')
           else (let (done, failures, sent'') = apply_actions E event rest sent' in
                 (\<lparr>ap_action = a, ap_endpoint = endpoint, ap_response = response\<rparr> # done, failures, sent''))))"
subsection \<open>Verification of what was applied\<close>

definition ranges_after :: "import_env \<Rightarrow> post list \<Rightarrow> (int \<times> int) list attempt" where
  "ranges_after E sent =
     (case collect_paged (en_after_page E sent) ''functions'' of
        Inl (Raises e) \<Rightarrow> Inl (Raises e)
      | Inl (Refuses _) \<Rightarrow> Inr []
      | Inr items \<Rightarrow> Inr (map (\<lambda>(s, e, _). (s, e)) (function_ranges items)))"

definition breakpoints_after :: "import_env \<Rightarrow> post list \<Rightarrow> int list attempt" where
  "breakpoints_after E sent =
     (if is_dict (en_after_breakpoints E sent)
      then sum_bind (py_iter (dict_get_default (as_dict (en_after_breakpoints E sent)) ''breakpoints'' (VList [])))
             (\<lambda>vs. Inr (breakpoint_addresses vs))
      else Inr [])"

definition int_or_minus :: "pyval \<Rightarrow> int" where
  "int_or_minus v = (case parse_int v (Some (- 1)) of Some i \<Rightarrow> i | None \<Rightarrow> - 1)"

definition verify_action :: "import_env \<Rightarrow> post list \<Rightarrow> pydict \<Rightarrow> (bool \<times> pyval) attempt" where
  "verify_action E sent a =
     (let kind = str_or_empty (dict_get a ''kind''); address = str_or_empty (dict_get a ''address'');
          reply = en_after E sent kind address; r = as_dict reply in
      if kind = ''label''
      then Inr (truthy (dict_get r ''found'') \<and> VStr (str_or_empty (dict_get r ''label'')) = dict_get a ''text'', reply)
      else if kind = ''comment''
      then Inr (truthy (dict_get r ''found'') \<and> VStr (str_or_empty (dict_get r ''comment'')) = dict_get a ''text'', reply)
      else if kind = ''bookmark'' then Inr (truthy (dict_get r ''found''), reply)
      else if kind = ''function''
      then sum_bind (ranges_after E sent) (\<lambda>ranges.
             Inr ((int_or_minus (dict_get a ''rvaStart''), int_or_minus (dict_get a ''rvaEndInclusive'')) \<in> set ranges,
               VDict [(''ranges'', VInt (int (length (remdups ranges))))]))
      else if kind = ''breakpoint''
      then sum_bind (breakpoints_after E sent) (\<lambda>addresses.
             Inr ((let i = int_or_minus (dict_get a ''address'') in if i = 0 then - 1 else i) \<in> set addresses,
               VDict [(''breakpoints'', VInt (int (length (remdups addresses))))]))
      else Inr (truthy (dict_get r ''ok'') \<and> lower (str_or_empty (dict_get r ''hex'')) = zero_pad 2 (base_int 16 (int_or_0 (dict_get a ''newByte''))),
             reply))"

fun verify_all :: "import_env \<Rightarrow> post list \<Rightarrow> applied list \<Rightarrow> (pyval list \<times> pyval list) attempt" where
  "verify_all E sent [] = Inr ([], [])"
| "verify_all E sent (a # rest) =
     sum_bind (verify_action E sent (ap_action a)) (\<lambda>(ok, reply).
     sum_bind (verify_all E sent rest) (\<lambda>(entries, failures).
       Inr (VDict [(''action'', VDict (ap_action a)), (''endpoint'', VStr (ap_endpoint a)), (''response'', ap_response a), (''verified'', VBool ok)]
              # entries,
            (if ok then [] else [VDict [(''action'', VDict (ap_action a)), (''response'', reply)]]) @ failures)))"

subsection \<open>The import\<close>

record import_plan =
  ip_module :: pydict
  ip_image :: pydict
  ip_base :: int
  ip_verdicts :: "verdict list"
  ip_warnings :: "string list"
  ip_ignored :: "(string \<times> nat) list"
  ip_paused :: bool
  ip_event :: int

definition hello_payload :: "import_env \<Rightarrow> pydict" where
  "hello_payload E = as_dict (dict_get (as_dict (en_hello E)) ''payload'')"

definition hello_event :: "import_env \<Rightarrow> int" where
  "hello_event E =
     (let identity = as_dict (dict_get (as_dict (en_hello E)) ''identity''); session = as_dict (dict_get (hello_payload E) ''session'') in
      case parse_int (dict_get identity ''eventSeq'') (parse_int (dict_get session ''eventSeq'') (Some 0)) of Some i \<Rightarrow> i | None \<Rightarrow> 0)"

definition make_plan :: "import_env \<Rightarrow> import_args \<Rightarrow> validation \<Rightarrow> import_plan attempt" where
  "make_plan E A v =
     (let img = va_image v; p = hello_payload E in
      if \<not> valid_evidence v
      then refuse ''INVALID_EVIDENCE'' ''Analysis evidence failed validation.'' [(''validation'', VDict (public_validation v))]
      else if \<not> is_dict (en_hello E) \<or> \<not> truthy (dict_get (as_dict (en_hello E)) ''ok'')
      then refuse ''BRIDGE_IDENTITY_UNAVAILABLE'' ''Authoritative bridge identity is unavailable.'' [(''response'', en_hello E)]
      else if \<not> is_dict (dict_get (as_dict (dict_get p ''capabilities'')) ''analysisEvidence'')
      then refuse ''UNSUPPORTED_CAPABILITY'' ''The active x64dbg plugin does not advertise analysisEvidence v1.'' []
      else sum_bind (resolve_context E (ia_module A) (if ia_allow_mismatch A then [] else expected_hash img)) (\<lambda>context.
        let current = mc_identity context; wrong = mismatched (ia_allow_mismatch A) img current in
        if wrong \<noteq> []
        then refuse ''MODULE_IDENTITY_MISMATCH'' ''Evidence belongs to a different module image.''
               [(''mismatches'', VList (map (mismatch_record img current) wrong)), (''allowHashMismatch'', VBool (ia_allow_mismatch A)),
                (''currentImage'', VDict current)]
        else sum_bind (current_annotations E (str_or_empty (dict_get current ''name''))) (\<lambda>present.
          sum_bind (plan_verdicts E A (mc_base context) present v) (\<lambda>verdicts.
            Inr \<lparr>ip_module = current, ip_image = img, ip_base = mc_base context, ip_verdicts = verdicts,
                 ip_warnings = dedupe_texts (va_warnings v
                   @ concat (map breakpoint_warning (chosen (ia_breakpoints A) (normalized_items v ''breakpoints'')))),
                 ip_ignored = map (\<lambda>(k, _). (k, length (normalized_items v k))) (filter (\<lambda>(_, s). \<not> s) (selected A)),
                 ip_paused = truthy (dict_get (as_dict (dict_get p ''session'')) ''paused''), ip_event = hello_event E\<rparr>))))"

definition plan_dict :: "import_args \<Rightarrow> import_plan \<Rightarrow> pydict" where
  "plan_dict A p =
     (let same = hash_matches (ip_image p) (ip_module p) in
      [(''module'', VDict (ip_module p)), (''evidenceImage'', VDict (ip_image p)),
       (''identity'', VDict [(''hashMatches'', VBool same), (''hashMismatchAllowed'', VBool (ia_allow_mismatch A \<and> \<not> same)),
          (''runtimeBase'', VStr (hex0X (ip_base p)))]),
       (''selected'', VDict (map (\<lambda>(k, s). (k, VBool s)) (selected A))),
       (''actions'', dicts (actions_of (ip_verdicts p))), (''noops'', dicts (noops_of (ip_verdicts p))),
       (''conflicts'', dicts (conflicts_of (ip_verdicts p))),
       (''ignoredCounts'', VDict (map (\<lambda>(k, n). (k, VInt (int n))) (ip_ignored p))),
       (''warnings'', VList (map VStr (ip_warnings p))), (''eventSeq'', VInt (ip_event p)), (''transactional'', VBool False),
       (''guard'', VStr ''session identity + event sequence CAS'')])"

definition stopped_import :: "string \<Rightarrow> string \<Rightarrow> pydict \<Rightarrow> pydict \<Rightarrow> pydict" where
  "stopped_import code message v plan =
     [(''ok'', VBool False), (''dryRun'', VBool False), (''errorCode'', VStr code), (''error'', VStr message),
      (''validation'', VDict v), (''plan'', VDict plan), (''applied'', VList [])]"

definition run_import :: "import_env \<Rightarrow> pydict \<Rightarrow> pydict \<Rightarrow> int \<Rightarrow> pydict list \<Rightarrow> (pyexn + pydict) \<times> post list" where
  "run_import E v plan event actions =
     (let (done, failures, sent) = apply_actions E event actions [] in
      (case verify_all E sent done of
         Inl (Raises e) \<Rightarrow> Inl e
       | Inl (Refuses r) \<Rightarrow> Inr r
       | Inr (entries, unverified) \<Rightarrow>
           (let ok = (failures = [] \<and> unverified = [] \<and> length entries = length actions) in
            Inr [(''ok'', VBool ok), (''dryRun'', VBool False), (''validation'', VDict v), (''plan'', VDict plan),
              (''applied'', VList entries), (''appliedCount'', VInt (int (length entries))), (''failures'', dicts failures),
              (''verificationFailures'', VList unverified), (''partial'', VBool (entries \<noteq> [] \<and> \<not> ok))]), sent))"

definition import_evidence :: "import_env \<Rightarrow> import_args \<Rightarrow> pydict \<Rightarrow> (pyexn + pydict) \<times> post list" where
  "import_evidence E A document =
     (let validation = validate_document document; v = public_validation validation in
      case make_plan E A validation of
        Inl (Raises e) \<Rightarrow> (Inl e, [])
      | Inl (Refuses r) \<Rightarrow> (Inr r, [])
      | Inr p \<Rightarrow>
          (let actions = actions_of (ip_verdicts p); conflicts = conflicts_of (ip_verdicts p); plan = plan_dict A p in
           if ia_dry_run A
           then (Inr [(''ok'', VBool (conflicts = [])), (''dryRun'', VBool True), (''canApply'', VBool (conflicts = [])),
                   (''wouldMutate'', VInt (int (length actions))), (''validation'', VDict v), (''plan'', VDict plan)], [])
           else if conflicts \<noteq> []
           then (Inr (stopped_import ''IMPORT_CONFLICT'' ''Preflight found conflicts; no mutations were applied.'' v plan), [])
           else if \<not> ip_paused p
           then (Inr (stopped_import ''TARGET_NOT_PAUSED'' ''Pause the target before applying analysis evidence.'' v plan), [])
           else if ip_event p \<le> 0
           then (Inr (stopped_import ''EVENT_IDENTITY_UNAVAILABLE''
                   ''The bridge did not provide an event sequence for guarded import.'' v plan), [])
           else run_import E v plan (ip_event p) actions))"

end
