(* ===== verification/EvidenceProps.thy ===== *)
theory EvidenceProps
  imports Evidence
begin

text \<open>
  Properties of the evidence validator: what an accepted document has been normalized to, and that
  the normalized document is accepted again unchanged.
\<close>

subsection \<open>Fields\<close>

lemma dict_get_present: "dict_get d k = v \<Longrightarrow> v \<noteq> VNone \<Longrightarrow> map_of d k = Some v"
  by (auto simp: dict_get_def dict_get_default_def split: option.splits)

lemma update_present: "dict_get d k = v \<Longrightarrow> v \<noteq> VNone \<Longrightarrow> AList.update k v d = d"
  by (rule update_same [OF dict_get_present])

definition byte_ok :: "pyval \<Rightarrow> bool" where
  "byte_ok v \<longleftrightarrow> (\<exists>b. v = VInt b \<and> 0 \<le> b \<and> b \<le> 255)"

definition positive_ok :: "pyval \<Rightarrow> bool" where
  "positive_ok v \<longleftrightarrow> (\<exists>n. v = VInt n \<and> 0 < n)"

definition text_ok :: "nat \<Rightarrow> pyval \<Rightarrow> bool" where
  "text_ok limit v \<longleftrightarrow> (\<exists>s. v = VStr s \<and> strip s \<noteq> [] \<and> CHR 0x00 \<notin> set s \<and> utf8_length s \<le> limit)"

definition rva_ok :: "int \<Rightarrow> pyval \<Rightarrow> bool" where
  "rva_ok sz v \<longleftrightarrow> (\<exists>r. v = VInt r \<and> 0 \<le> r \<and> r < sz)"

text \<open>What one field step leaves: the field checked, every other field as it was.\<close>

definition sets_field :: "string \<Rightarrow> (pyval \<Rightarrow> bool) \<Rightarrow> pydict \<Rightarrow> pydict \<Rightarrow> bool" where
  "sets_field k P d d' \<longleftrightarrow> P (dict_get d' k) \<and> (\<forall>k'. k' \<noteq> k \<longrightarrow> dict_get d' k' = dict_get d k')"

lemma sets_fieldI: "P v \<Longrightarrow> sets_field k P d (AList.update k v d)"
  by (simp add: sets_field_def)

lemma sets_field_other: "sets_field k P d d' \<Longrightarrow> k' \<noteq> k \<Longrightarrow> dict_get d' k' = dict_get d k'"
  by (simp add: sets_field_def)

lemma evidence_rva_ok: "evidence_rva v sz name False = Inr r \<Longrightarrow> 0 \<le> r \<and> r < sz"
  by (auto simp: evidence_rva_def split: if_split_asm option.split_asm)

lemma read_text_sets: "read_text path name limit d = Inr d' \<Longrightarrow> sets_field name (text_ok limit) d d'"
  by (auto simp: read_text_def evidence_text_def sum_bind_Inr text_ok_def split: pyval.split_asm if_split_asm
      intro!: sets_fieldI)

lemma read_byte_sets: "read_byte path name d = Inr d' \<Longrightarrow> sets_field name byte_ok d d'"
  by (auto simp: read_byte_def byte_ok_def split: option.split_asm if_split_asm intro!: sets_fieldI)

lemma read_positive_sets: "read_positive path name dflt d = Inr d' \<Longrightarrow> sets_field name positive_ok d d'"
  by (auto simp: read_positive_def positive_ok_def split: option.split_asm if_split_asm intro!: sets_fieldI)

definition type_ok :: "pyval \<Rightarrow> bool" where
  "type_ok v \<longleftrightarrow> (\<exists>t \<in> set breakpoint_types. v = VStr t)"

lemma read_type_sets: "read_type path d = Inr d' \<Longrightarrow> sets_field ''type'' type_ok d d'"
  unfolding read_type_def Let_def type_ok_def by (auto split: if_split_asm intro!: sets_fieldI)

definition manual_ok :: "pyval \<Rightarrow> bool" where
  "manual_ok v \<longleftrightarrow> (\<exists>b. v = VBool b)"

lemma read_manual_sets: "read_manual path d = Inr d' \<Longrightarrow> sets_field ''manual'' manual_ok d d'"
  unfolding read_manual_def manual_ok_def by (auto split: if_split_asm intro!: sets_fieldI)

subsection \<open>Items\<close>

text \<open>The fields that a key demands beside the address and the manual flag.\<close>

definition key_fields :: "string \<Rightarrow> (string \<times> (pyval \<Rightarrow> bool)) list" where
  "key_fields key =
     (if key = ''labels'' then [(''text'', text_ok 255)] else if key = ''comments'' then [(''text'', text_ok 511)]
      else if key = ''breakpoints'' then [(''type'', type_ok)]
      else if key = ''patches'' then [(''oldByte'', byte_ok), (''newByte'', byte_ok)]
      else if key = ''nativeTraceHits'' then [(''hits'', positive_ok)]
      else if key = ''apiCallsites'' then [(''api'', text_ok 512), (''count'', positive_ok)] else [])"

definition item_ok :: "string \<Rightarrow> int \<Rightarrow> pydict \<Rightarrow> bool" where
  "item_ok key sz d \<longleftrightarrow> rva_ok sz (dict_get d ''rva'') \<and> manual_ok (dict_get d ''manual'')
     \<and> list_all (\<lambda>(k, P). P (dict_get d k)) (key_fields key)"

lemma sets_field_holds: "sets_field k P d d' \<Longrightarrow> P (dict_get d' k)"
  by (simp add: sets_field_def)

text \<open>Two steps on different fields.\<close>

lemma sets_two:
  assumes "sets_field k P d d'" and "sets_field k' Q d' d''" and "k \<noteq> k'"
  shows "P (dict_get d'' k) \<and> Q (dict_get d'' k') \<and> (\<forall>j. j \<notin> {k, k'} \<longrightarrow> dict_get d'' j = dict_get d j)"
  using assms by (auto simp: sets_field_def)

lemma read_kind_sets:
  assumes "read_kind key path d = Inr d'"
  shows "list_all (\<lambda>(k, P). P (dict_get d' k)) (key_fields key)
    \<and> (\<forall>j. j \<notin> fst ` set (key_fields key) \<longrightarrow> dict_get d' j = dict_get d j)"
proof -
  consider "key = ''labels''" | "key = ''comments''" | "key = ''breakpoints''" | "key = ''patches''"
    | "key = ''nativeTraceHits''" | "key = ''apiCallsites''"
    | "key \<noteq> ''labels''" "key \<noteq> ''comments''" "key \<noteq> ''breakpoints''" "key \<noteq> ''patches''"
      "key \<noteq> ''nativeTraceHits''" "key \<noteq> ''apiCallsites''" by argo
  then show ?thesis
  proof cases
    case 1
    with assms have "read_text path ''text'' 255 d = Inr d'" by (simp add: read_kind_def)
    from read_text_sets [OF this] 1 show ?thesis by (auto simp: key_fields_def sets_field_def)
  next
    case 2
    with assms have "read_text path ''text'' 511 d = Inr d'" by (simp add: read_kind_def)
    from read_text_sets [OF this] 2 show ?thesis by (auto simp: key_fields_def sets_field_def)
  next
    case 3
    with assms have "read_type path d = Inr d'" by (simp add: read_kind_def)
    from read_type_sets [OF this] 3 show ?thesis by (auto simp: key_fields_def sets_field_def)
  next
    case 4
    with assms obtain d1 where "read_byte path ''oldByte'' d = Inr d1" "read_byte path ''newByte'' d1 = Inr d'"
      by (auto simp: read_kind_def sum_bind_Inr)
    from sets_two [OF read_byte_sets [OF this(1)] read_byte_sets [OF this(2)]] 4 show ?thesis
      by (simp add: key_fields_def)
  next
    case 5
    with assms have "read_positive path ''hits'' None d = Inr d'" by (simp add: read_kind_def)
    from read_positive_sets [OF this] 5 show ?thesis by (auto simp: key_fields_def sets_field_def)
  next
    case 6
    with assms obtain d1 where "read_text path ''api'' 512 d = Inr d1" "read_positive path ''count'' (Some 1) d1 = Inr d'"
      by (auto simp: read_kind_def sum_bind_Inr)
    from sets_two [OF read_text_sets [OF this(1)] read_positive_sets [OF this(2)]] 6 show ?thesis
      by (simp add: key_fields_def)
  next
    case 7
    with assms show ?thesis by (simp add: read_kind_def key_fields_def)
  qed
qed

lemma key_fields_plain: "list_all (\<lambda>(k, P). k \<noteq> ''rva'' \<and> k \<noteq> ''manual'') (key_fields key)"
  unfolding key_fields_def by (simp split: if_split)

lemma key_field_plain:
  assumes "(k, P) \<in> set (key_fields key)"
  shows "k \<noteq> ''rva''" "k \<noteq> ''manual''"
  using bspec [OF key_fields_plain [unfolded list_all_iff] assms] unfolding prod.case by (rule conjunct1, rule conjunct2)

lemma rva_not_key_field: "''rva'' \<notin> fst ` set (key_fields key)"
proof
  assume "''rva'' \<in> fst ` set (key_fields key)"
  then obtain kP where kP: "kP \<in> set (key_fields key)" "''rva'' = fst kP" by (rule imageE)
  have "(fst kP, snd kP) \<in> set (key_fields key)" using kP(1) by (simp only: prod.collapse)
  from key_field_plain(1) [OF this] kP(2) show False by (simp only: simp_thms)
qed

lemma read_item_ok:
  assumes "read_item key sz path d = Inr d'"
  shows "item_ok key sz d'"
proof -
  obtain r d1 where r: "evidence_rva (dict_get d ''rva'') sz (path @ ''.rva'') False = Inr r"
    and k: "read_kind key path (AList.update ''rva'' (VInt r) d) = Inr d1" and m: "read_manual path d1 = Inr d'"
    using assms by (auto simp: read_item_def sum_bind_Inr)
  note ks = read_kind_sets [OF k] and ms = read_manual_sets [OF m]
  have "dict_get d' ''rva'' = VInt r"
    using conjunct2 [OF ks] rva_not_key_field sets_field_other [OF ms, of "''rva''"] by simp
  moreover have "list_all (\<lambda>(k, P). P (dict_get d' k)) (key_fields key)"
  proof -
    have "dict_get d' k = dict_get d1 k" if "(k, P) \<in> set (key_fields key)" for k P
      using sets_field_other [OF ms key_field_plain(2) [OF that]] .
    with ks show ?thesis by (fastforce simp: list_all_iff)
  qed
  ultimately show ?thesis using evidence_rva_ok [OF r] ms by (simp add: item_ok_def rva_ok_def sets_field_def)
qed
subsection \<open>Reading an accepted item again\<close>

text \<open>Counts are read back through their decimal text, which Python limits to 4300 digits.\<close>

definition printable_counts :: "pydict \<Rightarrow> bool" where
  "printable_counts d \<longleftrightarrow> list_all (\<lambda>k. case dict_get d k of VInt n \<Rightarrow> printable_dec n | _ \<Rightarrow> True) [''hits'', ''count'']"

lemma evidence_rva_fix: "rva_ok sz v \<Longrightarrow> sz \<le> 0x100000000 \<Longrightarrow> v = VInt r \<Longrightarrow> evidence_rva v sz name False = Inr r"
  by (auto simp: rva_ok_def evidence_rva_def parse_int_VInt printable_small)

lemma read_text_fix: "text_ok limit (dict_get d name) \<Longrightarrow> read_text path name limit d = Inr d"
  by (auto simp: text_ok_def read_text_def evidence_text_def update_present)

lemma read_byte_fix: "byte_ok (dict_get d name) \<Longrightarrow> read_byte path name d = Inr d"
  by (auto simp: byte_ok_def read_byte_def update_present parse_int_VInt printable_small)

lemma read_positive_fix:
  assumes "positive_ok (dict_get d name)" "case dict_get d name of VInt n \<Rightarrow> printable_dec n | _ \<Rightarrow> True"
  shows "read_positive path name dflt d = Inr d"
  using assms by (auto simp: positive_ok_def read_positive_def update_present parse_int_VInt)

lemma breakpoint_types_lower: "list_all (\<lambda>t. lower t = t \<and> t \<noteq> []) breakpoint_types"
  by code_simp

lemma read_type_fix:
  assumes "type_ok (dict_get d ''type'')"
  shows "read_type path d = Inr d"
proof -
  obtain t where t: "t \<in> set breakpoint_types" "dict_get d ''type'' = VStr t" using assms unfolding type_ok_def by blast
  have "lower t = t \<and> t \<noteq> []" using bspec [OF breakpoint_types_lower [unfolded list_all_iff] t(1)] .
  then have "lower (py_str (py_or (VStr t) (VStr ''normal''))) = t" by (simp add: py_or_def)
  with t show ?thesis unfolding read_type_def by (simp add: update_present)
qed

lemma read_manual_fix: "manual_ok (dict_get d ''manual'') \<Longrightarrow> read_manual path d = Inr d"
proof -
  assume "manual_ok (dict_get d ''manual'')"
  then obtain b where b: "dict_get d ''manual'' = VBool b" unfolding manual_ok_def by blast
  have m: "map_of d ''manual'' = Some (VBool b)" using b by (rule dict_get_present) simp
  then have "dict_get_default d ''manual'' (VBool True) = VBool b" by (simp add: dict_get_default_def)
  with b m show ?thesis by (simp add: read_manual_def update_same)
qed

lemma read_kind_fix:
  assumes ok: "list_all (\<lambda>(k, P). P (dict_get d k)) (key_fields key)" and "printable_counts d"
  shows "read_kind key path d = Inr d"
proof -
  have counts: "case dict_get d ''hits'' of VInt n \<Rightarrow> printable_dec n | _ \<Rightarrow> True"
    "case dict_get d ''count'' of VInt n \<Rightarrow> printable_dec n | _ \<Rightarrow> True"
    using assms(2) by (simp_all add: printable_counts_def)
  consider "key = ''labels''" | "key = ''comments''" | "key = ''breakpoints''" | "key = ''patches''"
    | "key = ''nativeTraceHits''" | "key = ''apiCallsites''"
    | "key \<noteq> ''labels''" "key \<noteq> ''comments''" "key \<noteq> ''breakpoints''" "key \<noteq> ''patches''"
      "key \<noteq> ''nativeTraceHits''" "key \<noteq> ''apiCallsites''" by argo
  then show ?thesis
    using ok counts by cases (simp_all add: read_kind_def key_fields_def read_text_fix read_byte_fix read_type_fix read_positive_fix)
qed

lemma read_item_fix:
  assumes "item_ok key sz d" and "sz \<le> 0x100000000" and "printable_counts d"
  shows "read_item key sz path d = Inr d"
proof -
  obtain r where r: "dict_get d ''rva'' = VInt r" using assms(1) unfolding item_ok_def rva_ok_def by blast
  have "evidence_rva (dict_get d ''rva'') sz (path @ ''.rva'') False = Inr r"
    using assms(1,2) r unfolding item_ok_def by (intro evidence_rva_fix) simp_all
  moreover have "AList.update ''rva'' (VInt r) d = d" using r by (rule update_present) simp
  ultimately show ?thesis using assms unfolding item_ok_def read_item_def
    by (simp add: read_kind_fix read_manual_fix)
qed

subsection \<open>Functions\<close>

definition count_ok :: "pyval \<Rightarrow> bool" where
  "count_ok v \<longleftrightarrow> (\<exists>n. v = VInt n \<and> 0 \<le> n \<and> n \<le> 10000000)"

definition function_ok :: "int \<Rightarrow> pydict \<Rightarrow> bool" where
  "function_ok sz d \<longleftrightarrow> rva_ok sz (dict_get d ''rvaStart'') \<and> rva_ok sz (dict_get d ''rvaEndInclusive'')
     \<and> function_start d \<le> function_last d \<and> manual_ok (dict_get d ''manual'')
     \<and> count_ok (dict_get d ''instructionCount'') \<and> dict_get d ''endConvention'' = VStr ''inclusive''"

lemma function_end_ok: "function_end sz path d = Inr e \<Longrightarrow> 0 \<le> e \<and> e < sz"
  by (auto simp: function_end_def sum_bind_Inr evidence_rva_def split: if_split_asm option.split_asm)

text \<open>The item a function with these bounds is normalized to.\<close>

definition function_item :: "int \<Rightarrow> int \<Rightarrow> pydict \<Rightarrow> pydict" where
  "function_item start stop d =
     AList.update ''endConvention'' (VStr ''inclusive'')
       (AList.update ''manual'' (VBool (truthy (dict_get_default d ''manual'' (VBool True))))
         (AList.update ''instructionCount'' (VInt (int_or_0 (dict_get d ''instructionCount'')))
           (AList.update ''rvaEndInclusive'' (VInt stop) (AList.update ''rvaStart'' (VInt start) d))))"

lemma read_function_iff:
  "read_function sz path d = Inr d' \<longleftrightarrow>
     (\<exists>start stop. evidence_rva (dict_get d ''rvaStart'') sz (path @ ''.rvaStart'') False = Inr start
        \<and> function_end sz path d = Inr stop \<and> start \<le> stop
        \<and> 0 \<le> int_or_0 (dict_get d ''instructionCount'') \<and> int_or_0 (dict_get d ''instructionCount'') \<le> 10000000
        \<and> (has_key d ''manual'' \<longrightarrow> is_bool (dict_get d ''manual'')) \<and> d' = function_item start stop d)"
proof -
  have "(if stop < start then Inl e1 else if c < 0 \<or> c > 10000000 then Inl e2 else if m then Inl e3 else Inr x) = Inr d'
      \<longleftrightarrow> start \<le> stop \<and> 0 \<le> c \<and> c \<le> 10000000 \<and> \<not> m \<and> d' = x"
    for start stop c :: int and m and e1 e2 e3 :: string and x by auto
  note cond = this
  show ?thesis unfolding read_function_def Let_def sum_bind_Inr cond function_item_def by blast
qed

lemma read_function_ok:
  assumes "read_function sz path d = Inr d'"
  shows "function_ok sz d'"
proof -
  obtain start stop where s: "evidence_rva (dict_get d ''rvaStart'') sz (path @ ''.rvaStart'') False = Inr start"
    and e: "function_end sz path d = Inr stop" and "start \<le> stop"
    and "0 \<le> int_or_0 (dict_get d ''instructionCount'')" "int_or_0 (dict_get d ''instructionCount'') \<le> 10000000"
    and d': "d' = function_item start stop d"
    using assms unfolding read_function_iff by blast
  with evidence_rva_ok [OF s] function_end_ok [OF e] show ?thesis unfolding d'
    by (simp add: function_item_def function_ok_def rva_ok_def function_start_def function_last_def int_field_def
        manual_ok_def count_ok_def)
qed

lemma read_function_fix:
  assumes "function_ok sz d" and "sz \<le> 0x100000000"
  shows "read_function sz path d = Inr d"
proof -
  obtain start stop count manual where f: "dict_get d ''rvaStart'' = VInt start" "dict_get d ''rvaEndInclusive'' = VInt stop"
    "dict_get d ''instructionCount'' = VInt count" "dict_get d ''manual'' = VBool manual" "dict_get d ''endConvention'' = VStr ''inclusive''"
    "start \<le> stop" "0 \<le> count" "count \<le> 10000000"
    using assms(1) by (auto simp: function_ok_def rva_ok_def manual_ok_def count_ok_def function_start_def function_last_def int_field_def)
  have "evidence_rva (dict_get d ''rvaStart'') sz (path @ ''.rvaStart'') False = Inr start"
    using assms f(1) unfolding function_ok_def by (intro evidence_rva_fix) simp_all
  moreover have "function_end sz path d = Inr stop"
    unfolding function_end_def using assms f(2) evidence_rva_fix [of sz "VInt stop" stop] by (simp add: function_ok_def)
  moreover have "int_or_0 (dict_get d ''instructionCount'') = count"
    using f(3,7,8) by (simp add: int_or_0_def parse_int_VInt printable_small)
  moreover have "dict_get_default d ''manual'' (VBool True) = VBool manual"
    using dict_get_present [OF f(4)] by (simp add: dict_get_default_def)
  moreover have "AList.update ''rvaStart'' (VInt start) d = d" "AList.update ''rvaEndInclusive'' (VInt stop) d = d"
    "AList.update ''instructionCount'' (VInt count) d = d" "AList.update ''manual'' (VBool manual) d = d"
    "AList.update ''endConvention'' (VStr ''inclusive'') d = d"
    using f(1-5) by (simp_all add: update_present)
  ultimately have "function_item start stop d = d" by (simp add: function_item_def)
  with \<open>evidence_rva (dict_get d ''rvaStart'') sz (path @ ''.rvaStart'') False = Inr start\<close> \<open>function_end sz path d = Inr stop\<close>
    \<open>int_or_0 (dict_get d ''instructionCount'') = count\<close> f(4,6,7,8)
  show ?thesis unfolding read_function_iff by (intro exI [of _ start] exI [of _ stop]) simp
qed
subsection \<open>Arrays\<close>

lemma read_items_mem: "read_items rd key n vs = (items, errors) \<Longrightarrow> d \<in> set items \<Longrightarrow> \<exists>path raw. rd path raw = Inr d"
proof (induction vs arbitrary: n items errors)
  case (Cons v vs)
  obtain items' errors' where rest: "read_items rd key (Suc n) vs = (items', errors')" by fastforce
  note IH = Cons.IH [OF rest]
  show ?case
  proof (cases v)
    case (VDict raw)
    then show ?thesis using Cons.prems rest IH by (cases "rd (item_path key n) raw") (auto, blast)
  qed (use Cons.prems rest IH in auto)
qed simp

lemma read_items_fix: "\<forall>d \<in> set ds. \<forall>path. rd path d = Inr d \<Longrightarrow> read_items rd key n (map VDict ds) = (ds, [])"
  by (induction ds arbitrary: n) simp_all

lemma read_array_mem: "d \<in> set (fst (snd (read_array rd key e))) \<Longrightarrow> \<exists>path raw. rd path raw = Inr d"
  unfolding read_array_def Let_def case_prod_beta fst_conv snd_conv
  using read_items_mem [OF surjective_pairing] by fast

lemma read_array_fix:
  assumes "map_of e key = Some (VList (map VDict ds))" and "\<forall>d \<in> set ds. \<forall>path. rd path d = Inr d"
  shows "read_array rd key e = (length ds, ds, [])"
  using assms by (simp add: read_array_def array_of_def dict_get_default_def read_items_fix)

subsection \<open>Duplicates\<close>

lemma dedupe_items_mem: "set (fst (dedupe_items key seen ds)) \<subseteq> set ds"
  by (induction ds arbitrary: seen) (auto simp: Let_def case_prod_beta split: option.splits if_splits)

lemma dedupe_items_distinct:
  "distinct (map (int_field ''rva'') (fst (dedupe_items key seen ds)))
   \<and> (\<forall>d \<in> set (fst (dedupe_items key seen ds)). map_of seen (int_field ''rva'' d) = None)"
proof (induction ds arbitrary: seen)
  case (Cons d ds)
  show ?case
  proof (cases "map_of seen (int_field ''rva'' d)")
    case None
    have "\<forall>x \<in> set (fst (dedupe_items key ((int_field ''rva'' d, d) # seen) ds)).
        int_field ''rva'' x \<noteq> int_field ''rva'' d \<and> map_of seen (int_field ''rva'' x) = None"
      using Cons.IH [of "(int_field ''rva'' d, d) # seen"] by (auto split: if_split_asm)
    with None Cons.IH [of "(int_field ''rva'' d, d) # seen"] show ?thesis by (auto simp: Let_def case_prod_beta)
  qed (use Cons.IH [of seen] in \<open>simp add: Let_def case_prod_beta\<close>)
qed simp

lemma dedupe_items_fix:
  "distinct (map (int_field ''rva'') ds) \<Longrightarrow> \<forall>d \<in> set ds. map_of seen (int_field ''rva'' d) = None \<Longrightarrow>
   dedupe_items key seen ds = (ds, [], [])"
proof (induction ds arbitrary: seen)
  case (Cons d ds)
  have "\<forall>x \<in> set ds. map_of ((int_field ''rva'' d, d) # seen) (int_field ''rva'' x) = None"
    using Cons.prems by (auto simp: image_iff)
  with Cons.IH [of "(int_field ''rva'' d, d) # seen"] Cons.prems show ?case by (simp add: Let_def)
qed simp

text \<open>What a removed item was equal to, when there is no conflict.\<close>

lemma dedupe_items_kept:
  "fst (snd (dedupe_items key seen ds)) = [] \<Longrightarrow> d \<in> set ds \<Longrightarrow>
   d \<in> set (fst (dedupe_items key seen ds))
   \<or> (\<exists>p. (p \<in> set (fst (dedupe_items key seen ds)) \<or> p \<in> snd ` set seen) \<and> py_eq (VDict p) (VDict d))"
proof (induction ds arbitrary: seen)
  case (Cons x ds)
  show ?case
  proof (cases "map_of seen (int_field ''rva'' x)")
    case None
    with Cons.IH [of "(int_field ''rva'' x, x) # seen"] Cons.prems show ?thesis by (auto simp: Let_def case_prod_beta)
  next
    case (Some p)
    then have "p \<in> snd ` set seen" by (force dest: map_of_SomeD)
    with Some Cons.IH [of seen] Cons.prems show ?thesis by (auto simp: Let_def case_prod_beta split: if_split_asm)
  qed
qed simp

subsection \<open>Function ranges\<close>

text \<open>The ranges of a list follow one another without overlap.\<close>

definition separated :: "pydict list \<Rightarrow> bool" where
  "separated fs \<longleftrightarrow> sorted_wrt (\<lambda>p q. function_last p < function_start q) fs"

lemma dedupe_functions_mem: "set (fst (dedupe_functions previous ds)) \<subseteq> set ds"
  by (induction previous ds rule: dedupe_functions.induct) (auto simp: Let_def case_prod_beta split: if_splits)

lemma dedupe_functions_separated:
  "fst (snd (dedupe_functions (Some p) ds)) = [] \<Longrightarrow> \<forall>d \<in> set (p # ds). function_start d \<le> function_last d \<Longrightarrow>
   separated (p # fst (dedupe_functions (Some p) ds))"
proof (induction ds arbitrary: p)
  case (Cons d ds)
  show ?case
  proof (cases "py_eq (VDict d) (VDict p)")
    case False
    with Cons.prems(1) have after: "function_last p < function_start d" "fst (snd (dedupe_functions (Some d) ds)) = []"
      by (auto simp: Let_def case_prod_beta simp del: py_eq.simps split: if_split_asm)
    with Cons have sep: "separated (d # fst (dedupe_functions (Some d) ds))" by simp
    have "function_last p < function_start x" if "x \<in> set (fst (dedupe_functions (Some d) ds))" for x
      using sep that after(1) Cons.prems(2) by (fastforce simp: separated_def)
    with sep after False show ?thesis by (simp add: separated_def Let_def case_prod_beta del: py_eq.simps)
  qed (use Cons in \<open>simp add: Let_def case_prod_beta del: py_eq.simps\<close>)
qed (simp add: separated_def)

lemma dedupe_functions_start:
  assumes "fst (snd (dedupe_functions None ds)) = []" and "\<forall>d \<in> set ds. function_start d \<le> function_last d"
  shows "separated (fst (dedupe_functions None ds))"
  using assms dedupe_functions_separated by (cases ds) (auto simp: separated_def Let_def case_prod_beta)

lemma py_eq_dict_field:
  assumes "py_eq (VDict d) (VDict p)" and "dict_get d k = VInt i"
  shows "num_of (dict_get p k) = Some i"
proof -
  have "map_of d k = Some (VInt i)" using assms(2) by (rule dict_get_present) simp
  then have "(k, VInt i) \<in> set d" by (rule map_of_SomeD)
  with assms(1) show ?thesis
    by (auto simp: list_all_iff dict_get_def dict_get_default_def split: option.split_asm)
qed

lemma functions_differ:
  assumes "function_ok sz d" and "function_ok sz p" and "function_last p < function_start d"
  shows "\<not> py_eq (VDict d) (VDict p)"
proof
  assume eq: "py_eq (VDict d) (VDict p)"
  obtain i j where "dict_get d ''rvaStart'' = VInt i" "dict_get p ''rvaStart'' = VInt j"
    using assms(1,2) unfolding function_ok_def rva_ok_def by blast
  moreover from py_eq_dict_field [OF eq this(1)] this(2) have "i = j" by simp
  ultimately show False using assms(2,3) by (simp add: function_ok_def function_start_def int_field_def)
qed

lemma dedupe_functions_fix:
  "list_all (function_ok sz) (p # ds) \<Longrightarrow> separated (p # ds) \<Longrightarrow> dedupe_functions (Some p) ds = (ds, [], [])"
proof (induction ds arbitrary: p)
  case (Cons d ds)
  then have "\<not> py_eq (VDict d) (VDict p)" "function_last p < function_start d"
    using functions_differ by (auto simp: separated_def)
  moreover have "dedupe_functions (Some d) ds = (ds, [], [])" using Cons by (simp add: separated_def)
  ultimately show ?case by (simp add: Let_def del: py_eq.simps)
qed simp

lemma dedupe_functions_None_fix:
  "list_all (function_ok sz) ds \<Longrightarrow> separated ds \<Longrightarrow> dedupe_functions None ds = (ds, [], [])"
  using dedupe_functions_fix by (cases ds) (simp_all add: Let_def)

lemma sort_key_sorted: "sorted (map k xs) \<Longrightarrow> sort_key k xs = xs"
  by (induction xs) (simp_all add: insort_is_Cons)

lemma separated_sorted:
  assumes "list_all (function_ok sz) ds" and "separated ds"
  shows "sort_key (\<lambda>f. (function_start f, function_last f)) ds = ds"
proof (rule sort_key_sorted)
  show "sorted (map (\<lambda>f. (function_start f, function_last f)) ds)"
    using assms by (induction ds) (force simp: separated_def function_ok_def list_all_iff)+
qed

subsection \<open>Accepted documents\<close>

lemma functions_not_item: "''functions'' \<notin> set item_keys"
  by code_simp

lemma unique_subset: "set unique_keys \<subseteq> set item_keys"
  by code_simp

lemma normalized_lookup: "map_of (normalized_document d) k =
    (if k \<in> set item_keys then Some (fst (unique_items d k)) else if k = ''functions'' then Some (fst (unique_functions d)) else None)"
proof -
  have "map_of (map (\<lambda>k. (k, fst (unique_items d k))) item_keys) k = (if k \<in> set item_keys then Some (fst (unique_items d k)) else None)"
    by (simp add: map_of_map_restrict restrict_map_def)
  then show ?thesis unfolding normalized_document_def map_of_append map_add_def by simp
qed

lemma normalized_functions: "normalized_items (validate_document d) ''functions'' = fst (unique_functions d)"
  using functions_not_item by (simp add: normalized_items_def validate_document_def normalized_lookup)

lemma normalized_key: "k \<in> set item_keys \<Longrightarrow> normalized_items (validate_document d) k = fst (unique_items d k)"
  by (simp add: normalized_items_def validate_document_def normalized_lookup)

lemma valid_parts:
  assumes "valid_evidence (validate_document d)"
  shows "header_errors d = []" "image_errors d = []" "\<forall>k \<in> set item_keys. fst (snd (unique_items d k)) = []"
    "fst (snd (unique_functions d)) = []" "total_items d \<le> 100000"
  using assms by (simp_all add: valid_evidence_def validate_document_def split: if_split_asm)

lemma image_size_bounds: "image_errors d = [] \<Longrightarrow> 0 < image_size_of (document_image d) \<and> image_size_of (document_image d) \<le> 0x100000000"
  unfolding image_errors_def Let_def document_image_def by (simp split: if_split_asm)

lemma unique_items_subset: "set (fst (unique_items d k)) \<subseteq> set (fst (snd (item_array d k)))"
  using dedupe_items_mem unfolding unique_items_def dedupe_key_def by (simp split: if_split)

lemma unique_items_ok: "list_all (item_ok k (image_size_of (document_image d))) (fst (unique_items d k))"
  using unique_items_subset read_array_mem read_item_ok unfolding list_all_iff item_array_def by blast

lemma unique_items_distinct: "k \<in> set unique_keys \<Longrightarrow> distinct (map (int_field ''rva'') (fst (unique_items d k)))"
  using dedupe_items_distinct by (simp add: unique_items_def dedupe_key_def)

lemma read_functions_ok: "\<forall>f \<in> set (fst (snd (function_array d))). function_ok (image_size_of (document_image d)) f"
  unfolding function_array_def using read_array_mem read_function_ok by blast

lemma unique_functions_ok: "list_all (function_ok (image_size_of (document_image d))) (fst (unique_functions d))"
  using read_functions_ok dedupe_functions_mem unfolding unique_functions_def list_all_iff by fastforce

lemma unique_functions_separated:
  assumes "fst (snd (unique_functions d)) = []"
  shows "separated (fst (unique_functions d))"
  unfolding unique_functions_def
proof (rule dedupe_functions_start)
  show "fst (snd (dedupe_functions None (sort_key (\<lambda>f. (function_start f, function_last f)) (fst (snd (function_array d)))))) = []"
    using assms unfolding unique_functions_def .
  show "\<forall>f \<in> set (sort_key (\<lambda>f. (function_start f, function_last f)) (fst (snd (function_array d)))). function_start f \<le> function_last f"
    using read_functions_ok by (simp add: function_ok_def)
qed

text \<open>C35: An accepted document has been normalized to what the importer relies on: every item is at an
  address inside the image and has the fields of its kind, no two labels, comments, bookmarks or patches
  share an address, and the functions are ranges in the image that follow one another without overlap.\<close>

theorem accepted_evidence_wf:
  assumes "valid_evidence (validate_document d)"
  shows "let v = validate_document d; sz = image_size_of (va_image v) in
     0 < sz \<and> sz \<le> 0x100000000
     \<and> (\<forall>key \<in> set item_keys. list_all (item_ok key sz) (normalized_items v key))
     \<and> (\<forall>key \<in> set unique_keys. distinct (map (int_field ''rva'') (normalized_items v key)))
     \<and> list_all (function_ok sz) (normalized_items v ''functions'') \<and> separated (normalized_items v ''functions'')"
proof -
  have img: "va_image (validate_document d) = document_image d" by (simp add: validate_document_def)
  have "\<forall>key \<in> set unique_keys. distinct (map (int_field ''rva'') (normalized_items (validate_document d) key))"
    using unique_items_distinct normalized_key unique_subset by force
  then show ?thesis
    using image_size_bounds [OF valid_parts(2) [OF assms]] unique_items_ok unique_functions_ok
      unique_functions_separated [OF valid_parts(4) [OF assms]]
    unfolding Let_def img normalized_functions by (simp add: normalized_key)
qed
text \<open>The document with the normalized arrays, and their counts, in place of the given ones.\<close>

definition normalized_evidence :: "validation \<Rightarrow> pydict" where
  "normalized_evidence v = map (\<lambda>(k, items). (k, VList (map VDict items))) (va_normalized v)"

definition reissued :: "validation \<Rightarrow> pydict" where
  "reissued v =
     [(''schema'', va_schema v), (''version'', va_version v), (''image'', VDict (va_image v)),
      (''evidence'', VDict (normalized_evidence v)),
      (''counts'', VDict (map (\<lambda>(k, items). (k, VInt (int (length items)))) (va_normalized v)))]"

lemma reissued_fields:
  "dict_get (reissued v) ''schema'' = va_schema v" "dict_get (reissued v) ''version'' = va_version v"
  "document_image (reissued v) = va_image v" "document_evidence (reissued v) = normalized_evidence v"
  "dict_get (reissued v) ''image'' = VDict (va_image v)" "is_dict (dict_get (reissued v) ''evidence'')"
  "dict_get (reissued v) ''counts'' = VDict (map (\<lambda>(k, items). (k, VInt (int (length items)))) (va_normalized v))"
  by (simp_all add: reissued_def document_image_def document_evidence_def dict_get_Cons)

lemma normalized_evidence_lookup:
  "map_of (va_normalized v) k = Some items \<Longrightarrow> map_of (normalized_evidence v) k = Some (VList (map VDict items))"
  by (simp add: normalized_evidence_def map_of_map)

lemma read_items_length: "length (fst (read_items rd key n vs)) \<le> length vs"
  by (induction vs arbitrary: n) (auto simp: Let_def case_prod_beta split: sum.split intro: le_SucI)

lemma read_array_length: "length (fst (snd (read_array rd key e))) \<le> fst (read_array rd key e)"
  by (simp add: read_array_def case_prod_beta read_items_length)

lemma dedupe_items_length: "length (fst (dedupe_items key seen ds)) \<le> length ds"
  by (induction ds arbitrary: seen) (auto simp: Let_def case_prod_beta split: option.split intro: le_SucI)

lemma dedupe_functions_length: "length (fst (dedupe_functions p ds)) \<le> length ds"
  by (induction ds arbitrary: p) (auto simp: Let_def case_prod_beta simp del: py_eq.simps intro: le_SucI)

lemma unique_items_length: "length (fst (unique_items d k)) \<le> fst (item_array d k)"
proof -
  have "length (fst (unique_items d k)) \<le> length (fst (snd (item_array d k)))"
    using dedupe_items_length by (simp add: unique_items_def dedupe_key_def)
  also have "\<dots> \<le> fst (item_array d k)" unfolding item_array_def by (rule read_array_length)
  finally show ?thesis .
qed

lemma unique_functions_length: "length (fst (unique_functions d)) \<le> fst (function_array d)"
proof -
  have "length (fst (unique_functions d)) \<le> length (fst (snd (function_array d)))"
    unfolding unique_functions_def using dedupe_functions_length [of None "sort_key _ _"] by (simp only: length_sort)
  also have "\<dots> \<le> fst (function_array d)" unfolding function_array_def by (rule read_array_length)
  finally show ?thesis .
qed

lemma same_counts:
  assumes "\<forall>(k, items) \<in> set normalized. length items \<le> 100000" and "distinct (map fst normalized)"
  shows "\<not> counts_differ (VDict (map (\<lambda>(k, items). (k, VInt (int (length items)))) normalized)) normalized"
proof -
  have "parse_int (dict_get (map (\<lambda>(k, items). (k, VInt (int (length items)))) normalized) k) (Some (- 1)) = Some (int (length items))"
    if "(k, items) \<in> set normalized" for k items
  proof -
    have "map_of (map (\<lambda>(k, items). (k, VInt (int (length items)))) normalized) k = Some (VInt (int (length items)))"
      using that assms(2) by (simp add: map_of_map)
    then have "dict_get (map (\<lambda>(k, items). (k, VInt (int (length items)))) normalized) k = VInt (int (length items))"
      by (simp add: dict_get_def dict_get_default_def)
    moreover have "length items \<le> 100000" using that assms(1) by blast
    ultimately show ?thesis by (simp add: parse_int_VInt printable_small)
  qed
  then show ?thesis by (auto simp: counts_differ_def list_ex_iff)
qed

lemma normalized_keys_distinct: "distinct (map fst (normalized_document d))"
proof -
  have "map fst (normalized_document d) = item_keys @ [''functions'']" by (simp add: normalized_document_def comp_def)
  moreover have "distinct (item_keys @ [''functions''])" by code_simp
  ultimately show ?thesis by (simp only:)
qed

lemma normalized_short:
  assumes "total_items d \<le> 100000"
  shows "\<forall>(k, items) \<in> set (normalized_document d). length items \<le> 100000"
proof -
  have "length (fst (unique_items d k)) \<le> 100000" if "k \<in> set item_keys" for k
    using unique_items_length [of d k] member_le_sum_list [of "fst (item_array d k)" "map (\<lambda>k. fst (item_array d k)) item_keys"] that assms
    by (simp add: total_items_def)
  moreover have "length (fst (unique_functions d)) \<le> 100000"
    using unique_functions_length [of d] assms by (simp add: total_items_def)
  ultimately show ?thesis by (auto simp: normalized_document_def)
qed
lemma validation_fields:
  "va_schema (validate_document d) = dict_get d ''schema''" "va_version (validate_document d) = dict_get d ''version''"
  "va_normalized (validate_document d) = normalized_document d" "va_image (validate_document d) = document_image d"
  by (simp_all add: validate_document_def)

lemma reissued_arrays:
  assumes valid: "valid_evidence (validate_document d)"
    and counts: "\<forall>key \<in> set item_keys. list_all printable_counts (normalized_items (validate_document d) key)"
  defines "d' \<equiv> reissued (validate_document d)"
  shows "k \<in> set item_keys \<Longrightarrow> item_array d' k = (length (fst (unique_items d k)), fst (unique_items d k), [])"
    and "k \<in> set item_keys \<Longrightarrow> unique_items d' k = (fst (unique_items d k), [], [])"
    and "function_array d' = (length (fst (unique_functions d)), fst (unique_functions d), [])"
    and "unique_functions d' = (fst (unique_functions d), [], [])"
proof -
  let ?sz = "image_size_of (document_image d)"
  have img: "document_image d' = document_image d" unfolding d'_def reissued_fields by (simp add: validate_document_def)
  have lookup: "map_of (document_evidence d') k = Some (VList (map VDict items))"
    if "map_of (normalized_document d) k = Some items" for k items
    unfolding d'_def reissued_fields using that by (intro normalized_evidence_lookup) (simp add: validate_document_def)
  have small: "?sz \<le> 0x100000000" using image_size_bounds [OF valid_parts(2) [OF valid]] by simp
  show arr: "item_array d' k = (length (fst (unique_items d k)), fst (unique_items d k), [])" if k: "k \<in> set item_keys" for k
    unfolding item_array_def img
  proof (rule read_array_fix)
    show "map_of (document_evidence d') k = Some (VList (map VDict (fst (unique_items d k))))"
      using k by (intro lookup) (simp add: normalized_lookup)
    show "\<forall>x \<in> set (fst (unique_items d k)). \<forall>path. read_item k ?sz path x = Inr x"
      using unique_items_ok [of k d] counts k small normalized_key [OF k, of d] read_item_fix by (simp add: list_all_iff)
  qed
  show "unique_items d' k = (fst (unique_items d k), [], [])" if k: "k \<in> set item_keys"
    using unique_items_distinct [of k d] dedupe_items_fix [of "fst (unique_items d k)" "[]" k]
    by (simp add: unique_items_def [of d'] arr [OF k] dedupe_key_def)
  show fs: "function_array d' = (length (fst (unique_functions d)), fst (unique_functions d), [])"
    unfolding function_array_def img
  proof (rule read_array_fix)
    show "map_of (document_evidence d') ''functions'' = Some (VList (map VDict (fst (unique_functions d))))"
      using functions_not_item by (intro lookup) (simp add: normalized_lookup)
    show "\<forall>x \<in> set (fst (unique_functions d)). \<forall>path. read_function ?sz path x = Inr x"
      using unique_functions_ok [of d] small read_function_fix by (simp add: list_all_iff)
  qed
  note sep = unique_functions_separated [OF valid_parts(4) [OF valid]] and ok = unique_functions_ok [of d]
  show "unique_functions d' = (fst (unique_functions d), [], [])"
    unfolding unique_functions_def [of d'] fs fst_conv snd_conv separated_sorted [OF ok sep]
    by (rule dedupe_functions_None_fix [OF ok sep])
qed

lemma header_errors_cong:
  "dict_get d ''schema'' = dict_get d' ''schema'' \<Longrightarrow> dict_get d ''version'' = dict_get d' ''version'' \<Longrightarrow> header_errors d = header_errors d'"
  unfolding header_errors_def by (simp only:)

lemma image_errors_cong: "dict_get d' ''image'' = VDict (document_image d) \<Longrightarrow> image_errors d = [] \<Longrightarrow> image_errors d' = []"
  unfolding image_errors_def document_image_def Let_def by (simp only: append_is_Nil_conv as_dict.simps is_dict.simps if_True simp_thms)

text \<open>C36: The normalized document of an accepted one is accepted again: validating it returns the same arrays and
  the same image, with no error and no warning, as long as the counts can be printed.\<close>

theorem evidence_reads_back:
  assumes valid: "valid_evidence (validate_document d)"
    and counts: "\<forall>key \<in> set item_keys. list_all printable_counts (normalized_items (validate_document d) key)"
  shows "validate_document (reissued (validate_document d)) = (validate_document d)\<lparr>va_warnings := []\<rparr>"
proof -
  let ?v = "validate_document d" and ?d' = "reissued (validate_document d)"
  note arrays = reissued_arrays [OF valid counts] and parts = valid_parts [OF valid]
  have img: "document_image ?d' = document_image d" unfolding reissued_fields by (simp add: validate_document_def)
  have heads: "dict_get ?d' ''schema'' = dict_get d ''schema''" "dict_get ?d' ''version'' = dict_get d ''version''"
    unfolding reissued_fields by (simp_all add: validate_document_def)
  have no_errors: "header_errors ?d' = []" "image_errors ?d' = []"
    using parts(1,2) header_errors_cong [OF heads] image_errors_cong [of ?d' d] by (simp_all add: reissued_fields validate_document_def)
  have normalized: "normalized_document ?d' = normalized_document d"
    unfolding normalized_document_def using arrays(2,4) by simp
  have "sum_list (map (\<lambda>k. fst (item_array ?d' k)) item_keys) \<le> sum_list (map (\<lambda>k. fst (item_array d k)) item_keys)"
    using arrays(1) unique_items_length by (intro sum_list_mono) simp
  moreover have "fst (function_array ?d') \<le> fst (function_array d)" using arrays(3) unique_functions_length by simp
  ultimately have total: "total_items ?d' \<le> 100000" using parts(5) unfolding total_items_def by linarith
  have "\<not> counts_differ (dict_get ?d' ''counts'') (normalized_document d)"
    unfolding reissued_fields using same_counts [OF normalized_short [OF parts(5)] normalized_keys_distinct]
    by (simp add: validate_document_def)
  then have warnings: "va_warnings (validate_document ?d') = []"
    using arrays(2,4) normalized by (simp add: validate_document_def [of ?d'])
  have errors: "va_errors (validate_document ?d') = []"
    using arrays no_errors total reissued_fields(6) [of ?v] by (simp add: validate_document_def [of ?d'])
  have "va_errors ?v = []" using valid by (simp add: valid_evidence_def)
  then have "va_schema (validate_document ?d') = va_schema ?v" "va_version (validate_document ?d') = va_version ?v"
    "va_errors (validate_document ?d') = va_errors ?v" "va_normalized (validate_document ?d') = va_normalized ?v"
    "va_image (validate_document ?d') = va_image ?v"
    unfolding errors validation_fields normalized img by (simp_all only: heads)
  with warnings show ?thesis by (intro validation.equality) simp_all
qed

lemma read_items_all:
  "snd (read_items rd key n vs) = [] \<Longrightarrow> v \<in> set vs \<Longrightarrow>
   \<exists>path raw d. v = VDict raw \<and> rd path raw = Inr d \<and> d \<in> set (fst (read_items rd key n vs))"
proof (induction vs arbitrary: n)
  case (Cons w vs)
  obtain items errors where rest: "read_items rd key (Suc n) vs = (items, errors)" by fastforce
  show ?case
  proof (cases w)
    case (VDict raw)
    with Cons.prems(1) rest obtain d where d: "rd (item_path key n) raw = Inr d" "errors = []"
      by (cases "rd (item_path key n) raw") auto
    show ?thesis
    proof (cases "v = w")
      case True
      with VDict d rest show ?thesis by auto
    next
      case False
      with Cons.prems(2) have "v \<in> set vs" by simp
      with Cons.IH [of "Suc n"] d rest VDict show ?thesis by auto
    qed
  qed (use Cons.prems(1) rest in simp_all)
qed simp

text \<open>Nothing of an accepted document is dropped in silence: each entry of an array was read, and what was
  read is among the normalized items, or equal to one that is.\<close>

lemma accepted_evidence_complete:
  assumes "valid_evidence (validate_document d)" and "key \<in> set item_keys"
    and "dict_get (document_evidence d) key = VList vs" and "v \<in> set vs"
  shows "\<exists>path raw item. v = VDict raw \<and> read_item key (image_size_of (document_image d)) path raw = Inr item
     \<and> (\<exists>p \<in> set (normalized_items (validate_document d) key). p = item \<or> py_eq (VDict p) (VDict item))"
proof -
  let ?rd = "read_item key (image_size_of (document_image d))"
  have arr: "array_of key (document_evidence d) = (vs, [])"
    using dict_get_present [OF assms(3)] by (simp add: array_of_def dict_get_default_def)
  have "snd (snd (item_array d key)) = []"
    using assms(1,2) by (simp add: valid_evidence_def validate_document_def split: if_split_asm)
  then have none: "snd (read_items ?rd key 0 vs) = []" by (simp add: item_array_def read_array_def arr case_prod_beta)
  obtain path raw item where item: "v = VDict raw" "?rd path raw = Inr item" "item \<in> set (fst (read_items ?rd key 0 vs))"
    using read_items_all [OF none assms(4)] by blast
  have items: "fst (snd (item_array d key)) = fst (read_items ?rd key 0 vs)"
    by (simp add: item_array_def read_array_def arr case_prod_beta)
  have "fst (snd (unique_items d key)) = []" using valid_parts(3) [OF assms(1)] assms(2) by blast
  then have "\<exists>p \<in> set (fst (unique_items d key)). p = item \<or> py_eq (VDict p) (VDict item)"
    using dedupe_items_kept [of key "[]" "fst (snd (item_array d key))" item] item(3)
    unfolding unique_items_def dedupe_key_def items by (auto simp del: py_eq.simps split: if_split_asm)
  with item normalized_key [OF assms(2)] show ?thesis by metis
qed
subsection \<open>A sample document\<close>

definition sample_evidence :: pydict where
  "sample_evidence =
     [(''labels'', VList [VDict [(''rva'', VInt 16), (''text'', VStr ''start'')], VDict [(''rva'', VStr ''0x10''), (''text'', VStr ''start'')]]),
      (''nativeTraceHits'', VList [VDict [(''rva'', VInt 32), (''hits'', VInt 3)]]),
      (''functions'', VList [VDict [(''rvaStart'', VInt 64), (''endRvaExclusive'', VInt 80)],
         VDict [(''rvaStart'', VInt 16), (''rvaEnd'', VInt 63)]])]"

definition sample_document :: pydict where
  "sample_document =
     [(''schema'', VStr ''x64dbg-mcp-evidence''), (''version'', VStr ''1''),
      (''image'', VDict [(''sha256'', VStr (replicate 64 (CHR ''a''))), (''arch'', VStr ''x64''), (''sizeOfImage'', VStr ''0x2000'')]),
      (''evidence'', VDict sample_evidence)]"

lemma sample_parts:
  "image_size_of (document_image sample_document) = 8192" "document_evidence sample_document = sample_evidence"
  "header_errors sample_document = []" "is_dict (dict_get sample_document ''evidence'')"
  by code_simp+

lemma sample_image: "image_errors sample_document = []"
  by code_simp

definition sample_label :: pydict where
  "sample_label = [(''rva'', VInt 16), (''text'', VStr ''start''), (''manual'', VBool True)]"

lemma sample_labels: "item_array sample_document ''labels'' = (2, [sample_label, sample_label], [])"
  unfolding item_array_def sample_parts sample_label_def by code_simp

lemma sample_hits: "item_array sample_document ''nativeTraceHits'' = (1, [[(''rva'', VInt 32), (''hits'', VInt 3), (''manual'', VBool True)]], [])"
  unfolding item_array_def sample_parts by code_simp

lemma sample_others:
  "item_array sample_document ''comments'' = (0, [], [])" "item_array sample_document ''bookmarks'' = (0, [], [])"
  "item_array sample_document ''breakpoints'' = (0, [], [])" "item_array sample_document ''patches'' = (0, [], [])"
  "item_array sample_document ''apiCallsites'' = (0, [], [])"
  unfolding item_array_def sample_parts by code_simp+

lemma sample_functions: "function_array sample_document = (2,
    [[(''rvaStart'', VInt 64), (''endRvaExclusive'', VInt 80), (''rvaEndInclusive'', VInt 79), (''instructionCount'', VInt 0),
      (''manual'', VBool True), (''endConvention'', VStr ''inclusive'')],
     [(''rvaStart'', VInt 16), (''rvaEnd'', VInt 63), (''rvaEndInclusive'', VInt 63), (''instructionCount'', VInt 0),
      (''manual'', VBool True), (''endConvention'', VStr ''inclusive'')]], [])"
  unfolding function_array_def sample_parts by code_simp

lemma sample_unique:
  "unique_items sample_document ''labels'' = ([sample_label], [], [''Removed an exact duplicate label at RVA 0x10.''])"
  "unique_items sample_document ''comments'' = ([], [], [])" "unique_items sample_document ''bookmarks'' = ([], [], [])"
  "unique_items sample_document ''breakpoints'' = ([], [], [])" "unique_items sample_document ''patches'' = ([], [], [])"
  "unique_items sample_document ''nativeTraceHits'' = ([[(''rva'', VInt 32), (''hits'', VInt 3), (''manual'', VBool True)]], [], [])"
  "unique_items sample_document ''apiCallsites'' = ([], [], [])"
  unfolding unique_items_def sample_labels sample_hits sample_others fst_conv snd_conv by code_simp+

lemma sample_unique_functions: "unique_functions sample_document = (
    [[(''rvaStart'', VInt 16), (''rvaEnd'', VInt 63), (''rvaEndInclusive'', VInt 63), (''instructionCount'', VInt 0),
      (''manual'', VBool True), (''endConvention'', VStr ''inclusive'')],
     [(''rvaStart'', VInt 64), (''endRvaExclusive'', VInt 80), (''rvaEndInclusive'', VInt 79), (''instructionCount'', VInt 0),
      (''manual'', VBool True), (''endConvention'', VStr ''inclusive'')]], [], [])"
  unfolding unique_functions_def sample_functions fst_conv snd_conv by code_simp

lemmas sample_facts = sample_parts sample_image sample_labels sample_hits sample_others sample_functions
  sample_unique sample_unique_functions

lemma sample_total: "total_items sample_document = 5"
  unfolding total_items_def item_keys_def list.map sample_facts fst_conv by simp

lemma sample_valid: "valid_evidence (validate_document sample_document)"
  unfolding valid_evidence_def validate_document_def item_keys_def list.map sample_facts fst_conv snd_conv sample_total
  using sample_parts(4) by simp

lemma sample_counts: "\<forall>key \<in> set item_keys. list_all printable_counts (normalized_items (validate_document sample_document) key)"
proof
  fix key
  assume key: "key \<in> set item_keys"
  have "list_all (\<lambda>k. list_all printable_counts (fst (unique_items sample_document k))) item_keys"
    unfolding item_keys_def list.pred_inject sample_facts fst_conv by code_simp
  from this key show "list_all printable_counts (normalized_items (validate_document sample_document) key)"
    unfolding normalized_key [OF key] list_all_iff [of _ item_keys] by (rule bspec)
qed

theorem accepted_evidence_wf_witness:
  "separated (normalized_items (validate_document sample_document) ''functions'')
     \<and> length (normalized_items (validate_document sample_document) ''functions'') = 2"
  using accepted_evidence_wf [OF sample_valid] unfolding Let_def normalized_functions sample_unique_functions fst_conv by simp

theorem evidence_reads_back_witness:
  "validate_document (reissued (validate_document sample_document)) = (validate_document sample_document)\<lparr>va_warnings := []\<rparr>
     \<and> normalized_items (validate_document sample_document) ''labels'' = [sample_label]"
proof -
  have "''labels'' \<in> set item_keys" by code_simp
  then have "normalized_items (validate_document sample_document) ''labels'' = [sample_label]"
    by (simp only: normalized_key sample_unique fst_conv)
  with evidence_reads_back [OF sample_valid sample_counts] show ?thesis by (rule conjI)
qed

end
