(* ===== verification/EvidenceImportProps.thy ===== *)
theory EvidenceImportProps
  imports EvidenceImport EvidenceProps
begin

text \<open>
  Properties of the import of analysis evidence: what has to hold before a mutation is sent, which
  mutations are sent and in which order, what they leave alone, and what success means.
\<close>

subsection \<open>Plans\<close>

lemma refuse_not_Inr [simp]: "refuse c m d \<noteq> Inr x" "Inr x \<noteq> refuse c m d"
  by (simp_all add: refuse_def)

lemma refuse_if: "(if b then refuse c m d else x) = Inr y \<longleftrightarrow> \<not> b \<and> x = Inr y"
  by simp

text \<open>What a plan was made from.\<close>

lemma make_plan_Inr:
  assumes "make_plan E A v = Inr p"
  shows "\<exists>present. valid_evidence v \<and> ip_image p = va_image v
    \<and> mismatched (ia_allow_mismatch A) (va_image v) (ip_module p) = []
    \<and> current_annotations E (str_or_empty (dict_get (ip_module p) ''name'')) = Inr present
    \<and> plan_verdicts E A (ip_base p) present v = Inr (ip_verdicts p)
    \<and> ip_ignored p = map (\<lambda>(k, _). (k, length (normalized_items v k))) (filter (\<lambda>(_, s). \<not> s) (selected A))"
proof -
  obtain ctx :: module_context and present verdicts where "valid_evidence v"
    and wrong: "mismatched (ia_allow_mismatch A) (va_image v) (mc_identity ctx) = []"
    and pr: "current_annotations E (str_or_empty (dict_get (mc_identity ctx) ''name'')) = Inr present"
    and ve: "plan_verdicts E A (mc_base ctx) present v = Inr verdicts"
    and p: "p = \<lparr>ip_module = mc_identity ctx, ip_image = va_image v, ip_base = mc_base ctx, ip_verdicts = verdicts,
       ip_warnings = dedupe_texts (va_warnings v
         @ concat (map breakpoint_warning (chosen (ia_breakpoints A) (normalized_items v ''breakpoints'')))),
       ip_ignored = map (\<lambda>(k, _). (k, length (normalized_items v k))) (filter (\<lambda>(_, s). \<not> s) (selected A)),
       ip_paused = truthy (dict_get (as_dict (dict_get (hello_payload E) ''session'')) ''paused''), ip_event = hello_event E\<rparr>"
    using assms unfolding make_plan_def Let_def refuse_if sum_bind_Inr sum.inject by blast
  then show ?thesis by (intro exI [of _ present]) simp
qed

definition applicable :: "import_args \<Rightarrow> import_plan \<Rightarrow> bool" where
  "applicable A p \<longleftrightarrow> \<not> ia_dry_run A \<and> conflicts_of (ip_verdicts p) = [] \<and> ip_paused p \<and> 0 < ip_event p"

lemma import_runs:
  "make_plan E A (validate_document document) = Inr p \<Longrightarrow> applicable A p \<Longrightarrow>
   import_evidence E A document =
     run_import E (public_validation (validate_document document)) (plan_dict A p) (ip_event p) (actions_of (ip_verdicts p))"
  by (simp add: import_evidence_def Let_def applicable_def)

lemma import_stops:
  "make_plan E A (validate_document document) = Inr p \<Longrightarrow> \<not> applicable A p \<Longrightarrow> snd (import_evidence E A document) = []"
  by (auto simp: import_evidence_def Let_def applicable_def)

lemma import_planned:
  assumes "snd (import_evidence E A document) \<noteq> []"
  obtains p where "make_plan E A (validate_document document) = Inr p" "applicable A p"
proof -
  obtain p where p: "make_plan E A (validate_document document) = Inr p"
    using assms by (cases "make_plan E A (validate_document document)")
      (auto simp: import_evidence_def Let_def split: import_failure.splits)
  with import_stops assms have "applicable A p" by blast
  with p that show ?thesis by blast
qed

lemma mismatched_Nil:
  "mismatched allow img current = [] \<longleftrightarrow>
     lower (str_or_empty (dict_get img ''arch'')) = lower (str_or_empty (dict_get current ''arch''))
     \<and> lower (str_or_empty (dict_get img ''machine'')) = lower (str_or_empty (dict_get current ''machine''))
     \<and> image_size_of img = int_field ''sizeOfImage'' current
     \<and> (upper (str_or_empty (dict_get img ''sha256'')) = upper (str_or_empty (dict_get current ''sha256'')) \<or> allow)"
  by (simp add: mismatched_def differs_def hash_matches_def expected_hash_def)

subsection \<open>Actions\<close>

lemma mem_actions: "a \<in> set (actions_of vs) \<longleftrightarrow> Act a \<in> set vs"
  unfolding actions_of_def by (induction vs) (auto split: verdict.splits)

lemma verdict_count: "length (actions_of vs) + length (noops_of vs) + length (conflicts_of vs) = length vs"
  unfolding actions_of_def noops_of_def conflicts_of_def by (induction vs) (auto split: verdict.splits)

lemma decide_Act:
  "decide overwrite same existing rec = Act a \<longleftrightarrow>
     \<not> same \<and> (existing = [] \<or> overwrite) \<and> a = rec @ [(''operation'', VStr (if existing \<noteq> [] then ''update'' else ''create''))]"
  by (auto simp: decide_def)

text \<open>What an action of a plan may be.\<close>

datatype planned =
    PlanText string pydict
  | PlanBookmark pydict
  | PlanFunction pydict
  | PlanBreakpoint pydict
  | PlanPatch int pydict

definition operation :: "bool \<Rightarrow> pydict" where
  "operation fresh = [(''operation'', VStr (if fresh then ''create'' else ''update''))]"

fun planned_action :: "int \<Rightarrow> bool \<Rightarrow> planned \<Rightarrow> pydict" where
  "planned_action base fresh (PlanText kind item) = text_record kind base item @ operation fresh"
| "planned_action base fresh (PlanBookmark item) = bookmark_record base item @ operation fresh"
| "planned_action base fresh (PlanFunction item) = function_record base item @ operation fresh"
| "planned_action base fresh (PlanBreakpoint item) = breakpoint_record base item @ operation fresh"
| "planned_action base fresh (PlanPatch current item) = patch_record base item current @ operation fresh"

lemma operation_update: "existing \<noteq> [] \<Longrightarrow> [(''operation'', VStr (if existing \<noteq> [] then ''update'' else ''create''))] = operation False"
  by (simp add: operation_def)

lemma planned_request:
  "action_request (planned_action base fresh (PlanText ''label'' item)) =
     Some (''Label/Set'', [(''addr'', VStr (hex0X (base + int_field ''rva'' item))), (''text'', VStr (str_or_empty (dict_get item ''text''))),
       (''manual'', VStr (bool_text (VBool (is_manual item))))])"
  "action_request (planned_action base fresh (PlanText ''comment'' item)) =
     Some (''Comment/Set'', [(''addr'', VStr (hex0X (base + int_field ''rva'' item))), (''text'', VStr (str_or_empty (dict_get item ''text''))),
       (''manual'', VStr (bool_text (VBool (is_manual item))))])"
  "action_request (planned_action base fresh (PlanBookmark item)) =
     Some (''Bookmark/Set'', [(''addr'', VStr (hex0X (base + int_field ''rva'' item))), (''manual'', VStr (bool_text (VBool (is_manual item))))])"
  "action_request (planned_action base fresh (PlanFunction item)) =
     Some (''Function/Add'', [(''start'', VStr (hex0X (base + function_start item))), (''end'', VStr (hex0X (base + function_last item))),
       (''manual'', VStr (bool_text (VBool (is_manual item)))),
       (''instructionCount'', VStr (py_str (VInt (int_field ''instructionCount'' item))))])"
  "action_request (planned_action base fresh (PlanBreakpoint item)) =
     Some (''Debug/SetBreakpoint'', [(''addr'', VStr (hex0X (base + int_field ''rva'' item)))])"
  "action_request (planned_action base fresh (PlanPatch current item)) =
     Some (''Memory/Write'', [(''addr'', VStr (hex0X (base + int_field ''rva'' item))),
       (''data'', VStr (hex_byte (int_or_0 (VStr (''0x'' @ hex_byte (int_field ''newByte'' item))))))])"
  by (simp_all add: action_request_def text_record_def bookmark_record_def function_record_def breakpoint_record_def patch_record_def
      operation_def dict_get_Cons)

text \<open>What the plan leaves alone: an action creates where nothing is, or the caller asked to overwrite.\<close>

fun leaves_alone :: "import_env \<Rightarrow> import_args \<Rightarrow> annotations \<Rightarrow> int \<Rightarrow> bool \<Rightarrow> planned \<Rightarrow> bool" where
  "leaves_alone E A present base fresh (PlanText kind item) \<longleftrightarrow>
     (kind = ''label'' \<and> ia_labels A \<and> fresh = (existing_at (an_labels present) (int_field ''rva'' item) = [])
      \<or> kind = ''comment'' \<and> ia_comments A \<and> fresh = (existing_at (an_comments present) (int_field ''rva'' item) = []))
     \<and> (fresh \<or> ia_overwrite A)"
| "leaves_alone E A present base fresh (PlanBookmark item) \<longleftrightarrow>
     ia_bookmarks A \<and> fresh = (existing_at (an_bookmarks present) (int_field ''rva'' item) = []) \<and> (fresh \<or> ia_overwrite A)"
| "leaves_alone E A present base fresh (PlanFunction item) \<longleftrightarrow>
     ia_functions A \<and> fresh
     \<and> (\<forall>(s, e, _) \<in> set (function_ranges (an_functions present)). function_last item < s \<or> e < function_start item)"
| "leaves_alone E A present base fresh (PlanBreakpoint item) \<longleftrightarrow>
     ia_breakpoints A \<and> fresh \<and> importable_breakpoint item
     \<and> (\<exists>vs. dict_get (as_dict (en_breakpoints E)) ''breakpoints'' = VList vs \<and> base + int_field ''rva'' item \<notin> set (breakpoint_addresses vs))"
| "leaves_alone E A present base fresh (PlanPatch current item) \<longleftrightarrow>
     ia_patches A \<and> \<not> fresh \<and> first_byte (en_read E (hex0X (base + int_field ''rva'' item))) = Some current
     \<and> current \<noteq> int_field ''newByte'' item \<and> (current = int_field ''oldByte'' item \<or> ia_overwrite A)"

fun planned_source :: "planned \<Rightarrow> string \<times> pydict" where
  "planned_source (PlanText kind item) = (kind @ ''s'', item)"
| "planned_source (PlanBookmark item) = (''bookmarks'', item)"
| "planned_source (PlanFunction item) = (''functions'', item)"
| "planned_source (PlanBreakpoint item) = (''breakpoints'', item)"
| "planned_source (PlanPatch current item) = (''patches'', item)"

lemma text_verdict_Act:
  assumes "text_verdict kind base overwrite d item = Act a"
  shows "\<exists>fresh. a = planned_action base fresh (PlanText kind item)
    \<and> fresh = (existing_at d (int_field ''rva'' item) = []) \<and> (fresh \<or> overwrite)"
  using assms unfolding text_verdict_def Let_def decide_Act
  by (intro exI [of _ "existing_at d (int_field ''rva'' item) = []"]) (simp add: operation_def)

lemma bookmark_verdict_Act:
  assumes "bookmark_verdict base overwrite d item = Act a"
  shows "\<exists>fresh. a = planned_action base fresh (PlanBookmark item)
    \<and> fresh = (existing_at d (int_field ''rva'' item) = []) \<and> (fresh \<or> overwrite)"
  using assms unfolding bookmark_verdict_def Let_def decide_Act
  by (intro exI [of _ "existing_at d (int_field ''rva'' item) = []"]) (simp add: operation_def)

lemma function_verdict_Act:
  assumes "function_verdict base ranges item = Act a"
  shows "a = planned_action base True (PlanFunction item)
    \<and> (\<forall>(s, e, _) \<in> set ranges. function_last item < s \<or> e < function_start item)"
proof -
  have "find (overlaps (function_start item) (function_last item)) ranges = None"
    and a: "a = function_record base item @ [(''operation'', VStr ''create'')]"
    using assms unfolding function_verdict_def Let_def by (simp_all split: if_split_asm option.split_asm)
  then have "\<forall>r \<in> set ranges. \<not> overlaps (function_start item) (function_last item) r"
    unfolding find_None_iff by blast
  with a show ?thesis by (auto simp: overlaps_def operation_def)
qed

lemma breakpoint_verdict_Act:
  assumes "breakpoint_verdict base present item = Act a"
  shows "a = planned_action base True (PlanBreakpoint item) \<and> importable_breakpoint item \<and> base + int_field ''rva'' item \<notin> set present"
  using assms unfolding breakpoint_verdict_def Let_def by (simp add: operation_def split: if_split_asm)

lemma patch_verdict_Act:
  assumes "patch_verdict base overwrite current item = Act a"
  shows "a = planned_action base False (PlanPatch current item) \<and> current \<noteq> int_field ''newByte'' item
    \<and> (current = int_field ''oldByte'' item \<or> overwrite)"
  using assms unfolding patch_verdict_def Let_def by (simp add: operation_def split: if_split_asm)

definition patch_read :: "import_env \<Rightarrow> int \<Rightarrow> bool \<Rightarrow> pydict \<Rightarrow> verdict \<Rightarrow> bool" where
  "patch_read E base overwrite item w \<longleftrightarrow>
     (\<exists>current. first_byte (en_read E (hex0X (base + int_field ''rva'' item))) = Some current \<and> w = patch_verdict base overwrite current item)"

lemma patch_verdicts_read: "patch_verdicts E base overwrite items = Inr vs \<Longrightarrow> list_all2 (patch_read E base overwrite) items vs"
proof (induction items arbitrary: vs)
  case (Cons item items)
  then obtain current ws where c: "first_byte (en_read E (hex0X (base + int_field ''rva'' item))) = Some current"
    "patch_verdicts E base overwrite items = Inr ws" "vs = patch_verdict base overwrite current item # ws"
    by (auto simp: Let_def sum_bind_Inr split: option.split_asm)
  have "patch_read E base overwrite item (patch_verdict base overwrite current item)"
    unfolding patch_read_def by (rule exI, rule conjI, rule c(1), rule refl)
  with Cons.IH [OF c(2)] c(3) show ?case by simp
qed simp

lemma patch_verdicts_mem:
  assumes "patch_verdicts E base overwrite items = Inr vs" and "w \<in> set vs"
  shows "\<exists>item \<in> set items. patch_read E base overwrite item w"
  using list_all2_lengthD [OF patch_verdicts_read [OF assms(1)]] patch_verdicts_read [OF assms(1)] assms(2)
  by (metis list_all2_conv_all_nth in_set_conv_nth)

lemmas patch_verdicts_length = list_all2_lengthD [OF patch_verdicts_read]

lemma chosen_mem: "x \<in> set (chosen b xs) \<longleftrightarrow> b \<and> x \<in> set xs"
  by (simp add: chosen_def)

lemma six_parts:
  "x \<in> set (map f l @ map g m @ map h n @ map i o' @ map j q @ r) \<Longrightarrow>
   (\<exists>y \<in> set l. f y = x) \<or> (\<exists>y \<in> set m. g y = x) \<or> (\<exists>y \<in> set n. h y = x) \<or> (\<exists>y \<in> set o'. i y = x)
   \<or> (\<exists>y \<in> set q. j y = x) \<or> x \<in> set r"
  by auto

text \<open>Every action of a plan is one of the five kinds, on an item of the evidence, and leaves alone what is there.\<close>

lemma plan_verdicts_Act:
  assumes "plan_verdicts E A base present v = Inr verdicts" and "Act a \<in> set verdicts"
  shows "\<exists>w fresh. a = planned_action base fresh w \<and> leaves_alone E A present base fresh w
    \<and> snd (planned_source w) \<in> set (normalized_items v (fst (planned_source w)))"
proof -
  obtain addresses patches where bp: "present_breakpoints E (ia_breakpoints A) = Inr addresses"
    and pa: "patch_verdicts E base (ia_overwrite A) (chosen (ia_patches A) (normalized_items v ''patches'')) = Inr patches"
    and vs: "verdicts = map (text_verdict ''label'' base (ia_overwrite A) (an_labels present)) (chosen (ia_labels A) (normalized_items v ''labels''))
         @ map (text_verdict ''comment'' base (ia_overwrite A) (an_comments present)) (chosen (ia_comments A) (normalized_items v ''comments''))
         @ map (bookmark_verdict base (ia_overwrite A) (an_bookmarks present)) (chosen (ia_bookmarks A) (normalized_items v ''bookmarks''))
         @ map (function_verdict base (function_ranges (an_functions present))) (chosen (ia_functions A) (normalized_items v ''functions''))
         @ map (breakpoint_verdict base addresses) (chosen (ia_breakpoints A) (normalized_items v ''breakpoints''))
         @ patches"
    using assms(1) unfolding plan_verdicts_def sum_bind_Inr sum.inject by blast
  from six_parts [OF assms(2) [unfolded vs]] show ?thesis
  proof (elim disjE bexE)
    fix item assume label: "item \<in> set (chosen (ia_labels A) (normalized_items v ''labels''))" "text_verdict ''label'' base (ia_overwrite A) (an_labels present) item = Act a"
    from text_verdict_Act [OF label(2)] label(1) show ?thesis
      by (elim exE, intro exI [of _ "PlanText ''label'' item"]) (auto simp: chosen_mem)
  next
    fix item assume comment: "item \<in> set (chosen (ia_comments A) (normalized_items v ''comments''))" "text_verdict ''comment'' base (ia_overwrite A) (an_comments present) item = Act a"
    from text_verdict_Act [OF comment(2)] comment(1) show ?thesis
      by (elim exE, intro exI [of _ "PlanText ''comment'' item"]) (auto simp: chosen_mem)
  next
    fix item assume bookmark: "item \<in> set (chosen (ia_bookmarks A) (normalized_items v ''bookmarks''))" "bookmark_verdict base (ia_overwrite A) (an_bookmarks present) item = Act a"
    from bookmark_verdict_Act [OF bookmark(2)] bookmark(1) show ?thesis
      by (elim exE, intro exI [of _ "PlanBookmark item"]) (auto simp: chosen_mem)
  next
    fix item assume fun_: "item \<in> set (chosen (ia_functions A) (normalized_items v ''functions''))" "function_verdict base (function_ranges (an_functions present)) item = Act a"
    from function_verdict_Act [OF fun_(2)] fun_(1) show ?thesis
      by (intro exI [of _ "PlanFunction item"] exI [of _ True]) (simp add: chosen_mem)
  next
    fix item assume bp_: "item \<in> set (chosen (ia_breakpoints A) (normalized_items v ''breakpoints''))" "breakpoint_verdict base addresses item = Act a"
    from bp_ have "\<exists>vs. dict_get (as_dict (en_breakpoints E)) ''breakpoints'' = VList vs \<and> addresses = breakpoint_addresses vs"
      using bp by (simp add: chosen_mem present_breakpoints_def split: pyval.split_asm)
    with breakpoint_verdict_Act [OF bp_(2)] bp_(1) show ?thesis
      by (intro exI [of _ "PlanBreakpoint item"] exI [of _ True]) (auto simp: chosen_mem)
  next
    assume patch: "Act a \<in> set patches"
    from patch_verdicts_mem [OF pa patch] obtain item where item: "item \<in> set (chosen (ia_patches A) (normalized_items v ''patches''))"
      "patch_read E base (ia_overwrite A) item (Act a)" by (rule bexE)
    from item(2) obtain current where i: "first_byte (en_read E (hex0X (base + int_field ''rva'' item))) = Some current"
      "Act a = patch_verdict base (ia_overwrite A) current item" unfolding patch_read_def by (elim exE conjE)
    from patch_verdict_Act [OF i(2) [symmetric]] item(1) i(1) show ?thesis
      by (intro exI [of _ "PlanPatch current item"] exI [of _ False]) (simp add: chosen_mem)
  qed
qed

subsection \<open>The order of the mutations\<close>

lemma planned_request_Some: "leaves_alone E A present base fresh w \<Longrightarrow> action_request (planned_action base fresh w) \<noteq> None"
  by (cases w) (auto simp: planned_request simp del: planned_action.simps)

text \<open>The mutation of an action, and whether the debugger accepted the last one sent.\<close>

definition post_of :: "int \<Rightarrow> pydict \<Rightarrow> post" where
  "post_of event a = (case action_request a of Some (endpoint, data) \<Rightarrow> \<lparr>po_endpoint = endpoint, po_data = data, po_event = event\<rparr>
     | None \<Rightarrow> \<lparr>po_endpoint = [], po_data = [], po_event = event\<rparr>)"

definition accepted :: "import_env \<Rightarrow> post list \<Rightarrow> bool" where
  "accepted E sent \<longleftrightarrow> fst (mutation_result (en_post E sent) (en_coerce E (en_post E sent)))"

definition posts_of :: "int \<Rightarrow> pydict list \<Rightarrow> post list" where
  "posts_of event as = map (post_of event) as"

lemma apply_Cons:
  assumes "action_request a \<noteq> None"
  shows "\<exists>endpoint response failure. apply_actions E event (a # rest) sent =
    (if accepted E (sent @ [post_of event a])
     then (let (fin, failures, sent') = apply_actions E event rest (sent @ [post_of event a]) in
           (\<lparr>ap_action = a, ap_endpoint = endpoint, ap_response = response\<rparr> # fin, failures, sent'))
     else ([], [failure], sent @ [post_of event a]))"
proof -
  obtain endpoint data where r: "action_request a = Some (endpoint, data)" using assms by auto
  then have p: "\<lparr>po_endpoint = endpoint, po_data = data, po_event = event\<rparr> = post_of event a" by (simp add: post_of_def)
  show ?thesis
    by (cases "mutation_result (en_post E (sent @ [post_of event a])) (en_coerce E (en_post E (sent @ [post_of event a])))")
      (auto simp: r p accepted_def Let_def)
qed

lemma apply_done: "\<exists>fin failures sent'. apply_actions E event as sent = (fin, failures, sent')"
  by (cases "apply_actions E event as sent") auto

text \<open>The applied actions are a prefix; after the first refusal nothing more is sent.\<close>

lemma apply_actions_prefix:
  assumes "apply_actions E event as sent = (fin, failures, sent')" and "\<forall>a \<in> set as. action_request a \<noteq> None"
  shows "map ap_action fin = take (length fin) as
    \<and> (\<forall>k < length fin. accepted E (sent @ posts_of event (take (Suc k) as)))
    \<and> (if failures = [] then length fin = length as \<and> sent' = sent @ posts_of event as
       else length fin < length as \<and> sent' = sent @ posts_of event (take (Suc (length fin)) as) \<and> \<not> accepted E sent')"
  using assms
proof (induction as arbitrary: sent fin failures sent')
  case (Cons a rest)
  let ?sent = "sent @ [post_of event a]"
  obtain endpoint response failure where step: "apply_actions E event (a # rest) sent =
      (if accepted E ?sent
       then (let (fin, failures, sent') = apply_actions E event rest ?sent in
             (\<lparr>ap_action = a, ap_endpoint = endpoint, ap_response = response\<rparr> # fin, failures, sent'))
       else ([], [failure], ?sent))"
    using apply_Cons [of a E event rest sent] Cons.prems(2) by auto
  show ?case
  proof (cases "accepted E ?sent")
    case False
    with Cons.prems(1) step show ?thesis by (auto simp: posts_of_def)
  next
    case True
    obtain fin' failures' sent'' where rest': "apply_actions E event rest ?sent = (fin', failures', sent'')" using apply_done by blast
    with Cons.prems(1) True step have rest: "apply_actions E event rest ?sent = (fin', failures, sent')"
      and d: "fin = \<lparr>ap_action = a, ap_endpoint = endpoint, ap_response = response\<rparr> # fin'" by simp_all
    note IH = Cons.IH [OF rest]
    have "accepted E (sent @ posts_of event (take (Suc k) (a # rest)))" if "k < length fin" for k
      using that True IH Cons.prems(2) d by (cases k) (auto simp: posts_of_def)
    with IH Cons.prems(2) d show ?thesis by (auto simp: posts_of_def split: if_split_asm)
  qed
qed (simp add: posts_of_def)

lemma plan_requests:
  assumes "make_plan E A v = Inr p"
  shows "\<forall>a \<in> set (actions_of (ip_verdicts p)). action_request a \<noteq> None"
proof
  fix a
  assume "a \<in> set (actions_of (ip_verdicts p))"
  then have a: "Act a \<in> set (ip_verdicts p)" by (simp only: mem_actions)
  obtain present where "plan_verdicts E A (ip_base p) present v = Inr (ip_verdicts p)" using make_plan_Inr [OF assms] by (elim exE conjE)
  from plan_verdicts_Act [OF this a] show "action_request a \<noteq> None" using planned_request_Some by (elim exE conjE) metis
qed

lemma run_import_sent: "snd (run_import E v plan event as) = snd (snd (apply_actions E event as []))"
  by (simp add: run_import_def case_prod_beta)

subsection \<open>Success\<close>

lemma verify_all_ok:
  "verify_all E sent as = Inr (entries, failures) \<Longrightarrow>
   length entries = length as \<and> (failures = [] \<longleftrightarrow> (\<forall>a \<in> set as. \<exists>reply. verify_action E sent (ap_action a) = Inr (True, reply)))"
proof (induction as arbitrary: entries failures)
  case (Cons a as)
  obtain ok reply entries' failures' where v: "verify_action E sent (ap_action a) = Inr (ok, reply)"
    "verify_all E sent as = Inr (entries', failures')"
    and e: "length entries = Suc (length entries')" "failures = [] \<longleftrightarrow> ok \<and> failures' = []"
    using Cons.prems by (auto simp: sum_bind_Inr)
  with Cons.IH [OF v(2)] show ?case by auto
qed simp

lemma verify_all_total:
  "\<forall>a \<in> set as. \<exists>r. verify_action E sent (ap_action a) = Inr r \<Longrightarrow> \<exists>entries failures. verify_all E sent as = Inr (entries, failures)"
proof (induction as)
  case (Cons a as)
  then obtain ok reply where "verify_action E sent (ap_action a) = Inr (ok, reply)" by (metis list.set_intros(1) surj_pair)
  moreover obtain entries failures where "verify_all E sent as = Inr (entries, failures)" using Cons by (metis list.set_intros(2))
  ultimately show ?case by simp
qed simp

text \<open>The reply says ok.\<close>

definition reported_ok :: "pyexn + pydict \<Rightarrow> bool" where
  "reported_ok r \<longleftrightarrow> (case r of Inr d \<Rightarrow> dict_get d ''ok'' = VBool True | Inl _ \<Rightarrow> False)"

definition confirmed :: "import_env \<Rightarrow> post list \<Rightarrow> pydict \<Rightarrow> bool" where
  "confirmed E sent a \<longleftrightarrow> (\<exists>reply. verify_action E sent a = Inr (True, reply))"

lemma py_iter_fails: "py_iter v = Inl f \<Longrightarrow> f = Raises TypeError"
  by (auto simp: py_iter_def split: pyval.splits)

lemma ranges_after_fails: "ranges_after E sent = Inl f \<Longrightarrow> \<exists>e. f = Raises e"
  by (auto simp: ranges_after_def split: sum.split_asm import_failure.split_asm)

lemma breakpoints_after_fails: "breakpoints_after E sent = Inl f \<Longrightarrow> \<exists>e. f = Raises e"
  by (auto simp: breakpoints_after_def sum_bind_def dest: py_iter_fails split: if_split_asm sum.split_asm)

lemma chain_Inl:
  "(if b then Inr x else y) = Inl f \<longleftrightarrow> \<not> b \<and> y = Inl f"
  "(if b then sum_bind u (\<lambda>r. Inr (g r)) else y) = Inl f \<longleftrightarrow> (b \<and> u = Inl f) \<or> (\<not> b \<and> y = Inl f)"
  by (auto simp: sum_bind_def split: sum.split_asm)

lemma verify_action_fails:
  assumes "verify_action E sent a = Inl f"
  shows "\<exists>e. f = Raises e"
proof -
  from assms have "ranges_after E sent = Inl f \<or> breakpoints_after E sent = Inl f"
    unfolding verify_action_def Let_def chain_Inl by (simp only: sum.distinct simp_thms) argo
  then show ?thesis using ranges_after_fails breakpoints_after_fails by (elim disjE)
qed

lemma verify_all_fails: "verify_all E sent as = Inl f \<Longrightarrow> \<exists>e. f = Raises e"
  by (induction as) (auto simp: sum_bind_def dest: verify_action_fails split: sum.split_asm)

lemma run_import_ok:
  assumes requests: "\<forall>a \<in> set as. action_request a \<noteq> None"
  shows "reported_ok (fst (run_import E v plan event as)) \<longleftrightarrow>
    (\<forall>k < length as. accepted E (posts_of event (take (Suc k) as))) \<and> (\<forall>a \<in> set as. confirmed E (posts_of event as) a)"
proof -
  obtain fin failures sent where run: "apply_actions E event as [] = (fin, failures, sent)" using apply_done by blast
  note prefix = apply_actions_prefix [OF run requests]
  show ?thesis
  proof (cases "failures = []")
    case True
    with prefix have p: "map ap_action fin = as" "length fin = length as" "sent = posts_of event as"
      "\<forall>k < length as. accepted E (posts_of event (take (Suc k) as))" by auto
    from p(1) have all: "(\<forall>a \<in> set as. confirmed E sent a) \<longleftrightarrow> (\<forall>a \<in> set fin. \<exists>reply. verify_action E sent (ap_action a) = Inr (True, reply))"
      unfolding arg_cong [OF p(1) [symmetric], of set] set_map confirmed_def by blast
    show ?thesis
    proof (cases "verify_all E sent fin")
      case (Inl f)
      then obtain e where "f = Raises e" using verify_all_fails by blast
      then have "\<not> reported_ok (fst (run_import E v plan event as))" using Inl run by (simp add: run_import_def reported_ok_def)
      moreover have "\<not> (\<forall>a \<in> set as. confirmed E sent a)" unfolding all using verify_all_total [of fin E sent] Inl by fastforce
      ultimately show ?thesis using p(3) by simp
    next
      case (Inr r)
      obtain entries unverified where r: "r = (entries, unverified)" by (cases r)
      with verify_all_ok [of E sent fin] Inr
      have "length entries = length fin" "unverified = [] \<longleftrightarrow> (\<forall>a \<in> set as. confirmed E sent a)" unfolding all by simp_all
      with Inr r run True p show ?thesis by (simp add: run_import_def reported_ok_def dict_get_Cons)
    qed
  next
    case False
    with prefix have "length fin < length as" "\<not> accepted E (posts_of event (take (Suc (length fin)) as))" by auto
    then have "\<not> (\<forall>k < length as. accepted E (posts_of event (take (Suc k) as)))" by blast
    moreover have "\<not> reported_ok (fst (run_import E v plan event as))"
      using False run by (auto simp: run_import_def reported_ok_def dict_get_Cons split: sum.split import_failure.split dest: verify_all_fails)
    ultimately show ?thesis by simp
  qed
qed

subsection \<open>Properties of the import\<close>

text \<open>C37: The import fails closed: a mutation is sent only for evidence that was validated without an error, not in
  a dry run, when architecture, machine and image size are those of the loaded module and the hash too
  (unless the caller allowed it to differ), when the plan has no conflict, and when the target is
  paused and the bridge gave an event number to guard the mutations with.\<close>

theorem import_fails_closed:
  assumes "snd (import_evidence E A document) \<noteq> []"
  shows "\<exists>p. make_plan E A (validate_document document) = Inr p \<and> valid_evidence (validate_document document)
    \<and> \<not> ia_dry_run A \<and> conflicts_of (ip_verdicts p) = [] \<and> ip_paused p \<and> 0 < ip_event p
    \<and> (let img = document_image document; current = ip_module p in
        lower (str_or_empty (dict_get img ''arch'')) = lower (str_or_empty (dict_get current ''arch''))
        \<and> lower (str_or_empty (dict_get img ''machine'')) = lower (str_or_empty (dict_get current ''machine''))
        \<and> image_size_of img = int_field ''sizeOfImage'' current
        \<and> (upper (str_or_empty (dict_get img ''sha256'')) = upper (str_or_empty (dict_get current ''sha256'')) \<or> ia_allow_mismatch A))"
proof -
  obtain p where p: "make_plan E A (validate_document document) = Inr p" "applicable A p" using import_planned [OF assms] .
  from make_plan_Inr [OF p(1)] have "valid_evidence (validate_document document)"
    "mismatched (ia_allow_mismatch A) (document_image document) (ip_module p) = []"
    by (auto simp: validate_document_def)
  with p show ?thesis unfolding applicable_def mismatched_Nil Let_def by (intro exI [of _ p]) (elim conjE, intro conjI)
qed

text \<open>C38: The mutations of an import are those of the plan, in its order, from the first on, each with the event
  number of the plan; none follows one that was not accepted.\<close>

theorem import_in_order:
  assumes "make_plan E A (validate_document document) = Inr p"
  shows "\<exists>n \<le> length (actions_of (ip_verdicts p)).
    snd (import_evidence E A document) = posts_of (ip_event p) (take n (actions_of (ip_verdicts p)))
    \<and> (\<forall>k. Suc k < n \<longrightarrow> accepted E (posts_of (ip_event p) (take (Suc k) (actions_of (ip_verdicts p)))))"
proof (cases "applicable A p")
  case False
  with import_stops [OF assms] show ?thesis by (intro exI [of _ 0]) (simp add: posts_of_def)
next
  case True
  let ?as = "actions_of (ip_verdicts p)"
  obtain fin failures sent where run: "apply_actions E (ip_event p) ?as [] = (fin, failures, sent)" using apply_done by blast
  note prefix = apply_actions_prefix [OF run plan_requests [OF assms]]
  have "snd (import_evidence E A document) = sent" by (simp add: import_runs [OF assms True] run_import_sent run)
  with prefix show ?thesis
    by (intro exI [of _ "if failures = [] then length fin else Suc (length fin)"]) (auto split: if_split_asm)
qed

text \<open>What an import may write: each planned action is on an item of the evidence of a kind that the caller
  selected. Labels, comments and bookmarks are written where there is none, a function where no function
  overlaps, a breakpoint where there is none, and a patch over the byte that the evidence
  expects, unless the caller asked to overwrite (which never replaces a function).\<close>

lemma import_leaves_alone:
  assumes "make_plan E A v = Inr p" and "a \<in> set (actions_of (ip_verdicts p))"
  shows "\<exists>present w fresh. current_annotations E (str_or_empty (dict_get (ip_module p) ''name'')) = Inr present
    \<and> a = planned_action (ip_base p) fresh w \<and> leaves_alone E A present (ip_base p) fresh w
    \<and> snd (planned_source w) \<in> set (normalized_items v (fst (planned_source w)))"
proof -
  obtain present where p: "current_annotations E (str_or_empty (dict_get (ip_module p) ''name'')) = Inr present"
    "plan_verdicts E A (ip_base p) present v = Inr (ip_verdicts p)"
    using make_plan_Inr [OF assms(1)] by (elim exE conjE)
  have "Act a \<in> set (ip_verdicts p)" using assms(2) by (simp only: mem_actions)
  from plan_verdicts_Act [OF p(2) this] p(1) show ?thesis by blast
qed

text \<open>C39: An import that passes its checks reports ok exactly when every mutation of the plan was accepted and
  every one of them is read back from the debugger afterwards.\<close>

theorem import_ok_iff:
  assumes "make_plan E A (validate_document document) = Inr p"
    and "\<not> ia_dry_run A" "conflicts_of (ip_verdicts p) = []" "ip_paused p" "0 < ip_event p"
  shows "reported_ok (fst (import_evidence E A document)) \<longleftrightarrow>
    (\<forall>k < length (actions_of (ip_verdicts p)). accepted E (posts_of (ip_event p) (take (Suc k) (actions_of (ip_verdicts p)))))
    \<and> (\<forall>a \<in> set (actions_of (ip_verdicts p)). confirmed E (posts_of (ip_event p) (actions_of (ip_verdicts p))) a)"
proof -
  have "applicable A p" using assms(2-5) unfolding applicable_def by (intro conjI)
  from import_runs [OF assms(1) this] run_import_ok [OF plan_requests [OF assms(1)]] show ?thesis by (simp only:)
qed

lemma chosen_length: "length (chosen b xs) = (if b then length xs else 0)"
  by (simp add: chosen_def)

lemma plan_verdicts_length:
  assumes "plan_verdicts E A base present v = Inr verdicts"
  shows "length verdicts = sum_list (map (\<lambda>(k, s). if s then length (normalized_items v k) else 0) (selected A))"
proof -
  obtain addresses patches where
    pa: "patch_verdicts E base (ia_overwrite A) (chosen (ia_patches A) (normalized_items v ''patches'')) = Inr patches"
    and vs: "verdicts = map (text_verdict ''label'' base (ia_overwrite A) (an_labels present)) (chosen (ia_labels A) (normalized_items v ''labels''))
         @ map (text_verdict ''comment'' base (ia_overwrite A) (an_comments present)) (chosen (ia_comments A) (normalized_items v ''comments''))
         @ map (bookmark_verdict base (ia_overwrite A) (an_bookmarks present)) (chosen (ia_bookmarks A) (normalized_items v ''bookmarks''))
         @ map (function_verdict base (function_ranges (an_functions present))) (chosen (ia_functions A) (normalized_items v ''functions''))
         @ map (breakpoint_verdict base addresses) (chosen (ia_breakpoints A) (normalized_items v ''breakpoints''))
         @ patches"
    using assms unfolding plan_verdicts_def sum_bind_Inr sum.inject by blast
  show ?thesis unfolding vs selected_def by (simp add: chosen_length patch_verdicts_length [OF pa, symmetric])
qed

text \<open>The plan accounts for every item of the evidence that an import is about: each is an action, is left as
  it is, is a conflict, or is counted as ignored because its kind was not selected.\<close>

lemma plan_accounts:
  assumes "make_plan E A v = Inr p"
  shows "length (actions_of (ip_verdicts p)) + length (noops_of (ip_verdicts p)) + length (conflicts_of (ip_verdicts p))
    + sum_list (map snd (ip_ignored p)) = sum_list (map (\<lambda>(k, _). length (normalized_items v k)) (selected A))"
proof -
  obtain present where p: "plan_verdicts E A (ip_base p) present v = Inr (ip_verdicts p)"
    "ip_ignored p = map (\<lambda>(k, _). (k, length (normalized_items v k))) (filter (\<lambda>(_, s). \<not> s) (selected A))"
    using make_plan_Inr [OF assms] by (elim exE conjE)
  have "sum_list (map (\<lambda>(k, s). if s then f k else 0) ks) + sum_list (map snd (map (\<lambda>(k, _). (k, f k)) (filter (\<lambda>(_, s). \<not> s) ks)))
      = sum_list (map (\<lambda>(k, _). f k) ks)" for f :: "string \<Rightarrow> nat" and ks :: "(string \<times> bool) list"
    by (induction ks) auto
  then show ?thesis unfolding verdict_count plan_verdicts_length [OF p(1)] p(2) .
qed

subsection \<open>Pages\<close>

definition page_items :: "(int \<Rightarrow> pyval) \<Rightarrow> string \<Rightarrow> int \<Rightarrow> pydict list" where
  "page_items page key offset =
     (case py_iter (dict_get_default (as_dict (page offset)) key (VList [])) of Inr vs \<Rightarrow> dicts_of vs | Inl _ \<Rightarrow> [])"

definition next_offset :: "(int \<Rightarrow> pyval) \<Rightarrow> int \<Rightarrow> int option" where
  "next_offset page offset = parse_int (dict_get (as_dict (page offset)) ''nextOffset'') None"

definition has_more :: "(int \<Rightarrow> pyval) \<Rightarrow> int \<Rightarrow> bool" where
  "has_more page offset \<longleftrightarrow> truthy (dict_get (as_dict (page offset)) ''hasMore'')"

text \<open>The offsets of the pages, each the one its predecessor names, until a page is the last.\<close>

fun page_chain :: "(int \<Rightarrow> pyval) \<Rightarrow> int list \<Rightarrow> bool" where
  "page_chain page [] \<longleftrightarrow> False"
| "page_chain page [a] \<longleftrightarrow> \<not> has_more page a"
| "page_chain page (a # b # rest) \<longleftrightarrow> has_more page a \<and> next_offset page a = Some b \<and> a < b \<and> page_chain page (b # rest)"

lemma collect_pages_step:
  "collect_pages page key (Suc n) offset items = Inr result \<longleftrightarrow>
     is_dict (page offset) \<and> dict_get (as_dict (page offset)) ''ok'' \<noteq> VBool False
     \<and> (\<exists>vs. py_iter (dict_get_default (as_dict (page offset)) key (VList [])) = Inr vs)
     \<and> length (items @ page_items page key offset) \<le> 100000
     \<and> (if has_more page offset
        then (\<exists>b. next_offset page offset = Some b \<and> offset < b \<and> collect_pages page key n b (items @ page_items page key offset) = Inr result)
        else result = items @ page_items page key offset)"
  by (cases "py_iter (dict_get_default (as_dict (page offset)) key (VList []))")
    (auto simp: Let_def page_items_def has_more_def next_offset_def split: option.splits)

lemma collect_pages_chain:
  "collect_pages page key n offset items = Inr result \<Longrightarrow>
   \<exists>offsets. page_chain page (offset # offsets) \<and> length (offset # offsets) \<le> n
     \<and> result = items @ concat (map (page_items page key) (offset # offsets)) \<and> length result \<le> 100000"
proof (induction n arbitrary: offset items)
  case (Suc n)
  note step = Suc.prems [unfolded collect_pages_step]
  show ?case
  proof (cases "has_more page offset")
    case True
    with step obtain b where b: "next_offset page offset = Some b" "offset < b"
      "collect_pages page key n b (items @ page_items page key offset) = Inr result" by (simp only: if_True) blast
    from Suc.IH [OF b(3)] obtain offsets where "page_chain page (b # offsets)" "length (b # offsets) \<le> n"
      "result = (items @ page_items page key offset) @ concat (map (page_items page key) (b # offsets))" "length result \<le> 100000" by blast
    with True b show ?thesis by (intro exI [of _ "b # offsets"]) simp
  next
    case False
    with step show ?thesis by (intro exI [of _ "[]"]) simp
  qed
qed simp

text \<open>C40: Reading a paged collection ends: at most 1000 pages are asked for, at strictly increasing offsets, the first
  0 and each next one the one the bridge named, until a page that is the last; the result is then
  the objects of all these pages in order, at most 100000.\<close>

theorem paging_complete:
  assumes "collect_paged page key = Inr items"
  shows "\<exists>offsets. page_chain page (0 # offsets) \<and> length (0 # offsets) \<le> page_limit
    \<and> items = concat (map (page_items page key) (0 # offsets)) \<and> length items \<le> 100000"
  using collect_pages_chain [OF assms [unfolded collect_paged_def]] by simp

subsection \<open>A sample import\<close>

definition sample_target :: import_env where
  "sample_target =
     \<lparr>en_repair = id, en_coerce = id, en_absolute = (\<lambda>_. False), en_abspath = id, en_path_identity = id,
      en_file = (\<lambda>path. if path = ''C:a.exe''
        then Some \<lparr>ff_layout = Inr [(''arch'', VStr ''x64''), (''sizeOfImage'', VInt 8192)], ff_size = 4096\<rparr> else None),
      en_image_sha = (\<lambda>_. replicate 64 (CHR ''A'')),
      en_modules = VDict [(''modules'', VList [VDict [(''name'', VStr ''a.exe''), (''path'', VStr ''C:a.exe''), (''base'', VStr ''0x1000''), (''size'', VStr ''0x2000'')]])],
      en_current_base = VNone, en_last_image = VNone,
      en_hello = VDict [(''ok'', VBool True), (''identity'', VDict [(''eventSeq'', VInt 7)]),
        (''payload'', VDict [(''capabilities'', VDict [(''analysisEvidence'', VDict [])]), (''session'', VDict [(''paused'', VBool True)])])],
      en_labels = VDict [(''labels'', VList [])],
      en_page = (\<lambda>_ _. VDict [(''ok'', VBool True)]),
      en_breakpoints = VNone, en_read = (\<lambda>_. VNone),
      en_post = (\<lambda>_. VDict [(''success'', VBool True)]),
      en_after = (\<lambda>_ _ _. VDict [(''found'', VBool True), (''label'', VStr ''start'')]),
      en_after_page = (\<lambda>_ _. VDict [(''functions'', VList
        [VDict [(''rvaStart'', VStr ''0x10''), (''rvaEnd'', VStr ''0x3F'')], VDict [(''rvaStart'', VStr ''0x40''), (''rvaEnd'', VStr ''0x4F'')]])]),
      en_after_breakpoints = (\<lambda>_. VNone)\<rparr>"

definition sample_args :: import_args where
  "sample_args = \<lparr>ia_module = [], ia_dry_run = False, ia_allow_mismatch = False, ia_overwrite = False, ia_labels = True,
     ia_comments = True, ia_bookmarks = True, ia_functions = True, ia_breakpoints = False, ia_patches = False\<rparr>"

lemma sample_image_hash: "expected_hash (document_image sample_document) = replicate 64 (CHR ''A'')"
  by code_simp

definition sample_context :: module_context where
  "sample_context =
     \<lparr>mc_identity = [(''name'', VStr ''a.exe''), (''path'', VStr ''C:a.exe''), (''sha256'', VStr (replicate 64 (CHR ''A''))), (''fileSize'', VInt 4096),
        (''arch'', VStr ''x64''), (''machine'', VStr []), (''timeDateStamp'', VStr []), (''checksum'', VStr []), (''preferredImageBase'', VStr []),
        (''runtimeImageBase'', VStr ''0x1000''), (''runtimeSize'', VInt 8192), (''sizeOfImage'', VInt 8192), (''entryPointRva'', VStr ''0x0'')],
      mc_base = 4096, mc_size = 8192\<rparr>"

lemma sample_target_fields:
  "en_repair sample_target = id" "en_coerce sample_target = id" "en_absolute sample_target = (\<lambda>_. False)" "en_abspath sample_target = id"
  "en_path_identity sample_target = id" "en_image_sha sample_target = (\<lambda>_. replicate 64 (CHR ''A''))"
  "en_current_base sample_target = VNone" "en_last_image sample_target = VNone" "en_labels sample_target = VDict [(''labels'', VList [])]"
  "en_page sample_target = (\<lambda>_ _. VDict [(''ok'', VBool True)])" "en_post sample_target = (\<lambda>_. VDict [(''success'', VBool True)])"
  by (simp_all add: sample_target_def)

definition sample_loaded :: pydict where
  "sample_loaded = [(''name'', VStr ''a.exe''), (''path'', VStr ''C:a.exe''), (''base'', VStr ''0x1000''), (''size'', VStr ''0x2000'')]"

lemma sample_modules: "en_modules sample_target = VDict [(''modules'', VList [VDict sample_loaded])]"
  by (simp add: sample_target_def sample_loaded_def)

lemma sample_requested: "requested_modules sample_target [] [sample_loaded] = [sample_loaded]"
proof -
  have "parse_int (VStr []) None = None" "parse_int VNone None = None" by code_simp+
  then show ?thesis by (simp add: requested_modules_def sample_target_fields str_or_empty_def Let_def)
qed

lemma sample_by_base: "by_base [sample_loaded] = [sample_loaded]"
proof -
  have "parse_int (dict_get sample_loaded ''base'') None = Some 4096" by code_simp
  then show ?thesis by (simp add: by_base_def)
qed

lemma sample_resolved: "resolve_loaded_module sample_target [] sha = Inr sample_loaded"
proof -
  have "strip [] = []" by code_simp
  then show ?thesis
    unfolding resolve_loaded_module_def sample_modules sample_target_fields
    by (simp add: py_iter_def dict_get_default_def dicts_of_def Let_def sample_requested sample_by_base)
qed

lemma sample_module: "resolve_context sample_target [] (replicate 64 (CHR ''A'')) = Inr sample_context"
proof -
  have path: "id (id (strip (str_or_empty (dict_get sample_loaded ''path'')))) = ''C:a.exe''" by code_simp
  have backing: "en_file sample_target ''C:a.exe'' = Some \<lparr>ff_layout = Inr [(''arch'', VStr ''x64''), (''sizeOfImage'', VInt 8192)], ff_size = 4096\<rparr>"
    by (simp add: sample_target_def)
  have sz: "attempt_int (dict_get [(''arch'', VStr ''x64''), (''sizeOfImage'', VInt 8192)] ''sizeOfImage'') = Inr 8192" by code_simp
  have base: "parse_int (dict_get sample_loaded ''base'') None = Some 4096" "parse_int (dict_get sample_loaded ''size'') None = Some 8192" by code_simp+
  show ?thesis
    unfolding resolve_context_def sample_resolved sum_bind_simps Let_def sample_target_fields path backing option.case file_facts.simps sum.case
      sz base prod.case sample_context_def
    by code_simp
qed

lemma one_page:
  assumes "\<And>offset. page offset = VDict [(''ok'', VBool True)]" and "key \<noteq> ''ok''"
  shows "collect_paged page key = Inr []"
proof -
  have pages: "page_limit = Suc 999" by (simp add: page_limit_def)
  show ?thesis unfolding collect_paged_def pages collect_pages.simps
    using assms by (simp add: Let_def dict_get_default_def dict_get_def py_iter_def dicts_of_def)
qed

lemma sample_present: "current_annotations sample_target name = Inr \<lparr>an_labels = [], an_comments = [], an_bookmarks = [], an_functions = []\<rparr>"
  by (simp add: current_annotations_def sample_target_fields dict_get_Cons one_page rva_map_def dicts_of_def)

lemma sample_items:
  "normalized_items (validate_document sample_document) ''labels'' = [sample_label]"
  "normalized_items (validate_document sample_document) ''comments'' = []"
  "normalized_items (validate_document sample_document) ''bookmarks'' = []"
  "normalized_items (validate_document sample_document) ''breakpoints'' = []"
  "normalized_items (validate_document sample_document) ''patches'' = []"
proof -
  have k: "''labels'' \<in> set item_keys" "''comments'' \<in> set item_keys" "''bookmarks'' \<in> set item_keys"
    "''breakpoints'' \<in> set item_keys" "''patches'' \<in> set item_keys" by code_simp+
  show "normalized_items (validate_document sample_document) ''labels'' = [sample_label]"
    "normalized_items (validate_document sample_document) ''comments'' = []"
    "normalized_items (validate_document sample_document) ''bookmarks'' = []"
    "normalized_items (validate_document sample_document) ''breakpoints'' = []"
    "normalized_items (validate_document sample_document) ''patches'' = []"
    using k by (simp_all only: normalized_key sample_unique fst_conv)
qed

definition sample_functions_list :: "pydict list" where
  "sample_functions_list =
     [[(''rvaStart'', VInt 16), (''rvaEnd'', VInt 63), (''rvaEndInclusive'', VInt 63), (''instructionCount'', VInt 0),
       (''manual'', VBool True), (''endConvention'', VStr ''inclusive'')],
      [(''rvaStart'', VInt 64), (''endRvaExclusive'', VInt 80), (''rvaEndInclusive'', VInt 79), (''instructionCount'', VInt 0),
       (''manual'', VBool True), (''endConvention'', VStr ''inclusive'')]]"

lemma sample_function_items: "normalized_items (validate_document sample_document) ''functions'' = sample_functions_list"
  unfolding normalized_functions sample_unique_functions fst_conv sample_functions_list_def ..

definition sample_actions :: "pydict list" where
  "sample_actions = planned_action 4096 True (PlanText ''label'' sample_label) # map (\<lambda>f. planned_action 4096 True (PlanFunction f)) sample_functions_list"

lemma sample_verdicts:
  "plan_verdicts sample_target sample_args 4096 \<lparr>an_labels = [], an_comments = [], an_bookmarks = [], an_functions = []\<rparr>
     (validate_document sample_document) = Inr (map Act sample_actions)"
  by (simp add: plan_verdicts_def present_breakpoints_def sample_args_def chosen_def sample_items sample_function_items sample_actions_def
      text_verdict_def function_verdict_def function_ranges_def decide_def existing_at_def operation_def sample_functions_list_def Let_def)

lemma sample_mismatch: "mismatched False (document_image sample_document) (mc_identity sample_context) = []"
  by code_simp

lemma sample_hello:
  "is_dict (en_hello sample_target)" "truthy (dict_get (as_dict (en_hello sample_target)) ''ok'')"
  "is_dict (dict_get (as_dict (dict_get (hello_payload sample_target) ''capabilities'')) ''analysisEvidence'')"
  "truthy (dict_get (as_dict (dict_get (hello_payload sample_target) ''session'')) ''paused'')"
  "hello_event sample_target = 7"
  by code_simp+

lemma sample_args_fields:
  "ia_module sample_args = []" "\<not> ia_allow_mismatch sample_args" "\<not> ia_dry_run sample_args" "\<not> ia_overwrite sample_args"
  by (simp_all add: sample_args_def)

lemma sample_plan:
  obtains p where "make_plan sample_target sample_args (validate_document sample_document) = Inr p"
    "actions_of (ip_verdicts p) = sample_actions" "conflicts_of (ip_verdicts p) = []" "noops_of (ip_verdicts p) = []"
    "ip_base p = 4096" "ip_paused p" "ip_event p = 7"
proof -
  have img: "va_image (validate_document sample_document) = document_image sample_document" by (simp add: validate_document_def)
  have base: "mc_base sample_context = 4096" by (simp add: sample_context_def)
  have "\<exists>p. make_plan sample_target sample_args (validate_document sample_document) = Inr p
      \<and> ip_verdicts p = map Act sample_actions \<and> ip_base p = 4096 \<and> ip_paused p \<and> ip_event p = 7"
    unfolding make_plan_def Let_def img sample_args_fields if_False sample_image_hash sample_module sum_bind_simps sample_present base sample_verdicts
    using sample_valid sample_hello sample_mismatch sample_args_fields by (simp add: sample_module base sample_verdicts)
  moreover have "actions_of (map Act as) = as" "conflicts_of (map Act as) = []" "noops_of (map Act as) = []" for as
    by (induction as) (simp_all add: actions_of_def conflicts_of_def noops_of_def)
  ultimately show thesis using that by metis
qed

lemma sample_all_accepted: "accepted sample_target sent"
proof -
  have "fst (mutation_result (VDict [(''success'', VBool True)]) (VDict [(''success'', VBool True)]))" by code_simp
  then show ?thesis by (simp add: accepted_def sample_target_fields)
qed

lemma sample_sent: "snd (import_evidence sample_target sample_args sample_document) = posts_of 7 sample_actions"
proof -
  obtain p where p: "make_plan sample_target sample_args (validate_document sample_document) = Inr p"
    "actions_of (ip_verdicts p) = sample_actions" "conflicts_of (ip_verdicts p) = []" "ip_paused p" "ip_event p = 7"
    using sample_plan by metis
  then have "applicable sample_args p" by (simp add: applicable_def sample_args_fields)
  obtain fin failures sent where run: "apply_actions sample_target 7 sample_actions [] = (fin, failures, sent)" using apply_done by blast
  with apply_actions_prefix [OF run] plan_requests [OF p(1)] p(2) sample_all_accepted have "sent = posts_of 7 sample_actions"
    by (cases "failures = []") auto
  with run show ?thesis using import_runs [OF p(1) \<open>applicable sample_args p\<close>] p by (simp add: run_import_sent)
qed

theorem import_fails_closed_witness:
  "snd (import_evidence sample_target sample_args sample_document) = posts_of 7 sample_actions
     \<and> (\<exists>p. make_plan sample_target sample_args (validate_document sample_document) = Inr p \<and> ip_paused p
          \<and> image_size_of (document_image sample_document) = int_field ''sizeOfImage'' (ip_module p))"
proof -
  have "snd (import_evidence sample_target sample_args sample_document) \<noteq> []"
    unfolding sample_sent by (simp add: posts_of_def sample_actions_def)
  from import_fails_closed [OF this] sample_sent show ?thesis unfolding Let_def by blast
qed

theorem import_in_order_witness:
  "\<exists>p n. make_plan sample_target sample_args (validate_document sample_document) = Inr p \<and> n \<le> 3
     \<and> snd (import_evidence sample_target sample_args sample_document) = posts_of 7 (take n sample_actions)"
proof -
  obtain p where p: "make_plan sample_target sample_args (validate_document sample_document) = Inr p"
    "actions_of (ip_verdicts p) = sample_actions" "ip_event p = 7" using sample_plan by metis
  have "length sample_actions = 3" by (simp add: sample_actions_def sample_functions_list_def)
  with import_in_order [OF p(1)] p show ?thesis by auto
qed

lemma sample_confirmed: "\<forall>a \<in> set sample_actions. confirmed sample_target sent a"
proof -
  have label: "verify_action sample_target sent (planned_action 4096 True (PlanText ''label'' sample_label)) =
      Inr (True, VDict [(''found'', VBool True), (''label'', VStr ''start'')])"
    by (simp add: verify_action_def text_record_def dict_get_Cons sample_target_def sample_label_def str_or_empty_def py_or_def Let_def)
  define pg where "pg = en_after_page sample_target sent"
  have pg: "pg 0 = VDict [(''functions'', VList
        [VDict [(''rvaStart'', VStr ''0x10''), (''rvaEnd'', VStr ''0x3F'')], VDict [(''rvaStart'', VStr ''0x40''), (''rvaEnd'', VStr ''0x4F'')]])]"
    by (simp add: pg_def sample_target_def)
  have pages: "page_limit = Suc 999" by (simp add: page_limit_def)
  have nums: "parse_int (VStr ''0x10'') None = Some 16" "parse_int (VStr ''0x3F'') None = Some 63"
    "parse_int (VStr ''0x40'') None = Some 64" "parse_int (VStr ''0x4F'') None = Some 79" by code_simp+
  have "ranges_after sample_target sent = Inr [(16, 63), (64, 79)]"
    unfolding ranges_after_def pg_def [symmetric] collect_paged_def pages collect_pages.simps pg
    by (simp add: Let_def py_iter_def dicts_of_def dict_get_default_def dict_get_Cons dict_get_Nil function_ranges_def nums)
  moreover have "str_or_empty (dict_get (planned_action 4096 True (PlanFunction f)) ''kind'') = ''function''" for f
    by (simp add: function_record_def dict_get_Cons str_or_empty_def py_or_def)
  moreover have "dict_get (planned_action 4096 True (PlanFunction f)) ''rvaStart'' = VStr (hex0X (function_start f))
      \<and> dict_get (planned_action 4096 True (PlanFunction f)) ''rvaEndInclusive'' = VStr (hex0X (function_last f))" for f
    by (simp add: function_record_def dict_get_Cons)
  moreover have "int_or_minus (VStr (hex0X 16)) = 16" "int_or_minus (VStr (hex0X 63)) = 63"
    "int_or_minus (VStr (hex0X 64)) = 64" "int_or_minus (VStr (hex0X 79)) = 79" by code_simp+
  ultimately have "confirmed sample_target sent (planned_action 4096 True (PlanFunction f))" if "f \<in> set sample_functions_list" for f
    using that unfolding confirmed_def verify_action_def Let_def
    by (auto simp: sample_functions_list_def function_start_def function_last_def int_field_def dict_get_Cons simp del: planned_action.simps)
  with label show ?thesis unfolding sample_actions_def by (auto simp: confirmed_def simp del: planned_action.simps)
qed

theorem import_ok_iff_witness: "reported_ok (fst (import_evidence sample_target sample_args sample_document))"
proof -
  obtain p where p: "make_plan sample_target sample_args (validate_document sample_document) = Inr p"
    "actions_of (ip_verdicts p) = sample_actions" "conflicts_of (ip_verdicts p) = []" "ip_paused p" "ip_event p = 7"
    using sample_plan by metis
  have "0 < ip_event p" by (simp add: p(5))
  from import_ok_iff [OF p(1) sample_args_fields(3) p(3,4) this] sample_all_accepted sample_confirmed show ?thesis by (simp add: p(2))
qed

definition two_pages :: "int \<Rightarrow> pyval" where
  "two_pages offset =
     VDict (if offset = 0 then [(''xs'', VList [VDict [(''n'', VInt 1)]]), (''hasMore'', VBool True), (''nextOffset'', VInt 1)]
       else [(''xs'', VList [VDict [(''n'', VInt 2)]]), (''hasMore'', VBool False)])"

theorem paging_complete_witness:
  "collect_paged two_pages ''xs'' = Inr [[(''n'', VInt 1)], [(''n'', VInt 2)]]
     \<and> (\<exists>offsets. page_chain two_pages (0 # offsets) \<and> length (0 # offsets) \<le> page_limit)"
proof -
  have pages: "page_limit = Suc (Suc 998)" by (simp add: page_limit_def)
  have "parse_int (VInt 1) None = Some 1" by code_simp
  then have c: "collect_paged two_pages ''xs'' = Inr [[(''n'', VInt 1)], [(''n'', VInt 2)]]"
    unfolding collect_paged_def pages collect_pages.simps two_pages_def
    by (simp add: Let_def py_iter_def dicts_of_def dict_get_default_def dict_get_Cons dict_get_Nil)
  from paging_complete [OF c] c show ?thesis by blast
qed

end
