(* ===== verification/MutationLease.thy ===== *)
theory MutationLease
  imports BridgeRequest
begin

text \<open>
  The mutation lease of this client, from \<open>runtime_sections/20_debugger_workflows.py\<close>
  (\<open>_acquire_mutation_lease\<close>, \<open>_renew_mutation_lease\<close>, \<open>_release_mutation_lease\<close> and the three tools).
  The state is the guard state of the bridge, whose \<open>gs_lease\<close> holds the token; the requests go
  through \<open>bridge_request\<close>. Each tool runs under the transaction lock, so a call is one step. A fresh
  nonce is an argument of the call.
\<close>

record lease_call =
  lc_refresh :: string
  lc_id :: string
  lc_nonce :: string

definition dict_merge :: "pydict \<Rightarrow> pydict \<Rightarrow> pydict" where
  "dict_merge d e = fold (\<lambda>(k, v). AList.update k v) e d"

definition lease_text :: "string \<Rightarrow> guard_state \<Rightarrow> string" where
  "lease_text k s = text_of (dict_get (gs_lease s) k)"

definition clear_mutation_lease :: "guard_state \<Rightarrow> guard_state" where
  "clear_mutation_lease s = set_mutation_lease (VDict []) s"

definition mutation_lease_error :: "bridge_envelope \<Rightarrow> string \<Rightarrow> pydict" where
  "mutation_lease_error env fallback =
     [(''ok'', VBool False),
      (''errorCode'', VStr (case env_error env of Some e \<Rightarrow> be_code e | None \<Rightarrow> ''MUTATION_LEASE_FAILED'')),
      (''error'', VStr (case env_error env of Some e \<Rightarrow> be_message e | None \<Rightarrow> fallback)),
      (''retryable'', VBool (case env_error env of Some e \<Rightarrow> be_retryable e | None \<Rightarrow> False)),
      (''details'', VDict (case env_error env of Some e \<Rightarrow> be_details e | None \<Rightarrow> [])),
      (''meta'', VDict (env_meta env))]"

definition clamp_lease_ttl :: "int \<Rightarrow> int" where
  "clamp_lease_ttl ttl = max 1000 (min ttl 120000)"

definition lease_request :: "string \<Rightarrow> pydict \<Rightarrow> lease_call \<Rightarrow> bridge_call" where
  "lease_request endpoint form L =
     \<lparr>bc_method = ''POST'', bc_endpoint = endpoint, bc_params = [], bc_form = VDict form, bc_json = VNone,
      bc_guard = ''session'', bc_expected = None, bc_idempotent = False, bc_id = lc_id L\<rparr>"

definition timed_form :: "int \<Rightarrow> string \<Rightarrow> pydict" where
  "timed_form ttl nonce = [(''ttlMs'', VStr (dec (clamp_lease_ttl ttl))), (''acquisitionNonce'', VStr nonce)]"

text \<open>The reply to an acquisition or a renewal with the nonce it was made with.\<close>

definition accept_lease ::
  "string \<Rightarrow> string \<Rightarrow> string \<Rightarrow> bridge_envelope \<Rightarrow> guard_state \<Rightarrow> pydict \<times> guard_state" where
  "accept_lease nonce fallback missing env s =
     (if \<not> env_ok env \<or> \<not> is_dict (env_data env) then (mutation_lease_error env fallback, s)
      else (case dict_get (as_dict (env_data env)) ''lease'' of
              VDict lease \<Rightarrow>
                (if text_of (dict_get lease ''token'') = []
                 then ([(''ok'', VBool False), (''errorCode'', VStr ''INVALID_MUTATION_LEASE_RESPONSE''), (''error'', VStr missing),
                        (''response'', env_data env), (''meta'', VDict (env_meta env))], s)
                 else (let lease = AList.update ''acquisitionNonce'' (VStr nonce) lease; s = set_mutation_lease (VDict lease) s in
                       ([(''ok'', VBool True), (''lease'', VDict (dict_merge lease (gs_lease s))), (''meta'', VDict (env_meta env))], s)))
            | _ \<Rightarrow> ([(''ok'', VBool False), (''errorCode'', VStr ''INVALID_MUTATION_LEASE_RESPONSE''), (''error'', VStr missing),
                    (''response'', env_data env), (''meta'', VDict (env_meta env))], s)))"

text \<open>The nonce of the lease is kept as long as the session is the one it was acquired in.\<close>

definition acquisition_nonce :: "guard_env \<Rightarrow> lease_call \<Rightarrow> guard_state \<Rightarrow> string" where
  "acquisition_nonce E L s =
     (let kept = (if lease_text ''sessionId'' s \<noteq> [] \<and> lease_text ''sessionId'' s \<noteq> text_of (dict_get (identity_for_guard E s) ''sessionId'')
        then [] else lease_text ''acquisitionNonce'' s)
      in if kept = [] then lc_nonce L else kept)"

definition acquire_mutation_lease ::
  "guard_env \<Rightarrow> transport \<Rightarrow> lease_call \<Rightarrow> int \<Rightarrow> guard_state \<Rightarrow> http_request list
   \<Rightarrow> (pyexn + pydict) \<times> guard_state \<times> http_request list" where
  "acquire_mutation_lease E T L ttl s sent =
     (let nonce = acquisition_nonce E L s in
      case bridge_request E T (lc_refresh L) (lease_request ''Debug/Mutation/Acquire'' (timed_form ttl nonce) L) s sent of
        (Inl e, s', sent') \<Rightarrow> (Inl e, s', sent')
      | (Inr env, s', sent') \<Rightarrow>
          (let (reply, s'') = accept_lease nonce ''Mutation lease acquisition failed.'' ''Bridge returned no mutation lease token.'' env s'
           in (Inr reply, s'', sent')))"

definition renew_mutation_lease ::
  "guard_env \<Rightarrow> transport \<Rightarrow> lease_call \<Rightarrow> int \<Rightarrow> guard_state \<Rightarrow> http_request list
   \<Rightarrow> (pyexn + pydict) \<times> guard_state \<times> http_request list" where
  "renew_mutation_lease E T L ttl s sent =
     (if lease_text ''token'' s = []
      then (Inr [(''ok'', VBool False), (''errorCode'', VStr ''MUTATION_LEASE_NOT_HELD''),
              (''error'', VStr ''This MCP client has no active mutation lease token.'')], s, sent)
      else (case bridge_request E T (lc_refresh L)
                   (lease_request ''Debug/Mutation/Renew'' (timed_form ttl (lease_text ''acquisitionNonce'' s)) L) s sent of
              (Inl e, s', sent') \<Rightarrow> (Inl e, s', sent')
            | (Inr env, s', sent') \<Rightarrow>
                (let (reply, s'') = accept_lease (lease_text ''acquisitionNonce'' s') ''Mutation lease renewal failed.''
                       ''Bridge returned no renewed mutation lease token.'' env s'
                 in (Inr reply, s'', sent'))))"

text \<open>The request is outside the block whose end clears the lease: an exception it raises skips that.\<close>

definition release_mutation_lease ::
  "guard_env \<Rightarrow> transport \<Rightarrow> lease_call \<Rightarrow> guard_state \<Rightarrow> http_request list
   \<Rightarrow> (pyexn + pydict) \<times> guard_state \<times> http_request list" where
  "release_mutation_lease E T L s sent =
     (case bridge_request E T (lc_refresh L) (lease_request ''Debug/Mutation/Release'' [] L) s sent of
        (Inl e, s', sent') \<Rightarrow> (Inl e, s', sent')
      | (Inr env, s', sent') \<Rightarrow>
          (Inr (if \<not> env_ok env \<or> \<not> is_dict (env_data env) then mutation_lease_error env ''Mutation lease release failed.''
                else [(''ok'', VBool True), (''lease'', VDict (as_dict (dict_get (as_dict (env_data env)) ''lease''))), (''meta'', VDict (env_meta env))]),
           clear_mutation_lease s', sent'))"

text \<open>The tools, and a call of anything else that goes through \<open>bridge_request\<close>.\<close>

datatype lease_action = Acquire lease_call int | Renew lease_call int | Release lease_call | Request string bridge_call

fun step_lease :: "guard_env \<Rightarrow> transport \<Rightarrow> lease_action \<Rightarrow> guard_state \<times> http_request list \<Rightarrow> guard_state \<times> http_request list" where
  "step_lease E T (Acquire L ttl) (s, sent) = snd (acquire_mutation_lease E T L ttl s sent)"
| "step_lease E T (Renew L ttl) (s, sent) = snd (renew_mutation_lease E T L ttl s sent)"
| "step_lease E T (Release L) (s, sent) = snd (release_mutation_lease E T L s sent)"
| "step_lease E T (Request rid c) (s, sent) = snd (bridge_request E T rid c s sent)"

end
