(* ===== verification/MutationLeaseProps.thy ===== *)
theory MutationLeaseProps
  imports MutationLease BridgeProps
begin

text \<open>
  Properties of the mutation lease: no request changes it, a lease is kept with the nonce it was
  acquired with, a guarded request carries it, and a release forgets it.
\<close>

subsection \<open>Requests keep the lease\<close>

lemma guard_headers_lease: "gs_lease (snd (guard_headers E g rid expected s)) = gs_lease s"
  by (simp add: guard_headers_def Let_def split: prod.split)

lemma validate_hello_lease: "gs_lease (snd (validate_hello_auth_binding v s)) = gs_lease s"
  by (auto simp: validate_hello_auth_binding_def Let_def split: pyval.split)

lemma cache_identity_lease: "gs_lease (snd (cache_bridge_identity E v s)) = gs_lease s"
  by (simp add: cache_bridge_identity_def Let_def)

lemma update_identity_lease: "gs_lease (snd (update_identity_from_session E v s)) = gs_lease s"
  by (auto simp: update_identity_from_session_def Let_def split: pyval.split)

fun attempt_state :: "attempt_result \<Rightarrow> guard_state" where
  "attempt_state (Finished env s) = s"
| "attempt_state (Again h s) = s"
| "attempt_state (Broken err m s) = s"

lemma finish_data_state: "attempt_state (finish_data T c status data m s) = s"
  by (auto simp: finish_data_def split: pyval.split sum.split)

lemma handle_success_lease: "gs_lease (attempt_state (handle_success E T c status parsed body j m s)) = gs_lease s"
proof -
  have hello: "gs_lease (attempt_state (case validate_hello_auth_binding v s of
        (Some err, s') \<Rightarrow> Finished (failure_envelope v err m) s'
      | (None, s') \<Rightarrow> (let (identity, s'') = cache_bridge_identity E v s'
           in finish_data T c status v (identity_meta identity m) s''))) = gs_lease s" for v
    using validate_hello_lease [of v s] cache_identity_lease [of E v "snd (validate_hello_auth_binding v s)"]
    by (cases "validate_hello_auth_binding v s"; cases "fst (validate_hello_auth_binding v s)")
      (simp_all add: Let_def case_prod_beta finish_data_state)
  show ?thesis unfolding handle_success_def Let_def using hello [unfolded Let_def] by (simp add: finish_data_state)
qed

lemma handle_error_lease: "gs_lease (attempt_state (handle_error E T c left h status parsed body m s)) = gs_lease s"
  using guard_headers_lease [of E "call_guard T c" "bc_id c" "bc_expected c" "s\<lparr>gs_auth := []\<rparr>"]
    guard_headers_lease [of E "call_guard T c" "bc_id c" "bc_expected c" s]
  unfolding handle_error_def Let_def
  by (auto split: prod.split sum.split option.split)

lemma handle_outcome_lease: "gs_lease (attempt_state (handle_outcome E T c left h out m s)) = gs_lease s"
  by (cases out) (simp_all add: handle_outcome_def handle_success_lease handle_error_lease handle_broken_def Let_def)

lemma run_attempts_lease: "gs_lease (fst (snd (run_attempts E T c attempt left h m s sent))) = gs_lease s"
proof (induction left arbitrary: attempt h m s sent)
  case 0
  let ?out = "tr_net T (sent @ [http_request_of c h])"
  have "gs_lease (attempt_state (handle_outcome E T c 0 h ?out (attempt_meta attempt ?out m) s)) = gs_lease s" by (rule handle_outcome_lease)
  then show ?case by (cases "handle_outcome E T c 0 h ?out (attempt_meta attempt ?out m) s") (simp_all add: Let_def)
next
  case (Suc left)
  let ?out = "tr_net T (sent @ [http_request_of c h])"
  have "gs_lease (attempt_state (handle_outcome E T c (Suc left) h ?out (attempt_meta attempt ?out m) s)) = gs_lease s"
    by (rule handle_outcome_lease)
  then show ?case
    unfolding run_attempts.simps [of E T c attempt "Suc left"]
    by (cases "handle_outcome E T c (Suc left) h ?out (attempt_meta attempt ?out m) s") (simp_all add: Let_def Suc.IH del: run_attempts.simps)
qed

lemma request_core_lease: "gs_lease (fst (snd (request_core E T c s sent))) = gs_lease s"
proof (cases "guard_headers E (call_guard T c) (bc_id c) (bc_expected c) s")
  case (Pair res s')
  then have s': "gs_lease s' = gs_lease s" using guard_headers_lease [of E "call_guard T c" "bc_id c" "bc_expected c" s] by simp
  show ?thesis
  proof (cases res)
    case (Inr r)
    obtain h err where r: "r = (h, err)" by (cases r)
    show ?thesis
    proof (cases err)
      case None
      have "gs_lease (fst (snd (run_attempts E T c 1 (attempts_after_first c) h (initial_meta E c) s' sent))) = gs_lease s"
        by (simp only: run_attempts_lease s')
      with Pair Inr r None show ?thesis by (simp add: request_core_def case_prod_beta)
    qed (use Pair Inr r s' in \<open>simp add: request_core_def\<close>)
  qed (use Pair s' in \<open>simp add: request_core_def\<close>)
qed

lemma refresh_identity_lease: "gs_lease (fst (refresh_identity E T rid s sent)) = gs_lease s"
proof -
  obtain r s' sent' where c: "request_core E T (refresh_call rid) s sent = (r, s', sent')" by (cases "request_core E T (refresh_call rid) s sent")
  have "gs_lease s' = gs_lease s" using request_core_lease [of E T "refresh_call rid" s sent] c by simp
  then show ?thesis by (cases r) (simp_all add: refresh_identity_def c update_identity_lease)
qed

lemma bridge_request_lease: "gs_lease (fst (snd (bridge_request E T rid c s sent))) = gs_lease s"
  by (simp add: bridge_request_def Let_def case_prod_beta request_core_lease refresh_identity_lease)

subsection \<open>The lease record\<close>

lemma set_mutation_lease_text:
  "lease_text ''token'' (set_mutation_lease (VDict d) s) = strip (text_of (dict_get d ''token''))"
  "lease_text ''acquisitionNonce'' (set_mutation_lease (VDict d) s) = text_of (dict_get d ''acquisitionNonce'')"
  by (simp_all add: lease_text_def set_mutation_lease_def Let_def dict_get_Cons dict_get_Nil text_of_def str_or_empty_def py_or_def)

lemma cleared_lease: "lease_text ''token'' (clear_mutation_lease s) = []" "lease_text ''acquisitionNonce'' (clear_mutation_lease s) = []"
  by (simp_all add: clear_mutation_lease_def set_mutation_lease_text dict_get_Nil text_of_def py_or_def strip_def strip_with_def)

lemma accept_lease_ok:
  assumes "accept_lease nonce fallback missing env s = (d, s')" and "dict_get d ''ok'' = VBool True"
  shows "\<exists>lease. dict_get (as_dict (env_data env)) ''lease'' = VDict lease \<and> text_of (dict_get lease ''token'') \<noteq> []
    \<and> lease_text ''token'' s' = strip (text_of (dict_get lease ''token'')) \<and> lease_text ''acquisitionNonce'' s' = nonce
    \<and> s' = s\<lparr>gs_lease := gs_lease s'\<rparr>"
proof -
  have failed: "dict_get (mutation_lease_error env fallback) ''ok'' = VBool False" by (simp add: mutation_lease_error_def dict_get_Cons)
  show ?thesis
    using assms failed unfolding accept_lease_def
    by (auto simp: Let_def dict_get_Cons set_mutation_lease_text text_of_def py_or_def split: if_split_asm pyval.split_asm)
      (simp_all add: set_mutation_lease_def Let_def)
qed

lemma accept_lease_failed:
  assumes "accept_lease nonce fallback missing env s = (d, s')" and "dict_get d ''ok'' \<noteq> VBool True"
  shows "s' = s"
  using assms unfolding accept_lease_def by (auto simp: Let_def dict_get_Cons split: if_split_asm pyval.split_asm)

lemma lease_headers_map:
  assumes "lease_text ''token'' s \<noteq> []"
  shows "map_of (lease_headers s h) ''X-MCP-Mutation-Lease'' = Some (lease_text ''token'' s)"
    and "lease_text ''acquisitionNonce'' s \<noteq> [] \<Longrightarrow>
      map_of (lease_headers s h) ''X-MCP-Mutation-Acquisition-Nonce'' = Some (lease_text ''acquisitionNonce'' s)"
  using assms by (simp_all add: lease_headers_def lease_text_def Let_def update_conv')

lemma guard_headers_carry:
  assumes "guard_headers E ''session'' rid expected s = (Inr (h, None), s')" and "lease_text ''token'' s \<noteq> []"
  shows "map_of h ''X-MCP-Mutation-Lease'' = Some (lease_text ''token'' s)
    \<and> (lease_text ''acquisitionNonce'' s \<noteq> [] \<longrightarrow> map_of h ''X-MCP-Mutation-Acquisition-Nonce'' = Some (lease_text ''acquisitionNonce'' s))"
proof -
  obtain token auth where d: "ge_discover E (gs_auth s) = (token, auth)" by fastforce
  let ?s = "s\<lparr>gs_auth := auth\<rparr>"
  let ?b = "text_of (dict_get (identity_for_guard E s) ''bridgeInstanceId'')"
  let ?h = "AList.update ''X-MCP-Bridge-Id'' ?b (lease_headers ?s (base_headers E rid token))"
  have g: "lower (strip (if ''session'' = [] then ''none'' else ''session'')) = ''session''" by code_simp
  have "session_headers E ?s expected (identity_for_guard E s) ?h = Inr (h, None)"
    using assms(1) unfolding guard_headers_def d Let_def case_prod_conv g by (auto split: if_split_asm)
  from session_headers_keep [OF this] have
    "map_of h ''X-MCP-Mutation-Lease'' = map_of (lease_headers ?s (base_headers E rid token)) ''X-MCP-Mutation-Lease''"
    "map_of h ''X-MCP-Mutation-Acquisition-Nonce'' = map_of (lease_headers ?s (base_headers E rid token)) ''X-MCP-Mutation-Acquisition-Nonce''"
    by (simp_all add: update_conv')
  moreover have "lease_text k ?s = lease_text k s" for k by (simp add: lease_text_def)
  ultimately show ?thesis using lease_headers_map [of ?s] assms(2) by simp
qed

text \<open>What a request that is sent at most once leaves behind.\<close>

lemma request_core_single:
  assumes "attempts_after_first c = 0" and "request_core E T c s sent = (r, s', sent')"
  shows "(sent' = sent \<and> (\<forall>env. r = Inr env \<longrightarrow> \<not> env_ok env))
    \<or> (\<exists>h s2. guard_headers E (call_guard T c) (bc_id c) (bc_expected c) s = (Inr (h, None), s2) \<and> sent' = sent @ [http_request_of c h])"
proof (cases "guard_headers E (call_guard T c) (bc_id c) (bc_expected c) s")
  case (Pair res s2)
  show ?thesis
  proof (cases "\<exists>h. res = Inr (h, None)")
    case False
    with Pair assms(2) show ?thesis
      by (auto simp: request_core_def failure_envelope_def split: sum.split_asm option.split_asm)
  next
    case True
    then obtain h where "res = Inr (h, None)" by blast
    with Pair assms show ?thesis
      by (auto simp: request_core_def Let_def split: prod.split_asm attempt_result.split_asm)
  qed
qed

lemma bridge_request_single:
  assumes "attempts_after_first c = 0" and "bridge_request E T rid c s sent = (r, s', sent')"
  shows "\<exists>refresh. list_all session_read refresh
    \<and> ((sent' = sent @ refresh \<and> (\<forall>env. r = Inr env \<longrightarrow> \<not> env_ok env))
      \<or> (\<exists>h s1 s2. gs_lease s1 = gs_lease s \<and> guard_headers E (call_guard T c) (bc_id c) (bc_expected c) s1 = (Inr (h, None), s2)
           \<and> sent' = sent @ refresh @ [http_request_of c h]))"
proof (cases "call_method c \<notin> {''GET'', ''POST''} \<or> call_endpoint c = []")
  case True
  then have "sent' = sent" "\<forall>env. r = Inr env \<longrightarrow> \<not> env_ok env"
    using assms(2) unfolding bridge_request_def by (simp_all only: if_True prod.inject) (auto simp: failure_envelope_def)
  then show ?thesis by (intro exI [of _ "[]"]) simp
next
  case False
  obtain s1 sent1 where a: "after_refresh E T rid c s sent = (s1, sent1)" by fastforce
  from False have run: "request_core E T c s1 sent1 = (r, s', sent')"
    using a assms(2) unfolding bridge_request_def after_refresh_def by (simp only: if_False prod.case Let_def)
  obtain refresh where refresh: "sent1 = sent @ refresh" "list_all session_read refresh"
    using after_refresh_sent [of E T rid c s sent] unfolding a snd_conv by blast
  have "gs_lease s1 = gs_lease s"
    using a refresh_identity_lease [of E T rid s sent] by (simp add: after_refresh_def split: if_split_asm)
  then have lease: "gs_lease s1 = gs_lease s" .
  from request_core_single [OF assms(1) run] show ?thesis
  proof (elim disjE exE conjE)
    assume "sent' = sent1" "\<forall>env. r = Inr env \<longrightarrow> \<not> env_ok env"
    with refresh show ?thesis by (intro exI [of _ refresh]) simp
  next
    fix h s2
    assume "guard_headers E (call_guard T c) (bc_id c) (bc_expected c) s1 = (Inr (h, None), s2)" "sent' = sent1 @ [http_request_of c h]"
    with refresh lease show ?thesis
      by (intro exI [of _ refresh] conjI disjI2 exI [of _ h] exI [of _ s1] exI [of _ s2]) simp_all
  qed
qed

lemma lease_request_facts:
  "attempts_after_first (lease_request endpoint form L) = 0" "call_guard T (lease_request endpoint form L) = ''session''"
  "bc_id (lease_request endpoint form L) = lc_id L"
  by (simp_all add: lease_request_def attempts_after_first_def call_guard_def)

lemma lease_request_body: "call_body (lease_request endpoint form L) = Form_body form"
proof -
  have "upper (strip ''POST'') = ''POST''" by code_simp
  then show ?thesis by (simp add: lease_request_def call_body_def call_method_def)
qed

subsection \<open>Acquisition\<close>

lemma acquire_ok:
  assumes "acquire_mutation_lease E T L ttl s sent = (Inr d, s', sent')" and "dict_get d ''ok'' = VBool True"
  shows "\<exists>refresh r. sent' = sent @ refresh @ [r] \<and> list_all session_read refresh
    \<and> hr_endpoint r = clean_endpoint ''Debug/Mutation/Acquire''
    \<and> hr_body r = Form_body (timed_form ttl (acquisition_nonce E L s))
    \<and> lease_text ''acquisitionNonce'' s' = acquisition_nonce E L s"
proof -
  let ?c = "lease_request ''Debug/Mutation/Acquire'' (timed_form ttl (acquisition_nonce E L s)) L"
  obtain r s1 sent1 where b: "bridge_request E T (lc_refresh L) ?c s sent = (r, s1, sent1)"
    by (cases "bridge_request E T (lc_refresh L) ?c s sent")
  with assms(1) obtain env where env: "r = Inr env" "sent' = sent1"
    "accept_lease (acquisition_nonce E L s) ''Mutation lease acquisition failed.'' ''Bridge returned no mutation lease token.'' env s1 = (d, s')"
    by (cases r) (auto simp: acquire_mutation_lease_def Let_def split: prod.split_asm)
  have ok: "env_ok env" using env(3) assms(2)
    by (auto simp: accept_lease_def mutation_lease_error_def dict_get_Cons split: if_split_asm)
  from bridge_request_single [OF lease_request_facts(1) b] ok env obtain refresh h where
    "list_all session_read refresh" "sent' = sent @ refresh @ [http_request_of ?c h]" by blast
  moreover have "hr_endpoint (http_request_of ?c h) = clean_endpoint ''Debug/Mutation/Acquire''"
    by (simp add: http_request_of_def call_endpoint_def lease_request_def)
  moreover have "hr_body (http_request_of ?c h) = Form_body (timed_form ttl (acquisition_nonce E L s))"
    by (simp add: http_request_of_def lease_request_body)
  moreover have "lease_text ''acquisitionNonce'' s' = acquisition_nonce E L s" using accept_lease_ok [OF env(3) assms(2)] by blast
  ultimately show ?thesis by (intro exI [of _ refresh] exI [of _ "http_request_of ?c h"]) simp
qed

text \<open>A successful acquisition sent exactly one request of its own, under the session guard, with the time to live
  clamped to one second to two minutes and the nonce: the one of the lease held in the same session,
  or a fresh one. The lease is then held with that nonce and the token of the reply.\<close>

lemma lease_acquired:
  assumes "acquire_mutation_lease E T L ttl s sent = (Inr d, s', sent')" and "dict_get d ''ok'' = VBool True"
  shows "\<exists>refresh r. sent' = sent @ refresh @ [r] \<and> list_all session_read refresh
    \<and> hr_endpoint r = clean_endpoint ''Debug/Mutation/Acquire''
    \<and> hr_body r = Form_body [(''ttlMs'', VStr (dec (max 1000 (min ttl 120000)))), (''acquisitionNonce'', VStr (acquisition_nonce E L s))]
    \<and> lease_text ''acquisitionNonce'' s' = acquisition_nonce E L s"
  using acquire_ok [OF assms] unfolding timed_form_def clamp_lease_ttl_def .

subsection \<open>The lease on later requests\<close>

text \<open>C4: While a lease is held, every request of a call under the session guard, one that is not retried, carries its
  token and its nonce; only the reads that refresh the identity go without.\<close>

theorem lease_carried:
  assumes "call_guard T c = ''session''" and "lease_text ''token'' s \<noteq> []" and "lease_text ''acquisitionNonce'' s \<noteq> []"
    and "attempts_after_first c = 0"
  shows "\<exists>refresh core. snd (snd (bridge_request E T rid c s sent)) = sent @ refresh @ core \<and> list_all session_read refresh
    \<and> list_all (\<lambda>r. map_of (hr_headers r) ''X-MCP-Mutation-Lease'' = Some (lease_text ''token'' s)
        \<and> map_of (hr_headers r) ''X-MCP-Mutation-Acquisition-Nonce'' = Some (lease_text ''acquisitionNonce'' s)) core"
proof -
  obtain r s' sent' where b: "bridge_request E T rid c s sent = (r, s', sent')" by (cases "bridge_request E T rid c s sent")
  obtain refresh where refresh: "list_all session_read refresh" and alt: "sent' = sent @ refresh
      \<or> (\<exists>h s1 s2. gs_lease s1 = gs_lease s \<and> guard_headers E (call_guard T c) (bc_id c) (bc_expected c) s1 = (Inr (h, None), s2)
           \<and> sent' = sent @ refresh @ [http_request_of c h])"
    using bridge_request_single [OF assms(4) b] by blast
  from alt show ?thesis
  proof (elim disjE exE conjE)
    assume "sent' = sent @ refresh"
    with b refresh show ?thesis by (intro exI [of _ refresh] exI [of _ "[]"]) simp
  next
    fix h s1 s2
    assume g: "gs_lease s1 = gs_lease s" "guard_headers E (call_guard T c) (bc_id c) (bc_expected c) s1 = (Inr (h, None), s2)"
      "sent' = sent @ refresh @ [http_request_of c h]"
    have texts: "lease_text k s1 = lease_text k s" for k using g(1) by (simp add: lease_text_def)
    from guard_headers_carry [of E "bc_id c" "bc_expected c" s1 h s2] g(2) assms(1-3) have
      "map_of h ''X-MCP-Mutation-Lease'' = Some (lease_text ''token'' s)"
      "map_of h ''X-MCP-Mutation-Acquisition-Nonce'' = Some (lease_text ''acquisitionNonce'' s)" unfolding texts by simp_all
    with b refresh g(3) show ?thesis by (intro exI [of _ refresh] exI [of _ "[http_request_of c h]"]) (simp add: http_request_of_def)
  qed
qed

subsection \<open>Runs\<close>

text \<open>The lease that is held was acquired by a request of this process, with the nonce that is kept.\<close>

definition acquired_with :: "http_request list \<Rightarrow> string \<Rightarrow> bool" where
  "acquired_with sent nonce \<longleftrightarrow>
     (\<exists>r \<in> set sent. hr_endpoint r = clean_endpoint ''Debug/Mutation/Acquire''
        \<and> (\<exists>ttl. hr_body r = Form_body (timed_form ttl nonce)))"

definition lease_grounded :: "guard_state \<times> http_request list \<Rightarrow> bool" where
  "lease_grounded st \<longleftrightarrow> lease_text ''token'' (fst st) = [] \<or> acquired_with (snd st) (lease_text ''acquisitionNonce'' (fst st))"

lemma bridge_request_extends:
  assumes "bridge_request E T rid c s sent = (r, s', sent')"
  shows "\<exists>rest. sent' = sent @ rest" and "lease_text k s' = lease_text k s"
  using bridge_request_sent [of E T rid c s sent] bridge_request_lease [of E T rid c s sent] assms by (auto simp: lease_text_def)

lemma acquired_with_more: "acquired_with sent nonce \<Longrightarrow> acquired_with (sent @ rest) nonce"
  by (auto simp: acquired_with_def)

lemma grounded_request:
  assumes "bridge_request E T rid c s sent = (r, s', sent')" and "lease_grounded (s, sent)"
  shows "lease_grounded (s', sent')"
proof -
  obtain rest where rest: "sent' = sent @ rest" using bridge_request_extends(1) [OF assms(1)] by blast
  have texts: "lease_text k s' = lease_text k s" for k using bridge_request_extends(2) [OF assms(1)] .
  from assms(2) show ?thesis unfolding lease_grounded_def fst_conv snd_conv texts rest using acquired_with_more by blast
qed

lemma acquire_failed:
  assumes "acquire_mutation_lease E T L ttl s sent = (Inr d, s', sent')" and "dict_get d ''ok'' \<noteq> VBool True"
  shows "\<exists>r. bridge_request E T (lc_refresh L) (lease_request ''Debug/Mutation/Acquire'' (timed_form ttl (acquisition_nonce E L s)) L) s sent = (r, s', sent')"
proof -
  let ?c = "lease_request ''Debug/Mutation/Acquire'' (timed_form ttl (acquisition_nonce E L s)) L"
  obtain r s1 sent1 where b: "bridge_request E T (lc_refresh L) ?c s sent = (r, s1, sent1)"
    by (cases "bridge_request E T (lc_refresh L) ?c s sent")
  with assms(1) obtain env where "r = Inr env" "sent' = sent1"
    "accept_lease (acquisition_nonce E L s) ''Mutation lease acquisition failed.'' ''Bridge returned no mutation lease token.'' env s1 = (d, s')"
    by (cases r) (auto simp: acquire_mutation_lease_def Let_def split: prod.split_asm)
  with accept_lease_failed [OF this(3) assms(2)] b show ?thesis by blast
qed

lemma renew_cases:
  assumes "renew_mutation_lease E T L ttl s sent = (Inr d, s', sent')"
  shows "(s' = s \<and> sent' = sent)
    \<or> (\<exists>r s1. bridge_request E T (lc_refresh L) (lease_request ''Debug/Mutation/Renew'' (timed_form ttl (lease_text ''acquisitionNonce'' s)) L) s sent = (r, s1, sent')
        \<and> lease_text ''token'' s \<noteq> []
        \<and> (dict_get d ''ok'' \<noteq> VBool True \<longrightarrow> s' = s1) \<and> lease_text ''acquisitionNonce'' s' = lease_text ''acquisitionNonce'' s)"
proof (cases "lease_text ''token'' s = []")
  case True
  with assms show ?thesis by (simp add: renew_mutation_lease_def)
next
  case False
  let ?c = "lease_request ''Debug/Mutation/Renew'' (timed_form ttl (lease_text ''acquisitionNonce'' s)) L"
  obtain r s1 sent1 where b: "bridge_request E T (lc_refresh L) ?c s sent = (r, s1, sent1)"
    by (cases "bridge_request E T (lc_refresh L) ?c s sent")
  with assms(1) False obtain env where env: "r = Inr env" "sent' = sent1"
    "accept_lease (lease_text ''acquisitionNonce'' s1) ''Mutation lease renewal failed.'' ''Bridge returned no renewed mutation lease token.'' env s1 = (d, s')"
    by (cases r) (auto simp: renew_mutation_lease_def split: prod.split_asm)
  have same: "lease_text ''acquisitionNonce'' s1 = lease_text ''acquisitionNonce'' s" using bridge_request_extends(2) [OF b] .
  show ?thesis
  proof (cases "dict_get d ''ok'' = VBool True")
    case True
    with accept_lease_ok [OF env(3) True] same b False env(2) show ?thesis by auto
  next
    case nok: False
    with accept_lease_failed [OF env(3) nok] same b False env(2) show ?thesis by auto
  qed
qed

lemma lease_step_grounded:
  assumes "lease_grounded st"
  shows "lease_grounded (step_lease E T step st)"
proof -
  obtain s sent where st: "st = (s, sent)" by (cases st)
  show ?thesis
  proof (cases step)
    case (Acquire L ttl)
    let ?c = "lease_request ''Debug/Mutation/Acquire'' (timed_form ttl (acquisition_nonce E L s)) L"
    obtain r s' sent' where a: "acquire_mutation_lease E T L ttl s sent = (r, s', sent')" by (cases "acquire_mutation_lease E T L ttl s sent")
    consider (raised) e where "r = Inl e" | (failed) d where "r = Inr d" "dict_get d ''ok'' \<noteq> VBool True"
      | (ok) d where "r = Inr d" "dict_get d ''ok'' = VBool True" by (cases r) auto
    then have "lease_grounded (s', sent')"
    proof cases
      case raised
      with a obtain r' where "bridge_request E T (lc_refresh L) ?c s sent = (r', s', sent')"
        by (auto simp: acquire_mutation_lease_def Let_def split: prod.split_asm sum.split_asm)
      with assms st show ?thesis using grounded_request by blast
    next
      case failed
      from acquire_failed [OF a [unfolded failed(1)] failed(2)] assms st show ?thesis using grounded_request by blast
    next
      case ok
      from ok a have a': "acquire_mutation_lease E T L ttl s sent = (Inr d, s', sent')" by simp
      from acquire_ok [OF a' ok(2)] obtain refresh r' where "sent' = sent @ refresh @ [r']"
        "hr_endpoint r' = clean_endpoint ''Debug/Mutation/Acquire''" "hr_body r' = Form_body (timed_form ttl (acquisition_nonce E L s))"
        "lease_text ''acquisitionNonce'' s' = acquisition_nonce E L s" by blast
      then show ?thesis unfolding lease_grounded_def acquired_with_def by auto
    qed
    with Acquire st a show ?thesis by simp
  next
    case (Renew L ttl)
    obtain r s' sent' where a: "renew_mutation_lease E T L ttl s sent = (r, s', sent')" by (cases "renew_mutation_lease E T L ttl s sent")
    have "lease_grounded (s', sent')"
    proof (cases r)
      case (Inl e)
      with a obtain r' rid c where "bridge_request E T rid c s sent = (r', s', sent')"
        by (auto simp: renew_mutation_lease_def split: if_split_asm prod.split_asm sum.split_asm)
      with assms st show ?thesis using grounded_request by blast
    next
      case (Inr d)
      from renew_cases [OF a [unfolded Inr]] show ?thesis
      proof (elim disjE exE conjE)
        assume "s' = s" "sent' = sent"
        with assms st show ?thesis by simp
      next
        fix r1 s1
        assume b: "bridge_request E T (lc_refresh L) (lease_request ''Debug/Mutation/Renew'' (timed_form ttl (lease_text ''acquisitionNonce'' s)) L) s sent = (r1, s1, sent')"
          and t: "lease_text ''token'' s \<noteq> []" and n: "lease_text ''acquisitionNonce'' s' = lease_text ''acquisitionNonce'' s"
        obtain rest where rest: "sent' = sent @ rest" using bridge_request_extends(1) [OF b] by blast
        from assms st t have "acquired_with sent (lease_text ''acquisitionNonce'' s)" by (simp add: lease_grounded_def)
        with n rest show ?thesis by (simp add: lease_grounded_def acquired_with_more)
      qed
    qed
    with Renew st a show ?thesis by simp
  next
    case (Release L)
    obtain r s1 sent1 where b: "bridge_request E T (lc_refresh L) (lease_request ''Debug/Mutation/Release'' [] L) s sent = (r, s1, sent1)"
      by (cases "bridge_request E T (lc_refresh L) (lease_request ''Debug/Mutation/Release'' [] L) s sent")
    with grounded_request [OF b] assms st have "lease_grounded (s1, sent1)" by simp
    with b Release st show ?thesis
      by (cases r) (simp_all add: release_mutation_lease_def lease_grounded_def cleared_lease)
  next
    case (Request rid c)
    obtain r s1 sent1 where b: "bridge_request E T rid c s sent = (r, s1, sent1)" by (cases "bridge_request E T rid c s sent")
    with grounded_request [OF b] assms st Request show ?thesis by simp
  qed
qed

text \<open>C3: In every run of the tools and of other requests, from a state without a lease, a lease that is held was
  acquired by a request of this process with the nonce that is kept: no reply to another request, a
  renewal included, can plant a nonce.\<close>

theorem lease_always_grounded:
  assumes "lease_text ''token'' s = []"
  shows "lease_grounded (fold (step_lease E T) steps (s, []))"
proof -
  have "lease_grounded st \<Longrightarrow> lease_grounded (fold (step_lease E T) steps st)" for st
    by (induction steps arbitrary: st) (simp_all add: lease_step_grounded)
  moreover have "lease_grounded (s, [])" using assms by (simp add: lease_grounded_def)
  ultimately show ?thesis .
qed

definition succeeded :: "pyexn + pydict \<Rightarrow> bool" where
  "succeeded r \<longleftrightarrow> (case r of Inr d \<Rightarrow> dict_get d ''ok'' = VBool True | Inl _ \<Rightarrow> False)"

lemma release_outcome:
  "case release_mutation_lease E T L s sent of
     (Inr d, s', sent') \<Rightarrow> lease_text ''token'' s' = [] \<and> lease_text ''acquisitionNonce'' s' = []
   | (Inl e, s', sent') \<Rightarrow> gs_lease s' = gs_lease s"
  using bridge_request_lease [of E T "lc_refresh L" "lease_request ''Debug/Mutation/Release'' [] L" s sent]
  by (cases "bridge_request E T (lc_refresh L) (lease_request ''Debug/Mutation/Release'' [] L) s sent";
      cases "fst (bridge_request E T (lc_refresh L) (lease_request ''Debug/Mutation/Release'' [] L) s sent)")
    (simp_all add: release_mutation_lease_def cleared_lease)

lemma accept_outcome:
  "succeeded (Inr (fst (accept_lease nonce fallback missing env s))) \<or> gs_lease (snd (accept_lease nonce fallback missing env s)) = gs_lease s"
  using accept_lease_failed [of nonce fallback missing env s "fst (accept_lease nonce fallback missing env s)" "snd (accept_lease nonce fallback missing env s)"]
  by (cases "dict_get (fst (accept_lease nonce fallback missing env s)) ''ok'' = VBool True") (simp_all add: succeeded_def)

lemma acquire_outcome:
  "succeeded (fst (acquire_mutation_lease E T L ttl s sent)) \<or> gs_lease (fst (snd (acquire_mutation_lease E T L ttl s sent))) = gs_lease s"
proof -
  let ?c = "lease_request ''Debug/Mutation/Acquire'' (timed_form ttl (acquisition_nonce E L s)) L"
  obtain r s1 sent1 where b: "bridge_request E T (lc_refresh L) ?c s sent = (r, s1, sent1)" by (cases "bridge_request E T (lc_refresh L) ?c s sent")
  have "gs_lease s1 = gs_lease s" using bridge_request_lease [of E T "lc_refresh L" ?c s sent] b by simp
  then show ?thesis
    using accept_outcome [of "acquisition_nonce E L s" "''Mutation lease acquisition failed.''" "''Bridge returned no mutation lease token.''" "projr r" s1]
    by (cases r) (simp_all add: acquire_mutation_lease_def Let_def b case_prod_beta)
qed

lemma renew_outcome:
  "succeeded (fst (renew_mutation_lease E T L ttl s sent)) \<or> gs_lease (fst (snd (renew_mutation_lease E T L ttl s sent))) = gs_lease s"
proof -
  let ?c = "lease_request ''Debug/Mutation/Renew'' (timed_form ttl (lease_text ''acquisitionNonce'' s)) L"
  obtain r s1 sent1 where b: "bridge_request E T (lc_refresh L) ?c s sent = (r, s1, sent1)" by (cases "bridge_request E T (lc_refresh L) ?c s sent")
  have "gs_lease s1 = gs_lease s" using bridge_request_lease [of E T "lc_refresh L" ?c s sent] b by simp
  then show ?thesis
    using accept_outcome [of "lease_text ''acquisitionNonce'' s1" "''Mutation lease renewal failed.''" "''Bridge returned no renewed mutation lease token.''" "projr r" s1]
    by (cases r) (simp_all add: renew_mutation_lease_def b case_prod_beta)
qed

text \<open>A release forgets the lease whatever the bridge answers, and keeps it only when the request itself raises;
  an acquisition or a renewal that does not succeed leaves the lease as it was.\<close>

lemma lease_outcomes:
  "(case release_mutation_lease E T L s sent of
      (Inr d, s', sent') \<Rightarrow> lease_text ''token'' s' = [] \<and> lease_text ''acquisitionNonce'' s' = []
    | (Inl e, s', sent') \<Rightarrow> gs_lease s' = gs_lease s)
   \<and> (succeeded (fst (acquire_mutation_lease E T L ttl s sent)) \<or> gs_lease (fst (snd (acquire_mutation_lease E T L ttl s sent))) = gs_lease s)
   \<and> (succeeded (fst (renew_mutation_lease E T L ttl s sent)) \<or> gs_lease (fst (snd (renew_mutation_lease E T L ttl s sent))) = gs_lease s)"
  by (intro conjI release_outcome acquire_outcome renew_outcome)

subsection \<open>A sample lease\<close>

definition lease_net :: transport where
  "lease_net = \<lparr>tr_net = (\<lambda>_. Reply 200 (Some (VDict [(''ok'', VBool True), (''lease'', VDict [(''token'', VStr ''t'')])])) [] True),
     tr_policy = [], tr_exn_text = (\<lambda>_. [])\<rparr>"

definition fresh_state :: guard_state where
  "fresh_state = \<lparr>gs_bound = VNone, gs_identity = VDict [(''bridgeInstanceId'', VStr ''b''), (''sessionId'', VStr ''s''),
     (''sessionGeneration'', VInt 1), (''debuggeePid'', VInt 7)], gs_lease = [], gs_auth = []\<rparr>"

definition first_call :: lease_call where
  "first_call = \<lparr>lc_refresh = ''q'', lc_id = ''r'', lc_nonce = ''n''\<rparr>"

lemma sample_acquisition: "succeeded (fst (acquire_mutation_lease sample_env lease_net first_call 500 fresh_state []))"
  by code_simp

definition leased_state :: guard_state where
  "leased_state = fresh_state\<lparr>gs_lease := [(''token'', VStr ''t''), (''acquisitionNonce'', VStr ''n'')]\<rparr>"

theorem lease_carried_witness:
  "\<exists>refresh core. snd (snd (bridge_request sample_env sample_net ''q'' sample_call leased_state [])) = [] @ refresh @ core
     \<and> list_all session_read refresh
     \<and> list_all (\<lambda>r. map_of (hr_headers r) ''X-MCP-Mutation-Lease'' = Some (lease_text ''token'' leased_state)
        \<and> map_of (hr_headers r) ''X-MCP-Mutation-Acquisition-Nonce'' = Some (lease_text ''acquisitionNonce'' leased_state)) core"
proof (rule lease_carried)
  show "call_guard sample_net sample_call = ''session''" by code_simp
  show "lease_text ''token'' leased_state \<noteq> []" by code_simp
  show "lease_text ''acquisitionNonce'' leased_state \<noteq> []" by code_simp
  show "attempts_after_first sample_call = 0" by code_simp
qed

theorem lease_always_grounded_witness:
  "lease_grounded (fold (step_lease sample_env lease_net) [Acquire first_call 500, Renew first_call 5000] (fresh_state, []))"
proof (rule lease_always_grounded)
  show "lease_text ''token'' fresh_state = []" by code_simp
qed

end
