(* ===== verification/Snapshots.thy ===== *)
theory Snapshots
  imports BridgeGuard
begin

text \<open>
  Snapshots of the debuggee: who owns them and where they are kept, from
  \<open>runtime_sections/00_bootstrap_and_session.py\<close> (\<open>_capture_snapshot_owner\<close> to
  \<open>_read_snapshot_registers\<close>) and the tools \<open>SaveState\<close>, \<open>GetStateSnapshot\<close>, \<open>ListStateSnapshots\<close> and
  \<open>DeleteStateSnapshot\<close> of \<open>20_debugger_workflows.py\<close>. The debugger and this server's records of
  it are a world \<open>'w\<close>, on which a \<open>target\<close> is a record of operations. An operation that may raise
  returns the text of the exception on the left.
\<close>

type_synonym 'a outcome = "string + 'a"

record 'w target =
  tg_client :: string
  tg_now :: string
  tg_exn_text :: "pyexn \<Rightarrow> string"
  tg_json :: "string \<Rightarrow> pyval option"
  tg_arch :: "'w \<Rightarrow> string option"
  tg_binding :: "'w \<Rightarrow> pydict"
  tg_identity :: "'w \<Rightarrow> pydict"
  tg_refresh :: "'w \<Rightarrow> pyval option \<times> 'w"
  tg_state :: "'w \<Rightarrow> pydict \<times> 'w"
  tg_read :: "string \<Rightarrow> int \<Rightarrow> 'w \<Rightarrow> pydict outcome \<times> 'w"
  tg_write :: "string \<Rightarrow> string \<Rightarrow> 'w \<Rightarrow> pyval outcome \<times> 'w"
  tg_get_register :: "string \<Rightarrow> 'w \<Rightarrow> pyval outcome \<times> 'w"
  tg_set_register :: "string \<Rightarrow> pyval \<Rightarrow> 'w \<Rightarrow> pyval outcome \<times> 'w"
  tg_held :: "'w \<Rightarrow> bool"
  tg_acquire :: "'w \<Rightarrow> pydict outcome \<times> 'w"
  tg_release :: "'w \<Rightarrow> unit outcome \<times> 'w"

subsection \<open>The owner\<close>

definition owner_fields :: "'w target \<Rightarrow> pydict \<Rightarrow> pydict \<Rightarrow> pydict \<Rightarrow> pyexn + pydict" where
  "owner_fields tg binding identity session =
     sum_bind (int_or (py_or (dict_get binding ''sessionGeneration'') (dict_get identity ''sessionGeneration'')) 0) (\<lambda>generation.
     sum_bind (int_or (py_or (dict_get binding ''pid'') (dict_get identity ''debuggeePid'')) 0) (\<lambda>pid.
     sum_bind (int_or (py_or (dict_get session ''eventSeq'') (dict_get identity ''eventSeq'')) 0) (\<lambda>event.
     sum_bind (int_or (dict_get session ''threadId'') 0) (\<lambda>thread.
       Inr [(''clientInstanceId'', VStr (tg_client tg)),
        (''bridgeInstanceId'', VStr (text_of (py_or (dict_get binding ''bridgeInstanceId'') (dict_get identity ''bridgeInstanceId'')))),
        (''sessionId'', VStr (text_of (py_or (dict_get binding ''sessionId'') (dict_get identity ''sessionId'')))),
        (''sessionGeneration'', VInt generation), (''processId'', VInt pid), (''eventSeq'', VInt event), (''threadId'', VInt thread),
        (''imagePath'', VStr (text_of (py_or (dict_get binding ''imagePath'') (dict_get identity ''debuggeeImagePath'')))),
        (''imageSha256'', VStr (upper (strip (text_of (py_or (dict_get binding ''imageSha256'')
           (py_or (dict_get session ''imageSha256'') (dict_get identity ''imageSha256''))))))),
        (''moduleBase'', optional_text (normalize_hex (dict_get binding ''moduleBase''))),
        (''capturedAt'', VStr (tg_now tg))]))))"

definition strong_owner :: "bool \<Rightarrow> pydict \<Rightarrow> pydict \<Rightarrow> bool" where
  "strong_owner need_thread identity owner \<longleftrightarrow>
     truthy (dict_get owner ''bridgeInstanceId'') \<and> truthy (dict_get owner ''sessionId'')
     \<and> truthy (dict_get owner ''sessionGeneration'') \<and> truthy (dict_get owner ''processId'')
     \<and> (\<not> target_hash_required identity \<or> is_sha256 (text_of (dict_get owner ''imageSha256'')))
     \<and> (\<not> need_thread \<or> truthy (dict_get owner ''threadId''))"

definition capture_owner :: "'w target \<Rightarrow> bool \<Rightarrow> 'w \<Rightarrow> pydict outcome \<times> 'w" where
  "capture_owner tg need_thread w =
     (let identity = tg_identity tg w; binding = tg_binding tg w; session = as_dict (dict_get identity ''session'');
          (identity, session, w) =
            (if need_thread
             then (case tg_refresh tg w of (Some (VDict d), w') \<Rightarrow> (tg_identity tg w', d, w') | (_, w') \<Rightarrow> (identity, session, w'))
             else (identity, session, w))
      in (case owner_fields tg binding identity session of
            Inl e \<Rightarrow> (Inl (tg_exn_text tg e), w)
          | Inr owner \<Rightarrow> (Inr (owner @ [(''strong'', VBool (strong_owner need_thread identity owner))]), w)))"

definition owner_keys :: "bool \<Rightarrow> pydict \<Rightarrow> string list" where
  "owner_keys need_thread expected =
     [''bridgeInstanceId'', ''sessionId'', ''sessionGeneration'', ''processId'']
     @ (if truthy (dict_get expected ''imageSha256'') then [''imageSha256''] else [])
     @ (if need_thread then [''threadId''] else [])"

definition owner_missing :: "bool \<Rightarrow> pydict \<Rightarrow> string list" where
  "owner_missing need_thread expected = filter (\<lambda>k. \<not> truthy (dict_get expected k)) (owner_keys need_thread expected)"

definition owner_mismatches :: "bool \<Rightarrow> pydict \<Rightarrow> pydict \<Rightarrow> string list" where
  "owner_mismatches need_thread expected current =
     filter (\<lambda>k. truthy (dict_get expected k) \<and> \<not> py_eq (dict_get expected k) (dict_get current k)) (owner_keys need_thread expected)"

definition snapshot_owner_match :: "'w target \<Rightarrow> pyval \<Rightarrow> bool \<Rightarrow> 'w \<Rightarrow> pydict outcome \<times> 'w" where
  "snapshot_owner_match tg owner need_thread w =
     (let expected = as_dict owner in
      case capture_owner tg need_thread w of
        (Inl e, w') \<Rightarrow> (Inl e, w')
      | (Inr current, w') \<Rightarrow>
          (let missing = owner_missing need_thread expected; mismatches = owner_mismatches need_thread expected current in
           (Inr [(''matches'', VBool (missing = [] \<and> mismatches = [])), (''missing'', texts_of missing),
              (''mismatches'', texts_of mismatches), (''expected'', VDict expected), (''current'', VDict current)], w')))"

subsection \<open>The store\<close>

record store =
  st_items :: "(string \<times> pydict) list"
  st_order :: "string list"
  st_seq :: int

definition state_limit :: nat where
  "state_limit = 32"

definition memory_limit :: nat where
  "memory_limit = 64"

definition snapshot_id :: "string \<Rightarrow> int \<Rightarrow> int \<Rightarrow> string \<Rightarrow> string" where
  "snapshot_id prefix generation seq token = prefix @ CHR ''-'' # dec generation @ CHR ''-'' # dec seq @ CHR ''-'' # token"

text \<open>The oldest snapshots make room when there are more than the limit.\<close>

definition put_snapshot :: "nat \<Rightarrow> string \<Rightarrow> pydict \<Rightarrow> store \<Rightarrow> store" where
  "put_snapshot limit sid rec st =
     (let items = AList.update sid rec (st_items st); order = st_order st @ [sid]; n = length order - limit in
      if length order > limit
      then st\<lparr>st_items := fold AList.delete (take n order) items, st_order := drop n order\<rparr>
      else st\<lparr>st_items := items, st_order := order\<rparr>)"

definition get_snapshot :: "string \<Rightarrow> store \<Rightarrow> pydict option" where
  "get_snapshot sid st = map_of (st_items st) (strip sid)"

definition delete_snapshot :: "string \<Rightarrow> store \<Rightarrow> bool \<times> store" where
  "delete_snapshot sid st =
     (let sid = strip sid in
      if map_of (st_items st) sid = None then (False, st)
      else (True, st\<lparr>st_items := AList.delete sid (st_items st), st_order := filter (\<lambda>i. i \<noteq> sid) (st_order st)\<rparr>))"

text \<open>The default for the owner is captured even when the record has one.\<close>

definition store_snapshot ::
  "'w target \<Rightarrow> nat \<Rightarrow> string \<Rightarrow> bool \<Rightarrow> string \<Rightarrow> pydict \<Rightarrow> store \<Rightarrow> 'w \<Rightarrow> pydict outcome \<times> store \<times> 'w" where
  "store_snapshot tg limit prefix need_thread token rec st w =
     (let seq = st_seq st + 1; st = st\<lparr>st_seq := seq\<rparr> in
      case int_or (dict_get (tg_identity tg w) ''sessionGeneration'') 0 of
        Inl e \<Rightarrow> (Inl (tg_exn_text tg e), st, w)
      | Inr generation \<Rightarrow>
          (let sid = snapshot_id prefix generation seq token; rec = AList.update ''snapshotId'' (VStr sid) rec in
           case capture_owner tg need_thread w of
             (Inl e, w') \<Rightarrow> (Inl e, st, w')
           | (Inr owner, w') \<Rightarrow>
               (let rec = set_default ''owner'' (VDict owner) rec in (Inr rec, put_snapshot limit sid rec st, w'))))"

definition store_state_snapshot :: "'w target \<Rightarrow> string \<Rightarrow> pydict \<Rightarrow> store \<Rightarrow> 'w \<Rightarrow> pydict outcome \<times> store \<times> 'w" where
  "store_state_snapshot tg = store_snapshot tg state_limit ''state'' True"

definition store_memory_snapshot :: "'w target \<Rightarrow> string \<Rightarrow> pydict \<Rightarrow> store \<Rightarrow> 'w \<Rightarrow> pydict outcome \<times> store \<times> 'w" where
  "store_memory_snapshot tg = store_snapshot tg memory_limit ''memsnap'' False"

subsection \<open>Registers and ranges\<close>

definition snapshot_registers_x86 :: "string list" where
  "snapshot_registers_x86 = [''eax'', ''ebx'', ''ecx'', ''edx'', ''esi'', ''edi'', ''ebp'', ''esp'', ''eip'', ''eflags'']"

definition snapshot_registers_x64 :: "string list" where
  "snapshot_registers_x64 = [''rax'', ''rbx'', ''rcx'', ''rdx'', ''rsi'', ''rdi'', ''rbp'', ''rsp'', ''rip'',
     ''r8'', ''r9'', ''r10'', ''r11'', ''r12'', ''r13'', ''r14'', ''r15'', ''eflags'']"

definition debuggee_registers :: "'w target \<Rightarrow> 'w \<Rightarrow> string list" where
  "debuggee_registers tg w =
     (case tg_arch tg w of
        Some arch \<Rightarrow> if lower arch \<in> {''x86'', ''x32''} then snapshot_registers_x86 else snapshot_registers_x64
      | None \<Rightarrow> snapshot_registers_x64)"

fun read_registers :: "'w target \<Rightarrow> string list \<Rightarrow> 'w \<Rightarrow> (string \<times> pyval) list \<times> 'w" where
  "read_registers tg [] w = ([], w)"
| "read_registers tg (name # names) w =
     (let (r, w') = tg_get_register tg name w; (rest, w'') = read_registers tg names w' in
      case r of
        Inl _ \<Rightarrow> (rest, w'')
      | Inr v \<Rightarrow>
          (let t = text_of (case v of VDict d \<Rightarrow> py_or (dict_get d ''result'') (py_or (dict_get d ''value'') (VStr [])) | _ \<Rightarrow> v) in
           (if starts_with t ''0x'' then (name, VStr t) # rest else rest, w'')))"

fun split_bars :: "string \<Rightarrow> string list" where
  "split_bars [] = [[]]"
| "split_bars (c # s) =
     (if c = CHR ''|'' then [] # split_bars s
      else (case split_bars s of p # ps \<Rightarrow> (c # p) # ps | [] \<Rightarrow> [[c]]))"

record capture_spec =
  cs_label :: string
  cs_expr :: string
  cs_size :: int

definition text_field :: "pydict \<Rightarrow> string \<Rightarrow> pyval \<Rightarrow> string" where
  "text_field d k dflt = strip (py_str (dict_get_default d k dflt))"

text \<open>The format of a range is read by other tools only.\<close>

definition spec_of_dict :: "pydict \<Rightarrow> pyexn + capture_spec list" where
  "spec_of_dict d =
     (let expr = text_field d ''expr'' (dict_get_default d ''address'' (VStr [])) in
      if expr = [] then Inr []
      else sum_bind (int_or (dict_get_default d ''size'' (dict_get_default d ''length'' (VInt 0))) 0) (\<lambda>n.
        Inr [\<lparr>cs_label = text_field d ''label'' (VStr []), cs_expr = expr, cs_size = n\<rparr>]))"

definition spec_of_text :: "string \<Rightarrow> pyexn + capture_spec list" where
  "spec_of_text s =
     (let parts = split_bars (strip s);
          expr = (case parts of _ # e # _ \<Rightarrow> strip e | e # _ \<Rightarrow> strip e | [] \<Rightarrow> []);
          label = (case parts of l # _ # _ \<Rightarrow> strip l | _ \<Rightarrow> []) in
      if strip s = [] \<or> expr = [] then Inr []
      else (case parts of
              _ # _ # n # _ \<Rightarrow>
                (if strip n = [] then Inr [\<lparr>cs_label = label, cs_expr = expr, cs_size = 0\<rparr>]
                 else (case int0 n of None \<Rightarrow> Inl ValueError | Some i \<Rightarrow> Inr [\<lparr>cs_label = label, cs_expr = expr, cs_size = i\<rparr>]))
            | _ \<Rightarrow> Inr [\<lparr>cs_label = label, cs_expr = expr, cs_size = 0\<rparr>]))"

fun capture_specs :: "pyval list \<Rightarrow> pyexn + capture_spec list" where
  "capture_specs [] = Inr []"
| "capture_specs (v # vs) =
     sum_bind (case v of VDict d \<Rightarrow> spec_of_dict d | VStr s \<Rightarrow> spec_of_text s | _ \<Rightarrow> Inr []) (\<lambda>specs.
     sum_bind (capture_specs vs) (\<lambda>rest. Inr (specs @ rest)))"

definition parse_capture_specs :: "'w target \<Rightarrow> string \<Rightarrow> pyexn + capture_spec list" where
  "parse_capture_specs tg raw =
     (if raw = [] then Inr []
      else capture_specs (case tg_json tg raw of None \<Rightarrow> [VStr raw] | Some (VList vs) \<Rightarrow> vs | Some v \<Rightarrow> [v]))"

definition range_label :: "nat \<Rightarrow> capture_spec \<Rightarrow> pyval" where
  "range_label n spec = VStr (if cs_label spec = [] then ''range'' @ dec (int n) else cs_label spec)"

fun read_ranges :: "'w target \<Rightarrow> nat \<Rightarrow> capture_spec list \<Rightarrow> 'w \<Rightarrow> (pydict list \<times> pydict list) outcome \<times> 'w" where
  "read_ranges tg n [] w = (Inr ([], []), w)"
| "read_ranges tg n (spec # specs) w =
     (case tg_read tg (cs_expr spec) (cs_size spec) w of
        (Inl e, w') \<Rightarrow> (Inl e, w')
      | (Inr d, w') \<Rightarrow>
          (case read_ranges tg (Suc n) specs w' of
             (Inl e, w'') \<Rightarrow> (Inl e, w'')
           | (Inr (ranges, failures), w'') \<Rightarrow>
               (if truthy (dict_get d ''ok'')
                then (Inr ([(''label'', range_label n spec), (''expr'', VStr (cs_expr spec)), (''addr'', dict_get d ''addr''),
                         (''size'', dict_get d ''sizeRead''), (''hex'', dict_get d ''hex'')] # ranges, failures), w'')
                else (Inr (ranges, [(''index'', VInt (int n)), (''label'', range_label n spec), (''expr'', VStr (cs_expr spec)),
                         (''error'', dict_get d ''error'')] # failures), w''))))"

subsection \<open>The tools\<close>

definition save_state :: "'w target \<Rightarrow> string \<Rightarrow> string \<Rightarrow> string \<Rightarrow> store \<Rightarrow> 'w \<Rightarrow> pydict outcome \<times> store \<times> 'w" where
  "save_state tg token label raw st w =
     (let (state, w) = tg_state tg w in
      if \<not> truthy (dict_get state ''debugging'') \<or> \<not> truthy (dict_get state ''paused'')
      then (Inr [(''ok'', VBool False), (''error'', VStr ''SaveState requires a paused debuggee''), (''currentState'', dict_get state ''state'')], st, w)
      else (case capture_owner tg True w of
              (Inl e, w) \<Rightarrow> (Inl e, st, w)
            | (Inr owner, w) \<Rightarrow>
                (if \<not> truthy (dict_get owner ''strong'')
                 then (Inr [(''ok'', VBool False), (''errorCode'', VStr ''SESSION_IDENTITY_UNAVAILABLE''),
                        (''error'', VStr ''A strong Bridge/Hello session and thread identity is required to save restorable state.''),
                        (''owner'', VDict owner)], st, w)
                 else (let (registers, w) = read_registers tg (debuggee_registers tg w) w in
                       case parse_capture_specs tg raw of
                         Inl e \<Rightarrow> (Inl (tg_exn_text tg e), st, w)
                       | Inr specs \<Rightarrow>
                           (case read_ranges tg 0 specs w of
                              (Inl e, w) \<Rightarrow> (Inl e, st, w)
                            | (Inr (ranges, failures), w) \<Rightarrow>
                                (if failures \<noteq> []
                                 then (Inr [(''ok'', VBool False), (''errorCode'', VStr ''SNAPSHOT_CAPTURE_FAILED''),
                                        (''error'', VStr ''One or more requested state ranges could not be captured.''),
                                        (''failures'', VList (map VDict failures)), (''owner'', VDict owner)], st, w)
                                 else (case store_state_snapshot tg token
                                         [(''createdAt'', VStr (tg_now tg)), (''label'', VStr label), (''registers'', VDict registers),
                                          (''ranges'', VList (map VDict ranges)), (''owner'', VDict owner)] st w of
                                         (Inl e, st, w) \<Rightarrow> (Inl e, st, w)
                                       | (Inr rec, st, w) \<Rightarrow>
                                           (Inr [(''ok'', VBool True), (''snapshotId'', dict_get rec ''snapshotId''), (''label'', dict_get rec ''label''),
                                             (''registerCount'', VInt (int (length registers))), (''rangeCount'', VInt (int (length ranges))),
                                             (''createdAt'', dict_get rec ''createdAt''), (''owner'', VDict owner)], st, w))))))))"

definition get_state_snapshot :: "string \<Rightarrow> store \<Rightarrow> pydict" where
  "get_state_snapshot sid st =
     (case get_snapshot sid st of
        Some (kv # rec) \<Rightarrow> fold (\<lambda>(k, v). AList.update k v) (kv # rec) [(''ok'', VBool True)]
      | _ \<Rightarrow> [(''ok'', VBool False), (''snapshotId'', VStr sid), (''error'', VStr ''Snapshot not found'')])"

definition delete_state_snapshot :: "string \<Rightarrow> store \<Rightarrow> pydict \<times> store" where
  "delete_state_snapshot sid st =
     (let (removed, st) = delete_snapshot sid st in
      ([(''ok'', VBool removed), (''snapshotId'', VStr sid), (''deleted'', VBool removed)], st))"

definition value_length :: "pyval \<Rightarrow> int" where
  "value_length v = (case v of VDict d \<Rightarrow> int (length d) | VList vs \<Rightarrow> int (length vs) | _ \<Rightarrow> 0)"

fun list_entries :: "'w target \<Rightarrow> store \<Rightarrow> string list \<Rightarrow> 'w \<Rightarrow> pydict list outcome \<times> 'w" where
  "list_entries tg st [] w = (Inr [], w)"
| "list_entries tg st (sid # sids) w =
     (let snap = (case map_of (st_items st) sid of Some d \<Rightarrow> d | None \<Rightarrow> []) in
      case snapshot_owner_match tg (dict_get snap ''owner'') True w of
        (Inl e, w') \<Rightarrow> (Inl e, w')
      | (Inr own, w') \<Rightarrow>
          (case list_entries tg st sids w' of
             (Inl e, w'') \<Rightarrow> (Inl e, w'')
           | (Inr rest, w'') \<Rightarrow>
               (Inr ([(''snapshotId'', VStr sid), (''label'', dict_get_default snap ''label'' (VStr [])), (''createdAt'', dict_get snap ''createdAt''),
                  (''registerCount'', VInt (value_length (dict_get snap ''registers''))), (''rangeCount'', VInt (value_length (dict_get snap ''ranges''))),
                  (''owner'', dict_get snap ''owner''), (''stale'', VBool (\<not> truthy (dict_get own ''matches''))),
                  (''ownerMismatches'', dict_get own ''mismatches'')] # rest), w'')))"

definition list_state_snapshots :: "'w target \<Rightarrow> int \<Rightarrow> store \<Rightarrow> 'w \<Rightarrow> pydict outcome \<times> 'w" where
  "list_state_snapshots tg limit st w =
     (let n = nat (max 1 limit); order = drop (length (st_order st) - n) (st_order st) in
      case list_entries tg st (rev order) w of
        (Inl e, w') \<Rightarrow> (Inl e, w')
      | (Inr entries, w') \<Rightarrow>
          (Inr [(''ok'', VBool True), (''count'', VInt (int (length entries))), (''snapshots'', VList (map VDict entries))], w'))"

end
