(* ===== verification/StateRestore.thy ===== *)
theory StateRestore
  imports Snapshots "HOL-Library.List_Lexorder" "HOL-Library.Product_Lexorder"
begin

text \<open>
  The transactional restore of a state snapshot, from \<open>runtime_sections/20_debugger_workflows.py\<close>
  (\<open>RestoreState\<close>, \<open>_restore_state_impl\<close>, \<open>_mutation_result_ok\<close>). Current values are captured before the
  first write; the ranges and then the registers are written and read back; at the first failure the
  captured values are written again in reverse order.
\<close>

subsection \<open>Results of mutations\<close>

definition mutation_result_ok :: "pyval \<Rightarrow> bool \<times> string" where
  "mutation_result_ok r =
     (case r of
        VDict d \<Rightarrow>
          (if dict_get d ''ok'' = VBool False \<or> dict_get d ''success'' = VBool False
           then (case dict_get d ''error'' of
                   VDict e \<Rightarrow> (False, py_str (py_or (dict_get e ''message'') (VDict e)))
                 | e \<Rightarrow> (False, py_str (py_or e r)))
           else (True, []))
      | _ \<Rightarrow>
          (let t = strip (text_of r); lowered = casefold t in
           if list_ex (starts_with lowered) [''error'', ''request failed'']
              \<or> list_ex (\<lambda>m. contains m lowered) [''stale_session'', ''session identity'', ''guard required'', ''failed'']
           then (False, t) else (True, [])))"

definition is_register_error :: "pyval \<Rightarrow> bool" where
  "is_register_error r \<longleftrightarrow>
     (case r of
        VStr s \<Rightarrow> (let low = lower (strip s) in
          starts_with low ''error'' \<or> starts_with low ''request failed'' \<or> contains ''unknown register'' low)
      | _ \<Rightarrow> False)"

subsection \<open>Preparation\<close>

record prepared_range =
  pr_addr :: string
  pr_hex :: string
  pr_label :: pyval

definition no_blanks :: "string \<Rightarrow> string" where
  "no_blanks s = filter (\<lambda>c. \<not> py_space c) s"

definition all_hex :: "string \<Rightarrow> bool" where
  "all_hex s \<longleftrightarrow> s \<noteq> [] \<and> list_all (\<lambda>c. hex_value c \<noteq> None) s"

definition range_failure :: "pyval \<Rightarrow> string \<Rightarrow> pydict" where
  "range_failure label message = [(''label'', label), (''error'', VStr message)]"

definition prepare_range :: "pydict \<Rightarrow> pydict + prepared_range" where
  "prepare_range item =
     (let addr = py_or (dict_get item ''addr'') (dict_get item ''expr''); data = no_blanks (text_of (dict_get item ''hex'')) in
      if \<not> truthy addr \<or> data = [] then Inl (range_failure (dict_get item ''label'') ''Range has no address/data'')
      else if odd (length data) \<or> \<not> all_hex data then Inl (range_failure (dict_get item ''label'') ''Range contains invalid hex'')
      else Inr \<lparr>pr_addr = py_str addr, pr_hex = data, pr_label = dict_get item ''label''\<rparr>)"

definition lefts :: "('a + 'b) list \<Rightarrow> 'a list" where
  "lefts xs = concat (map (\<lambda>x. case x of Inl a \<Rightarrow> [a] | Inr _ \<Rightarrow> []) xs)"

definition rights :: "('a + 'b) list \<Rightarrow> 'b list" where
  "rights xs = concat (map (\<lambda>x. case x of Inl _ \<Rightarrow> [] | Inr b \<Rightarrow> [b]) xs)"

definition shown_label :: "prepared_range \<Rightarrow> pyval" where
  "shown_label r = py_or (pr_label r) (VStr (pr_addr r))"

definition range_size :: "prepared_range \<Rightarrow> int" where
  "range_size r = int (length (pr_hex r) div 2)"

text \<open>The current bytes of every range, or the reply that ends the restore.\<close>

fun capture_ranges :: "'w target \<Rightarrow> prepared_range list \<Rightarrow> 'w \<Rightarrow> (pyval + (string \<times> string) list) outcome \<times> 'w" where
  "capture_ranges tg [] w = (Inr (Inr []), w)"
| "capture_ranges tg (r # rs) w =
     (case tg_read tg (pr_addr r) (range_size r) w of
        (Inl e, w') \<Rightarrow> (Inl e, w')
      | (Inr d, w') \<Rightarrow>
          (let live = no_blanks (text_of (dict_get d ''hex'')) in
           if \<not> truthy (dict_get d ''ok'') \<or> int (length live) \<noteq> range_size r * 2 then (Inr (Inl (shown_label r)), w')
           else (case capture_ranges tg rs w' of
                   (Inr (Inr rest), w'') \<Rightarrow> (Inr (Inr ((pr_addr r, live) # rest)), w'')
                 | (failure, w'') \<Rightarrow> (failure, w''))))"

definition hex_literal :: "string \<Rightarrow> bool" where
  "hex_literal s \<longleftrightarrow> (case s of z # x # digits \<Rightarrow> z = CHR ''0'' \<and> (x = CHR ''x'' \<or> x = CHR ''X'') \<and> all_hex digits | _ \<Rightarrow> False)"

definition live_register :: "pyval \<Rightarrow> string option" where
  "live_register v =
     (let (value, ok) = (case v of
            VDict d \<Rightarrow> (dict_get_default d ''value'' (dict_get d ''result''), dict_get_default d ''ok'' (VBool True) \<noteq> VBool False)
          | _ \<Rightarrow> (v, \<not> is_register_error v));
          t = strip (text_of value)
      in if ok \<and> hex_literal t then Some t else None)"

fun capture_registers :: "'w target \<Rightarrow> string list \<Rightarrow> 'w \<Rightarrow> (string + (string \<times> string) list) outcome \<times> 'w" where
  "capture_registers tg [] w = (Inr (Inr []), w)"
| "capture_registers tg (name # names) w =
     (case tg_get_register tg name w of
        (Inl e, w') \<Rightarrow> (Inl e, w')
      | (Inr v, w') \<Rightarrow>
          (case live_register v of
             None \<Rightarrow> (Inr (Inl name), w')
           | Some t \<Rightarrow>
               (case capture_registers tg names w' of
                  (Inr (Inr rest), w'') \<Rightarrow> (Inr (Inr ((name, t) # rest)), w'')
                | (failure, w'') \<Rightarrow> (failure, w''))))"

subsection \<open>The writes\<close>

definition step_entry :: "string \<Rightarrow> string \<Rightarrow> string \<Rightarrow> string \<Rightarrow> string option \<Rightarrow> pydict" where
  "step_entry kind key name status message =
     [(''kind'', VStr kind), (key, VStr name), (''status'', VStr status)] @ (case message of None \<Rightarrow> [] | Some t \<Rightarrow> [(''error'', VStr t)])"

text \<open>One write and its read-back: nothing, or the failure record and the message of the step.\<close>

definition write_range :: "'w target \<Rightarrow> prepared_range \<Rightarrow> 'w \<Rightarrow> (pydict \<times> string) option \<times> 'w" where
  "write_range tg r w =
     (let label = shown_label r in
      case tg_write tg (pr_addr r) (pr_hex r) w of
        (Inl e, w') \<Rightarrow> (Some (range_failure label e, e), w')
      | (Inr v, w') \<Rightarrow>
          (if \<not> fst (mutation_result_ok v)
           then (Some (range_failure label (snd (mutation_result_ok v)), snd (mutation_result_ok v)), w')
           else (case tg_read tg (pr_addr r) (range_size r) w' of
                   (Inl e, w'') \<Rightarrow> (Some (range_failure label e, e), w'')
                 | (Inr d, w'') \<Rightarrow>
                     (let observed = no_blanks (text_of (dict_get d ''hex'')) in
                      if \<not> truthy (dict_get d ''ok'') \<or> casefold observed \<noteq> casefold (pr_hex r)
                      then (Some ([(''label'', label), (''error'', VStr ''Memory read-back verification failed''),
                              (''expected'', VStr (pr_hex r)), (''observed'', VStr observed)], ''readback_failed''), w'')
                      else (None, w'')))))"

text \<open>The names of what was restored, the failure that ended the loop, and the steps.\<close>

fun write_ranges :: "'w target \<Rightarrow> prepared_range list \<Rightarrow> 'w \<Rightarrow> string list \<times> pydict option \<times> pydict list \<times> 'w" where
  "write_ranges tg [] w = ([], None, [], w)"
| "write_ranges tg (r # rs) w =
     (case write_range tg r w of
        (Some (failure, message), w') \<Rightarrow>
          ([], Some failure, [step_entry ''range'' ''label'' (py_str (shown_label r)) ''failed'' (Some message)], w')
      | (None, w') \<Rightarrow>
          (let (restored, failure, steps, w'') = write_ranges tg rs w' in
           (py_str (shown_label r) # restored, failure,
            step_entry ''range'' ''label'' (py_str (shown_label r)) ''verified'' None # steps, w'')))"

definition register_failure :: "string \<Rightarrow> string \<Rightarrow> pydict" where
  "register_failure name message = [(''register'', VStr name), (''error'', VStr message)]"

definition write_register :: "'w target \<Rightarrow> string \<Rightarrow> pyval \<Rightarrow> 'w \<Rightarrow> (pydict \<times> string) option \<times> 'w" where
  "write_register tg name value w =
     (case tg_set_register tg name value w of
        (Inl e, w') \<Rightarrow> (Some (register_failure name e, e), w')
      | (Inr v, w') \<Rightarrow>
          (if \<not> fst (mutation_result_ok v)
           then (Some (register_failure name (snd (mutation_result_ok v)), snd (mutation_result_ok v)), w')
           else (case tg_get_register tg name w' of
                   (Inl e, w'') \<Rightarrow> (Some (register_failure name e, e), w'')
                 | (Inr observed, w'') \<Rightarrow>
                     (let seen = (case observed of VDict d \<Rightarrow> dict_get_default d ''value'' (dict_get d ''result'') | _ \<Rightarrow> observed) in
                      case parse_int value None of
                        None \<Rightarrow> (None, w'')
                      | Some expected \<Rightarrow>
                          (if parse_int seen None = Some expected then (None, w'')
                           else (Some ([(''register'', VStr name), (''error'', VStr ''Register read-back verification failed''),
                                   (''expected'', value), (''observed'', observed)], ''readback_failed''), w''))))))"

fun write_registers :: "'w target \<Rightarrow> (string \<times> pyval) list \<Rightarrow> 'w \<Rightarrow> string list \<times> pydict option \<times> pydict list \<times> 'w" where
  "write_registers tg [] w = ([], None, [], w)"
| "write_registers tg ((name, value) # rest) w =
     (case write_register tg name value w of
        (Some (failure, message), w') \<Rightarrow> ([], Some failure, [step_entry ''register'' ''register'' name ''failed'' (Some message)], w')
      | (None, w') \<Rightarrow>
          (let (restored, failure, steps, w'') = write_registers tg rest w' in
           (name # restored, failure, step_entry ''register'' ''register'' name ''verified'' None # steps, w'')))"

definition control_registers :: "string list" where
  "control_registers = [''eip'', ''rip'', ''cip'', ''esp'', ''rsp'', ''csp'', ''eflags'']"

definition register_rank :: "string \<times> pyval \<Rightarrow> bool \<times> nat list" where
  "register_rank item = (casefold (fst item) \<in> set control_registers, map cp (fst item))"

definition ordered_registers :: "(string \<times> pyval) list \<Rightarrow> (string \<times> pyval) list" where
  "ordered_registers registers = sort_key register_rank registers"

subsection \<open>Compensation\<close>

fun undo_ranges :: "'w target \<Rightarrow> (string \<times> string) list \<Rightarrow> 'w \<Rightarrow> pydict list \<times> pydict list \<times> 'w" where
  "undo_ranges tg [] w = ([], [], w)"
| "undo_ranges tg ((addr, hex) # rest) w =
     (let (r, w') = tg_write tg addr hex w; (entries, steps, w'') = undo_ranges tg rest w';
          ok = (case r of Inr v \<Rightarrow> fst (mutation_result_ok v) | Inl _ \<Rightarrow> False);
          message = (case r of Inr _ \<Rightarrow> [] | Inl e \<Rightarrow> [(''error'', VStr e)])
      in ((((''addr'', VStr addr) # [(''ok'', VBool ok)]) @ message) # entries,
          ([(''kind'', VStr ''compensation_range''), (''addr'', VStr addr),
            (''status'', VStr (if ok then ''rolled_back'' else ''rollback_failed''))] @ message) # steps, w''))"

fun undo_registers :: "'w target \<Rightarrow> (string \<times> string) list \<Rightarrow> 'w \<Rightarrow> pydict list \<times> pydict list \<times> 'w" where
  "undo_registers tg [] w = ([], [], w)"
| "undo_registers tg ((name, value) # rest) w =
     (let (r, w') = tg_set_register tg name (VStr value) w; (entries, steps, w'') = undo_registers tg rest w';
          ok = (case r of Inr v \<Rightarrow> fst (mutation_result_ok v) | Inl _ \<Rightarrow> False);
          message = (case r of Inr _ \<Rightarrow> [] | Inl e \<Rightarrow> [(''error'', VStr e)])
      in ((((''register'', VStr name) # [(''ok'', VBool ok)]) @ message) # entries,
          ([(''kind'', VStr ''compensation_register''), (''register'', VStr name),
            (''status'', VStr (if ok then ''rolled_back'' else ''rollback_failed''))] @ message) # steps, w''))"

definition all_ok :: "pydict list \<Rightarrow> bool" where
  "all_ok entries \<longleftrightarrow> list_all (\<lambda>e. truthy (dict_get e ''ok'')) entries"

subsection \<open>The restore\<close>

definition failure_lists :: "pydict list \<Rightarrow> pydict list \<Rightarrow> pyval" where
  "failure_lists registers ranges = VDict [(''registers'', VList (map VDict registers)), (''ranges'', VList (map VDict ranges))]"

definition refused :: "string \<Rightarrow> (string \<times> string) list \<Rightarrow> pydict \<Rightarrow> pydict" where
  "refused sid texts extra =
     [(''ok'', VBool False), (''snapshotId'', VStr sid)] @ map (\<lambda>(k, t). (k, VStr t)) texts @ extra"

definition optional_list :: "'a option \<Rightarrow> 'a list" where
  "optional_list x = (case x of Some a \<Rightarrow> [a] | None \<Rightarrow> [])"

text \<open>The part that writes, on what was captured.\<close>

definition run_restore ::
  "'w target \<Rightarrow> string \<Rightarrow> pydict \<Rightarrow> prepared_range list \<Rightarrow> (string \<times> pyval) list \<Rightarrow> (string \<times> string) list \<Rightarrow> (string \<times> string) list
   \<Rightarrow> 'w \<Rightarrow> pydict \<times> 'w" where
  "run_restore tg sid ownership ranges registers old_ranges old_registers w =
     (let (restored_ranges, range_error, range_steps, w) = write_ranges tg ranges w;
          (restored_registers, register_error, register_steps, w) =
            (if range_error = None then write_registers tg (ordered_registers registers) w else ([], None, [], w));
          ok = (range_error = None \<and> register_error = None);
          (undone_ranges, undo_steps, w) = (if ok then ([], [], w) else undo_ranges tg (rev old_ranges) w);
          (undone_registers, undo_steps', w) = (if ok then ([], [], w) else undo_registers tg (rev old_registers) w);
          state = (if ok then ''committed'' else if all_ok undone_ranges \<and> all_ok undone_registers then ''rolled_back'' else ''rollback_failed'')
      in ([(''ok'', VBool ok), (''snapshotId'', VStr sid),
           (''restored'', VDict [(''registers'', texts_of restored_registers), (''ranges'', texts_of restored_ranges)]),
           (''failed'', failure_lists (optional_list register_error) (optional_list range_error)),
           (''verified'', VBool ok), (''transactionState'', VStr state),
           (''steps'', VList (map VDict (range_steps @ register_steps @ undo_steps @ undo_steps'))),
           (''ownership'', VDict ownership),
           (''compensation'', VDict [(''attempted'', VBool (\<not> ok)), (''ranges'', VList (map VDict undone_ranges)),
              (''registers'', VList (map VDict undone_registers))])], w))"

definition snapshot_ranges :: "bool \<Rightarrow> pydict \<Rightarrow> (pydict + prepared_range) list" where
  "snapshot_ranges restore_memory snap =
     (if restore_memory
      then (case dict_get_default snap ''ranges'' (VList []) of
              VList vs \<Rightarrow> map (\<lambda>v. prepare_range (as_dict v)) vs | _ \<Rightarrow> [])
      else [])"

definition not_found :: "string \<Rightarrow> pydict" where
  "not_found sid = refused sid [(''error'', ''Snapshot not found'')] []"

definition owner_mismatch :: "string \<Rightarrow> pydict \<Rightarrow> pydict" where
  "owner_mismatch sid ownership =
     refused sid [(''errorCode'', ''SNAPSHOT_OWNER_MISMATCH''),
         (''error'', ''Snapshot belongs to a different bridge, debug session, process, or thread.'')]
       [(''ownership'', VDict ownership)]"

definition restore_state_impl :: "'w target \<Rightarrow> string \<Rightarrow> bool \<Rightarrow> store \<Rightarrow> 'w \<Rightarrow> pydict outcome \<times> 'w" where
  "restore_state_impl tg sid restore_memory st w =
     (case get_snapshot sid st of
        Some (kv # rec) \<Rightarrow>
          (let snap = kv # rec in
           case snapshot_owner_match tg (dict_get snap ''owner'') True w of
             (Inl e, w) \<Rightarrow> (Inl e, w)
           | (Inr ownership, w) \<Rightarrow>
               (if \<not> truthy (dict_get ownership ''matches'') then (Inr (owner_mismatch sid ownership), w)
                else (let (state, w) = tg_state tg w in
                      if \<not> truthy (dict_get state ''paused'')
                      then (Inr (refused sid [(''error'', ''Debuggee must be paused to restore state'')] [(''currentState'', dict_get state ''state'')]), w)
                      else (let prepared = snapshot_ranges restore_memory snap;
                                registers = as_dict (py_or (dict_get snap ''registers'') (VDict [])) in
                        if lefts prepared \<noteq> []
                        then (Inr (refused sid [(''errorCode'', ''INVALID_SNAPSHOT''), (''error'', ''Snapshot memory ranges failed preflight validation.'')]
                               [(''failed'', failure_lists [] (lefts prepared))]), w)
                        else (case capture_ranges tg (rights prepared) w of
                                (Inl e, w) \<Rightarrow> (Inl e, w)
                              | (Inr (Inl label), w) \<Rightarrow>
                                  (Inr (refused sid [(''errorCode'', ''RESTORE_PREFLIGHT_FAILED''), (''error'', ''Could not capture current bytes before restore.'')]
                                     [(''failed'', failure_lists [] [range_failure label ''Live pre-state read failed''])]), w)
                              | (Inr (Inr old_ranges), w) \<Rightarrow>
                                  (case capture_registers tg (map fst registers) w of
                                     (Inl e, w) \<Rightarrow> (Inl e, w)
                                   | (Inr (Inl name), w) \<Rightarrow>
                                       (Inr (refused sid [(''errorCode'', ''RESTORE_PREFLIGHT_FAILED''),
                                            (''error'', ''Could not capture current register '' @ name @ ''.'')]
                                          [(''failed'', failure_lists [[(''register'', VStr name)]] [])]), w)
                                   | (Inr (Inr old_registers), w) \<Rightarrow>
                                       (let (reply, w) = run_restore tg sid ownership (rights prepared) registers old_ranges old_registers w
                                        in (Inr reply, w))))))))
      | _ \<Rightarrow> (Inr (not_found sid), w))"

text \<open>The tool holds the lease for the restore, and gives back one it acquired itself, also when the restore
  raises; an exception of the release replaces the result.\<close>

definition restore_state :: "'w target \<Rightarrow> string \<Rightarrow> bool \<Rightarrow> store \<Rightarrow> 'w \<Rightarrow> pydict outcome \<times> 'w" where
  "restore_state tg sid restore_memory st w =
     (case get_snapshot sid st of
        Some (kv # rec) \<Rightarrow>
          (case snapshot_owner_match tg (dict_get (kv # rec) ''owner'') True w of
             (Inl e, w) \<Rightarrow> (Inl e, w)
           | (Inr ownership, w) \<Rightarrow>
               (if \<not> truthy (dict_get ownership ''matches'') then (Inr (owner_mismatch sid ownership), w)
                else if tg_held tg w then restore_state_impl tg sid restore_memory st w
                else (case tg_acquire tg w of
                        (Inl e, w) \<Rightarrow> (Inl e, w)
                      | (Inr acquired, w) \<Rightarrow>
                          (if \<not> truthy (dict_get acquired ''ok'')
                           then (Inr ([(''ok'', VBool False), (''snapshotId'', VStr sid),
                                  (''errorCode'', dict_get_default acquired ''errorCode'' (VStr ''MUTATION_LEASE_FAILED'')),
                                  (''error'', dict_get_default acquired ''error'' (VStr ''Could not acquire mutation lease.'')),
                                  (''lease'', VDict acquired)]), w)
                           else (let (result, w) = restore_state_impl tg sid restore_memory st w in
                                 case tg_release tg w of
                                   (Inl e, w) \<Rightarrow> (Inl e, w)
                                 | (Inr _, w) \<Rightarrow> (result, w))))))
      | _ \<Rightarrow> (Inr (not_found sid), w))"

end
