(* ===== verification/SnapshotProps.thy ===== *)
theory SnapshotProps
  imports Snapshots
begin

text \<open>
  The snapshot stores are bounded logs: every stored record can be read until \<open>limit\<close> younger ones have
  been stored or it is deleted, and identifiers are never used twice.
\<close>

subsection \<open>Identifiers\<close>

definition seq_text :: "string \<Rightarrow> string" where
  "seq_text sid = takeWhile (\<lambda>c. c \<noteq> CHR ''-'') (drop 1 (dropWhile (\<lambda>c. c \<noteq> CHR ''-'') (rev sid)))"

lemma digits_no_dash: "CHR ''-'' \<notin> set (to_base 10 n)"
proof
  assume c: "CHR ''-'' \<in> set (to_base 10 n)"
  have "all_digits 10 (to_base 10 n)" by (rule all_digits_to_base) simp_all
  with c obtain d where "digit_val (CHR ''-'') = Some d" unfolding all_digits_def list_all_iff by blast
  moreover have "digit_val (CHR ''-'') = None" by code_simp
  ultimately show False by (simp only: option.distinct)
qed

lemma dec_nonneg: "0 \<le> i \<Longrightarrow> dec i = to_base 10 (nat i)"
  by (simp add: dec_def base_int_def)

lemma dec_inj:
  assumes "0 \<le> i" "0 \<le> j" "dec i = dec j"
  shows "i = j"
proof -
  have "digits_value 10 0 (to_base 10 (nat i)) = digits_value 10 0 (to_base 10 (nat j))"
    using assms(3) unfolding dec_nonneg [OF assms(1)] dec_nonneg [OF assms(2)] by (rule arg_cong)
  with assms(1,2) show ?thesis by (simp add: digits_value_to_base)
qed

lemma middle_part:
  assumes "\<forall>c \<in> set xs. P c" and "\<not> P d" and "\<forall>c \<in> set ys. P c"
  shows "takeWhile P (drop 1 (dropWhile P (xs @ d # ys @ d # zs))) = ys"
  using assms by simp

lemma seq_text_id:
  assumes "CHR ''-'' \<notin> set token" and "0 \<le> seq"
  shows "seq_text (snapshot_id prefix generation seq token) = rev (dec seq)"
proof -
  have "rev (snapshot_id prefix generation seq token)
      = rev token @ CHR ''-'' # rev (dec seq) @ CHR ''-'' # rev (prefix @ CHR ''-'' # dec generation)"
    by (simp add: snapshot_id_def)
  moreover have "\<forall>c \<in> set (rev token). c \<noteq> CHR ''-''" using assms(1) unfolding set_rev by metis
  moreover have "\<forall>c \<in> set (rev (dec seq)). c \<noteq> CHR ''-''"
    using digits_no_dash unfolding set_rev dec_nonneg [OF assms(2)] by metis
  ultimately show ?thesis unfolding seq_text_def by (simp only: middle_part simp_thms)
qed

subsection \<open>The store\<close>

definition store_ok :: "nat \<Rightarrow> store \<Rightarrow> bool" where
  "store_ok limit st \<longleftrightarrow> distinct (st_order st) \<and> distinct (map fst (st_items st)) \<and> fst ` set (st_items st) = set (st_order st)
     \<and> length (st_order st) \<le> limit \<and> 0 \<le> st_seq st
     \<and> (\<forall>sid \<in> set (st_order st). \<exists>seq. 0 \<le> seq \<and> seq \<le> st_seq st \<and> seq_text sid = rev (dec seq))"

lemma delete_many_lookup: "map_of (fold AList.delete ks items) k = (if k \<in> set ks then None else map_of items k)"
  by (induction ks arbitrary: items) (auto simp: delete_conv')

lemma delete_many_keys: "fst ` set (fold AList.delete ks items) = fst ` set items - set ks"
  by (induction ks arbitrary: items) (auto simp: delete_keys)

lemma delete_many_distinct: "distinct (map fst items) \<Longrightarrow> distinct (map fst (fold AList.delete ks items))"
  by (induction ks arbitrary: items) (simp_all add: distinct_delete)

lemma put_order: "st_order (put_snapshot limit sid rec st) = drop (Suc (length (st_order st)) - limit) (st_order st @ [sid])"
  by (simp add: put_snapshot_def Let_def)

lemma put_lookup:
  assumes "store_ok limit st" and "sid \<notin> set (st_order st)"
  shows "map_of (st_items (put_snapshot limit sid rec st)) j =
    (if j \<in> set (st_order (put_snapshot limit sid rec st)) then (if j = sid then Some rec else map_of (st_items st) j) else None)"
proof -
  let ?order = "st_order st @ [sid]" and ?n = "Suc (length (st_order st)) - limit"
  have d: "distinct ?order" using assms by (simp add: store_ok_def)
  have split: "set (take ?n ?order) \<inter> set (drop ?n ?order) = {}" "set (take ?n ?order) \<union> set (drop ?n ?order) = set ?order"
    using d by (metis append_take_drop_id distinct_append) (metis append_take_drop_id set_append)
  have absent: "map_of (st_items st) j = None" if "j \<notin> set (st_order st)"
    using assms(1) that by (simp add: store_ok_def map_of_eq_None_iff)
  have lookup: "map_of (st_items (put_snapshot limit sid rec st)) j =
      (if j \<in> set (take ?n ?order) then None else if j = sid then Some rec else map_of (st_items st) j)"
    by (auto simp: put_snapshot_def Let_def delete_many_lookup update_conv')
  show ?thesis unfolding lookup put_order using split absent by auto
qed

lemma put_keys:
  assumes "store_ok limit st" and "sid \<notin> set (st_order st)"
  shows "fst ` set (st_items (put_snapshot limit sid rec st)) = set (st_order (put_snapshot limit sid rec st))"
proof -
  let ?order = "st_order st @ [sid]" and ?n = "Suc (length (st_order st)) - limit"
  have d: "distinct ?order" using assms by (simp add: store_ok_def)
  have split: "set (take ?n ?order) \<inter> set (drop ?n ?order) = {}" "set (take ?n ?order) \<union> set (drop ?n ?order) = set ?order"
    using d by (metis append_take_drop_id distinct_append) (metis append_take_drop_id set_append)
  have keys: "fst ` set (AList.update sid rec (st_items st)) = set ?order"
    using assms(1) by (auto simp: store_ok_def dom_update [symmetric] update_keys)
  show ?thesis unfolding put_order using split keys
    by (auto simp: put_snapshot_def Let_def delete_many_keys)
qed

text \<open>A record stored under a fresh identifier keeps the store well formed.\<close>

lemma put_store_ok:
  assumes "store_ok limit st" and "sid \<notin> set (st_order st)" and "0 \<le> seq" "seq \<le> st_seq st" "seq_text sid = rev (dec seq)"
  shows "store_ok limit (put_snapshot limit sid rec st)"
proof -
  let ?st = "put_snapshot limit sid rec st"
  have "distinct (st_order ?st)" using assms unfolding put_order by (simp add: store_ok_def del: drop_append)
  moreover have "distinct (map fst (st_items ?st))"
    using assms by (auto simp: put_snapshot_def Let_def store_ok_def intro: delete_many_distinct distinct_update)
  moreover have "length (st_order ?st) \<le> limit" unfolding put_order by simp
  moreover have "st_seq ?st = st_seq st" by (simp add: put_snapshot_def Let_def)
  moreover have "set (st_order ?st) \<subseteq> insert sid (set (st_order st))"
    unfolding put_order using set_drop_subset [of "Suc (length (st_order st)) - limit" "st_order st @ [sid]"] by auto
  ultimately show ?thesis using assms put_keys [OF assms(1,2)] unfolding store_ok_def by (metis insert_iff subsetD)
qed

text \<open>A token is the text of some random bytes.\<close>

definition hex_token :: "string \<Rightarrow> bool" where
  "hex_token t \<longleftrightarrow> t \<noteq> [] \<and> list_all (\<lambda>c. hex_value c \<noteq> None) t"

lemma hex_char: "hex_value c \<noteq> None \<Longrightarrow> c \<noteq> CHR ''-'' \<and> \<not> py_space c"
  by (auto simp: hex_value_def digit_val_def py_space_def Let_def split: if_split_asm option.split_asm)

lemma token_no_dash: "hex_token t \<Longrightarrow> CHR ''-'' \<notin> set t"
  using hex_char unfolding hex_token_def list_all_iff by blast

lemma id_no_blanks:
  assumes "hex_token token" and "prefix \<noteq> []" and "\<not> py_space (hd prefix)"
  shows "strip (snapshot_id prefix generation seq token) = snapshot_id prefix generation seq token"
  unfolding strip_def
proof (rule strip_with_id, rule disjI2)
  have "last (snapshot_id prefix generation seq token) = last token" using assms(1) by (simp add: snapshot_id_def hex_token_def)
  moreover have "\<not> py_space (last token)" using assms(1) hex_char unfolding hex_token_def list_all_iff by (metis last_in_set)
  ultimately show "\<not> py_space (hd (snapshot_id prefix generation seq token)) \<and> \<not> py_space (last (snapshot_id prefix generation seq token))"
    using assms(2,3) by (simp add: snapshot_id_def)
qed

lemma fresh_id:
  assumes "store_ok limit st" and "hex_token token"
  shows "snapshot_id prefix generation (st_seq st + 1) token \<notin> set (st_order st)"
proof
  let ?sid = "snapshot_id prefix generation (st_seq st + 1) token"
  assume "?sid \<in> set (st_order st)"
  with assms(1) obtain seq where seq: "0 \<le> seq" "seq \<le> st_seq st" "seq_text ?sid = rev (dec seq)" unfolding store_ok_def by blast
  have "0 \<le> st_seq st + 1" using assms(1) by (simp add: store_ok_def)
  from seq_text_id [OF token_no_dash [OF assms(2)] this] seq(3) have "dec seq = dec (st_seq st + 1)" by (metis rev_rev_ident)
  with dec_inj [OF seq(1) \<open>0 \<le> st_seq st + 1\<close>] seq(2) show False by simp
qed

subsection \<open>Bounded logs\<close>

text \<open>What a client of a store relies on, and what follows.\<close>

locale bounded_log =
  fixes put :: "string \<Rightarrow> pydict \<Rightarrow> store \<Rightarrow> store" and ok :: "store \<Rightarrow> bool" and limit :: nat
  assumes positive: "0 < limit"
    and bounded: "ok st \<Longrightarrow> length (st_order st) \<le> limit"
    and order: "st_order (put sid rec st) = drop (Suc (length (st_order st)) - limit) (st_order st @ [sid])"
    and lookup: "ok st \<Longrightarrow> sid \<notin> set (st_order st) \<Longrightarrow> map_of (st_items (put sid rec st)) j =
      (if j \<in> set (st_order (put sid rec st)) then (if j = sid then Some rec else map_of (st_items st) j) else None)"
begin

lemma newest: "ok st \<Longrightarrow> sid \<notin> set (st_order st) \<Longrightarrow> map_of (st_items (put sid rec st)) sid = Some rec"
proof -
  assume a: "ok st" "sid \<notin> set (st_order st)"
  have "Suc (length (st_order st)) - limit \<le> length (st_order st)" using positive by simp
  then have "sid \<in> set (st_order (put sid rec st))" unfolding order by simp
  with lookup [OF a] show ?thesis by simp
qed

text \<open>Only the oldest record is lost, and only when the store was full.\<close>

lemma others:
  assumes "ok st" and "sid \<notin> set (st_order st)" and "j \<in> set (st_order st)"
    and "length (st_order st) < limit \<or> j \<noteq> hd (st_order st)"
  shows "map_of (st_items (put sid rec st)) j = map_of (st_items st) j"
proof -
  have "j \<in> set (st_order (put sid rec st))"
  proof (cases "length (st_order st) < limit")
    case True
    with assms(3) show ?thesis unfolding order by simp
  next
    case False
    with bounded [OF assms(1)] have "Suc (length (st_order st)) - limit = 1" by simp
    with assms(3,4) False show ?thesis unfolding order by (cases "st_order st") auto
  qed
  with lookup [OF assms(1,2)] assms(2,3) show ?thesis by auto
qed

end

interpretation state_log: bounded_log "put_snapshot state_limit" "store_ok state_limit" state_limit
  by unfold_locales (simp add: state_limit_def, simp add: store_ok_def, rule put_order, rule put_lookup)

interpretation memory_log: bounded_log "put_snapshot memory_limit" "store_ok memory_limit" memory_limit
  by unfold_locales (simp add: memory_limit_def, simp add: store_ok_def, rule put_order, rule put_lookup)

subsection \<open>Storing and deleting\<close>

lemma seq_store_ok: "store_ok limit st \<Longrightarrow> store_ok limit (st\<lparr>st_seq := st_seq st + 1\<rparr>)"
  by (force simp: store_ok_def)

lemma store_snapshot_cases:
  assumes "store_snapshot tg limit prefix t token rec st w = (r, st', w')"
  shows "(\<exists>e. r = Inl e \<and> st' = st\<lparr>st_seq := st_seq st + 1\<rparr>)
    \<or> (\<exists>generation owner rec'. int_or (dict_get (tg_identity tg w) ''sessionGeneration'') 0 = Inr generation
        \<and> capture_owner tg t w = (Inr owner, w')
        \<and> r = Inr rec' \<and> rec' = set_default ''owner'' (VDict owner)
            (AList.update ''snapshotId'' (VStr (snapshot_id prefix generation (st_seq st + 1) token)) rec)
        \<and> st' = put_snapshot limit (snapshot_id prefix generation (st_seq st + 1) token) rec' (st\<lparr>st_seq := st_seq st + 1\<rparr>))"
proof -
  obtain r1 w1 where c: "capture_owner tg t w = (r1, w1)" by fastforce
  show ?thesis
    using assms by (cases "int_or (dict_get (tg_identity tg w) ''sessionGeneration'') 0"; cases r1)
      (auto simp: store_snapshot_def Let_def c)
qed

lemma store_snapshot_ok:
  assumes "store_ok limit st" and "hex_token token" and "store_snapshot tg limit prefix t token rec st w = (r, st', w')"
  shows "store_ok limit st'"
  using store_snapshot_cases [OF assms(3)]
proof (elim disjE exE conjE)
  fix generation owner rec'
  let ?st = "st\<lparr>st_seq := st_seq st + 1\<rparr>" and ?sid = "snapshot_id prefix generation (st_seq st + 1) token"
  assume st': "st' = put_snapshot limit ?sid rec' ?st"
  have seq: "0 \<le> st_seq st + 1" using assms(1) by (simp add: store_ok_def)
  have "?sid \<notin> set (st_order ?st)" using fresh_id [OF assms(1,2)] by simp
  from put_store_ok [OF seq_store_ok [OF assms(1)] this seq _ seq_text_id [OF token_no_dash [OF assms(2)] seq]] st'
  show ?thesis by simp
qed (simp add: seq_store_ok assms(1))

lemma delete_snapshot_ok: "store_ok limit st \<Longrightarrow> store_ok limit (snd (delete_snapshot sid st))"
  by (auto simp: delete_snapshot_def Let_def store_ok_def distinct_removeAll delete_keys intro: le_trans [OF length_filter_le])

datatype snapshot_step = Store_step string pydict | Delete_step string

fun step_snapshot :: "'w target \<Rightarrow> nat \<Rightarrow> string \<Rightarrow> bool \<Rightarrow> snapshot_step \<Rightarrow> store \<times> 'w \<Rightarrow> store \<times> 'w" where
  "step_snapshot tg limit prefix t (Store_step token rec) (st, w) = snd (store_snapshot tg limit prefix t token rec st w)"
| "step_snapshot tg limit prefix t (Delete_step sid) (st, w) = (snd (delete_snapshot sid st), w)"

fun step_token :: "snapshot_step \<Rightarrow> bool" where
  "step_token (Store_step token rec) = hex_token token"
| "step_token (Delete_step sid) = True"

definition empty_store :: store where
  "empty_store = \<lparr>st_items = [], st_order = [], st_seq = 0\<rparr>"

text \<open>C5: In every run of storing and deleting, whatever the debugger answers, a snapshot store never holds more
  records than its limit, and lists exactly the records it holds, each once, under a sequence number it has issued.\<close>

theorem snapshots_bounded:
  assumes "list_all step_token steps"
  shows "store_ok limit (fst (fold (step_snapshot tg limit prefix t) steps (empty_store, w)))"
proof -
  have "store_ok limit (fst st) \<Longrightarrow> list_all step_token steps \<Longrightarrow> store_ok limit (fst (fold (step_snapshot tg limit prefix t) steps st))" for st
  proof (induction steps arbitrary: st)
    case (Cons step steps)
    obtain s w where st: "st = (s, w)" by (cases st)
    have "store_ok limit (fst (step_snapshot tg limit prefix t step st))"
    proof (cases step)
      case (Store_step token rec)
      obtain r s' w' where run: "store_snapshot tg limit prefix t token rec s w = (r, s', w')" by (metis prod_cases3)
      with store_snapshot_ok [OF _ _ run] Cons.prems st Store_step show ?thesis by simp
    qed (use Cons.prems st delete_snapshot_ok in simp)
    with Cons.IH Cons.prems show ?case by simp
  qed simp
  moreover have "store_ok limit empty_store" by (simp add: store_ok_def empty_store_def)
  ultimately show ?thesis using assms by simp
qed

lemma stored_readable:
  assumes "store_ok state_limit st" and "hex_token token" and "store_state_snapshot tg token rec st w = (Inr rec', st', w')"
  shows "\<exists>sid owner. dict_get rec' ''snapshotId'' = VStr sid \<and> get_snapshot sid st' = Some rec' \<and> sid \<notin> set (st_order st)
    \<and> rec' = set_default ''owner'' (VDict owner) (AList.update ''snapshotId'' (VStr sid) rec)
    \<and> st' = put_snapshot state_limit sid rec' (st\<lparr>st_seq := st_seq st + 1\<rparr>)"
proof -
  let ?st = "st\<lparr>st_seq := st_seq st + 1\<rparr>"
  obtain generation owner where rec': "rec' = set_default ''owner'' (VDict owner)
      (AList.update ''snapshotId'' (VStr (snapshot_id ''state'' generation (st_seq st + 1) token)) rec)"
    and st': "st' = put_snapshot state_limit (snapshot_id ''state'' generation (st_seq st + 1) token) rec' ?st"
    using store_snapshot_cases [OF assms(3) [unfolded store_state_snapshot_def]] by auto
  let ?sid = "snapshot_id ''state'' generation (st_seq st + 1) token"
  have fresh: "?sid \<notin> set (st_order ?st)" using fresh_id [OF assms(1,2)] by simp
  have "strip ?sid = ?sid" by (rule id_no_blanks [OF assms(2)]) (simp, code_simp)
  then have "get_snapshot ?sid st' = Some rec'"
    unfolding get_snapshot_def st' using state_log.newest [OF seq_store_ok [OF assms(1)] fresh] by simp
  moreover have "dict_get rec' ''snapshotId'' = VStr ?sid" unfolding rec' set_default_def by simp
  ultimately show ?thesis using fresh rec' st' by (intro exI [of _ ?sid] exI [of _ owner]) simp
qed

text \<open>A stored snapshot can be read under the identifier it was given, and storing it loses no other one but the
  oldest of a full store.\<close>

lemma stored_snapshot_readable:
  assumes "store_ok state_limit st" and "hex_token token" and "store_state_snapshot tg token rec st w = (Inr rec', st', w')"
  shows "\<exists>sid. dict_get rec' ''snapshotId'' = VStr sid \<and> get_snapshot sid st' = Some rec' \<and> sid \<notin> set (st_order st)
    \<and> (\<forall>j \<in> set (st_order st). length (st_order st) < state_limit \<or> j \<noteq> hd (st_order st) \<longrightarrow>
          map_of (st_items st') j = map_of (st_items st) j)"
proof -
  obtain sid where sid: "dict_get rec' ''snapshotId'' = VStr sid" "get_snapshot sid st' = Some rec'" "sid \<notin> set (st_order st)"
    "st' = put_snapshot state_limit sid rec' (st\<lparr>st_seq := st_seq st + 1\<rparr>)"
    using stored_readable [OF assms] by blast
  have "map_of (st_items st') j = map_of (st_items st) j"
    if "j \<in> set (st_order st)" "length (st_order st) < state_limit \<or> j \<noteq> hd (st_order st)" for j
    using state_log.others [OF seq_store_ok [OF assms(1)], of sid j] that sid(3,4) by simp
  with sid(1-3) show ?thesis by blast
qed

end
