(* ===== verification/StateRestoreProps.thy ===== *)
theory StateRestoreProps
  imports StateRestore SnapshotProps "HOL-Library.Multiset"
begin

text \<open>
  The restore is a transaction. The debugger is honest when a read shows its memory and registers and
  a write changes nothing but the bytes or the register it names; it may refuse any request, and a
  refused write may have changed some of its bytes. For such a debugger a restore that reports
  \<open>rolled_back\<close> has changed nothing, and one that reports \<open>committed\<close> has brought back what was saved.
\<close>

subsection \<open>Hexadecimal text\<close>

lemma hex_value_not_blank: "hex_value c \<noteq> None \<Longrightarrow> \<not> hex_blank c"
  by (auto simp: hex_value_def digit_val_def hex_blank_def Let_def split: if_split_asm option.split_asm)

lemma from_hex_total:
  "list_all (\<lambda>c. hex_value c \<noteq> None) s \<Longrightarrow> even (length s) \<Longrightarrow> \<exists>bs. from_hex s = Some bs \<and> length bs = length s div 2"
proof (induction s rule: induct_list012)
  case (3 c d s)
  then obtain bs where "from_hex s = Some bs" "length bs = length s div 2" by auto
  with 3 hex_value_not_blank [of c] show ?case by (auto split: option.split)
qed auto

lemma from_hex_length: "from_hex s = Some bs \<Longrightarrow> list_all (\<lambda>c. \<not> hex_blank c) s \<Longrightarrow> length s = 2 * length bs"
  by (induction s arbitrary: bs rule: from_hex.induct) (auto split: list.split_asm option.split_asm)

subsection \<open>Memory\<close>

type_synonym memory = "int \<Rightarrow> nat"

definition overwrite :: "memory \<Rightarrow> int \<Rightarrow> nat list \<Rightarrow> memory" where
  "overwrite m a bs = (\<lambda>i. if a \<le> i \<and> i < a + int (length bs) then bs ! nat (i - a) else m i)"

definition bytes_at :: "memory \<Rightarrow> int \<Rightarrow> nat \<Rightarrow> nat list" where
  "bytes_at m a n = map (\<lambda>k. m (a + int k)) [0..<n]"

lemma bytes_at_length [simp]: "length (bytes_at m a n) = n"
  by (simp add: bytes_at_def)

lemma overwrite_same: "overwrite m a (bytes_at m0 a n) i = (if a \<le> i \<and> i < a + int n then m0 i else m i)"
  by (auto simp: overwrite_def bytes_at_def nat_less_iff)

lemma overwrite_outside: "\<not> (a \<le> i \<and> i < a + int (length bs)) \<Longrightarrow> overwrite m a bs i = m i"
  by (auto simp: overwrite_def)

text \<open>A literal such as \<open>0x401000\<close>, and the number it stands for.\<close>

definition literal_value :: "string \<Rightarrow> int" where
  "literal_value t = (case int0 t of Some i \<Rightarrow> i | None \<Rightarrow> 0)"

definition span :: "(string \<times> string) list \<Rightarrow> int set" where
  "span rs = (\<Union>(a, h) \<in> set rs. {literal_value a ..< literal_value a + int (length h div 2)})"

lemma span_simps [simp]:
  "span [] = {}" "span ((a, h) # rs) = {literal_value a ..< literal_value a + int (length h div 2)} \<union> span rs"
  by (auto simp: span_def)

lemma span_rev [simp]: "span (rev rs) = span rs"
  by (simp add: span_def)

lemma hex_literal_strip: "hex_literal t \<Longrightarrow> strip t = t"
proof -
  assume t: "hex_literal t"
  have "\<not> py_space c" if "c \<in> set t" for c
    using t that hex_char [of c] by (auto simp: hex_literal_def all_hex_def list_all_iff py_space_def split: list.split_asm)
  then show ?thesis unfolding strip_def by (intro strip_with_none) (simp add: list_all_iff)
qed

subsection \<open>An honest debugger\<close>

text \<open>
  What the restore relies on of the bridge, for a debuggee that stays paused. An address is any expression
  the debugger evaluates (\<open>esp\<close>, \<open>[rbp+0x20]\<close>, \<open>module!func\<close>), so what it stands for depends on the state
  of the debuggee; only a literal stands for itself. The reply to a read names the address it has read as
  a literal. The registers \<open>R\<close> are those of the debuggee's architecture that a snapshot
  records (\<open>eax\<close> to \<open>eflags\<close>, or \<open>rax\<close> to \<open>eflags\<close>); of any other name, such as the aliases \<open>cax\<close> and \<open>ax\<close>,
  nothing is said. A mutation that was refused says so, and may have changed some of the bytes, or the
  register, it names.
\<close>

definition says_refused :: "pyval outcome \<Rightarrow> bool" where
  "says_refused r =
     (case r of
        Inl e \<Rightarrow> True
      | Inr (VDict d) \<Rightarrow> dict_get d ''ok'' = VBool False \<or> dict_get d ''success'' = VBool False
      | Inr v \<Rightarrow> list_ex (starts_with (casefold (strip (text_of v)))) [''error'', ''request failed''])"

definition same_registers :: "string set \<Rightarrow> (string \<Rightarrow> int) \<Rightarrow> (string \<Rightarrow> int) \<Rightarrow> bool" where
  "same_registers R g g' \<longleftrightarrow> (\<forall>n \<in> R. g' n = g n)"

definition honest_write ::
  "'w target \<Rightarrow> string set \<Rightarrow> ('w \<Rightarrow> memory) \<Rightarrow> ('w \<Rightarrow> string \<Rightarrow> int) \<Rightarrow> ('w \<Rightarrow> string \<Rightarrow> int) \<Rightarrow> bool" where
  "honest_write tg R mem regs resolve \<longleftrightarrow>
     (\<forall>a h w r w' bs. from_hex h = Some bs \<and> tg_write tg a h w = (r, w') \<longrightarrow>
        same_registers R (regs w) (regs w')
        \<and> (\<exists>bs'. length bs' = length bs \<and> mem w' = overwrite (mem w) (resolve w a) bs')
        \<and> (\<not> says_refused r \<longrightarrow> mem w' = overwrite (mem w) (resolve w a) bs))"

definition honest_read ::
  "'w target \<Rightarrow> string set \<Rightarrow> ('w \<Rightarrow> memory) \<Rightarrow> ('w \<Rightarrow> string \<Rightarrow> int) \<Rightarrow> ('w \<Rightarrow> string \<Rightarrow> int) \<Rightarrow> bool" where
  "honest_read tg R mem regs resolve \<longleftrightarrow>
     (\<forall>a n w r w'. tg_read tg a n w = (r, w') \<longrightarrow>
        mem w' = mem w \<and> same_registers R (regs w) (regs w')
        \<and> (\<forall>d. r = Inr d \<and> truthy (dict_get d ''ok'') \<longrightarrow>
             (\<exists>t h k. dict_get d ''addr'' = VStr t \<and> hex_literal t \<and> literal_value t = resolve w a \<and> dict_get d ''hex'' = VStr h
                \<and> list_all (\<lambda>c. hex_value c \<noteq> None) h \<and> from_hex h = Some (bytes_at (mem w) (resolve w a) k))))"

definition honest_set ::
  "'w target \<Rightarrow> string set \<Rightarrow> ('w \<Rightarrow> memory) \<Rightarrow> ('w \<Rightarrow> string \<Rightarrow> int) \<Rightarrow> bool" where
  "honest_set tg R mem regs \<longleftrightarrow>
     (\<forall>name v w r w'. name \<in> R \<and> tg_set_register tg name v w = (r, w') \<longrightarrow>
        mem w' = mem w \<and> same_registers (R - {name}) (regs w) (regs w')
        \<and> (\<forall>t. v = VStr t \<and> hex_literal t \<and> \<not> says_refused r \<longrightarrow> regs w' name = literal_value t))"

text \<open>A register is shown as a hexadecimal literal, as a text or in a field of a dictionary; anything else
  is an error text.\<close>

definition says_text :: "pyval \<Rightarrow> string \<Rightarrow> bool" where
  "says_text v t \<longleftrightarrow>
     (case v of
        VDict d \<Rightarrow> dict_get d ''value'' \<in> {VNone, VStr t} \<and> dict_get d ''result'' \<in> {VNone, VStr t}
      | _ \<Rightarrow> v = VStr t)"

definition honest_get ::
  "'w target \<Rightarrow> string set \<Rightarrow> ('w \<Rightarrow> memory) \<Rightarrow> ('w \<Rightarrow> string \<Rightarrow> int) \<Rightarrow> bool" where
  "honest_get tg R mem regs \<longleftrightarrow>
     (\<forall>name w r w'. name \<in> R \<and> tg_get_register tg name w = (r, w') \<longrightarrow>
        mem w' = mem w \<and> same_registers R (regs w) (regs w')
        \<and> (\<forall>v. r = Inr v \<longrightarrow> (\<exists>t. says_text v t
             \<and> (hex_literal t \<and> literal_value t = regs w name \<or> \<not> starts_with t ''0x'' \<and> \<not> hex_literal (strip t)))))"

definition honest_rest ::
  "'w target \<Rightarrow> string set \<Rightarrow> ('w \<Rightarrow> memory) \<Rightarrow> ('w \<Rightarrow> string \<Rightarrow> int) \<Rightarrow> ('w \<Rightarrow> string \<Rightarrow> int) \<Rightarrow> bool" where
  "honest_rest tg R mem regs resolve \<longleftrightarrow>
     (\<forall>w. mem (snd (tg_state tg w)) = mem w \<and> same_registers R (regs w) (regs (snd (tg_state tg w)))
        \<and> mem (snd (tg_refresh tg w)) = mem w \<and> same_registers R (regs w) (regs (snd (tg_refresh tg w)))
        \<and> set (debuggee_registers tg w) = R \<and> (\<forall>t. hex_literal t \<longrightarrow> resolve w t = literal_value t))"

definition honest ::
  "'w target \<Rightarrow> string set \<Rightarrow> ('w \<Rightarrow> memory) \<Rightarrow> ('w \<Rightarrow> string \<Rightarrow> int) \<Rightarrow> ('w \<Rightarrow> string \<Rightarrow> int) \<Rightarrow> bool" where
  "honest tg R mem regs resolve \<longleftrightarrow> honest_write tg R mem regs resolve \<and> honest_read tg R mem regs resolve
     \<and> honest_set tg R mem regs \<and> honest_get tg R mem regs \<and> honest_rest tg R mem regs resolve"

text \<open>The registers of \<open>R\<close> as one value, so that a chain of steps is a chain of equations.\<close>

definition vis :: "string set \<Rightarrow> ('w \<Rightarrow> string \<Rightarrow> int) \<Rightarrow> 'w \<Rightarrow> string \<Rightarrow> int" where
  "vis R regs w = (\<lambda>n. if n \<in> R then regs w n else 0)"

lemma vis_eq: "vis R regs w' = vis R regs w \<longleftrightarrow> same_registers R (regs w) (regs w')"
  by (auto simp: vis_def same_registers_def fun_eq_iff)

lemma vis_other: "same_registers (R - {name}) (regs w) (regs w') \<Longrightarrow> n \<noteq> name \<Longrightarrow> vis R regs w' n = vis R regs w n"
  by (simp add: vis_def same_registers_def)

lemma vis_at: "n \<in> R \<Longrightarrow> vis R regs w n = regs w n"
  by (simp add: vis_def)

definition taken :: "pyval outcome \<Rightarrow> bool" where
  "taken r \<longleftrightarrow> (case r of Inr v \<Rightarrow> fst (mutation_result_ok v) | Inl _ \<Rightarrow> False)"

lemma taken_not_refused:
  assumes "taken r"
  shows "\<not> says_refused r"
proof (cases r)
  case (Inr v)
  have ok: "fst (mutation_result_ok v)" using assms Inr by (simp add: taken_def)
  show ?thesis
  proof (cases v)
    case (VDict d)
    have "\<not> (dict_get d ''ok'' = VBool False \<or> dict_get d ''success'' = VBool False)"
    proof
      assume "dict_get d ''ok'' = VBool False \<or> dict_get d ''success'' = VBool False"
      with ok show False unfolding VDict mutation_result_ok_def by (cases "dict_get d ''error''") simp_all
    qed
    then show ?thesis unfolding Inr VDict says_refused_def by simp
  qed (use ok Inr in \<open>simp_all add: mutation_result_ok_def says_refused_def Let_def split: if_split_asm\<close>)
qed (use assms in \<open>simp add: taken_def\<close>)

lemma writeD:
  assumes h: "honest tg R mem regs resolve" and lit: "hex_literal a" and bs: "from_hex h = Some bs" "tg_write tg a h w = (r, w')"
  shows "vis R regs w' = vis R regs w" and "\<exists>bs'. length bs' = length bs \<and> mem w' = overwrite (mem w) (literal_value a) bs'"
    and "taken r \<Longrightarrow> mem w' = overwrite (mem w) (literal_value a) bs"
proof -
  have a: "resolve w a = literal_value a" using h lit unfolding honest_def honest_rest_def by blast
  have "same_registers R (regs w) (regs w') \<and> (\<exists>bs'. length bs' = length bs \<and> mem w' = overwrite (mem w) (resolve w a) bs')
      \<and> (\<not> says_refused r \<longrightarrow> mem w' = overwrite (mem w) (resolve w a) bs)"
    using h bs unfolding honest_def honest_write_def by blast
  then show "vis R regs w' = vis R regs w" "\<exists>bs'. length bs' = length bs \<and> mem w' = overwrite (mem w) (literal_value a) bs'"
    "taken r \<Longrightarrow> mem w' = overwrite (mem w) (literal_value a) bs"
    unfolding a vis_eq using taken_not_refused by blast+
qed

lemma readD:
  assumes h: "honest tg R mem regs resolve" and run: "tg_read tg a n w = (r, w')"
  shows "mem w' = mem w" and "vis R regs w' = vis R regs w"
    and "r = Inr d \<Longrightarrow> truthy (dict_get d ''ok'') \<Longrightarrow>
      \<exists>t h k. dict_get d ''addr'' = VStr t \<and> hex_literal t \<and> (hex_literal a \<longrightarrow> literal_value t = literal_value a) \<and> dict_get d ''hex'' = VStr h
                \<and> list_all (\<lambda>c. hex_value c \<noteq> None) h \<and> from_hex h = Some (bytes_at (mem w) (literal_value t) k)"
proof -
  have a: "hex_literal a \<longrightarrow> resolve w a = literal_value a" using h unfolding honest_def honest_rest_def by blast
  have rd: "honest_read tg R mem regs resolve" using h unfolding honest_def by blast
  show "mem w' = mem w" "vis R regs w' = vis R regs w" using rd run unfolding honest_read_def vis_eq by blast+
  assume "r = Inr d" "truthy (dict_get d ''ok'')"
  with rd run obtain t h k where t: "dict_get d ''addr'' = VStr t" "hex_literal t" "literal_value t = resolve w a" "dict_get d ''hex'' = VStr h"
    "list_all (\<lambda>c. hex_value c \<noteq> None) h" "from_hex h = Some (bytes_at (mem w) (resolve w a) k)" unfolding honest_read_def by blast
  show "\<exists>t h k. dict_get d ''addr'' = VStr t \<and> hex_literal t \<and> (hex_literal a \<longrightarrow> literal_value t = literal_value a) \<and> dict_get d ''hex'' = VStr h
                \<and> list_all (\<lambda>c. hex_value c \<noteq> None) h \<and> from_hex h = Some (bytes_at (mem w) (literal_value t) k)"
    by (rule exI [of _ t], rule exI [of _ h], rule exI [of _ k]) (use t a in simp)
qed

lemma setD:
  assumes h: "honest tg R mem regs resolve" and name: "name \<in> R" and run: "tg_set_register tg name v w = (r, w')"
  shows "mem w' = mem w" and "n \<noteq> name \<Longrightarrow> vis R regs w' n = vis R regs w n"
    and "taken r \<Longrightarrow> v = VStr t \<Longrightarrow> hex_literal t \<Longrightarrow> vis R regs w' name = literal_value t"
proof -
  have "honest_set tg R mem regs" using h by (simp add: honest_def)
  then have k: "mem w' = mem w" "same_registers (R - {name}) (regs w) (regs w')"
    "\<And>t. v = VStr t \<Longrightarrow> hex_literal t \<Longrightarrow> \<not> says_refused r \<Longrightarrow> regs w' name = literal_value t"
    using name run unfolding honest_set_def by blast+
  show "mem w' = mem w" by (rule k(1))
  show "n \<noteq> name \<Longrightarrow> vis R regs w' n = vis R regs w n" by (rule vis_other [OF k(2)])
  show "vis R regs w' name = literal_value t" if "taken r" "v = VStr t" "hex_literal t"
    using k(3) [OF that(2,3) taken_not_refused [OF that(1)]] name by (simp add: vis_def)
qed

lemma getD:
  assumes "honest tg R mem regs resolve" and "name \<in> R" and "tg_get_register tg name w = (r, w')"
  shows "mem w' = mem w" and "vis R regs w' = vis R regs w"
    and "r = Inr v \<Longrightarrow> \<exists>t. says_text v t
       \<and> (hex_literal t \<and> literal_value t = vis R regs w name \<or> \<not> starts_with t ''0x'' \<and> \<not> hex_literal (strip t))"
  using assms unfolding honest_def honest_get_def vis_eq vis_at [OF assms(2)] by blast+

lemma restD:
  assumes "honest tg R mem regs resolve"
  shows "mem (snd (tg_state tg w)) = mem w" "vis R regs (snd (tg_state tg w)) = vis R regs w"
    "mem (snd (tg_refresh tg w)) = mem w" "vis R regs (snd (tg_refresh tg w)) = vis R regs w"
    "set (debuggee_registers tg w) = R"
  using assms unfolding honest_def honest_rest_def vis_eq by blast+

subsection \<open>Capturing changes nothing\<close>

lemma no_blanks_hex: "list_all (\<lambda>c. hex_value c \<noteq> None) h \<Longrightarrow> no_blanks h = h"
  unfolding no_blanks_def filter_id_conv list_all_iff using hex_char by blast

lemma capture_owner_keeps:
  assumes "honest tg R mem regs resolve" and "capture_owner tg t w = (r, w')"
  shows "mem w' = mem w" and "vis R regs w' = vis R regs w"
proof -
  have "w' = w \<or> w' = snd (tg_refresh tg w)"
    using assms(2) unfolding capture_owner_def Let_def
    by (auto split: prod.split_asm option.split_asm pyval.split_asm sum.split_asm if_split_asm)
  then show "mem w' = mem w" "vis R regs w' = vis R regs w" using restD [OF assms(1)] by auto
qed

lemma owner_match_keeps:
  assumes "honest tg R mem regs resolve" and "snapshot_owner_match tg v t w = (r, w')"
  shows "mem w' = mem w" and "vis R regs w' = vis R regs w"
proof -
  obtain r1 w1 where c: "capture_owner tg t w = (r1, w1)" by fastforce
  with assms(2) have "w' = w1" by (cases r1) (simp_all add: snapshot_owner_match_def Let_def)
  with capture_owner_keeps [OF assms(1) c] show "mem w' = mem w" "vis R regs w' = vis R regs w" by simp_all
qed

text \<open>A captured range holds the bytes of a memory.\<close>

definition shows_bytes :: "memory \<Rightarrow> string \<times> string \<Rightarrow> bool" where
  "shows_bytes m entry \<longleftrightarrow> hex_literal (fst entry) \<and> from_hex (snd entry) = Some (bytes_at m (literal_value (fst entry)) (length (snd entry) div 2))"

definition captured :: "memory \<Rightarrow> prepared_range \<Rightarrow> string \<times> string \<Rightarrow> bool" where
  "captured m r entry \<longleftrightarrow> fst entry = pr_addr r \<and> length (snd entry) = length (pr_hex r) \<and> shows_bytes m entry"

definition wf_range :: "prepared_range \<Rightarrow> bool" where
  "wf_range r \<longleftrightarrow> list_all (\<lambda>c. hex_value c \<noteq> None) (pr_hex r) \<and> even (length (pr_hex r))"

definition lit_range :: "prepared_range \<Rightarrow> bool" where
  "lit_range r \<longleftrightarrow> wf_range r \<and> hex_literal (pr_addr r)"

lemma capture_ranges_keeps:
  assumes "honest tg R mem regs resolve"
  shows "capture_ranges tg rs w = (r, w') \<Longrightarrow> mem w' = mem w \<and> vis R regs w' = vis R regs w
    \<and> (\<forall>olds. r = Inr (Inr olds) \<and> list_all lit_range rs \<longrightarrow> list_all2 (captured (mem w)) rs olds)"
proof (induction rs arbitrary: w r w')
  case (Cons x rs)
  obtain r1 w1 where rd: "tg_read tg (pr_addr x) (range_size x) w = (r1, w1)" by fastforce
  note k1 = readD(1,2) [OF assms rd]
  show ?case
  proof (cases r1)
    case (Inl e)
    with Cons.prems rd k1 show ?thesis by auto
  next
    case (Inr d)
    let ?live = "no_blanks (text_of (dict_get d ''hex''))"
    show ?thesis
    proof (cases "\<not> truthy (dict_get d ''ok'') \<or> int (length ?live) \<noteq> range_size x * 2")
      case True
      with Cons.prems rd Inr k1 show ?thesis by (auto simp: Let_def)
    next
      case False
      obtain r2 w2 where rest: "capture_ranges tg rs w1 = (r2, w2)" by fastforce
      note IH = Cons.IH [OF rest]
      have w2: "mem w' = mem w \<and> vis R regs w' = vis R regs w"
        using Cons.prems rd Inr False rest IH k1 by (auto simp: Let_def split: sum.split_asm)
      have "list_all2 (captured (mem w)) (x # rs) olds" if o: "r = Inr (Inr olds)" and wf: "list_all lit_range (x # rs)" for olds
      proof -
        from o Cons.prems rd Inr False rest obtain olds' where olds: "r2 = Inr (Inr olds')" "olds = (pr_addr x, ?live) # olds'"
          by (auto simp: Let_def split: sum.split_asm)
        have lit: "hex_literal (pr_addr x)" using wf by (simp add: lit_range_def)
        with readD(3) [OF assms rd Inr] False obtain h k where h: "dict_get d ''hex'' = VStr h"
          "list_all (\<lambda>c. hex_value c \<noteq> None) h" "from_hex h = Some (bytes_at (mem w) (literal_value (pr_addr x)) k)" by metis
        then have live: "?live = h" by (simp add: text_of_def str_or_empty_def py_or_def no_blanks_hex)
        have "length h = 2 * k" using from_hex_length [OF h(3)] h(2) hex_value_not_blank by (auto simp: list_all_iff)
        moreover have "int (length h) = range_size x * 2" using False live by simp
        ultimately have "length h = length (pr_hex x)" "length h div 2 = k"
          using wf by (auto simp: range_size_def lit_range_def wf_range_def elim: evenE)
        with h live lit have "captured (mem w) x (pr_addr x, ?live)" by (simp add: captured_def shows_bytes_def)
        with IH olds wf k1 show ?thesis by simp
      qed
      with w2 show ?thesis by blast
    qed
  qed
qed simp

definition shows_register :: "(string \<Rightarrow> int) \<Rightarrow> string \<times> string \<Rightarrow> bool" where
  "shows_register g entry \<longleftrightarrow> hex_literal (snd entry) \<and> literal_value (snd entry) = g (fst entry)"

lemma says_text_read:
  "says_text v t \<Longrightarrow> text_of (case v of VDict d \<Rightarrow> dict_get_default d ''value'' (dict_get d ''result'') | _ \<Rightarrow> v) \<in> {[], t}"
  by (cases v) (auto simp: says_text_def dict_get_default_def dict_get_def text_of_def str_or_empty_def py_or_def split: option.splits)

lemma says_text_saved:
  "says_text v t \<Longrightarrow> text_of (case v of VDict d \<Rightarrow> py_or (dict_get d ''result'') (py_or (dict_get d ''value'') (VStr [])) | _ \<Rightarrow> v) \<in> {[], t}"
  by (cases v) (auto simp: says_text_def text_of_def str_or_empty_def py_or_def)

lemma not_literal_Nil: "\<not> hex_literal (strip [])"
  by code_simp

lemma live_register_text:
  "live_register v = Some t \<Longrightarrow>
     t = strip (text_of (case v of VDict d \<Rightarrow> dict_get_default d ''value'' (dict_get d ''result'') | _ \<Rightarrow> v)) \<and> hex_literal t"
  by (cases v) (auto simp: live_register_def Let_def split: if_split_asm)

lemma live_register_honest:
  assumes "honest tg R mem regs resolve" and "name \<in> R" and "tg_get_register tg name w = (Inr v, w')" and "live_register v = Some t"
  shows "hex_literal t \<and> literal_value t = vis R regs w name"
proof -
  from getD(3) [OF assms(1,2,3)] obtain t0 where v: "says_text v t0"
    and alt: "hex_literal t0 \<and> literal_value t0 = vis R regs w name \<or> \<not> starts_with t0 ''0x'' \<and> \<not> hex_literal (strip t0)" by blast
  note l = live_register_text [OF assms(4)]
  with says_text_read [OF v] not_literal_Nil have "t = strip t0" "hex_literal t" by auto
  with alt hex_literal_strip show ?thesis by auto
qed

lemma capture_registers_keeps:
  assumes "honest tg R mem regs resolve"
  shows "set names \<subseteq> R \<Longrightarrow> capture_registers tg names w = (r, w') \<Longrightarrow> mem w' = mem w \<and> vis R regs w' = vis R regs w
    \<and> (\<forall>olds. r = Inr (Inr olds) \<longrightarrow> map fst olds = names \<and> list_all (shows_register (vis R regs w)) olds)"
proof (induction names arbitrary: w r w')
  case (Cons name names)
  obtain r1 w1 where g: "tg_get_register tg name w = (r1, w1)" by fastforce
  have name: "name \<in> R" "set names \<subseteq> R" using Cons.prems(1) by simp_all
  note k1 = getD(1,2) [OF assms name(1) g]
  show ?case
  proof (cases r1)
    case (Inl e)
    with Cons.prems(2) g k1 show ?thesis by auto
  next
    case (Inr v)
    show ?thesis
    proof (cases "live_register v")
      case None
      with Cons.prems(2) g Inr k1 show ?thesis by auto
    next
      case (Some t)
      obtain r2 w2 where rest: "capture_registers tg names w1 = (r2, w2)" by fastforce
      have t: "shows_register (vis R regs w) (name, t)"
        using live_register_honest [OF assms name(1) g [unfolded Inr] Some] by (simp add: shows_register_def)
      from Cons.IH [OF name(2) rest] Cons.prems(2) g Inr Some rest k1 t show ?thesis by (auto split: sum.split_asm)
    qed
  qed
qed simp

subsection \<open>Writing and undoing\<close>

lemma write_range_keeps:
  assumes h: "honest tg R mem regs resolve" and "lit_range r" and "write_range tg r w = (f, w')"
  shows "vis R regs w' = vis R regs w" and "i \<notin> {literal_value (pr_addr r) ..< literal_value (pr_addr r) + int (length (pr_hex r) div 2)} \<Longrightarrow> mem w' i = mem w i"
    and "f = None \<Longrightarrow> \<exists>bs. from_hex (pr_hex r) = Some bs \<and> mem w' = overwrite (mem w) (literal_value (pr_addr r)) bs"
proof -
  obtain bs where bs: "from_hex (pr_hex r) = Some bs" "length bs = length (pr_hex r) div 2"
    using from_hex_total assms(2) unfolding lit_range_def wf_range_def by blast
  have lit: "hex_literal (pr_addr r)" using assms(2) by (simp add: lit_range_def)
  obtain r1 w1 where wr: "tg_write tg (pr_addr r) (pr_hex r) w = (r1, w1)" by fastforce
  note k1 = writeD [OF h lit bs(1) wr]
  obtain r2 w2 where rd: "tg_read tg (pr_addr r) (range_size r) w1 = (r2, w2)" by fastforce
  note k2 = readD(1,2) [OF h rd]
  have w': "w' = w1 \<or> w' = w2" and f: "f = None \<Longrightarrow> taken r1"
    using assms(3) wr rd unfolding write_range_def Let_def taken_def by (auto split: sum.split_asm if_split_asm)
  have same: "mem w' = mem w1" "vis R regs w' = vis R regs w1" using w' k2 by auto
  show "vis R regs w' = vis R regs w" using same k1(1) by simp
  show "mem w' i = mem w i" if "i \<notin> {literal_value (pr_addr r) ..< literal_value (pr_addr r) + int (length (pr_hex r) div 2)}"
    using k1(2) bs(2) that same overwrite_outside by auto
  show "\<exists>bs. from_hex (pr_hex r) = Some bs \<and> mem w' = overwrite (mem w) (literal_value (pr_addr r)) bs" if "f = None"
    using k1(3) [OF f [OF that]] bs(1) same by auto
qed

definition entries_of :: "prepared_range list \<Rightarrow> (string \<times> string) list" where
  "entries_of rs = map (\<lambda>r. (pr_addr r, pr_hex r)) rs"

lemma write_ranges_keeps:
  assumes h: "honest tg R mem regs resolve"
  shows "list_all lit_range rs \<Longrightarrow> write_ranges tg rs w = (done', f, steps, w') \<Longrightarrow>
    vis R regs w' = vis R regs w \<and> (\<forall>i. i \<notin> span (entries_of rs) \<longrightarrow> mem w' i = mem w i)"
proof (induction rs arbitrary: w done' f steps w')
  case (Cons r rs)
  obtain f1 w1 where one: "write_range tg r w = (f1, w1)" by fastforce
  have wf: "lit_range r" using Cons.prems(1) by simp
  note k1 = write_range_keeps [OF h wf one]
  show ?case
  proof (cases f1)
    case (Some x)
    with Cons.prems(2) one k1 show ?thesis by (cases x) (simp add: entries_of_def)
  next
    case None
    obtain d2 f2 s2 w2 where rest: "write_ranges tg rs w1 = (d2, f2, s2, w2)" by (metis prod_cases4)
    with Cons.IH [OF _ rest] Cons.prems one None k1 show ?thesis by (auto simp: entries_of_def)
  qed
qed simp

lemma write_register_keeps:
  assumes h: "honest tg R mem regs resolve" and name: "name \<in> R" and run: "write_register tg name v w = (f, w')"
  shows "mem w' = mem w" and "n \<noteq> name \<Longrightarrow> vis R regs w' n = vis R regs w n"
    and "f = None \<Longrightarrow> v = VStr t \<Longrightarrow> hex_literal t \<Longrightarrow> vis R regs w' name = literal_value t"
proof -
  obtain r1 w1 where wr: "tg_set_register tg name v w = (r1, w1)" by fastforce
  note k1 = setD [OF h name wr]
  obtain r2 w2 where rd: "tg_get_register tg name w1 = (r2, w2)" by fastforce
  note k2 = getD(1,2) [OF h name rd]
  have w': "w' = w1 \<or> w' = w2" and f: "f = None \<Longrightarrow> taken r1"
    using run wr rd unfolding write_register_def Let_def taken_def by (auto split: sum.split_asm if_split_asm option.split_asm)
  have same: "mem w' = mem w1" "vis R regs w' = vis R regs w1" using w' k2 by auto
  show "mem w' = mem w" "n \<noteq> name \<Longrightarrow> vis R regs w' n = vis R regs w n" "f = None \<Longrightarrow> v = VStr t \<Longrightarrow> hex_literal t \<Longrightarrow> vis R regs w' name = literal_value t"
    using same k1 f by auto
qed

lemma write_registers_keeps:
  assumes h: "honest tg R mem regs resolve"
  shows "fst ` set rs \<subseteq> R \<Longrightarrow> write_registers tg rs w = (done', f, steps, w') \<Longrightarrow> mem w' = mem w \<and> (\<forall>n. n \<notin> fst ` set rs \<longrightarrow> vis R regs w' n = vis R regs w n)"
proof (induction rs arbitrary: w done' f steps w')
  case (Cons x rs)
  obtain name v where x: "x = (name, v)" by (cases x)
  obtain f1 w1 where one: "write_register tg name v w = (f1, w1)" by fastforce
  have name: "name \<in> R" "fst ` set rs \<subseteq> R" using Cons.prems(1) x by simp_all
  note k1 = write_register_keeps [OF h name(1) one]
  show ?case
  proof (cases f1)
    case (Some y)
    with Cons.prems(2) one k1 x show ?thesis by (cases y) simp
  next
    case None
    obtain d2 f2 s2 w2 where rest: "write_registers tg rs w1 = (d2, f2, s2, w2)" by (metis prod_cases4)
    with Cons.IH [OF name(2) rest] Cons.prems(2) one None k1 x show ?thesis by auto
  qed
qed simp

lemma all_ok_Cons: "all_ok (e # es) \<longleftrightarrow> truthy (dict_get e ''ok'') \<and> all_ok es"
  by (simp add: all_ok_def)

lemma undo_ranges_restores:
  assumes h: "honest tg R mem regs resolve"
  shows "list_all (shows_bytes m0) rs \<Longrightarrow> undo_ranges tg rs w = (entries, steps, w') \<Longrightarrow>
    vis R regs w' = vis R regs w \<and> (\<forall>i. i \<notin> span rs \<longrightarrow> mem w' i = mem w i) \<and> (all_ok entries \<longrightarrow> (\<forall>i \<in> span rs. mem w' i = m0 i))"
proof (induction rs arbitrary: w entries steps w')
  case (Cons x rs)
  obtain a hx where x: "x = (a, hx)" by (cases x)
  obtain r1 w1 where wr: "tg_write tg a hx w = (r1, w1)" by fastforce
  obtain e2 s2 w2 where rest: "undo_ranges tg rs w1 = (e2, s2, w2)" by (metis prod_cases3)
  have bs: "from_hex hx = Some (bytes_at m0 (literal_value a) (length hx div 2))" and lit: "hex_literal a"
    using Cons.prems(1) x by (simp_all add: shows_bytes_def)
  note k1 = writeD [OF h lit bs wr]
  have w': "w' = w2" and ok: "all_ok entries \<longleftrightarrow> taken r1 \<and> all_ok e2"
    using Cons.prems(2) x wr rest by (auto simp: Let_def all_ok_Cons dict_get_Cons taken_def split: sum.split_asm)
  note IH = Cons.IH [OF _ rest]
  have outside: "mem w1 i = mem w i" if "i \<notin> {literal_value a ..< literal_value a + int (length hx div 2)}" for i
    using k1(2) that overwrite_outside by auto
  have inside: "mem w1 i = m0 i" if "i \<in> {literal_value a ..< literal_value a + int (length hx div 2)}" "taken r1" for i
    using k1(3) that by (simp add: overwrite_same)
  show ?case using IH Cons.prems(1) k1(1) outside inside ok x unfolding w' by fastforce
qed (simp add: all_ok_def)

lemma undo_registers_restores:
  assumes h: "honest tg R mem regs resolve"
  shows "fst ` set rs \<subseteq> R \<Longrightarrow> list_all (shows_register g) rs \<Longrightarrow> undo_registers tg rs w = (entries, steps, w') \<Longrightarrow>
    mem w' = mem w \<and> (\<forall>n. n \<notin> fst ` set rs \<longrightarrow> vis R regs w' n = vis R regs w n) \<and> (all_ok entries \<longrightarrow> (\<forall>n \<in> fst ` set rs. vis R regs w' n = g n))"
proof (induction rs arbitrary: w entries steps w')
  case (Cons x rs)
  obtain name t where x: "x = (name, t)" by (cases x)
  obtain r1 w1 where wr: "tg_set_register tg name (VStr t) w = (r1, w1)" by fastforce
  obtain e2 s2 w2 where rest: "undo_registers tg rs w1 = (e2, s2, w2)" by (metis prod_cases3)
  have name: "name \<in> R" "fst ` set rs \<subseteq> R" using Cons.prems(1) x by simp_all
  note k1 = setD [OF h name(1) wr]
  have w': "w' = w2" and ok: "all_ok entries \<longleftrightarrow> taken r1 \<and> all_ok e2"
    using Cons.prems(3) x wr rest by (auto simp: Let_def all_ok_Cons dict_get_Cons taken_def split: sum.split_asm)
  have now: "taken r1 \<Longrightarrow> vis R regs w1 name = g name" using k1(3) Cons.prems(2) x by (simp add: shows_register_def)
  show ?case using Cons.IH [OF name(2) _ rest] Cons.prems(2) k1(1,2) now ok x unfolding w' by fastforce
qed (simp add: all_ok_def)

subsection \<open>The transaction\<close>

lemma span_captured: "list_all2 (captured m) rs olds \<Longrightarrow> span olds = span (entries_of rs)"
  by (induction rs olds rule: list_all2_induct) (auto simp: entries_of_def captured_def)

lemma captured_shows: "list_all2 (captured m) rs olds \<Longrightarrow> list_all (shows_bytes m) olds"
  by (induction rs olds rule: list_all2_induct) (auto simp: captured_def)

lemma ordered_registers_set: "set (ordered_registers rs) = set rs"
  by (simp add: ordered_registers_def)

definition transaction_state :: "pydict \<Rightarrow> pyval" where
  "transaction_state d = dict_get d ''transactionState''"

lemma run_restore_cases:
  assumes "run_restore tg sid own ranges registers olds old_regs w = (d, w')"
  obtains (committed) done1 steps1 w1 done2 steps2 where
    "transaction_state d = VStr ''committed''" "dict_get d ''ok'' = VBool True"
    "write_ranges tg ranges w = (done1, None, steps1, w1)"
    "write_registers tg (ordered_registers registers) w1 = (done2, None, steps2, w')"
  | (undone) done1 f1 steps1 w1 f2 w2 e3 s3 w3 e4 s4 where
    "dict_get d ''ok'' = VBool False" "write_ranges tg ranges w = (done1, f1, steps1, w1)"
    "w2 = w1 \<or> (\<exists>done2 steps2. write_registers tg (ordered_registers registers) w1 = (done2, f2, steps2, w2))"
    "undo_ranges tg (rev olds) w2 = (e3, s3, w3)" "undo_registers tg (rev old_regs) w3 = (e4, s4, w')"
    "transaction_state d = VStr (if all_ok e3 \<and> all_ok e4 then ''rolled_back'' else ''rollback_failed'')"
proof -
  obtain done1 f1 steps1 w1 where one: "write_ranges tg ranges w = (done1, f1, steps1, w1)" by (metis prod_cases4)
  obtain done2 f2 steps2 w2 where two: "(if f1 = None then write_registers tg (ordered_registers registers) w1 else ([], None, [], w1))
      = (done2, f2, steps2, w2)" by (metis prod_cases4)
  obtain e3 s3 w3 where three: "undo_ranges tg (rev olds) w2 = (e3, s3, w3)" by (metis prod_cases3)
  obtain e4 s4 w4 where four: "undo_registers tg (rev old_regs) w3 = (e4, s4, w4)" by (metis prod_cases3)
  show thesis
  proof (cases "f1 = None \<and> f2 = None")
    case True
    with assms one two have "transaction_state d = VStr ''committed''" "dict_get d ''ok'' = VBool True" "w' = w2"
      by (auto simp: run_restore_def Let_def transaction_state_def dict_get_Cons)
    with True one two show ?thesis using committed by auto
  next
    case False
    with assms one two three four have "dict_get d ''ok'' = VBool False" "w' = w4"
      "transaction_state d = VStr (if all_ok e3 \<and> all_ok e4 then ''rolled_back'' else ''rollback_failed'')"
      by (auto simp: run_restore_def Let_def transaction_state_def dict_get_Cons)
    moreover have "w2 = w1 \<or> (\<exists>done2 steps2. write_registers tg (ordered_registers registers) w1 = (done2, f2, steps2, w2))"
      using two by (auto split: if_split_asm)
    ultimately show ?thesis using undone [OF _ one _ three] four by simp
  qed
qed

lemma run_restore_rolls_back:
  assumes h: "honest tg R mem regs resolve" and wf: "list_all lit_range ranges" and known: "fst ` set registers \<subseteq> R"
    and olds: "list_all2 (captured (mem w)) ranges olds"
    and names: "map fst old_regs = map fst registers" and old_regs: "list_all (shows_register (vis R regs w)) old_regs"
    and run: "run_restore tg sid own ranges registers olds old_regs w = (d, w')"
    and state: "transaction_state d \<noteq> VStr ''committed''" "transaction_state d \<noteq> VStr ''rollback_failed''"
  shows "mem w' = mem w \<and> vis R regs w' = vis R regs w"
  using run
proof (cases rule: run_restore_cases)
  case committed
  with state show ?thesis by simp
next
  case (undone done1 f1 steps1 w1 f2 w2 e3 s3 w3 e4 s4)
  have ok: "all_ok e3" "all_ok e4" using undone(6) state(2) by (auto split: if_split_asm)
  have span: "span (rev olds) = span (entries_of ranges)" using span_captured [OF olds] by simp
  have names': "fst ` set (rev old_regs) = fst ` set registers" using arg_cong [OF names, of set] by simp
  note k1 = write_ranges_keeps [OF h wf undone(2)]
  have k2: "mem w2 = mem w1 \<and> (\<forall>n. n \<notin> fst ` set registers \<longrightarrow> vis R regs w2 n = vis R regs w1 n)"
    using undone(3) write_registers_keeps [OF h, of "ordered_registers registers" w1] known unfolding ordered_registers_set by blast
  have k3: "vis R regs w3 = vis R regs w2 \<and> (\<forall>i. i \<notin> span (rev olds) \<longrightarrow> mem w3 i = mem w2 i) \<and> (\<forall>i \<in> span (rev olds). mem w3 i = mem w i)"
    using undo_ranges_restores [OF h _ undone(4), of "mem w"] captured_shows [OF olds] ok(1) by simp
  have k4: "mem w' = mem w3 \<and> (\<forall>n. n \<notin> fst ` set (rev old_regs) \<longrightarrow> vis R regs w' n = vis R regs w3 n)
      \<and> (\<forall>n \<in> fst ` set (rev old_regs). vis R regs w' n = vis R regs w n)"
    using undo_registers_restores [OF h _ _ undone(5), of "vis R regs w"] old_regs ok(2) known unfolding names' list_all_rev by blast
  have "mem w' i = mem w i" for i using k1 k2 k3 k4 unfolding span by (cases "i \<in> span (entries_of ranges)") simp_all
  moreover have "vis R regs w' n = vis R regs w n" for n
  proof (cases "n \<in> fst ` set registers")
    case True
    with k4 show ?thesis unfolding names' by blast
  next
    case False
    with k1 k2 k3 k4 show ?thesis unfolding names' by simp
  qed
  ultimately show ?thesis by blast
qed

subsection \<open>The whole restore\<close>

lemma prepare_range_wf: "prepare_range item = Inr r \<Longrightarrow> wf_range r"
  by (auto simp: prepare_range_def Let_def wf_range_def all_hex_def split: if_split_asm)

lemma rights_mem: "x \<in> set (rights xs) \<longleftrightarrow> Inr x \<in> set xs"
  unfolding rights_def by (induction xs) (auto split: sum.splits)

lemma snapshot_ranges_wf: "list_all wf_range (rights (snapshot_ranges rm snap))"
proof -
  have "\<exists>item. x = prepare_range item" if "x \<in> set (snapshot_ranges rm snap)" for x
  proof (cases rm)
    case True
    with that show ?thesis unfolding snapshot_ranges_def by (cases "dict_get_default snap ''ranges'' (VList [])") auto
  next
    case False
    with that show ?thesis by (simp add: snapshot_ranges_def)
  qed
  then have "wf_range r" if "Inr r \<in> set (snapshot_ranges rm snap)" for r using that prepare_range_wf by metis
  then show ?thesis by (auto simp: list_all_iff rights_mem)
qed

definition saved_registers :: "pydict \<Rightarrow> (string \<times> pyval) list" where
  "saved_registers snap = as_dict (py_or (dict_get snap ''registers'') (VDict []))"

definition saved_ranges :: "bool \<Rightarrow> pydict \<Rightarrow> (string \<times> string) list" where
  "saved_ranges rm snap = entries_of (rights (snapshot_ranges rm snap))"

text \<open>What a snapshot that was saved by the tool looks like: its ranges carry the literal addresses of the
  bridge's replies, and its registers are those of the architecture.\<close>

definition restorable :: "string set \<Rightarrow> bool \<Rightarrow> pydict \<Rightarrow> bool" where
  "restorable R rm snap \<longleftrightarrow> fst ` set (saved_registers snap) \<subseteq> R \<and> list_all (\<lambda>r. hex_literal (pr_addr r)) (rights (snapshot_ranges rm snap))"

lemma restorable_ranges: "restorable R rm snap \<Longrightarrow> list_all lit_range (rights (snapshot_ranges rm snap))"
  using snapshot_ranges_wf [of rm snap] by (simp add: restorable_def lit_range_def list_all_iff)

text \<open>Either nothing was written yet, or the writing part ran on what was captured in the same state.\<close>

lemma restore_impl_cases:
  assumes h: "honest tg R mem regs resolve" and run: "restore_state_impl tg sid rm st w = (r, w')"
    and rst: "\<forall>snap. get_snapshot sid st = Some snap \<longrightarrow> restorable R rm snap"
  shows "(mem w' = mem w \<and> vis R regs w' = vis R regs w \<and> (\<forall>d. r = Inr d \<longrightarrow> dict_get d ''ok'' = VBool False))
    \<or> (\<exists>snap own w1 olds old_regs d. get_snapshot sid st = Some snap \<and> r = Inr d \<and> mem w1 = mem w \<and> vis R regs w1 = vis R regs w
        \<and> lefts (snapshot_ranges rm snap) = []
        \<and> list_all2 (captured (mem w1)) (rights (snapshot_ranges rm snap)) olds
        \<and> map fst old_regs = map fst (saved_registers snap)
        \<and> list_all (shows_register (vis R regs w1)) old_regs
        \<and> run_restore tg sid own (rights (snapshot_ranges rm snap)) (saved_registers snap) olds old_regs w1 = (d, w'))"
proof (cases "get_snapshot sid st")
  case None
  with run show ?thesis by (auto simp: restore_state_impl_def not_found_def refused_def dict_get_Cons)
next
  case (Some snap)
  show ?thesis
  proof (cases snap)
    case Nil
    with run Some show ?thesis by (auto simp: restore_state_impl_def not_found_def refused_def dict_get_Cons)
  next
    case (Cons kv rec)
    let ?regs = "as_dict (py_or (dict_get snap ''registers'') (VDict []))" and ?ranges = "snapshot_ranges rm snap"
    obtain r1 w1 where own: "snapshot_owner_match tg (dict_get snap ''owner'') True w = (r1, w1)" by fastforce
    obtain state w2 where state: "tg_state tg w1 = (state, w2)" by fastforce
    obtain r3 w3 where cap: "capture_ranges tg (rights ?ranges) w2 = (r3, w3)" by fastforce
    obtain r4 w4 where creg: "capture_registers tg (map fst ?regs) w3 = (r4, w4)" by fastforce
    have k1: "mem w1 = mem w" "vis R regs w1 = vis R regs w" using owner_match_keeps [OF h own] .
    have k2: "mem w2 = mem w" "vis R regs w2 = vis R regs w" using restD(1,2) [OF h, of w1] state k1 by simp_all
    note known = rst [rule_format, OF Some]
    have names: "set (map fst ?regs) \<subseteq> R" using known by (simp add: restorable_def saved_registers_def)
    note k3 = capture_ranges_keeps [OF h cap] and k4 = capture_registers_keeps [OF h names creg]
    have same3: "mem w3 = mem w" "vis R regs w3 = vis R regs w" and same4: "mem w4 = mem w" "vis R regs w4 = vis R regs w" using k2 k3 k4 by simp_all
    note defs = restore_state_impl_def Some Cons option.case list.case Let_def own [unfolded Cons] state [unfolded Cons] cap [unfolded Cons]
      creg [unfolded Cons] prod.case
    consider (early) "mem w' = mem w" "vis R regs w' = vis R regs w" "\<forall>d. r = Inr d \<longrightarrow> dict_get d ''ok'' = VBool False"
      | (late) own' olds old_regs where "r1 = Inr own'" "lefts ?ranges = []" "r3 = Inr (Inr olds)" "r4 = Inr (Inr old_regs)"
          "(let (reply, w) = run_restore tg sid own' (rights ?ranges) ?regs olds old_regs w4 in (Inr reply, w)) = (r, w')"
    proof (cases r1)
      case (Inl e)
      with run k1 early show ?thesis unfolding defs by auto
    next
      case (Inr own')
      show ?thesis
      proof (cases "truthy (dict_get own' ''matches'') \<and> truthy (dict_get state ''paused'') \<and> lefts ?ranges = []")
        case False
        with run Inr k1 k2 early show ?thesis unfolding defs
          by (auto simp: owner_mismatch_def refused_def dict_get_Cons split: if_split_asm)
      next
        case True
        then show ?thesis
          using run Inr same3 same4 early late unfolding defs
          by (auto simp: refused_def dict_get_Cons split: sum.split_asm)
      qed
    qed
    then show ?thesis
    proof cases
      case early
      then show ?thesis by blast
    next
      case late
      obtain d where d: "run_restore tg sid own' (rights ?ranges) ?regs olds old_regs w4 = (d, w')" "r = Inr d"
        using late(5) by (auto split: prod.split_asm)
      have "list_all2 (captured (mem w4)) (rights ?ranges) olds" using k3 late(3) restorable_ranges [OF known] same3 same4 k2 by simp
      moreover have "map fst old_regs = map fst ?regs" "list_all (shows_register (vis R regs w4)) old_regs" using k4 late(4) same3 same4 by simp_all
      ultimately show ?thesis using Some d late(2) same4 unfolding saved_registers_def by blast
    qed
  qed
qed

text \<open>C1: The restore of a saved snapshot is atomic against an honest debugger: unless it reports that it committed,
  or that the rollback itself failed, memory and the registers that snapshots record are what they were,
  also when a write was refused after it had changed some of its bytes, and when the restore raises.\<close>

theorem restore_atomic:
  assumes "honest tg R mem regs resolve" and "\<forall>snap. get_snapshot sid st = Some snap \<longrightarrow> restorable R rm snap"
    and "restore_state_impl tg sid rm st w = (r, w')"
    and "\<forall>d. r = Inr d \<longrightarrow> transaction_state d \<noteq> VStr ''committed'' \<and> transaction_state d \<noteq> VStr ''rollback_failed''"
  shows "mem w' = mem w \<and> (\<forall>n \<in> R. regs w' n = regs w n)"
proof -
  have "mem w' = mem w \<and> vis R regs w' = vis R regs w"
    using restore_impl_cases [OF assms(1,3,2)]
  proof (elim disjE exE conjE)
    fix snap own w1 olds old_regs d
    assume snap: "get_snapshot sid st = Some snap" and r: "r = Inr d" and w1: "mem w1 = mem w" "vis R regs w1 = vis R regs w"
      and c: "list_all2 (captured (mem w1)) (rights (snapshot_ranges rm snap)) olds"
      "map fst old_regs = map fst (saved_registers snap)"
      "list_all (shows_register (vis R regs w1)) old_regs"
      "run_restore tg sid own (rights (snapshot_ranges rm snap)) (saved_registers snap) olds old_regs w1 = (d, w')"
    note known = assms(2) [rule_format, OF snap]
    have names: "fst ` set (saved_registers snap) \<subseteq> R" using known by (simp add: restorable_def)
    from run_restore_rolls_back [OF assms(1) restorable_ranges [OF known] names c] assms(4) r w1 show ?thesis by simp
  qed simp
  then show ?thesis by (simp add: vis_eq same_registers_def)
qed

subsection \<open>What a commit brings back\<close>

lemma shows_write:
  assumes "shows_bytes m (pr_addr r, pr_hex r)" and "from_hex (pr_hex r) = Some bs"
  shows "overwrite m1 (literal_value (pr_addr r)) bs i =
    (if i \<in> {literal_value (pr_addr r) ..< literal_value (pr_addr r) + int (length (pr_hex r) div 2)} then m i else m1 i)"
  using assms by (simp add: shows_bytes_def overwrite_same)

lemma write_ranges_done:
  assumes h: "honest tg R mem regs resolve"
  shows "list_all lit_range rs \<Longrightarrow> list_all (shows_bytes m) (entries_of rs) \<Longrightarrow> write_ranges tg rs w = (done', None, steps, w') \<Longrightarrow>
    \<forall>i \<in> span (entries_of rs). mem w' i = m i"
proof (induction rs arbitrary: w done' steps)
  case (Cons r rs)
  obtain f1 w1 where one: "write_range tg r w = (f1, w1)" by fastforce
  obtain d2 f2 s2 w2 where rest: "write_ranges tg rs w1 = (d2, f2, s2, w2)" by (metis prod_cases4)
  have f: "f1 = None" "f2 = None" "w' = w2" using Cons.prems(3) one rest by (auto split: option.split_asm)
  have wf: "lit_range r" "list_all lit_range rs" using Cons.prems(1) by simp_all
  have shows_r: "shows_bytes m (pr_addr r, pr_hex r)" "list_all (shows_bytes m) (entries_of rs)"
    using Cons.prems(2) by (simp_all add: entries_of_def)
  obtain bs where bs: "from_hex (pr_hex r) = Some bs" "mem w1 = overwrite (mem w) (literal_value (pr_addr r)) bs"
    using write_range_keeps(3) [OF h wf(1) one f(1)] by blast
  have here: "mem w1 i = m i" if "i \<in> {literal_value (pr_addr r) ..< literal_value (pr_addr r) + int (length (pr_hex r) div 2)}" for i
    using shows_write [OF shows_r(1) bs(1), of "mem w" i] bs(2) that by simp
  have "\<forall>i \<in> span (entries_of rs). mem w' i = m i" using Cons.IH [OF wf(2) shows_r(2)] rest f by simp
  moreover have "mem w' i = mem w1 i" if "i \<notin> span (entries_of rs)" for i
    using write_ranges_keeps [OF h wf(2) rest] that f by simp
  moreover have "span (entries_of (r # rs))
      = {literal_value (pr_addr r) ..< literal_value (pr_addr r) + int (length (pr_hex r) div 2)} \<union> span (entries_of rs)"
    by (simp add: entries_of_def)
  ultimately show ?case using here by (metis UnE)
qed (simp add: entries_of_def)

lemma write_registers_done:
  assumes h: "honest tg R mem regs resolve"
  shows "fst ` set rs \<subseteq> R \<Longrightarrow> distinct (map fst rs) \<Longrightarrow> write_registers tg rs w = (done', None, steps, w') \<Longrightarrow> (n, VStr t) \<in> set rs
    \<Longrightarrow> hex_literal t \<Longrightarrow> vis R regs w' n = literal_value t"
proof (induction rs arbitrary: w done' steps)
  case (Cons x rs)
  obtain name val where x: "x = (name, val)" by (cases x)
  obtain f1 w1 where one: "write_register tg name val w = (f1, w1)" by fastforce
  obtain d2 f2 s2 w2 where rest: "write_registers tg rs w1 = (d2, f2, s2, w2)" by (metis prod_cases4)
  have f: "f1 = None" "f2 = None" "w' = w2" using Cons.prems(3) one rest x by (auto split: option.split_asm)
  have names: "name \<in> R" "fst ` set rs \<subseteq> R" using Cons.prems(1) x by simp_all
  show ?case
  proof (cases "(n, VStr t) \<in> set rs")
    case True
    with Cons.IH [of w1 d2 s2] Cons.prems names rest f show ?thesis by simp
  next
    case False
    with Cons.prems(4) x have nv: "n = name" "val = VStr t" by auto
    then have "n \<notin> fst ` set rs" using Cons.prems(2) x by simp
    with write_registers_keeps [OF h names(2) rest] write_register_keeps(3) [OF h names(1) one f(1)] Cons.prems(5) nv f show ?thesis by simp
  qed
qed simp

lemma restore_commits:
  assumes h: "honest tg R mem regs resolve" and run: "restore_state_impl tg sid rm st w = (Inr d, w')" and ok: "dict_get d ''ok'' = VBool True"
    and snap: "get_snapshot sid st = Some snap" and known: "restorable R rm snap" and names: "distinct (map fst (saved_registers snap))"
    and one: "list_all (shows_bytes m) (saved_ranges rm snap)"
  shows "mem w' i = (if i \<in> span (saved_ranges rm snap) then m i else mem w i)"
    and "(n, VStr t) \<in> set (saved_registers snap) \<Longrightarrow> hex_literal t \<Longrightarrow> vis R regs w' n = literal_value t"
    and "n \<notin> fst ` set (saved_registers snap) \<Longrightarrow> vis R regs w' n = vis R regs w n"
proof -
  have "\<forall>s. get_snapshot sid st = Some s \<longrightarrow> restorable R rm s" using snap known by simp
  from restore_impl_cases [OF h run this] ok snap obtain own w1 olds old_regs where w1: "mem w1 = mem w" "vis R regs w1 = vis R regs w"
    and r: "run_restore tg sid own (rights (snapshot_ranges rm snap)) (saved_registers snap) olds old_regs w1 = (d, w')"
    by auto
  note wf = restorable_ranges [OF known]
  have inR: "fst ` set (saved_registers snap) \<subseteq> R" using known by (simp add: restorable_def)
  obtain done1 steps1 w2 done2 steps2 where k: "write_ranges tg (rights (snapshot_ranges rm snap)) w1 = (done1, None, steps1, w2)"
    "write_registers tg (ordered_registers (saved_registers snap)) w2 = (done2, None, steps2, w')"
    using r ok by (cases rule: run_restore_cases) auto
  note a = write_ranges_keeps [OF h wf k(1)] and b = write_ranges_done [OF h wf one [unfolded saved_ranges_def] k(1)]
    and c = write_registers_keeps [OF h _ k(2), unfolded ordered_registers_set, OF inR]
  show "mem w' i = (if i \<in> span (saved_ranges rm snap) then m i else mem w i)"
    using a b c w1 unfolding saved_ranges_def by simp
  show "vis R regs w' n = vis R regs w n" if "n \<notin> fst ` set (saved_registers snap)" using a c w1 that by simp
  have "distinct (map fst (ordered_registers (saved_registers snap)))"
  proof -
    have "mset (map fst (ordered_registers (saved_registers snap))) = mset (map fst (saved_registers snap))"
      unfolding ordered_registers_def mset_map mset_sort ..
    then show ?thesis using names by (metis mset_eq_imp_distinct_iff)
  qed
  then show "vis R regs w' n = literal_value t" if "(n, VStr t) \<in> set (saved_registers snap)" "hex_literal t"
    using write_registers_done [OF h _ _ k(2)] that inR unfolding ordered_registers_set by blast
qed

subsection \<open>Saving and restoring\<close>

definition shows_saved :: "(string \<Rightarrow> int) \<Rightarrow> string \<times> pyval \<Rightarrow> bool" where
  "shows_saved g entry \<longleftrightarrow> (\<exists>t. snd entry = VStr t \<and> hex_literal t \<and> literal_value t = g (fst entry))"

lemma read_registers_keeps:
  assumes h: "honest tg R mem regs resolve"
  shows "set names \<subseteq> R \<Longrightarrow> read_registers tg names w = (rs, w') \<Longrightarrow> mem w' = mem w \<and> vis R regs w' = vis R regs w \<and> fst ` set rs \<subseteq> set names
    \<and> (distinct names \<longrightarrow> distinct (map fst rs)) \<and> list_all (shows_saved (vis R regs w)) rs"
proof (induction names arbitrary: w rs w')
  case (Cons name names)
  obtain r1 w1 where g: "tg_get_register tg name w = (r1, w1)" by fastforce
  obtain rs2 w2 where rest: "read_registers tg names w1 = (rs2, w2)" by fastforce
  have name: "name \<in> R" "set names \<subseteq> R" using Cons.prems(1) by simp_all
  note k1 = getD(1,2) [OF h name(1) g] and IH = Cons.IH [OF name(2) rest]
  show ?case
  proof (cases r1)
    case (Inl e)
    with Cons.prems(2) g rest k1 IH show ?thesis by auto
  next
    case (Inr v)
    from getD(3) [OF h name(1) g Inr] obtain t where v: "says_text v t"
      and alt: "hex_literal t \<and> literal_value t = vis R regs w name \<or> \<not> starts_with t ''0x'' \<and> \<not> hex_literal (strip t)" by blast
    let ?t = "text_of (case v of VDict d \<Rightarrow> py_or (dict_get d ''result'') (py_or (dict_get d ''value'') (VStr [])) | _ \<Rightarrow> v)"
    have nil: "\<not> starts_with [] ''0x''" by code_simp
    show ?thesis
    proof (cases "starts_with ?t ''0x''")
      case True
      then have "?t = t" using says_text_saved [OF v] nil by auto
      with True alt have "shows_saved (vis R regs w) (name, VStr ?t)" by (auto simp: shows_saved_def)
      moreover have "rs = (name, VStr ?t) # rs2" "w' = w2" using Cons.prems(2) g rest Inr True by (simp_all add: Let_def)
      ultimately show ?thesis using k1 IH by auto
    next
      case False
      with Cons.prems(2) g rest Inr have "rs = rs2" "w' = w2" by (simp_all add: Let_def)
      with k1 IH show ?thesis by auto
    qed
  qed
qed simp

definition saved_range :: "memory \<Rightarrow> pydict \<Rightarrow> bool" where
  "saved_range m d \<longleftrightarrow>
     (\<exists>t h k. dict_get d ''addr'' = VStr t \<and> hex_literal t \<and> dict_get d ''hex'' = VStr h \<and> list_all (\<lambda>c. hex_value c \<noteq> None) h
        \<and> from_hex h = Some (bytes_at m (literal_value t) k))"

lemma read_ranges_keeps:
  assumes h: "honest tg R mem regs resolve"
  shows "read_ranges tg n specs w = (r, w') \<Longrightarrow> mem w' = mem w \<and> vis R regs w' = vis R regs w
    \<and> (\<forall>ranges failures. r = Inr (ranges, failures) \<longrightarrow> list_all (saved_range (mem w)) ranges)"
proof (induction specs arbitrary: n w r w')
  case (Cons spec specs)
  obtain r1 w1 where rd: "tg_read tg (cs_expr spec) (cs_size spec) w = (r1, w1)" by fastforce
  obtain r2 w2 where rest: "read_ranges tg (Suc n) specs w1 = (r2, w2)" by fastforce
  note k1 = readD(1,2) [OF h rd] and IH = Cons.IH [OF rest]
  show ?case
  proof (cases r1)
    case (Inl e)
    with Cons.prems rd k1 show ?thesis by auto
  next
    case (Inr d)
    show ?thesis
    proof (cases r2)
      case (Inl e)
      with Cons.prems rd Inr rest k1 IH show ?thesis by auto
    next
      case r2: (Inr p)
      obtain ranges failures where p: "p = (ranges, failures)" by (cases p)
      show ?thesis
      proof (cases "truthy (dict_get d ''ok'')")
        case True
        with readD(3) [OF h rd Inr] have "saved_range (mem w) [(''label'', range_label n spec), (''expr'', VStr (cs_expr spec)),
            (''addr'', dict_get d ''addr''), (''size'', dict_get d ''sizeRead''), (''hex'', dict_get d ''hex'')]"
          by (simp add: saved_range_def dict_get_Cons) blast
        with Cons.prems rd Inr rest r2 p k1 IH True show ?thesis by auto
      next
        case False
        with Cons.prems rd Inr rest r2 p k1 IH show ?thesis by auto
      qed
    qed
  qed
qed simp

lemma prepare_saved:
  assumes "saved_range m d" and "prepare_range d = Inr r"
  shows "shows_bytes m (pr_addr r, pr_hex r)"
proof -
  obtain t h k where d: "dict_get d ''addr'' = VStr t" "hex_literal t" "dict_get d ''hex'' = VStr h" "list_all (\<lambda>c. hex_value c \<noteq> None) h"
    "from_hex h = Some (bytes_at m (literal_value t) k)" using assms(1) unfolding saved_range_def by blast
  have "text_of (VStr h) = h" by (simp add: text_of_def str_or_empty_def py_or_def)
  moreover have "t \<noteq> []" using d(2) by (auto simp: hex_literal_def)
  ultimately have r: "pr_addr r = t" "pr_hex r = h"
    using assms(2) d by (auto simp: prepare_range_def Let_def no_blanks_hex py_or_def split: if_split_asm)
  have "length h = 2 * k" using from_hex_length [OF d(5)] d(4) hex_value_not_blank by (auto simp: list_all_iff)
  with r d(2,5) show ?thesis by (simp add: shows_bytes_def)
qed

lemma registers_distinct: "distinct (debuggee_registers tg w)"
proof -
  have "distinct snapshot_registers_x86" "distinct snapshot_registers_x64" by code_simp+
  then show ?thesis by (auto simp: debuggee_registers_def split: option.split)
qed

text \<open>The record that a successful save stores.\<close>

lemma save_state_stores:
  assumes h: "honest tg R mem regs resolve" and run: "save_state tg token label raw st w = (Inr d, st', w')" and ok: "dict_get d ''ok'' = VBool True"
  shows "\<exists>registers ranges owner w1 rec'. list_all (saved_range (mem w)) ranges \<and> distinct (map fst registers)
    \<and> fst ` set registers \<subseteq> R \<and> list_all (shows_saved (vis R regs w)) registers
    \<and> store_state_snapshot tg token [(''createdAt'', VStr (tg_now tg)), (''label'', VStr label), (''registers'', VDict registers),
         (''ranges'', VList (map VDict ranges)), (''owner'', VDict owner)] st w1 = (Inr rec', st', w')
    \<and> dict_get d ''snapshotId'' = dict_get rec' ''snapshotId''"
proof -
  obtain state w1 where s1: "tg_state tg w = (state, w1)" by fastforce
  obtain r2 w2 where s2: "capture_owner tg True w1 = (r2, w2)" by fastforce
  obtain registers w3 where s3: "read_registers tg (debuggee_registers tg w2) w2 = (registers, w3)" by fastforce
  have k1: "mem w1 = mem w" "vis R regs w1 = vis R regs w" using restD(1,2) [OF h, of w] s1 by simp_all
  have k2: "mem w2 = mem w" "vis R regs w2 = vis R regs w" using capture_owner_keeps [OF h s2] k1 by simp_all
  have arch: "set (debuggee_registers tg w2) \<subseteq> R" using restD(5) [OF h] by simp
  note k3 = read_registers_keeps [OF h arch s3]
  from run ok s1 s2 s3 obtain owner where owner: "r2 = Inr owner" "truthy (dict_get owner ''strong'')"
    by (cases r2) (auto simp: save_state_def dict_get_Cons split: if_split_asm)
  obtain specs where specs: "parse_capture_specs tg raw = Inr specs"
    using run ok s1 s2 s3 owner by (cases "parse_capture_specs tg raw") (auto simp: save_state_def dict_get_Cons split: if_split_asm)
  obtain r4 w4 where s4: "read_ranges tg 0 specs w3 = (r4, w4)" by fastforce
  from run ok s1 s2 s3 s4 owner specs obtain ranges where ranges: "r4 = Inr (ranges, [])"
    by (cases r4) (auto simp: save_state_def dict_get_Cons split: if_split_asm)
  let ?rec = "[(''createdAt'', VStr (tg_now tg)), (''label'', VStr label), (''registers'', VDict registers),
         (''ranges'', VList (map VDict ranges)), (''owner'', VDict owner)]"
  obtain r5 st5 w5 where s5: "store_state_snapshot tg token ?rec st w4 = (r5, st5, w5)" by (metis prod_cases3)
  from run ok s1 s2 s3 s4 s5 owner specs ranges obtain rec' where "r5 = Inr rec'" "st5 = st'" "w5 = w'"
    "dict_get d ''snapshotId'' = dict_get rec' ''snapshotId''"
    by (cases r5) (auto simp: save_state_def dict_get_Cons split: if_split_asm)
  moreover have "list_all (saved_range (mem w)) ranges" using read_ranges_keeps [OF h s4] ranges k2 k3 by simp
  moreover have "distinct (map fst registers)" "fst ` set registers \<subseteq> R" "list_all (shows_saved (vis R regs w)) registers"
    using k2 k3 arch registers_distinct [of tg w2] by auto
  ultimately show ?thesis using s5
    by (intro exI [of _ registers] exI [of _ ranges] exI [of _ owner] exI [of _ w4] exI [of _ rec']) simp
qed

text \<open>What a save has stored can be restored, and shows the state it was saved in.\<close>

definition shows_state :: "string set \<Rightarrow> memory \<Rightarrow> (string \<Rightarrow> int) \<Rightarrow> pydict \<Rightarrow> bool" where
  "shows_state R m g snap \<longleftrightarrow> restorable R True snap \<and> list_all (shows_bytes m) (saved_ranges True snap)
     \<and> list_all (shows_saved g) (saved_registers snap) \<and> distinct (map fst (saved_registers snap))"

lemma saved_shows_state:
  assumes h: "honest tg R mem regs resolve" and store: "store_ok state_limit st" "hex_token token"
    and save: "save_state tg token label raw st w = (Inr saved, st', w')" "dict_get saved ''ok'' = VBool True"
    and sid: "dict_get saved ''snapshotId'' = VStr sid"
  shows "\<exists>snap. get_snapshot sid st' = Some snap \<and> shows_state R (mem w) (vis R regs w) snap"
proof -
  obtain registers ranges owner w1' rec' where r: "list_all (saved_range (mem w)) ranges" "distinct (map fst registers)"
    "fst ` set registers \<subseteq> R" "list_all (shows_saved (vis R regs w)) registers"
    and s: "store_state_snapshot tg token [(''createdAt'', VStr (tg_now tg)), (''label'', VStr label), (''registers'', VDict registers),
         (''ranges'', VList (map VDict ranges)), (''owner'', VDict owner)] st w1' = (Inr rec', st', w')"
    "dict_get saved ''snapshotId'' = dict_get rec' ''snapshotId''"
    using save_state_stores [OF h save] by blast
  from stored_readable [OF store s(1)] sid s(2) obtain owner' where
    snap: "get_snapshot sid st' = Some rec'" and rec': "rec' = set_default ''owner'' (VDict owner') (AList.update ''snapshotId'' (VStr sid)
      [(''createdAt'', VStr (tg_now tg)), (''label'', VStr label), (''registers'', VDict registers),
         (''ranges'', VList (map VDict ranges)), (''owner'', VDict owner)])" by auto
  have parts: "dict_get rec' ''registers'' = VDict registers" "dict_get_default rec' ''ranges'' (VList []) = VList (map VDict ranges)"
    unfolding rec' by (simp_all add: set_default_def has_key_def dict_get_Cons dict_get_default_def)
  have regs_saved: "saved_registers rec' = registers"
    unfolding saved_registers_def parts by (cases registers) (simp_all add: py_or_def)
  have bytes: "shows_bytes (mem w) (pr_addr x, pr_hex x)" if "Inr x \<in> set (snapshot_ranges True rec')" for x
    using that r(1) prepare_saved unfolding snapshot_ranges_def parts by (auto simp: list_all_iff)
  then have "list_all (shows_bytes (mem w)) (saved_ranges True rec')" "list_all (\<lambda>r. hex_literal (pr_addr r)) (rights (snapshot_ranges True rec'))"
    by (auto simp: list_all_iff saved_ranges_def entries_of_def rights_mem shows_bytes_def)
  with r(2-4) have "shows_state R (mem w) (vis R regs w) rec'" unfolding shows_state_def restorable_def regs_saved by (intro conjI)
  with snap show ?thesis by (intro exI [of _ rec'] conjI)
qed

text \<open>C2: Saving and restoring is a round trip: whatever happened in between, after a restore that succeeded the saved
  bytes and registers are again what they were when they were saved, and the rest of the memory and of
  the registers of the architecture is what it was just before the restore.\<close>

theorem save_restore_roundtrip:
  assumes "honest tg R mem regs resolve" and "store_ok state_limit st" and "hex_token token"
    and "save_state tg token label raw st w0 = (Inr saved, st', w1)" and "dict_get saved ''ok'' = VBool True"
    and "dict_get saved ''snapshotId'' = VStr sid"
    and "restore_state_impl tg sid True st' w2 = (Inr d, w3)" and "dict_get d ''ok'' = VBool True"
  shows "\<exists>snap. get_snapshot sid st' = Some snap
    \<and> mem w3 = (\<lambda>i. if i \<in> span (saved_ranges True snap) then mem w0 i else mem w2 i)
    \<and> (\<forall>n \<in> R. regs w3 n = (if n \<in> fst ` set (saved_registers snap) then regs w0 n else regs w2 n))"
proof -
  obtain snap where snap: "get_snapshot sid st' = Some snap" and s: "shows_state R (mem w0) (vis R regs w0) snap"
    using saved_shows_state [OF assms(1-6)] by blast
  note c = restore_commits [OF assms(1,7,8) snap _ _ _ , of "mem w0"]
  have bytes: "mem w3 i = (if i \<in> span (saved_ranges True snap) then mem w0 i else mem w2 i)" for i
    using c(1) s by (simp add: shows_state_def)
  have "vis R regs w3 n = (if n \<in> fst ` set (saved_registers snap) then vis R regs w0 n else vis R regs w2 n)" for n
  proof (cases "n \<in> fst ` set (saved_registers snap)")
    case True
    then obtain v where v: "(n, v) \<in> set (saved_registers snap)" by auto
    with s obtain t where "v = VStr t" "hex_literal t" "literal_value t = vis R regs w0 n"
      unfolding shows_state_def list_all_iff shows_saved_def by fastforce
    with c(2) [of n t] s v True show ?thesis by (simp add: shows_state_def)
  next
    case False
    with c(3) [of n] s show ?thesis by (simp add: shows_state_def)
  qed
  then have "\<forall>n \<in> R. regs w3 n = (if n \<in> fst ` set (saved_registers snap) then regs w0 n else regs w2 n)"
    by (metis vis_at)
  with bytes snap show ?thesis by blast
qed

end
