(* ===== verification/RestoreBench.thy ===== *)
theory RestoreBench
  imports StateRestoreProps
begin

text \<open>
  An honest 32-bit debugger, on which the properties of the snapshots are applied: a sparse memory and a register
  file, in which a register that was never written is unknown. The names \<open>rax\<close>, \<open>cax\<close> and \<open>ax\<close> are aliases
  of \<open>eax\<close>, and those of the stack pointer of \<open>esp\<close>; an address is a literal or the name of a register. It refuses a write of bytes that contains 238, after having written
  the first byte, and refuses to give a register the value 7777 or a negative one.
\<close>

subsection \<open>The bench\<close>

type_synonym bench = "(int \<times> nat) list \<times> (string \<times> nat) list"

definition cell :: "bench \<Rightarrow> memory" where
  "cell w i = (case map_of (fst w) i of Some b \<Rightarrow> b mod 256 | None \<Rightarrow> 0)"

definition real_register :: "string \<Rightarrow> string" where
  "real_register n =
     (if n \<in> {''rax'', ''cax'', ''ax''} then ''eax'' else if n \<in> {''rsp'', ''csp'', ''sp''} then ''esp'' else n)"

definition file_register :: "bench \<Rightarrow> string \<Rightarrow> int" where
  "file_register w n = (case map_of (snd w) (real_register n) of Some v \<Rightarrow> int v | None \<Rightarrow> 0)"

definition bench_resolve :: "bench \<Rightarrow> string \<Rightarrow> int" where
  "bench_resolve w a = (case int0 a of Some i \<Rightarrow> i | None \<Rightarrow> file_register w a)"

definition bench_registers :: "string set" where
  "bench_registers = set snapshot_registers_x86"

fun poke :: "int \<Rightarrow> nat list \<Rightarrow> (int \<times> nat) list \<Rightarrow> (int \<times> nat) list" where
  "poke a [] m = m"
| "poke a (b # bs) m = (a, b) # poke (a + 1) bs m"

definition hex_pair :: "nat \<Rightarrow> string" where
  "hex_pair b = [digit_char (b div 16), digit_char (b mod 16)]"

definition bench_read :: "string \<Rightarrow> int \<Rightarrow> bench \<Rightarrow> pydict outcome \<times> bench" where
  "bench_read a n w =
     (let i = bench_resolve w a in
      (Inr [(''ok'', VBool (0 \<le> i)), (''addr'', VStr (hex0x i)),
        (''sizeRead'', VInt n), (''hex'', VStr (concat (map hex_pair (bytes_at (cell w) i (nat n)))))], w))"

definition bench_write :: "string \<Rightarrow> string \<Rightarrow> bench \<Rightarrow> pyval outcome \<times> bench" where
  "bench_write a h w =
     (case from_hex h of
        None \<Rightarrow> (Inl ''bad bytes'', w)
      | Some bs \<Rightarrow>
          (if 238 \<in> set bs then (Inr (VStr ''Error: page is read-only''), (poke (bench_resolve w a) (take 1 bs) (fst w), snd w))
           else (Inr (VDict [(''success'', VBool True)]), (poke (bench_resolve w a) bs (fst w), snd w))))"

definition bench_get :: "string \<Rightarrow> bench \<Rightarrow> pyval outcome \<times> bench" where
  "bench_get n w =
     (Inr (if map_of (snd w) (real_register n) = None then VStr ''Error: unknown register''
           else VDict [(''result'', VStr (hex0x (file_register w n)))]), w)"

definition bench_set :: "string \<Rightarrow> pyval \<Rightarrow> bench \<Rightarrow> pyval outcome \<times> bench" where
  "bench_set n v w =
     (case parse_int v None of
        Some i \<Rightarrow> if 0 \<le> i \<and> i \<noteq> 7777 then (Inr (VStr ''Set''), (fst w, (real_register n, nat i) # snd w)) else (Inr (VStr ''Error: refused''), w)
      | None \<Rightarrow> (Inr (VStr ''Error: refused''), w))"

definition bench_identity :: pydict where
  "bench_identity = [(''bridgeInstanceId'', VStr ''b1''), (''sessionId'', VStr ''s1''), (''sessionGeneration'', VInt 2),
     (''debuggeePid'', VInt 42), (''session'', VDict [(''threadId'', VInt 5)])]"

definition bench_target :: "bench target" where
  "bench_target =
     \<lparr>tg_client = ''client'', tg_now = ''now'', tg_exn_text = (\<lambda>_. ''error''), tg_json = (\<lambda>_. None),
      tg_arch = (\<lambda>_. Some ''x86''), tg_binding = (\<lambda>_. []), tg_identity = (\<lambda>_. bench_identity),
      tg_refresh = (\<lambda>w. (Some (VDict [(''threadId'', VInt 5)]), w)),
      tg_state = (\<lambda>w. ([(''debugging'', VBool True), (''paused'', VBool True)], w)),
      tg_read = bench_read, tg_write = bench_write, tg_get_register = bench_get, tg_set_register = bench_set,
      tg_held = (\<lambda>_. True), tg_acquire = (\<lambda>w. (Inr [(''ok'', VBool True)], w)), tg_release = (\<lambda>w. (Inr (), w))\<rparr>"

subsection \<open>The bench is honest\<close>

lemma digit_val_bound: "digit_val c = Some v \<Longrightarrow> v < 36"
  by (auto simp: digit_val_def Let_def split: if_split_asm)

lemma hex_value_bound: "hex_value c = Some v \<Longrightarrow> v < 16"
  by (auto simp: hex_value_def split: option.split_asm if_split_asm)

lemma hex_value_digit_char [simp]: "n < 16 \<Longrightarrow> hex_value (digit_char n) = Some n"
  by (simp add: hex_value_def)

lemma from_hex_bytes: "from_hex s = Some bs \<Longrightarrow> b \<in> set bs \<Longrightarrow> b < 256"
proof (induction s arbitrary: bs rule: from_hex.induct)
  case (2 c s)
  from 2 show ?case
    by (auto split: if_split_asm list.split_asm option.split_asm dest!: hex_value_bound)
qed simp

lemma from_hex_pairs: "\<forall>b \<in> set bs. b < 256 \<Longrightarrow> from_hex (concat (map hex_pair bs)) = Some bs"
proof (induction bs)
  case (Cons b bs)
  then have b: "b div 16 < 16" "b mod 16 < 16" by auto
  have "\<not> hex_blank (digit_char (b div 16))" using hex_value_not_blank [of "digit_char (b div 16)"] b by simp
  with Cons b show ?case by (simp add: hex_pair_def)
qed simp

lemma pairs_hex: "\<forall>b \<in> set bs. b < 256 \<Longrightarrow> list_all (\<lambda>c. hex_value c \<noteq> None) (concat (map hex_pair bs))"
  by (induction bs) (auto simp: hex_pair_def)

lemma poke_lookup: "map_of (poke a bs m) i = (if a \<le> i \<and> i < a + int (length bs) then Some (bs ! nat (i - a)) else map_of m i)"
proof (induction bs arbitrary: a)
  case (Cons b bs)
  have "nat (i - a) = Suc (nat (i - (a + 1)))" if "a + 1 \<le> i" using that by simp
  with Cons show ?case by auto
qed auto

lemma cell_poke:
  assumes "\<forall>b \<in> set bs. b < 256"
  shows "cell (poke a bs m, g) = overwrite (cell (m, g)) a bs"
proof
  fix i
  show "cell (poke a bs m, g) i = overwrite (cell (m, g)) a bs i"
    using assms by (auto simp: cell_def poke_lookup overwrite_def nat_less_iff)
qed

lemma overwrite_first: "\<exists>bs'. length bs' = length bs \<and> overwrite m a (take 1 bs) = overwrite m a bs'"
proof (cases bs)
  case (Cons b rest)
  have "overwrite m a [b] = overwrite m a (b # map (\<lambda>k. m (a + 1 + int k)) [0..<length rest])"
    by (auto simp: overwrite_def nth_Cons fun_eq_iff split: nat.split intro!: arg_cong [where f = m])
  with Cons show ?thesis by (intro exI [of _ "b # map (\<lambda>k. m (a + 1 + int k)) [0..<length rest]"]) simp
qed simp

lemma register_poke: "file_register (m, g) = file_register (m', g)"
  by (simp add: file_register_def fun_eq_iff)

lemma refused_texts:
  "says_refused (Inr (VStr ''Error: page is read-only''))" "says_refused (Inr (VStr ''Error: refused''))"
  by code_simp+

lemma real_register_x86: "n \<in> bench_registers \<Longrightarrow> real_register n = n"
proof -
  assume "n \<in> bench_registers"
  moreover have "list_all (\<lambda>n. real_register n = n) snapshot_registers_x86" by code_simp
  ultimately show ?thesis by (simp add: bench_registers_def list_all_iff)
qed

lemma hex_digits_to_base: "list_all (\<lambda>c. hex_value c \<noteq> None) (to_base 16 n)"
  by (induction n rule: to_base_induct [where b = 16]) (simp_all add: to_base_small to_base_step)

lemma hex_literal_hex0x: "0 \<le> i \<Longrightarrow> hex_literal (hex0x i)"
  using hex_digits_to_base [of "nat i"] by (simp add: hex_literal_def hex0x_def base_int_def all_hex_def)

lemma literal_value_hex0x: "0 \<le> i \<Longrightarrow> literal_value (hex0x i) = i"
  by (simp add: literal_value_def)

lemma hex_digit_val: "hex_value c \<noteq> None \<Longrightarrow> c \<noteq> CHR ''_'' \<and> (\<exists>d < 16. digit_val c = Some d)"
  by (auto simp: hex_value_def digit_val_def Let_def split: option.split_asm if_split_asm)

lemma all_hex_digits: "list_all (\<lambda>c. hex_value c \<noteq> None) s \<Longrightarrow> all_digits 16 s"
  using hex_digit_val unfolding all_digits_def list_all_iff by blast

lemma hex_literal_int0:
  assumes "hex_literal t"
  shows "\<exists>i. int0 t = Some i \<and> 0 \<le> i"
proof -
  obtain c x digits where t: "t = c # x # digits" and c: "c = CHR ''0''" and x: "x = CHR ''x'' \<or> x = CHR ''X''" and d: "all_hex digits"
    using assms by (auto simp: hex_literal_def split: list.split_asm)
  have "\<not> int_space c" if "c \<in> set t" for c
    using that t c x d hex_char [of c] int_space_py_space [of c]
    by (auto simp: all_hex_def list_all_iff int_space_def py_space_def)
  then have "strip_with int_space t = t" by (intro strip_with_none)
  moreover have "\<exists>n. scan_base0 t = Some n" 
    using x d scan_all_digits [OF all_hex_digits] unfolding t c
    by (auto simp: scan_base0_def base_of_prefix_def scan_prefixed_def all_hex_def)
  ultimately show ?thesis unfolding int0_def using t c by (auto simp: signed_def)
qed

lemma bench_write_honest: "honest_write bench_target bench_registers cell file_register bench_resolve"
  unfolding honest_write_def
proof (intro allI impI, elim conjE)
  fix a h w r w' bs
  assume h: "from_hex h = Some bs" and run: "tg_write bench_target a h w = (r, w')"
  obtain m g where w: "w = (m, g)" by fastforce
  have bytes: "\<forall>b \<in> set bs. b < 256" using from_hex_bytes [OF h] by blast
  have step: "bench_write a h w = (r, w')" using run by (simp add: bench_target_def)
  have same: "same_registers bench_registers (file_register w) (file_register (m', g))" for m'
    using register_poke [of m g m'] by (simp add: same_registers_def w)
  show "same_registers bench_registers (file_register w) (file_register w')
      \<and> (\<exists>bs'. length bs' = length bs \<and> cell w' = overwrite (cell w) (bench_resolve w a) bs')
      \<and> (\<not> says_refused r \<longrightarrow> cell w' = overwrite (cell w) (bench_resolve w a) bs)"
  proof (cases "238 \<in> set bs")
    case True
    have w': "w' = (poke (bench_resolve w a) (take 1 bs) m, g)" and r: "r = Inr (VStr ''Error: page is read-only'')"
      using step True unfolding bench_write_def h w by simp_all
    have "cell w' = overwrite (cell w) (bench_resolve w a) (take 1 bs)"
      unfolding w' using cell_poke [of "take 1 bs"] bytes in_set_takeD unfolding w by fast
    then show ?thesis using overwrite_first [of bs "cell w" "bench_resolve w a"] refused_texts(1) same
      unfolding r w' by simp
  next
    case False
    then have w': "w' = (poke (bench_resolve w a) bs m, g)" using step unfolding bench_write_def h w by simp
    have "cell w' = overwrite (cell w) (bench_resolve w a) bs" unfolding w' using cell_poke [OF bytes] by (simp add: w)
    then show ?thesis using same unfolding w' by blast
  qed
qed

lemma cell_bound: "cell w i < 256"
  by (simp add: cell_def split: option.split)

lemma same_registers_refl: "same_registers R g g"
  by (simp add: same_registers_def)

lemma bench_read_honest: "honest_read bench_target bench_registers cell file_register bench_resolve"
  unfolding honest_read_def
proof (intro allI impI conjI)
  fix a n w r w' d
  assume run: "tg_read bench_target a n w = (r, w')"
  then have "w' = w" by (simp add: bench_target_def bench_read_def Let_def)
  then show "cell w' = cell w" "same_registers bench_registers (file_register w) (file_register w')" by (simp_all add: same_registers_refl)
  let ?i = "bench_resolve w a"
  let ?bs = "bytes_at (cell w) ?i (nat n)"
  have b: "\<forall>b \<in> set ?bs. b < 256" by (auto simp: bytes_at_def cell_bound)
  assume "r = Inr d \<and> truthy (dict_get d ''ok'')"
  then have d: "0 \<le> ?i" "dict_get d ''addr'' = VStr (hex0x ?i)" "dict_get d ''hex'' = VStr (concat (map hex_pair ?bs))"
    using run by (auto simp: bench_target_def bench_read_def Let_def dict_get_Cons)
  show "\<exists>t h k. dict_get d ''addr'' = VStr t \<and> hex_literal t \<and> literal_value t = ?i \<and> dict_get d ''hex'' = VStr h
      \<and> list_all (\<lambda>c. hex_value c \<noteq> None) h \<and> from_hex h = Some (bytes_at (cell w) ?i k)"
    by (rule exI [of _ "hex0x ?i"], rule exI [of _ "concat (map hex_pair ?bs)"], rule exI [of _ "nat n"])
      (use d from_hex_pairs [OF b] pairs_hex [OF b] hex_literal_hex0x literal_value_hex0x in blast)
qed

lemma bench_set_honest: "honest_set bench_target bench_registers cell file_register"
  unfolding honest_set_def
proof (intro allI impI, elim conjE)
  fix name v w r w'
  assume name: "name \<in> bench_registers" and "tg_set_register bench_target name v w = (r, w')"
  then have run: "bench_set name v w = (r, w')" by (simp add: bench_target_def)
  show "cell w' = cell w \<and> same_registers (bench_registers - {name}) (file_register w) (file_register w')
      \<and> (\<forall>t. v = VStr t \<and> hex_literal t \<and> \<not> says_refused r \<longrightarrow> file_register w' name = literal_value t)"
  proof (cases "\<exists>i. parse_int v None = Some i \<and> 0 \<le> i \<and> i \<noteq> 7777")
    case False
    then have w': "w' = w" "r = Inr (VStr ''Error: refused'')"
      using run unfolding bench_set_def by (auto split: option.split_asm if_split_asm)
    show ?thesis unfolding w' using refused_texts(2) same_registers_refl by blast
  next
    case True
    then obtain i where i: "parse_int v None = Some i" "0 \<le> i" "i \<noteq> 7777" by blast
    have w': "w' = (fst w, (name, nat i) # snd w)" using run i real_register_x86 [OF name] by (simp add: bench_set_def)
    have "literal_value t = i" if "v = VStr t" for t
      using i(1) that by (auto simp: parse_int_def literal_value_def split: if_split_asm option.split_asm)
    moreover have "same_registers (bench_registers - {name}) (file_register w) (file_register w')"
      using real_register_x86 by (simp add: w' same_registers_def file_register_def)
    ultimately show ?thesis using i real_register_x86 [OF name] by (auto simp: w' file_register_def cell_def fun_eq_iff)
  qed
qed

lemma bench_get_honest: "honest_get bench_target bench_registers cell file_register"
  unfolding honest_get_def
proof (intro allI impI, elim conjE)
  fix name w r w'
  assume name: "name \<in> bench_registers" and "tg_get_register bench_target name w = (r, w')"
  then have run: "bench_get name w = (r, w')" by (simp add: bench_target_def)
  let ?v = "file_register w name"
  have "\<exists>t. says_text v t \<and> (hex_literal t \<and> literal_value t = ?v \<or> \<not> starts_with t ''0x'' \<and> \<not> hex_literal (strip t))" if "r = Inr v" for v
  proof (cases "map_of (snd w) (real_register name) = None")
    case True
    have "\<not> starts_with ''Error: unknown register'' ''0x'' \<and> \<not> hex_literal (strip ''Error: unknown register'')" by code_simp
    moreover have "says_text v ''Error: unknown register''" using run that True by (auto simp: bench_get_def says_text_def)
    ultimately show ?thesis by blast
  next
    case False
    have pos: "0 \<le> ?v" by (simp add: file_register_def split: option.split)
    have "says_text v (hex0x ?v)" using run that False by (auto simp: bench_get_def says_text_def dict_get_def dict_get_default_def)
    with hex_literal_hex0x [OF pos] literal_value_hex0x [OF pos] show ?thesis by blast
  qed
  moreover have "w' = w" using run by (simp add: bench_get_def)
  ultimately show "cell w' = cell w \<and> same_registers bench_registers (file_register w) (file_register w')
    \<and> (\<forall>v. r = Inr v \<longrightarrow> (\<exists>t. says_text v t
             \<and> (hex_literal t \<and> literal_value t = ?v \<or> \<not> starts_with t ''0x'' \<and> \<not> hex_literal (strip t))))"
    using same_registers_refl by blast
qed

lemma bench_literal: "hex_literal t \<Longrightarrow> bench_resolve w t = literal_value t"
  using hex_literal_int0 [of t] by (auto simp: bench_resolve_def literal_value_def)

lemma bench_honest: "honest bench_target bench_registers cell file_register bench_resolve"
proof -
  have "lower ''x86'' \<in> {''x86'', ''x32''}" by code_simp
  then have "set (debuggee_registers bench_target w) = bench_registers" for w
    by (simp add: bench_target_def debuggee_registers_def bench_registers_def)
  then have "honest_rest bench_target bench_registers cell file_register bench_resolve"
    unfolding honest_rest_def by (simp add: same_registers_refl bench_literal) (simp add: bench_target_def same_registers_refl)
  then show ?thesis unfolding honest_def using bench_write_honest bench_read_honest bench_set_honest bench_get_honest by blast
qed

subsection \<open>A restore that is refused half way\<close>

definition bench_owner :: pydict where
  "bench_owner = [(''bridgeInstanceId'', VStr ''b1''), (''sessionId'', VStr ''s1''), (''sessionGeneration'', VInt 2),
     (''processId'', VInt 42), (''threadId'', VInt 5)]"

definition bench_snapshot :: pydict where
  "bench_snapshot =
     [(''owner'', VDict bench_owner), (''registers'', VDict [(''eax'', VStr ''0x9'')]),
      (''ranges'', VList [VDict [(''addr'', VStr ''0x10''), (''hex'', VStr ''0102'')], VDict [(''addr'', VStr ''0x20''), (''hex'', VStr ''03ee'')]])]"

definition bench_store :: store where
  "bench_store = \<lparr>st_items = [(''state-2-1-ab'', bench_snapshot)], st_order = [''state-2-1-ab''], st_seq = 1\<rparr>"

definition bench_world :: bench where
  "bench_world = ([(16, 170), (17, 187), (32, 7), (33, 8)], [(''eax'', 5), (''esp'', 16)])"

text \<open>The worlds the run goes through.\<close>

definition world1 :: bench where
  "world1 = ([(16, 1), (17, 2), (16, 170), (17, 187), (32, 7), (33, 8)], [(''eax'', 5), (''esp'', 16)])"

definition world2 :: bench where
  "world2 = ([(32, 3), (16, 1), (17, 2), (16, 170), (17, 187), (32, 7), (33, 8)], [(''eax'', 5), (''esp'', 16)])"

definition world3 :: bench where
  "world3 = ([(32, 7), (33, 8), (32, 3), (16, 1), (17, 2), (16, 170), (17, 187), (32, 7), (33, 8)], [(''eax'', 5), (''esp'', 16)])"

definition world4 :: bench where
  "world4 = ([(16, 170), (17, 187), (32, 7), (33, 8), (32, 3), (16, 1), (17, 2), (16, 170), (17, 187), (32, 7), (33, 8)], [(''eax'', 5), (''esp'', 16)])"

definition world5 :: bench where
  "world5 = (fst world4, [(''eax'', 5), (''eax'', 5), (''esp'', 16)])"

definition shown :: "string \<Rightarrow> string \<Rightarrow> pydict" where
  "shown a h = [(''ok'', VBool True), (''addr'', VStr a), (''sizeRead'', VInt 2), (''hex'', VStr h)]"

definition held :: "string \<Rightarrow> pyval" where
  "held t = VDict [(''result'', VStr t)]"

lemma bench_steps:
  "bench_read ''0x10'' 2 bench_world = (Inr (shown ''0x10'' ''aabb''), bench_world)"
  "bench_read ''0x20'' 2 bench_world = (Inr (shown ''0x20'' ''0708''), bench_world)"
  "bench_get ''eax'' bench_world = (Inr (held ''0x5''), bench_world)"
  "bench_write ''0x10'' ''0102'' bench_world = (Inr (VDict [(''success'', VBool True)]), world1)"
  "bench_read ''0x10'' 2 world1 = (Inr (shown ''0x10'' ''0102''), world1)"
  "bench_write ''0x20'' ''03ee'' world1 = (Inr (VStr ''Error: page is read-only''), world2)"
  "bench_write ''0x20'' ''0708'' world2 = (Inr (VDict [(''success'', VBool True)]), world3)"
  "bench_write ''0x10'' ''aabb'' world3 = (Inr (VDict [(''success'', VBool True)]), world4)"
  "bench_set ''eax'' (VStr ''0x5'') world4 = (Inr (VStr ''Set''), world5)"
  by code_simp+

lemma bench_answers:
  "mutation_result_ok (VDict [(''success'', VBool True)]) = (True, [])"
  "mutation_result_ok (VStr ''Error: page is read-only'') = (False, ''Error: page is read-only'')"
  "mutation_result_ok (VStr ''Set'') = (True, [])"
  "live_register (held ''0x5'') = Some ''0x5''"
  "casefold ''0102'' = ''0102''" "no_blanks ''aabb'' = ''aabb''" "no_blanks ''0708'' = ''0708''" "no_blanks ''0102'' = ''0102''"
  by code_simp+

lemma shown_fields [simp]: "dict_get (shown a h) ''ok'' = VBool True" "text_of (dict_get (shown a h) ''hex'') = h"
  by (simp_all add: shown_def dict_get_Cons text_of_def str_or_empty_def py_or_def)

lemma bench_ops [simp]:
  "tg_read bench_target = bench_read" "tg_write bench_target = bench_write"
  "tg_get_register bench_target = bench_get" "tg_set_register bench_target = bench_set"
  by (simp_all add: bench_target_def)

definition range_a :: prepared_range where
  "range_a = \<lparr>pr_addr = ''0x10'', pr_hex = ''0102'', pr_label = VNone\<rparr>"

definition range_b :: prepared_range where
  "range_b = \<lparr>pr_addr = ''0x20'', pr_hex = ''03ee'', pr_label = VNone\<rparr>"

lemma bench_prepared: "rights (snapshot_ranges True bench_snapshot) = [range_a, range_b]" "lefts (snapshot_ranges True bench_snapshot) = []"
  unfolding range_a_def range_b_def by code_simp+

lemma bench_capture:
  "capture_ranges bench_target [range_a, range_b] bench_world = (Inr (Inr [(''0x10'', ''aabb''), (''0x20'', ''0708'')]), bench_world)"
  "capture_registers bench_target [''eax''] bench_world = (Inr (Inr [(''eax'', ''0x5'')]), bench_world)"
  by (simp_all add: range_a_def range_b_def range_size_def bench_steps bench_answers)

lemma bench_writes:
  "\<exists>steps. write_ranges bench_target [range_a, range_b] bench_world
     = ([''0x10''], Some (range_failure (VStr ''0x20'') ''Error: page is read-only''), steps, world2)"
  by (simp add: range_a_def range_b_def range_size_def bench_steps bench_answers write_range_def shown_label_def py_or_def Let_def)

lemma bench_undo:
  "\<exists>entries steps. undo_ranges bench_target [(''0x20'', ''0708''), (''0x10'', ''aabb'')] world2 = (entries, steps, world4) \<and> all_ok entries"
  "\<exists>entries steps. undo_registers bench_target [(''eax'', ''0x5'')] world4 = (entries, steps, world5) \<and> all_ok entries"
  by (simp_all add: bench_steps bench_answers Let_def all_ok_def dict_get_Cons)

definition bench_ownership :: pydict where
  "bench_ownership = (case snapshot_owner_match bench_target (VDict bench_owner) True bench_world of (Inr d, w) \<Rightarrow> d | (Inl e, w) \<Rightarrow> [])"

lemma bench_owned:
  "snapshot_owner_match bench_target (VDict bench_owner) True bench_world = (Inr bench_ownership, bench_world)"
  "dict_get bench_ownership ''matches'' = VBool True"
  by code_simp+

lemma bench_found: "get_snapshot ''state-2-1-ab'' bench_store = Some bench_snapshot"
  by code_simp

lemma bench_snapshot_fields:
  "dict_get bench_snapshot ''owner'' = VDict bench_owner" "dict_get bench_snapshot ''registers'' = VDict [(''eax'', VStr ''0x9'')]"
  by (simp_all add: bench_snapshot_def dict_get_Cons)

lemma bench_write_phase:
  "\<exists>d. run_restore bench_target sid own [range_a, range_b] regs [(''0x10'', ''aabb''), (''0x20'', ''0708'')] [(''eax'', ''0x5'')] bench_world
     = (d, world5) \<and> transaction_state d = VStr ''rolled_back''"
  using bench_writes bench_undo by (auto simp: run_restore_def Let_def transaction_state_def dict_get_Cons)

lemma bench_run:
  "\<exists>d. restore_state_impl bench_target ''state-2-1-ab'' True bench_store bench_world = (Inr d, world5)
     \<and> transaction_state d = VStr ''rolled_back''"
proof -
  obtain kv rec where kv: "bench_snapshot = kv # rec" by (simp add: bench_snapshot_def)
  have paused: "tg_state bench_target bench_world = ([(''debugging'', VBool True), (''paused'', VBool True)], bench_world)"
    by (simp add: bench_target_def)
  obtain d where d: "run_restore bench_target ''state-2-1-ab'' bench_ownership [range_a, range_b] [(''eax'', VStr ''0x9'')]
      [(''0x10'', ''aabb''), (''0x20'', ''0708'')] [(''eax'', ''0x5'')] bench_world = (d, world5)" "transaction_state d = VStr ''rolled_back''"
    using bench_write_phase by blast
  show ?thesis
    unfolding restore_state_impl_def bench_found kv
    using d by (simp add: bench_snapshot_fields [unfolded kv] bench_owned paused bench_prepared [unfolded kv] bench_capture Let_def py_or_def dict_get_Cons
      del: capture_ranges.simps capture_registers.simps)
qed

text \<open>One range was written, the second write was refused half way: everything is back.\<close>

theorem restore_atomic_witness:
  "\<exists>r w'. restore_state_impl bench_target ''state-2-1-ab'' True bench_store bench_world = (r, w')
     \<and> cell w' = cell bench_world \<and> (\<forall>n \<in> bench_registers. file_register w' n = file_register bench_world n)"
proof -
  obtain d where d: "restore_state_impl bench_target ''state-2-1-ab'' True bench_store bench_world = (Inr d, world5)"
    "transaction_state d = VStr ''rolled_back''" using bench_run by blast
  have "\<forall>e. Inr d = Inr e \<longrightarrow> transaction_state e \<noteq> VStr ''committed'' \<and> transaction_state e \<noteq> VStr ''rollback_failed''"
    using d(2) by auto
  moreover have "restorable bench_registers True bench_snapshot" unfolding bench_registers_def by code_simp
  then have "\<forall>snap. get_snapshot ''state-2-1-ab'' bench_store = Some snap \<longrightarrow> restorable bench_registers True snap" by (simp add: bench_found)
  ultimately have "cell world5 = cell bench_world \<and> (\<forall>n \<in> bench_registers. file_register world5 n = file_register bench_world n)"
    using restore_atomic [OF bench_honest _ d(1)] by blast
  with d(1) show ?thesis by blast
qed

subsection \<open>The store\<close>

theorem snapshots_bounded_witness:
  "store_ok state_limit (fst (fold (step_snapshot bench_target state_limit ''state'' True)
     [Store_step ''a1'' bench_snapshot, Store_step ''b2'' [], Delete_step ''state-2-1-a1''] (empty_store, bench_world)))"
  by (rule snapshots_bounded) code_simp

lemma empty_store_ok: "0 < limit \<Longrightarrow> store_ok limit empty_store"
  by (simp add: store_ok_def empty_store_def)

subsection \<open>Saving and restoring\<close>

definition saved_owner :: pydict where
  "saved_owner = (case capture_owner bench_target True bench_world of (Inr d, w) \<Rightarrow> d | (Inl e, w) \<Rightarrow> [])"

definition saved_fields :: pydict where
  "saved_fields =
     [(''createdAt'', VStr ''now''), (''label'', VStr ''label''), (''registers'', VDict [(''eax'', VStr ''0x5''), (''esp'', VStr ''0x10'')]),
      (''ranges'', VList [VDict [(''label'', VStr ''stack''), (''expr'', VStr ''esp''), (''addr'', VStr ''0x10''), (''size'', VInt 2), (''hex'', VStr ''aabb'')]]),
      (''owner'', VDict saved_owner)]"

definition saved_record :: pydict where
  "saved_record = AList.update ''snapshotId'' (VStr ''state-2-1-a1'') saved_fields"

definition saved_store :: store where
  "saved_store = \<lparr>st_items = [(''state-2-1-a1'', saved_record)], st_order = [''state-2-1-a1''], st_seq = 1\<rparr>"

text \<open>The debuggee has run on: both bytes and the registers have changed, and \<open>esp\<close> stands for another address.\<close>

definition later_world :: bench where
  "later_world = ([(16, 1), (17, 2)], [(''eax'', 9), (''esp'', 40)])"

definition back1 :: bench where
  "back1 = ([(16, 170), (17, 187), (16, 1), (17, 2)], [(''eax'', 9), (''esp'', 40)])"

definition back2 :: bench where
  "back2 = ([(16, 170), (17, 187), (16, 1), (17, 2)], [(''eax'', 5), (''eax'', 9), (''esp'', 40)])"

definition back3 :: bench where
  "back3 = ([(16, 170), (17, 187), (16, 1), (17, 2)], [(''esp'', 16), (''eax'', 5), (''eax'', 9), (''esp'', 40)])"

lemma saving_owner: "capture_owner bench_target True bench_world = (Inr saved_owner, bench_world)"
  by code_simp

lemma saving_strong: "dict_get saved_owner ''strong'' = VBool True"
  by code_simp

lemma saving_registers: "debuggee_registers bench_target bench_world = snapshot_registers_x86"
  by code_simp

lemma saving_specs: "parse_capture_specs bench_target ''stack|esp|2'' = Inr [\<lparr>cs_label = ''stack'', cs_expr = ''esp'', cs_size = 2\<rparr>]"
  by code_simp

lemma saving_stored: "store_state_snapshot bench_target ''a1'' saved_fields empty_store bench_world = (Inr saved_record, saved_store, bench_world)"
  by code_simp

lemmas saving_steps = saving_owner saving_strong saving_registers saving_specs saving_stored

lemma bench_skip:
  assumes "real_register n = n" and "map_of (snd w) n = None"
  shows "read_registers bench_target (n # ns) w = read_registers bench_target ns w"
proof -
  have "bench_get n w = (Inr (VStr ''Error: unknown register''), w)" using assms by (simp add: bench_get_def)
  moreover have "starts_with ''Error: unknown register'' ''0x'' = False" by code_simp
  ultimately show ?thesis by (simp add: text_of_def str_or_empty_def py_or_def split: prod.split)
qed

lemma held_text: "text_of (case held t of VDict d \<Rightarrow> py_or (dict_get d ''result'') (py_or (dict_get d ''value'') (VStr [])) | _ \<Rightarrow> held t) = t"
  by (simp add: held_def dict_get_def dict_get_default_def text_of_def str_or_empty_def py_or_def)

lemma bench_take:
  assumes "bench_get n w = (Inr (held (CHR ''0'' # CHR ''x'' # t)), w)" and "read_registers bench_target ns w = (rest, w)"
  shows "read_registers bench_target (n # ns) w = ((n, VStr (CHR ''0'' # CHR ''x'' # t)) # rest, w)"
  using assms by (simp add: held_text)

definition bench_unknown :: "string list \<Rightarrow> bool" where
  "bench_unknown ns \<longleftrightarrow> list_all (\<lambda>n. real_register n = n \<and> map_of (snd bench_world) n = None) ns"

lemma bench_skips: "bench_unknown ns \<Longrightarrow> read_registers bench_target (ns @ rest) bench_world = read_registers bench_target rest bench_world"
  by (induction ns) (simp_all add: bench_skip bench_unknown_def del: read_registers.simps(2))

lemma saved_registers_read:
  "read_registers bench_target snapshot_registers_x86 bench_world = ([(''eax'', VStr ''0x5''), (''esp'', VStr ''0x10'')], bench_world)"
proof -
  let ?a = "[''ebx'', ''ecx'', ''edx'', ''esi'', ''edi'', ''ebp'']" and ?b = "[''eip'', ''eflags'']"
  have u: "bench_unknown ?a" "bench_unknown ?b" by code_simp+
  have "bench_get ''esp'' bench_world = (Inr (held ''0x10''), bench_world)" by code_simp
  moreover have "read_registers bench_target ?b bench_world = ([], bench_world)" using bench_skips [OF u(2), of "[]"] by simp
  ultimately have "read_registers bench_target (''esp'' # ?b) bench_world = ([(''esp'', VStr ''0x10'')], bench_world)" by (rule bench_take)
  then have "read_registers bench_target (?a @ ''esp'' # ?b) bench_world = ([(''esp'', VStr ''0x10'')], bench_world)"
    unfolding bench_skips [OF u(1)] .
  with bench_steps(3) have "read_registers bench_target (''eax'' # ?a @ ''esp'' # ?b) bench_world
      = ([(''eax'', VStr ''0x5''), (''esp'', VStr ''0x10'')], bench_world)" by (rule bench_take)
  then show ?thesis unfolding snapshot_registers_x86_def append.simps .
qed

lemma saved_range_read:
  "read_ranges bench_target 0 [\<lparr>cs_label = ''stack'', cs_expr = ''esp'', cs_size = 2\<rparr>] bench_world
     = (Inr ([[(''label'', VStr ''stack''), (''expr'', VStr ''esp''), (''addr'', VStr ''0x10''), (''size'', VInt 2), (''hex'', VStr ''aabb'')]], []), bench_world)"
proof -
  have "bench_read ''esp'' 2 bench_world = (Inr (shown ''0x10'' ''aabb''), bench_world)" by code_simp
  then show ?thesis by simp (simp add: shown_def dict_get_Cons range_label_def)
qed

lemma bench_saves:
  "\<exists>d. save_state bench_target ''a1'' ''label'' ''stack|esp|2'' empty_store bench_world = (Inr d, saved_store, bench_world)
     \<and> dict_get d ''ok'' = VBool True \<and> dict_get d ''snapshotId'' = VStr ''state-2-1-a1''"
proof -
  have paused: "tg_state bench_target bench_world = ([(''debugging'', VBool True), (''paused'', VBool True)], bench_world)"
    and now: "tg_now bench_target = ''now''" by (simp_all add: bench_target_def)
  have sid: "dict_get saved_record ''snapshotId'' = VStr ''state-2-1-a1''" by (simp add: saved_record_def)
  show ?thesis
    unfolding save_state_def
    by (simp add: paused now saving_steps [unfolded saved_fields_def] saved_registers_read saved_range_read dict_get_Cons sid del: read_registers.simps read_ranges.simps)
qed

definition range_c :: prepared_range where
  "range_c = \<lparr>pr_addr = ''0x10'', pr_hex = ''aabb'', pr_label = VStr ''stack''\<rparr>"

lemma later_steps:
  "bench_read ''0x10'' 2 later_world = (Inr (shown ''0x10'' ''0102''), later_world)"
  "bench_get ''eax'' later_world = (Inr (held ''0x9''), later_world)"
  "bench_get ''esp'' later_world = (Inr (held ''0x28''), later_world)"
  "bench_write ''0x10'' ''aabb'' later_world = (Inr (VDict [(''success'', VBool True)]), back1)"
  "bench_read ''0x10'' 2 back1 = (Inr (shown ''0x10'' ''aabb''), back1)"
  "bench_set ''eax'' (VStr ''0x5'') back1 = (Inr (VStr ''Set''), back2)"
  "bench_get ''eax'' back2 = (Inr (held ''0x5''), back2)"
  "bench_set ''esp'' (VStr ''0x10'') back2 = (Inr (VStr ''Set''), back3)"
  "bench_get ''esp'' back3 = (Inr (held ''0x10''), back3)"
  by code_simp+

lemma later_answers:
  "live_register (held ''0x9'') = Some ''0x9''" "live_register (held ''0x28'') = Some ''0x28''"
  "parse_int (VStr ''0x5'') None = Some 5" "parse_int (VStr ''0x10'') None = Some 16" "casefold ''aabb'' = ''aabb''"
  by code_simp+

lemma held_seen: "(case held t of VDict d \<Rightarrow> dict_get_default d ''value'' (dict_get d ''result'') | _ \<Rightarrow> held t) = VStr t"
  by (simp add: held_def dict_get_Cons dict_get_default_def)

lemma later_prepared: "rights (snapshot_ranges True saved_record) = [range_c]" "lefts (snapshot_ranges True saved_record) = []"
  unfolding range_c_def by code_simp+

lemma later_found: "get_snapshot ''state-2-1-a1'' saved_store = Some saved_record"
  by code_simp

definition later_ownership :: pydict where
  "later_ownership = (case snapshot_owner_match bench_target (VDict saved_owner) True later_world of (Inr d, w) \<Rightarrow> d | (Inl e, w) \<Rightarrow> [])"

lemma later_owned: "snapshot_owner_match bench_target (VDict saved_owner) True later_world = (Inr later_ownership, later_world)"
  by code_simp

lemma later_matches: "dict_get later_ownership ''matches'' = VBool True"
  by code_simp

lemma later_fields:
  "dict_get saved_record ''owner'' = VDict saved_owner" "dict_get saved_record ''registers'' = VDict [(''eax'', VStr ''0x5''), (''esp'', VStr ''0x10'')]"
  by (simp_all add: saved_record_def saved_fields_def dict_get_Cons)

lemma later_capture:
  "capture_ranges bench_target [range_c] later_world = (Inr (Inr [(''0x10'', ''0102'')]), later_world)"
  "capture_registers bench_target [''eax'', ''esp''] later_world = (Inr (Inr [(''eax'', ''0x9''), (''esp'', ''0x28'')]), later_world)"
  by (simp_all add: range_c_def range_size_def later_steps later_answers bench_answers)

definition later_registers :: "(string \<times> pyval) list" where
  "later_registers = [(''eax'', VStr ''0x5''), (''esp'', VStr ''0x10'')]"

lemma later_order: "ordered_registers later_registers = later_registers"
  by code_simp

lemma later_writes:
  "\<exists>steps. write_ranges bench_target [range_c] later_world = ([''stack''], None, steps, back1)"
  "\<exists>steps. write_registers bench_target later_registers back1 = ([''eax'', ''esp''], None, steps, back3)"
  by (simp_all add: range_c_def range_size_def later_steps later_answers bench_answers write_range_def write_register_def held_seen
      later_registers_def shown_label_def py_or_def Let_def)

lemma bench_restores:
  "\<exists>d. restore_state_impl bench_target ''state-2-1-a1'' True saved_store later_world = (Inr d, back3) \<and> dict_get d ''ok'' = VBool True"
proof -
  obtain kv rec where kv: "saved_record = kv # rec" by (simp add: saved_record_def saved_fields_def)
  have paused: "tg_state bench_target later_world = ([(''debugging'', VBool True), (''paused'', VBool True)], later_world)"
    by (simp add: bench_target_def)
  have "\<exists>d. run_restore bench_target ''state-2-1-a1'' later_ownership [range_c] later_registers [(''0x10'', ''0102'')]
      [(''eax'', ''0x9''), (''esp'', ''0x28'')] later_world = (d, back3) \<and> dict_get d ''ok'' = VBool True"
    using later_writes by (auto simp: run_restore_def later_order Let_def dict_get_Cons)
  then obtain d where d: "run_restore bench_target ''state-2-1-a1'' later_ownership [range_c] later_registers
      [(''0x10'', ''0102'')] [(''eax'', ''0x9''), (''esp'', ''0x28'')] later_world = (d, back3)" "dict_get d ''ok'' = VBool True" by blast
  show ?thesis
    unfolding restore_state_impl_def later_found kv
    using d by (simp add: later_fields [unfolded kv] later_registers_def later_owned later_matches paused later_prepared [unfolded kv] later_capture Let_def py_or_def dict_get_Cons
      del: capture_ranges.simps capture_registers.simps)
qed

theorem save_restore_roundtrip_witness:
  "\<exists>saved st' w1 d w3 snap.
     save_state bench_target ''a1'' ''label'' ''stack|esp|2'' empty_store bench_world = (Inr saved, st', w1)
     \<and> restore_state_impl bench_target ''state-2-1-a1'' True st' later_world = (Inr d, w3)
     \<and> get_snapshot ''state-2-1-a1'' st' = Some snap
     \<and> cell w3 = (\<lambda>i. if i \<in> span (saved_ranges True snap) then cell bench_world i else cell later_world i)
     \<and> span (saved_ranges True snap) = {16, 17}
     \<and> (\<forall>n \<in> bench_registers. file_register w3 n
           = (if n \<in> fst ` set (saved_registers snap) then file_register bench_world n else file_register later_world n))"
proof -
  obtain saved where s: "save_state bench_target ''a1'' ''label'' ''stack|esp|2'' empty_store bench_world = (Inr saved, saved_store, bench_world)"
    "dict_get saved ''ok'' = VBool True" "dict_get saved ''snapshotId'' = VStr ''state-2-1-a1''" using bench_saves by blast
  obtain d where d: "restore_state_impl bench_target ''state-2-1-a1'' True saved_store later_world = (Inr d, back3)"
    "dict_get d ''ok'' = VBool True" using bench_restores by blast
  have ok: "store_ok state_limit empty_store" by (rule empty_store_ok) (simp add: state_limit_def)
  have token: "hex_token ''a1''" by code_simp
  obtain snap where snap: "get_snapshot ''state-2-1-a1'' saved_store = Some snap"
    "cell back3 = (\<lambda>i. if i \<in> span (saved_ranges True snap) then cell bench_world i else cell later_world i)"
    "\<forall>n \<in> bench_registers. file_register back3 n
           = (if n \<in> fst ` set (saved_registers snap) then file_register bench_world n else file_register later_world n)"
    using save_restore_roundtrip [OF bench_honest ok token s d] by blast
  then have "saved_ranges True snap = [(''0x10'', ''aabb'')]"
    using later_prepared(1) by (simp add: later_found saved_ranges_def entries_of_def range_c_def)
  moreover have "literal_value ''0x10'' = 16" by code_simp
  ultimately have "span (saved_ranges True snap) = {16, 17}" by auto
  with s(1) d(1) snap show ?thesis by blast
qed

end
