(* ===== verification/PeLayout.thy ===== *)
theory PeLayout
  imports PyValue "HOL-Library.Product_Lexorder"
begin

text \<open>
  The layout of a PE image, from \<open>runtime_sections/00_bootstrap_and_session.py\<close>
  (\<open>_read_c_string\<close>, \<open>_parse_pe_layout\<close>). The file is a list of bytes, each a natural number below 256.
  \<open>struct.unpack_from\<close> raises when a field is not inside the file; every read of the model does. Numbers
  that the result shows as hexadecimal text are kept as numbers; the entropies and the path are left out.
\<close>

type_synonym bytes = "nat list"

datatype pe_error = Too_small | Missing_mz | Invalid_header | Bad_magic nat | Struct_error

type_synonym 'a parsed = "pe_error + 'a"

subsection \<open>Reading fields\<close>

definition slice :: "bytes \<Rightarrow> nat \<Rightarrow> nat \<Rightarrow> bytes" where
  "slice data off n = take n (drop off data)"

definition le_value :: "bytes \<Rightarrow> nat" where
  "le_value bs = foldr (\<lambda>b v. b + 256 * v) bs 0"

definition read_int :: "nat \<Rightarrow> bytes \<Rightarrow> nat \<Rightarrow> nat parsed" where
  "read_int n data off = (if off + n > length data then Inl Struct_error else Inr (le_value (slice data off n)))"

fun unpack :: "nat list \<Rightarrow> bytes \<Rightarrow> nat \<Rightarrow> nat list parsed" where
  "unpack [] data off = Inr []"
| "unpack (n # ns) data off =
     sum_bind (read_int n data off) (\<lambda>v. sum_bind (unpack ns data (off + n)) (\<lambda>vs. Inr (v # vs)))"

text \<open>Bytes beyond ASCII are dropped.\<close>

definition ascii_text :: "bytes \<Rightarrow> string" where
  "ascii_text bs = map char_of (filter (\<lambda>b. b < 128) bs)"

definition read_c_string :: "bytes \<Rightarrow> nat \<Rightarrow> string" where
  "read_c_string data off = ascii_text (takeWhile (\<lambda>b. b \<noteq> 0) (drop off data))"

definition flag :: "nat \<Rightarrow> nat \<Rightarrow> bool" where
  "flag k v \<longleftrightarrow> odd (v div 2 ^ k)"

subsection \<open>Headers\<close>

record pe_header =
  ph_machine :: nat
  ph_section_count :: nat
  ph_time :: nat
  ph_optional_size :: nat
  ph_characteristics :: nat
  ph_is64 :: bool
  ph_entry :: nat
  ph_image_base :: nat
  ph_image_size :: nat
  ph_header_size :: nat
  ph_checksum :: nat
  ph_subsystem :: nat
  ph_dll :: nat
  ph_section_alignment :: nat
  ph_file_alignment :: nat
  ph_directories :: "(nat \<times> nat) list"

fun read_directories :: "nat \<Rightarrow> bytes \<Rightarrow> nat \<Rightarrow> (nat \<times> nat) list parsed" where
  "read_directories 0 data off = Inr []"
| "read_directories (Suc n) data off =
     sum_bind (read_int 4 data off) (\<lambda>rva. sum_bind (read_int 4 data (off + 4)) (\<lambda>size.
     sum_bind (read_directories n data (off + 8)) (\<lambda>rest. Inr ((rva, size) # rest))))"

definition pe_offset :: "bytes \<Rightarrow> nat parsed" where
  "pe_offset data =
     (if length data < 256 then Inl Too_small
      else if take 2 data \<noteq> [77, 90] then Inl Missing_mz
      else sum_bind (read_int 4 data 60) (\<lambda>pe.
        if pe + 24 \<ge> length data \<or> slice data pe 4 \<noteq> [80, 69, 0, 0] then Inl Invalid_header else Inr pe))"

definition read_optional :: "bytes \<Rightarrow> nat \<Rightarrow> nat list \<Rightarrow> pe_header parsed" where
  "read_optional data opt coff =
     sum_bind (read_int 2 data opt) (\<lambda>magic.
     if magic \<noteq> 267 \<and> magic \<noteq> 523 then Inl (Bad_magic magic)
     else (let is64 = (magic = 523) in
     sum_bind (read_int 4 data (opt + 16)) (\<lambda>entry.
     sum_bind (if is64 then read_int 8 data (opt + 24) else read_int 4 data (opt + 28)) (\<lambda>base.
     sum_bind (read_int 4 data (opt + 56)) (\<lambda>image_size.
     sum_bind (read_int 4 data (opt + 60)) (\<lambda>header_size.
     sum_bind (read_int 4 data (opt + 64)) (\<lambda>checksum.
     sum_bind (read_int 2 data (opt + 68)) (\<lambda>subsystem.
     sum_bind (read_int 2 data (opt + 70)) (\<lambda>dll.
     sum_bind (read_int 4 data (opt + 32)) (\<lambda>section_alignment.
     sum_bind (read_int 4 data (opt + 36)) (\<lambda>file_alignment.
     sum_bind (read_int 4 data (opt + (if is64 then 108 else 92))) (\<lambda>count.
     sum_bind (read_directories (min count 16) data (opt + (if is64 then 112 else 96))) (\<lambda>directories.
       Inr \<lparr>ph_machine = coff ! 0, ph_section_count = coff ! 1, ph_time = coff ! 2, ph_optional_size = coff ! 5,
         ph_characteristics = coff ! 6, ph_is64 = is64, ph_entry = entry, ph_image_base = base, ph_image_size = image_size,
         ph_header_size = header_size, ph_checksum = checksum, ph_subsystem = subsystem, ph_dll = dll,
         ph_section_alignment = section_alignment, ph_file_alignment = file_alignment, ph_directories = directories\<rparr>)))))))))))))"

definition read_header :: "bytes \<Rightarrow> (nat \<times> pe_header) parsed" where
  "read_header data =
     sum_bind (pe_offset data) (\<lambda>pe.
     sum_bind (unpack [2, 2, 4, 4, 4, 2, 2] data (pe + 4)) (\<lambda>coff.
     sum_bind (read_optional data (pe + 24) coff) (\<lambda>h. Inr (pe, h))))"

subsection \<open>Sections\<close>

record pe_section =
  ps_name :: string
  ps_va :: nat
  ps_vsize :: nat
  ps_rsize :: nat
  ps_raw :: nat
  ps_characteristics :: nat

definition ps_executable :: "pe_section \<Rightarrow> bool" where
  "ps_executable s = flag 29 (ps_characteristics s)"

definition ps_writable :: "pe_section \<Rightarrow> bool" where
  "ps_writable s = flag 31 (ps_characteristics s)"

definition ps_readable :: "pe_section \<Rightarrow> bool" where
  "ps_readable s = flag 30 (ps_characteristics s)"

text \<open>The table ends early where the file does.\<close>

fun read_sections :: "nat \<Rightarrow> bytes \<Rightarrow> nat \<Rightarrow> pe_section list parsed" where
  "read_sections 0 data off = Inr []"
| "read_sections (Suc n) data off =
     (if off + 40 > length data then Inr []
      else sum_bind (unpack [4, 4, 4, 4, 4, 4, 2, 2, 4] data (off + 8)) (\<lambda>f.
           sum_bind (read_sections n data (off + 40)) (\<lambda>rest.
             Inr (\<lparr>ps_name = ascii_text (takeWhile (\<lambda>b. b \<noteq> 0) (slice data off 8)), ps_va = f ! 1, ps_vsize = f ! 0,
                   ps_rsize = f ! 2, ps_raw = f ! 3, ps_characteristics = f ! 8\<rparr> # rest))))"

definition section_holds :: "nat \<Rightarrow> pe_section \<Rightarrow> bool" where
  "section_holds rva s \<longleftrightarrow> ps_va s \<le> rva \<and> rva < ps_va s + max (ps_vsize s) (ps_rsize s)"

text \<open>The offset 0 says that an address is not in the file.\<close>

definition rva_to_offset :: "pe_section list \<Rightarrow> nat \<Rightarrow> nat \<Rightarrow> nat" where
  "rva_to_offset sections header_size rva =
     (case find (section_holds rva) sections of
        Some s \<Rightarrow> ps_raw s + (rva - ps_va s)
      | None \<Rightarrow> if rva < header_size then rva else 0)"

definition directory :: "pe_header \<Rightarrow> nat \<Rightarrow> nat \<times> nat" where
  "directory h i = (if i < length (ph_directories h) then ph_directories h ! i else (0, 0))"

definition step_size :: "pe_header \<Rightarrow> nat" where
  "step_size h = (if ph_is64 h then 8 else 4)"

lemma step_size_pos [simp]: "0 < step_size h"
  by (simp add: step_size_def)

subsection \<open>Imports\<close>

definition thunk_name :: "pe_header \<Rightarrow> pe_section list \<Rightarrow> bytes \<Rightarrow> nat \<Rightarrow> string" where
  "thunk_name h sections data v =
     (if flag (if ph_is64 h then 63 else 31) v then ''ordinal:'' @ dec (int (v mod 65536))
      else (let off = rva_to_offset sections (ph_header_size h) v;
                name = (if off \<noteq> 0 then read_c_string data (off + 2) else []) in
            if name = [] then ''rva:'' @ hex0X (int v) else name))"

function read_thunks :: "pe_header \<Rightarrow> pe_section list \<Rightarrow> bytes \<Rightarrow> nat \<Rightarrow> nat \<Rightarrow> string list parsed" where
  "read_thunks h sections data off count =
     (if off + step_size h \<le> length data \<and> count < 1000000
      then sum_bind (read_int (step_size h) data off) (\<lambda>v.
           if v = 0 then Inr []
           else sum_bind (read_thunks h sections data (off + step_size h) (count + 1)) (\<lambda>rest. Inr (thunk_name h sections data v # rest)))
      else Inr [])"
  by pat_completeness auto
termination
  by (relation "measure (\<lambda>(h, sections, data, off, count). length data - off)")
    (auto simp: step_size_def split: if_split_asm)

declare read_thunks.simps [simp del]

record pe_import =
  pi_dll :: string
  pi_functions :: "string list"

definition read_import :: "pe_header \<Rightarrow> pe_section list \<Rightarrow> bytes \<Rightarrow> nat list \<Rightarrow> pe_import parsed" where
  "read_import h sections data f =
     (let original = f ! 0; name_rva = f ! 3; first = f ! 4; offset = rva_to_offset sections (ph_header_size h);
          dll = (if offset name_rva \<noteq> 0 then read_c_string data (offset name_rva) else []);
          thunk = offset (if original \<noteq> 0 then original else first)
      in sum_bind (if thunk \<noteq> 0 then read_thunks h sections data thunk 0 else Inr []) (\<lambda>functions.
           Inr \<lparr>pi_dll = dll, pi_functions = functions\<rparr>))"

function read_imports :: "pe_header \<Rightarrow> pe_section list \<Rightarrow> bytes \<Rightarrow> nat \<Rightarrow> nat \<Rightarrow> pe_import list parsed" where
  "read_imports h sections data cursor count =
     (if cursor \<noteq> 0 \<and> cursor + 20 \<le> length data \<and> count < 4096
      then sum_bind (unpack [4, 4, 4, 4, 4] data cursor) (\<lambda>f.
           if f ! 0 = 0 \<and> f ! 3 = 0 \<and> f ! 4 = 0 then Inr []
           else sum_bind (read_import h sections data f) (\<lambda>i.
                sum_bind (read_imports h sections data (cursor + 20) (count + 1)) (\<lambda>rest. Inr (i # rest))))
      else Inr [])"
  by pat_completeness auto
termination
  by (relation "measure (\<lambda>(h, sections, data, cursor, count). length data - cursor)") auto

declare read_imports.simps [simp del]

definition imports_of :: "pe_header \<Rightarrow> pe_section list \<Rightarrow> bytes \<Rightarrow> pe_import list parsed" where
  "imports_of h sections data =
     (let (rva, size) = directory h 1 in
      if rva \<noteq> 0 \<and> size \<noteq> 0 then read_imports h sections data (rva_to_offset sections (ph_header_size h) rva) 0 else Inr [])"

subsection \<open>Exports\<close>

record pe_export =
  px_name :: string
  px_rva :: nat
  px_ordinal :: nat
  px_forwarder :: "string option"

record export_table =
  et_rva :: nat
  et_size :: nat
  et_base :: nat
  et_function_count :: nat
  et_functions :: nat
  et_names :: nat
  et_ordinals :: nat

definition export_entry :: "pe_header \<Rightarrow> pe_section list \<Rightarrow> bytes \<Rightarrow> export_table \<Rightarrow> nat \<Rightarrow> pe_export option parsed" where
  "export_entry h sections data t i =
     sum_bind (read_int 4 data (et_names t + i * 4)) (\<lambda>name_rva.
     sum_bind (read_int 2 data (et_ordinals t + i * 2)) (\<lambda>ordinal.
     if et_function_count t \<le> ordinal \<or> et_functions t + ordinal * 4 + 4 > length data then Inr None
     else sum_bind (read_int 4 data (et_functions t + ordinal * 4)) (\<lambda>rva.
       let offset = rva_to_offset sections (ph_header_size h);
           name = (if offset name_rva \<noteq> 0 then read_c_string data (offset name_rva) else []);
           forwarded = (et_rva t \<le> rva \<and> rva < et_rva t + et_size t);
           target = (if forwarded then offset rva else 0)
       in if name = [] then Inr None
          else Inr (Some \<lparr>px_name = name, px_rva = rva, px_ordinal = et_base t + ordinal,
                 px_forwarder = (if target \<noteq> 0 then Some (read_c_string data target) else None)\<rparr>))))"

function read_exports :: "pe_header \<Rightarrow> pe_section list \<Rightarrow> bytes \<Rightarrow> export_table \<Rightarrow> nat \<Rightarrow> nat \<Rightarrow> pe_export list parsed" where
  "read_exports h sections data t bound i =
     (if i \<ge> bound then Inr []
      else if et_functions t = 0 \<or> et_names t = 0 \<or> et_ordinals t = 0 \<or> et_names t + i * 4 + 4 > length data
        \<or> et_ordinals t + i * 2 + 2 > length data then Inr []
      else sum_bind (export_entry h sections data t i) (\<lambda>e.
           sum_bind (read_exports h sections data t bound (i + 1)) (\<lambda>rest.
             Inr ((case e of Some x \<Rightarrow> [x] | None \<Rightarrow> []) @ rest))))"
  by pat_completeness auto
termination
  by (relation "measure (\<lambda>(h, sections, data, t, bound, i). bound - i)") auto

declare read_exports.simps [simp del]

definition export_rank :: "pe_export \<Rightarrow> nat \<times> nat list" where
  "export_rank x = (px_rva x, map cp (casefold (px_name x)))"

definition exports_of :: "pe_header \<Rightarrow> pe_section list \<Rightarrow> bytes \<Rightarrow> pe_export list parsed" where
  "exports_of h sections data =
     (let (rva, size) = directory h 0; offset = rva_to_offset sections (ph_header_size h) in
      if rva = 0 \<or> size = 0 \<or> offset rva = 0 \<or> offset rva + 40 > length data then Inr []
      else sum_bind (unpack [4, 4, 2, 2, 4, 4, 4, 4, 4, 4, 4] data (offset rva)) (\<lambda>f.
           sum_bind (read_exports h sections data
             \<lparr>et_rva = rva, et_size = size, et_base = f ! 5, et_function_count = f ! 6,
              et_functions = offset (f ! 8), et_names = offset (f ! 9), et_ordinals = offset (f ! 10)\<rparr> (min (f ! 7) 1000000) 0) (\<lambda>xs.
           Inr (sort_key export_rank xs))))"

subsection \<open>Callbacks of thread local storage\<close>

record tls_callback =
  tc_index :: nat
  tc_rva :: nat
  tc_va :: nat
  tc_encoding :: string
  tc_section :: "string option"
  tc_executable :: bool

record pe_tls =
  pt_callbacks_va :: nat
  pt_callbacks :: "tls_callback list"
  pt_diagnostics :: "string list"

text \<open>An address inside the image, or a small one that is taken as an offset into it.\<close>

definition image_limit :: "pe_header \<Rightarrow> nat" where
  "image_limit h = max (ph_image_size h) 1"

definition image_rva :: "pe_header \<Rightarrow> nat \<Rightarrow> (nat \<times> bool) option" where
  "image_rva h va =
     (if ph_image_base h \<le> va \<and> va < ph_image_base h + image_limit h then Some (va - ph_image_base h, True)
      else if va < image_limit h then Some (va, False) else None)"

definition callback_at :: "pe_header \<Rightarrow> pe_section list \<Rightarrow> nat \<Rightarrow> nat \<Rightarrow> bool \<Rightarrow> tls_callback" where
  "callback_at h sections i rva is_va =
     (let section = find (section_holds rva) sections in
      \<lparr>tc_index = i, tc_rva = rva, tc_va = ph_image_base h + rva, tc_encoding = (if is_va then ''va'' else ''rva''),
       tc_section = map_option ps_name section, tc_executable = (case section of Some s \<Rightarrow> ps_executable s | None \<Rightarrow> False)\<rparr>)"

function read_callbacks :: "pe_header \<Rightarrow> pe_section list \<Rightarrow> bytes \<Rightarrow> nat \<Rightarrow> nat \<Rightarrow> (tls_callback list \<times> string list) parsed" where
  "read_callbacks h sections data off i =
     (if i \<ge> 128 then Inr ([], [])
      else if off = 0 \<or> off + step_size h > length data
      then Inr ([], if i = 0 then [''callbacks_array_unmapped''] else [])
      else sum_bind (read_int (step_size h) data off) (\<lambda>va.
        if va = 0 then Inr ([], [])
        else (case image_rva h va of
                None \<Rightarrow> Inr ([], [''callback_'' @ dec (int i) @ ''_outside_image''])
              | Some (rva, is_va) \<Rightarrow>
                  sum_bind (read_callbacks h sections data (off + step_size h) (i + 1)) (\<lambda>(rest, diagnostics).
                    Inr (callback_at h sections i rva is_va # rest,
                      (if is_va then [] else [''callback_'' @ dec (int i) @ ''_was_rva_not_va'']) @ diagnostics)))))"
  by pat_completeness auto
termination
  by (relation "measure (\<lambda>(h, sections, data, off, i). 128 - i)") auto

declare read_callbacks.simps [simp del]

definition tls_of :: "pe_header \<Rightarrow> pe_section list \<Rightarrow> bytes \<Rightarrow> pe_tls parsed" where
  "tls_of h sections data =
     (let rva = fst (directory h 9); offset = rva_to_offset sections (ph_header_size h);
          off = (if rva \<noteq> 0 then offset rva else 0); width = (if ph_is64 h then 40 else 24)
      in if off = 0 \<or> off + width > length data
         then Inr \<lparr>pt_callbacks_va = 0, pt_callbacks = [],
                pt_diagnostics = (if rva \<noteq> 0 then [''tls_directory_unmapped_or_truncated''] else [])\<rparr>
         else sum_bind (unpack (if ph_is64 h then [8, 8, 8, 8, 4, 4] else [4, 4, 4, 4, 4, 4]) data off) (\<lambda>f.
           let va = f ! 3 in
           if va = 0 then Inr \<lparr>pt_callbacks_va = 0, pt_callbacks = [], pt_diagnostics = [''callbacks_address_is_null'']\<rparr>
           else (let (start, notes) = (case image_rva h va of
                        Some (r, True) \<Rightarrow> (r, []) | Some (r, False) \<Rightarrow> (r, [''callbacks_address_was_rva_not_va''])
                      | None \<Rightarrow> (0, [''callbacks_address_outside_image'']))
                 in sum_bind (read_callbacks h sections data (if start \<noteq> 0 then offset start else 0) 0) (\<lambda>(callbacks, diagnostics).
                    Inr \<lparr>pt_callbacks_va = va, pt_callbacks = callbacks, pt_diagnostics = notes @ diagnostics\<rparr>))))"

subsection \<open>The exception directory\<close>

record runtime_function =
  rf_index :: nat
  rf_begin :: nat
  rf_end :: nat
  rf_unwind :: nat

record exception_table =
  xt_functions :: "runtime_function list"
  xt_count :: nat
  xt_invalid :: nat
  xt_diagnostics :: "string list"

definition empty_exceptions :: exception_table where
  "empty_exceptions = \<lparr>xt_functions = [], xt_count = 0, xt_invalid = 0, xt_diagnostics = []\<rparr>"

definition add_diagnostic :: "string \<Rightarrow> exception_table \<Rightarrow> exception_table" where
  "add_diagnostic message t =
     (if length (xt_diagnostics t) < 32 then t\<lparr>xt_diagnostics := xt_diagnostics t @ [message]\<rparr> else t)"

definition add_runtime_function :: "pe_header \<Rightarrow> nat \<Rightarrow> nat list \<Rightarrow> exception_table \<Rightarrow> exception_table" where
  "add_runtime_function h i f t =
     (if f ! 0 = 0 \<and> f ! 1 = 0 \<and> f ! 2 = 0 then t
      else if f ! 0 \<ge> f ! 1 \<or> f ! 1 > image_limit h
      then add_diagnostic (''runtime_function_'' @ dec (int i) @ ''_invalid_range'') (t\<lparr>xt_invalid := xt_invalid t + 1\<rparr>)
      else (let t = t\<lparr>xt_count := xt_count t + 1\<rparr> in
            if length (xt_functions t) < 256
            then t\<lparr>xt_functions := xt_functions t @ [\<lparr>rf_index = i, rf_begin = f ! 0, rf_end = f ! 1, rf_unwind = f ! 2\<rparr>]\<rparr>
            else t))"

function read_runtime_functions :: "pe_header \<Rightarrow> bytes \<Rightarrow> nat \<Rightarrow> nat \<Rightarrow> nat \<Rightarrow> exception_table \<Rightarrow> exception_table parsed" where
  "read_runtime_functions h data off count i t =
     (if i \<ge> count then Inr t
      else if off + i * 12 + 12 > length data then Inr (add_diagnostic ''runtime_function_table_truncated'' t)
      else sum_bind (unpack [4, 4, 4] data (off + i * 12)) (\<lambda>f.
           read_runtime_functions h data off count (i + 1) (add_runtime_function h i f t)))"
  by pat_completeness auto
termination
  by (relation "measure (\<lambda>(h, data, off, count, i, t). count - i)") auto

declare read_runtime_functions.simps [simp del]

definition exceptions_of :: "pe_header \<Rightarrow> pe_section list \<Rightarrow> bytes \<Rightarrow> exception_table parsed" where
  "exceptions_of h sections data =
     (let (rva, size) = directory h 3; off = (if rva \<noteq> 0 then rva_to_offset sections (ph_header_size h) rva else 0) in
      if \<not> ph_is64 h \<or> rva = 0 \<or> size = 0 then Inr empty_exceptions
      else if off = 0 then Inr (add_diagnostic ''exception_directory_unmapped'' empty_exceptions)
      else read_runtime_functions h data off (min (size div 12) 16384) 0 empty_exceptions)"

subsection \<open>The layout\<close>

record pe_layout =
  pl_header :: pe_header
  pl_file_size :: nat
  pl_sections :: "pe_section list"
  pl_imports :: "pe_import list"
  pl_exports :: "pe_export list"
  pl_tls :: pe_tls
  pl_exceptions :: exception_table
  pl_entry_section :: "pe_section option"

definition parse_pe_layout :: "bytes \<Rightarrow> pe_layout parsed" where
  "parse_pe_layout data =
     sum_bind (read_header data) (\<lambda>(pe, h).
     sum_bind (read_sections (ph_section_count h) data (pe + 24 + ph_optional_size h)) (\<lambda>sections.
     sum_bind (imports_of h sections data) (\<lambda>imports.
     sum_bind (exports_of h sections data) (\<lambda>exports.
     sum_bind (tls_of h sections data) (\<lambda>tls.
     sum_bind (exceptions_of h sections data) (\<lambda>exceptions.
       Inr \<lparr>pl_header = h, pl_file_size = length data, pl_sections = sections, pl_imports = imports, pl_exports = exports,
         pl_tls = tls, pl_exceptions = exceptions, pl_entry_section = find (section_holds (ph_entry h)) sections\<rparr>))))))"

end
