(* ===== verification/PeProps.thy ===== *)
theory PeProps
  imports PeLayout
begin

text \<open>
  The parser of PE images: it never fails after the headers, its results are bounded whatever the file
  says, and it reads back the headers and the section table of an image that is written field by field.
\<close>

subsection \<open>Reads inside the file\<close>

lemma read_int_ok: "off + n \<le> length data \<Longrightarrow> \<exists>v. read_int n data off = Inr v"
  by (simp add: read_int_def)

lemma unpack_ok: "off + sum_list ns \<le> length data \<Longrightarrow> \<exists>vs. unpack ns data off = Inr vs \<and> length vs = length ns"
proof (induction ns arbitrary: off)
  case (Cons n ns)
  then have "off + n \<le> length data" "off + n + sum_list ns \<le> length data" by simp_all
  with Cons.IH [of "off + n"] read_int_ok show ?case by (metis unpack.simps(2) sum_bind_simps(2) length_Cons)
qed simp

lemma unpack_error: "unpack ns data off = Inl e \<Longrightarrow> e = Struct_error \<and> length data < off + sum_list ns"
proof -
  have "unpack ns data off = Inl e \<Longrightarrow> e = Struct_error"
    by (induction ns arbitrary: off) (auto simp: read_int_def sum_bind_def split: if_split_asm sum.split_asm)
  moreover assume "unpack ns data off = Inl e"
  ultimately show ?thesis using unpack_ok [of off ns data] by (metis Inl_Inr_False not_le)
qed

declare unpack.simps [simp del]

text \<open>A parser that never fails.\<close>

definition total :: "'a parsed \<Rightarrow> bool" where
  "total r \<longleftrightarrow> (\<exists>x. r = Inr x)"

lemma total_Inr [simp]: "total (Inr x)"
  by (simp add: total_def)

lemma total_bind: "total r \<Longrightarrow> (\<And>x. r = Inr x \<Longrightarrow> total (f x)) \<Longrightarrow> total (sum_bind r f)"
  by (auto simp: total_def)

lemma total_read: "off + n \<le> length data \<Longrightarrow> total (read_int n data off)"
  using read_int_ok by (simp add: total_def)

lemma total_unpack: "off + sum_list ns \<le> length data \<Longrightarrow> total (unpack ns data off)"
  using unpack_ok [of off ns data] by (auto simp: total_def)

lemma total_sections: "total (read_sections n data off)"
  by (induction n arbitrary: off) (auto intro!: total_bind total_unpack)

lemma total_thunks: "total (read_thunks h sections data off count)"
proof (induction h sections data off count rule: read_thunks.induct)
  case (1 h sections data off count)
  then show ?case by (subst read_thunks.simps) (auto intro!: total_bind total_read)
qed

lemma total_imports: "total (read_imports h sections data cursor count)"
proof (induction h sections data cursor count rule: read_imports.induct)
  case (1 h sections data cursor count)
  have "total (read_import h sections data f)" for f
    by (auto simp: read_import_def Let_def intro!: total_bind total_thunks)
  with 1 show ?case by (subst read_imports.simps) (auto intro!: total_bind total_unpack; blast)
qed

lemma total_export: "et_names t + i * 4 + 4 \<le> length data \<Longrightarrow> et_ordinals t + i * 2 + 2 \<le> length data
    \<Longrightarrow> total (export_entry h sections data t i)"
  unfolding export_entry_def by (auto simp: Let_def intro!: total_bind total_read)

lemma total_exports: "total (read_exports h sections data t bound i)"
proof (induction h sections data t bound i rule: read_exports.induct)
  case (1 h sections data t bound i)
  then show ?case by (subst read_exports.simps) (auto intro!: total_bind total_export)
qed

lemma total_callbacks: "total (read_callbacks h sections data off i)"
proof (induction h sections data off i rule: read_callbacks.induct)
  case (1 h sections data off i)
  then show ?case
    by (subst read_callbacks.simps) (auto intro!: total_bind total_read split: option.split prod.split)
qed

lemma total_runtime_functions: "total (read_runtime_functions h data off count i t)"
proof (induction h data off count i t rule: read_runtime_functions.induct)
  case (1 h data off count i t)
  then show ?case by (subst read_runtime_functions.simps) (auto intro!: total_bind total_unpack)
qed

lemma total_body:
  "total (imports_of h sections data)" "total (exports_of h sections data)"
  "total (tls_of h sections data)" "total (exceptions_of h sections data)"
  by (auto simp: imports_of_def exports_of_def tls_of_def exceptions_of_def Let_def case_prod_beta
      intro!: total_bind total_unpack total_imports total_exports total_callbacks total_runtime_functions)

lemma total_directories: "off + 8 * n \<le> length data \<Longrightarrow> total (read_directories n data off)"
  by (induction n arbitrary: off) (auto intro!: total_bind total_read)

text \<open>The headers fit into 240 bytes after the signature and the file header.\<close>

lemma header_error:
  assumes "read_optional data opt coff = Inl Struct_error"
  shows "length data < opt + 240"
proof (rule ccontr)
  assume "\<not> length data < opt + 240"
  then have len: "opt + 240 \<le> length data" by simp
  have dirs: "total (read_directories (min c 16) data (opt + 96))" "total (read_directories (min c 16) data (opt + 112))" for c
    by (rule total_directories, use len in simp)+
  obtain magic where m: "read_int 2 data opt = Inr magic" using read_int_ok [of opt 2 data] len by auto
  show False
  proof (cases "magic = 267 \<or> magic = 523")
    case True
    have "total (read_optional data opt coff)"
      unfolding read_optional_def Let_def
      by (rule total_bind [OF total_read]; (use len in simp)?; use m True in simp)
        (intro total_bind total_read dirs impI conjI total_Inr; use len in simp)+
    with assms show ?thesis by (simp add: total_def)
  next
    case False
    with assms m show ?thesis by (simp add: read_optional_def)
  qed
qed

definition struct_only :: "'a parsed \<Rightarrow> bool" where
  "struct_only r \<longleftrightarrow> (\<forall>e. r = Inl e \<longrightarrow> e = Struct_error)"

lemma struct_only_intros:
  "struct_only (Inr x)" "struct_only (read_int n data off)"
  "struct_only q \<Longrightarrow> (\<And>x. struct_only (f x)) \<Longrightarrow> struct_only (sum_bind q f)"
  "struct_only q \<Longrightarrow> struct_only q' \<Longrightarrow> struct_only (if b then q else q')"
  by (auto simp: struct_only_def read_int_def sum_bind_def split: sum.split_asm)

lemma struct_only_directories: "struct_only (read_directories n data off)"
  by (induction n arbitrary: off) (auto intro!: struct_only_intros)

lemma optional_error:
  assumes "read_optional data opt coff = Inl e"
  shows "e = Struct_error \<or> (\<exists>m. read_int 2 data opt = Inr m \<and> m \<noteq> 267 \<and> m \<noteq> 523 \<and> e = Bad_magic m)"
proof (cases "read_int 2 data opt")
  case (Inl e')
  with assms show ?thesis by (auto simp: read_optional_def read_int_def split: if_split_asm)
next
  case (Inr m)
  show ?thesis
  proof (cases "m = 267 \<or> m = 523")
    case True
    then have "\<not> (m \<noteq> 267 \<and> m \<noteq> 523)" by blast
    then have "struct_only (read_optional data opt coff)"
      unfolding read_optional_def Inr sum_bind_simps Let_def by (simp only: if_False) (intro struct_only_intros struct_only_directories)
    with assms show ?thesis by (simp add: struct_only_def)
  next
    case False
    with assms Inr show ?thesis by (auto simp: read_optional_def)
  qed
qed

text \<open>C14: The parser fails only in the headers: on a file that is too small, has no MZ or PE signature, has an unknown
  magic number, or ends inside the optional header. No table of sections, imports, exports, callbacks or
  exceptions makes it raise, however it is damaged.\<close>

theorem parse_fails_in_headers:
  assumes "parse_pe_layout data = Inl e"
  shows "read_header data = Inl e
    \<and> (case e of
         Too_small \<Rightarrow> length data < 256
       | Missing_mz \<Rightarrow> take 2 data \<noteq> [77, 90]
       | Invalid_header \<Rightarrow> pe_offset data = Inl Invalid_header
       | Bad_magic m \<Rightarrow> m \<noteq> 267 \<and> m \<noteq> 523 \<and> (\<exists>pe. pe_offset data = Inr pe \<and> read_int 2 data (pe + 24) = Inr m)
       | Struct_error \<Rightarrow> (\<exists>pe. pe_offset data = Inr pe \<and> length data < pe + 264))"
proof -
  have header: "read_header data = Inl e"
  proof (rule ccontr)
    assume "read_header data \<noteq> Inl e"
    moreover have "total (parse_pe_layout data)" if "read_header data = Inr ph" for ph
      unfolding parse_pe_layout_def that by (auto intro!: total_bind total_sections total_body split: prod.split)
    ultimately show False using assms by (cases "read_header data") (auto simp: parse_pe_layout_def total_def)
  qed
  have found: "take 2 data = [77, 90] \<and> 256 \<le> length data \<and> pe + 24 < length data" if "pe_offset data = Inr pe" for pe
    using that read_int_ok [of 60 4 data] by (auto simp: pe_offset_def split: if_split_asm)
  show ?thesis
  proof (cases "pe_offset data")
    case (Inl e')
    with header have "e' = e" by (simp add: read_header_def)
    with Inl read_int_ok [of 60 4 data] header show ?thesis
      by (auto simp: pe_offset_def split: if_split_asm)
  next
    case (Inr pe)
    obtain coff where coff: "unpack [2, 2, 4, 4, 4, 2, 2] data (pe + 4) = Inr coff"
      using unpack_ok [of "pe + 4" "[2, 2, 4, 4, 4, 2, 2]" data] found [OF Inr] by auto
    have opt: "read_optional data (pe + 24) coff = Inl e"
      using header Inr coff by (cases "read_optional data (pe + 24) coff") (simp_all add: read_header_def)
    consider "e = Struct_error" | m where "read_int 2 data (pe + 24) = Inr m" "m \<noteq> 267" "m \<noteq> 523" "e = Bad_magic m"
      using optional_error [OF opt] by blast
    then show ?thesis
    proof cases
      case 1
      with opt have "length data < pe + 24 + 240" using header_error by blast
      with 1 Inr header show ?thesis by simp
    qed (use Inr header in simp)
  qed
qed

theorem parse_fails_in_headers_witness: "read_header (replicate 256 0) = Inl Missing_mz \<and> take 2 (replicate 256 0) \<noteq> [77, 90 :: nat]"
proof -
  have "take 2 (replicate 256 0) = replicate 2 (0 :: nat)" by (simp only: take_replicate) simp
  then have "take 2 (replicate 256 0) \<noteq> [77, 90 :: nat]" by (simp add: numeral_2_eq_2)
  then have "parse_pe_layout (replicate 256 0) = Inl Missing_mz"
    by (simp add: parse_pe_layout_def read_header_def pe_offset_def)
  from parse_fails_in_headers [OF this] show ?thesis by simp
qed

subsection \<open>Bounds\<close>

lemma sections_length: "read_sections n data off = Inr ss \<Longrightarrow> length ss \<le> n"
  by (induction n arbitrary: off ss) (auto simp: sum_bind_Inr split: if_split_asm)

lemma sections_inside: "read_sections n data off = Inr ss \<Longrightarrow> ss = [] \<or> off + 40 * length ss \<le> length data"
  by (induction n arbitrary: off ss) (force simp: sum_bind_Inr split: if_split_asm)+

lemma directories_length: "read_directories n data off = Inr ds \<Longrightarrow> length ds = n"
  by (induction n arbitrary: off ds) (auto simp: sum_bind_Inr)

lemma header_directories: "read_optional data opt coff = Inr h \<Longrightarrow> length (ph_directories h) \<le> 16"
  by (auto simp: read_optional_def Let_def sum_bind_Inr split: if_split_asm dest!: directories_length)

lemma thunks_length: "read_thunks h sections data off count = Inr xs \<Longrightarrow> count \<le> 1000000 \<Longrightarrow> length xs + count \<le> 1000000"
proof (induction h sections data off count arbitrary: xs rule: read_thunks.induct)
  case (1 h sections data off count)
  note IH = "1.IH" and p = "1.prems"
  show ?case
  proof (cases "off + step_size h \<le> length data \<and> count < 1000000")
    case False
    with p show ?thesis by (simp add: read_thunks.simps [of h sections data off count])
  next
    case True
    from p(1) True obtain v where v: "read_int (step_size h) data off = Inr v"
      "(if v = 0 then Inr [] else sum_bind (read_thunks h sections data (off + step_size h) (count + 1))
          (\<lambda>rest. Inr (thunk_name h sections data v # rest))) = Inr xs"
      by (simp add: read_thunks.simps [of h sections data off count] sum_bind_Inr) blast
    show ?thesis
    proof (cases "v = 0")
      case True
      with v p show ?thesis by simp
    next
      case False
      with v(2) obtain rest where "read_thunks h sections data (off + step_size h) (count + 1) = Inr rest" "xs = thunk_name h sections data v # rest"
        by (auto simp: sum_bind_Inr)
      with IH [OF True False this(1)] True show ?thesis by simp
    qed
  qed
qed

lemma import_length:
  assumes "read_import h sections data f = Inr i"
  shows "length (pi_functions i) \<le> 1000000"
  using assms thunks_length [of h sections data _ 0] by (auto simp: read_import_def Let_def sum_bind_Inr split: if_split_asm)

lemma imports_length:
  "read_imports h sections data cursor count = Inr xs \<Longrightarrow> count \<le> 4096
    \<Longrightarrow> length xs + count \<le> 4096 \<and> (\<forall>i \<in> set xs. length (pi_functions i) \<le> 1000000)"
proof (induction h sections data cursor count arbitrary: xs rule: read_imports.induct)
  case (1 h sections data cursor count)
  note IH = "1.IH" and p = "1.prems"
  show ?case
  proof (cases "cursor \<noteq> 0 \<and> cursor + 20 \<le> length data \<and> count < 4096")
    case False
    with p show ?thesis by (auto simp: read_imports.simps [of h sections data cursor count] split: if_split_asm)
  next
    case True
    from p(1) True obtain f where f: "unpack [4, 4, 4, 4, 4] data cursor = Inr f"
      "(if f ! 0 = 0 \<and> f ! 3 = 0 \<and> f ! 4 = 0 then Inr [] else sum_bind (read_import h sections data f) (\<lambda>i.
          sum_bind (read_imports h sections data (cursor + 20) (count + 1)) (\<lambda>rest. Inr (i # rest)))) = Inr xs"
      by (simp add: read_imports.simps [of h sections data cursor count] sum_bind_Inr) blast
    show ?thesis
    proof (cases "f ! 0 = 0 \<and> f ! 3 = 0 \<and> f ! 4 = 0")
      case True
      with f p show ?thesis by simp
    next
      case False
      with f(2) obtain i rest where r: "read_import h sections data f = Inr i"
        "read_imports h sections data (cursor + 20) (count + 1) = Inr rest" "xs = i # rest"
        by (auto simp: sum_bind_Inr)
      with IH [OF True False r(2)] import_length [OF r(1)] True r(3) show ?thesis by auto
    qed
  qed
qed

lemma exports_length: "read_exports h sections data t bound i = Inr xs \<Longrightarrow> length xs \<le> bound - i"
proof (induction h sections data t bound i arbitrary: xs rule: read_exports.induct)
  case (1 h sections data t bound i)
  note IH = "1.IH" and p = "1.prems"
  show ?case
  proof (cases "i \<ge> bound \<or> et_functions t = 0 \<or> et_names t = 0 \<or> et_ordinals t = 0 \<or> et_names t + i * 4 + 4 > length data
        \<or> et_ordinals t + i * 2 + 2 > length data")
    case True
    with p show ?thesis by (auto simp: read_exports.simps [of h sections data t bound i] split: if_split_asm)
  next
    case False
    from p False obtain e rest where r: "read_exports h sections data t bound (i + 1) = Inr rest"
      "xs = (case e of Some x \<Rightarrow> [x] | None \<Rightarrow> []) @ rest"
      by (auto simp: read_exports.simps [of h sections data t bound i] sum_bind_Inr)
    from False have "\<not> bound \<le> i" "\<not> (et_functions t = 0 \<or> et_names t = 0 \<or> et_ordinals t = 0 \<or> et_names t + i * 4 + 4 > length data
        \<or> et_ordinals t + i * 2 + 2 > length data)" by blast+
    from IH [OF this r(1)] r(2) this(1) show ?thesis by (cases e) auto
  qed
qed

lemma callbacks_bound:
  "read_callbacks h sections data off i = Inr (xs, ds) \<Longrightarrow> i \<le> 128
    \<Longrightarrow> length xs + i \<le> 128 \<and> (\<forall>c \<in> set xs. tc_rva c < image_limit h)"
proof (induction h sections data off i arbitrary: xs ds rule: read_callbacks.induct)
  case (1 h sections data off i)
  note IH = "1.IH" and p = "1.prems"
  show ?case
  proof (cases "i \<ge> 128 \<or> off = 0 \<or> off + step_size h > length data")
    case True
    with p show ?thesis by (auto simp: read_callbacks.simps [of h sections data off i] split: if_split_asm)
  next
    case False
    then have c: "\<not> 128 \<le> i" "\<not> (off = 0 \<or> length data < off + step_size h)" by auto
    from p(1) c obtain va where va: "read_int (step_size h) data off = Inr va"
      "(if va = 0 then Inr ([], [])
        else (case image_rva h va of
                None \<Rightarrow> Inr ([], [''callback_'' @ dec (int i) @ ''_outside_image''])
              | Some (rva, is_va) \<Rightarrow>
                  sum_bind (read_callbacks h sections data (off + step_size h) (i + 1)) (\<lambda>(rest, diagnostics).
                    Inr (callback_at h sections i rva is_va # rest,
                      (if is_va then [] else [''callback_'' @ dec (int i) @ ''_was_rva_not_va'']) @ diagnostics)))) = Inr (xs, ds)"
      by (simp add: read_callbacks.simps [of h sections data off i] sum_bind_Inr) blast
    show ?thesis
    proof (cases "va = 0 \<or> image_rva h va = None")
      case True
      with va p(2) show ?thesis by (auto split: if_split_asm)
    next
      case False
      then obtain rva is_va where r: "va \<noteq> 0" "image_rva h va = Some (rva, is_va)" by auto
      with va(2) obtain rest texts where t: "read_callbacks h sections data (off + step_size h) (i + 1) = Inr (rest, texts)"
        "xs = callback_at h sections i rva is_va # rest"
        by (auto simp: sum_bind_Inr)
      have "rva < image_limit h" using r(2) by (auto simp: image_rva_def split: if_split_asm)
      moreover have "length rest + (i + 1) \<le> 128 \<and> (\<forall>c \<in> set rest. tc_rva c < image_limit h)"
        by (rule IH [OF c r(1) r(2) refl t(1)]) (use c in simp)
      ultimately show ?thesis using t(2) by (simp add: callback_at_def Let_def)
    qed
  qed
qed

lemma callbacks_diagnostics: "read_callbacks h sections data off i = Inr (xs, ds) \<Longrightarrow> i \<le> 128 \<Longrightarrow> length ds + i \<le> 128"
proof (induction h sections data off i arbitrary: xs ds rule: read_callbacks.induct)
  case (1 h sections data off i)
  note IH = "1.IH" and p = "1.prems"
  show ?case
  proof (cases "i \<ge> 128 \<or> off = 0 \<or> off + step_size h > length data")
    case True
    with p show ?thesis by (auto simp: read_callbacks.simps [of h sections data off i] split: if_split_asm)
  next
    case False
    then have c: "\<not> 128 \<le> i" "\<not> (off = 0 \<or> length data < off + step_size h)" by auto
    from p(1) c obtain va where va: "read_int (step_size h) data off = Inr va"
      "(if va = 0 then Inr ([], [])
        else (case image_rva h va of
                None \<Rightarrow> Inr ([], [''callback_'' @ dec (int i) @ ''_outside_image''])
              | Some (rva, is_va) \<Rightarrow>
                  sum_bind (read_callbacks h sections data (off + step_size h) (i + 1)) (\<lambda>(rest, diagnostics).
                    Inr (callback_at h sections i rva is_va # rest,
                      (if is_va then [] else [''callback_'' @ dec (int i) @ ''_was_rva_not_va'']) @ diagnostics)))) = Inr (xs, ds)"
      by (simp add: read_callbacks.simps [of h sections data off i] sum_bind_Inr) blast
    show ?thesis
    proof (cases "va = 0 \<or> image_rva h va = None")
      case True
      with va c show ?thesis by (auto split: if_split_asm)
    next
      case False
      then obtain rva is_va where r: "va \<noteq> 0" "image_rva h va = Some (rva, is_va)" by auto
      with va(2) obtain rest texts where t: "read_callbacks h sections data (off + step_size h) (i + 1) = Inr (rest, texts)"
        "length ds \<le> Suc (length texts)" by (auto simp: sum_bind_Inr)
      have "length texts + (i + 1) \<le> 128" by (rule IH [OF c r(1) r(2) refl t(1)]) (use c in simp)
      with t(2) show ?thesis by simp
    qed
  qed
qed

lemma tls_diagnostics:
  assumes "tls_of h sections data = Inr t"
  shows "length (pt_diagnostics t) \<le> 129"
proof -
  have "length ds \<le> 128" if "read_callbacks h sections data off 0 = Inr (xs, ds)" for off xs ds
    using callbacks_diagnostics [OF that] by simp
  then show ?thesis using assms
    by (fastforce simp: tls_of_def Let_def sum_bind_Inr case_prod_beta split: if_split_asm option.split_asm bool.split_asm)
qed

definition exceptions_ok :: "pe_header \<Rightarrow> nat \<Rightarrow> exception_table \<Rightarrow> bool" where
  "exceptions_ok h n t \<longleftrightarrow> length (xt_functions t) \<le> 256 \<and> length (xt_functions t) \<le> xt_count t \<and> xt_count t + xt_invalid t \<le> n
     \<and> length (xt_diagnostics t) \<le> 32 \<and> (\<forall>f \<in> set (xt_functions t). rf_begin f < rf_end f \<and> rf_end f \<le> image_limit h)"

lemma add_runtime_function_ok: "exceptions_ok h n t \<Longrightarrow> exceptions_ok h (Suc n) (add_runtime_function h i f t)"
  by (auto simp: exceptions_ok_def add_runtime_function_def add_diagnostic_def Let_def)

lemma add_diagnostic_ok: "exceptions_ok h n t \<Longrightarrow> exceptions_ok h n (add_diagnostic m t)"
  by (auto simp: exceptions_ok_def add_diagnostic_def)

lemma exceptions_ok_mono: "exceptions_ok h n t \<Longrightarrow> n \<le> m \<Longrightarrow> exceptions_ok h m t"
  by (auto simp: exceptions_ok_def)

lemma runtime_functions_ok:
  "read_runtime_functions h data off count i t = Inr t' \<Longrightarrow> exceptions_ok h i t \<Longrightarrow> i \<le> count \<Longrightarrow> exceptions_ok h count t'"
proof (induction h data off count i t rule: read_runtime_functions.induct)
  case (1 h data off count i t)
  note IH = "1.IH" and p = "1.prems"
  show ?case
  proof (cases "count \<le> i \<or> length data < off + i * 12 + 12")
    case True
    with p exceptions_ok_mono add_diagnostic_ok show ?thesis
      by (auto simp: read_runtime_functions.simps [of h data off count i t] split: if_split_asm)
  next
    case False
    then have c: "\<not> count \<le> i" "\<not> length data < off + i * 12 + 12" by auto
    with p(1) obtain f where "read_runtime_functions h data off count (i + 1) (add_runtime_function h i f t) = Inr t'"
      by (auto simp: read_runtime_functions.simps [of h data off count i t] sum_bind_Inr)
    from IH [OF c this] add_runtime_function_ok [OF p(2)] c show ?thesis by simp
  qed
qed

text \<open>C15: Whatever the file says, every list of a layout is bounded: no more sections than the header declares and 40 bytes
  of the file for each, 16 directories, 4096 imported libraries of at most a million functions, a million
  exports in the order of their addresses, 128 callbacks inside the image with 129 diagnostics, and 256 of at
  most 16384 runtime functions, each a range inside the image, with 32 diagnostics.\<close>

theorem layout_bounded:
  assumes "parse_pe_layout data = Inr l"
  shows "length (pl_sections l) \<le> ph_section_count (pl_header l) \<and> 40 * length (pl_sections l) \<le> length data
    \<and> length (ph_directories (pl_header l)) \<le> 16
    \<and> length (pl_imports l) \<le> 4096 \<and> (\<forall>i \<in> set (pl_imports l). length (pi_functions i) \<le> 1000000)
    \<and> length (pl_exports l) \<le> 1000000 \<and> sorted (map px_rva (pl_exports l))
    \<and> length (pt_callbacks (pl_tls l)) \<le> 128 \<and> (\<forall>c \<in> set (pt_callbacks (pl_tls l)). tc_rva c < image_limit (pl_header l))
    \<and> length (pt_diagnostics (pl_tls l)) \<le> 129
    \<and> exceptions_ok (pl_header l) 16384 (pl_exceptions l)"
proof -
  obtain pe h sections imps exps tls exceptions where r: "read_header data = Inr (pe, h)"
    "read_sections (ph_section_count h) data (pe + 24 + ph_optional_size h) = Inr sections"
    "imports_of h sections data = Inr imps" "exports_of h sections data = Inr exps"
    "tls_of h sections data = Inr tls" "exceptions_of h sections data = Inr exceptions"
    and l: "pl_header l = h" "pl_sections l = sections" "pl_imports l = imps" "pl_exports l = exps" "pl_tls l = tls"
      "pl_exceptions l = exceptions"
    using assms by (auto simp: parse_pe_layout_def sum_bind_Inr)
  have "length imps \<le> 4096 \<and> (\<forall>i \<in> set imps. length (pi_functions i) \<le> 1000000)"
    using r(3) imports_length [of h sections data _ 0] by (auto simp: imports_of_def case_prod_beta Let_def split: if_split_asm)
  moreover have "length exps \<le> 1000000 \<and> sorted (map px_rva exps)"
  proof -
    have "sorted (map px_rva (sort_key export_rank xs))" for xs
      using sorted_sort_key [of export_rank xs] unfolding sorted_map
      by (rule sorted_wrt_mono_rel [rotated]) (auto simp: export_rank_def less_eq_prod_def)
    moreover have "length xs \<le> 1000000" if "read_exports h sections data t (min n 1000000) 0 = Inr xs" for t n xs
      using exports_length [OF that] by simp
    ultimately show ?thesis using r(4) by (auto simp: exports_of_def Let_def case_prod_beta sum_bind_Inr split: if_split_asm)
  qed
  moreover have "length (pt_callbacks tls) \<le> 128 \<and> (\<forall>c \<in> set (pt_callbacks tls). tc_rva c < image_limit h)"
    using r(5) callbacks_bound [of h sections data _ 0] by (auto simp: tls_of_def Let_def sum_bind_Inr case_prod_beta split: if_split_asm)
  moreover have "exceptions_ok h 16384 exceptions"
  proof -
    have e: "exceptions_ok h n empty_exceptions" for n by (simp add: exceptions_ok_def empty_exceptions_def)
    have "exceptions_ok h 16384 t" if "read_runtime_functions h data off (min n 16384) 0 empty_exceptions = Inr t" for off n t
      using exceptions_ok_mono [OF runtime_functions_ok [OF that e]] by simp
    then show ?thesis using r(6) e [of 16384] add_diagnostic_ok [OF e [of 16384]]
      by (auto simp: exceptions_of_def Let_def case_prod_beta split: if_split_asm)
  qed
  moreover have "40 * length sections \<le> length data" using sections_inside [OF r(2)] by auto
  moreover have "length (ph_directories h) \<le> 16"
    using r(1) header_directories by (auto simp: read_header_def sum_bind_Inr)
  ultimately show ?thesis using sections_length [OF r(2)] tls_diagnostics [OF r(5)] unfolding l by simp
qed

end
