(* ===== verification/PeImage.thy ===== *)
theory PeImage
  imports PeProps
begin

text \<open>
  An image written field by field, as the PE format lays it out, and what the parser reads back. The writer
  puts the PE header at offset 64, gives the fields the parser skips the value 0, and lets anything
  follow the section table.
\<close>

subsection \<open>Fields\<close>

fun le_bytes :: "nat \<Rightarrow> nat \<Rightarrow> bytes" where
  "le_bytes 0 v = []"
| "le_bytes (Suc n) v = v mod 256 # le_bytes n (v div 256)"

lemma length_le_bytes [simp]: "length (le_bytes n v) = n"
  by (induction n arbitrary: v) simp_all

lemma le_value_bytes: "v < 256 ^ n \<Longrightarrow> le_value (le_bytes n v) = v"
  by (induction n arbitrary: v) (simp_all add: le_value_def less_mult_imp_div_less mult.commute)

definition fields :: "(nat \<times> nat) list \<Rightarrow> bytes" where
  "fields fs = concat (map (\<lambda>(n, v). le_bytes n v) fs)"

definition widths :: "(nat \<times> nat) list \<Rightarrow> nat" where
  "widths fs = sum_list (map fst fs)"

lemma fields_append [simp]: "fields (fs @ gs) = fields fs @ fields gs"
  by (simp add: fields_def)

lemma length_fields [simp]: "length (fields fs) = widths fs"
  by (induction fs) (auto simp: fields_def widths_def)

lemma widths_append [simp]: "widths (fs @ gs) = widths fs + widths gs"
  by (simp add: widths_def)

lemma widths_simps [simp]: "widths [] = 0" "widths ((n, v) # fs) = n + widths fs"
  by (simp_all add: widths_def)

text \<open>A field is read at the sum of the widths before it.\<close>

lemma read_field:
  assumes "k < length fs" and "fs ! k = (n, v)" and "v < 256 ^ n" and "off = length pre + widths (take k fs)"
  shows "read_int n (pre @ fields fs @ post) off = Inr v"
proof -
  have "fs = take k fs @ (n, v) # drop (Suc k) fs" using assms(1,2) by (metis id_take_nth_drop)
  then have "fields fs = fields (take k fs) @ le_bytes n v @ fields (drop (Suc k) fs)"
    by (metis fields_append append_Cons append_Nil fields_def list.simps(8,9) concat.simps(1,2) case_prod_conv append_Nil2 append_assoc)
  then show ?thesis using assms(3,4)
    by (simp add: read_int_def slice_def le_value_bytes)
qed

lemma unpack_fields:
  assumes "\<forall>(n, v) \<in> set fs. v < 256 ^ n" and "off = length pre"
  shows "unpack (map fst fs) (pre @ fields fs @ post) off = Inr (map snd fs)"
  using assms
proof (induction fs arbitrary: pre off)
  case (Cons f fs)
  obtain n v where f: "f = (n, v)" by fastforce
  have "read_int n (pre @ fields (f # fs) @ post) off = Inr v"
    by (rule read_field [where k = 0]) (use Cons.prems f in auto)
  moreover have "unpack (map fst fs) ((pre @ le_bytes n v) @ fields fs @ post) (off + n) = Inr (map snd fs)"
    by (rule Cons.IH) (use Cons.prems in auto)
  moreover have "fields (f # fs) = le_bytes n v @ fields fs" by (simp add: f fields_def)
  ultimately show ?case by (simp add: f unpack.simps)
qed (simp add: unpack.simps)

subsection \<open>The writer\<close>

definition directory_fields :: "(nat \<times> nat) list \<Rightarrow> (nat \<times> nat) list" where
  "directory_fields ds = concat (map (\<lambda>(rva, size). [(4, rva), (4, size)]) ds)"

definition file_fields :: "pe_header \<Rightarrow> (nat \<times> nat) list" where
  "file_fields h =
     [(2, ph_machine h), (2, ph_section_count h), (4, ph_time h), (4, 0), (4, 0), (2, ph_optional_size h), (2, ph_characteristics h)]"

definition optional_fields :: "pe_header \<Rightarrow> (nat \<times> nat) list" where
  "optional_fields h =
     [(2, if ph_is64 h then 523 else 267), (14, 0), (4, ph_entry h), (4, 0)]
     @ (if ph_is64 h then [(8, ph_image_base h)] else [(4, 0), (4, ph_image_base h)])
     @ [(4, ph_section_alignment h), (4, ph_file_alignment h), (16, 0), (4, ph_image_size h), (4, ph_header_size h), (4, ph_checksum h),
        (2, ph_subsystem h), (2, ph_dll h), (if ph_is64 h then 36 else 20, 0), (4, length (ph_directories h))]"

definition section_bytes :: "pe_section \<Rightarrow> bytes" where
  "section_bytes s =
     map cp (ps_name s) @ replicate (8 - length (ps_name s)) 0
     @ fields [(4, ps_vsize s), (4, ps_va s), (4, ps_rsize s), (4, ps_raw s), (4, 0), (4, 0), (2, 0), (2, 0), (4, ps_characteristics s)]"

definition pe_image :: "pe_header \<Rightarrow> pe_section list \<Rightarrow> bytes \<Rightarrow> bytes" where
  "pe_image h sections rest =
     [77, 90] @ replicate 58 0 @ fields [(4, 64)] @ [80, 69, 0, 0] @ fields (file_fields h) @ fields (optional_fields h)
     @ fields (directory_fields (ph_directories h)) @ concat (map section_bytes sections) @ rest"

definition header_ok :: "pe_header \<Rightarrow> bool" where
  "header_ok h \<longleftrightarrow>
     list_all (\<lambda>v. v < 65536) [ph_machine h, ph_section_count h, ph_optional_size h, ph_characteristics h, ph_subsystem h, ph_dll h]
     \<and> list_all (\<lambda>v. v < 4294967296) [ph_time h, ph_entry h, ph_image_size h, ph_header_size h, ph_checksum h, ph_section_alignment h, ph_file_alignment h]
     \<and> ph_image_base h < (if ph_is64 h then 18446744073709551616 else 4294967296)
     \<and> length (ph_directories h) \<le> 16 \<and> list_all (\<lambda>(rva, size). rva < 4294967296 \<and> size < 4294967296) (ph_directories h)
     \<and> ph_optional_size h = (if ph_is64 h then 112 else 96) + 8 * length (ph_directories h)"

definition section_ok :: "pe_section \<Rightarrow> bool" where
  "section_ok s \<longleftrightarrow>
     length (ps_name s) \<le> 8 \<and> list_all (\<lambda>c. 0 < cp c \<and> cp c < 128) (ps_name s)
     \<and> list_all (\<lambda>v. v < 4294967296) [ps_vsize s, ps_va s, ps_rsize s, ps_raw s, ps_characteristics s]"

lemma optional_width: "widths (optional_fields h) = (if ph_is64 h then 112 else 96)"
  by (simp add: optional_fields_def)

subsection \<open>Reading back\<close>

lemma read_directories_back:
  assumes "list_all (\<lambda>(rva, size). rva < 4294967296 \<and> size < 4294967296) ds" and "off = length pre"
  shows "read_directories (length ds) (pre @ fields (directory_fields ds) @ post) off = Inr ds"
  using assms
proof (induction ds arbitrary: pre off)
  case (Cons d ds)
  obtain rva size where d: "d = (rva, size)" by fastforce
  let ?data = "pre @ fields (directory_fields (d # ds)) @ post"
  have split: "directory_fields (d # ds) = [(4, rva), (4, size)] @ directory_fields ds" by (simp add: directory_fields_def d)
  have bounds: "rva < 256 ^ 4" "size < 256 ^ 4" using Cons.prems(1) d by simp_all
  have "read_int 4 ?data off = Inr rva"
    by (rule read_field [where k = 0]) (use bounds Cons.prems(2) in \<open>simp_all add: split\<close>)
  moreover have "read_int 4 ?data (off + 4) = Inr size"
    by (rule read_field [where k = 1]) (use bounds Cons.prems(2) in \<open>simp_all add: split\<close>)
  moreover have "read_directories (length ds) ((pre @ fields [(4, rva), (4, size)]) @ fields (directory_fields ds) @ post) (off + 8) = Inr ds"
    by (rule Cons.IH) (use Cons.prems in auto)
  moreover have "fields (directory_fields (d # ds)) = fields [(4, rva), (4, size)] @ fields (directory_fields ds)"
    by (simp only: split fields_append)
  ultimately show ?case unfolding d by simp
qed simp

lemma char_back: "map char_of (map cp s) = s"
  by (simp add: comp_def)

lemma ascii_text_back:
  assumes "list_all (\<lambda>c. 0 < cp c \<and> cp c < 128) s"
  shows "ascii_text (takeWhile (\<lambda>b. b \<noteq> 0) (map cp s @ replicate n 0)) = s"
proof -
  have "takeWhile (\<lambda>b. b \<noteq> 0) (map cp s @ replicate n 0) = map cp s"
    using assms by (induction s) auto
  moreover have "filter (\<lambda>b. b < 128) (map cp s) = map cp s"
    using assms by (induction s) auto
  ultimately show ?thesis by (simp add: ascii_text_def comp_def)
qed

lemma length_section_bytes: "section_ok s \<Longrightarrow> length (section_bytes s) = 40"
  by (simp add: section_bytes_def section_ok_def)

lemma read_sections_back:
  assumes "list_all section_ok ss" and "off = length pre"
  shows "read_sections (length ss) (pre @ concat (map section_bytes ss) @ post) off = Inr ss"
  using assms
proof (induction ss arbitrary: pre off)
  case (Cons s ss)
  let ?data = "pre @ concat (map section_bytes (s # ss)) @ post"
  let ?fs = "[(4 :: nat, ps_vsize s), (4, ps_va s), (4, ps_rsize s), (4, ps_raw s), (4, 0), (4, 0), (2, 0), (2, 0), (4, ps_characteristics s)]"
  have ok: "section_ok s" using Cons.prems by simp
  have name: "length (ps_name s) \<le> 8" using ok by (simp add: section_ok_def)
  have "unpack (map fst ?fs) ((pre @ map cp (ps_name s) @ replicate (8 - length (ps_name s)) 0) @ fields ?fs @ concat (map section_bytes ss) @ post) (off + 8)
      = Inr (map snd ?fs)"
    by (rule unpack_fields) (use ok name Cons.prems in \<open>auto simp: section_ok_def\<close>)
  then have "unpack [4, 4, 4, 4, 4, 4, 2, 2, 4] ?data (off + 8) = Inr [ps_vsize s, ps_va s, ps_rsize s, ps_raw s, 0, 0, 0, 0, ps_characteristics s]"
    by (simp add: section_bytes_def)
  moreover have "slice ?data off 8 = map cp (ps_name s) @ replicate (8 - length (ps_name s)) 0"
    using Cons.prems name by (simp add: slice_def section_bytes_def)
  moreover have "off + 40 \<le> length ?data" using length_section_bytes [OF ok] Cons.prems by simp
  moreover have "read_sections (length ss) ((pre @ section_bytes s) @ concat (map section_bytes ss) @ post) (off + 40) = Inr ss"
    by (rule Cons.IH) (use Cons.prems length_section_bytes [OF ok] in auto)
  ultimately show ?case using ascii_text_back ok by (simp add: section_ok_def)
qed simp

lemma optional_reads_64:
  assumes "header_ok h" and "ph_is64 h" and "opt = length pre"
  shows "read_int 2 (pre @ fields (optional_fields h) @ post) opt = Inr 523"
    "read_int 4 (pre @ fields (optional_fields h) @ post) (opt + 16) = Inr (ph_entry h)"
    "read_int 8 (pre @ fields (optional_fields h) @ post) (opt + 24) = Inr (ph_image_base h)"
    "read_int 4 (pre @ fields (optional_fields h) @ post) (opt + 32) = Inr (ph_section_alignment h)"
    "read_int 4 (pre @ fields (optional_fields h) @ post) (opt + 36) = Inr (ph_file_alignment h)"
    "read_int 4 (pre @ fields (optional_fields h) @ post) (opt + 56) = Inr (ph_image_size h)"
    "read_int 4 (pre @ fields (optional_fields h) @ post) (opt + 60) = Inr (ph_header_size h)"
    "read_int 4 (pre @ fields (optional_fields h) @ post) (opt + 64) = Inr (ph_checksum h)"
    "read_int 2 (pre @ fields (optional_fields h) @ post) (opt + 68) = Inr (ph_subsystem h)"
    "read_int 2 (pre @ fields (optional_fields h) @ post) (opt + 70) = Inr (ph_dll h)"
    "read_int 4 (pre @ fields (optional_fields h) @ post) (opt + 108) = Inr (length (ph_directories h))"
proof -
  note ok = assms(1) [unfolded header_ok_def] and def = assms(2,3) optional_fields_def
  show "read_int 2 (pre @ fields (optional_fields h) @ post) opt = Inr 523"
    by (rule read_field [where k = 0]) (use ok in \<open>simp_all add: def\<close>)
  show "read_int 4 (pre @ fields (optional_fields h) @ post) (opt + 16) = Inr (ph_entry h)"
    by (rule read_field [where k = 2]) (use ok in \<open>simp_all add: def\<close>)
  show "read_int 8 (pre @ fields (optional_fields h) @ post) (opt + 24) = Inr (ph_image_base h)"
    by (rule read_field [where k = 4]) (use ok in \<open>simp_all add: def\<close>)
  show "read_int 4 (pre @ fields (optional_fields h) @ post) (opt + 32) = Inr (ph_section_alignment h)"
    by (rule read_field [where k = 5]) (use ok in \<open>simp_all add: def\<close>)
  show "read_int 4 (pre @ fields (optional_fields h) @ post) (opt + 36) = Inr (ph_file_alignment h)"
    by (rule read_field [where k = 6]) (use ok in \<open>simp_all add: def\<close>)
  show "read_int 4 (pre @ fields (optional_fields h) @ post) (opt + 56) = Inr (ph_image_size h)"
    by (rule read_field [where k = 8]) (use ok in \<open>simp_all add: def\<close>)
  show "read_int 4 (pre @ fields (optional_fields h) @ post) (opt + 60) = Inr (ph_header_size h)"
    by (rule read_field [where k = 9]) (use ok in \<open>simp_all add: def\<close>)
  show "read_int 4 (pre @ fields (optional_fields h) @ post) (opt + 64) = Inr (ph_checksum h)"
    by (rule read_field [where k = 10]) (use ok in \<open>simp_all add: def\<close>)
  show "read_int 2 (pre @ fields (optional_fields h) @ post) (opt + 68) = Inr (ph_subsystem h)"
    by (rule read_field [where k = 11]) (use ok in \<open>simp_all add: def\<close>)
  show "read_int 2 (pre @ fields (optional_fields h) @ post) (opt + 70) = Inr (ph_dll h)"
    by (rule read_field [where k = 12]) (use ok in \<open>simp_all add: def\<close>)
  show "read_int 4 (pre @ fields (optional_fields h) @ post) (opt + 108) = Inr (length (ph_directories h))"
    by (rule read_field [where k = 14]) (use ok in \<open>simp_all add: def\<close>)
qed

lemma optional_reads_32:
  assumes "header_ok h" and "\<not> ph_is64 h" and "opt = length pre"
  shows "read_int 2 (pre @ fields (optional_fields h) @ post) opt = Inr 267"
    "read_int 4 (pre @ fields (optional_fields h) @ post) (opt + 16) = Inr (ph_entry h)"
    "read_int 4 (pre @ fields (optional_fields h) @ post) (opt + 28) = Inr (ph_image_base h)"
    "read_int 4 (pre @ fields (optional_fields h) @ post) (opt + 32) = Inr (ph_section_alignment h)"
    "read_int 4 (pre @ fields (optional_fields h) @ post) (opt + 36) = Inr (ph_file_alignment h)"
    "read_int 4 (pre @ fields (optional_fields h) @ post) (opt + 56) = Inr (ph_image_size h)"
    "read_int 4 (pre @ fields (optional_fields h) @ post) (opt + 60) = Inr (ph_header_size h)"
    "read_int 4 (pre @ fields (optional_fields h) @ post) (opt + 64) = Inr (ph_checksum h)"
    "read_int 2 (pre @ fields (optional_fields h) @ post) (opt + 68) = Inr (ph_subsystem h)"
    "read_int 2 (pre @ fields (optional_fields h) @ post) (opt + 70) = Inr (ph_dll h)"
    "read_int 4 (pre @ fields (optional_fields h) @ post) (opt + 92) = Inr (length (ph_directories h))"
proof -
  note ok = assms(1) [unfolded header_ok_def] and def = assms(2,3) optional_fields_def
  show "read_int 2 (pre @ fields (optional_fields h) @ post) opt = Inr 267"
    by (rule read_field [where k = 0]) (use ok in \<open>simp_all add: def\<close>)
  show "read_int 4 (pre @ fields (optional_fields h) @ post) (opt + 16) = Inr (ph_entry h)"
    by (rule read_field [where k = 2]) (use ok in \<open>simp_all add: def\<close>)
  show "read_int 4 (pre @ fields (optional_fields h) @ post) (opt + 28) = Inr (ph_image_base h)"
    by (rule read_field [where k = 5]) (use ok in \<open>simp_all add: def\<close>)
  show "read_int 4 (pre @ fields (optional_fields h) @ post) (opt + 32) = Inr (ph_section_alignment h)"
    by (rule read_field [where k = 6]) (use ok in \<open>simp_all add: def\<close>)
  show "read_int 4 (pre @ fields (optional_fields h) @ post) (opt + 36) = Inr (ph_file_alignment h)"
    by (rule read_field [where k = 7]) (use ok in \<open>simp_all add: def\<close>)
  show "read_int 4 (pre @ fields (optional_fields h) @ post) (opt + 56) = Inr (ph_image_size h)"
    by (rule read_field [where k = 9]) (use ok in \<open>simp_all add: def\<close>)
  show "read_int 4 (pre @ fields (optional_fields h) @ post) (opt + 60) = Inr (ph_header_size h)"
    by (rule read_field [where k = 10]) (use ok in \<open>simp_all add: def\<close>)
  show "read_int 4 (pre @ fields (optional_fields h) @ post) (opt + 64) = Inr (ph_checksum h)"
    by (rule read_field [where k = 11]) (use ok in \<open>simp_all add: def\<close>)
  show "read_int 2 (pre @ fields (optional_fields h) @ post) (opt + 68) = Inr (ph_subsystem h)"
    by (rule read_field [where k = 12]) (use ok in \<open>simp_all add: def\<close>)
  show "read_int 2 (pre @ fields (optional_fields h) @ post) (opt + 70) = Inr (ph_dll h)"
    by (rule read_field [where k = 13]) (use ok in \<open>simp_all add: def\<close>)
  show "read_int 4 (pre @ fields (optional_fields h) @ post) (opt + 92) = Inr (length (ph_directories h))"
    by (rule read_field [where k = 15]) (use ok in \<open>simp_all add: def\<close>)
qed

lemma read_optional_back:
  assumes ok: "header_ok h" and off: "opt = length pre"
    and coff: "coff = [ph_machine h, ph_section_count h, ph_time h, 0, 0, ph_optional_size h, ph_characteristics h]"
  shows "read_optional (pre @ fields (optional_fields h) @ fields (directory_fields (ph_directories h)) @ post) opt coff = Inr h"
proof -
  let ?data = "pre @ fields (optional_fields h) @ fields (directory_fields (ph_directories h)) @ post"
  have "read_directories (length (ph_directories h)) ((pre @ fields (optional_fields h)) @ fields (directory_fields (ph_directories h)) @ post)
      (opt + widths (optional_fields h)) = Inr (ph_directories h)"
    by (rule read_directories_back) (use ok off in \<open>simp_all add: header_ok_def\<close>)
  then have dirs: "read_directories (min (length (ph_directories h)) 16) ?data (opt + (if ph_is64 h then 112 else 96)) = Inr (ph_directories h)"
    using ok by (simp add: optional_width header_ok_def min_def)
  show ?thesis
  proof (cases "ph_is64 h")
    case True
    with dirs show ?thesis
      by (simp add: read_optional_def optional_reads_64 [OF ok True off] coff)
  next
    case False
    with dirs show ?thesis
      by (simp add: read_optional_def optional_reads_32 [OF ok False off] coff)
  qed
qed

lemma image_parsed:
  assumes "header_ok h" and "list_all section_ok ss" and "ph_section_count h = length ss" and "256 \<le> length (pe_image h ss rest)"
  shows "\<exists>l. parse_pe_layout (pe_image h ss rest) = Inr l \<and> pl_header l = h \<and> pl_sections l = ss
    \<and> pl_file_size l = length (pe_image h ss rest)"
proof -
  let ?data = "pe_image h ss rest"
  let ?dos = "[77, 90] @ replicate 58 0 :: bytes"
  let ?tail = "fields (optional_fields h) @ fields (directory_fields (ph_directories h)) @ concat (map section_bytes ss) @ rest"
  have data: "?data = ?dos @ fields [(4, 64)] @ [80, 69, 0, 0] @ fields (file_fields h) @ ?tail" by (simp add: pe_image_def)
  have "read_int 4 ?data 60 = Inr 64" unfolding data by (rule read_field [where k = 0]) simp_all
  moreover have "slice ?data 64 4 = [80, 69, 0, 0]" unfolding data by (simp add: slice_def)
  moreover have "take 2 ?data = [77, 90]" by (simp add: pe_image_def)
  ultimately have offset: "pe_offset ?data = Inr 64" using assms(4) by (simp add: pe_offset_def)
  have "unpack (map fst (file_fields h)) ((?dos @ fields [(4, 64)] @ [80, 69, 0, 0]) @ fields (file_fields h) @ ?tail) 68
      = Inr (map snd (file_fields h))"
    by (rule unpack_fields) (use assms(1) in \<open>auto simp: file_fields_def header_ok_def\<close>)
  then have coff: "unpack [2, 2, 4, 4, 4, 2, 2] ?data 68 = Inr (map snd (file_fields h))"
    unfolding data by (simp add: file_fields_def)
  have "read_optional ((?dos @ fields [(4, 64)] @ [80, 69, 0, 0] @ fields (file_fields h)) @ fields (optional_fields h)
      @ fields (directory_fields (ph_directories h)) @ concat (map section_bytes ss) @ rest) 88 (map snd (file_fields h)) = Inr h"
    by (rule read_optional_back [OF assms(1)]) (simp_all add: file_fields_def)
  then have optional: "read_optional ?data 88 (map snd (file_fields h)) = Inr h" unfolding data by simp
  have header: "read_header ?data = Inr (64, h)" by (simp add: read_header_def offset coff optional)
  have "read_sections (length ss) ((?dos @ fields [(4, 64)] @ [80, 69, 0, 0] @ fields (file_fields h) @ fields (optional_fields h)
      @ fields (directory_fields (ph_directories h))) @ concat (map section_bytes ss) @ rest) (88 + ph_optional_size h) = Inr ss"
  proof (rule read_sections_back [OF assms(2)])
    have "widths (directory_fields ds) = 8 * length ds" for ds
      by (induction ds) (auto simp: directory_fields_def)
    then show "88 + ph_optional_size h = length (?dos @ fields [(4, 64)] @ [80, 69, 0, 0] @ fields (file_fields h) @ fields (optional_fields h)
      @ fields (directory_fields (ph_directories h)))"
      using assms(1) by (simp add: file_fields_def optional_width header_ok_def)
  qed
  then have sections: "read_sections (length ss) ?data (88 + ph_optional_size h) = Inr ss" unfolding data by simp
  obtain imps exps tls exceptions where "imports_of h ss ?data = Inr imps" "exports_of h ss ?data = Inr exps"
    "tls_of h ss ?data = Inr tls" "exceptions_of h ss ?data = Inr exceptions" using total_body unfolding total_def by metis
  then show ?thesis by (simp add: parse_pe_layout_def header sections assms(3))
qed

text \<open>C16: The parser reads back the headers and the section table of every image that is written field by field,
  32 or 64 bits, with any number of directories and whatever follows the table.\<close>

theorem layout_reads_back:
  assumes "header_ok h" and "list_all section_ok ss" and "ph_section_count h = length ss" and "256 \<le> length (pe_image h ss rest)"
  shows "\<exists>l. parse_pe_layout (pe_image h ss rest) = Inr l \<and> pl_header l = h \<and> pl_sections l = ss
    \<and> pl_file_size l = length (pe_image h ss rest)"
  using image_parsed [OF assms] .

definition sample_header :: pe_header where
  "sample_header = \<lparr>ph_machine = 34404, ph_section_count = 1, ph_time = 7, ph_optional_size = 120, ph_characteristics = 34, ph_is64 = True,
     ph_entry = 4096, ph_image_base = 5368709120, ph_image_size = 8192, ph_header_size = 512, ph_checksum = 0, ph_subsystem = 3, ph_dll = 96,
     ph_section_alignment = 4096, ph_file_alignment = 512, ph_directories = [(0, 0)]\<rparr>"

definition sample_section :: pe_section where
  "sample_section = \<lparr>ps_name = ''.text'', ps_va = 4096, ps_vsize = 100, ps_rsize = 512, ps_raw = 512, ps_characteristics = 1610612768\<rparr>"

theorem layout_reads_back_witness:
  "\<exists>l. parse_pe_layout (pe_image sample_header [sample_section] (replicate 600 204)) = Inr l \<and> pl_sections l = [sample_section]"
proof -
  have "header_ok sample_header" by (simp add: header_ok_def sample_header_def)
  moreover have "list_all section_ok [sample_section]" by (simp add: section_ok_def sample_section_def)
  moreover have "256 \<le> length (pe_image sample_header [sample_section] (replicate 600 204))" by (simp add: pe_image_def)
  ultimately show ?thesis using layout_reads_back [of sample_header "[sample_section]" "replicate 600 204"]
    by (auto simp: sample_header_def)
qed

theorem layout_bounded_witness:
  "\<exists>l. parse_pe_layout (pe_image sample_header [sample_section] (replicate 600 204)) = Inr l
     \<and> length (pl_imports l) \<le> 4096 \<and> exceptions_ok (pl_header l) 16384 (pl_exceptions l)"
proof -
  have "header_ok sample_header" by (simp add: header_ok_def sample_header_def)
  moreover have "list_all section_ok [sample_section]" by (simp add: section_ok_def sample_section_def)
  moreover have "256 \<le> length (pe_image sample_header [sample_section] (replicate 600 204))" by (simp add: pe_image_def)
  ultimately obtain l where l: "parse_pe_layout (pe_image sample_header [sample_section] (replicate 600 204)) = Inr l"
    using image_parsed [of sample_header "[sample_section]" "replicate 600 204"] by (auto simp: sample_header_def)
  from layout_bounded [OF l] l show ?thesis by blast
qed

text \<open>An address in the part of a section that has no bytes in the file is mapped behind the section's bytes, where the
  next section begins.\<close>

lemma tail_address_leaves_section:
  assumes "find (section_holds rva) ss = Some s" and "ps_va s + ps_rsize s \<le> rva"
  shows "ps_raw s + ps_rsize s \<le> rva_to_offset ss header_size rva"
  using assms by (simp add: rva_to_offset_def)

end
