(* ===== verification/OepSearch.thy ===== *)
theory OepSearch
  imports PeLayout Contracts
begin

text \<open>
  Where the original entry point of a packed program may be, from \<open>runtime_sections/40_unpack_and_dump.py\<close>
  (\<open>_build_find_oep_section_plan\<close> to \<open>_find_oep_candidate_from_state\<close>, \<open>_oep_section_condition\<close>,
  \<open>_oep_looks_like_prologue\<close>, \<open>_oep_accept\<close>). The layout is the one \<open>parse_pe_layout\<close> returns, or
  nothing when it raised. The disassembler is an argument.
\<close>

subsection \<open>The plan\<close>

record exec_section =
  es_name :: string
  es_lower :: string
  es_start :: int
  es_size :: int
  es_end :: int
  es_section :: pe_section

record section_plan =
  sp_layout :: "pe_layout option"
  sp_base_hex :: string
  sp_entry_hex :: string
  sp_base :: int
  sp_entry :: int
  sp_sections :: "exec_section list"
  sp_phases :: "exec_section list list"
  sp_entry_section :: string
  sp_callbacks :: "(tls_callback \<times> int) list"

definition hex_number :: "string \<Rightarrow> pyexn + int" where
  "hex_number t = (case int16 t of Some i \<Rightarrow> Inr i | None \<Rightarrow> Inl ValueError)"

definition hex_or :: "pyval \<Rightarrow> string \<Rightarrow> string" where
  "hex_or v dflt = (case normalize_hex v of Some t \<Rightarrow> if t = [] then dflt else t | None \<Rightarrow> dflt)"

definition exec_section_of :: "int \<Rightarrow> pe_section \<Rightarrow> exec_section" where
  "exec_section_of base s =
     (let start = base + int (ps_va s); n = int (max (max (ps_vsize s) (ps_rsize s)) 1) in
      \<lparr>es_name = ps_name s, es_lower = lower (strip (ps_name s)), es_start = start, es_size = n, es_end = start + n, es_section = s\<rparr>)"

definition phase_key :: "exec_section list \<Rightarrow> (int \<times> int) list" where
  "phase_key phase = map (\<lambda>s. (es_start s, es_size s)) phase"

text \<open>The sections that do not have the name, unless that leaves none.\<close>

definition without_name :: "string \<Rightarrow> exec_section list \<Rightarrow> exec_section list" where
  "without_name name sections = filter (\<lambda>s. es_lower s \<noteq> name) sections"

definition primary_phase :: "string \<Rightarrow> exec_section list \<Rightarrow> exec_section list" where
  "primary_phase packer sections =
     (if packer \<noteq> [] \<and> length sections > 1 \<and> without_name packer sections \<noteq> [] then without_name packer sections else sections)"

fun dedupe_phases :: "(int \<times> int) list list \<Rightarrow> exec_section list list \<Rightarrow> exec_section list list" where
  "dedupe_phases seen [] = []"
| "dedupe_phases seen (phase # phases) =
     (if phase = [] \<or> phase_key phase \<in> set seen then dedupe_phases seen phases
      else phase # dedupe_phases (phase_key phase # seen) phases)"

definition watch_phases :: "string \<Rightarrow> string \<Rightarrow> exec_section list \<Rightarrow> exec_section list list" where
  "watch_phases entry_section packer sections =
     (let primary = primary_phase (lower (strip packer)) sections; filtered = without_name (lower entry_section) primary in
      dedupe_phases []
        ((if entry_section \<noteq> [] \<and> length primary > 1 \<and> filtered \<noteq> [] then [filtered] else [])
         @ (if primary \<noteq> [] then [primary] else []) @ (if sections \<noteq> [] then [sections] else [])))"

definition section_plan_of :: "pyval \<Rightarrow> pyval \<Rightarrow> pe_layout option \<Rightarrow> string \<Rightarrow> pyexn + section_plan" where
  "section_plan_of module_base module_entry layout packer =
     (let base_hex = hex_or module_base ''0x0''; entry_hex = hex_or module_entry base_hex in
      sum_bind (hex_number base_hex) (\<lambda>base.
      sum_bind (hex_number entry_hex) (\<lambda>entry.
        let sections = (case layout of Some l \<Rightarrow> map (exec_section_of base) (filter ps_executable (pl_sections l)) | None \<Rightarrow> []);
            entry_section = (case layout of Some l \<Rightarrow> (case pl_entry_section l of Some s \<Rightarrow> strip (ps_name s) | None \<Rightarrow> []) | None \<Rightarrow> [])
        in Inr \<lparr>sp_layout = layout, sp_base_hex = base_hex, sp_entry_hex = entry_hex, sp_base = base, sp_entry = entry,
             sp_sections = sections, sp_phases = watch_phases entry_section packer sections, sp_entry_section = entry_section,
             sp_callbacks = (case layout of Some l \<Rightarrow> map (\<lambda>c. (c, base + int (tc_rva c))) (pt_callbacks (pl_tls l)) | None \<Rightarrow> [])\<rparr>)))"

definition section_for_runtime_address :: "int \<Rightarrow> exec_section list \<Rightarrow> exec_section option" where
  "section_for_runtime_address a sections = find (\<lambda>s. es_start s \<le> a \<and> a < es_end s) sections"

subsection \<open>A candidate from a paused state\<close>

record oep_candidate =
  oc_rip :: string
  oc_address :: int
  oc_section :: exec_section
  oc_distance :: int
  oc_foreign_return :: bool
  oc_reason :: string
  oc_confidence :: string

text \<open>Iterating over text or a dictionary yields no frames; other values cannot be iterated over.\<close>

definition frames_of :: "pydict \<Rightarrow> pyexn + pyval list" where
  "frames_of callstack =
     (case dict_get_default callstack ''entries'' (VList []) of
        VList vs \<Rightarrow> Inr vs | VTuple vs \<Rightarrow> Inr vs | VStr s \<Rightarrow> Inr [] | VBytes s \<Rightarrow> Inr [] | VDict d \<Rightarrow> Inr [] | _ \<Rightarrow> Inl TypeError)"

text \<open>Whether a frame returns to the address from outside the module; the search stops at the first.\<close>

fun foreign_return :: "string \<Rightarrow> int \<Rightarrow> int \<Rightarrow> pyval list \<Rightarrow> pyexn + bool" where
  "foreign_return rip low high [] = Inr False"
| "foreign_return rip low high (v # vs) =
     (if \<not> is_dict v \<or> normalize_hex (dict_get (as_dict v) ''to'') \<noteq> Some rip then foreign_return rip low high vs
      else (case normalize_hex (dict_get (as_dict v) ''from'') of
              None \<Rightarrow> foreign_return rip low high vs
            | Some t \<Rightarrow>
                (if t = [] then foreign_return rip low high vs
                 else sum_bind (hex_number t) (\<lambda>from_int.
                      if \<not> (low \<le> from_int \<and> from_int < high) then Inr True else foreign_return rip low high vs))))"

definition shown_section :: "exec_section \<Rightarrow> string" where
  "shown_section s = (if es_name s = [] then ''<unnamed>'' else es_name s)"

definition candidate_verdict :: "string \<Rightarrow> exec_section \<Rightarrow> string \<Rightarrow> int \<Rightarrow> bool \<Rightarrow> (string \<times> string) option" where
  "candidate_verdict rip section entry_lower distance foreign =
     (if es_lower section \<noteq> entry_lower \<and> distance \<ge> 64
      then Some (''entered executable section '' @ shown_section section @ '' at '' @ rip, if foreign \<or> distance \<ge> 1024 then ''high'' else ''medium'')
      else if foreign \<and> distance \<ge> 128 then Some (''returned into module code at '' @ rip @ '' from non-module frame'', ''medium'')
      else if distance \<ge> 2048 then Some (''reached module code far from entry stub at '' @ rip, ''medium'')
      else None)"

definition find_candidate ::
  "pydict \<Rightarrow> int \<Rightarrow> int \<Rightarrow> int \<Rightarrow> exec_section list \<Rightarrow> string \<Rightarrow> pyexn + oep_candidate option" where
  "find_candidate state base image_size entry sections entry_section =
     (case normalize_hex (dict_get state ''rip'') of
        None \<Rightarrow> Inr None
      | Some rip \<Rightarrow>
          (if rip = [] then Inr None
           else sum_bind (hex_number rip) (\<lambda>a.
             let high = base + max image_size 1 in
             if \<not> (base \<le> a \<and> a < high) then Inr None
             else (case section_for_runtime_address a sections of
                     None \<Rightarrow> Inr None
                   | Some section \<Rightarrow>
                       (let distance = \<bar>a - entry\<bar> in
                        if distance \<le> 64 then Inr None
                        else sum_bind (frames_of (as_dict (dict_get state ''callStack''))) (\<lambda>frames.
                             sum_bind (foreign_return rip base high frames) (\<lambda>foreign.
                               Inr (map_option (\<lambda>(reason, confidence).
                                 \<lparr>oc_rip = rip, oc_address = a, oc_section = section, oc_distance = distance, oc_foreign_return = foreign,
                                  oc_reason = reason, oc_confidence = confidence\<rparr>)
                                 (candidate_verdict rip section (lower (strip entry_section)) distance foreign)))))))))"

subsection \<open>Prologues\<close>

text \<open>The first hexadecimal literal of a text, as \<open>re.search\<close> of \<open>0x[0-9a-f]+\<close> finds it.\<close>

definition lower_hex :: "char \<Rightarrow> bool" where
  "lower_hex c \<longleftrightarrow> 48 \<le> cp c \<and> cp c \<le> 57 \<or> 97 \<le> cp c \<and> cp c \<le> 102"

fun find_hex :: "string \<Rightarrow> string option" where
  "find_hex [] = None"
| "find_hex (c # s) =
     (case s of
        x # d # rest \<Rightarrow>
          (if c = CHR ''0'' \<and> x = CHR ''x'' \<and> lower_hex d then Some (''0x'' @ takeWhile lower_hex (d # rest)) else find_hex s)
      | _ \<Rightarrow> None)"

definition no_spaces :: "string \<Rightarrow> string" where
  "no_spaces s = filter (\<lambda>c. c \<noteq> CHR '' '') s"

definition store_prologue :: "string \<Rightarrow> bool" where
  "store_prologue s \<longleftrightarrow> (contains ''[rsp+'' s \<or> contains ''[esp+'' s) \<and> CHR '','' \<in> set s \<and> ends_with (fst (split_once (CHR '','') s)) '']''"

definition instruction_texts :: "pyval option \<Rightarrow> string list" where
  "instruction_texts reply =
     (case reply of
        Some (VDict d) \<Rightarrow>
          (case dict_get d ''instructions'' of
             VList vs \<Rightarrow> map (\<lambda>v. lower (strip (str_or_empty (dict_get (as_dict v) ''instruction'')))) (filter is_dict (take 6 vs))
           | _ \<Rightarrow> [])
      | _ \<Rightarrow> [])"

definition junk_markers :: "string list" where
  "junk_markers = [''int3'', ''???'', ''add byte ptr'', ''byte ptr ds:[rax], al'']"

definition second_starts :: "string list \<Rightarrow> string list \<Rightarrow> bool" where
  "second_starts texts prefixes \<longleftrightarrow> (case texts of _ # t # _ \<Rightarrow> list_ex (starts_with t) prefixes | _ \<Rightarrow> False)"

text \<open>A jump is followed once.\<close>

fun looks_like_prologue :: "(string \<Rightarrow> pyval option) \<Rightarrow> nat \<Rightarrow> string \<Rightarrow> bool" where
  "looks_like_prologue disasm depth rip =
     (let texts = instruction_texts (disasm rip); first = (case texts of t # _ \<Rightarrow> t | [] \<Rightarrow> []);
          opcode = fst (split_once (CHR '' '') first); operands = strip (snd (split_once (CHR '' '') first))
      in if first = [] \<or> list_ex (\<lambda>m. contains m first) junk_markers then False
         else if opcode = ''endbr64'' \<or> opcode = ''endbr32''
         then second_starts texts [''push '', ''sub rsp'', ''sub esp'', ''mov ebp, esp'', ''mov rbp, rsp'']
         else if opcode = ''push'' then operands \<noteq> [] \<and> \<not> contains ''ptr'' operands
         else if opcode = ''sub'' then list_ex (starts_with operands) [''rsp,'', ''esp,'']
         else if opcode = ''mov''
         then list_ex (starts_with (no_spaces operands)) [''ebp,esp'', ''rbp,rsp'', ''edi,edi''] \<or> store_prologue (no_spaces operands)
         else if opcode = ''call'' then second_starts texts [''jmp '']
         else if opcode = ''jmp''
         then (case depth of
                 Suc d \<Rightarrow> (case find_hex operands of Some target \<Rightarrow> looks_like_prologue disasm d target | None \<Rightarrow> False)
               | 0 \<Rightarrow> False)
         else False)"

subsection \<open>Acceptance\<close>

record oep_verdict =
  ov_accepted :: bool
  ov_confidence :: "string option"
  ov_reason :: string
  ov_section :: "exec_section option"
  ov_distance :: int

definition refused_oep :: "string \<Rightarrow> oep_verdict" where
  "refused_oep reason = \<lparr>ov_accepted = False, ov_confidence = None, ov_reason = reason, ov_section = None, ov_distance = 0\<rparr>"

definition oep_accept :: "(string \<Rightarrow> pyval option) \<Rightarrow> string option \<Rightarrow> section_plan \<Rightarrow> pyexn + oep_verdict" where
  "oep_accept disasm rip plan =
     (case rip of
        None \<Rightarrow> Inr (refused_oep ''no rip'')
      | Some rip \<Rightarrow>
          (if rip = [] then Inr (refused_oep ''no rip'')
           else sum_bind (hex_number rip) (\<lambda>a.
             let size = (case sp_layout plan of Some l \<Rightarrow> int (ph_image_size (pl_header l)) | None \<Rightarrow> 0);
                 entry_section = lower (strip (sp_entry_section plan))
             in if sp_base plan \<noteq> 0 \<and> size \<noteq> 0 \<and> \<not> (sp_base plan \<le> a \<and> a < sp_base plan + size)
                then Inr (refused_oep ''rip outside the image'')
                else (case section_for_runtime_address a (sp_sections plan) of
                        None \<Rightarrow> Inr (refused_oep ''rip not in an executable section'')
                      | Some section \<Rightarrow>
                          (if entry_section \<noteq> [] \<and> es_lower section = entry_section
                           then Inr (refused_oep (''rip still in packer/entry section '' @ es_name section))
                           else Inr \<lparr>ov_accepted = True,
                                  ov_confidence = Some (if looks_like_prologue disasm 1 rip then ''high'' else ''medium''),
                                  ov_reason = ''section-hop into '' @ shown_section section @ '' at '' @ rip,
                                  ov_section = Some section, ov_distance = \<bar>a - sp_entry plan\<bar>\<rparr>)))))"

text \<open>The condition of the trace that stops in one of the sections.\<close>

definition section_condition :: "exec_section list \<Rightarrow> string" where
  "section_condition sections =
     (let parts = concat (map (\<lambda>s. if es_start s < es_end s
            then [''(cip>='' @ hex0x (es_start s) @ '' && cip<'' @ hex0x (es_end s) @ '')''] else []) sections)
      in (case parts of [] \<Rightarrow> [] | p # ps \<Rightarrow> p @ concat (map (\<lambda>q. '' || '' @ q) ps)))"

end
