(* ===== verification/OepSearchProps.thy ===== *)
theory OepSearchProps
  imports OepSearch PeImage
begin

text \<open>
  What the plan watches and what the search accepts.
\<close>

lemma exec_section_nonempty [simp]: "es_start (exec_section_of base s) < es_end (exec_section_of base s)"
  by (simp add: exec_section_of_def Let_def)

lemma section_found:
  "section_for_runtime_address a sections = Some s \<Longrightarrow> s \<in> set sections \<and> es_start s \<le> a \<and> a < es_end s"
  by (auto simp: section_for_runtime_address_def find_Some_iff)


subsection \<open>Phases\<close>

lemma dedupe_set: "set (dedupe_phases seen phases) \<subseteq> set phases"
  by (induction phases arbitrary: seen) auto

lemma dedupe_nonempty: "p \<in> set (dedupe_phases seen phases) \<Longrightarrow> p \<noteq> []"
  by (induction phases arbitrary: seen) (auto split: if_split_asm)

lemma dedupe_unseen: "p \<in> set (dedupe_phases seen phases) \<Longrightarrow> phase_key p \<notin> set seen"
proof (induction phases arbitrary: seen)
  case (Cons q phases)
  then show ?case using Cons.IH [of seen] Cons.IH [of "phase_key q # seen"] by (auto split: if_split_asm)
qed simp

lemma dedupe_distinct: "distinct (map phase_key (dedupe_phases seen phases))"
  by (induction phases arbitrary: seen) (auto dest: dedupe_unseen)

lemma dedupe_complete:
  "p \<in> set phases \<Longrightarrow> p \<noteq> [] \<Longrightarrow> phase_key p \<in> set seen \<or> phase_key p \<in> phase_key ` set (dedupe_phases seen phases)"
proof (induction phases arbitrary: seen)
  case (Cons q phases)
  show ?case
  proof (cases "p = q")
    case False
    with Cons.prems have "p \<in> set phases" by simp
    from Cons.IH [OF this Cons.prems(2), of seen] Cons.IH [OF this Cons.prems(2), of "phase_key q # seen"] show ?thesis by auto
  qed (use Cons.prems in auto)
qed simp

lemma primary_phase_filter:
  "set (primary_phase packer sections) \<subseteq> set sections"
  "packer \<noteq> [] \<Longrightarrow> length sections > 1 \<Longrightarrow> s \<in> set sections \<Longrightarrow> es_lower s \<noteq> packer \<Longrightarrow>
     primary_phase packer sections = without_name packer sections \<and> primary_phase packer sections \<noteq> []"
  by (auto simp: primary_phase_def without_name_def filter_empty_conv)

lemma hd_dedupe: "p \<noteq> [] \<Longrightarrow> hd (dedupe_phases [] (p # phases)) = p"
  by simp

text \<open>C17: The phases of a plan are different, non-empty groups of the executable sections of the image, each of
  positive extent; together they cover every executable section, and when the packer's section is named
  and there is another one, the first phase leaves the packer's out.\<close>

theorem plan_phases:
  assumes "section_plan_of module_base module_entry layout packer = Inr plan"
  shows "distinct (map phase_key (sp_phases plan))
    \<and> list_all (\<lambda>p. p \<noteq> [] \<and> set p \<subseteq> set (sp_sections plan)) (sp_phases plan)
    \<and> list_all (\<lambda>s. ps_executable (es_section s) \<and> es_start s < es_end s) (sp_sections plan)
    \<and> (sp_sections plan = [] \<or> phase_key (sp_sections plan) \<in> set (map phase_key (sp_phases plan)))
    \<and> (lower (strip packer) = [] \<or> length (sp_sections plan) \<le> 1 \<or> list_all (\<lambda>s. es_lower s = lower (strip packer)) (sp_sections plan)
        \<or> list_all (\<lambda>s. es_lower s \<noteq> lower (strip packer)) (hd (sp_phases plan)))"
proof -
  let ?entry_section = "sp_entry_section plan"
  have sections: "\<forall>s \<in> set (sp_sections plan). \<exists>p. ps_executable p \<and> s = exec_section_of (sp_base plan) p"
    using assms by (auto simp: section_plan_of_def Let_def sum_bind_Inr split: option.split_asm)
  have phases: "sp_phases plan = watch_phases ?entry_section packer (sp_sections plan)"
    using assms by (auto simp: section_plan_of_def Let_def sum_bind_Inr)
  let ?sections = "sp_sections plan" and ?packer = "lower (strip packer)"
  let ?primary = "primary_phase ?packer ?sections"
  let ?filtered = "without_name (lower ?entry_section) ?primary"
  define groups where "groups = (if ?entry_section \<noteq> [] \<and> length ?primary > 1 \<and> ?filtered \<noteq> [] then [?filtered] else [])
         @ (if ?primary \<noteq> [] then [?primary] else []) @ (if ?sections \<noteq> [] then [?sections] else [])"
  have p: "sp_phases plan = dedupe_phases [] groups" unfolding phases watch_phases_def Let_def groups_def by simp
  have subset: "\<forall>q \<in> set groups. set q \<subseteq> set ?sections"
    using primary_phase_filter(1) [of ?packer ?sections] by (auto simp: groups_def without_name_def)
  have "list_all (\<lambda>q. q \<noteq> [] \<and> set q \<subseteq> set ?sections) (sp_phases plan)"
    unfolding p list_all_iff using subset dedupe_set [of "[]" groups] dedupe_nonempty [of _ "[]" groups] by blast
  moreover have "distinct (map phase_key (sp_phases plan))" unfolding p using dedupe_distinct by blast
  moreover have "list_all (\<lambda>s. ps_executable (es_section s) \<and> es_start s < es_end s) ?sections"
    using sections by (auto simp: list_all_iff exec_section_of_def Let_def)
  moreover have "?sections = [] \<or> phase_key ?sections \<in> set (map phase_key (sp_phases plan))"
  proof (cases "?sections = []")
    case False
    then have "?sections \<in> set groups" by (simp add: groups_def)
    from dedupe_complete [OF this False, of "[]"] show ?thesis by (simp add: p)
  qed simp
  moreover have "list_all (\<lambda>s. es_lower s \<noteq> ?packer) (hd (sp_phases plan))"
    if c: "?packer \<noteq> []" "\<not> length ?sections \<le> 1" "\<not> list_all (\<lambda>s. es_lower s = ?packer) ?sections"
  proof -
    from c(3) obtain s where s: "s \<in> set ?sections" "es_lower s \<noteq> ?packer" by (auto simp: list_all_iff)
    have "1 < length ?sections" using c(2) by simp
    from primary_phase_filter(2) [OF c(1) this s]
    have primary: "?primary = without_name ?packer ?sections" "?primary \<noteq> []" by blast+
    define q where "q = hd groups"
    have "q = ?filtered \<and> ?filtered \<noteq> [] \<or> q = ?primary" and ne: "groups \<noteq> []"
      using primary(2) by (simp_all add: q_def groups_def)
    then have "q = ?filtered \<or> q = ?primary" "q \<noteq> []" using primary(2) by auto
    then have "\<forall>x \<in> set q. es_lower x \<noteq> ?packer"
      using primary(1) by (auto simp: without_name_def)
    moreover have "hd (sp_phases plan) = q"
      unfolding p using hd_dedupe [OF \<open>q \<noteq> []\<close>, of "tl groups"] ne by (simp add: q_def)
    ultimately show ?thesis by (simp add: list_all_iff)
  qed
  ultimately show ?thesis by blast
qed

subsection \<open>Candidates\<close>

text \<open>A candidate lies in the module and in one of the executable sections, more than 64 bytes away from the entry
  of the stub; inside the stub's own section it is reported only far away, or after a return from
  outside the module.\<close>

lemma candidate_sound:
  assumes "find_candidate state base image_size entry sections entry_section = Inr (Some c)"
  shows "base \<le> oc_address c \<and> oc_address c < base + max image_size 1
    \<and> oc_section c \<in> set sections \<and> es_start (oc_section c) \<le> oc_address c \<and> oc_address c < es_end (oc_section c)
    \<and> \<bar>oc_address c - entry\<bar> > 64
    \<and> (es_lower (oc_section c) \<noteq> lower (strip entry_section) \<or> oc_foreign_return c \<and> \<bar>oc_address c - entry\<bar> \<ge> 128
        \<or> \<bar>oc_address c - entry\<bar> \<ge> 2048)"
proof -
  obtain rip where rip: "normalize_hex (dict_get state ''rip'') = Some rip" "rip \<noteq> []"
    using assms by (auto simp: find_candidate_def split: option.split_asm if_split_asm)
  obtain a where a: "hex_number rip = Inr a" using assms rip by (auto simp: find_candidate_def sum_bind_Inr)
  have inside: "base \<le> a \<and> a < base + max image_size 1"
    using assms rip a by (auto simp: find_candidate_def Let_def split: if_split_asm)
  obtain sec where s: "section_for_runtime_address a sections = Some sec"
    using assms rip a inside by (auto simp: find_candidate_def Let_def split: option.split_asm)
  have far: "\<not> \<bar>a - entry\<bar> \<le> 64" using assms rip a inside s by (auto simp: find_candidate_def Let_def split: if_split_asm)
  from assms rip a inside s far obtain foreign reason confidence where
    v: "candidate_verdict rip sec (lower (strip entry_section)) \<bar>a - entry\<bar> foreign = Some (reason, confidence)"
    and c: "c = \<lparr>oc_rip = rip, oc_address = a, oc_section = sec, oc_distance = \<bar>a - entry\<bar>, oc_foreign_return = foreign,
       oc_reason = reason, oc_confidence = confidence\<rparr>"
    by (auto simp: find_candidate_def Let_def sum_bind_Inr)
  have "es_lower sec \<noteq> lower (strip entry_section) \<or> foreign \<and> \<bar>a - entry\<bar> \<ge> 128 \<or> \<bar>a - entry\<bar> \<ge> 2048"
    using v by (auto simp: candidate_verdict_def split: if_split_asm)
  with inside far section_found [OF s] show ?thesis unfolding c by simp
qed

subsection \<open>Acceptance\<close>









subsection \<open>A packed image\<close>

definition packed_header :: pe_header where
  "packed_header = \<lparr>ph_machine = 332, ph_section_count = 2, ph_time = 0, ph_optional_size = 96, ph_characteristics = 0, ph_is64 = False,
     ph_entry = 520, ph_image_base = 1024, ph_image_size = 768, ph_header_size = 64, ph_checksum = 0, ph_subsystem = 3, ph_dll = 0,
     ph_section_alignment = 16, ph_file_alignment = 16, ph_directories = []\<rparr>"

definition packed_section :: "string \<Rightarrow> nat \<Rightarrow> pe_section" where
  "packed_section name va = \<lparr>ps_name = name, ps_va = va, ps_vsize = 256, ps_rsize = 64, ps_raw = 64, ps_characteristics = 536870912\<rparr>"

definition packed_layout :: pe_layout where
  "packed_layout = \<lparr>pl_header = packed_header, pl_file_size = 2048, pl_sections = [packed_section ''UPX0'' 256, packed_section ''UPX1'' 512],
     pl_imports = [], pl_exports = [], pl_tls = \<lparr>pt_callbacks_va = 0, pt_callbacks = [], pt_diagnostics = []\<rparr>,
     pl_exceptions = empty_exceptions, pl_entry_section = Some (packed_section ''UPX1'' 512)\<rparr>"

lemma packed_executable: "ps_executable (packed_section name va)"
  by (simp add: ps_executable_def packed_section_def flag_def)

lemma packed_numbers: "hex_or (VStr ''0x400'') ''0x0'' = ''0x400''" "hex_or (VStr ''0x608'') ''0x400'' = ''0x608''"
  "hex_number ''0x400'' = Inr 1024" "hex_number ''0x608'' = Inr 1544"
  by code_simp+

theorem plan_phases_witness:
  "\<exists>plan. section_plan_of (VStr ''0x400'') (VStr ''0x608'') (Some packed_layout) ''UPX1'' = Inr plan
     \<and> length (sp_sections plan) = 2 \<and> distinct (map phase_key (sp_phases plan))"
proof -
  obtain plan where plan: "section_plan_of (VStr ''0x400'') (VStr ''0x608'') (Some packed_layout) ''UPX1'' = Inr plan"
    "length (sp_sections plan) = 2"
    by (simp add: section_plan_of_def packed_numbers packed_layout_def packed_executable Let_def)
  from plan_phases [OF plan(1)] plan show ?thesis by blast
qed

definition packed_sections :: "exec_section list" where
  "packed_sections = map (exec_section_of 1024) [packed_section ''UPX0'' 256, packed_section ''UPX1'' 512]"

definition packed_state :: pydict where
  "packed_state = [(''rip'', VStr ''0x510'')]"




end
