(* ===== verification/OepRun.thy ===== *)
theory OepRun
  imports OepSearch ResultEnvelope
begin

text \<open>
  The runs of the search for the original entry point, from \<open>runtime_sections/40_unpack_and_dump.py\<close>
  (\<open>_oep_norm_rip\<close>, \<open>_oep_exception_history_cursor\<close> to \<open>_oep_run_to_entry\<close>, \<open>_oep_run_to_temporary_address\<close>). The
  state is the list of the calls made so far, newest first; the debugger answers a call from that list, so
  every behaviour of it is covered. The clock shows the microseconds that are left. The time of an
  observation is left out of the transitions.
\<close>

subsection \<open>Calls\<close>

datatype call =
    Clock
  | Read_state
  | Acquire_bp string string int string
  | Release_bp string
  | Run
  | Wait int int
  | Continue int
  | History int int

type_synonym calls = "call list"

datatype fault = Raised string | Python pyexn

record debugger =
  db_left :: "calls \<Rightarrow> int"
  db_state :: "calls \<Rightarrow> string + pydict"
  db_reply :: "calls \<Rightarrow> string + pyval"

definition ask :: "debugger \<Rightarrow> call \<Rightarrow> calls \<Rightarrow> (fault + pyval) \<times> calls" where
  "ask D c h = (case db_reply D (c # h) of Inl t \<Rightarrow> (Inl (Raised t), c # h) | Inr v \<Rightarrow> (Inr v, c # h))"

definition read_state :: "debugger \<Rightarrow> calls \<Rightarrow> (fault + pydict) \<times> calls" where
  "read_state D h = (case db_state D (Read_state # h) of Inl t \<Rightarrow> (Inl (Raised t), Read_state # h) | Inr d \<Rightarrow> (Inr d, Read_state # h))"

definition time_left :: "debugger \<Rightarrow> calls \<Rightarrow> int \<times> calls" where
  "time_left D h = (db_left D (Clock # h), Clock # h)"

definition lift_py :: "pyexn + 'a \<Rightarrow> fault + 'a" where
  "lift_py r = (case r of Inl e \<Rightarrow> Inl (Python e) | Inr x \<Rightarrow> Inr x)"

definition ok_reply :: "pyval \<Rightarrow> bool" where
  "ok_reply v \<longleftrightarrow> is_dict v \<and> truthy (dict_get (as_dict v) ''ok'')"

definition error_text :: "pyval \<Rightarrow> string" where
  "error_text v = (case v of VDict d \<Rightarrow> py_str (dict_get d ''error'') | _ \<Rightarrow> py_str v)"

subsection \<open>What a state says\<close>

definition session_of :: "pydict \<Rightarrow> pydict" where
  "session_of st = as_dict (dict_get st ''session'')"

definition norm_rip :: "pydict \<Rightarrow> pydict \<Rightarrow> string option" where
  "norm_rip regs st =
     (if truthy (dict_get regs ''rip'') then normalize_hex (dict_get regs ''rip'')
      else if truthy (dict_get regs ''cip'') then normalize_hex (dict_get regs ''cip'')
      else if truthy (dict_get regs ''eip'') then normalize_hex (dict_get regs ''eip'')
      else normalize_hex (dict_get st ''rip''))"

definition state_rip :: "pydict \<Rightarrow> string option" where
  "state_rip st = norm_rip (as_dict (dict_get st ''registers'')) st"

text \<open>An address that is shown; a text that is not a number raises.\<close>

definition rip_number :: "string option \<Rightarrow> pyexn + int option" where
  "rip_number rip = (case rip of None \<Rightarrow> Inr None | Some t \<Rightarrow> if t = [] then Inr None else map_sum id Some (hex_number t))"

definition event_seq :: "pydict \<Rightarrow> pyexn + int" where
  "event_seq st = int_or (py_or (dict_get st ''eventSeq'') (dict_get (session_of st) ''eventSeq'')) 0"

definition stop_reason :: "pydict \<Rightarrow> string" where
  "stop_reason st = str_or_empty (py_or (dict_get st ''stopReason'') (dict_get (session_of st) ''stopReason''))"

definition exception_code :: "pydict \<Rightarrow> string" where
  "exception_code st = py_str (py_or (dict_get st ''exceptionCode'') (py_or (dict_get (session_of st) ''exceptionCode'') (VStr ''0x0'')))"

definition exception_pending :: "pydict \<Rightarrow> bool" where
  "exception_pending st \<longleftrightarrow>
     truthy (dict_get (session_of st) ''exceptionPending'')
     \<or> lower (exception_code st) \<notin> set ['''', ''0'', ''0x0''] \<and> lower (stop_reason st) = ''exception''"

definition exception_claimed :: "pydict \<Rightarrow> bool" where
  "exception_claimed st \<longleftrightarrow> truthy (dict_get (session_of st) ''exceptionContinuationClaimed'')"

definition first_chance :: "pydict \<Rightarrow> bool" where
  "first_chance st \<longleftrightarrow>
     truthy (if dict_get st ''exceptionFirstChance'' \<noteq> VNone then dict_get st ''exceptionFirstChance''
             else dict_get (session_of st) ''exceptionFirstChance'')"

subsection \<open>Telemetry\<close>

record telemetry =
  tm_notes :: "string list"
  tm_transitions :: "pydict list"
  tm_truncated :: bool
  tm_callbacks :: "pydict list"

definition add_note :: "string \<Rightarrow> telemetry \<Rightarrow> telemetry" where
  "add_note t tm = tm\<lparr>tm_notes := tm_notes tm @ [t]\<rparr>"

definition transition_item :: "nat \<Rightarrow> string \<Rightarrow> pydict \<Rightarrow> pydict \<Rightarrow> pyexn + pydict" where
  "transition_item seq phase st evidence =
     sum_bind (event_seq st) (\<lambda>event.
       Inr (fold (\<lambda>(k, v). AList.update k v) (filter (\<lambda>(k, v). v \<noteq> VNone) evidence)
         [(''seq'', VInt (int seq)), (''phase'', VStr phase), (''eventSeq'', VInt event),
          (''threadId'', py_or (dict_get st ''threadId'') (dict_get (session_of st) ''threadId'')),
          (''rip'', optional_text (normalize_hex (py_or (dict_get st ''rip'') (py_or (dict_get (session_of st) ''ip'') (dict_get evidence ''address'')))))]))"

definition append_transition :: "string \<Rightarrow> pydict \<Rightarrow> pydict \<Rightarrow> telemetry \<Rightarrow> pyexn + telemetry" where
  "append_transition phase st evidence tm =
     (if length (tm_transitions tm) \<ge> 128 then Inr (tm\<lparr>tm_truncated := True\<rparr>)
      else sum_bind (transition_item (length (tm_transitions tm) + 1) phase st evidence) (\<lambda>item.
           Inr (tm\<lparr>tm_transitions := tm_transitions tm @ [item]\<rparr>)))"

subsection \<open>The loop to the entry\<close>

text \<open>A pending exception: a second chance ends the run, a first chance is passed to the program.\<close>

definition pass_exception ::
  "debugger \<Rightarrow> pydict \<Rightarrow> pyval \<Rightarrow> pydict \<Rightarrow> telemetry \<Rightarrow> calls \<Rightarrow> (fault + bool) \<times> telemetry \<times> calls" where
  "pass_exception D st rip extra tm h =
     (case event_seq st of
        Inl e \<Rightarrow> (Inl (Python e), tm, h)
      | Inr seq \<Rightarrow>
          (case append_transition ''exception'' st
             ([(''address'', py_or (dict_get st ''exceptionAddress'') (py_or (dict_get (session_of st) ''address'') rip)),
               (''exceptionCode'', VStr (exception_code st)), (''chance'', VStr (if first_chance st then ''first'' else ''second''))] @ extra) tm of
             Inl e \<Rightarrow> (Inl (Python e), tm, h)
           | Inr tm \<Rightarrow>
               (if \<not> first_chance st
                then (Inr False, add_note ''pre-entry second-chance exception stopped OEP workflow'' tm, h)
                else (case ask D (Continue seq) h of
                        (Inl x, h) \<Rightarrow> (Inl x, tm, h)
                      | (Inr v, h) \<Rightarrow>
                          (if ok_reply v then (Inr True, tm, h)
                           else (Inr False, add_note (''pre-entry exception pass failed: '' @ error_text v) tm, h))))))"

text \<open>Before each run, an exception that nobody has claimed.\<close>

definition before_run :: "debugger \<Rightarrow> telemetry \<Rightarrow> calls \<Rightarrow> (fault + bool) \<times> telemetry \<times> calls" where
  "before_run D tm h =
     (case read_state D h of
        (Inl x, h) \<Rightarrow> (Inl x, tm, h)
      | (Inr st, h) \<Rightarrow>
          (if exception_pending st \<and> \<not> exception_claimed st
           then pass_exception D st (optional_text (state_rip st)) [(''observedBeforeRun'', VBool True)] tm h
           else (Inr True, tm, h)))"

type_synonym event_key = "int \<times> string \<times> string option"

datatype pause_verdict = Stop bool | Again "event_key list"

definition callback_evidence :: "string option \<Rightarrow> pydict \<Rightarrow> pyexn + pydict" where
  "callback_evidence rip cb =
     sum_bind (int_or (dict_get cb ''index'') 0) (\<lambda>i.
       Inr [(''address'', optional_text rip), (''callbackIndex'', VInt i), (''callbackRva'', dict_get cb ''rva''), (''callbackSection'', dict_get cb ''section'')])"

text \<open>A pause that was waited for: the entry, a callback, an exception, or a stop of the loader.\<close>

definition on_pause ::
  "debugger \<Rightarrow> int \<Rightarrow> (int \<times> pydict) list \<Rightarrow> pydict \<Rightarrow> event_key list \<Rightarrow> telemetry \<Rightarrow> calls \<Rightarrow> (fault + pause_verdict) \<times> telemetry \<times> calls" where
  "on_pause D entry callbacks st seen tm h =
     (case event_seq st of
        Inl e \<Rightarrow> (Inl (Python e), tm, h)
      | Inr seq \<Rightarrow>
          (let rip = state_rip st; key = (seq, stop_reason st, rip); is_new = (key \<notin> set seen);
               tm = (if is_new then tm else add_note (''pre-entry duplicate stop suppressed eventSeq='' @ dec seq) tm);
               seen = (if is_new then key # seen else seen)
           in case rip_number rip of
                Inl e \<Rightarrow> (Inl (Python e), tm, h)
              | Inr number \<Rightarrow>
                  (if number = Some entry
                   then (case append_transition ''entry'' st [(''address'', optional_text rip)] tm of
                           Inl e \<Rightarrow> (Inl (Python e), tm, h) | Inr tm \<Rightarrow> (Inr (Stop True), tm, h))
                   else (case map_of callbacks (case number of Some a \<Rightarrow> a | None \<Rightarrow> 0) of
                           Some cb \<Rightarrow>
                             (case sum_bind (callback_evidence rip cb) (\<lambda>evidence. append_transition ''tls_callback'' st evidence tm) of
                                Inl e \<Rightarrow> (Inl (Python e), tm, h) | Inr tm \<Rightarrow> (Inr (Again seen), tm, h))
                         | None \<Rightarrow>
                             (if exception_pending st
                              then (case pass_exception D st (optional_text rip) [] tm h of
                                      (Inl x, tm, h) \<Rightarrow> (Inl x, tm, h)
                                    | (Inr go, tm, h) \<Rightarrow> (Inr (if go then Again seen else Stop False), tm, h))
                              else if is_new
                              then (case append_transition ''loader_stop'' st [(''address'', optional_text rip)] tm of
                                      Inl e \<Rightarrow> (Inl (Python e), tm, h) | Inr tm \<Rightarrow> (Inr (Again seen), tm, h))
                              else (Inr (Again seen), tm, h))))))"

definition gone :: "pydict \<Rightarrow> bool" where
  "gone st \<longleftrightarrow> dict_get st ''state'' = VStr ''exited'' \<or> dict_get st ''state'' = VStr ''not_debugging''"

definition after_wait ::
  "debugger \<Rightarrow> int \<Rightarrow> (int \<times> pydict) list \<Rightarrow> pydict \<Rightarrow> event_key list \<Rightarrow> telemetry \<Rightarrow> calls \<Rightarrow> (fault + pause_verdict) \<times> telemetry \<times> calls" where
  "after_wait D entry callbacks waited seen tm h =
     (if gone waited
      then (case append_transition ''exit_before_entry'' waited [] tm of
              Inl e \<Rightarrow> (Inl (Python e), tm, h) | Inr tm \<Rightarrow> (Inr (Stop False), tm, h))
      else if truthy (dict_get waited ''timedOut'') then (Inr (Again seen), tm, h)
      else (case read_state D h of
              (Inl x, h) \<Rightarrow> (Inl x, tm, h)
            | (Inr st, h) \<Rightarrow> on_pause D entry callbacks st seen tm h))"

definition run_and_wait :: "debugger \<Rightarrow> int \<Rightarrow> int \<Rightarrow> calls \<Rightarrow> (fault + pyval) \<times> calls" where
  "run_and_wait D least poll h =
     (case ask D Run h of
        (Inl x, h) \<Rightarrow> (Inl x, h)
      | (Inr v, h) \<Rightarrow> (let (left, h) = time_left D h in ask D (Wait (min (max least (left div 1000)) 8000) poll) h))"

fun entry_loop ::
  "debugger \<Rightarrow> int \<Rightarrow> (int \<times> pydict) list \<Rightarrow> nat \<Rightarrow> event_key list \<Rightarrow> telemetry \<Rightarrow> calls \<Rightarrow> (fault + bool) \<times> telemetry \<times> calls" where
  "entry_loop D entry callbacks 0 seen tm h = (Inr False, tm, h)"
| "entry_loop D entry callbacks (Suc n) seen tm h =
     (let (left, h) = time_left D h in
      if left \<le> 0 then (Inr False, tm, h)
      else (case before_run D tm h of
              (Inl x, tm, h) \<Rightarrow> (Inl x, tm, h)
            | (Inr go, tm, h) \<Rightarrow>
                (if \<not> go then (Inr False, tm, h)
                 else (case run_and_wait D 500 100 h of
                         (Inl x, h) \<Rightarrow> (Inl x, tm, h)
                       | (Inr v, h) \<Rightarrow>
                           (if \<not> is_dict v then (Inr False, tm, h)
                            else (case after_wait D entry callbacks (as_dict v) seen tm h of
                                    (Inl x, tm, h) \<Rightarrow> (Inl x, tm, h)
                                  | (Inr (Stop b), tm, h) \<Rightarrow> (Inr b, tm, h)
                                  | (Inr (Again seen), tm, h) \<Rightarrow> entry_loop D entry callbacks n seen tm h))))))"

subsection \<open>Leases of the workflow\<close>

definition lease_id :: "pyval \<Rightarrow> string option" where
  "lease_id v = (if ok_reply v \<and> truthy (dict_get (as_dict v) ''leaseId'') then Some (py_str (dict_get (as_dict v) ''leaseId'')) else None)"

definition acquire_bp ::
  "debugger \<Rightarrow> string \<Rightarrow> int \<Rightarrow> string \<Rightarrow> string \<Rightarrow> telemetry \<Rightarrow> calls \<Rightarrow> (fault + string option) \<times> telemetry \<times> calls" where
  "acquire_bp D workflow ms address name tm h =
     (case ask D (Acquire_bp address workflow ms name) h of
        (Inl x, h) \<Rightarrow> (Inl x, tm, h)
      | (Inr v, h) \<Rightarrow>
          (case lease_id v of
             Some i \<Rightarrow> (Inr (Some i), tm, h)
           | None \<Rightarrow> (Inr None, add_note (name @ '': breakpoint lease failed: '' @ error_text v) tm, h)))"

text \<open>Callbacks are best effort: a refused lease is a note.\<close>

fun acquire_callbacks ::
  "debugger \<Rightarrow> string \<Rightarrow> int \<Rightarrow> (int \<times> pydict) list \<Rightarrow> telemetry \<Rightarrow> calls \<Rightarrow> (fault + string list) \<times> telemetry \<times> calls" where
  "acquire_callbacks D workflow ms [] tm h = (Inr [], tm, h)"
| "acquire_callbacks D workflow ms ((va, cb) # rest) tm h =
     (case int_or (dict_get cb ''index'') 0 of
        Inl e \<Rightarrow> (Inl (Python e), tm, h)
      | Inr i \<Rightarrow>
          (case acquire_bp D workflow ms (hex0x va) (''mcp-oep-tls-'' @ dec i) tm h of
             (Inl x, tm, h) \<Rightarrow> (Inl x, tm, h)
           | (Inr lease, tm, h) \<Rightarrow>
               (case acquire_callbacks D workflow ms rest tm h of
                  (Inl x, tm, h) \<Rightarrow> (Inl x, tm, h)
                | (Inr leases, tm, h) \<Rightarrow> (Inr ((case lease of Some i \<Rightarrow> [i] | None \<Rightarrow> []) @ leases), tm, h))))"

fun release_all :: "debugger \<Rightarrow> string list \<Rightarrow> telemetry \<Rightarrow> calls \<Rightarrow> telemetry \<times> calls" where
  "release_all D [] tm h = (tm, h)"
| "release_all D (i # ids) tm h =
     (case ask D (Release_bp i) h of
        (Inl x, h) \<Rightarrow>
          release_all D ids (add_note (''breakpoint lease release exception: '' @ (case x of Raised t \<Rightarrow> t | Python e \<Rightarrow> [])) tm) h
      | (Inr v, h) \<Rightarrow>
          release_all D ids (if is_dict v \<and> \<not> truthy (dict_get (as_dict v) ''ok'')
             then add_note (''breakpoint lease release failed: '' @ error_text v) tm else tm) h)"

subsection \<open>Reaching the entry\<close>

definition usable_callbacks :: "pyval list \<Rightarrow> pydict list" where
  "usable_callbacks vs =
     take 64 (map as_dict (filter (\<lambda>v. is_dict v \<and> (case normalize_hex (dict_get (as_dict v) ''runtimeVa'') of Some t \<Rightarrow> t \<noteq> [] | None \<Rightarrow> False)) vs))"

text \<open>A later callback at the same address replaces the earlier one in its place.\<close>

fun callbacks_by_va :: "(int \<times> pydict) list \<Rightarrow> pydict list \<Rightarrow> pyexn + (int \<times> pydict) list" where
  "callbacks_by_va acc [] = Inr acc"
| "callbacks_by_va acc (cb # cbs) =
     (if truthy (dict_get cb ''runtimeVa'')
      then sum_bind (hex_number (py_str (dict_get cb ''runtimeVa''))) (\<lambda>va. callbacks_by_va (AList.update va cb acc) cbs)
      else callbacks_by_va acc cbs)"

text \<open>The run is already at the entry; an exception in this check is ignored.\<close>

definition at_entry :: "pydict \<Rightarrow> string \<Rightarrow> telemetry \<Rightarrow> telemetry option" where
  "at_entry st entry tm =
     (case (rip_number (state_rip st), hex_number entry) of
        (Inr (Some a), Inr b) \<Rightarrow>
          (if a = b then (case append_transition ''entry'' st [(''address'', optional_text (state_rip st))] tm of Inr tm \<Rightarrow> Some tm | Inl e \<Rightarrow> None)
           else None)
      | _ \<Rightarrow> None)"

definition entry_lease_ms :: "int \<Rightarrow> int" where
  "entry_lease_ms left = max 5000 (min (max 0 left div 1000 + 5000) 120000)"

text \<open>The hunt, once the leases are held, and their release in reverse order whatever happens.\<close>

definition hunt ::
  "debugger \<Rightarrow> int \<Rightarrow> (int \<times> pydict) list \<Rightarrow> string list \<Rightarrow> telemetry \<Rightarrow> calls \<Rightarrow> (fault + bool) \<times> telemetry \<times> calls" where
  "hunt D entry callbacks leases tm h =
     (let (r, tm, h) = entry_loop D entry callbacks 128 [] tm h; (tm, h) = release_all D (rev leases) tm h in (r, tm, h))"

text \<open>The callbacks are leased after the entry. Here the leases are not released when something raises.\<close>

definition lease_and_hunt ::
  "debugger \<Rightarrow> string \<Rightarrow> int \<Rightarrow> int \<Rightarrow> pydict list \<Rightarrow> string \<Rightarrow> telemetry \<Rightarrow> calls \<Rightarrow> (fault + bool) \<times> telemetry \<times> calls" where
  "lease_and_hunt D workflow ms entry cbs lease tm h =
     (case callbacks_by_va [] cbs of
        Inl e \<Rightarrow> (Inl (Python e), tm, h)
      | Inr callbacks \<Rightarrow>
          (case acquire_callbacks D workflow ms callbacks tm h of
             (Inl x, tm, h) \<Rightarrow> (Inl x, tm, h)
           | (Inr leases, tm, h) \<Rightarrow> hunt D entry callbacks (lease # leases) tm h))"

definition run_to_entry ::
  "debugger \<Rightarrow> string \<Rightarrow> string \<Rightarrow> pyval list \<Rightarrow> telemetry \<Rightarrow> calls \<Rightarrow> (fault + bool) \<times> telemetry \<times> calls" where
  "run_to_entry D workflow entry_hex tls tm h =
     (let cbs = usable_callbacks tls; tm = tm\<lparr>tm_callbacks := cbs\<rparr>; (left, h) = time_left D h; ms = entry_lease_ms left in
      case read_state D h of
        (Inl x, h) \<Rightarrow> (Inl x, tm, h)
      | (Inr st, h) \<Rightarrow>
          (case at_entry st entry_hex tm of
             Some tm \<Rightarrow> (Inr True, tm, h)
           | None \<Rightarrow>
               (case hex_number entry_hex of
                  Inl e \<Rightarrow> (Inl (Python e), tm, h)
                | Inr entry \<Rightarrow>
                    (case acquire_bp D workflow ms entry_hex ''mcp-oep-entry'' tm h of
                       (Inl x, tm, h) \<Rightarrow> (Inl x, tm, h)
                     | (Inr None, tm, h) \<Rightarrow> (Inr False, tm, h)
                     | (Inr (Some lease), tm, h) \<Rightarrow> lease_and_hunt D workflow ms entry cbs lease tm h))))"

subsection \<open>Reaching a temporary address\<close>

fun address_loop :: "debugger \<Rightarrow> int \<Rightarrow> nat \<Rightarrow> calls \<Rightarrow> (fault + pydict option) \<times> calls" where
  "address_loop D target 0 h = (Inr None, h)"
| "address_loop D target (Suc n) h =
     (let (left, h) = time_left D h in
      if left \<le> 0 then (Inr None, h)
      else (case run_and_wait D 250 50 h of
              (Inl x, h) \<Rightarrow> (Inl x, h)
            | (Inr v, h) \<Rightarrow>
                (if \<not> is_dict v then (Inr None, h)
                 else if truthy (dict_get (as_dict v) ''timedOut'') then address_loop D target n h
                 else (case read_state D h of
                         (Inl x, h) \<Rightarrow> (Inl x, h)
                       | (Inr st, h) \<Rightarrow>
                           (if gone st then (Inr (Some st), h)
                            else (case rip_number (normalize_hex (py_or (dict_get st ''rip'') (dict_get (as_dict (dict_get st ''registers'')) ''cip''))) of
                                    Inl e \<Rightarrow> (Inl (Python e), h)
                                  | Inr number \<Rightarrow> if number = Some target then (Inr (Some st), h) else address_loop D target n h))))))"

text \<open>The run once the lease is held; the address is read as a number before the lease is sure to be released.\<close>

definition leased_address_run :: "debugger \<Rightarrow> string \<Rightarrow> string \<Rightarrow> calls \<Rightarrow> (fault + pydict option) \<times> calls" where
  "leased_address_run D a i h =
     (case hex_number a of
        Inl e \<Rightarrow> (Inl (Python e), h)
      | Inr target \<Rightarrow> (let (r, h) = address_loop D target 16 h; (x, h) = ask D (Release_bp i) h in (r, h)))"

definition run_to_temporary_address :: "debugger \<Rightarrow> string \<Rightarrow> pyval \<Rightarrow> calls \<Rightarrow> (fault + pydict option) \<times> calls" where
  "run_to_temporary_address D workflow address h =
     (case normalize_hex address of
        None \<Rightarrow> (Inr None, h)
      | Some a \<Rightarrow>
          (if a = [] then (Inr None, h)
           else (let (left, h) = time_left D h in
             if left \<le> 0 then (Inr None, h)
             else (let (left, h) = time_left D h in
               case ask D (Acquire_bp a workflow (max 5000 (min (max 0 left div 1000 + 2000) 120000)) ''mcp-oep-stage-return'') h of
                 (Inl x, h) \<Rightarrow> (Inl x, h)
               | (Inr v, h) \<Rightarrow>
                   (case lease_id v of None \<Rightarrow> (Inr None, h) | Some i \<Rightarrow> leased_address_run D a i h)))))"

subsection \<open>Exception history\<close>

text \<open>A cursor behind everything recorded so far; any trouble yields 0.\<close>

definition history_cursor :: "debugger \<Rightarrow> calls \<Rightarrow> int \<times> calls" where
  "history_cursor D h =
     (case ask D (History 0 1) h of
        (Inl x, h) \<Rightarrow> (0, h)
      | (Inr v, h) \<Rightarrow>
          (if \<not> ok_reply v then (0, h)
           else (case (int_or (dict_get (as_dict v) ''latestSeq'') 0, int_or (dict_get (as_dict v) ''nextAfterSeq'') 0) of
                   (Inr a, Inr b) \<Rightarrow> (max a b, h) | _ \<Rightarrow> (0, h))))"

definition history_keys :: "string list" where
  "history_keys = [''historySeq'', ''eventSeq'', ''threadId'', ''exceptionCode'', ''chance'', ''firstChance'', ''address'', ''ip'', ''action'',
     ''source'', ''ruleId'', ''matchedSelector'', ''autoContinue'', ''requestedDisposition'', ''appliedDisposition'', ''outcome'', ''continuationSource'']"

definition history_record :: "pydict \<Rightarrow> pydict" where
  "history_record d = concat (map (\<lambda>k. if dict_get d k = VNone \<or> dict_get d k = VStr [] then [] else [(k, dict_get d k)]) history_keys)"

definition history_page :: "pydict \<Rightarrow> pydict list" where
  "history_page d =
     map (\<lambda>v. history_record (as_dict v))
       (filter is_dict (case dict_get d ''records'' of VList vs \<Rightarrow> vs | _ \<Rightarrow> (case dict_get d ''history'' of VList vs \<Rightarrow> vs | _ \<Rightarrow> [])))"

record history_delta =
  hd_next :: int
  hd_records :: "pydict list"
  hd_truncated :: bool
  hd_error :: "string option"

definition history_failure :: "int \<Rightarrow> string \<Rightarrow> history_delta" where
  "history_failure cursor t = \<lparr>hd_next = cursor, hd_records = [], hd_truncated = False, hd_error = Some t\<rparr>"

fun collect_history :: "debugger \<Rightarrow> nat \<Rightarrow> int \<Rightarrow> calls \<Rightarrow> (pyexn + history_delta) \<times> calls" where
  "collect_history D 0 cursor h = (Inr \<lparr>hd_next = cursor, hd_records = [], hd_truncated = True, hd_error = None\<rparr>, h)"
| "collect_history D (Suc n) cursor h =
     (case ask D (History cursor 256) h of
        (Inl x, h) \<Rightarrow> (Inr (history_failure cursor (case x of Raised t \<Rightarrow> t | Python e \<Rightarrow> [])), h)
      | (Inr v, h) \<Rightarrow>
          (if \<not> ok_reply v then (Inr (history_failure cursor (error_text v)), h)
           else (let d = as_dict v in
             case int_or (dict_get d ''nextAfterSeq'') cursor of
               Inl e \<Rightarrow> (Inl e, h)
             | Inr following \<Rightarrow>
                 (if following \<le> cursor
                  then (Inr \<lparr>hd_next = cursor, hd_records = history_page d, hd_truncated = False, hd_error = None\<rparr>, h)
                  else if \<not> truthy (dict_get d ''hasMore'')
                  then (Inr \<lparr>hd_next = following, hd_records = history_page d, hd_truncated = False, hd_error = None\<rparr>, h)
                  else (case collect_history D n following h of
                          (Inl e, h) \<Rightarrow> (Inl e, h)
                        | (Inr delta, h) \<Rightarrow> (Inr (delta\<lparr>hd_records := history_page d @ hd_records delta\<rparr>), h))))))"

definition exception_delta :: "debugger \<Rightarrow> int \<Rightarrow> calls \<Rightarrow> (pyexn + history_delta) \<times> calls" where
  "exception_delta D after_seq h = collect_history D 4 (max 0 after_seq) h"

definition count_first :: "pydict list \<Rightarrow> nat" where
  "count_first records = length (filter (\<lambda>r. truthy (dict_get r ''firstChance'') \<or> lower (str_or_empty (dict_get r ''chance'')) = ''first'') records)"

definition count_second :: "pydict list \<Rightarrow> nat" where
  "count_second records =
     length (filter (\<lambda>r. dict_get r ''firstChance'' = VBool False \<or> lower (str_or_empty (dict_get r ''chance'')) = ''second'') records)"

end
