(* ===== verification/OepRunProps.thy ===== *)
theory OepRunProps
  imports OepRun
begin

text \<open>
  What the runs of the entry point search guarantee about their calls, whatever the debugger answers.
\<close>

subsection \<open>Views of the calls\<close>

text \<open>The leases that were granted, and those that were given back, in the order of the calls.\<close>

fun granted :: "debugger \<Rightarrow> calls \<Rightarrow> string list" where
  "granted D [] = []"
| "granted D (c # h) = granted D h @
     (case c of
        Acquire_bp _ _ _ _ \<Rightarrow> (case db_reply D (c # h) of Inr v \<Rightarrow> (case lease_id v of Some i \<Rightarrow> [i] | None \<Rightarrow> []) | Inl _ \<Rightarrow> [])
      | _ \<Rightarrow> [])"

fun released :: "calls \<Rightarrow> string list" where
  "released [] = []"
| "released (c # h) = released h @ (case c of Release_bp i \<Rightarrow> [i] | _ \<Rightarrow> [])"

definition runs :: "calls \<Rightarrow> nat" where
  "runs h = count_list h Run"

lemma runs_simps [simp]: "runs [] = 0" "runs (c # h) = (if c = Run then Suc (runs h) else runs h)" "runs (g @ h) = runs g + runs h"
  by (simp_all add: runs_def)

definition quiet :: "calls \<Rightarrow> bool" where
  "quiet h \<longleftrightarrow> list_all (\<lambda>c. case c of Acquire_bp _ _ _ _ \<Rightarrow> False | Release_bp _ \<Rightarrow> False | _ \<Rightarrow> True) h"

lemma quiet_simps [simp]: "quiet []" "quiet (g @ h) \<longleftrightarrow> quiet g \<and> quiet h"
  "quiet (c # h) \<longleftrightarrow> (case c of Acquire_bp _ _ _ _ \<Rightarrow> False | Release_bp _ \<Rightarrow> False | _ \<Rightarrow> True) \<and> quiet h"
  by (simp_all add: quiet_def)

lemma quiet_views: "quiet g \<Longrightarrow> granted D (g @ h) = granted D h \<and> released (g @ h) = released h"
  by (induction g) (auto split: call.split_asm)

text \<open>A run may be issued right after a state was read that has no unclaimed exception, or right after its
  first-chance exception was passed on.\<close>

definition clear_state :: "debugger \<Rightarrow> calls \<Rightarrow> bool" where
  "clear_state D h \<longleftrightarrow> (\<exists>g st. h = Read_state # g \<and> db_state D h = Inr st \<and> (\<not> exception_pending st \<or> exception_claimed st))"

definition passed_on :: "debugger \<Rightarrow> calls \<Rightarrow> bool" where
  "passed_on D h \<longleftrightarrow> (\<exists>g st seq v. h = Continue seq # Read_state # g \<and> db_state D (Read_state # g) = Inr st
     \<and> first_chance st \<and> event_seq st = Inr seq \<and> db_reply D h = Inr v \<and> ok_reply v)"

fun runs_guarded :: "debugger \<Rightarrow> calls \<Rightarrow> bool" where
  "runs_guarded D [] = True"
| "runs_guarded D (c # h) \<longleftrightarrow> (c = Run \<longrightarrow> clear_state D h \<or> passed_on D h) \<and> runs_guarded D h"

text \<open>The last state that was read.\<close>

fun last_state :: "debugger \<Rightarrow> calls \<Rightarrow> pydict option" where
  "last_state D [] = None"
| "last_state D (c # h) = (if c = Read_state then (case db_state D (c # h) of Inr st \<Rightarrow> Some st | Inl _ \<Rightarrow> None) else last_state D h)"

definition seen_at :: "debugger \<Rightarrow> calls \<Rightarrow> int \<Rightarrow> bool" where
  "seen_at D h a \<longleftrightarrow> (\<exists>st. last_state D h = Some st \<and> rip_number (state_rip st) = Inr (Some a))"

subsection \<open>Single steps\<close>

lemma ask_calls [simp]: "snd (ask D c h) = c # h"
  by (simp add: ask_def split: sum.split)

lemma ask_reply: "ask D c h = (Inr v, h') \<Longrightarrow> h' = c # h \<and> db_reply D h' = Inr v"
  by (auto simp: ask_def split: sum.split_asm)

lemma ask_eq: "ask D c h = (r, h') \<Longrightarrow> h' = c # h"
  by (auto simp: ask_def split: sum.split_asm)

lemma read_eq: "read_state D h = (r, h') \<Longrightarrow> h' = Read_state # h \<and> (\<forall>st. r = Inr st \<longrightarrow> db_state D h' = Inr st)"
  by (auto simp: read_state_def split: sum.split_asm)

lemma pass_exception_calls:
  assumes "pass_exception D st rip extra tm h = (r, tm', h')"
  shows "h' = h \<and> r \<noteq> Inr True
    \<or> (\<exists>seq. event_seq st = Inr seq \<and> first_chance st \<and> h' = Continue seq # h \<and> (r = Inr True \<longrightarrow> (\<exists>v. db_reply D h' = Inr v \<and> ok_reply v)))"
  using assms unfolding pass_exception_def
  by (auto split: sum.split_asm if_split_asm prod.split_asm dest: ask_reply ask_eq)

lemma before_run_calls:
  assumes "before_run D tm h = (r, tm', h')"
  shows "(h' = Read_state # h \<or> (\<exists>seq. h' = Continue seq # Read_state # h)) \<and> (r = Inr True \<longrightarrow> clear_state D h' \<or> passed_on D h')"
proof -
  obtain q g where read: "read_state D h = (q, g)" by fastforce
  note g = read_eq [OF read]
  show ?thesis
  proof (cases q)
    case (Inl x)
    with assms read g show ?thesis by (auto simp: before_run_def)
  next
    case (Inr st)
    show ?thesis
    proof (cases "exception_pending st \<and> \<not> exception_claimed st")
      case True
      with assms read Inr have p: "pass_exception D st (optional_text (state_rip st)) [(''observedBeforeRun'', VBool True)] tm g = (r, tm', h')"
        by (simp add: before_run_def)
      from pass_exception_calls [OF p] g Inr show ?thesis by (auto simp: passed_on_def)
    next
      case False
      with assms read Inr g show ?thesis by (auto simp: before_run_def clear_state_def)
    qed
  qed
qed

lemma on_pause_calls:
  assumes "on_pause D entry callbacks st seen tm h = (r, tm', h')"
  shows "(h' = h \<or> (\<exists>seq. h' = Continue seq # h)) \<and> (r = Inr (Stop True) \<longrightarrow> h' = h \<and> rip_number (state_rip st) = Inr (Some entry))"
proof (cases "event_seq st")
  case (Inl e)
  with assms show ?thesis by (auto simp: on_pause_def)
next
  case (Inr seq)
  obtain tm1 seen1 is_new where run: "(case rip_number (state_rip st) of
                Inl e \<Rightarrow> (Inl (Python e), tm1, h)
              | Inr number \<Rightarrow>
                  (if number = Some entry
                   then (case append_transition ''entry'' st [(''address'', optional_text (state_rip st))] tm1 of
                           Inl e \<Rightarrow> (Inl (Python e), tm1, h) | Inr tm \<Rightarrow> (Inr (Stop True), tm, h))
                   else (case map_of callbacks (case number of Some a \<Rightarrow> a | None \<Rightarrow> 0) of
                           Some cb \<Rightarrow>
                             (case sum_bind (callback_evidence (state_rip st) cb) (\<lambda>evidence. append_transition ''tls_callback'' st evidence tm1) of
                                Inl e \<Rightarrow> (Inl (Python e), tm1, h) | Inr tm \<Rightarrow> (Inr (Again seen1), tm, h))
                         | None \<Rightarrow>
                             (if exception_pending st
                              then (case pass_exception D st (optional_text (state_rip st)) [] tm1 h of
                                      (Inl x, tm, h) \<Rightarrow> (Inl x, tm, h)
                                    | (Inr go, tm, h) \<Rightarrow> (Inr (if go then Again seen1 else Stop False), tm, h))
                              else if is_new
                              then (case append_transition ''loader_stop'' st [(''address'', optional_text (state_rip st))] tm1 of
                                      Inl e \<Rightarrow> (Inl (Python e), tm1, h) | Inr tm \<Rightarrow> (Inr (Again seen1), tm, h))
                              else (Inr (Again seen1), tm1, h))))) = (r, tm', h')"
    using assms Inr unfolding on_pause_def Let_def by (simp only: sum.case)
  obtain q tm2 h2 where p: "pass_exception D st (optional_text (state_rip st)) [] tm1 h = (q, tm2, h2)" by (metis prod_cases3)
  have "h2 = h \<or> (\<exists>seq. h2 = Continue seq # h)" using pass_exception_calls [OF p] by blast
  with run p show ?thesis by (auto split: sum.split_asm option.split_asm if_split_asm)
qed

lemma after_wait_calls:
  assumes "after_wait D entry callbacks waited seen tm h = (r, tm', h')"
  shows "(h' = h \<or> h' = Read_state # h \<or> (\<exists>seq. h' = Continue seq # Read_state # h)) \<and> (r = Inr (Stop True) \<longrightarrow> seen_at D h' entry)"
proof (cases "gone waited \<or> truthy (dict_get waited ''timedOut'')")
  case True
  with assms show ?thesis by (auto simp: after_wait_def split: sum.split_asm if_split_asm)
next
  case False
  obtain q g where read: "read_state D h = (q, g)" by fastforce
  note g = read_eq [OF read]
  show ?thesis
  proof (cases q)
    case (Inl x)
    with assms read g False show ?thesis by (auto simp: after_wait_def)
  next
    case (Inr st)
    with assms read False have p: "on_pause D entry callbacks st seen tm g = (r, tm', h')" by (simp add: after_wait_def)
    from on_pause_calls [OF p] g Inr show ?thesis by (auto simp: seen_at_def)
  qed
qed

lemma run_and_wait_calls:
  assumes "run_and_wait D least poll h = (r, h')"
  shows "h' = Run # h \<or> (\<exists>ms. h' = Wait ms poll # Clock # Run # h)"
  using assms by (auto simp: run_and_wait_def time_left_def Let_def split: prod.split_asm sum.split_asm dest: ask_eq)

subsection \<open>The loops\<close>

lemma guarded_append: "runs_guarded D (g @ h) \<Longrightarrow> runs_guarded D h"
  by (induction g) simp_all

text \<open>What a loop may add to the calls: no leases, at most so many runs.\<close>

definition adds :: "debugger \<Rightarrow> nat \<Rightarrow> calls \<Rightarrow> calls \<Rightarrow> bool" where
  "adds D n h h' \<longleftrightarrow> (\<exists>new. h' = new @ h \<and> quiet new \<and> runs new \<le> n)"

lemma addsI: "quiet new \<Longrightarrow> runs new \<le> n \<Longrightarrow> adds D n h (new @ h)"
  by (auto simp: adds_def)

lemma adds_trans: "adds D m g h \<Longrightarrow> adds D n h h' \<Longrightarrow> adds D (m + n) g h'"
  unfolding adds_def by (metis append_assoc quiet_simps(2) runs_simps(3) add.commute add_le_mono)

lemma adds_mono: "adds D m g h \<Longrightarrow> m \<le> n \<Longrightarrow> adds D n g h"
  by (auto simp: adds_def)

lemma adds_views: "adds D n h h' \<Longrightarrow> granted D h' = granted D h \<and> released h' = released h"
  by (auto simp: adds_def quiet_views)

lemma entry_loop_calls:
  "entry_loop D entry callbacks n seen tm h = (r, tm', h') \<Longrightarrow> runs_guarded D h
    \<Longrightarrow> adds D n h h' \<and> runs_guarded D h' \<and> (r = Inr True \<longrightarrow> seen_at D h' entry)"
proof (induction n arbitrary: seen tm h)
  case 0
  then show ?case by (auto simp: adds_def intro: exI [of _ "[]"])
next
  case (Suc n)
  note run = Suc.prems(1) and ok = Suc.prems(2)
  have clock: "time_left D h = (db_left D (Clock # h), Clock # h)" by (simp add: time_left_def)
  obtain q1 tm1 h1 where pre: "before_run D tm (Clock # h) = (q1, tm1, h1)" by (metis prod_cases3)
  note h1 = before_run_calls [OF pre]
  obtain q2 h2 where go: "run_and_wait D 500 100 h1 = (q2, h2)" by fastforce
  note h2 = run_and_wait_calls [OF go]
  have step1: "adds D 0 h h1" "runs_guarded D h1" using h1 ok by (auto simp: adds_def)
  show ?case
  proof (cases "db_left D (Clock # h) \<le> 0 \<or> q1 \<noteq> Inr True")
    case True
    have "(h' = Clock # h \<or> h' = h1) \<and> r \<noteq> Inr True"
      using run True by (auto simp: clock pre split: sum.split_asm if_split_asm)
    then show ?thesis using step1 ok by (auto intro: adds_mono) (auto simp: adds_def intro!: exI [of _ "[Clock]"])
  next
    case False
    then have q1: "q1 = Inr True" by blast
    have step2: "adds D 1 h1 h2" "runs_guarded D h2" using h2 h1 q1 step1(2) by (auto simp: adds_def)
    have two: "adds D 1 h h2" using adds_trans [OF step1(1) step2(1)] by simp
    show ?thesis
    proof (cases "\<exists>v. q2 = Inr v \<and> is_dict v")
      case False
      have "h' = h2 \<and> r \<noteq> Inr True"
        using run False q1 \<open>\<not> (db_left D (Clock # h) \<le> 0 \<or> q1 \<noteq> Inr True)\<close> by (auto simp: clock pre go split: sum.split_asm if_split_asm)
      with two step2(2) show ?thesis by (auto intro: adds_mono)
    next
      case True
      then obtain v where v: "q2 = Inr v" "is_dict v" by blast
      obtain q3 tm3 h3 where wait: "after_wait D entry callbacks (as_dict v) seen tm1 h2 = (q3, tm3, h3)" by (metis prod_cases3)
      note h3 = after_wait_calls [OF wait]
      have step3: "adds D 0 h2 h3" "runs_guarded D h3" using h3 step2(2) by (auto simp: adds_def)
      have three: "adds D 1 h h3" using adds_trans [OF two step3(1)] by simp
      show ?thesis
      proof (cases "\<exists>again. q3 = Inr (Again again)")
        case False
        have "h' = h3 \<and> (r = Inr True \<longrightarrow> q3 = Inr (Stop True))"
          using run False q1 v \<open>\<not> (db_left D (Clock # h) \<le> 0 \<or> q1 \<noteq> Inr True)\<close>
          by (auto simp: clock pre go wait split: sum.split_asm pause_verdict.split_asm)
        with three step3(2) h3 show ?thesis by (auto intro: adds_mono)
      next
        case True
        then obtain again where q3: "q3 = Inr (Again again)" by blast
        have "entry_loop D entry callbacks n again tm3 h3 = (r, tm', h')"
          using run q3 q1 v \<open>\<not> (db_left D (Clock # h) \<le> 0 \<or> q1 \<noteq> Inr True)\<close> by (simp add: clock pre go wait)
        from Suc.IH [OF this step3(2)] adds_trans [OF three] show ?thesis by auto
      qed
    qed
  qed
qed

subsection \<open>Leases\<close>

lemma release_all_calls: "release_all D ids tm h = (tm', h') \<Longrightarrow> h' = map Release_bp (rev ids) @ h"
  by (induction ids arbitrary: tm h) (auto split: prod.split_asm sum.split_asm dest!: ask_eq)

lemma releases_views:
  "granted D (map Release_bp ids @ h) = granted D h" "released (map Release_bp ids @ h) = released h @ rev ids"
  "runs (map Release_bp ids @ h) = runs h" "runs_guarded D (map Release_bp ids @ h) = runs_guarded D h"
  "last_state D (map Release_bp ids @ h) = last_state D h"
  by (induction ids) auto

lemma acquire_bp_calls:
  assumes "acquire_bp D workflow ms address name tm h = (r, tm', h')"
  shows "h' = Acquire_bp address workflow ms name # h \<and> granted D h' = granted D h @ (case r of Inr (Some i) \<Rightarrow> [i] | _ \<Rightarrow> [])
    \<and> released h' = released h \<and> runs h' = runs h \<and> (runs_guarded D h' \<longleftrightarrow> runs_guarded D h)"
proof -
  obtain q g where a: "ask D (Acquire_bp address workflow ms name) h = (q, g)" by fastforce
  have g: "g = Acquire_bp address workflow ms name # h" using ask_eq [OF a] .
  show ?thesis
  proof (cases q)
    case (Inl x)
    with assms a g show ?thesis by (auto simp: acquire_bp_def ask_def split: sum.split_asm)
  next
    case (Inr v)
    with assms a g ask_reply [OF a [unfolded Inr]] show ?thesis by (auto simp: acquire_bp_def split: option.split_asm)
  qed
qed

lemma acquire_callbacks_calls:
  "acquire_callbacks D workflow ms cbs tm h = (r, tm', h') \<Longrightarrow>
     released h' = released h \<and> runs h' = runs h \<and> (runs_guarded D h' \<longleftrightarrow> runs_guarded D h)
     \<and> (\<forall>ids. r = Inr ids \<longrightarrow> granted D h' = granted D h @ ids)"
proof (induction cbs arbitrary: tm h r tm' h')
  case (Cons item rest)
  obtain va cb where item: "item = (va, cb)" by fastforce
  show ?case
  proof (cases "int_or (dict_get cb ''index'') 0")
    case (Inl e)
    with Cons.prems item show ?thesis by auto
  next
    case (Inr i)
    obtain q tm1 h1 where a: "acquire_bp D workflow ms (hex0x va) (''mcp-oep-tls-'' @ dec i) tm h = (q, tm1, h1)" by (metis prod_cases3)
    note h1 = acquire_bp_calls [OF a]
    show ?thesis
    proof (cases q)
      case (Inl x)
      with Cons.prems item Inr a h1 show ?thesis by auto
    next
      case q: (Inr lease)
      obtain q2 tm2 h2 where rest: "acquire_callbacks D workflow ms rest tm1 h1 = (q2, tm2, h2)" by (metis prod_cases3)
      from Cons.IH [OF rest] Cons.prems item Inr a q rest h1 show ?thesis
        by (cases q2) (auto split: option.split)
    qed
  qed
qed auto

lemma hunt_calls:
  assumes "hunt D entry callbacks leases tm h = (r, tm', h')" and "runs_guarded D h"
  shows "granted D h' = granted D h \<and> released h' = released h @ rev leases \<and> runs h' \<le> runs h + 128 \<and> runs_guarded D h'
    \<and> (r = Inr True \<longrightarrow> seen_at D h' entry)"
proof -
  obtain q tm1 h1 where l: "entry_loop D entry callbacks 128 [] tm h = (q, tm1, h1)" by (metis prod_cases3)
  obtain tm2 h2 where rel: "release_all D (rev leases) tm1 h1 = (tm2, h2)" by fastforce
  have r: "r = q" "h' = h2" using assms(1) l rel by (simp_all add: hunt_def)
  note k = entry_loop_calls [OF l assms(2)]
  have "runs h1 \<le> runs h + 128" using k by (auto simp: adds_def)
  with k adds_views show ?thesis
    unfolding r release_all_calls [OF rel] releases_views seen_at_def by auto
qed

subsection \<open>Reaching the entry\<close>

lemma lease_and_hunt_calls:
  assumes "lease_and_hunt D workflow ms entry cbs lease tm h = (r, tm', h')"
    and "granted D h = [lease]" "released h = []" "runs h = 0" "runs_guarded D h"
  shows "(released h' = rev (granted D h') \<or> (\<exists>x. r = Inl x) \<and> released h' = [] \<and> runs h' = 0)
    \<and> runs h' \<le> 128 \<and> runs_guarded D h' \<and> (r = Inr True \<longrightarrow> seen_at D h' entry)"
proof (cases "callbacks_by_va [] cbs")
  case (Inl e)
  with assms show ?thesis by (auto simp: lease_and_hunt_def)
next
  case (Inr callbacks)
  obtain q tm1 h1 where c: "acquire_callbacks D workflow ms callbacks tm h = (q, tm1, h1)" by (metis prod_cases3)
  note h1 = acquire_callbacks_calls [OF c]
  show ?thesis
  proof (cases q)
    case (Inl x)
    with assms(1) Inr have "h' = h1" "r = Inl x" by (simp_all add: lease_and_hunt_def c)
    with assms h1 show ?thesis by simp
  next
    case leases: (Inr leases)
    have hunt: "hunt D entry callbacks (lease # leases) tm1 h1 = (r, tm', h')"
      using assms(1) Inr leases by (simp add: lease_and_hunt_def c)
    have "runs_guarded D h1" using h1 assms by simp
    from hunt_calls [OF hunt this] h1 assms leases show ?thesis by auto
  qed
qed

lemma run_to_entry_calls:
  assumes "run_to_entry D workflow entry_hex tls tm [] = (r, tm', h')"
  shows "(released h' = rev (granted D h') \<or> (\<exists>x. r = Inl x) \<and> released h' = [] \<and> runs h' = 0)
    \<and> runs h' \<le> 128 \<and> runs_guarded D h' \<and> (r = Inr True \<longrightarrow> (\<exists>a. hex_number entry_hex = Inr a \<and> seen_at D h' a))"
proof -
  let ?tm = "tm\<lparr>tm_callbacks := usable_callbacks tls\<rparr>" and ?ms = "entry_lease_ms (db_left D [Clock])"
  have clock: "time_left D [] = (db_left D [Clock], [Clock])" by (simp add: time_left_def)
  obtain q1 h1 where read: "read_state D [Clock] = (q1, h1)" by fastforce
  note h1 = read_eq [OF read]
  consider (raised) x where "q1 = Inl x"
    | (there) st tm1 where "q1 = Inr st" "at_entry st entry_hex ?tm = Some tm1"
    | (bad) st e where "q1 = Inr st" "at_entry st entry_hex ?tm = None" "hex_number entry_hex = Inl e"
    | (go) st entry where "q1 = Inr st" "at_entry st entry_hex ?tm = None" "hex_number entry_hex = Inr entry"
    by (metis not_None_eq obj_sumE)
  then show ?thesis
  proof cases
    case raised
    with assms h1 show ?thesis by (auto simp: run_to_entry_def clock read)
  next
    case there
    then obtain a where "rip_number (state_rip st) = Inr (Some a)" "hex_number entry_hex = Inr a"
      by (auto simp: at_entry_def split: sum.split_asm option.split_asm if_split_asm)
    with assms h1 there show ?thesis by (auto simp: run_to_entry_def clock read seen_at_def)
  next
    case bad
    with assms h1 show ?thesis by (auto simp: run_to_entry_def clock read)
  next
    case go
    obtain q2 tm2 h2 where a: "acquire_bp D workflow ?ms entry_hex ''mcp-oep-entry'' ?tm h1 = (q2, tm2, h2)" by (metis prod_cases3)
    note h2 = acquire_bp_calls [OF a]
    have start: "granted D h1 = []" "released h1 = []" "runs h1 = 0" "runs_guarded D h1" using h1 by simp_all
    show ?thesis
    proof (cases "\<exists>lease. q2 = Inr (Some lease)")
      case False
      have over: "h' = h2 \<and> r \<noteq> Inr True" using assms go False
        by (auto simp: run_to_entry_def clock read a split: sum.split_asm option.split_asm)
      have "(case q2 of Inr (Some i) \<Rightarrow> [i] | _ \<Rightarrow> []) = []" using False by (auto split: sum.split option.split)
      then have "granted D h' = []" using h2 start over by (metis append_Nil2)
      moreover have "released h' = []" "runs h' = 0" "runs_guarded D h'" "r \<noteq> Inr True"
        using h2 start over by metis+
      ultimately show ?thesis by simp
    next
      case True
      then obtain lease where lease: "q2 = Inr (Some lease)" by blast
      have hunt: "lease_and_hunt D workflow ?ms entry (usable_callbacks tls) lease tm2 h2 = (r, tm', h')"
        using assms go lease by (simp add: run_to_entry_def clock read a)
      have "granted D h2 = granted D h1 @ [lease]" using h2 [THEN conjunct2, THEN conjunct1] unfolding lease by (simp only: sum.case option.case)
      then have "granted D h2 = [lease]" using start by (metis append_Nil)
      moreover have "released h2 = []" "runs h2 = 0" "runs_guarded D h2" using h2 start by metis+
      ultimately show ?thesis using lease_and_hunt_calls [OF hunt] go by simp
    qed
  qed
qed


text \<open>C11: The run to the entry lets the program run at most 128 times, each time right after it has read a state without an
  unclaimed exception or has passed on the first-chance exception of that very event; it never continues
  a second-chance exception, and it reports success only when the last state it read shows the entry.\<close>

theorem entry_runs_guarded:
  assumes "run_to_entry D workflow entry_hex tls tm [] = (r, tm', h')"
  shows "runs h' \<le> 128 \<and> runs_guarded D h' \<and> (r = Inr True \<longrightarrow> (\<exists>a. hex_number entry_hex = Inr a \<and> seen_at D h' a))"
  using run_to_entry_calls [OF assms] by (rule conjunct2)

subsection \<open>Reaching a temporary address\<close>

lemma address_loop_calls:
  "address_loop D target n h = (r, h') \<Longrightarrow> adds D n h h'
    \<and> (\<forall>st. r = Inr (Some st) \<longrightarrow> last_state D h' = Some st)"
proof (induction n arbitrary: h)
  case 0
  then show ?case by (auto simp: adds_def intro: exI [of _ "[]"])
next
  case (Suc n)
  have clock: "time_left D h = (db_left D (Clock # h), Clock # h)" by (simp add: time_left_def)
  obtain q1 h1 where go: "run_and_wait D 250 50 (Clock # h) = (q1, h1)" by fastforce
  have one: "adds D 1 h h1" using run_and_wait_calls [OF go] by (auto simp: adds_def)
  have here: "adds D 0 h (Clock # h)" by (auto simp: adds_def)
  show ?case
  proof (cases "db_left D (Clock # h) \<le> 0 \<or> (\<nexists>v. q1 = Inr v \<and> is_dict v)")
    case True
    have "(h' = Clock # h \<or> h' = h1) \<and> (\<forall>st. r \<noteq> Inr (Some st))"
      using Suc.prems True by (auto simp: clock go split: sum.split_asm if_split_asm)
    with one here show ?thesis by (auto intro: adds_mono)
  next
    case False
    then obtain v where v: "q1 = Inr v" "is_dict v" by blast
    show ?thesis
    proof (cases "truthy (dict_get (as_dict v) ''timedOut'')")
      case True
      with Suc.prems False v have "address_loop D target n h1 = (r, h')" by (simp add: clock go)
      from Suc.IH [OF this] adds_trans [OF one] show ?thesis by auto
    next
      case timely: False
      obtain q2 h2 where read: "read_state D h1 = (q2, h2)" by fastforce
      note h2 = read_eq [OF read]
      have two: "adds D 1 h h2" using adds_trans [OF one, of 0 h2] h2 by (auto simp: adds_def)
      show ?thesis
      proof (cases "address_loop D target n h2 = (r, h')")
        case True
        from Suc.IH [OF this] adds_trans [OF two] show ?thesis by auto
      next
        case more: False
        have "h' = h2 \<and> (\<forall>st. r = Inr (Some st) \<longrightarrow> q2 = Inr st)"
          using Suc.prems False v timely more
          by (auto simp: clock go read split: sum.split_asm if_split_asm)
        with two h2 show ?thesis by (auto intro: adds_mono)
      qed
    qed
  qed
qed

lemma leased_address_run_calls:
  assumes "leased_address_run D a i h = (r, h')" and "granted D h = [i]" "released h = []" "runs h = 0"
  shows "runs h' \<le> 16 \<and> granted D h' = [i] \<and> (released h' = [i] \<or> (\<exists>e. hex_number a = Inl e \<and> r = Inl (Python e)) \<and> runs h' = 0)
    \<and> (\<forall>st. r = Inr (Some st) \<longrightarrow> last_state D h' = Some st)"
proof (cases "hex_number a")
  case (Inl e)
  with assms show ?thesis by (auto simp: leased_address_run_def)
next
  case (Inr target)
  obtain q h1 where l: "address_loop D target 16 h = (q, h1)" by fastforce
  note k = address_loop_calls [OF l]
  have "r = q" "h' = Release_bp i # h1"
    using assms(1) Inr l by (auto simp: leased_address_run_def dest!: ask_eq split: prod.split_asm)
  moreover have "granted D h1 = [i]" "released h1 = []" "runs h1 \<le> 16"
    using k adds_views [of D 16 h h1] assms by (auto simp: adds_def)
  ultimately show ?thesis using k by simp
qed

text \<open>C13: The run to a temporary address lets the program run at most 16 times and gives back the one lease it was granted,
  unless the normalized address it leased is not a number, when it raises before the program has run; a state
  it returns is the last one it read.\<close>

theorem temporary_run_bounded:
  assumes "run_to_temporary_address D workflow address [] = (r, h')"
  shows "runs h' \<le> 16 \<and> length (granted D h') \<le> 1
    \<and> (released h' = granted D h' \<or> (\<exists>a e. normalize_hex address = Some a \<and> hex_number a = Inl e \<and> r = Inl (Python e) \<and> runs h' = 0))
    \<and> (\<forall>st. r = Inr (Some st) \<longrightarrow> last_state D h' = Some st)"
proof (cases "\<exists>a. normalize_hex address = Some a \<and> a \<noteq> [] \<and> 0 < db_left D [Clock]")
  case False
  with assms show ?thesis
    by (auto simp: run_to_temporary_address_def time_left_def Let_def split: if_split_asm option.split_asm)
next
  case True
  then obtain a where a: "normalize_hex address = Some a" "a \<noteq> []" "0 < db_left D [Clock]" by blast
  define ms where "ms = max 5000 (min (max 0 (db_left D [Clock, Clock]) div 1000 + 2000) 120000)"
  obtain q h where acq: "ask D (Acquire_bp a workflow ms ''mcp-oep-stage-return'') [Clock, Clock] = (q, h)" by fastforce
  have h: "h = [Acquire_bp a workflow ms ''mcp-oep-stage-return'', Clock, Clock]" using ask_eq [OF acq] .
  have granted: "granted D h = (case q of Inr v \<Rightarrow> (case lease_id v of Some i \<Rightarrow> [i] | None \<Rightarrow> []) | Inl x \<Rightarrow> [])"
    using acq unfolding h by (auto simp: ask_def split: sum.split_asm)
  have clear: "released h = []" "runs h = 0" using h by simp_all
  show ?thesis
  proof (cases "\<exists>v i. q = Inr v \<and> lease_id v = Some i")
    case False
    have "h' = h \<and> (\<forall>st. r \<noteq> Inr (Some st)) \<and> granted D h = []"
      using assms a False acq granted
      by (auto simp: run_to_temporary_address_def time_left_def Let_def ms_def split: sum.split_asm option.split_asm)
    with clear show ?thesis by simp
  next
    case True
    then obtain v i where v: "q = Inr v" "lease_id v = Some i" by blast
    have "leased_address_run D a i h = (r, h')"
      using assms a acq v by (simp add: run_to_temporary_address_def time_left_def Let_def ms_def)
    from leased_address_run_calls [OF this] granted v clear a(1) show ?thesis by auto
  qed
qed

subsection \<open>Exception history\<close>

lemma collect_history_calls:
  "collect_history D n cursor h = (r, h') \<Longrightarrow>
     \<exists>cs. h' = map (\<lambda>c. History c 256) (rev cs) @ h \<and> length cs \<le> n \<and> sorted_wrt (<) cs \<and> list_all (\<lambda>c. cursor \<le> c) cs
       \<and> (\<forall>d. r = Inr d \<longrightarrow> cursor \<le> hd_next d \<and> list_all (\<lambda>c. c \<le> hd_next d) cs)"
proof (induction n arbitrary: cursor h r h')
  case 0
  then show ?case by (intro exI [of _ "[]"]) auto
next
  case (Suc n)
  obtain q h1 where a: "ask D (History cursor 256) h = (q, h1)" by fastforce
  have h1: "h1 = History cursor 256 # h" using ask_eq [OF a] .
  show ?case
  proof (cases "\<exists>v i. q = Inr v \<and> ok_reply v \<and> int_or (dict_get (as_dict v) ''nextAfterSeq'') cursor = Inr i \<and> cursor < i
      \<and> truthy (dict_get (as_dict v) ''hasMore'')")
    case False
    have "h' = h1 \<and> (\<forall>d. r = Inr d \<longrightarrow> cursor \<le> hd_next d)"
      using Suc.prems False a
      by (auto simp: history_failure_def Let_def split: sum.split_asm if_split_asm)
    then show ?thesis using h1 by (intro exI [of _ "[cursor]"]) auto
  next
    case True
    then obtain v i where v: "q = Inr v" "ok_reply v" "int_or (dict_get (as_dict v) ''nextAfterSeq'') cursor = Inr i" "cursor < i"
      "truthy (dict_get (as_dict v) ''hasMore'')" by blast
    obtain q2 h2 where rest: "collect_history D n i h1 = (q2, h2)" by fastforce
    from Suc.IH [OF rest] obtain cs where cs: "h2 = map (\<lambda>c. History c 256) (rev cs) @ h1" "length cs \<le> n" "sorted_wrt (<) cs"
      "list_all (\<lambda>c. i \<le> c) cs" "\<forall>d. q2 = Inr d \<longrightarrow> i \<le> hd_next d \<and> list_all (\<lambda>c. c \<le> hd_next d) cs" by blast
    have "h' = h2" "\<forall>d. r = Inr d \<longrightarrow> (\<exists>e. q2 = Inr e \<and> hd_next d = hd_next e)"
      using Suc.prems v a rest by (auto split: sum.split_asm)
    with cs v(4) h1 show ?thesis
      by (intro exI [of _ "cursor # cs"]) (force simp: list_all_iff)
  qed
qed

text \<open>The exceptions of a workflow are collected with at most four requests, each from a cursor behind the one before
  and none before the first; the cursor that is returned is not behind any of them, so nothing is collected
  twice by the next collection.\<close>

lemma history_in_order:
  assumes "exception_delta D after_seq h = (Inr d, h')"
  shows "\<exists>cs. h' = map (\<lambda>c. History c 256) (rev cs) @ h \<and> length cs \<le> 4 \<and> sorted_wrt (<) cs
    \<and> list_all (\<lambda>c. max 0 after_seq \<le> c \<and> c \<le> hd_next d) cs"
proof -
  from collect_history_calls [OF assms [unfolded exception_delta_def]] obtain cs where
    "h' = map (\<lambda>c. History c 256) (rev cs) @ h" "length cs \<le> 4" "sorted_wrt (<) cs"
    "list_all (\<lambda>c. max 0 after_seq \<le> c) cs" "list_all (\<lambda>c. c \<le> hd_next d) cs" by blast
  then show ?thesis by (intro exI [of _ cs]) (auto simp: list_all_iff)
qed

subsection \<open>A sample run\<close>

text \<open>The program first stops at an exception, then at the entry.\<close>

definition sample_states :: "calls \<Rightarrow> string + pydict" where
  "sample_states h =
     Inr (if runs h = 0 then [(''rip'', VStr ''0x1'')]
          else if runs h = 1
          then [(''rip'', VStr ''0x5''), (''exceptionCode'', VStr ''0xc5''), (''exceptionFirstChance'', VBool True), (''eventSeq'', VInt 3),
            (''session'', VDict [(''exceptionPending'', VBool True), (''exceptionContinuationClaimed'', VBool (Continue 3 \<in> set h))])]
          else [(''rip'', VStr ''0x20''), (''eventSeq'', VInt 4)])"

definition sample_debugger :: debugger where
  "sample_debugger =
     \<lparr>db_left = (\<lambda>h. 9000000), db_state = sample_states,
      db_reply = (\<lambda>h. Inr (VDict [(''ok'', VBool True), (''leaseId'', VStr ''l1'')]))\<rparr>"

definition no_telemetry :: telemetry where
  "no_telemetry = \<lparr>tm_notes = [], tm_transitions = [], tm_truncated = False, tm_callbacks = []\<rparr>"

lemma sample_run:
  "(case run_to_entry sample_debugger ''w'' ''0x20'' [] no_telemetry [] of
      (Inr b, tm, h) \<Rightarrow> b \<and> runs h = 2 \<and> released h = [''l1''] | _ \<Rightarrow> False)"
  by code_simp

lemma sample_run_ends:
  "\<exists>tm h. run_to_entry sample_debugger ''w'' ''0x20'' [] no_telemetry [] = (Inr True, tm, h) \<and> runs h = 2 \<and> released h = [''l1'']"
proof -
  obtain r tm h where "run_to_entry sample_debugger ''w'' ''0x20'' [] no_telemetry [] = (r, tm, h)" by (metis prod_cases3)
  with sample_run show ?thesis by (auto split: sum.split_asm)
qed


theorem entry_runs_guarded_witness:
  "\<exists>tm h a. run_to_entry sample_debugger ''w'' ''0x20'' [] no_telemetry [] = (Inr True, tm, h) \<and> runs h = 2
     \<and> runs_guarded sample_debugger h \<and> seen_at sample_debugger h a"
proof -
  obtain tm h where run: "run_to_entry sample_debugger ''w'' ''0x20'' [] no_telemetry [] = (Inr True, tm, h)" "runs h = 2"
    using sample_run_ends by blast
  from entry_runs_guarded [OF run(1)] run show ?thesis by blast
qed

theorem temporary_run_bounded_witness:
  "\<exists>r h. run_to_temporary_address sample_debugger ''w'' (VStr ''0x20'') [] = (r, h) \<and> (\<exists>st. r = Inr (Some st)) \<and> runs h \<le> 16
     \<and> released h = granted sample_debugger h"
proof -
  obtain r h where run: "run_to_temporary_address sample_debugger ''w'' (VStr ''0x20'') [] = (r, h)" by fastforce
  have "(case fst (run_to_temporary_address sample_debugger ''w'' (VStr ''0x20'') []) of Inr (Some st) \<Rightarrow> True | _ \<Rightarrow> False)" by code_simp
  with run have "\<exists>st. r = Inr (Some st)" by (auto split: sum.split_asm option.split_asm)
  with run temporary_run_bounded [OF run] show ?thesis by auto
qed

end
