(* ===== verification/CommandLine.thy ===== *)
theory CommandLine
  imports PyValue
begin

text \<open>
  Two functions of Python's standard library on which the launch contract rests:
  \<open>subprocess.list2cmdline\<close>, which renders an argument list as a Windows command line, and
  \<open>base64.b64encode\<close> with its strict decoder, as \<open>_decode_canonical_base64\<close> of
  \<open>runtime_sections/00_bootstrap_and_session.py\<close> uses it. The command line is read back by \<open>argv_of\<close>,
  the rules of the Microsoft C runtime as the documentation of \<open>list2cmdline\<close> states them; they are
  the specification of the rendering, not code of the program.
\<close>

subsection \<open>Rendering an argument\<close>

definition bs :: char where
  "bs = CHR 0x5c"

definition dquote :: char where
  "dquote = CHR 0x22"

definition blank :: "char \<Rightarrow> bool" where
  "blank c \<longleftrightarrow> c = CHR '' '' \<or> c = CHR 0x09"

lemma separate [simp]: "bs \<noteq> dquote" "dquote \<noteq> bs" "\<not> blank bs" "\<not> blank dquote" "blank (CHR '' '')"
  by (simp_all add: bs_def dquote_def blank_def)

text \<open>\<open>n\<close> backslashes are pending: it is not known yet whether a quote follows them.\<close>

fun render_chars :: "bool \<Rightarrow> nat \<Rightarrow> string \<Rightarrow> string" where
  "render_chars quoted n [] = replicate n bs @ (if quoted then replicate n bs @ [dquote] else [])"
| "render_chars quoted n (c # s) =
     (if c = bs then render_chars quoted (Suc n) s
      else if c = dquote then replicate (2 * n) bs @ bs # dquote # render_chars quoted 0 s
      else replicate n bs @ c # render_chars quoted 0 s)"

definition needs_quotes :: "string \<Rightarrow> bool" where
  "needs_quotes s \<longleftrightarrow> s = [] \<or> list_ex blank s"

definition render_arg :: "string \<Rightarrow> string" where
  "render_arg s = (if needs_quotes s then [dquote] else []) @ render_chars (needs_quotes s) 0 s"

definition list2cmdline :: "string list \<Rightarrow> string" where
  "list2cmdline args = join '' '' (map render_arg args)"

subsection \<open>Reading a command line\<close>

definition pending :: "string option \<Rightarrow> nat \<Rightarrow> string" where
  "pending cur n = (case cur of Some s \<Rightarrow> s | None \<Rightarrow> []) @ replicate n bs"

definition flush_arg :: "string option \<Rightarrow> nat \<Rightarrow> string list" where
  "flush_arg cur n = (if cur = None \<and> n = 0 then [] else [pending cur n])"

fun read_line :: "bool \<Rightarrow> nat \<Rightarrow> string option \<Rightarrow> string \<Rightarrow> string list" where
  "read_line quoted n cur [] = flush_arg cur n"
| "read_line quoted n cur (c # s) =
     (if c = bs then read_line quoted (Suc n) cur s
      else if c = dquote
      then (if even n then read_line (\<not> quoted) 0 (Some (pending cur (n div 2))) s
            else read_line quoted 0 (Some (pending cur (n div 2) @ [dquote])) s)
      else if blank c \<and> \<not> quoted then flush_arg cur n @ read_line False 0 None s
      else read_line quoted 0 (Some (pending cur n @ [c])) s)"

definition argv_of :: "string \<Rightarrow> string list" where
  "argv_of line = read_line False 0 None line"

subsection \<open>The rendering is read back\<close>

lemma read_backslashes: "read_line quoted n cur (replicate k bs @ s) = read_line quoted (n + k) cur s"
  by (induction k arbitrary: n) simp_all

lemma pending_simps [simp]: "pending (Some s) 0 = s" "pending (Some s) n = s @ replicate n bs" "pending None n = replicate n bs"
  by (simp_all add: pending_def)

lemma read_quoted:
  "read_line True 0 (Some cur) (render_chars True n s @ rest) = read_line False 0 (Some (cur @ replicate n bs @ s)) rest"
proof (induction s arbitrary: n cur)
  case Nil
  have "read_line True 0 (Some cur) (replicate (n + n) bs @ dquote # rest) = read_line False 0 (Some (cur @ replicate n bs)) rest"
    unfolding read_backslashes by simp
  then show ?case by (simp add: replicate_add)
next
  case (Cons c s)
  consider "c = bs" | "c = dquote" | "c \<noteq> bs" "c \<noteq> dquote" by blast
  then show ?case
  proof cases
    case 1
    then show ?thesis using Cons.IH [of cur "Suc n"] by (simp add: replicate_app_Cons_same)
  next
    case 2
    have "read_line True 0 (Some cur) (replicate (2 * n) bs @ bs # dquote # render_chars True 0 s @ rest)
      = read_line True 0 (Some (cur @ replicate n bs @ [dquote])) (render_chars True 0 s @ rest)"
      unfolding read_backslashes by simp
    with 2 Cons show ?thesis by simp
  next
    case 3
    then show ?thesis using Cons by (simp add: read_backslashes)
  qed
qed

text \<open>Outside quotes, what follows must end the argument.\<close>

lemma read_flush:
  assumes "rest = [] \<or> (\<exists>r. rest = CHR '' '' # r)" and "cur \<noteq> None \<or> 0 < n"
  shows "read_line False n cur rest = read_line False 0 (Some (pending cur n)) rest"
  using assms by (auto simp: flush_arg_def bs_def dquote_def blank_def)

lemma read_plain:
  assumes "rest = [] \<or> (\<exists>r. rest = CHR '' '' # r)"
  shows "\<not> list_ex blank s \<Longrightarrow> cur \<noteq> None \<or> 0 < n \<or> s \<noteq> [] \<Longrightarrow>
    read_line False 0 cur (render_chars False n s @ rest) = read_line False 0 (Some (pending cur n @ s)) rest"
proof (induction s arbitrary: n cur)
  case Nil
  then show ?case using read_flush [OF assms, of cur n] by (simp add: read_backslashes)
next
  case (Cons c s)
  consider "c = bs" | "c = dquote" | "c \<noteq> bs" "c \<noteq> dquote" by blast
  then show ?case
  proof cases
    case 1
    then show ?thesis using Cons.IH [of cur "Suc n"] Cons.prems by (simp add: pending_def replicate_app_Cons_same)
  next
    case 2
    have "read_line False 0 cur (replicate (2 * n) bs @ bs # dquote # render_chars False 0 s @ rest)
      = read_line False 0 (Some (pending cur n @ [dquote])) (render_chars False 0 s @ rest)"
      unfolding read_backslashes by simp
    with 2 Cons show ?thesis by simp
  next
    case 3
    then show ?thesis using Cons by (simp add: read_backslashes)
  qed
qed

lemma read_rendered:
  assumes "rest = [] \<or> (\<exists>r. rest = CHR '' '' # r)"
  shows "read_line False 0 None (render_arg s @ rest) = read_line False 0 (Some s) rest"
proof (cases "needs_quotes s")
  case True
  then show ?thesis using read_quoted [of "[]" 0 s rest] by (simp add: render_arg_def)
next
  case False
  then show ?thesis using read_plain [OF assms, of s None 0] by (simp add: render_arg_def needs_quotes_def)
qed

lemma read_after: "read_line False 0 (Some s) [] = [s]" "read_line False 0 (Some s) (CHR '' '' # r) = s # argv_of r"
  by (simp_all add: flush_arg_def argv_of_def bs_def dquote_def blank_def)

lemma argv_of_rendered: "argv_of (render_arg s) = [s]" "argv_of (render_arg s @ CHR '' '' # r) = s # argv_of r"
  using read_rendered [of "[]" s] read_rendered [of "CHR '' '' # r" s] by (simp_all only: argv_of_def read_after append_Nil2) simp_all

lemma argv_of_list2cmdline [simp]: "argv_of (list2cmdline args) = args"
proof (induction args rule: induct_list012)
  case 1
  then show ?case by (simp add: list2cmdline_def argv_of_def flush_arg_def)
next
  case (2 s)
  then show ?case by (simp add: list2cmdline_def argv_of_rendered)
next
  case (3 s t args)
  then show ?case by (simp add: list2cmdline_def argv_of_rendered)
qed

subsection \<open>Base64\<close>

definition b64_char :: "nat \<Rightarrow> char" where
  "b64_char n =
     (if n < 26 then char_of (65 + n) else if n < 52 then char_of (71 + n) else if n < 62 then char_of (n - 4)
      else if n = 62 then CHR ''+'' else CHR ''/'')"

definition b64_value :: "char \<Rightarrow> nat option" where
  "b64_value c =
     (let n = cp c in
      if 65 \<le> n \<and> n \<le> 90 then Some (n - 65) else if 97 \<le> n \<and> n \<le> 122 then Some (n - 71)
      else if 48 \<le> n \<and> n \<le> 57 then Some (n + 4) else if n = 43 then Some 62 else if n = 47 then Some 63 else None)"

fun b64_encode :: "string \<Rightarrow> string" where
  "b64_encode [] = []"
| "b64_encode [a] = [b64_char (cp a div 4), b64_char (cp a mod 4 * 16), CHR ''='', CHR ''='']"
| "b64_encode [a, b] =
     [b64_char (cp a div 4), b64_char (cp a mod 4 * 16 + cp b div 16), b64_char (cp b mod 16 * 4), CHR ''='']"
| "b64_encode (a # b # c # s) =
     b64_char (cp a div 4) # b64_char (cp a mod 4 * 16 + cp b div 16) # b64_char (cp b mod 16 * 4 + cp c div 64)
       # b64_char (cp c mod 64) # b64_encode s"

fun b64_decode :: "string \<Rightarrow> string option" where
  "b64_decode [] = Some []"
| "b64_decode (p # q # r # t # s) =
     (case (b64_value p, b64_value q) of
        (Some i, Some j) \<Rightarrow>
          (if s = [] \<and> r = CHR ''='' \<and> t = CHR ''='' then Some [char_of (i * 4 + j div 16)]
           else (case b64_value r of
                   None \<Rightarrow> None
                 | Some k \<Rightarrow>
                     (if s = [] \<and> t = CHR ''='' then Some [char_of (i * 4 + j div 16), char_of (j mod 16 * 16 + k div 4)]
                      else (case b64_value t of
                              None \<Rightarrow> None
                            | Some l \<Rightarrow>
                                map_option (\<lambda>d. char_of (i * 4 + j div 16) # char_of (j mod 16 * 16 + k div 4) # char_of (k mod 4 * 64 + l) # d)
                                  (b64_decode s)))))
      | _ \<Rightarrow> None)"
| "b64_decode _ = None"

text \<open>Whatever other spellings the library's decoder takes, the comparison with the encoder refuses them.\<close>

definition canonical_base64 :: "string \<Rightarrow> string option" where
  "canonical_base64 s = (case b64_decode s of Some d \<Rightarrow> if b64_encode d = s then Some d else None | None \<Rightarrow> None)"

lemma b64_value_char [simp]: "n < 64 \<Longrightarrow> b64_value (b64_char n) = Some n"
  by (auto simp: b64_char_def b64_value_def Let_def)

lemma b64_char_pad [simp]: "b64_char n \<noteq> CHR ''=''"
proof
  assume pad: "b64_char n = CHR ''=''"
  have "n < 64 \<Longrightarrow> b64_value (CHR ''='') = Some n" using b64_value_char [of n] unfolding pad .
  moreover have "b64_value (CHR ''='') = None" by (simp add: b64_value_def)
  moreover have "\<not> n < 64 \<Longrightarrow> b64_char n = CHR ''/''" by (simp add: b64_char_def)
  ultimately show False using pad by (cases "n < 64") simp_all
qed

lemma byte_less: "cp c < 256"
  using of_char_mod_256 [of c, where 'a = nat] by (metis mod_less_divisor zero_less_numeral)

lemma sextets [simp]:
  "cp a div 4 < 64" "cp a mod 4 * 16 < 64" "cp a mod 4 * 16 + cp b div 16 < 64" "cp b mod 16 * 4 < 64"
  "cp b mod 16 * 4 + cp c div 64 < 64" "cp c mod 64 < 64"
proof -
  have "cp a < 256" "cp b < 256" "cp c < 256" by (rule byte_less)+
  moreover have "cp a mod 4 < 4" "cp b mod 16 < 16" by simp_all
  ultimately show "cp a div 4 < 64" "cp a mod 4 * 16 < 64" "cp a mod 4 * 16 + cp b div 16 < 64" "cp b mod 16 * 4 < 64"
    "cp b mod 16 * 4 + cp c div 64 < 64" "cp c mod 64 < 64" by linarith+
qed

lemma octets [simp]: "cp b div 16 div 16 = 0" "cp b div 16 mod 16 = cp b div 16" "cp c div 64 div 4 = 0" "cp c div 64 mod 4 = cp c div 64"
  using byte_less [of b] byte_less [of c] by (simp_all add: less_mult_imp_div_less)

lemma b64_decode_encode [simp]: "b64_decode (b64_encode d) = Some d"
  by (induction d rule: b64_encode.induct) simp_all

lemma canonical_base64_iff: "canonical_base64 s = Some d \<longleftrightarrow> s = b64_encode d"
  by (auto simp: canonical_base64_def split: option.split_asm if_split_asm)

lemma length_b64_encode: "length (b64_encode d) = 4 * ((length d + 2) div 3)"
proof (induction d rule: b64_encode.induct)
  case (4 a b c s)
  have "(length (a # b # c # s) + 2) div 3 = Suc ((length s + 2) div 3)" by simp
  with 4 show ?case by simp
qed simp_all

end
