(* ===== verification/LaunchSpec.thy ===== *)
theory LaunchSpec
  imports CommandLine Contracts
begin

text \<open>
  The launch specification, from \<open>runtime_sections/00_bootstrap_and_session.py\<close>
  (\<open>_coerce_launch_arguments\<close> to \<open>_build_launch_spec\<close>): what a caller may ask of a launch, checked and
  normalized before anything is sent. The file system, the repair of garbled text and \<open>json.loads\<close> are a
  \<open>host\<close>; its \<open>lh_json\<close> returns the text of the exception on the left. A refusal is its error text. Every text
  of the model is valid UTF-16, one unit for a character, so the code's checks of that never fail.
\<close>

record host =
  lh_repair :: "string \<Rightarrow> string"
  lh_json :: "string \<Rightarrow> string + pyval"
  lh_isabs :: "string \<Rightarrow> bool"
  lh_isfile :: "string \<Rightarrow> bool"
  lh_isdir :: "string \<Rightarrow> bool"
  lh_abspath :: "string \<Rightarrow> string"
  lh_dirname :: "string \<Rightarrow> string"
  lh_normcase :: "string \<Rightarrow> string"

type_synonym 'a checked = "string + 'a"

definition nul :: char where
  "nul = CHR 0x00"

definition strict_int :: "pyval \<Rightarrow> string \<Rightarrow> int checked" where
  "strict_int v name = (case v of VInt i \<Rightarrow> Inr i | _ \<Rightarrow> Inl (name @ '' must be an integer''))"

subsection \<open>Arguments and environment\<close>

fun check_arguments :: "nat \<Rightarrow> pyval list \<Rightarrow> string list checked" where
  "check_arguments n [] = Inr []"
| "check_arguments n (v # vs) =
     (case v of
        VStr s \<Rightarrow>
          (if nul \<in> set s then Inl (''arguments['' @ dec (int n) @ ''] contains a NUL character'')
           else sum_bind (check_arguments (Suc n) vs) (\<lambda>rest. Inr (s # rest)))
      | _ \<Rightarrow> Inl (''arguments['' @ dec (int n) @ ''] must be a string''))"

definition list_arguments :: "pyval \<Rightarrow> string list checked" where
  "list_arguments v =
     (case v of VList vs \<Rightarrow> check_arguments 0 vs | VTuple vs \<Rightarrow> check_arguments 0 vs | _ \<Rightarrow> Inl ''arguments must be a list of strings'')"

definition coerce_launch_arguments :: "host \<Rightarrow> pyval \<Rightarrow> string list checked" where
  "coerce_launch_arguments H v =
     (case v of
        VNone \<Rightarrow> Inr []
      | VStr s \<Rightarrow>
          (if strip s = [] then Inr []
           else (case lh_json H (strip s) of
                   Inl t \<Rightarrow> Inl (''arguments must be a list of strings: '' @ t)
                 | Inr w \<Rightarrow> list_arguments w))
      | _ \<Rightarrow> list_arguments v)"

type_synonym environment = "(string \<times> string option) list"

fun check_environment :: "string list \<Rightarrow> pydict \<Rightarrow> environment checked" where
  "check_environment seen [] = Inr []"
| "check_environment seen ((k, v) # d) =
     (if k = [] \<or> CHR ''='' \<in> set k \<or> nul \<in> set k then Inl (''Invalid environment variable name: '' @ repr_str k)
      else if casefold k \<in> set seen then Inl (''Duplicate case-insensitive environment variable: '' @ repr_str k)
      else (case v of
              VNone \<Rightarrow> sum_bind (check_environment (casefold k # seen) d) (\<lambda>rest. Inr ((k, None) # rest))
            | VStr s \<Rightarrow>
                (if nul \<in> set s then Inl (''Environment value for '' @ repr_str k @ '' contains a NUL character'')
                 else sum_bind (check_environment (casefold k # seen) d) (\<lambda>rest. Inr ((k, Some s) # rest)))
            | _ \<Rightarrow> Inl (''Environment value for '' @ repr_str k @ '' must be a string or null'')))"

text \<open>The units of the environment block: \<open>key=value\<close> and a terminator for each, one more for the block.\<close>

definition environment_units :: "environment \<Rightarrow> nat" where
  "environment_units env = 1 + sum_list (map (\<lambda>(k, v). case v of Some s \<Rightarrow> length k + length s + 2 | None \<Rightarrow> 0) env)"

definition dict_environment :: "pyval \<Rightarrow> environment checked" where
  "dict_environment v =
     (case v of
        VDict d \<Rightarrow>
          sum_bind (check_environment [] d) (\<lambda>env.
            if int (environment_units env) > 32767 then Inl ''Environment overrides exceed 32767 UTF-16 code units'' else Inr env)
      | _ \<Rightarrow> Inl ''environment must be an object'')"

definition coerce_launch_environment :: "host \<Rightarrow> pyval \<Rightarrow> environment checked" where
  "coerce_launch_environment H v =
     (case v of
        VNone \<Rightarrow> Inr []
      | VStr s \<Rightarrow>
          (if strip s = [] then Inr []
           else (case lh_json H (strip s) of
                   Inl t \<Rightarrow> Inl (''environment must be a JSON object: '' @ t)
                 | Inr w \<Rightarrow> dict_environment w))
      | _ \<Rightarrow> dict_environment v)"

subsection \<open>Streams\<close>

definition normalize_launch_path :: "host \<Rightarrow> pyval \<Rightarrow> string \<Rightarrow> bool \<Rightarrow> string checked" where
  "normalize_launch_path H v field input =
     (case v of
        VStr s \<Rightarrow>
          (let path = lh_abspath H s; parent = lh_dirname H path in
           if s = [] then Inl (field @ '' must be a non-empty string'')
           else if nul \<in> set s then Inl (field @ '' contains a NUL character'')
           else if \<not> lh_isabs H s then Inl (field @ '' must be an absolute path'')
           else if input then (if lh_isfile H path then Inr path else Inl (field @ '' was not found or is not a file: '' @ path))
           else if lh_isdir H path then Inl (field @ '' names a directory: '' @ path)
           else if parent = [] \<or> \<not> lh_isdir H parent then Inl (''Parent directory for '' @ field @ '' was not found: '' @ parent)
           else Inr path)
      | _ \<Rightarrow> Inl (field @ '' must be a non-empty string''))"

definition decode_canonical_base64 :: "pyval \<Rightarrow> string \<Rightarrow> string checked" where
  "decode_canonical_base64 v field =
     (case v of
        VStr s \<Rightarrow> (case canonical_base64 s of Some d \<Rightarrow> Inr d | None \<Rightarrow> Inl (field @ '' must be canonical RFC 4648 base64''))
      | _ \<Rightarrow> Inl (field @ '' must be a base64 string''))"

definition chunk_limit :: int where
  "chunk_limit = 1048576"

definition min_capture :: int where
  "min_capture = 4096"

definition max_capture :: int where
  "max_capture = 67108864"

definition allowed_modes :: "bool \<Rightarrow> string list" where
  "allowed_modes is_stdin = (if is_stdin then [''bytes'', ''file'', ''inherit'', ''null'', ''pipe''] else [''file'', ''inherit'', ''null'', ''pipe''])"

text \<open>The fields of a stream beside its mode, with the keys its description may have.\<close>

definition stream_file_fields :: "host \<Rightarrow> string \<Rightarrow> bool \<Rightarrow> pydict \<Rightarrow> (pydict \<times> string list) checked" where
  "stream_file_fields H name is_stdin d =
     sum_bind (normalize_launch_path H (dict_get d ''path'') (name @ ''.path'') is_stdin) (\<lambda>path.
       if is_stdin then Inr ([(''path'', VStr path)], [''mode'', ''path''])
       else (case dict_get_default d ''fileMode'' (VStr ''truncate'') of
               VStr m \<Rightarrow>
                 (if casefold m = ''append'' \<or> casefold m = ''truncate''
                  then Inr ([(''path'', VStr path), (''fileMode'', VStr (casefold m))], [''mode'', ''path'', ''fileMode''])
                  else Inl (name @ ''.fileMode must be append or truncate''))
             | _ \<Rightarrow> Inl (name @ ''.fileMode must be append or truncate'')))"

definition stdin_payload :: "pydict \<Rightarrow> string checked" where
  "stdin_payload d =
     (if has_key d ''data'' = has_key d ''dataBase64''
      then Inl ''stdin bytes mode requires exactly one of data (raw bytes) or dataBase64''
      else if has_key d ''data''
      then (case dict_get d ''data'' of VBytes b \<Rightarrow> Inr b | _ \<Rightarrow> Inl ''stdin.data must be bytes-like'')
      else decode_canonical_base64 (dict_get d ''dataBase64'') ''stdin.dataBase64'')"

definition bytes_fields :: "pydict \<Rightarrow> (pydict \<times> string list) checked" where
  "bytes_fields d =
     sum_bind (stdin_payload d) (\<lambda>b.
       if int (length b) > chunk_limit then Inl ''stdin bytes payload exceeds the 1048576-byte launch limit''
       else (case dict_get_default d ''closeAfterWrite'' (VBool True) of
               VBool True \<Rightarrow>
                 Inr ([(''dataBase64'', VStr (b64_encode b)), (''closeAfterWrite'', VBool True)],
                   [''mode'', ''data'', ''dataBase64'', ''closeAfterWrite''])
             | VBool False \<Rightarrow>
                 Inl ''stdin bytes mode is a finite source and closeAfterWrite must be true; use mode=pipe for incremental writes''
             | _ \<Rightarrow> Inl ''stdin.closeAfterWrite must be a boolean''))"

definition pipe_fields :: "pydict \<Rightarrow> (pydict \<times> string list) checked" where
  "pipe_fields d =
     (if has_key d ''capacityBytes''
      then sum_bind (strict_int (dict_get d ''capacityBytes'') ''stdin.capacityBytes'') (\<lambda>n.
             if min_capture \<le> n \<and> n \<le> max_capture then Inr ([(''capacityBytes'', VInt n)], [''mode'', ''capacityBytes''])
             else Inl ''stdin.capacityBytes must be between 4096 and 67108864'')
      else Inr ([], [''mode'', ''capacityBytes'']))"

definition stream_fields :: "host \<Rightarrow> string \<Rightarrow> bool \<Rightarrow> string \<Rightarrow> pydict \<Rightarrow> (pydict \<times> string list) checked" where
  "stream_fields H name is_stdin mode d =
     (if mode = ''file'' then stream_file_fields H name is_stdin d
      else if is_stdin \<and> mode = ''bytes'' then bytes_fields d
      else if is_stdin \<and> mode = ''pipe'' then pipe_fields d
      else Inr ([], [''mode'']))"

definition normalize_launch_stream :: "host \<Rightarrow> string \<Rightarrow> pyval \<Rightarrow> pydict checked" where
  "normalize_launch_stream H name v =
     (let is_stdin = (name = ''stdin'') in
      case v of
        VDict d \<Rightarrow>
          (case dict_get d ''mode'' of
             VStr raw \<Rightarrow>
               (let mode = casefold (strip raw) in
                if mode \<notin> set (allowed_modes is_stdin)
                then Inl (name @ ''.mode must be one of '' @ join '', '' (allowed_modes is_stdin))
                else sum_bind (stream_fields H name is_stdin mode d) (\<lambda>(fields, keys).
                  let unknown = sort (filter (\<lambda>k. k \<notin> set keys) (map fst d)) in
                  if unknown \<noteq> [] then Inl (''Unknown '' @ name @ '' fields: '' @ join '', '' unknown)
                  else Inr ((''mode'', VStr mode) # fields)))
           | _ \<Rightarrow> Inl (name @ ''.mode must be a string''))
      | _ \<Rightarrow> Inl (name @ '' must be an object''))"

record streams =
  sm_in :: pydict
  sm_out :: pydict
  sm_err :: pydict
  sm_explicit :: bool

definition inherited :: pydict where
  "inherited = [(''mode'', VStr ''inherit'')]"

definition normalize_launch_streams :: "host \<Rightarrow> pyval \<Rightarrow> pyval \<Rightarrow> pyval \<Rightarrow> streams checked" where
  "normalize_launch_streams H stdin stdout stderr =
     (if stdin = VNone \<and> stdout = VNone \<and> stderr = VNone
      then Inr \<lparr>sm_in = inherited, sm_out = inherited, sm_err = inherited, sm_explicit = False\<rparr>
      else if stdin = VNone \<or> stdout = VNone \<or> stderr = VNone
      then Inl ''stdin, stdout, and stderr must all be specified when any stream is configured explicitly''
      else sum_bind (normalize_launch_stream H ''stdin'' stdin) (\<lambda>i.
           sum_bind (normalize_launch_stream H ''stdout'' stdout) (\<lambda>out.
           sum_bind (normalize_launch_stream H ''stderr'' stderr) (\<lambda>err.
             Inr \<lparr>sm_in = i, sm_out = out, sm_err = err, sm_explicit = True\<rparr>))))"

subsection \<open>The specification\<close>

record launch_args =
  la_exe :: pyval
  la_arguments :: pyval
  la_command_line :: pyval
  la_cwd :: pyval
  la_environment :: pyval
  la_inherit :: pyval
  la_stdin :: pyval
  la_stdout :: pyval
  la_stderr :: pyval
  la_child_policy :: pyval
  la_capture :: pyval

record launch_spec =
  ls_exe :: string
  ls_arguments :: "string list"
  ls_command_line :: string
  ls_raw :: string
  ls_full :: string
  ls_units :: nat
  ls_cwd :: string
  ls_environment :: environment
  ls_inherit :: bool
  ls_streams :: streams
  ls_child_policy :: string
  ls_capture :: int

text \<open>A refusal carries the error code of a stream description, or none.\<close>

datatype refusal = Refused string | Bad_streams string

definition refuse_with :: "'a checked \<Rightarrow> refusal + 'a" where
  "refuse_with r = (case r of Inl t \<Rightarrow> Inl (Refused t) | Inr x \<Rightarrow> Inr x)"

definition bad_streams :: "'a checked \<Rightarrow> refusal + 'a" where
  "bad_streams r = (case r of Inl t \<Rightarrow> Inl (Bad_streams t) | Inr x \<Rightarrow> Inr x)"

definition launch_target :: "host \<Rightarrow> pyval \<Rightarrow> string checked" where
  "launch_target H v =
     (let target = lh_repair H (strip (str_or_empty v)); path = lh_abspath H target in
      if target = [] then Inl ''exe_path is required''
      else if nul \<in> set target then Inl ''exe_path contains a NUL character''
      else if \<not> lh_isabs H target then Inl ''exe_path must be an absolute path''
      else if \<not> lh_isfile H path then Inl (''Executable was not found: '' @ path)
      else Inr path)"

definition launch_command :: "host \<Rightarrow> launch_args \<Rightarrow> (string list \<times> environment \<times> bool \<times> string) checked" where
  "launch_command H A =
     (case la_inherit A of
        VBool inherit \<Rightarrow>
          (case la_command_line A of
             VStr raw \<Rightarrow>
               sum_bind (coerce_launch_arguments H (la_arguments A)) (\<lambda>argv.
               sum_bind (coerce_launch_environment H (la_environment A)) (\<lambda>env.
                 if argv \<noteq> [] \<and> raw \<noteq> [] then Inl ''arguments and command_line are mutually exclusive''
                 else if nul \<in> set raw then Inl ''command_line contains a NUL character''
                 else Inr (argv, env, inherit, raw)))
           | _ \<Rightarrow> Inl ''command_line must be a string'')
      | _ \<Rightarrow> Inl ''inherit_environment must be a boolean'')"

definition launch_cwd :: "host \<Rightarrow> pyval \<Rightarrow> string checked" where
  "launch_cwd H v =
     (let cwd = lh_repair H (strip (str_or_empty v)); path = lh_abspath H cwd in
      if cwd = [] then Inr []
      else if nul \<in> set cwd then Inl ''working_directory contains a NUL character''
      else if \<not> lh_isabs H cwd then Inl ''working_directory must be an absolute path''
      else if \<not> lh_isdir H path then Inl (''Working directory was not found: '' @ path)
      else Inr path)"

definition launch_capture :: "pyval \<Rightarrow> int checked" where
  "launch_capture v =
     sum_bind (strict_int v ''capture_limit_bytes'') (\<lambda>n.
       if min_capture \<le> n \<and> n \<le> max_capture then Inr n else Inl ''capture_limit_bytes must be between 4096 and 67108864'')"

definition child_policies :: "string list" where
  "child_policies = [''none'', ''attach-first'', ''attach-all'', ''break-on-create'']"

definition launch_child_policy :: "pyval \<Rightarrow> string checked" where
  "launch_child_policy v =
     (case v of
        VStr s \<Rightarrow>
          (if casefold (strip s) \<in> set child_policies then Inr (casefold (strip s))
           else Inl ''child_policy must be none, attach-first, attach-all, or break-on-create'')
      | _ \<Rightarrow> Inl ''child_policy must be a string'')"

text \<open>Two output files may not be the same one.\<close>

definition same_output_file :: "host \<Rightarrow> streams \<Rightarrow> bool" where
  "same_output_file H s \<longleftrightarrow>
     dict_get (sm_out s) ''mode'' = VStr ''file'' \<and> dict_get (sm_err s) ''mode'' = VStr ''file''
     \<and> lh_normcase H (lh_abspath H (str_or_empty (dict_get (sm_out s) ''path'')))
       = lh_normcase H (lh_abspath H (str_or_empty (dict_get (sm_err s) ''path'')))"

definition launch_streams :: "host \<Rightarrow> launch_args \<Rightarrow> streams checked" where
  "launch_streams H A =
     sum_bind (normalize_launch_streams H (la_stdin A) (la_stdout A) (la_stderr A)) (\<lambda>s.
       if same_output_file H s
       then Inl ''stdout and stderr cannot name the same file; merged file-handle semantics are not part of launch contract v2''
       else Inr s)"

definition line_limit :: int where
  "line_limit = 32766"

text \<open>The whole line is measured against the limit and shown in the specification; the bridge is sent the arguments
  and renders the line it launches by itself.\<close>

definition full_command_line :: "string \<Rightarrow> string list \<Rightarrow> string \<Rightarrow> string" where
  "full_command_line target argv raw =
     (if raw \<noteq> [] then list2cmdline [target] @ CHR '' '' # raw else list2cmdline (target # argv))"

definition build_launch_spec :: "host \<Rightarrow> launch_args \<Rightarrow> refusal + launch_spec" where
  "build_launch_spec H A =
     sum_bind (refuse_with (launch_target H (la_exe A))) (\<lambda>target.
     sum_bind (refuse_with (launch_command H A)) (\<lambda>(argv, env, inherit, raw).
     sum_bind (refuse_with (launch_cwd H (la_cwd A))) (\<lambda>cwd.
     sum_bind (refuse_with (launch_capture (la_capture A))) (\<lambda>capture.
     sum_bind (refuse_with (launch_child_policy (la_child_policy A))) (\<lambda>policy.
     sum_bind (bad_streams (launch_streams H A)) (\<lambda>s.
       let line = full_command_line target argv raw in
       if int (length line) > line_limit then Inl (Refused ''Windows command line exceeds 32766 UTF-16 code units'')
       else Inr \<lparr>ls_exe = target, ls_arguments = argv,
              ls_command_line = (if raw \<noteq> [] then raw else list2cmdline argv), ls_raw = raw, ls_full = line,
              ls_units = length line, ls_cwd = cwd, ls_environment = env, ls_inherit = inherit, ls_streams = s,
              ls_child_policy = policy, ls_capture = capture\<rparr>))))))"

text \<open>The dictionary the launch tools pass on.\<close>

definition spec_as_dict :: "launch_spec \<Rightarrow> pydict" where
  "spec_as_dict L =
     [(''ok'', VBool True), (''contractVersion'', VInt 2), (''exePath'', VStr (ls_exe L)),
      (''arguments'', VList (map VStr (ls_arguments L))), (''commandLine'', VStr (ls_command_line L)),
      (''rawCommandLine'', VStr (ls_raw L)), (''rawCommandLineTail'', VStr (ls_raw L)),
      (''fullCommandLine'', VStr (ls_full L)), (''fullCommandLineUtf16Units'', VInt (int (ls_units L))),
      (''workingDirectory'', VStr (ls_cwd L)),
      (''environment'', VDict (map (\<lambda>(k, v). (k, case v of Some s \<Rightarrow> VStr s | None \<Rightarrow> VNone)) (ls_environment L))),
      (''inheritEnvironment'', VBool (ls_inherit L)),
      (''streams'', VDict [(''stdin'', VDict (sm_in (ls_streams L))), (''stdout'', VDict (sm_out (ls_streams L))),
         (''stderr'', VDict (sm_err (ls_streams L)))]),
      (''streamsExplicit'', VBool (sm_explicit (ls_streams L))), (''stdin'', VDict (sm_in (ls_streams L))),
      (''stdout'', VDict (sm_out (ls_streams L))), (''stderr'', VDict (sm_err (ls_streams L))),
      (''childPolicy'', VStr (ls_child_policy L)), (''captureLimitBytes'', VInt (ls_capture L))]"

end
