(* ===== verification/LaunchBridge.thy ===== *)
theory LaunchBridge
  imports LaunchSpec BridgeRequest
begin

text \<open>
  The launch and its streams, from \<open>_launch_capabilities\<close> to \<open>_launch_via_bridge\<close> of
  \<open>runtime_sections/00_bootstrap_and_session.py\<close> and the launch tools of \<open>20_debugger_workflows.py\<close>
  (\<open>GetLaunchState\<close> to \<open>CloseLaunchResources\<close>). The bridge and the monotonic clock are a record of
  operations on a state \<open>'s\<close>; \<open>modelled_io\<close> builds it from the request of \<open>BridgeRequest\<close>. Times are in
  microseconds. A launch specification always has contract version 2, so the branches of
  \<open>_launch_via_bridge\<close> for older versions are not taken.
\<close>

record 's bridge_io =
  bi_request :: "bridge_call \<Rightarrow> 's \<Rightarrow> (pyexn + bridge_envelope) \<times> 's"
  bi_clock :: "'s \<Rightarrow> int \<times> 's"

definition modelled_io ::
  "guard_env \<Rightarrow> transport \<Rightarrow> (http_request list \<Rightarrow> nat \<Rightarrow> int) \<Rightarrow> (nat \<Rightarrow> string) \<Rightarrow> (guard_state \<times> http_request list \<times> nat) bridge_io" where
  "modelled_io E T clock ids =
     \<lparr>bi_request = (\<lambda>c (s, sent, n).
        case bridge_request E T (ids (length sent)) (c\<lparr>bc_id := ids (length sent + 1)\<rparr>) s sent of (r, s', sent') \<Rightarrow> (r, (s', sent', n))),
      bi_clock = (\<lambda>(s, sent, n). (clock sent n, (s, sent, Suc n)))\<rparr>"

definition get_call :: "string \<Rightarrow> string \<Rightarrow> pydict \<Rightarrow> bridge_call" where
  "get_call endpoint guard params =
     \<lparr>bc_method = ''GET'', bc_endpoint = endpoint, bc_params = params, bc_form = VNone, bc_json = VNone, bc_guard = guard,
      bc_expected = None, bc_idempotent = True, bc_id = []\<rparr>"

definition post_call :: "string \<Rightarrow> string \<Rightarrow> pydict \<Rightarrow> bridge_call" where
  "post_call endpoint guard form =
     \<lparr>bc_method = ''POST'', bc_endpoint = endpoint, bc_params = [], bc_form = VDict form, bc_json = VNone, bc_guard = guard,
      bc_expected = None, bc_idempotent = False, bc_id = []\<rparr>"

subsection \<open>Capabilities\<close>

definition launch_capabilities :: "pydict \<Rightarrow> pydict" where
  "launch_capabilities identity = as_dict (dict_get (as_dict (dict_get identity ''capabilities'')) ''launch'')"

definition advertised_modes :: "pydict \<Rightarrow> string list" where
  "advertised_modes caps =
     (let v = dict_get caps ''childPolicies'';
          items = (case (case v of VDict d \<Rightarrow> dict_get d ''modes'' | w \<Rightarrow> w) of VList vs \<Rightarrow> vs | VTuple vs \<Rightarrow> vs | _ \<Rightarrow> [])
      in remdups (concat (map (\<lambda>i. case i of VStr s \<Rightarrow> if strip s = [] then [] else [casefold (strip s)] | _ \<Rightarrow> []) items)))"

definition unsupported :: "string \<Rightarrow> string \<Rightarrow> pydict \<Rightarrow> pydict" where
  "unsupported capability message extra =
     [(''ok'', VBool False), (''success'', VBool False), (''unsupported'', VBool True), (''errorCode'', VStr ''UNSUPPORTED_CAPABILITY''),
      (''error'', VStr message), (''capability'', VStr capability)] @ extra"

definition streams_supported :: "pydict \<Rightarrow> bool" where
  "streams_supported caps \<longleftrightarrow>
     (case dict_get caps ''streams'' of
        VDict d \<Rightarrow> dict_get_default d ''supported'' (VBool True) = VBool True \<and> d \<noteq> []
      | v \<Rightarrow> v = VBool True)"

definition child_policy_refusal :: "string \<Rightarrow> string list \<Rightarrow> pydict option" where
  "child_policy_refusal policy modes =
     (let extra = [(''requested'', VStr policy), (''advertised'', VList (map VStr (sort modes)))] in
      if policy \<noteq> ''none'' \<and> policy \<notin> set modes
      then Some (unsupported ''launch.childPolicies'' (''Bridge/Hello does not advertise child policy '' @ repr_str policy @ ''.'') extra)
      else if modes \<noteq> [] \<and> policy \<notin> set modes
      then Some (unsupported ''launch.childPolicies'' (''Bridge/Hello rejects child policy '' @ repr_str policy @ ''.'') extra)
      else None)"

definition validate_launch_capabilities :: "launch_spec \<Rightarrow> pydict \<Rightarrow> pydict option" where
  "validate_launch_capabilities L caps =
     (let version = int_or_0 (dict_get caps ''version''); mode = casefold (str_or_empty (dict_get caps ''environmentMode'')) in
      if version < 2
      then Some (unsupported ''launch.version'' ''Bridge/Hello must advertise launch contract version 2 or newer.''
             [(''required'', VInt 2), (''advertised'', VInt version)])
      else if mode \<noteq> ''unicode_create_process_block''
      then Some (unsupported ''launch.environmentMode'' ''Bridge/Hello must advertise an isolated Unicode CreateProcess environment block.''
             [(''required'', VStr ''unicode_create_process_block''), (''advertised'', if mode = [] then VNone else VStr mode)])
      else if \<not> streams_supported caps
      then Some (unsupported ''launch.streams'' ''Bridge/Hello does not advertise typed launch stream support.'' [])
      else child_policy_refusal (casefold (or_text (ls_child_policy L) ''none'')) (advertised_modes caps))"

subsection \<open>The launch\<close>

text \<open>\<open>dumps\<close> is \<open>json.dumps\<close> with the compact separators. Streams that were not configured are left out.\<close>

definition launch_form :: "(pyval \<Rightarrow> string) \<Rightarrow> launch_spec \<Rightarrow> pydict" where
  "launch_form dumps L =
     (let spec = spec_as_dict L in
      [(''contractVersion'', VStr ''2''), (''exe'', VStr (ls_exe L)), (''arguments'', VStr (dumps (dict_get spec ''arguments''))),
       (''rawCommandLineTail'', VStr (ls_raw L)), (''cwd'', VStr (ls_cwd L)), (''environment'', VStr (dumps (dict_get spec ''environment''))),
       (''inheritEnvironment'', VStr (if ls_inherit L then ''true'' else ''false'')),
       (''childPolicy'', VStr (or_text (ls_child_policy L) ''none'')), (''captureLimitBytes'', VStr (dec (ls_capture L)))]
      @ (if sm_explicit (ls_streams L)
         then [(''stdin'', VStr (dumps (dict_get spec ''stdin''))), (''stdout'', VStr (dumps (dict_get spec ''stdout''))),
               (''stderr'', VStr (dumps (dict_get spec ''stderr'')))]
         else []))"

definition launch_reply :: "bridge_envelope \<Rightarrow> pydict" where
  "launch_reply env =
     (if env_ok env
      then AList.update ''launchApi'' (VStr ''Debug/Launch'')
             (set_default ''success'' (VBool True) (set_default ''ok'' (VBool True)
               (case env_data env of VDict d \<Rightarrow> d | v \<Rightarrow> [(''result'', v)])))
      else [(''ok'', VBool False), (''success'', VBool False),
            (''errorCode'', VStr (case env_error env of Some e \<Rightarrow> be_code e | None \<Rightarrow> ''BRIDGE_ERROR'')),
            (''error'', VStr (case env_error env of Some e \<Rightarrow> be_message e | None \<Rightarrow> ''Launch failed.'')),
            (''meta'', VDict (env_meta env)), (''launchApi'', VStr ''Debug/Launch'')])"

definition launch_call :: "(pyval \<Rightarrow> string) \<Rightarrow> launch_spec \<Rightarrow> bridge_call" where
  "launch_call dumps L = post_call ''Debug/Launch'' ''bridge'' (launch_form dumps L)"

definition launch_via_bridge :: "'s bridge_io \<Rightarrow> (pyval \<Rightarrow> string) \<Rightarrow> pydict \<Rightarrow> launch_spec \<Rightarrow> 's \<Rightarrow> (pyexn + pydict) \<times> 's" where
  "launch_via_bridge io dumps identity L s =
     (case validate_launch_capabilities L (launch_capabilities identity) of
        Some refusal \<Rightarrow> (Inr refusal, s)
      | None \<Rightarrow>
          (case bi_request io (launch_call dumps L) s of
             (Inl e, s') \<Rightarrow> (Inl e, s')
           | (Inr env, s') \<Rightarrow> (Inr (launch_reply env), s')))"

subsection \<open>Answers of the launch tools\<close>

definition invalid_argument :: "string \<Rightarrow> pydict" where
  "invalid_argument t = [(''ok'', VBool False), (''errorCode'', VStr ''INVALID_ARGUMENT''), (''error'', VStr t)]"

definition launch_id_limit :: nat where
  "launch_id_limit = 128"

definition normalize_launch_id :: "pyval \<Rightarrow> pydict + string" where
  "normalize_launch_id v =
     (case v of
        VStr s \<Rightarrow>
          (if s = [] \<or> length s > launch_id_limit \<or> s \<noteq> strip s \<or> list_ex (\<lambda>c. cp c < 33 \<or> cp c > 126) s
           then Inl (invalid_argument ''launch_id must contain 1..128 printable ASCII characters without surrounding whitespace'')
           else Inr s)
      | _ \<Rightarrow> Inl (invalid_argument ''launch_id must be a string''))"

definition launch_tool_result :: "bridge_envelope \<Rightarrow> string \<Rightarrow> string \<Rightarrow> pydict" where
  "launch_tool_result env code message =
     (if env_ok env
      then AList.update ''meta'' (VDict (env_meta env))
             (set_default ''ok'' (VBool True) (case env_data env of VDict d \<Rightarrow> d | v \<Rightarrow> [(''data'', v)]))
      else [(''ok'', VBool False), (''errorCode'', VStr (case env_error env of Some e \<Rightarrow> be_code e | None \<Rightarrow> code)),
            (''error'', VStr (case env_error env of Some e \<Rightarrow> be_message e | None \<Rightarrow> message)),
            (''retryable'', VBool (case env_error env of Some e \<Rightarrow> be_retryable e | None \<Rightarrow> False)), (''meta'', VDict (env_meta env))])"

definition answer_once :: "'s bridge_io \<Rightarrow> bridge_call \<Rightarrow> string \<Rightarrow> string \<Rightarrow> 's \<Rightarrow> (pyexn + pydict) \<times> 's" where
  "answer_once io c code message s =
     (case bi_request io c s of (Inl e, s') \<Rightarrow> (Inl e, s') | (Inr env, s') \<Rightarrow> (Inr (launch_tool_result env code message), s'))"

definition get_launch_state :: "'s bridge_io \<Rightarrow> pyval \<Rightarrow> 's \<Rightarrow> (pyexn + pydict) \<times> 's" where
  "get_launch_state io v s =
     (case normalize_launch_id v of
        Inl d \<Rightarrow> (Inr d, s)
      | Inr i \<Rightarrow> answer_once io (get_call ''Debug/Launch/State'' ''bridge'' [(''launchId'', VStr i)])
                   ''LAUNCH_STATE_FAILED'' ''Failed to read launch state.'' s)"

definition close_launch_stdin :: "'s bridge_io \<Rightarrow> pyval \<Rightarrow> 's \<Rightarrow> (pyexn + pydict) \<times> 's" where
  "close_launch_stdin io v s =
     (case normalize_launch_id v of
        Inl d \<Rightarrow> (Inr d, s)
      | Inr i \<Rightarrow> answer_once io (post_call ''Debug/Launch/Stdin/Close'' ''session'' [(''launchId'', VStr i)])
                   ''LAUNCH_STDIN_CLOSE_FAILED'' ''Failed to close launch stdin.'' s)"

definition close_launch_resources :: "'s bridge_io \<Rightarrow> pyval \<Rightarrow> pyval \<Rightarrow> 's \<Rightarrow> (pyexn + pydict) \<times> 's" where
  "close_launch_resources io v timeout s =
     (case normalize_launch_id v of
        Inl d \<Rightarrow> (Inr d, s)
      | Inr i \<Rightarrow>
          (case strict_int timeout ''timeout_ms'' of
             Inl t \<Rightarrow> (Inr (invalid_argument t), s)
           | Inr ms \<Rightarrow>
               (if ms < 0 \<or> 30000 < ms then (Inr (invalid_argument ''timeout_ms must be between 0 and 30000''), s)
                else answer_once io (post_call ''Debug/Launch/Resources/Close'' ''bridge''
                       [(''launchId'', VStr i), (''timeoutMs'', VStr (dec ms))])
                       ''LAUNCH_RESOURCES_CLOSE_FAILED'' ''Failed to close launch resources.'' s)))"

end
