(* ===== verification/LaunchStreams.thy ===== *)
theory LaunchStreams
  imports LaunchBridge
begin

text \<open>
  Reading and writing the streams of a launch, from \<open>ReadLaunchStream\<close> and \<open>WriteLaunchStdin\<close> of
  \<open>runtime_sections/20_debugger_workflows.py\<close>. The bridge waits at most 750 milliseconds in one request, so the
  tools repeat the request in slices until the caller's time is over. Nothing but the clock ends the
  loop when the bridge keeps answering too early; \<open>fuel\<close> bounds the slices, and \<open>None\<close> is a run that is not
  over then. The log keeps the wait and the answer of every slice, oldest first.
\<close>

type_synonym slice_log = "(int \<times> bridge_envelope) list"

definition slice_limit :: int where
  "slice_limit = 750"

definition wait_limit :: int where
  "wait_limit = 60000"

text \<open>Milliseconds, rounded up, that are left before the deadline.\<close>

definition millis_left :: "int \<Rightarrow> int \<Rightarrow> int" where
  "millis_left deadline now = max 0 (- ((now - deadline) div 1000))"

definition slice_wait :: "'s bridge_io \<Rightarrow> int \<Rightarrow> int \<Rightarrow> nat \<Rightarrow> 's \<Rightarrow> int \<times> 's" where
  "slice_wait io wait deadline k s =
     (if wait = 0 then (0, s)
      else if k = 1 then (min slice_limit wait, s)
      else (let (now, s) = bi_clock io s in (min slice_limit (millis_left deadline now), s)))"

text \<open>\<open>k\<close> is the number of the slice; \<open>final\<close> says which answers end the loop at once.\<close>

fun slice_loop ::
  "'s bridge_io \<Rightarrow> (int \<Rightarrow> bridge_call) \<Rightarrow> (bridge_envelope \<Rightarrow> bool) \<Rightarrow> int \<Rightarrow> int \<Rightarrow> nat \<Rightarrow> nat \<Rightarrow> 's
   \<Rightarrow> (pyexn + bridge_envelope \<times> nat) option \<times> slice_log \<times> 's" where
  "slice_loop io call final wait deadline k 0 s = (None, [], s)"
| "slice_loop io call final wait deadline k (Suc fuel) s =
     (let (w, s) = slice_wait io wait deadline k s in
      case bi_request io (call w) s of
        (Inl e, s) \<Rightarrow> (Some (Inl e), [], s)
      | (Inr env, s) \<Rightarrow>
          (if final env \<or> wait = 0 then (Some (Inr (env, k)), [(w, env)], s)
           else (let (now, s) = bi_clock io s in
                 if deadline \<le> now \<or> w \<le> 0 then (Some (Inr (env, k)), [(w, env)], s)
                 else (let (r, log, s) = slice_loop io call final wait deadline (Suc k) fuel s in (r, (w, env) # log, s)))))"

definition with_client_wait :: "int \<Rightarrow> int \<Rightarrow> nat \<Rightarrow> pydict \<Rightarrow> pydict" where
  "with_client_wait wait elapsed k d =
     AList.update ''clientWaitAggregated'' (VBool (k > 1))
       (AList.update ''clientWaitSlices'' (VInt (int k))
         (AList.update ''clientWaitedMs'' (VInt (min wait (max 0 (elapsed div 1000))))
           (AList.update ''clientWaitMs'' (VInt wait) d)))"

subsection \<open>Reading\<close>

definition read_final :: "bridge_envelope \<Rightarrow> bool" where
  "read_final env \<longleftrightarrow>
     \<not> env_ok env
     \<or> (let d = as_dict (env_data env) in
        case dict_get d ''dataBase64'' of
          VStr s \<Rightarrow> s \<noteq> [] \<or> dict_get d ''eof'' = VBool True \<or> dict_get d ''closed'' = VBool True \<or> dict_get d ''cursorTruncated'' = VBool True
        | _ \<Rightarrow> True)"

definition read_call :: "string \<Rightarrow> string \<Rightarrow> int \<Rightarrow> int \<Rightarrow> int \<Rightarrow> bridge_call" where
  "read_call i stream cursor n w =
     get_call ''Debug/Launch/Stream/Read'' ''bridge''
       [(''launchId'', VStr i), (''stream'', VStr stream), (''cursor'', VInt cursor), (''maxBytes'', VInt n), (''waitMs'', VInt w)]"

record read_args =
  ra_id :: pyval
  ra_stream :: pyval
  ra_cursor :: pyval
  ra_max :: pyval
  ra_wait :: pyval

definition checked_read :: "read_args \<Rightarrow> pydict + string \<times> string \<times> int \<times> int \<times> int" where
  "checked_read A =
     sum_bind (normalize_launch_id (ra_id A)) (\<lambda>i.
     case ra_stream A of
       VStr t \<Rightarrow>
         (if casefold t \<noteq> ''stdout'' \<and> casefold t \<noteq> ''stderr'' then Inl (invalid_argument ''stream must be stdout or stderr'')
          else (case sum_bind (strict_int (ra_cursor A) ''cursor'') (\<lambda>c. sum_bind (strict_int (ra_max A) ''max_bytes'') (\<lambda>n.
                   sum_bind (strict_int (ra_wait A) ''wait_ms'') (\<lambda>w. Inr (c, n, w)))) of
                  Inl e \<Rightarrow> Inl (invalid_argument e)
                | Inr (c, n, w) \<Rightarrow>
                    (if c < 0 \<or> c > 18446744073709551615 then Inl (invalid_argument ''cursor must be between 0 and 18446744073709551615'')
                     else if n < 1 \<or> n > chunk_limit then Inl (invalid_argument ''max_bytes must be between 1 and 1048576'')
                     else if w < 0 \<or> w > wait_limit then Inl (invalid_argument ''wait_ms must be between 0 and 60000'')
                     else Inr (i, casefold t, c, n, w))))
     | _ \<Rightarrow> Inl (invalid_argument ''stream must be stdout or stderr''))"

definition read_launch_stream :: "'s bridge_io \<Rightarrow> nat \<Rightarrow> read_args \<Rightarrow> 's \<Rightarrow> (pyexn + pydict) option \<times> slice_log \<times> 's" where
  "read_launch_stream io fuel A s =
     (case checked_read A of
        Inl d \<Rightarrow> (Some (Inr d), [], s)
      | Inr (i, stream, cursor, n, wait) \<Rightarrow>
          (let (started, s) = bi_clock io s in
           case slice_loop io (read_call i stream cursor n) read_final wait (started + wait * 1000) 1 fuel s of
             (None, log, s) \<Rightarrow> (None, log, s)
           | (Some (Inl e), log, s) \<Rightarrow> (Some (Inl e), log, s)
           | (Some (Inr (env, k)), log, s) \<Rightarrow>
               (let (now, s) = bi_clock io s in
                (Some (Inr (with_client_wait wait (now - started) k
                   (launch_tool_result env ''LAUNCH_STREAM_READ_FAILED'' ''Failed to read launch stream.''))), log, s))))"

subsection \<open>Writing\<close>

definition backpressure :: "bridge_envelope \<Rightarrow> bool" where
  "backpressure env \<longleftrightarrow>
     \<not> env_ok env \<and> casefold (case env_error env of Some e \<Rightarrow> be_code e | None \<Rightarrow> []) = ''stdin_backpressure''"

definition write_call :: "string \<Rightarrow> string \<Rightarrow> bool \<Rightarrow> int \<Rightarrow> bridge_call" where
  "write_call i encoded close w =
     post_call ''Debug/Launch/Stdin/Write'' ''session''
       [(''launchId'', VStr i), (''dataBase64'', VStr encoded), (''waitMs'', VStr (dec w)),
        (''closeAfterWrite'', VStr (if close then ''true'' else ''false''))]"

record write_args =
  wa_id :: pyval
  wa_data :: pyval
  wa_wait :: pyval
  wa_close :: pyval

definition checked_write :: "write_args \<Rightarrow> pydict + string \<times> string \<times> int \<times> bool" where
  "checked_write A =
     sum_bind (normalize_launch_id (wa_id A)) (\<lambda>i.
     case decode_canonical_base64 (wa_data A) ''data_base64'' of
       Inl t \<Rightarrow> Inl (invalid_argument t)
     | Inr d \<Rightarrow>
         (if d = [] then Inl (invalid_argument ''data_base64 must decode to at least one byte'')
          else if int (length d) > chunk_limit then Inl (invalid_argument ''data_base64 exceeds the 1048576-byte decoded limit'')
          else (case strict_int (wa_wait A) ''wait_ms'' of
                  Inl t \<Rightarrow> Inl (invalid_argument t)
                | Inr w \<Rightarrow>
                    (if w < 0 \<or> w > wait_limit then Inl (invalid_argument ''wait_ms must be between 0 and 60000'')
                     else (case wa_close A of
                             VBool b \<Rightarrow> Inr (i, d, w, b)
                           | _ \<Rightarrow> Inl (invalid_argument ''close_after_write must be a boolean''))))))"

text \<open>\<open>isinstance(accepted, int)\<close> holds of the booleans too.\<close>

definition accepted_bytes :: "bridge_envelope \<Rightarrow> int option" where
  "accepted_bytes env =
     (case dict_get (as_dict (env_data env)) ''acceptedBytes'' of VInt n \<Rightarrow> Some n | VBool b \<Rightarrow> Some (if b then 1 else 0) | _ \<Rightarrow> None)"

definition partial_answer :: "pyval \<Rightarrow> nat \<Rightarrow> int \<Rightarrow> nat \<Rightarrow> pydict" where
  "partial_answer accepted n wait k =
     [(''ok'', VBool False), (''errorCode'', VStr ''LAUNCH_STDIN_PARTIAL_ACCEPT''),
      (''error'', VStr ''The bridge accepted a partial stdin chunk; refusing to retry it.''), (''acceptedBytes'', accepted),
      (''requestedBytes'', VInt (int n)), (''clientWaitMs'', VInt wait), (''clientWaitSlices'', VInt (int k))]"

definition write_launch_stdin :: "'s bridge_io \<Rightarrow> nat \<Rightarrow> write_args \<Rightarrow> 's \<Rightarrow> (pyexn + pydict) option \<times> slice_log \<times> 's" where
  "write_launch_stdin io fuel A s =
     (case checked_write A of
        Inl d \<Rightarrow> (Some (Inr d), [], s)
      | Inr (i, d, wait, close) \<Rightarrow>
          (let (started, s) = bi_clock io s in
           case slice_loop io (write_call i (b64_encode d) close) (\<lambda>env. \<not> backpressure env) wait (started + wait * 1000) 1 fuel s of
             (None, log, s) \<Rightarrow> (None, log, s)
           | (Some (Inl e), log, s) \<Rightarrow> (Some (Inl e), log, s)
           | (Some (Inr (env, k)), log, s) \<Rightarrow>
               (if env_ok env \<and> accepted_bytes env \<noteq> None \<and> accepted_bytes env \<noteq> Some (int (length d))
                then (Some (Inr (partial_answer (dict_get (as_dict (env_data env)) ''acceptedBytes'') (length d) wait k)), log, s)
                else (let (now, s) = bi_clock io s in
                      (Some (Inr (with_client_wait wait (now - started) k
                         (launch_tool_result env ''LAUNCH_STDIN_WRITE_FAILED'' ''Failed to write launch stdin.''))), log, s)))))"

subsection \<open>A bridge that keeps its promise\<close>

text \<open>The bridge answers with nothing new only after it has waited the slice out, and no operation takes the
  clock back.\<close>

definition patient :: "'s bridge_io \<Rightarrow> ('s \<Rightarrow> int) \<Rightarrow> (int \<Rightarrow> bridge_call) \<Rightarrow> (bridge_envelope \<Rightarrow> bool) \<Rightarrow> bool" where
  "patient io now call final \<longleftrightarrow>
     (\<forall>s t s'. bi_clock io s = (t, s') \<longrightarrow> now s \<le> t \<and> t \<le> now s')
     \<and> (\<forall>s w env s'. w \<le> slice_limit \<longrightarrow> bi_request io (call w) s = (Inr env, s') \<longrightarrow> now s \<le> now s' \<and> (final env \<or> now s + w * 1000 \<le> now s'))"

end
