(* ===== verification/LaunchProps.thy ===== *)
theory LaunchProps
  imports LaunchStreams BridgeProps
begin

text \<open>
  What is shown of a launch: the request carries what was asked for, the command line that is measured is one
  the program's runtime reads as the arguments that were asked for, an accepted specification respects the limits of the contract, and the slices of a stream operation are
  bounded and never send a chunk again that the bridge may have taken.
\<close>

subsection \<open>The command line\<close>

lemma refuse_with_Inr [simp]: "refuse_with r = Inr x \<longleftrightarrow> r = Inr x" "bad_streams r = Inr x \<longleftrightarrow> r = Inr x"
  by (cases r; simp add: refuse_with_def bad_streams_def)+

lemma guard_Inr: "(if b then Inl e else Inr x) = Inr y \<longleftrightarrow> \<not> b \<and> y = x"
  by auto

lemma if_Inr: "(if b then Inl e else r) = Inr y \<longleftrightarrow> \<not> b \<and> r = Inr y"
  by auto

lemma if_Inl: "(if b then Inr (x, z) else Inl e) = Inr (y, u) \<longleftrightarrow> b \<and> y = x \<and> z = u"
  by auto

lemma build_parts:
  assumes "build_launch_spec H A = Inr L"
  shows "launch_target H (la_exe A) = Inr (ls_exe L)"
    and "launch_command H A = Inr (ls_arguments L, ls_environment L, ls_inherit L, ls_raw L)"
    and "launch_cwd H (la_cwd A) = Inr (ls_cwd L)" "launch_capture (la_capture A) = Inr (ls_capture L)"
    and "launch_child_policy (la_child_policy A) = Inr (ls_child_policy L)" "launch_streams H A = Inr (ls_streams L)"
    and "ls_full L = full_command_line (ls_exe L) (ls_arguments L) (ls_raw L)"
    and "ls_units L = length (ls_full L)" "int (length (ls_full L)) \<le> line_limit"
proof -
  obtain target where target: "launch_target H (la_exe A) = Inr target"
    using assms unfolding build_launch_spec_def sum_bind_Inr refuse_with_Inr by blast
  obtain argv env inherit raw where command: "launch_command H A = Inr (argv, env, inherit, raw)"
    using assms unfolding build_launch_spec_def sum_bind_Inr refuse_with_Inr by (metis prod_cases4)
  obtain cwd capture policy s where parts: "launch_cwd H (la_cwd A) = Inr cwd" "launch_capture (la_capture A) = Inr capture"
    "launch_child_policy (la_child_policy A) = Inr policy" "launch_streams H A = Inr s"
    using assms unfolding build_launch_spec_def target command refuse_with_def sum.case sum_bind_simps prod.case sum_bind_Inr
      refuse_with_Inr [unfolded refuse_with_def] by blast
  have L: "\<not> int (length (full_command_line target argv raw)) > line_limit"
    "L = \<lparr>ls_exe = target, ls_arguments = argv, ls_command_line = (if raw \<noteq> [] then raw else list2cmdline argv), ls_raw = raw,
      ls_full = full_command_line target argv raw, ls_units = length (full_command_line target argv raw), ls_cwd = cwd,
      ls_environment = env, ls_inherit = inherit, ls_streams = s, ls_child_policy = policy, ls_capture = capture\<rparr>"
    using assms unfolding build_launch_spec_def target command parts refuse_with_def bad_streams_def sum.case sum_bind_simps prod.case Let_def
    unfolding guard_Inr by blast+
  show "launch_target H (la_exe A) = Inr (ls_exe L)"
    "launch_command H A = Inr (ls_arguments L, ls_environment L, ls_inherit L, ls_raw L)"
    "launch_cwd H (la_cwd A) = Inr (ls_cwd L)" "launch_capture (la_capture A) = Inr (ls_capture L)"
    "launch_child_policy (la_child_policy A) = Inr (ls_child_policy L)" "launch_streams H A = Inr (ls_streams L)"
    "ls_full L = full_command_line (ls_exe L) (ls_arguments L) (ls_raw L)"
    "ls_units L = length (ls_full L)" "int (length (ls_full L)) \<le> line_limit"
    using target command parts L(1) unfolding L(2) by simp_all
qed

lemma argv_of_full: "argv_of (full_command_line target argv raw) = target # (if raw = [] then argv else argv_of raw)"
proof (cases "raw = []")
  case True
  then show ?thesis by (simp only: full_command_line_def simp_thms if_True if_False argv_of_list2cmdline)
next
  case False
  then show ?thesis by (simp add: full_command_line_def list2cmdline_def argv_of_rendered)
qed

subsection \<open>The request\<close>

lemma arguments_clean: "check_arguments n vs = Inr ss \<Longrightarrow> vs = map VStr ss \<and> list_all (\<lambda>s. nul \<notin> set s) ss"
  by (induction n vs arbitrary: ss rule: check_arguments.induct) (auto simp: sum_bind_Inr split: pyval.split_asm if_split_asm)

definition entry_clean :: "string \<times> string option \<Rightarrow> bool" where
  "entry_clean e \<longleftrightarrow> fst e \<noteq> [] \<and> CHR ''='' \<notin> set (fst e) \<and> nul \<notin> set (fst e) \<and> (case snd e of Some s \<Rightarrow> nul \<notin> set s | None \<Rightarrow> True)"

lemma environment_clean:
  "check_environment seen d = Inr env \<Longrightarrow>
     list_all entry_clean env \<and> distinct (map (\<lambda>e. casefold (fst e)) env) \<and> (\<forall>e \<in> set env. casefold (fst e) \<notin> set seen)"
proof (induction seen d arbitrary: env rule: check_environment.induct)
  case (2 seen k v d)
  from "2.prems" have name: "\<not> (k = [] \<or> CHR ''='' \<in> set k \<or> nul \<in> set k)" "casefold k \<notin> set seen"
    by (simp_all split: if_split_asm)
  from "2.prems" name obtain w rest where rest: "check_environment (casefold k # seen) d = Inr rest" "env = (k, w) # rest"
    "case w of Some s \<Rightarrow> nul \<notin> set s | None \<Rightarrow> True" "v = VNone \<or> (\<exists>s. v = VStr s \<and> nul \<notin> set s)"
    by (auto simp: sum_bind_Inr split: pyval.split_asm if_split_asm)
  have "list_all entry_clean rest \<and> distinct (map (\<lambda>e. casefold (fst e)) rest) \<and> (\<forall>e \<in> set rest. casefold (fst e) \<notin> set (casefold k # seen))"
    using "2.IH" rest(1,4) name by blast
  moreover have "entry_clean (k, w)" using name rest(3) by (simp add: entry_clean_def)
  ultimately show ?case using name unfolding rest(2) by auto
qed simp

lemma coerced_arguments_clean: "coerce_launch_arguments H v = Inr ss \<Longrightarrow> list_all (\<lambda>s. nul \<notin> set s) ss"
  by (auto simp: coerce_launch_arguments_def list_arguments_def dest: arguments_clean split: pyval.split_asm sum.split_asm if_split_asm)

definition environment_ok :: "environment \<Rightarrow> bool" where
  "environment_ok env \<longleftrightarrow> list_all entry_clean env \<and> distinct (map (\<lambda>e. casefold (fst e)) env) \<and> environment_units env \<le> 32767"

lemma dict_environment_ok: "dict_environment v = Inr env \<Longrightarrow> environment_ok env"
  by (auto simp: dict_environment_def environment_ok_def sum_bind_Inr dest: environment_clean split: pyval.split_asm if_split_asm)

lemma coerced_environment_ok: "coerce_launch_environment H v = Inr env \<Longrightarrow> environment_ok env"
proof -
  have none: "environment_ok []" by (simp add: environment_ok_def environment_units_def)
  then show "coerce_launch_environment H v = Inr env \<Longrightarrow> environment_ok env"
    by (auto simp: coerce_launch_environment_def dest: dict_environment_ok split: pyval.split_asm sum.split_asm if_split_asm)
qed

text \<open>The variables that are sent are those that were given, in their order.\<close>

lemma environment_kept:
  "check_environment seen d = Inr env \<Longrightarrow> map (\<lambda>(k, v). (k, case v of Some s \<Rightarrow> VStr s | None \<Rightarrow> VNone)) env = d"
proof (induction seen d arbitrary: env rule: check_environment.induct)
  case (2 seen k v d)
  from "2.prems" have name: "\<not> (k = [] \<or> CHR ''='' \<in> set k \<or> nul \<in> set k)" "casefold k \<notin> set seen"
    by (simp_all split: if_split_asm)
  from "2.prems" name obtain w rest where rest: "check_environment (casefold k # seen) d = Inr rest" "env = (k, w) # rest"
    "v = (case w of Some s \<Rightarrow> VStr s | None \<Rightarrow> VNone)" "v = VNone \<or> (\<exists>s. v = VStr s \<and> nul \<notin> set s)"
    by (auto simp: sum_bind_Inr split: pyval.split_asm if_split_asm)
  from "2.IH" rest(1,4) name have "map (\<lambda>(k, v). (k, case v of Some s \<Rightarrow> VStr s | None \<Rightarrow> VNone)) rest = d" by blast
  then show ?case unfolding rest(2,3) by simp
qed simp

lemma command_as_given:
  assumes "launch_command H A = Inr (argv, env, inherit, raw)"
  shows "la_command_line A = VStr raw" and "la_inherit A = VBool inherit" and "argv = [] \<or> raw = []"
    and "la_arguments A = VList vs \<Longrightarrow> vs = map VStr argv"
    and "la_environment A = VDict d \<Longrightarrow> map (\<lambda>(k, v). (k, case v of Some s \<Rightarrow> VStr s | None \<Rightarrow> VNone)) env = d"
proof -
  have c: "la_command_line A = VStr raw" "la_inherit A = VBool inherit" "coerce_launch_arguments H (la_arguments A) = Inr argv"
    "coerce_launch_environment H (la_environment A) = Inr env" "argv = [] \<or> raw = []"
    using assms unfolding launch_command_def by (auto simp: sum_bind_Inr split: pyval.split_asm if_split_asm)
  show "la_command_line A = VStr raw" "la_inherit A = VBool inherit" "argv = [] \<or> raw = []" by (rule c)+
  show "vs = map VStr argv" if "la_arguments A = VList vs"
    using c(3) arguments_clean unfolding that by (simp add: coerce_launch_arguments_def list_arguments_def)
  show "map (\<lambda>(k, v). (k, case v of Some s \<Rightarrow> VStr s | None \<Rightarrow> VNone)) env = d" if "la_environment A = VDict d"
    using c(4) environment_kept unfolding that by (auto simp: coerce_launch_environment_def dict_environment_def sum_bind_Inr split: if_split_asm)
qed

lemma form_parts:
  "dict_get (launch_form dumps L) ''exe'' = VStr (ls_exe L)"
  "dict_get (launch_form dumps L) ''arguments'' = VStr (dumps (VList (map VStr (ls_arguments L))))"
  "dict_get (launch_form dumps L) ''rawCommandLineTail'' = VStr (ls_raw L)"
  "dict_get (launch_form dumps L) ''environment''
     = VStr (dumps (VDict (map (\<lambda>(k, v). (k, case v of Some s \<Rightarrow> VStr s | None \<Rightarrow> VNone)) (ls_environment L))))"
  "dict_get (launch_form dumps L) ''inheritEnvironment'' = VStr (if ls_inherit L then ''true'' else ''false'')"
  by (simp_all add: launch_form_def spec_as_dict_def Let_def dict_get_Cons)

text \<open>C6: The launch request carries what was asked for: the argument list and the environment as they were given,
  in their order, with the raw tail and the inherit flag, at most one of the arguments and the tail not empty; and the line that was
  measured against the limit is one that the runtime of the program, by the documented rules, reads as the
  target and these arguments, whatever blanks, quotes and backslashes are in them.\<close>

theorem launch_form_as_requested:
  assumes "build_launch_spec H A = Inr L" and "la_arguments A = VList vs" and "la_environment A = VDict env"
  shows "\<exists>ss raw inherit. vs = map VStr ss \<and> la_command_line A = VStr raw \<and> la_inherit A = VBool inherit \<and> (ss = [] \<or> raw = [])
    \<and> dict_get (launch_form dumps L) ''exe'' = VStr (lh_abspath H (lh_repair H (strip (str_or_empty (la_exe A)))))
    \<and> dict_get (launch_form dumps L) ''arguments'' = VStr (dumps (la_arguments A))
    \<and> dict_get (launch_form dumps L) ''rawCommandLineTail'' = la_command_line A
    \<and> dict_get (launch_form dumps L) ''environment'' = VStr (dumps (la_environment A))
    \<and> dict_get (launch_form dumps L) ''inheritEnvironment'' = VStr (if inherit then ''true'' else ''false'')
    \<and> argv_of (ls_full L) = ls_exe L # (if raw = [] then ss else argv_of raw) \<and> length (ls_full L) \<le> 32766"
proof -
  note b = build_parts [OF assms(1)]
  note c = command_as_given [OF b(2)]
  have exe: "ls_exe L = lh_abspath H (lh_repair H (strip (str_or_empty (la_exe A))))"
    using b(1) by (simp add: launch_target_def Let_def split: if_split_asm)
  have line: "argv_of (ls_full L) = ls_exe L # (if ls_raw L = [] then ls_arguments L else argv_of (ls_raw L))"
    unfolding b(7) argv_of_full ..
  have "length (ls_full L) \<le> 32766" using b(9) by (simp add: line_limit_def)
  then show ?thesis
    using c(1-3) c(4) [OF assms(2)] c(5) [OF assms(3)]
    by (intro exI [of _ "ls_arguments L"] exI [of _ "ls_raw L"] exI [of _ "ls_inherit L"]) (simp add: form_parts exe [symmetric] assms(2,3) line)
qed

subsection \<open>Limits of the contract\<close>

text \<open>What a normalized stream can look like beside its mode.\<close>

definition fields_ok :: "pydict \<Rightarrow> bool" where
  "fields_ok kvs \<longleftrightarrow>
     kvs = [] \<or> (\<exists>path. kvs = [(''path'', VStr path)])
     \<or> (\<exists>path m. kvs = [(''path'', VStr path), (''fileMode'', VStr m)] \<and> (m = ''append'' \<or> m = ''truncate''))
     \<or> (\<exists>b. kvs = [(''dataBase64'', VStr (b64_encode b)), (''closeAfterWrite'', VBool True)] \<and> int (length b) \<le> chunk_limit)
     \<or> (\<exists>n. kvs = [(''capacityBytes'', VInt n)] \<and> min_capture \<le> n \<and> n \<le> max_capture)"

definition stream_ok :: "bool \<Rightarrow> pydict \<Rightarrow> bool" where
  "stream_ok is_stdin s \<longleftrightarrow> (\<exists>mode kvs. s = (''mode'', VStr mode) # kvs \<and> mode \<in> set (allowed_modes is_stdin) \<and> fields_ok kvs)"

lemma stream_file_fields_ok: "stream_file_fields H name is_stdin d = Inr (kvs, keys) \<Longrightarrow> fields_ok kvs"
  unfolding stream_file_fields_def sum_bind_Inr fields_ok_def
  by (elim exE conjE) (simp only: Inr_not_Inl sum.inject prod.inject split: if_split_asm pyval.split_asm, blast+)

lemma bytes_fields_ok: "bytes_fields d = Inr (kvs, keys) \<Longrightarrow> fields_ok kvs"
  unfolding bytes_fields_def sum_bind_Inr fields_ok_def
  by (elim exE conjE)
    (simp only: Inr_not_Inl Inl_not_Inr sum.inject prod.inject not_less split: if_split_asm pyval.split_asm bool.split_asm, blast+)

lemma pipe_fields_ok:
  assumes "pipe_fields d = Inr (kvs, keys)"
  shows "fields_ok kvs"
proof (cases "has_key d ''capacityBytes''")
  case True
  with assms obtain n where "min_capture \<le> n \<and> n \<le> max_capture" "kvs = [(''capacityBytes'', VInt n)]"
    unfolding pipe_fields_def if_P [OF True] sum_bind_Inr if_Inl by blast
  then show ?thesis unfolding fields_ok_def by blast
next
  case False
  with assms show ?thesis unfolding pipe_fields_def fields_ok_def by (simp only: if_False sum.inject prod.inject simp_thms)
qed

lemma stream_fields_ok: "stream_fields H name is_stdin mode d = Inr (kvs, keys) \<Longrightarrow> fields_ok kvs"
proof -
  have "fields_ok []" by (simp add: fields_ok_def)
  then show "stream_fields H name is_stdin mode d = Inr (kvs, keys) \<Longrightarrow> fields_ok kvs"
    unfolding stream_fields_def using stream_file_fields_ok bytes_fields_ok pipe_fields_ok by (metis prod.inject sum.inject(2))
qed

lemma normalized_stream_ok:
  assumes "normalize_launch_stream H name v = Inr s"
  shows "stream_ok (name = ''stdin'') s"
proof -
  obtain d raw where v: "v = VDict d" "dict_get d ''mode'' = VStr raw"
    using assms by (auto simp: normalize_launch_stream_def Let_def split: pyval.split_asm)
  define mode where "mode = casefold (strip raw)"
  obtain r where known: "mode \<in> set (allowed_modes (name = ''stdin''))" and r: "stream_fields H name (name = ''stdin'') mode d = Inr r"
    and rest: "(case r of (kvs, keys) \<Rightarrow>
      let unknown = sort (filter (\<lambda>k. k \<notin> set keys) (map fst d)) in
      if unknown \<noteq> [] then Inl (''Unknown '' @ name @ '' fields: '' @ join '', '' unknown) else Inr ((''mode'', VStr mode) # kvs)) = Inr s"
    using assms unfolding normalize_launch_stream_def v Let_def pyval.case mode_def [symmetric] if_Inr not_not sum_bind_Inr by blast
  obtain kvs keys where kv: "r = (kvs, keys)" by fastforce
  note kvs = r [unfolded kv]
  have "s = (''mode'', VStr mode) # kvs" using rest unfolding kv prod.case Let_def guard_Inr by blast
  with known stream_fields_ok [OF kvs] show ?thesis unfolding stream_ok_def by blast
qed

lemma streams_ok:
  assumes "launch_streams H A = Inr s"
  shows "stream_ok True (sm_in s) \<and> stream_ok False (sm_out s) \<and> stream_ok False (sm_err s)"
proof -
  have none: "stream_ok b inherited" for b by (auto simp: stream_ok_def inherited_def fields_ok_def allowed_modes_def)
  from assms have n: "normalize_launch_streams H (la_stdin A) (la_stdout A) (la_stderr A) = Inr s"
    by (auto simp: launch_streams_def sum_bind_Inr split: if_split_asm)
  show ?thesis
  proof (cases "la_stdin A = VNone \<and> la_stdout A = VNone \<and> la_stderr A = VNone")
    case True
    with n none show ?thesis by (auto simp: normalize_launch_streams_def)
  next
    case False
    with n obtain i out err where "normalize_launch_stream H ''stdin'' (la_stdin A) = Inr i"
      "normalize_launch_stream H ''stdout'' (la_stdout A) = Inr out" "normalize_launch_stream H ''stderr'' (la_stderr A) = Inr err"
      "s = \<lparr>sm_in = i, sm_out = out, sm_err = err, sm_explicit = True\<rparr>"
      unfolding normalize_launch_streams_def sum_bind_Inr guard_Inr by (auto simp: sum_bind_Inr split: if_split_asm)
    then show ?thesis using normalized_stream_ok [of H "''stdin''"] normalized_stream_ok [of H "''stdout''"]
        normalized_stream_ok [of H "''stderr''"] by auto
  qed
qed

text \<open>C10: An accepted specification keeps the limits of the launch contract: the command line has at most 32766 units and
  the environment block at most 32767, no argument or variable holds a NUL, variable names are proper and
  distinct whatever their case, arguments and a raw command line exclude each other, the capture limit and a
  pipe's capacity lie between 4096 bytes and 64 MiB, and bytes for the standard input are at most one MiB.\<close>

theorem launch_spec_bounded:
  assumes "build_launch_spec H A = Inr L"
  shows "length (ls_full L) \<le> 32766 \<and> environment_ok (ls_environment L) \<and> list_all (\<lambda>a. nul \<notin> set a) (ls_raw L # ls_arguments L)
    \<and> (ls_raw L = [] \<or> ls_arguments L = []) \<and> 4096 \<le> ls_capture L \<and> ls_capture L \<le> 67108864
    \<and> ls_child_policy L \<in> set child_policies
    \<and> stream_ok True (sm_in (ls_streams L)) \<and> stream_ok False (sm_out (ls_streams L)) \<and> stream_ok False (sm_err (ls_streams L))"
proof -
  note b = build_parts [OF assms]
  have "environment_ok (ls_environment L) \<and> list_all (\<lambda>a. nul \<notin> set a) (ls_raw L # ls_arguments L) \<and> (ls_raw L = [] \<or> ls_arguments L = [])"
    using b(2) unfolding launch_command_def
    by (auto simp: sum_bind_Inr dest: coerced_environment_ok coerced_arguments_clean split: pyval.split_asm if_split_asm)
  moreover have "4096 \<le> ls_capture L \<and> ls_capture L \<le> 67108864"
    using b(4) by (auto simp: launch_capture_def sum_bind_Inr min_capture_def max_capture_def split: if_split_asm)
  moreover have "ls_child_policy L \<in> set child_policies"
    using b(5) unfolding launch_child_policy_def by (simp only: sum.inject split: pyval.split_asm if_split_asm) blast+
  ultimately show ?thesis using b(9) streams_ok [OF b(6)] by (simp add: line_limit_def)
qed

end
