(* ===== verification/LaunchSlices.thy ===== *)
theory LaunchSlices
  imports LaunchProps
begin

text \<open>
  The slices of the stream operations: what their log tells, how many there are when the bridge waits as it
  promises, and what the modelled bridge sends for them.
\<close>

subsection \<open>The loop\<close>

lemma slice_loop_log:
  assumes "slice_loop io call final wait deadline k fuel s = (r, log, s')"
  shows "length log \<le> fuel \<and> list_all (\<lambda>e. \<not> final (snd e)) (butlast log)
    \<and> (\<forall>env n. r = Some (Inr (env, n)) \<longrightarrow> log \<noteq> [] \<and> snd (last log) = env)"
  using assms
proof (induction fuel arbitrary: k s r log s')
  case (Suc fuel)
  obtain w s1 where w: "slice_wait io wait deadline k s = (w, s1)" by fastforce
  obtain q s2 where q: "bi_request io (call w) s1 = (q, s2)" by fastforce
  show ?case
  proof (cases q)
    case (Inl e)
    with Suc.prems show ?thesis by (auto simp: w q)
  next
    case env: (Inr env)
    obtain now s3 where clock: "bi_clock io s2 = (now, s3)" by fastforce
    obtain r1 log1 s4 where rest: "slice_loop io call final wait deadline (Suc k) fuel s3 = (r1, log1, s4)" by (metis prod_cases3)
    show ?thesis
    proof (cases "final env \<or> wait = 0 \<or> deadline \<le> now \<or> w \<le> 0")
      case True
      with Suc.prems env have "log = [(w, env)] \<and> r = Some (Inr (env, k))"
        by (simp add: w q clock rest split: if_split_asm)
      then show ?thesis by simp
    next
      case False
      with Suc.prems env have "log = (w, env) # log1" "r = r1" by (simp_all add: w q clock rest)
      with Suc.IH [OF rest] False show ?thesis by (cases log1) auto
    qed
  qed
qed simp

subsection \<open>A bridge that waits as it promises\<close>

lemma millis_left_enough: "deadline - now \<le> millis_left deadline now * 1000"
proof -
  have "(now - deadline) div 1000 * 1000 + (now - deadline) mod 1000 = now - deadline" by (rule div_mult_mod_eq)
  moreover have "0 \<le> (now - deadline) mod 1000" by simp
  ultimately have "deadline - now \<le> - ((now - deadline) div 1000) * 1000" by linarith
  then show ?thesis by (simp add: millis_left_def max_def)
qed

lemma patient_steps:
  assumes "patient io now call final"
  shows "bi_clock io s = (t, s') \<Longrightarrow> now s \<le> t \<and> t \<le> now s'"
    and "w \<le> slice_limit \<Longrightarrow> bi_request io (call w) s = (Inr env, s') \<Longrightarrow> now s \<le> now s' \<and> (final env \<or> now s + w * 1000 \<le> now s')"
  using assms unfolding patient_def by blast+

lemma slice_wait_step:
  assumes "patient io now call final" "slice_wait io wait deadline k s = (w, s1)" "0 \<le> wait"
    "k = 1 \<longrightarrow> deadline \<le> now s + wait * 1000" "wait \<noteq> 0"
  shows "w = 750 \<or> deadline \<le> now s1 + w * 1000" "now s \<le> now s1" "w \<le> slice_limit"
proof -
  obtain t s2 where t: "bi_clock io s = (t, s2)" by fastforce
  note clock = patient_steps(1) [OF assms(1) t]
  show "w \<le> slice_limit" using assms(2) by (auto simp: slice_wait_def t slice_limit_def split: if_split_asm)
  show "now s \<le> now s1" using assms(2) clock by (auto simp: slice_wait_def t split: if_split_asm)
  show "w = 750 \<or> deadline \<le> now s1 + w * 1000"
  proof (cases "k = 1")
    case True
    with assms(2,5) have "w = min 750 wait" "s1 = s" by (simp_all add: slice_wait_def slice_limit_def)
    with assms(4) True show ?thesis by (simp add: min_def)
  next
    case False
    with assms(2,5) have "w = min 750 (millis_left deadline t)" "s1 = s2" by (simp_all add: slice_wait_def slice_limit_def t)
    with clock millis_left_enough [of deadline t] show ?thesis by (simp add: min_def)
  qed
qed

lemma slice_loop_ends:
  assumes "patient io now call final" and "0 \<le> wait"
  shows "0 < fuel \<Longrightarrow> deadline - now s \<le> int fuel * 750000 \<Longrightarrow> (k = 1 \<longrightarrow> deadline \<le> now s + wait * 1000) \<Longrightarrow> 0 < k
    \<Longrightarrow> fst (slice_loop io call final wait deadline k fuel s) \<noteq> None"
proof (induction fuel arbitrary: k s)
  case (Suc fuel)
  obtain w s1 where w: "slice_wait io wait deadline k s = (w, s1)" by fastforce
  obtain q s2 where q: "bi_request io (call w) s1 = (q, s2)" by fastforce
  show ?case
  proof (cases q)
    case (Inl e)
    then show ?thesis by (simp add: w q)
  next
    case env: (Inr env)
    obtain t s3 where clock: "bi_clock io s2 = (t, s3)" by fastforce
    show ?thesis
    proof (cases "final env \<or> wait = 0 \<or> deadline \<le> t \<or> w \<le> 0")
      case True
      with env show ?thesis by (auto simp: w q clock split: prod.split)
    next
      case False
      from False have "wait \<noteq> 0" by simp
      note step = slice_wait_step [OF assms(1) w assms(2) Suc.prems(3) this]
      have time: "now s1 + w * 1000 \<le> now s2" "now s2 \<le> t" "t \<le> now s3"
        using patient_steps(2) [OF assms(1) step(3) q [unfolded env]] patient_steps(1) [OF assms(1) clock] False by simp_all
      have "w = 750" using step(1) time False by auto
      then have "deadline - t \<le> int fuel * 750000" using Suc.prems(2) step(2) time by (simp add: algebra_simps)
      then have left: "deadline - now s3 \<le> int fuel * 750000" and "0 < fuel" using time False by (auto intro: gr0I)
      have "Suc k = 1 \<longrightarrow> deadline \<le> now s3 + wait * 1000" using Suc.prems(4) by simp
      from Suc.IH [OF \<open>0 < fuel\<close> left this] env False show ?thesis
        by (auto simp: w q clock split: prod.split)
    qed
  qed
qed simp

lemma checked_read_wait:
  assumes "checked_read A = Inr (i, stream, cursor, n, wait)"
  shows "0 \<le> wait \<and> wait \<le> 60000"
  using assms unfolding checked_read_def
  by (cases "normalize_launch_id (ra_id A)"; cases "ra_stream A"; cases "strict_int (ra_cursor A) ''cursor''";
      cases "strict_int (ra_max A) ''max_bytes''"; cases "strict_int (ra_wait A) ''wait_ms''")
    (simp_all add: wait_limit_def split: if_split_asm)

lemma checked_write_parts:
  assumes "checked_write A = Inr (i, d, wait, close)"
  shows "0 \<le> wait \<and> wait \<le> 60000 \<and> wa_data A = VStr (b64_encode d) \<and> d \<noteq> [] \<and> int (length d) \<le> chunk_limit"
proof -
  have data: "decode_canonical_base64 v t = Inr d \<Longrightarrow> v = VStr (b64_encode d)" for v t d
    by (cases v) (auto simp: decode_canonical_base64_def canonical_base64_iff split: option.split_asm)
  show ?thesis
    using assms unfolding checked_write_def
    by (cases "normalize_launch_id (wa_id A)"; cases "decode_canonical_base64 (wa_data A) ''data_base64''";
        cases "strict_int (wa_wait A) ''wait_ms''"; cases "wa_close A")
      (simp_all add: wait_limit_def data split: if_split_asm)
qed

text \<open>A bridge on which both stream operations can rely.\<close>

definition patient_bridge :: "'s bridge_io \<Rightarrow> ('s \<Rightarrow> int) \<Rightarrow> bool" where
  "patient_bridge io now \<longleftrightarrow>
     (\<forall>i stream cursor n. patient io now (read_call i stream cursor n) read_final)
     \<and> (\<forall>i e close. patient io now (write_call i e close) (\<lambda>env. \<not> backpressure env))"

lemma loop_from_clock:
  assumes "patient io now call final" "0 \<le> wait" "wait \<le> 60000" "bi_clock io s = (t, s1)"
  shows "fst (slice_loop io call final wait (t + wait * 1000) 1 80 s1) \<noteq> None"
  using patient_steps(1) [OF assms(1,4)] assms(2,3) by (intro slice_loop_ends [OF assms(1,2)]) simp_all

text \<open>C9: A stream operation ends: when the bridge has waited its slice out before it answers with nothing new, reading
  and writing are over after at most 80 slices, whatever wait up to the limit of a minute is asked for.\<close>

theorem stream_operations_end:
  assumes "patient_bridge io now"
  shows "fst (read_launch_stream io 80 R s) \<noteq> None \<and> fst (write_launch_stdin io 80 W s) \<noteq> None"
proof
  show "fst (read_launch_stream io 80 R s) \<noteq> None"
  proof (cases "checked_read R")
    case (Inr a)
    obtain i stream cursor n wait where a: "a = (i, stream, cursor, n, wait)" by (metis prod_cases5)
    obtain t s1 where t: "bi_clock io s = (t, s1)" by fastforce
    have "patient io now (read_call i stream cursor n) read_final" using assms unfolding patient_bridge_def by blast
    from loop_from_clock [OF this _ _ t] checked_read_wait [OF Inr [unfolded a]]
    have "fst (slice_loop io (read_call i stream cursor n) read_final wait (t + wait * 1000) 1 80 s1) \<noteq> None" by blast
    then show ?thesis
      by (auto simp: read_launch_stream_def Inr a t simp del: slice_loop.simps split: prod.split option.split sum.split)
  qed (simp add: read_launch_stream_def)
  show "fst (write_launch_stdin io 80 W s) \<noteq> None"
  proof (cases "checked_write W")
    case (Inr a)
    obtain i d wait close where a: "a = (i, d, wait, close)" by (metis prod_cases4)
    obtain t s1 where t: "bi_clock io s = (t, s1)" by fastforce
    have "patient io now (write_call i (b64_encode d) close) (\<lambda>env. \<not> backpressure env)" using assms unfolding patient_bridge_def by blast
    from loop_from_clock [OF this _ _ t] checked_write_parts [OF Inr [unfolded a]]
    have "fst (slice_loop io (write_call i (b64_encode d) close) (\<lambda>env. \<not> backpressure env) wait (t + wait * 1000) 1 80 s1) \<noteq> None" by blast
    then show ?thesis
      by (auto simp: write_launch_stdin_def Inr a t simp del: slice_loop.simps split: prod.split option.split sum.split)
  qed (simp add: write_launch_stdin_def)
qed

subsection \<open>What the modelled bridge sends\<close>

lemma renamed_call [simp]: "call_method (c\<lparr>bc_id := x\<rparr>) = call_method c" "call_endpoint (c\<lparr>bc_id := x\<rparr>) = call_endpoint c"
  "call_body (c\<lparr>bc_id := x\<rparr>) = call_body c" "attempts_after_first (c\<lparr>bc_id := x\<rparr>) = attempts_after_first c"
  "needs_refresh E T (c\<lparr>bc_id := x\<rparr>) s = needs_refresh E T c s"
  by (simp_all add: call_method_def call_endpoint_def call_body_def attempts_after_first_def needs_refresh_def call_guard_def)

definition request_of :: "bridge_call \<Rightarrow> http_request \<Rightarrow> bool" where
  "request_of c r \<longleftrightarrow> hr_method r = call_method c \<and> hr_endpoint r = call_endpoint c \<and> hr_body r = call_body c"

lemma modelled_request:
  assumes "bi_request (modelled_io E T clock ids) c (st, sent, n) = (r, (st', sent', n'))"
  shows "\<exists>refresh core. sent' = sent @ refresh @ core \<and> (needs_refresh E T c st \<or> refresh = []) \<and> list_all session_read refresh
    \<and> length core \<le> Suc (attempts_after_first c) \<and> list_all (request_of c) core"
proof -
  let ?c = "c\<lparr>bc_id := ids (length sent + 1)\<rparr>"
  have sent: "sent' = snd (snd (bridge_request E T (ids (length sent)) ?c st sent))"
    using assms by (simp add: modelled_io_def split: prod.split_asm)
  obtain refresh core where "sent' = sent @ refresh @ core" "length refresh \<le> (if needs_refresh E T c st then 2 else 0)"
    "list_all session_read refresh" "length core \<le> Suc (attempts_after_first c)" "list_all (request_of c) core"
    using bridge_request_sent [of E T "ids (length sent)" ?c st sent] unfolding sent request_of_def list_all_iff renamed_call by blast
  then show ?thesis by (intro exI [of _ refresh] exI [of _ core]) (simp split: if_split_asm)
qed

lemma post_call_simps [simp]: "call_method (post_call endpoint guard form) = ''POST''" "attempts_after_first (post_call endpoint guard form) = 0"
  "call_endpoint (post_call endpoint guard form) = clean_endpoint endpoint" "call_body (post_call endpoint guard form) = Form_body form"
proof -
  have "upper (strip ''POST'') = ''POST''" by code_simp
  then show m: "call_method (post_call endpoint guard form) = ''POST''" by (simp add: call_method_def post_call_def)
  show "call_body (post_call endpoint guard form) = Form_body form" unfolding call_body_def m by (simp add: post_call_def)
qed (simp_all add: attempts_after_first_def call_endpoint_def post_call_def)

text \<open>A request that carries the chunk, whatever wait it asks for.\<close>

definition chunk_request :: "string \<Rightarrow> string \<Rightarrow> bool \<Rightarrow> http_request \<Rightarrow> bool" where
  "chunk_request i e close q \<longleftrightarrow> (\<exists>w. request_of (write_call i e close w) q)"

definition chunks_only :: "string \<Rightarrow> string \<Rightarrow> bool \<Rightarrow> nat \<Rightarrow> http_request list \<Rightarrow> bool" where
  "chunks_only i e close n new \<longleftrightarrow>
     list_all (\<lambda>q. session_read q \<or> chunk_request i e close q) new \<and> length (filter (\<lambda>q. \<not> session_read q) new) \<le> n"

lemma chunks_append: "chunks_only i e close m xs \<Longrightarrow> chunks_only i e close n ys \<Longrightarrow> chunks_only i e close (m + n) (xs @ ys)"
  by (auto simp: chunks_only_def)

lemma chunk_slice:
  assumes "bi_request (modelled_io E T clock ids) (write_call i e close w) (st, sent, n) = (r, (st', sent', n'))"
  shows "\<exists>new. sent' = sent @ new \<and> chunks_only i e close 1 new"
proof -
  obtain refresh core where new: "sent' = sent @ refresh @ core" "list_all session_read refresh" "length core \<le> 1"
    "list_all (request_of (write_call i e close w)) core"
    using modelled_request [OF assms] by (auto simp: write_call_def)
  have "filter (\<lambda>q. \<not> session_read q) refresh = []" using new(2) by (simp add: filter_empty_conv list_all_iff)
  moreover have "length (filter (\<lambda>q. \<not> session_read q) core) \<le> 1" using new(3) length_filter_le le_trans by blast
  ultimately have "chunks_only i e close 1 (refresh @ core)"
    using new(2,4) by (auto simp: chunks_only_def list_all_iff chunk_request_def)
  with new(1) show ?thesis by blast
qed

lemma modelled_clock: "bi_clock (modelled_io E T clock ids) (st, sent, n) = (clock sent n, (st, sent, Suc n))"
  by (simp add: modelled_io_def)

lemma modelled_slice_wait: "\<exists>w n'. slice_wait (modelled_io E T clock ids) wait deadline k (st, sent, n) = (w, (st, sent, n'))"
  by (simp add: slice_wait_def modelled_clock)

lemma chunk_loop_sent:
  "slice_loop (modelled_io E T clock ids) (write_call i e close) final wait deadline k fuel (st, sent, n) = (r, log, (st', sent', n'))
   \<Longrightarrow> \<exists>new. sent' = sent @ new \<and> chunks_only i e close (length log + (case r of Some (Inl _) \<Rightarrow> 1 | _ \<Rightarrow> 0)) new"
proof (induction fuel arbitrary: k st sent n r log)
  case 0
  then show ?case by (auto simp: chunks_only_def)
next
  case (Suc fuel)
  let ?io = "modelled_io E T clock ids"
  obtain w n1 where w: "slice_wait ?io wait deadline k (st, sent, n) = (w, (st, sent, n1))" using modelled_slice_wait by blast
  obtain q st1 sent1 n2 where q: "bi_request ?io (write_call i e close w) (st, sent, n1) = (q, (st1, sent1, n2))" by (metis prod_cases4)
  obtain new where new: "sent1 = sent @ new" "chunks_only i e close 1 new" using chunk_slice [OF q] by blast
  show ?case
  proof (cases q)
    case (Inl x)
    with Suc.prems new show ?thesis by (auto simp: w q)
  next
    case env: (Inr env)
    obtain r1 log1 st3 sent3 n3 where
      rest: "slice_loop ?io (write_call i e close) final wait deadline (Suc k) fuel (st1, sent1, Suc n2) = (r1, log1, (st3, sent3, n3))"
      by (metis prod_cases5)
    show ?thesis
    proof (cases "final env \<or> wait = 0 \<or> deadline \<le> clock sent1 n2 \<or> w \<le> 0")
      case True
      with Suc.prems env have "sent' = sent1" "log = [(w, env)]" "r = Some (Inr (env, k))"
        by (auto simp: w q modelled_clock rest split: if_split_asm)
      with new show ?thesis by simp
    next
      case False
      with Suc.prems env have r: "sent' = sent3" "log = (w, env) # log1" "r = r1" "st' = st3" "n' = n3"
        by (simp_all add: w q modelled_clock rest)
      from Suc.IH [OF rest [folded r(1,4,5)]] obtain more where "sent' = sent1 @ more"
        "chunks_only i e close (length log1 + (case r1 of Some (Inl _) \<Rightarrow> 1 | _ \<Rightarrow> 0)) more" by blast
      with new r chunks_append [OF new(2)] show ?thesis by fastforce
    qed
  qed
qed









end
