(* ===== verification/LaunchBench.thy ===== *)
theory LaunchBench
  imports LaunchSlices
begin

text \<open>
  The chunk that is written to a launch, and sample runs of the launch tools: a bridge that first pushes back, and a
  host on which everything that is asked for exists.
\<close>

subsection \<open>A chunk is not written twice\<close>

lemma client_wait_ok: "dict_get (with_client_wait wait elapsed k d) ''ok'' = dict_get d ''ok''"
  by (simp add: with_client_wait_def)

lemma successful_result: "truthy (dict_get (launch_tool_result env code message) ''ok'') \<Longrightarrow> env_ok env"
  by (simp add: launch_tool_result_def dict_get_Cons split: if_split_asm)

lemma write_refused: "checked_write A = Inl d \<Longrightarrow> \<not> truthy (dict_get d ''ok'')"
proof -
  have bad: "\<not> truthy (dict_get (invalid_argument t) ''ok'')" for t by (simp add: invalid_argument_def dict_get_Cons)
  have i: "normalize_launch_id v = Inl d \<Longrightarrow> \<not> truthy (dict_get d ''ok'')" for v
    by (cases v) (auto simp: normalize_launch_id_def bad split: if_split_asm)
  show "checked_write A = Inl d \<Longrightarrow> \<not> truthy (dict_get d ''ok'')"
    unfolding checked_write_def using bad i
    by (cases "normalize_launch_id (wa_id A)"; cases "decode_canonical_base64 (wa_data A) ''data_base64''";
        cases "strict_int (wa_wait A) ''wait_ms''"; cases "wa_close A")
      (auto split: if_split_asm)
qed

text \<open>C7: A chunk for a launch's standard input is sent again only after the bridge has refused it for backpressure, when
  none of it was taken: of all answers at most the last is another one, every slice sends the very same chunk, and
  the tool reports success only when the last answer was accepted and, if it names a number of bytes, that is the whole chunk.\<close>

theorem stdin_chunk_written_once:
  assumes "write_launch_stdin (modelled_io E T clock ids) fuel A (st, sent, n) = (Some (Inr d), log, (st', sent', n'))"
  shows "list_all (\<lambda>e. backpressure (snd e)) (butlast log)
    \<and> (\<exists>i e close new. sent' = sent @ new \<and> chunks_only i e close (length log) new \<and> (new = [] \<or> wa_data A = VStr e))
    \<and> (truthy (dict_get d ''ok'') \<longrightarrow>
        (\<exists>b. wa_data A = VStr (b64_encode b) \<and> log \<noteq> [] \<and> env_ok (snd (last log))
          \<and> accepted_bytes (snd (last log)) \<in> {None, Some (int (length b))}))"
proof (cases "checked_write A")
  case (Inl x)
  with assms have "d = x" "log = []" "sent' = sent" by (simp_all add: write_launch_stdin_def)
  moreover have "chunks_only i e close 0 []" for i e close by (simp add: chunks_only_def)
  ultimately show ?thesis using write_refused [OF Inl] by simp
next
  case (Inr a)
  obtain i b wait close where a: "a = (i, b, wait, close)" by (metis prod_cases4)
  let ?io = "modelled_io E T clock ids" and ?e = "b64_encode b"
  obtain r log1 st1 sent1 n1 where loop: "slice_loop ?io (write_call i ?e close) (\<lambda>env. \<not> backpressure env) wait
      (clock sent n + wait * 1000) 1 fuel (st, sent, Suc n) = (r, log1, (st1, sent1, n1))" by (metis prod_cases5)
  have data: "wa_data A = VStr ?e" using checked_write_parts [OF Inr [unfolded a]] by simp
  note run = assms [unfolded write_launch_stdin_def Inr a sum.case prod.case modelled_clock Let_def loop]
  obtain env k where r: "r = Some (Inr (env, k))" using run by (auto split: option.split_asm sum.split_asm)
  have log: "log = log1" "sent' = sent1" using run by (auto simp: r modelled_clock split: if_split_asm)
  have ok: "env_ok env \<and> accepted_bytes env \<in> {None, Some (int (length b))}" if "truthy (dict_get d ''ok'')"
    using run that by (auto simp: r modelled_clock client_wait_ok partial_answer_def dict_get_Cons dest: successful_result split: if_split_asm)
  note l = slice_loop_log [OF loop]
  obtain new where "sent1 = sent @ new" "chunks_only i ?e close (length log1) new" using chunk_loop_sent [OF loop] by (auto simp: r)
  with l ok data show ?thesis unfolding log r by (auto simp: list_all_iff)
qed

subsection \<open>Sample runs\<close>

definition pushing_net :: transport where
  "pushing_net = \<lparr>tr_net = (\<lambda>sent.
       if length sent \<le> 1 then Reply 409 (Some (VDict [(''ok'', VBool False), (''error'', VDict [(''code'', VStr ''stdin_backpressure'')])])) [] True
       else Reply 200 (Some (VDict [(''ok'', VBool True), (''acceptedBytes'', VInt 3)])) [] True),
     tr_policy = [], tr_exn_text = (\<lambda>_. [])\<rparr>"

definition launched_state :: guard_state where
  "launched_state = \<lparr>gs_bound = VNone, gs_identity = VDict [(''bridgeInstanceId'', VStr ''b''), (''sessionId'', VStr ''s''),
     (''sessionGeneration'', VInt 1), (''debuggeePid'', VInt 7)], gs_lease = [], gs_auth = []\<rparr>"

definition pushing_io :: "(guard_state \<times> http_request list \<times> nat) bridge_io" where
  "pushing_io = modelled_io sample_env pushing_net (\<lambda>sent n. int n * 1000) (\<lambda>n. ''r'')"

definition sample_write :: write_args where
  "sample_write = \<lparr>wa_id = VStr ''l1'', wa_data = VStr ''YWJj'', wa_wait = VInt 1000, wa_close = VBool False\<rparr>"

lemma pushed_back: "(case write_launch_stdin pushing_io 3 sample_write (launched_state, [], 0) of
    (Some (Inr d), log, (st, sent, n)) \<Rightarrow> truthy (dict_get d ''ok'') \<and> length log = 2 \<and> length sent = 2 | _ \<Rightarrow> False)"
  by code_simp

theorem stdin_chunk_written_once_witness:
  "\<exists>d log st sent n. write_launch_stdin pushing_io 3 sample_write (launched_state, [], 0) = (Some (Inr d), log, (st, sent, n))
     \<and> truthy (dict_get d ''ok'') \<and> length sent = 2 \<and> list_all (\<lambda>e. backpressure (snd e)) (butlast log)
     \<and> env_ok (snd (last log))"
proof -
  obtain r log st sent n where run: "write_launch_stdin pushing_io 3 sample_write (launched_state, [], 0) = (r, log, (st, sent, n))"
    by (metis prod_cases5)
  with pushed_back obtain d where r: "r = Some (Inr d)" "truthy (dict_get d ''ok'')" "length sent = 2"
    by (auto split: option.split_asm sum.split_asm)
  from stdin_chunk_written_once [OF run [unfolded r(1) pushing_io_def]] r(2) run r show ?thesis by blast
qed

text \<open>A bridge that waits out every slice and never has anything.\<close>

definition empty_answer :: bridge_envelope where
  "empty_answer = \<lparr>env_ok = True, env_data = VDict [(''dataBase64'', VStr [])], env_error = None, env_meta = []\<rparr>"

definition quiet_io :: "int bridge_io" where
  "quiet_io = \<lparr>bi_request = (\<lambda>c t. (Inr empty_answer, t + 750000)), bi_clock = (\<lambda>t. (t, t + 1))\<rparr>"

definition sample_read :: read_args where
  "sample_read = \<lparr>ra_id = VStr ''l1'', ra_stream = VStr ''stdout'', ra_cursor = VInt 0, ra_max = VInt 64, ra_wait = VInt 2000\<rparr>"

theorem stream_operations_end_witness:
  "fst (read_launch_stream quiet_io 80 sample_read 0) \<noteq> None \<and> fst (write_launch_stdin quiet_io 80 sample_write 0) \<noteq> None"
proof (rule stream_operations_end)
  show "patient_bridge quiet_io (\<lambda>t. t)"
    by (auto simp: patient_bridge_def patient_def quiet_io_def slice_limit_def)
qed

subsection \<open>A sample specification\<close>

text \<open>A host on which every file exists, in one directory.\<close>

definition sample_host :: host where
  "sample_host = \<lparr>lh_repair = (\<lambda>t. t), lh_json = (\<lambda>_. Inl []), lh_isabs = (\<lambda>_. True), lh_isfile = (\<lambda>_. True),
     lh_isdir = (\<lambda>t. t = ''C:''), lh_abspath = (\<lambda>t. t), lh_dirname = (\<lambda>_. ''C:''), lh_normcase = lower\<rparr>"

text \<open>An argument with a blank, a quote after a backslash and a backslash at its end.\<close>

definition tricky :: string where
  "tricky = [CHR ''a'', CHR '' '', bs, dquote, CHR ''b'', bs]"

definition sample_args :: launch_args where
  "sample_args = \<lparr>la_exe = VStr ''C:/Program Files/x.exe'', la_arguments = VList [VStr tricky, VStr []], la_command_line = VStr [],
     la_cwd = VStr ''C:'', la_environment = VDict [(''Path'', VStr ''x''), (''TEMP'', VNone)], la_inherit = VBool True,
     la_stdin = VDict [(''mode'', VStr ''bytes''), (''dataBase64'', VStr ''YWI='')],
     la_stdout = VDict [(''mode'', VStr ''file''), (''path'', VStr ''C:/o'')], la_stderr = VDict [(''mode'', VStr '' NULL '')],
     la_child_policy = VStr ''none'', la_capture = VInt 4096\<rparr>"

text \<open>A rendering that tells the number of items only.\<close>

definition sample_dumps :: "pyval \<Rightarrow> string" where
  "sample_dumps v = (case v of VList [_, _] \<Rightarrow> ''(a,b)'' | _ \<Rightarrow> ''{}'')"

lemma sample_launch: "(case build_launch_spec sample_host sample_args of Inr L \<Rightarrow> ls_raw L = [] \<and> ls_arguments L = [tricky, []] | _ \<Rightarrow> False)"
  by code_simp

theorem launch_form_as_requested_witness:
  "\<exists>L. build_launch_spec sample_host sample_args = Inr L \<and> argv_of (ls_full L) = [ls_exe L, tricky, []]
     \<and> dict_get (launch_form sample_dumps L) ''arguments'' = VStr ''(a,b)''
     \<and> dict_get (launch_form sample_dumps L) ''rawCommandLineTail'' = VStr []"
proof -
  obtain L where L: "build_launch_spec sample_host sample_args = Inr L" using sample_launch by (auto split: sum.split_asm)
  have args: "la_arguments sample_args = VList [VStr tricky, VStr []]" "la_environment sample_args = VDict [(''Path'', VStr ''x''), (''TEMP'', VNone)]"
    "la_command_line sample_args = VStr []" by (simp_all add: sample_args_def)
  from launch_form_as_requested [OF L args(1,2), of sample_dumps, unfolded args(3)] obtain ss raw where
    r: "[VStr tricky, VStr []] = map VStr ss" "VStr [] = VStr raw" "argv_of (ls_full L) = ls_exe L # (if raw = [] then ss else argv_of raw)"
    "dict_get (launch_form sample_dumps L) ''arguments'' = VStr (sample_dumps (la_arguments sample_args))"
    "dict_get (launch_form sample_dumps L) ''rawCommandLineTail'' = VStr []" by (elim exE conjE) (rule that, assumption+)
  have "ss = [tricky, []]" using r(1) by (cases ss rule: list.exhaust; cases "tl ss" rule: list.exhaust) auto
  moreover have "sample_dumps (la_arguments sample_args) = ''(a,b)''" by code_simp
  ultimately show ?thesis using L r by auto
qed

theorem launch_spec_bounded_witness:
  "\<exists>L. build_launch_spec sample_host sample_args = Inr L \<and> length (ls_full L) \<le> 32766 \<and> environment_ok (ls_environment L)"
proof -
  obtain L where L: "build_launch_spec sample_host sample_args = Inr L" using sample_launch by (auto split: sum.split_asm)
  with launch_spec_bounded [OF L] show ?thesis by blast
qed








end
