(* ===== verification/Spec2Isabelle.thy ===== *)
theory Spec2Isabelle
  imports ExceptionRules LeaseProps HeapProps CoverageProps ToolProps BridgeProps RouteProps EvidenceImportProps
    MutationLeaseProps RestoreBench PeImage OepSearchProps OepRunProps
    LaunchBench
begin

text \<open>
  A verification development for the Python server of the x64dbg MCP bridge (\<open>src/\<close>). The server
  offers debugger tools to a model client. A tool reads its arguments, sends guarded HTTP requests to
  a native bridge inside the debugger, keeps its own records between calls, and answers with a public
  envelope. The theories model the decisions the server takes itself, not the debugger.

  The value model. \<open>PyValue\<close> holds the Python values a JSON document and a tool argument can have
  (\<open>pyval\<close>), with truthiness, text, number reading, equality and the string methods the source calls.
  A dictionary is an association list with distinct keys where the code relies on its order, read with
  \<open>dict_get\<close> and written with \<open>AList.update\<close>. Text is a list of the characters U+0000 to U+00FF;
  case folding is exact on them except for the micro sign and the two characters whose capital lies
  outside the range. A float is kept as its \<open>repr\<close> and its truncation. A raised exception is the left
  value of a sum (\<open>pyexn\<close>). \<open>Prelude\<close> has the fact collections and the lemmas on words, lists and
  association lists that several components share. \<open>Contracts\<close> models \<open>mcp_runtime/contracts.py\<close>
  and the number readers of \<open>runtime_sections/00_bootstrap_and_session.py\<close>.

  Exception policy (\<open>ExceptionPolicy\<close>, \<open>ExceptionRules\<close>; 00: \<open>_normalize_exception_policy_*\<close>,
  \<open>_match_exception_filter\<close>, \<open>_should_auto_continue_filtered_exception\<close>). Rules are records with
  selector texts on 32-bit codes (\<open>32 word\<close>). Shown: what is accepted, that accepted policies are well
  formed and read back unchanged, that canonical selectors denote distinct code sets, and that the
  pause loop resumes by itself only as the first filter about the code of the exception says.

  Breakpoint leases (\<open>Leases\<close>, \<open>LeaseSafety\<close>, \<open>LeaseProps\<close>; 00: \<open>_breakpoint_lease_identity\<close> to
  \<open>_managed_breakpoint_set\<close>, 50: the Acquire, Renew, Release and List tools). The state is the lease
  table and the outside world, which is an arbitrary record of functions for the bridge identity, the
  clock, fresh tokens and the breakpoint requests; the requests are recorded in order. A tool call is
  taken as one step: the code reads the identity before it takes the mutation lock, issues the compare-and-delete of
  a release after it, and lists without it. Shown by induction over runs: the table invariant, and that
  every delete request was preceded by this server's own set request.

  Heap tracker (\<open>HeapTrace\<close>, \<open>HeapProps\<close>; 30: \<open>HEAP_RESOURCE_CATALOG\<close>, \<open>_normalize_heap_catalog\<close>,
  \<open>GetHeapState\<close>). The allocator catalogue and the reducer of API calls to allocations, events and
  anomalies. Shown: consistency of its tables, refinement of a plain acquire and release semantics,
  and the behaviour on double frees and filtered sizes.

  Coverage (\<open>Coverage\<close>, \<open>CoverageProps\<close>; \<open>coverage_core.py\<close>). Events are normalized, cut into blocks
  per thread, grouped into versions and joined by edges. SHA-256 is an argument. Shown: the blocks
  partition each thread's events, the counters account for everything, keys are distinct.

  Tool policy (\<open>ToolTables\<close>, \<open>ToolProfiles\<close>, \<open>ToolProps\<close>; \<open>tool_profiles.py\<close>, 70:
  \<open>_apply_tool_profiles\<close>). The tables are those of the source. Shown: the catalog classifies exactly
  the registered tools, the profiles are nested, the standard profile leaves out the dangerous tools,
  the advertised list is filtered by the profile.

  Result contract (\<open>ResultViews\<close>, \<open>ResultEnvelope\<close>, \<open>ResultProps\<close>; first part of
  \<open>10_result_and_transport.py\<close>). \<open>json.loads\<close>, the fresh request id and the guard identity are
  arguments. Shown: every result is an envelope of four fields or canonicalization raises in a case
  that is named, an explicit outcome is kept, secrets are redacted before logging.

  Bridge guard and transport (\<open>BridgeGuard\<close>, \<open>BridgeRequest\<close>, \<open>BridgeProps\<close>; second part of
  \<open>10_result_and_transport.py\<close>, 00: \<open>_normalize_bound_session_record\<close>). The state is the bound
  session, the cached identity, the mutation lease and the authentication cache. The network is a
  function from the requests sent so far to an outcome, so every reaction of a bridge is covered.
  Shown: how many requests a call sends, and that under a session guard each carries the identity it
  is meant for.

  Route policy (\<open>RoutePolicy\<close>, \<open>RouteProps\<close>; \<open>route_policy.py\<close>). The parser of the route manifest. Shown:
  a loaded policy is well formed and, printed, is loaded again. The composition with the guard is
  below: no request of a route declared as a session mutation leaves without the guard headers.

  Analysis evidence (\<open>Evidence\<close>, \<open>EvidenceProps\<close>, \<open>EvidenceImport\<close>, \<open>EvidenceImportProps\<close>;
  \<open>60_evidence_and_managed.py\<close>: \<open>_analysis_validate_document\<close> to \<open>ImportAnalysisEvidence\<close>). The validator
  normalizes a document; the import resolves the loaded module, plans one action, noop or conflict per
  item, sends the actions in order and reads them back. The debugger is a record of functions, its
  answers after a mutation depend on the mutations sent so far. Shown: accepted documents are well
  formed and read back unchanged; an import fails closed, sends a prefix of its plan, overwrites nothing
  unasked, and reports ok exactly when everything was accepted and read back.

  Mutation lease (\<open>MutationLease\<close>, \<open>MutationLeaseProps\<close>; \<open>20_debugger_workflows.py\<close>:
  \<open>_acquire_mutation_lease\<close>, \<open>_renew_mutation_lease\<close>, \<open>_release_mutation_lease\<close>). The state is that of the
  bridge guard, each tool taken as one step; the time to live is clamped to 1000 to
  120000 milliseconds. Shown: a lease that is held was acquired with the nonce that is kept, it travels on
  every guarded request, and which outcomes keep or forget it.

  State snapshots (\<open>Snapshots\<close>, \<open>SnapshotProps\<close>, \<open>StateRestore\<close>, \<open>StateRestoreProps\<close>, \<open>RestoreBench\<close>; 00:
  \<open>_capture_snapshot_owner\<close> to \<open>_read_snapshot_registers\<close>, 20: \<open>SaveState\<close> to \<open>DeleteStateSnapshot\<close>). The debugger is
  a \<open>target\<close>: a record of operations on an arbitrary world. The stores keep 32 state and 64 memory
  snapshots (the locale \<open>bounded_log\<close>). The restore captures what it will overwrite, writes and reads back
  range by range and register by register, and undoes everything at the first failure. For an honest
  debugger it is shown to be atomic, and to bring back what was saved. Honest means: an address expression
  stands for what the state of the debuggee makes of it, a literal for itself, and the reply to a read names the
  address as a literal; a refused mutation says so, though it may have changed some of what it names; the registers of
  the architecture that snapshots record are independent of each other, and nothing is said of their aliases.
  The bench is such a debugger, with aliases and with addresses such as \<open>esp\<close>.

  PE layout (\<open>PeLayout\<close>, \<open>PeProps\<close>, \<open>PeImage\<close>; 00: \<open>_read_c_string\<close>, \<open>_parse_pe_layout\<close>). The parser on the bytes
  of a file, every field read checked against the end of the file; numbers that the result shows as
  hexadecimal text stay numbers. Shown: it fails only in the headers and for a named reason, every list of
  a layout is bounded whatever the file says (4096 imports, 1000000 functions of an import and exports,
  16 directories, 128 callbacks with 129 diagnostics, 16384 runtime functions, of which 256 are kept, with 32
  diagnostics), and the headers and
  sections of an image written field by field are read back.

  OEP search (\<open>OepSearch\<close>, \<open>OepSearchProps\<close>, \<open>OepRun\<close>, \<open>OepRunProps\<close>; first part of
  \<open>40_unpack_and_dump.py\<close>, to \<open>_oep_run_to_entry\<close>). The plan of sections, on the layout above, and the tests of
  candidates; then the runs of the program under leased breakpoints. Their state is the list of the calls
  made, newest first, from which the debugger answers, time included, so every reaction of a debugger is
  covered. Shown: the phases of a plan; for a parsed image, which addresses are accepted; that a run towards the entry
  passes on first-chance exceptions only, runs at most 128 times and, unless acquiring the leases raises, gives back
  what it leased.

  Process launch (\<open>CommandLine\<close>, \<open>LaunchSpec\<close>, \<open>LaunchBridge\<close>, \<open>LaunchStreams\<close>, \<open>LaunchProps\<close>,
  \<open>LaunchSlices\<close>, \<open>LaunchBench\<close>; 00: \<open>_coerce_launch_arguments\<close> to \<open>_launch_via_bridge\<close>, 20:
  \<open>_normalize_launch_id\<close> to \<open>CloseLaunchResources\<close>). The specification of a launch, checked and normalized; the
  check of what the bridge advertises; the request, and the operations on the streams of a launch, which wait in
  slices. The file system is a host, the bridge and the clock a record of operations, of which \<open>modelled_io\<close>
  is made of the modelled request. Shown: the request carries what was asked for, the line that is measured against the
  limit is read by the rules of the C runtime as the requested arguments (the bridge renders the line it launches itself), an
  accepted specification keeps the limits, a launch is posted at most once and only to a bridge that advertises what it
  needs, a chunk is never sent again that
  the bridge may have taken, and 80 slices of 750 milliseconds are enough fuel for the longest wait of a minute
  when the bridge waits its slices out.

  Termination. All recursions are structural or have a measure: \<open>run_attempts\<close> counts the attempts
  that remain (the loop runs once, or twice for an idempotent read), \<open>join_words\<close> consumes its text,
  \<open>collect_pages\<close> counts the pages that remain, from the \<open>page_limit\<close> of 1000 that is in the source; the
  loops of the OEP runs count down from the 128, 16 and 4 turns of the source, those over the tables of an
  image move towards the end of the file or of the table. Only the slices of a stream operation, which end
  by the clock, are bounded by fuel.

  Not modelled: process, file, clock and GUI effects; the start of threads and the interleaving of
  tool calls inside one lock; logging and elapsed times; the FastMCP library; the native plugin in
  C++; the discovery and parsing of authentication files; URL encoding failures; reading and
  writing evidence files and their export, share names in module paths; the workflows that
  drive the debugger (attach, dump, managed runtime, the wait for a launched debuggee), the tracing layers of the OEP engine, whose
  loops end only by the clock, and the live test scripts. A freed
  heap event's copy of the allocation record, the base name of a bound image and the two constant
  model names of the coverage report are left out of the records that carry them.
\<close>

subsection \<open>The manifest and the guard\<close>

text \<open>What the manifest declares of the route of a call: a session mutation, or a raw command that is not
  one of those that open a session.\<close>

definition declared_session :: "(string \<times> string) list \<Rightarrow> bridge_call \<Rightarrow> bool" where
  "declared_session rows c \<longleftrightarrow>
     (CHR ''/'' # clean_endpoint (call_endpoint c), ''session'') \<in> set rows
     \<or> (CHR ''/'' # clean_endpoint (call_endpoint c), ''exec_dynamic'') \<in> set rows
        \<and> takeWhile (\<lambda>ch. \<not> py_space ch) (lower (strip (text_of (dict_get (bc_params c) ''cmd'')))) \<notin> {''init'', ''initdbg'', ''attach''}"

lemma declared_guard:
  assumes "load_route_policy t = Inr (tr_policy T)" and "declared_session (tr_policy T) c"
    and "bc_guard c = []" and "clean_endpoint (call_endpoint c) \<noteq> ''Debug/Attach''"
  shows "call_guard T c = ''session''"
proof -
  have distinct: "distinct (map fst (tr_policy T))" using loaded_rows_distinct [OF assms(1)] by simp
  have guard: "call_guard T c = default_request_guard (tr_policy T) (call_endpoint c) (bc_params c)"
    using assms(3) by (simp add: call_guard_def)
  from assms(2) consider "map_of (tr_policy T) (CHR ''/'' # clean_endpoint (call_endpoint c)) = Some ''session''"
    | "map_of (tr_policy T) (CHR ''/'' # clean_endpoint (call_endpoint c)) = Some ''exec_dynamic''"
      "takeWhile (\<lambda>ch. \<not> py_space ch) (lower (strip (text_of (dict_get (bc_params c) ''cmd'')))) \<notin> {''init'', ''initdbg'', ''attach''}"
    unfolding declared_session_def map_of_eq_Some_iff [OF distinct] by blast
  then show ?thesis
  proof cases
    case 1
    then show ?thesis unfolding guard default_request_guard_def Let_def using assms(4)
      by (simp only: option.case if_False) simp
  next
    case 2
    then show ?thesis unfolding guard default_request_guard_def Let_def using assms(4)
      by (simp only: option.case if_False if_True simp_thms)
  qed
qed

text \<open>C34: When the policy is the one a manifest was loaded from, no request of a route declared there as a
  session mutation leaves without the headers of the session guard, unless the caller names another
  guard itself. Attaching, which opens a session, is the exception the code makes.\<close>

theorem declared_routes_guarded:
  assumes "load_route_policy t = Inr (tr_policy T)" and "declared_session (tr_policy T) c"
    and "bc_guard c = []" and "clean_endpoint (call_endpoint c) \<noteq> ''Debug/Attach''"
  shows "\<exists>refresh core. snd (snd (bridge_request E T rid c s sent)) = sent @ refresh @ core
     \<and> list_all session_read refresh
     \<and> list_all (\<lambda>r. session_guarded (identity_for_guard E (fst (after_refresh E T rid c s sent))) (hr_headers r)) core"
  using session_guard_sent [OF declared_guard [OF assms]] .

theorem declared_routes_guarded_witness:
  "\<exists>refresh core. snd (snd (bridge_request sample_env sample_net ''q'' sample_call
       \<lparr>gs_bound = VNone, gs_identity = VDict [(''bridgeInstanceId'', VStr ''b''), (''sessionId'', VStr ''s''),
          (''sessionGeneration'', VInt 1), (''debuggeePid'', VInt 7)], gs_lease = [], gs_auth = []\<rparr> [])) = [] @ refresh @ core
     \<and> list_all session_read refresh
     \<and> list_all (\<lambda>r. session_guarded (identity_for_guard sample_env (fst (after_refresh sample_env sample_net ''q'' sample_call
       \<lparr>gs_bound = VNone, gs_identity = VDict [(''bridgeInstanceId'', VStr ''b''), (''sessionId'', VStr ''s''),
          (''sessionGeneration'', VInt 1), (''debuggeePid'', VInt 7)], gs_lease = [], gs_auth = []\<rparr> []))) (hr_headers r)) core"
proof (rule declared_routes_guarded)
  show "load_route_policy ''MCP_ROUTE(\"/Debug/StepIn\", SESSION)'' = Inr (tr_policy sample_net)"
    unfolding sample_net_def by code_simp
  show "declared_session (tr_policy sample_net) sample_call" unfolding sample_net_def sample_call_def by code_simp
  show "bc_guard sample_call = []" by (simp add: sample_call_def)
  show "clean_endpoint (call_endpoint sample_call) \<noteq> ''Debug/Attach''" unfolding sample_call_def by code_simp
qed

end
